(* ===== verification/Prelude.thy ===== *)
theory Prelude
  imports Main "HOL-Library.Word" "HOL-Library.Sublist"
begin

text \<open>
  Shared vocabulary of the development: Go's machine integers and conversions, the clock,
  the parts of the packages \<^verbatim>\<open>strings\<close>, \<^verbatim>\<open>strconv\<close>, \<^verbatim>\<open>fmt\<close> and \<^verbatim>\<open>net\<close> that the modelled
  code calls, Go maps, and the generic lemmas the component theories use.

  Conventions.
  \<^item> A Go string is a byte string: \<^typ>\<open>string\<close>, one \<^typ>\<open>char\<close> per byte.
  \<^item> \<^verbatim>\<open>uint32\<close> and \<^verbatim>\<open>uint64\<close> are words, so that \<open>+\<close> and \<open>-\<close> wrap as in Go. \<^verbatim>\<open>int\<close>, \<^verbatim>\<open>int32\<close> and
    \<^verbatim>\<open>int64\<close> are \<^typ>\<open>int\<close>; \<open>wrap64\<close> is written where a product can leave the range, and the
    conversions from unsigned types are \<^const>\<open>sint\<close>.
  \<^item> \<^verbatim>\<open>time.Time\<close> and \<^verbatim>\<open>time.Duration\<close> are nanoseconds (\<^typ>\<open>int\<close>). \<^verbatim>\<open>time.Now()\<close> is an
    argument \<open>now\<close> of the operation that reads the clock.
  \<^item> A pointer that may be nil is an \<open>option\<close>.
\<close>

named_theorems go_defs \<open>definitions of Go library operations, for unfolding\<close>
named_theorems nil_safe \<open>generated getters: behaviour on nil and non-nil messages\<close>

section \<open>Integers and time\<close>

type_synonym uint32 = "32 word"
type_synonym uint64 = "64 word"
type_synonym go_time = int
type_synonym duration = int

definition int64_of_uint64 :: "uint64 \<Rightarrow> int" where
  "int64_of_uint64 w = sint w"

definition int32_of_uint32 :: "uint32 \<Rightarrow> int" where
  "int32_of_uint32 w = sint w"

definition uint32_of_int32 :: "int \<Rightarrow> uint32" where
  "uint32_of_int32 i = word_of_int i"

definition wrap64 :: "int \<Rightarrow> int" where
  "wrap64 i = (i + 2 ^ 63) mod 2 ^ 64 - 2 ^ 63"

definition minInt64 :: int where
  "minInt64 = - (2 ^ 63)"

definition maxInt64 :: int where
  "maxInt64 = 2 ^ 63 - 1"

definition Nanosecond :: duration where "Nanosecond = 1"
definition Second :: duration where "Second = 1000000000"
definition Minute :: duration where "Minute = 60 * Second"

text \<open>\<^verbatim>\<open>t.Sub(u)\<close> saturates at the range of \<^verbatim>\<open>Duration\<close>.\<close>

definition timeSub :: "go_time \<Rightarrow> go_time \<Rightarrow> duration" where
  "timeSub t u = max minInt64 (min maxInt64 (t - u))"

text \<open>The zero \<^verbatim>\<open>time.Time\<close> is midnight of January 1 of year 1, not the Unix epoch.\<close>

definition zeroTime :: go_time where
  "zeroTime = - 62135596800 * 1000000000"

definition isZeroTime :: "go_time \<Rightarrow> bool" where
  "isZeroTime t \<longleftrightarrow> t = zeroTime"

text \<open>\<^verbatim>\<open>time.Unix(0, n)\<close> for an \<^verbatim>\<open>int64\<close> number of nanoseconds.\<close>

definition timeUnixNano :: "int \<Rightarrow> go_time" where
  "timeUnixNano n = n"

lemmas [go_defs] = int64_of_uint64_def int32_of_uint32_def uint32_of_int32_def
  minInt64_def maxInt64_def Nanosecond_def Second_def Minute_def timeSub_def
  zeroTime_def isZeroTime_def timeUnixNano_def

lemma wrap64_id: "minInt64 \<le> i \<Longrightarrow> i \<le> maxInt64 \<Longrightarrow> wrap64 i = i"
  by (simp add: wrap64_def minInt64_def maxInt64_def)

lemma wrap64_range: "minInt64 \<le> wrap64 i \<and> wrap64 i \<le> maxInt64"
proof -
  have "0 \<le> (i + 2 ^ 63) mod (2 ^ 64)" and "(i + 2 ^ 63) mod (2 ^ 64) < (2::int) ^ 64"
    by simp_all
  then show ?thesis
    by (simp add: wrap64_def minInt64_def maxInt64_def)
qed

lemma timeSub_exact: "minInt64 \<le> t - u \<Longrightarrow> t - u \<le> maxInt64 \<Longrightarrow> timeSub t u = t - u"
  by (simp add: timeSub_def)

lemma timeSub_mono: "t \<le> t' \<Longrightarrow> timeSub t u \<le> timeSub t' u"
  by (simp add: timeSub_def)

lemma timeSub_le: "t - u \<le> d \<Longrightarrow> minInt64 \<le> d \<Longrightarrow> timeSub t u \<le> d"
  by (auto simp: timeSub_def)

lemma timeUnixNano_not_zero:
  assumes "minInt64 \<le> n"
  shows "\<not> isZeroTime (timeUnixNano n)"
proof -
  have "zeroTime < minInt64" by (simp add: zeroTime_def minInt64_def)
  with assms show ?thesis by (simp add: isZeroTime_def timeUnixNano_def)
qed

section \<open>Package strings\<close>

definition HasPrefix :: "string \<Rightarrow> string \<Rightarrow> bool" where
  "HasPrefix s p \<longleftrightarrow> take (length p) s = p"

definition HasSuffix :: "string \<Rightarrow> string \<Rightarrow> bool" where
  "HasSuffix s p \<longleftrightarrow> HasPrefix (rev s) (rev p)"

definition TrimPrefix :: "string \<Rightarrow> string \<Rightarrow> string" where
  "TrimPrefix s p = (if HasPrefix s p then drop (length p) s else s)"

definition TrimSuffix :: "string \<Rightarrow> string \<Rightarrow> string" where
  "TrimSuffix s p = (if HasSuffix s p then take (length s - length p) s else s)"

fun Contains :: "string \<Rightarrow> string \<Rightarrow> bool" where
  "Contains [] p \<longleftrightarrow> p = []"
| "Contains (c # s) p \<longleftrightarrow> HasPrefix (c # s) p \<or> Contains s p"

text \<open>\<^verbatim>\<open>Index\<close> and \<^verbatim>\<open>LastIndex\<close> of a one-byte separator; \<^verbatim>\<open>-1\<close> is \<^const>\<open>None\<close>.\<close>

fun IndexByte :: "string \<Rightarrow> char \<Rightarrow> nat option" where
  "IndexByte [] c = None"
| "IndexByte (x # s) c = (if x = c then Some 0 else map_option Suc (IndexByte s c))"

fun LastIndexByte :: "string \<Rightarrow> char \<Rightarrow> nat option" where
  "LastIndexByte [] c = None"
| "LastIndexByte (x # s) c =
     (case LastIndexByte s c of
        Some i \<Rightarrow> Some (Suc i)
      | None \<Rightarrow> if x = c then Some 0 else None)"

text \<open>\<^verbatim>\<open>Split\<close> at a one-byte separator.\<close>

fun splitByte :: "char \<Rightarrow> string \<Rightarrow> string list" where
  "splitByte c [] = [[]]"
| "splitByte c (x # s) =
     (if x = c then [] # splitByte c s
      else case splitByte c s of
             [] \<Rightarrow> [[x]]
           | t # ts \<Rightarrow> (x # t) # ts)"

text \<open>
  The encodings of the runes that \<^verbatim>\<open>unicode.IsSpace\<close> accepts. UTF-8 is
  self-synchronising, so a byte string starts (ends) with a space rune exactly when it has
  one of these as a prefix (suffix).
\<close>

definition asciiSpaces :: "string list" where
  "asciiSpaces = [[CHR 0x09], [CHR 0x0A], [CHR 0x0B], [CHR 0x0C], [CHR 0x0D], [CHR 0x20]]"

definition wideSpaces :: "string list" where
  "wideSpaces =
     [[CHR 0xC2, CHR 0x85], [CHR 0xC2, CHR 0xA0], [CHR 0xE1, CHR 0x9A, CHR 0x80],
      [CHR 0xE2, CHR 0x80, CHR 0x80], [CHR 0xE2, CHR 0x80, CHR 0x81],
      [CHR 0xE2, CHR 0x80, CHR 0x82], [CHR 0xE2, CHR 0x80, CHR 0x83],
      [CHR 0xE2, CHR 0x80, CHR 0x84], [CHR 0xE2, CHR 0x80, CHR 0x85],
      [CHR 0xE2, CHR 0x80, CHR 0x86], [CHR 0xE2, CHR 0x80, CHR 0x87],
      [CHR 0xE2, CHR 0x80, CHR 0x88], [CHR 0xE2, CHR 0x80, CHR 0x89],
      [CHR 0xE2, CHR 0x80, CHR 0x8A], [CHR 0xE2, CHR 0x80, CHR 0xA8],
      [CHR 0xE2, CHR 0x80, CHR 0xA9], [CHR 0xE2, CHR 0x80, CHR 0xAF],
      [CHR 0xE2, CHR 0x81, CHR 0x9F], [CHR 0xE3, CHR 0x80, CHR 0x80]]"

definition spaceRunes :: "string list" where
  "spaceRunes = asciiSpaces @ wideSpaces"

text \<open>\<open>trimLeftOf ps s\<close> removes elements of \<open>ps\<close> from the front as long as there is one.\<close>

function trimLeftOf :: "string list \<Rightarrow> string \<Rightarrow> string" where
  "trimLeftOf ps s =
     (case find (\<lambda>p. p \<noteq> [] \<and> HasPrefix s p) ps of
        None \<Rightarrow> s
      | Some p \<Rightarrow> trimLeftOf ps (drop (length p) s))"
  by pat_completeness auto
termination
proof (relation "measure (\<lambda>(ps, s). length s)")
  fix ps and s p :: string
  assume "find (\<lambda>p. p \<noteq> [] \<and> HasPrefix s p) ps = Some p"
  then have "p \<noteq> []" and "HasPrefix s p"
    by (auto simp: find_Some_iff)
  then have "s \<noteq> []" and "0 < length p"
    by (auto simp: HasPrefix_def)
  then show "((ps, drop (length p) s), ps, s) \<in> measure (\<lambda>(ps, s). length s)"
    by (cases s) auto
qed simp

declare trimLeftOf.simps [simp del]

definition trimRightOf :: "string list \<Rightarrow> string \<Rightarrow> string" where
  "trimRightOf ps s = rev (trimLeftOf (map rev ps) (rev s))"

definition TrimSpace :: "string \<Rightarrow> string" where
  "TrimSpace s = trimRightOf spaceRunes (trimLeftOf spaceRunes s)"

text \<open>\<^verbatim>\<open>strings.Trim(s, cutset)\<close> for a cutset of single bytes.\<close>

definition TrimBytes :: "string \<Rightarrow> string \<Rightarrow> string" where
  "TrimBytes s cutset =
     trimRightOf (map (\<lambda>c. [c]) cutset) (trimLeftOf (map (\<lambda>c. [c]) cutset) s)"

text \<open>Case mapping on ASCII bytes; other bytes are left alone.\<close>

definition lowerByte :: "char \<Rightarrow> char" where
  "lowerByte c = (if 65 \<le> (of_char c :: nat) \<and> (of_char c :: nat) \<le> 90
                  then char_of ((of_char c :: nat) + 32) else c)"

definition upperByte :: "char \<Rightarrow> char" where
  "upperByte c = (if 97 \<le> (of_char c :: nat) \<and> (of_char c :: nat) \<le> 122
                  then char_of ((of_char c :: nat) - 32) else c)"

definition ToLower :: "string \<Rightarrow> string" where
  "ToLower s = map lowerByte s"

definition ToUpper :: "string \<Rightarrow> string" where
  "ToUpper s = map upperByte s"

definition EqualFold :: "string \<Rightarrow> string \<Rightarrow> bool" where
  "EqualFold s t \<longleftrightarrow> ToLower s = ToLower t"

lemmas [go_defs] = HasPrefix_def HasSuffix_def TrimPrefix_def TrimSuffix_def
  ToLower_def ToUpper_def EqualFold_def lowerByte_def upperByte_def

subsection \<open>Laws of the string operations\<close>

lemma HasPrefix_iff: "HasPrefix s p \<longleftrightarrow> (\<exists>t. s = p @ t)"
  unfolding HasPrefix_def by (metis append_eq_conv_conj append_take_drop_id)

lemma HasSuffix_iff: "HasSuffix s p \<longleftrightarrow> (\<exists>t. s = t @ p)"
  unfolding HasSuffix_def HasPrefix_iff
  by (metis rev_append rev_rev_ident)

lemma HasPrefix_append [simp]: "HasPrefix (p @ t) p"
  by (simp add: HasPrefix_def)

lemma HasSuffix_append [simp]: "HasSuffix (t @ p) p"
  by (auto simp: HasSuffix_iff)

lemma TrimPrefix_append [simp]: "TrimPrefix (p @ t) p = t"
  by (simp add: TrimPrefix_def)

lemma TrimSuffix_append [simp]: "TrimSuffix (t @ p) p = t"
  by (simp add: TrimSuffix_def)

lemma TrimSuffix_noop: "\<not> HasSuffix s p \<Longrightarrow> TrimSuffix s p = s"
  by (simp add: TrimSuffix_def)

lemma IndexByte_None_iff: "IndexByte s c = None \<longleftrightarrow> c \<notin> set s"
  by (induction s) auto

lemma LastIndexByte_None_iff: "LastIndexByte s c = None \<longleftrightarrow> c \<notin> set s"
  by (induction s) (auto split: option.splits)

lemma IndexByte_append: "c \<notin> set s \<Longrightarrow> IndexByte (s @ c # t) c = Some (length s)"
  by (induction s) auto

lemma LastIndexByte_append: "c \<notin> set t \<Longrightarrow> LastIndexByte (s @ c # t) c = Some (length s)"
  by (induction s) (auto simp: LastIndexByte_None_iff split: option.splits)

lemma LastIndexByte_Some:
  "LastIndexByte s c = Some i \<Longrightarrow>
     i < length s \<and> s = take i s @ c # drop (Suc i) s \<and> c \<notin> set (drop (Suc i) s)"
proof (induction s arbitrary: i)
  case Nil
  then show ?case by simp
next
  case (Cons x s)
  show ?case
  proof (cases "LastIndexByte s c")
    case None
    with Cons.prems show ?thesis
      by (auto simp: LastIndexByte_None_iff split: if_splits)
  next
    case (Some j)
    with Cons.prems have "i = Suc j" by simp
    with Cons.IH [OF Some] show ?thesis by auto
  qed
qed

lemma trimLeftOf_fixed:
  "find (\<lambda>p. p \<noteq> [] \<and> HasPrefix (trimLeftOf ps s) p) ps = None"
proof (induction ps s rule: trimLeftOf.induct)
  case (1 ps s)
  show ?case
  proof (cases "find (\<lambda>p. p \<noteq> [] \<and> HasPrefix s p) ps")
    case None
    then show ?thesis by (simp add: trimLeftOf.simps [of ps s])
  next
    case (Some p)
    with 1 have "find (\<lambda>q. q \<noteq> [] \<and> HasPrefix (trimLeftOf ps (drop (length p) s)) q) ps = None"
      by simp
    with Some show ?thesis by (simp add: trimLeftOf.simps [of ps s])
  qed
qed

lemma trimLeftOf_id:
  "(\<And>p. p \<in> set ps \<Longrightarrow> p \<noteq> [] \<Longrightarrow> \<not> HasPrefix s p) \<Longrightarrow> trimLeftOf ps s = s"
  by (subst trimLeftOf.simps) (auto simp: find_None_iff split: option.splits
      dest!: find_Some_iff [THEN iffD1])

lemma trimLeftOf_no_prefix:
  "p \<in> set ps \<Longrightarrow> p \<noteq> [] \<Longrightarrow> \<not> HasPrefix (trimLeftOf ps s) p"
  using trimLeftOf_fixed [of ps s] by (auto simp: find_None_iff)

lemma trimLeftOf_idem [simp]: "trimLeftOf ps (trimLeftOf ps s) = trimLeftOf ps s"
  by (rule trimLeftOf_id) (rule trimLeftOf_no_prefix)

lemma trimLeftOf_suffix: "suffix (trimLeftOf ps s) s"
proof (induction ps s rule: trimLeftOf.induct)
  case (1 ps s)
  show ?case
  proof (cases "find (\<lambda>p. p \<noteq> [] \<and> HasPrefix s p) ps")
    case None
    then show ?thesis by (simp add: trimLeftOf.simps [of ps s])
  next
    case (Some p)
    with 1 have "suffix (trimLeftOf ps (drop (length p) s)) (drop (length p) s)" by simp
    with Some show ?thesis
      by (simp add: trimLeftOf.simps [of ps s]) (meson suffix_drop suffix_order.trans)
  qed
qed

lemma trimRightOf_prefix: "prefix (trimRightOf ps s) s"
  unfolding trimRightOf_def using trimLeftOf_suffix [of "map rev ps" "rev s"]
  by (simp add: suffix_to_prefix)

lemma trimRightOf_idem [simp]: "trimRightOf ps (trimRightOf ps s) = trimRightOf ps s"
  by (simp add: trimRightOf_def)

lemma HasPrefix_of_prefix: "prefix s t \<Longrightarrow> HasPrefix s p \<Longrightarrow> HasPrefix t p"
  by (auto simp: HasPrefix_iff prefix_def)

lemma trimLeftOf_trimRightOf [simp]:
  "trimLeftOf ps (trimRightOf qs (trimLeftOf ps s)) = trimRightOf qs (trimLeftOf ps s)"
proof (rule trimLeftOf_id)
  fix p assume "p \<in> set ps" "p \<noteq> []"
  then have "\<not> HasPrefix (trimLeftOf ps s) p" by (rule trimLeftOf_no_prefix)
  then show "\<not> HasPrefix (trimRightOf qs (trimLeftOf ps s)) p"
    using HasPrefix_of_prefix [OF trimRightOf_prefix] by blast
qed

lemma TrimSpace_idem [simp]: "TrimSpace (TrimSpace s) = TrimSpace s"
  by (simp add: TrimSpace_def)

lemma TrimSpace_Nil [simp]: "TrimSpace [] = []"
proof -
  have "trimLeftOf ps [] = []" for ps
    using trimLeftOf_suffix [of ps "[]"] by simp
  then show ?thesis by (simp add: TrimSpace_def trimRightOf_def)
qed

text \<open>Strings of visible ASCII characters have nothing to trim.\<close>

definition isGraph :: "char \<Rightarrow> bool" where
  "isGraph c \<longleftrightarrow> 33 \<le> (of_char c :: nat) \<and> (of_char c :: nat) \<le> 126"

lemma spaceRunes_not_graph:
  "\<forall>p \<in> set spaceRunes. p \<noteq> [] \<and> \<not> isGraph (hd p) \<and> \<not> isGraph (last p)"
  by code_simp

lemma trimRightOf_id:
  "(\<And>p. p \<in> set ps \<Longrightarrow> p \<noteq> [] \<Longrightarrow> \<not> HasSuffix s p) \<Longrightarrow> trimRightOf ps s = s"
  unfolding trimRightOf_def
  by (subst trimLeftOf_id) (auto simp: HasSuffix_def)

lemma TrimSpace_graph:
  assumes "\<forall>c \<in> set s. isGraph c"
  shows "TrimSpace s = s"
proof -
  have "\<not> HasPrefix s p \<and> \<not> HasSuffix s p" if "p \<in> set spaceRunes" for p
  proof -
    have "p \<noteq> []" "\<not> isGraph (hd p)" "\<not> isGraph (last p)"
      using spaceRunes_not_graph that by auto
    then show ?thesis
      using assms by (auto simp: HasPrefix_iff HasSuffix_iff)
  qed
  then have "trimLeftOf spaceRunes s = s" "trimRightOf spaceRunes s = s"
    by (auto intro: trimLeftOf_id trimRightOf_id)
  then show ?thesis by (simp add: TrimSpace_def)
qed

lemma lowerByte_slash: "lowerByte c = CHR ''/'' \<longleftrightarrow> c = CHR ''/''"
proof
  assume *: "lowerByte c = CHR ''/''"
  show "c = CHR ''/''"
  proof (cases "65 \<le> (of_char c :: nat) \<and> (of_char c :: nat) \<le> 90")
    case True
    with * have "char_of ((of_char c :: nat) + 32) = CHR ''/''" by (simp add: lowerByte_def)
    then have "of_char (char_of ((of_char c :: nat) + 32)) = (of_char (CHR ''/'') :: nat)" by simp
    with True show ?thesis by simp
  next
    case False
    with * show ?thesis by (auto simp: lowerByte_def)
  qed
qed (simp add: lowerByte_def)

section \<open>Packages fmt and net\<close>

definition isDigit :: "char \<Rightarrow> bool" where
  "isDigit c \<longleftrightarrow> 48 \<le> (of_char c :: nat) \<and> (of_char c :: nat) \<le> 57"

fun digitsVal :: "nat \<Rightarrow> string \<Rightarrow> nat" where
  "digitsVal acc [] = acc"
| "digitsVal acc (c # s) = digitsVal (acc * 10 + (of_char c - 48)) s"

text \<open>
  \<^verbatim>\<open>fmt.Sscanf(s, "%d", &port)\<close> for a \<^verbatim>\<open>uint32\<close>: space other than a newline is skipped, a
  newline or a missing digit is an error, the longest run of digits is the number, an
  overflow is an error, and what follows the digits is not looked at.
\<close>

definition scanUint32 :: "string \<Rightarrow> uint32 option" where
  "scanUint32 s =
     (let t = trimLeftOf (filter (\<lambda>p. p \<noteq> [CHR 0x0A]) spaceRunes) s;
          ds = takeWhile isDigit t
      in if ds = [] \<or> 2 ^ 32 \<le> digitsVal 0 ds then None
         else Some (of_nat (digitsVal 0 ds)))"

text \<open>\<^verbatim>\<open>net.SplitHostPort\<close>; every error is \<^const>\<open>None\<close>.\<close>

definition SplitHostPort :: "string \<Rightarrow> (string \<times> string) option" where
  "SplitHostPort hp =
     (case LastIndexByte hp (CHR '':'') of
        None \<Rightarrow> None
      | Some i \<Rightarrow>
          if HasPrefix hp ''[''
          then (case IndexByte hp (CHR '']'') of
                  None \<Rightarrow> None
                | Some e \<Rightarrow>
                    if e + 1 \<noteq> i then None
                    else if CHR ''['' \<in> set (drop 1 hp) \<or> CHR '']'' \<in> set (drop (e + 1) hp) then None
                    else Some (take (e - 1) (drop 1 hp), drop (i + 1) hp))
          else if CHR '':'' \<in> set (take i hp) then None
          else if CHR ''['' \<in> set hp \<or> CHR '']'' \<in> set hp then None
          else Some (take i hp, drop (i + 1) hp))"

lemma SplitHostPort_plain:
  assumes "CHR '':'' \<notin> set host" "CHR ''['' \<notin> set host" "CHR '']'' \<notin> set host"
    and "CHR '':'' \<notin> set port" "CHR ''['' \<notin> set port" "CHR '']'' \<notin> set port"
  shows "SplitHostPort (host @ CHR '':'' # port) = Some (host, port)"
proof -
  have "\<not> HasPrefix (host @ CHR '':'' # port) ''[''"
    using assms(2) by (cases host) (auto simp: HasPrefix_def)
  moreover have "LastIndexByte (host @ CHR '':'' # port) (CHR '':'') = Some (length host)"
    using assms(4) by (rule LastIndexByte_append)
  ultimately show ?thesis
    using assms by (simp add: SplitHostPort_def)
qed

section \<open>Package strconv\<close>

text \<open>\<^verbatim>\<open>strconv.ParseUint\<close> in base ten: the first offending byte decides between the two errors.\<close>

datatype num_error = ErrSyntax | ErrRange

fun parseUintLoop :: "string \<Rightarrow> nat \<Rightarrow> num_error + nat" where
  "parseUintLoop [] n = Inr n"
| "parseUintLoop (c # s) n =
     (if \<not> isDigit c then Inl ErrSyntax
      else let m = n * 10 + (of_char c - 48)
           in if m \<ge> 2 ^ 64 then Inl ErrRange else parseUintLoop s m)"

text \<open>\<^verbatim>\<open>strconv.ParseInt(s, 10, 64)\<close>: the value, saturated on overflow, and the error.\<close>

definition ParseInt :: "string \<Rightarrow> int \<times> num_error option" where
  "ParseInt s =
     (let neg = (s \<noteq> '''' \<and> hd s = CHR ''-'');
          ds = (if s \<noteq> '''' \<and> (hd s = CHR ''-'' \<or> hd s = CHR ''+'') then tl s else s)
      in if ds = '''' then (0, Some ErrSyntax)
         else case parseUintLoop ds 0 of
                Inl ErrSyntax \<Rightarrow> (0, Some ErrSyntax)
              | Inl ErrRange \<Rightarrow> (if neg then minInt64 else maxInt64, Some ErrRange)
              | Inr un \<Rightarrow>
                  if \<not> neg \<and> un \<ge> 2 ^ 63 then (maxInt64, Some ErrRange)
                  else if neg \<and> un > 2 ^ 63 then (minInt64, Some ErrRange)
                  else (if neg then - int un else int un, None))"

text \<open>\<^verbatim>\<open>strconv.Atoi\<close>, which agrees with \<^verbatim>\<open>ParseInt\<close> on 64-bit platforms.\<close>

definition Atoi :: "string \<Rightarrow> num_error + int" where
  "Atoi s = (case ParseInt s of (v, None) \<Rightarrow> Inr v | (v, Some e) \<Rightarrow> Inl e)"

lemma digitsVal_acc_le: "acc \<le> digitsVal acc s"
proof (induction s arbitrary: acc)
  case (Cons c s)
  have "acc \<le> acc * 10 + (of_char c - 48)" by simp
  also have "\<dots> \<le> digitsVal (acc * 10 + (of_char c - 48)) s" by (rule Cons.IH)
  finally show ?case by simp
qed simp

lemma parseUintLoop_digits:
  "list_all isDigit s \<Longrightarrow> n < 2 ^ 64 \<Longrightarrow>
     parseUintLoop s n = (if digitsVal n s < 2 ^ 64 then Inr (digitsVal n s) else Inl ErrRange)"
proof (induction s arbitrary: n)
  case (Cons c s)
  let ?m = "n * 10 + (of_char c - 48)"
  show ?case
  proof (cases "?m \<ge> 2 ^ 64")
    case True
    then have "\<not> digitsVal ?m s < 2 ^ 64" using digitsVal_acc_le [of ?m s] by linarith
    with True Cons.prems show ?thesis by (simp add: Let_def)
  next
    case False
    with Cons.IH [of ?m] Cons.prems show ?thesis by (simp add: Let_def)
  qed
qed simp

text \<open>Decimal digits, as \<^verbatim>\<open>%d\<close> prints them.\<close>

definition digitChar :: "nat \<Rightarrow> char" where
  "digitChar d = char_of (48 + d)"

fun showNat :: "nat \<Rightarrow> string" where
  "showNat n = (if n < 10 then [digitChar n] else showNat (n div 10) @ [digitChar (n mod 10)])"

declare showNat.simps [simp del]

definition showInt :: "int \<Rightarrow> string" where
  "showInt i = (if i < 0 then ''-'' @ showNat (nat (- i)) else showNat (nat i))"

section \<open>Package path/filepath, and cutting strings\<close>

text \<open>\<^verbatim>\<open>filepath.Base\<close> on slash-separated paths.\<close>

definition pathBase :: "string \<Rightarrow> string" where
  "pathBase p =
     (if p = '''' then ''.''
      else let q = rev (dropWhile (\<lambda>c. c = CHR ''/'') (rev p)) in
           if q = '''' then ''/''
           else rev (takeWhile (\<lambda>c. c \<noteq> CHR ''/'') (rev q)))"

text \<open>\<^verbatim>\<open>filepath.Join\<close> of a cleaned directory and the name of an entry in it.\<close>

definition joinPath :: "string \<Rightarrow> string \<Rightarrow> string" where
  "joinPath dir name = (if dir = ''/'' then dir @ name else dir @ ''/'' @ name)"

text \<open>\<^verbatim>\<open>strings.Cut\<close> and \<^verbatim>\<open>strings.SplitN(s, sep, 2)\<close> at a one-byte separator.\<close>

definition CutByte :: "string \<Rightarrow> char \<Rightarrow> (string \<times> string) option" where
  "CutByte s c = map_option (\<lambda>i. (take i s, drop (Suc i) s)) (IndexByte s c)"

section \<open>Go maps\<close>

text \<open>
  A loop over a map that deletes the entries satisfying a condition; deleting while ranging
  visits every other entry, so the result does not depend on the iteration order.
\<close>

definition deleteIf :: "('v \<Rightarrow> bool) \<Rightarrow> ('k \<rightharpoonup> 'v) \<Rightarrow> ('k \<rightharpoonup> 'v)" where
  "deleteIf dead m = (\<lambda>k. case m k of None \<Rightarrow> None | Some v \<Rightarrow> if dead v then None else Some v)"

lemma deleteIf_Some_iff [simp]: "deleteIf dead m k = Some v \<longleftrightarrow> m k = Some v \<and> \<not> dead v"
  by (auto simp: deleteIf_def split: option.splits)

lemma deleteIf_None_iff: "deleteIf dead m k = None \<longleftrightarrow> (\<forall>v. m k = Some v \<longrightarrow> dead v)"
  by (auto simp: deleteIf_def split: option.splits)

lemma dom_deleteIf_subset: "dom (deleteIf dead m) \<subseteq> dom m"
  by (auto simp: dom_def)

text \<open>The zero value a Go map read yields for a missing key.\<close>

definition getOr :: "'v \<Rightarrow> ('k \<rightharpoonup> 'v) \<Rightarrow> 'k \<Rightarrow> 'v" where
  "getOr z m k = (case m k of None \<Rightarrow> z | Some v \<Rightarrow> v)"

section \<open>Lists\<close>

lemma drop_length_diff_suffix: "suffix (drop n xs) xs"
  by (rule suffix_drop)

lemma filter_take_drop_length:
  "length (filter P (take n xs)) + length (filter P (drop n xs)) = length (filter P xs)"
  by (metis append_take_drop_id filter_append length_append)

end
