(* ===== verification/Flow_Types.thy ===== *)
theory Flow_Types
  imports Prelude
begin

text \<open>
  The messages of the network-flow pipeline: the agent's wire format
  (\<^verbatim>\<open>pkg/aggregator/v1\<close>, prefix \<open>Agg\<close>) and the enriched format sent to Insights
  (\<^verbatim>\<open>pkg/insights/v1\<close>, prefix \<open>Ins\<close>). Message pointers are options; the generated getters
  return the zero value on nil. Enumerations are open in proto3, so a kind is an integer and
  the named values are constants.
\<close>

type_synonym flow_event_kind = int
type_synonym protocol = int

definition KIND_UNSPECIFIED :: flow_event_kind where [simp]: "KIND_UNSPECIFIED = 0"
definition KIND_CONNECT :: flow_event_kind where [simp]: "KIND_CONNECT = 1"
definition KIND_TRAFFIC :: flow_event_kind where [simp]: "KIND_TRAFFIC = 2"
definition KIND_DNS_QUERY :: flow_event_kind where [simp]: "KIND_DNS_QUERY = 3"
definition KIND_DNS_RESPONSE :: flow_event_kind where [simp]: "KIND_DNS_RESPONSE = 4"

definition PROTOCOL_UNSPECIFIED :: protocol where [simp]: "PROTOCOL_UNSPECIFIED = 0"
definition PROTOCOL_TCP :: protocol where [simp]: "PROTOCOL_TCP = 1"
definition PROTOCOL_DNS :: protocol where [simp]: "PROTOCOL_DNS = 2"

section \<open>Messages of the agent\<close>

record AggWorkloadRef =
  aw_namespace :: string
  aw_pod :: string
  aw_container :: string

record AggEndpoint =
  ae_addr :: string
  ae_port :: uint32

record AggDnsDetails =
  ad_name :: string
  ad_qtype :: string
  ad_rcode :: string
  ad_addresses :: "string list"
  ad_queryId :: uint32

record FlowEvent =
  fe_eventKind :: flow_event_kind
  fe_protocol :: protocol
  fe_timestampUnixNano :: int
  fe_src :: "AggWorkloadRef option"
  fe_srcEndpoint :: "AggEndpoint option"
  fe_dst :: "AggEndpoint option"
  fe_bytesSent :: uint64
  fe_bytesReceived :: uint64
  fe_dns :: "AggDnsDetails option"

record FlowEventBatch =
  fb_nodeName :: string
  fb_agentId :: string
  fb_events :: "FlowEvent option list"

fun GetNamespace :: "AggWorkloadRef option \<Rightarrow> string" where
  "GetNamespace None = ''''"
| "GetNamespace (Some w) = aw_namespace w"

fun GetPod :: "AggWorkloadRef option \<Rightarrow> string" where
  "GetPod None = ''''"
| "GetPod (Some w) = aw_pod w"

fun GetAddr :: "AggEndpoint option \<Rightarrow> string" where
  "GetAddr None = ''''"
| "GetAddr (Some e) = ae_addr e"

fun GetPort :: "AggEndpoint option \<Rightarrow> uint32" where
  "GetPort None = 0"
| "GetPort (Some e) = ae_port e"

fun GetDnsName :: "AggDnsDetails option \<Rightarrow> string" where
  "GetDnsName None = ''''"
| "GetDnsName (Some d) = ad_name d"

fun GetQtype :: "AggDnsDetails option \<Rightarrow> string" where
  "GetQtype None = ''''"
| "GetQtype (Some d) = ad_qtype d"

fun GetRcode :: "AggDnsDetails option \<Rightarrow> string" where
  "GetRcode None = ''''"
| "GetRcode (Some d) = ad_rcode d"

fun GetAddresses :: "AggDnsDetails option \<Rightarrow> string list" where
  "GetAddresses None = []"
| "GetAddresses (Some d) = ad_addresses d"

section \<open>Messages for Insights\<close>

record InsWorkloadRef =
  iw_namespace :: string
  iw_pod :: string
  iw_container :: string

record InsEndpoint =
  ie_addr :: string
  ie_port :: int

record InsDnsDetails =
  id_name :: string
  id_qtype :: string
  id_rcode :: string
  id_addresses :: "string list"
  id_queryId :: int

record KubernetesRef =
  kr_namespace :: string
  kr_kind :: string
  kr_name :: string

record EnrichedFlowEvent =
  ee_nodeName :: string
  ee_agentId :: string
  ee_eventKind :: flow_event_kind
  ee_protocol :: protocol
  ee_timestampUnixNano :: int
  ee_src :: "InsWorkloadRef option"
  ee_srcWorkload :: "KubernetesRef option"
  ee_srcEndpoint :: "InsEndpoint option"
  ee_dst :: "InsEndpoint option"
  ee_dstRef :: "KubernetesRef option"
  ee_bytesSent :: int
  ee_bytesReceived :: int
  ee_dns :: "InsDnsDetails option"
  ee_backendWorkload :: "KubernetesRef option"
  ee_backendPod :: "InsWorkloadRef option"

record EnrichedFlowEventBatch =
  eb_organization :: string
  eb_cluster :: string
  eb_nodeName :: string
  eb_agentId :: string
  eb_events :: "EnrichedFlowEvent list"

fun GetInsNamespace :: "InsWorkloadRef option \<Rightarrow> string" where
  "GetInsNamespace None = ''''"
| "GetInsNamespace (Some w) = iw_namespace w"

fun GetRefNamespace :: "KubernetesRef option \<Rightarrow> string" where
  "GetRefNamespace None = ''''"
| "GetRefNamespace (Some r) = kr_namespace r"

fun GetRefKind :: "KubernetesRef option \<Rightarrow> string" where
  "GetRefKind None = ''''"
| "GetRefKind (Some r) = kr_kind r"

fun GetTimestampUnixNano :: "EnrichedFlowEvent option \<Rightarrow> int" where
  "GetTimestampUnixNano None = 0"
| "GetTimestampUnixNano (Some e) = ee_timestampUnixNano e"

fun GetNodeName :: "EnrichedFlowEvent option \<Rightarrow> string" where
  "GetNodeName None = ''''"
| "GetNodeName (Some e) = ee_nodeName e"

fun GetAgentId :: "EnrichedFlowEvent option \<Rightarrow> string" where
  "GetAgentId None = ''''"
| "GetAgentId (Some e) = ee_agentId e"

lemmas [nil_safe] = GetNamespace.simps GetPod.simps GetAddr.simps GetPort.simps
  GetDnsName.simps GetQtype.simps GetRcode.simps GetAddresses.simps
  GetInsNamespace.simps GetRefNamespace.simps GetRefKind.simps
  GetTimestampUnixNano.simps GetNodeName.simps GetAgentId.simps

end
