(* ===== verification/Interfaces.thy ===== *)
theory Interfaces
  imports Prelude
begin

text \<open>
  The contracts between the components, as locales. Each is interpreted on the model of the
  code in the theory of the component that provides it:
  \<^item> \<open>lossy_queue\<close>: a bounded queue that drops its oldest elements and counts them
    (the agent's pending buffer, the collector's store);
  \<^item> \<open>unsent_queue\<close>: such a queue with a batch reader and a commit of what was delivered
    (what the upstream client relies on);
  \<^item> \<open>unique_index\<close>: an index from an address to the only object that claims it
    (Services, EndpointSlices, Pods, Nodes);
  \<^item> \<open>expiring_map\<close>: a map whose entries die after a fixed time (DNS cache, peer index);
  \<^item> \<open>doubling_backoff\<close>: the reconnect delay of the two gRPC clients.
\<close>

section \<open>Bounded queues that drop the oldest elements\<close>

locale lossy_queue =
  fixes pending :: "'s \<Rightarrow> 'e list"
    and lost :: "'s \<Rightarrow> int"
    and cap :: "'s \<Rightarrow> nat"
    and invar :: "'s \<Rightarrow> bool"
    and push :: "'e list \<Rightarrow> 's \<Rightarrow> 's"
  assumes push_invar: "invar s \<Longrightarrow> invar (push xs s)"
    and push_cap: "invar s \<Longrightarrow> cap (push xs s) = cap s"
    and push_bound: "invar s \<Longrightarrow> length (pending (push xs s)) \<le> cap s"
    and push_drops_oldest:
      "invar s \<Longrightarrow> \<exists>k \<le> length (pending s @ xs).
         pending (push xs s) = drop k (pending s @ xs) \<and> lost (push xs s) = lost s + int k"
begin

fun pushAll :: "'e list list \<Rightarrow> 's \<Rightarrow> 's" where
  "pushAll [] s = s"
| "pushAll (xs # xss) s = pushAll xss (push xs s)"

lemma pushAll_invar: "invar s \<Longrightarrow> invar (pushAll xss s) \<and> cap (pushAll xss s) = cap s"
  by (induction xss arbitrary: s) (auto simp: push_invar push_cap)

lemma pushAll_bound:
  "invar s \<Longrightarrow> xss \<noteq> [] \<Longrightarrow> length (pending (pushAll xss s)) \<le> cap s"
proof (induction xss arbitrary: s)
  case Nil
  then show ?case by simp
next
  case (Cons xs xss)
  show ?case
  proof (cases "xss = []")
    case True
    with Cons.prems show ?thesis by (simp add: push_bound)
  next
    case False
    with Cons.IH [of "push xs s"] Cons.prems show ?thesis
      by (simp add: push_invar push_cap)
  qed
qed

lemma pushAll_drops_oldest:
  "invar s \<Longrightarrow> \<exists>k \<le> length (pending s @ concat xss).
     pending (pushAll xss s) = drop k (pending s @ concat xss) \<and>
     lost (pushAll xss s) = lost s + int k"
proof (induction xss arbitrary: s)
  case Nil
  then show ?case by (intro exI [of _ 0]) simp
next
  case (Cons xs xss)
  obtain k where k: "k \<le> length (pending s @ xs)"
    and p: "pending (push xs s) = drop k (pending s @ xs)"
    and l: "lost (push xs s) = lost s + int k"
    using push_drops_oldest [OF Cons.prems] by blast
  obtain j where j: "j \<le> length (pending (push xs s) @ concat xss)"
    and p': "pending (pushAll xss (push xs s)) = drop j (pending (push xs s) @ concat xss)"
    and l': "lost (pushAll xss (push xs s)) = lost (push xs s) + int j"
    using Cons.IH [OF push_invar [OF Cons.prems]] by blast
  have "drop k (pending s @ xs) @ concat xss = drop k (pending s @ concat (xs # xss))"
    using k by simp
  then have "drop j (drop k (pending s @ xs) @ concat xss) = drop (k + j) (pending s @ concat (xs # xss))"
    by (simp only: drop_drop add.commute)
  moreover have "k + j \<le> length (pending s @ concat (xs # xss))"
    using j k by (simp add: p)
  ultimately show ?case
    using p p' l l' by (intro exI [of _ "k + j"]) simp
qed

text \<open>Loss accounting: what was pending or pushed is still pending or was counted.\<close>

lemma pushAll_accounts:
  assumes "invar s"
  shows "int (length (pending (pushAll xss s))) + lost (pushAll xss s) =
         int (length (pending s)) + int (length (concat xss)) + lost s"
proof -
  obtain k where "k \<le> length (pending s @ concat xss)"
    and "pending (pushAll xss s) = drop k (pending s @ concat xss)"
    and "lost (pushAll xss s) = lost s + int k"
    using pushAll_drops_oldest [OF assms] by blast
  then show ?thesis by (simp del: drop_append)
qed

end

text \<open>A queue that is pushed to one element at a time is such a queue for runs of pushes.\<close>

locale element_queue =
  fixes pending :: "'s \<Rightarrow> 'e list"
    and lost :: "'s \<Rightarrow> int"
    and cap :: "'s \<Rightarrow> nat"
    and invar :: "'s \<Rightarrow> bool"
    and push1 :: "'e \<Rightarrow> 's \<Rightarrow> 's"
  assumes push1_invar: "invar s \<Longrightarrow> invar (push1 x s)"
    and push1_cap: "invar s \<Longrightarrow> cap (push1 x s) = cap s"
    and invar_bound: "invar s \<Longrightarrow> length (pending s) \<le> cap s"
    and push1_drops_oldest:
      "invar s \<Longrightarrow> \<exists>k \<le> length (pending s @ [x]).
         pending (push1 x s) = drop k (pending s @ [x]) \<and> lost (push1 x s) = lost s + int k"
begin

lemma fold_push1_invar: "invar s \<Longrightarrow> invar (fold push1 xs s) \<and> cap (fold push1 xs s) = cap s"
  by (induction xs arbitrary: s) (auto simp: push1_invar push1_cap)

lemma fold_push1_drops_oldest:
  "invar s \<Longrightarrow> \<exists>k \<le> length (pending s @ xs).
     pending (fold push1 xs s) = drop k (pending s @ xs) \<and> lost (fold push1 xs s) = lost s + int k"
proof (induction xs arbitrary: s)
  case Nil
  then show ?case by (intro exI [of _ 0]) simp
next
  case (Cons x xs)
  obtain k where k: "k \<le> length (pending s @ [x])"
    "pending (push1 x s) = drop k (pending s @ [x])" "lost (push1 x s) = lost s + int k"
    using push1_drops_oldest [OF Cons.prems] by blast
  obtain j where j: "j \<le> length (pending (push1 x s) @ xs)"
    "pending (fold push1 xs (push1 x s)) = drop j (pending (push1 x s) @ xs)"
    "lost (fold push1 xs (push1 x s)) = lost (push1 x s) + int j"
    using Cons.IH [OF push1_invar [OF Cons.prems]] by blast
  have "drop k (pending s @ [x]) @ xs = drop k ((pending s @ [x]) @ xs)"
    using k(1) by (simp only: drop_append) simp
  then have "drop k (pending s @ [x]) @ xs = drop k (pending s @ x # xs)" by simp
  then have "drop j (drop k (pending s @ [x]) @ xs) = drop (k + j) (pending s @ x # xs)"
    by (simp only: drop_drop add.commute)
  moreover have "k + j \<le> length (pending s @ x # xs)" using j k by simp
  ultimately show ?case using j(2,3) k(2,3) by (intro exI [of _ "k + j"]) simp
qed

end

sublocale element_queue \<subseteq> lossy_queue pending lost cap invar "fold push1"
proof
  show "invar s \<Longrightarrow> invar (fold push1 xs s)" for s xs using fold_push1_invar by blast
  show "invar s \<Longrightarrow> cap (fold push1 xs s) = cap s" for s xs using fold_push1_invar by blast
  show "invar s \<Longrightarrow> length (pending (fold push1 xs s)) \<le> cap s" for s xs
    using fold_push1_invar invar_bound by metis
  show "invar s \<Longrightarrow> \<exists>k \<le> length (pending s @ xs).
      pending (fold push1 xs s) = drop k (pending s @ xs) \<and> lost (fold push1 xs s) = lost s + int k" for s xs
    by (rule fold_push1_drops_oldest)
qed

section \<open>Queues read in batches and committed after delivery\<close>

locale unsent_queue = lossy_queue pending lost cap invar push
  for pending :: "'s \<Rightarrow> 'e list" and lost :: "'s \<Rightarrow> int" and cap :: "'s \<Rightarrow> nat"
    and invar :: "'s \<Rightarrow> bool" and push :: "'e list \<Rightarrow> 's \<Rightarrow> 's" +
  fixes peek :: "'s \<Rightarrow> 'e list option"
    and commit :: "nat \<Rightarrow> 's \<Rightarrow> 's"
  assumes peek_None: "invar s \<Longrightarrow> peek s = None \<longleftrightarrow> pending s = []"
    and peek_Some: "invar s \<Longrightarrow> peek s = Some xs \<Longrightarrow> xs \<noteq> [] \<and> (\<exists>ys. pending s = xs @ ys)"
    and commit_pending: "invar s \<Longrightarrow> pending (commit n s) = drop n (pending s)"
    and commit_lost: "invar s \<Longrightarrow> lost (commit n s) = lost s"
    and commit_invar: "invar s \<Longrightarrow> invar (commit n s)"
begin

text \<open>Committing a batch that was read removes exactly that batch.\<close>

lemma peek_commit:
  assumes "invar s" and "peek s = Some xs"
  shows "pending s = xs @ pending (commit (length xs) s)"
  using peek_Some [OF assms] commit_pending [OF assms(1)] by auto

lemma peek_commit_less:
  assumes "invar s" and "peek s = Some xs"
  shows "length (pending (commit (length xs) s)) < length (pending s)"
  using peek_commit [OF assms] peek_Some [OF assms]
  by (metis add_less_cancel_right length_append length_greater_0_conv add_0)

text \<open>
  Every complete drain, whatever the batch boundaries, delivers the pending elements in
  order and exactly once.
\<close>

inductive drains :: "'s \<Rightarrow> 'e list list \<Rightarrow> 's \<Rightarrow> bool" where
  drains_stop: "drains s [] s"
| drains_step: "peek s = Some xs \<Longrightarrow> drains (commit (length xs) s) xss t \<Longrightarrow> drains s (xs # xss) t"

lemma drains_delivers:
  "drains s xss t \<Longrightarrow> invar s \<Longrightarrow>
     invar t \<and> pending s = concat xss @ pending t \<and> lost t = lost s"
proof (induction rule: drains.induct)
  case (drains_stop s)
  then show ?case by simp
next
  case (drains_step s xs xss t)
  then show ?case
    using peek_commit [OF drains_step.prems drains_step.hyps(1)]
    by (simp add: commit_invar commit_lost)
qed

end

section \<open>Indexes that keep only unambiguous claims\<close>

text \<open>
  The four address indexes are built by the same kind of step: the first claim of an address
  is stored, an equal claim changes nothing, a different claim marks the address ambiguous
  for good. \<open>find_ref\<close> is the lookup.
\<close>

locale unique_index =
  fixes add :: "('a \<rightharpoonup> 'ent) \<Rightarrow> 'a \<Rightarrow> 'r \<Rightarrow> ('a \<rightharpoonup> 'ent)"
    and fresh :: "'r \<Rightarrow> 'ent"
    and clash :: 'ent
    and find_ref :: "('a \<rightharpoonup> 'ent) \<Rightarrow> 'a \<Rightarrow> 'r option"
  assumes add_other: "b \<noteq> a \<Longrightarrow> add m a r b = m b"
    and add_new: "m a = None \<Longrightarrow> add m a r a = Some (fresh r)"
    and add_same: "m a = Some (fresh r) \<Longrightarrow> add m a r a = Some (fresh r)"
    and add_diff: "m a = Some (fresh q) \<Longrightarrow> q \<noteq> r \<Longrightarrow> add m a r a = Some clash"
    and add_clash: "m a = Some clash \<Longrightarrow> add m a r a = Some clash"
    and find_None: "m a = None \<Longrightarrow> find_ref m a = None"
    and find_fresh: "m a = Some (fresh r) \<Longrightarrow> find_ref m a = Some r"
    and find_clash: "m a = Some clash \<Longrightarrow> find_ref m a = None"
begin

fun addAll :: "('a \<rightharpoonup> 'ent) \<Rightarrow> ('a \<times> 'r) list \<Rightarrow> ('a \<rightharpoonup> 'ent)" where
  "addAll m [] = m"
| "addAll m ((a, r) # cs) = addAll (add m a r) cs"

definition claims :: "('a \<times> 'r) list \<Rightarrow> 'a \<Rightarrow> 'r set" where
  "claims cs a = {r. (a, r) \<in> set cs}"

definition entry_of :: "'r set \<Rightarrow> 'ent option \<Rightarrow> bool" where
  "entry_of R e \<longleftrightarrow>
     (R = {} \<and> e = None) \<or> (\<exists>r. R = {r} \<and> e = Some (fresh r)) \<or>
     (\<exists>p q. p \<in> R \<and> q \<in> R \<and> p \<noteq> q \<and> e = Some clash)"

lemma entry_of_cases:
  assumes "entry_of R e"
  obtains (none) "R = {}" "e = None"
    | (one) r where "R = {r}" "e = Some (fresh r)"
    | (many) p q where "p \<in> R" "q \<in> R" "p \<noteq> q" "e = Some clash"
  using assms unfolding entry_of_def by metis

lemma add_entry:
  assumes "entry_of R (m a)"
  shows "entry_of (insert r R) (add m a r a)"
  using assms
proof (cases rule: entry_of_cases)
  case none
  then show ?thesis by (simp add: add_new entry_of_def)
next
  case (one q)
  show ?thesis
  proof (cases "q = r")
    case True
    with one show ?thesis by (simp add: add_same entry_of_def)
  next
    case False
    with one have "add m a r a = Some clash" by (simp add: add_diff)
    with one False show ?thesis unfolding entry_of_def by blast
  qed
next
  case (many p q)
  then have "add m a r a = Some clash" by (simp add: add_clash)
  with many show ?thesis unfolding entry_of_def by blast
qed

lemma addAll_append: "addAll m (cs @ ds) = addAll (addAll m cs) ds"
  by (induction m cs rule: addAll.induct) auto

lemma addAll_entry: "entry_of (claims cs a) (addAll Map.empty cs a)"
proof (induction cs rule: rev_induct)
  case Nil
  then show ?case by (simp add: entry_of_def claims_def)
next
  case (snoc c cs)
  obtain b r where c: "c = (b, r)" by (cases c)
  show ?case
  proof (cases "b = a")
    case True
    then have "claims (cs @ [c]) a = insert r (claims cs a)"
      by (auto simp: claims_def c)
    with snoc True show ?thesis by (simp add: c addAll_append add_entry)
  next
    case False
    then have "claims (cs @ [c]) a = claims cs a"
      by (auto simp: claims_def c)
    with snoc False show ?thesis by (simp add: c addAll_append add_other)
  qed
qed

text \<open>A lookup answers exactly when one object, and only one, claims the address.\<close>

lemma find_addAll_iff: "find_ref (addAll Map.empty cs) a = Some r \<longleftrightarrow> claims cs a = {r}"
  using addAll_entry [of cs a]
proof (cases rule: entry_of_cases)
  case none
  then show ?thesis by (simp add: find_None)
next
  case (one q)
  then show ?thesis by (auto simp: find_fresh)
next
  case (many p q)
  then show ?thesis by (auto simp: find_clash)
qed

end

section \<open>Maps whose entries expire\<close>

locale expiring_map =
  fixes find_live :: "'s \<Rightarrow> 'k \<Rightarrow> go_time \<Rightarrow> 'v option"
    and store :: "'k \<Rightarrow> 'v \<Rightarrow> go_time \<Rightarrow> 's \<Rightarrow> 's"
    and ttl :: "'s \<Rightarrow> duration"
    and wf :: "'s \<Rightarrow> bool"
    and valid_key :: "'k \<Rightarrow> bool"
  assumes store_wf: "wf s \<Longrightarrow> wf (store k v t s)"
    and store_ttl: "ttl (store k v t s) = ttl s"
    and find_stored: "wf s \<Longrightarrow> valid_key k \<Longrightarrow> t \<le> now \<Longrightarrow> now \<le> t + ttl s \<Longrightarrow>
           find_live (store k v t s) k now = Some v"
    and find_expired: "wf s \<Longrightarrow> valid_key k \<Longrightarrow> t + ttl s < now \<Longrightarrow>
           find_live (store k v t s) k now = None"
    and find_other: "wf s \<Longrightarrow> t \<le> now \<Longrightarrow> valid_key k \<Longrightarrow> k' \<noteq> k \<Longrightarrow>
           find_live (store k v t s) k' now = find_live s k' now"
begin

text \<open>
  A run of stores in time order: a later lookup sees the last value stored under the key,
  if it is young enough, and nothing else.
\<close>

fun storeAll :: "('k \<times> 'v \<times> go_time) list \<Rightarrow> 's \<Rightarrow> 's" where
  "storeAll [] s = s"
| "storeAll ((k, v, t) # es) s = storeAll es (store k v t s)"

lemma storeAll_append: "storeAll (es @ fs) s = storeAll fs (storeAll es s)"
  by (induction es s rule: storeAll.induct) auto

lemma storeAll_wf: "wf s \<Longrightarrow> wf (storeAll es s) \<and> ttl (storeAll es s) = ttl s"
  by (induction es s rule: storeAll.induct) (auto simp: store_wf store_ttl)

lemma storeAll_last:
  assumes "wf s" and "k \<notin> fst ` set fs" and "\<forall>(k', v', t') \<in> set fs. t' \<le> now \<and> valid_key k'"
    and "valid_key k" and "t \<le> now" and "now \<le> t + ttl s"
  shows "find_live (storeAll (es @ (k, v, t) # fs) s) k now = Some v"
  using assms(2,3)
proof (induction fs rule: rev_induct)
  case Nil
  have "wf (storeAll es s)" and "ttl (storeAll es s) = ttl s"
    using storeAll_wf [OF assms(1)] by auto
  with assms(4-6) show ?case by (simp add: storeAll_append find_stored)
next
  case (snoc f fs)
  obtain k' v' t' where f: "f = (k', v', t')" by (cases f)
  have w: "wf (storeAll (es @ (k, v, t) # fs) s)"
    using storeAll_wf [OF assms(1)] by auto
  have "k \<noteq> k'" and "t' \<le> now" and "valid_key k'" using snoc.prems by (auto simp: f)
  moreover have "find_live (storeAll (es @ (k, v, t) # fs) s) k now = Some v"
    using snoc.IH snoc.prems by simp
  moreover have "storeAll (es @ (k, v, t) # fs @ [f]) s =
      store k' v' t' (storeAll (es @ (k, v, t) # fs) s)"
    using storeAll_append [of "es @ (k, v, t) # fs" "[f]" s] by (simp add: f)
  ultimately show ?case
    using find_other [OF w, of t' now k' k v'] by simp
qed

end

section \<open>Reconnect delays\<close>

locale doubling_backoff =
  fixes next_delay :: "duration \<Rightarrow> duration \<Rightarrow> duration"
  assumes next_delay: "0 < d \<Longrightarrow> d \<le> 2 ^ 62 - 1 \<Longrightarrow> next_delay mx d = min mx (2 * d)"
begin

fun delay_after :: "duration \<Rightarrow> duration \<Rightarrow> nat \<Rightarrow> duration" where
  "delay_after mn mx 0 = mn"
| "delay_after mn mx (Suc n) = next_delay mx (delay_after mn mx n)"

lemma delay_closed_form:
  assumes "0 < mn" and "mn \<le> mx" and "mx \<le> 2 ^ 62 - 1"
  shows "delay_after mn mx n = min mx (2 ^ n * mn)"
proof (induction n)
  case 0
  with assms show ?case by simp
next
  case (Suc n)
  have pos: "0 < 2 ^ n * mn" using assms(1) by simp
  then have "0 < delay_after mn mx n" and "delay_after mn mx n \<le> 2 ^ 62 - 1"
    using Suc assms by simp_all
  then have "delay_after mn mx (Suc n) = min mx (2 * delay_after mn mx n)"
    by (simp add: next_delay)
  also have "\<dots> = min mx (2 ^ Suc n * mn)"
    using Suc assms pos by (simp add: min_def)
  finally show ?case .
qed

lemma delay_bounds:
  assumes "0 < mn" and "mn \<le> mx" and "mx \<le> 2 ^ 62 - 1"
  shows "mn \<le> delay_after mn mx n \<and> delay_after mn mx n \<le> mx"
proof -
  have "1 * mn \<le> 2 ^ n * mn"
    using assms(1) by (intro mult_right_mono) simp_all
  then show ?thesis using assms by (simp add: delay_closed_form)
qed

end

end
