(* ===== verification/Flow_Store.thy ===== *)
theory Flow_Store
  imports Flow_Types Interfaces
begin

text \<open>
  The collector's in-memory store (\<^verbatim>\<open>pkg/collector/store\<close>): a bounded, age-limited buffer of
  enriched events with a send cursor. Events before the cursor were delivered upstream,
  events from the cursor on are unsent. Retention drops from the front and counts the unsent
  events it loses.
\<close>

record Enrichment =
  en_srcNamespace :: string
  en_srcWorkloadKind :: string
  en_srcWorkloadName :: string
  en_dstNamespace :: string
  en_dstKind :: string
  en_dstName :: string
  en_backendWorkloadNamespace :: string
  en_backendWorkloadKind :: string
  en_backendWorkloadName :: string
  en_backendPodNamespace :: string
  en_backendPodName :: string

definition emptyEnrichment :: Enrichment where
  "emptyEnrichment =
     \<lparr>en_srcNamespace = '''', en_srcWorkloadKind = '''', en_srcWorkloadName = '''',
      en_dstNamespace = '''', en_dstKind = '''', en_dstName = '''',
      en_backendWorkloadNamespace = '''', en_backendWorkloadKind = '''',
      en_backendWorkloadName = '''', en_backendPodNamespace = '''', en_backendPodName = ''''\<rparr>"

record ListOpts =
  lo_since :: int
  lo_limit :: int
  lo_offset :: int
  lo_namespace :: string
  lo_eventKind :: flow_event_kind
  lo_srcWorkloadKind :: string
  lo_dstKind :: string

text \<open>The cursor is never negative, so it is a natural number.\<close>

record Store =
  st_events :: "EnrichedFlowEvent option list"
  st_maxEvents :: int
  st_maxAge :: duration
  st_sendCursor :: nat
  st_droppedUnsent :: int
  st_lastDropReason :: string

definition NewStore :: "int \<Rightarrow> duration \<Rightarrow> Store" where
  "NewStore maxEvents maxAge =
     \<lparr>st_events = [],
      st_maxEvents = (if maxEvents \<le> 0 then 100000 else maxEvents),
      st_maxAge = (if maxAge \<le> 0 then 15 * Minute else maxAge),
      st_sendCursor = 0, st_droppedUnsent = 0, st_lastDropReason = ''''\<rparr>"

section \<open>Conversion of events\<close>

definition cloneWorkloadRef :: "AggWorkloadRef option \<Rightarrow> InsWorkloadRef option" where
  "cloneWorkloadRef w =
     map_option (\<lambda>w. \<lparr>iw_namespace = aw_namespace w, iw_pod = aw_pod w, iw_container = aw_container w\<rparr>) w"

definition cloneEndpoint :: "AggEndpoint option \<Rightarrow> InsEndpoint option" where
  "cloneEndpoint e =
     map_option (\<lambda>e. \<lparr>ie_addr = ae_addr e, ie_port = int32_of_uint32 (ae_port e)\<rparr>) e"

definition cloneDnsDetails :: "AggDnsDetails option \<Rightarrow> InsDnsDetails option" where
  "cloneDnsDetails d =
     map_option (\<lambda>d. \<lparr>id_name = ad_name d, id_qtype = ad_qtype d, id_rcode = ad_rcode d,
       id_addresses = ad_addresses d, id_queryId = int32_of_uint32 (ad_queryId d)\<rparr>) d"

definition enrichedFromEvent :: "string \<Rightarrow> string \<Rightarrow> FlowEvent \<Rightarrow> Enrichment \<Rightarrow> EnrichedFlowEvent" where
  "enrichedFromEvent nodeName agentID event enrich =
     \<lparr>ee_nodeName = nodeName,
      ee_agentId = agentID,
      ee_eventKind = fe_eventKind event,
      ee_protocol = fe_protocol event,
      ee_timestampUnixNano = fe_timestampUnixNano event,
      ee_src = cloneWorkloadRef (fe_src event),
      ee_srcWorkload =
        (if en_srcNamespace enrich \<noteq> '''' \<or> en_srcWorkloadKind enrich \<noteq> '''' \<or>
            en_srcWorkloadName enrich \<noteq> ''''
         then Some \<lparr>kr_namespace = en_srcNamespace enrich, kr_kind = en_srcWorkloadKind enrich,
                    kr_name = en_srcWorkloadName enrich\<rparr>
         else None),
      ee_srcEndpoint = cloneEndpoint (fe_srcEndpoint event),
      ee_dst = cloneEndpoint (fe_dst event),
      ee_dstRef =
        (if en_dstKind enrich \<noteq> '''' \<or> en_dstName enrich \<noteq> ''''
         then Some \<lparr>kr_namespace = en_dstNamespace enrich, kr_kind = en_dstKind enrich,
                    kr_name = en_dstName enrich\<rparr>
         else None),
      ee_bytesSent = int64_of_uint64 (fe_bytesSent event),
      ee_bytesReceived = int64_of_uint64 (fe_bytesReceived event),
      ee_dns = cloneDnsDetails (fe_dns event),
      ee_backendWorkload =
        (if en_backendWorkloadKind enrich \<noteq> '''' \<or> en_backendWorkloadName enrich \<noteq> ''''
         then Some \<lparr>kr_namespace = en_backendWorkloadNamespace enrich,
                    kr_kind = en_backendWorkloadKind enrich, kr_name = en_backendWorkloadName enrich\<rparr>
         else None),
      ee_backendPod =
        (if en_backendPodName enrich \<noteq> ''''
         then Some \<lparr>iw_namespace = en_backendPodNamespace enrich, iw_pod = en_backendPodName enrich,
                    iw_container = ''''\<rparr>
         else None)\<rparr>"

lemma enriched_fields [simp]:
  "ee_nodeName (enrichedFromEvent n a e en) = n"
  "ee_agentId (enrichedFromEvent n a e en) = a"
  "ee_eventKind (enrichedFromEvent n a e en) = fe_eventKind e"
  "ee_protocol (enrichedFromEvent n a e en) = fe_protocol e"
  "ee_timestampUnixNano (enrichedFromEvent n a e en) = fe_timestampUnixNano e"
  "ee_src (enrichedFromEvent n a e en) = cloneWorkloadRef (fe_src e)"
  "ee_bytesSent (enrichedFromEvent n a e en) = int64_of_uint64 (fe_bytesSent e)"
  "ee_bytesReceived (enrichedFromEvent n a e en) = int64_of_uint64 (fe_bytesReceived e)"
  by (simp_all add: enrichedFromEvent_def)

definition isAcceptableEvent :: "FlowEvent \<Rightarrow> bool" where
  "isAcceptableEvent event =
     (if GetPod (fe_src event) = '''' then False
      else if fe_protocol event = PROTOCOL_DNS then GetDnsName (fe_dns event) \<noteq> ''''
      else GetAddr (fe_dst event) \<noteq> '''')"

section \<open>Retention\<close>

definition adjustCursorOnDrop :: "int \<Rightarrow> string \<Rightarrow> Store \<Rightarrow> Store" where
  "adjustCursorOnDrop droppedFromFront reason s =
     (if droppedFromFront \<le> 0 then s
      else
        let (cursor, lostUnsent) =
              (if int (st_sendCursor s) \<ge> droppedFromFront
               then (st_sendCursor s - nat droppedFromFront, 0)
               else (0, droppedFromFront - int (st_sendCursor s)));
            s' = s\<lparr>st_sendCursor := cursor\<rparr>
        in if lostUnsent > 0
           then s'\<lparr>st_droppedUnsent := st_droppedUnsent s' + lostUnsent, st_lastDropReason := reason\<rparr>
           else s')"

definition store_pruneLocked :: "go_time \<Rightarrow> Store \<Rightarrow> Store" where
  "store_pruneLocked now s =
     (if st_maxAge s \<le> 0 \<or> st_events s = [] then s
      else
        let cutoff = now - st_maxAge s;
            start = length (takeWhile (\<lambda>e. GetTimestampUnixNano e < cutoff) (st_events s))
        in if start > 0
           then adjustCursorOnDrop (int start) ''max_age'' (s\<lparr>st_events := drop start (st_events s)\<rparr>)
           else s)"

definition store_enforceMaxLocked :: "Store \<Rightarrow> Store" where
  "store_enforceMaxLocked s =
     (let overflow = int (length (st_events s)) - st_maxEvents s
      in if overflow \<le> 0 then s
         else adjustCursorOnDrop overflow ''max_events''
                (s\<lparr>st_events := drop (nat overflow) (st_events s)\<rparr>))"

section \<open>Appending a batch\<close>

text \<open>
  The enrichment callback reads and updates the caches of the server, so it is a function
  on a state \<open>'c\<close>; \<^const>\<open>None\<close> is a panic. A nil callback is the outer \<^const>\<open>None\<close>.
\<close>

type_synonym 'c enrich_fn = "FlowEvent \<Rightarrow> 'c \<Rightarrow> (Enrichment \<times> 'c) option"

definition defaultEnrichment :: "FlowEvent \<Rightarrow> Enrichment" where
  "defaultEnrichment event = emptyEnrichment
     \<lparr>en_srcNamespace := GetNamespace (fe_src event), en_srcWorkloadKind := ''Pod'',
      en_srcWorkloadName := GetPod (fe_src event)\<rparr>"

definition runEnrich :: "'c enrich_fn option \<Rightarrow> 'c enrich_fn" where
  "runEnrich enrich event c =
     (case enrich of None \<Rightarrow> Some (defaultEnrichment event, c) | Some f \<Rightarrow> f event c)"

fun enrichRows :: "'c enrich_fn option \<Rightarrow> string \<Rightarrow> string \<Rightarrow> FlowEvent option list \<Rightarrow> 'c \<Rightarrow>
    (EnrichedFlowEvent list \<times> 'c) option" where
  "enrichRows enrich node agent [] c = Some ([], c)"
| "enrichRows enrich node agent (None # es) c = enrichRows enrich node agent es c"
| "enrichRows enrich node agent (Some e # es) c =
     (if \<not> isAcceptableEvent e then enrichRows enrich node agent es c
      else case runEnrich enrich e c of
             None \<Rightarrow> None
           | Some (enrichment, c') \<Rightarrow>
               (case enrichRows enrich node agent es c' of
                  None \<Rightarrow> None
                | Some (rows, c'') \<Rightarrow> Some (enrichedFromEvent node agent e enrichment # rows, c'')))"

definition appendRows :: "go_time \<Rightarrow> EnrichedFlowEvent list \<Rightarrow> Store \<Rightarrow> Store" where
  "appendRows now rows s =
     store_enforceMaxLocked (store_pruneLocked now
       (s\<lparr>st_events := st_events s @ map Some rows\<rparr>))"

definition AppendBatch :: "go_time \<Rightarrow> FlowEventBatch option \<Rightarrow> 'c enrich_fn option \<Rightarrow> 'c \<Rightarrow> Store \<Rightarrow>
    (int \<times> EnrichedFlowEvent list \<times> 'c \<times> Store) option" where
  "AppendBatch now batch enrich c s =
     (case batch of
        None \<Rightarrow> Some (0, [], c, s)
      | Some b \<Rightarrow>
          (case enrichRows enrich (fb_nodeName b) (fb_agentId b) (fb_events b) c of
             None \<Rightarrow> None
           | Some (rows, c') \<Rightarrow>
               if rows = [] then Some (0, [], c', s)
               else Some (int (length rows), rows, c', appendRows now rows s)))"

section \<open>The send cursor\<close>

definition UnsentCount :: "Store \<Rightarrow> int" where
  "UnsentCount s =
     (if st_sendCursor s \<ge> length (st_events s) then 0
      else int (length (st_events s)) - int (st_sendCursor s))"

fun oldestAge :: "go_time \<Rightarrow> EnrichedFlowEvent option list \<Rightarrow> duration" where
  "oldestAge now [] = 0"
| "oldestAge now (None # es) = oldestAge now es"
| "oldestAge now (Some e # es) =
     (let ts = ee_timestampUnixNano e in
      if ts \<le> 0 then 0
      else let age = timeSub now (timeUnixNano ts) in if age < 0 then 0 else age)"

definition OldestUnsentAge :: "go_time \<Rightarrow> Store \<Rightarrow> duration" where
  "OldestUnsentAge now s = oldestAge now (drop (st_sendCursor s) (st_events s))"

text \<open>
  The collection loop of \<^verbatim>\<open>PeekUnsentBatch\<close>: nil entries are skipped, the first event of
  another node or agent ends the batch, and so does the limit.
\<close>

fun collectBatch :: "nat \<Rightarrow> string \<Rightarrow> string \<Rightarrow> EnrichedFlowEvent option list \<Rightarrow> EnrichedFlowEvent list" where
  "collectBatch room node agent [] = []"
| "collectBatch 0 node agent (e # es) = []"
| "collectBatch (Suc room) node agent (None # es) = collectBatch (Suc room) node agent es"
| "collectBatch (Suc room) node agent (Some e # es) =
     (if ee_nodeName e \<noteq> node \<or> ee_agentId e \<noteq> agent then []
      else e # collectBatch room node agent es)"

definition PeekUnsentBatch :: "int \<Rightarrow> Store \<Rightarrow> (string \<times> string \<times> EnrichedFlowEvent list) option" where
  "PeekUnsentBatch maxEvents s =
     (let limit = (if maxEvents \<le> 0 then 100 else maxEvents);
          rest = dropWhile (\<lambda>e. e = None) (drop (st_sendCursor s) (st_events s))
      in case rest of
           [] \<Rightarrow> None
         | first # _ \<Rightarrow>
             let nodeName = GetNodeName first;
                 agentID = GetAgentId first;
                 events = collectBatch (nat limit) nodeName agentID rest
             in if events = [] then None else Some (nodeName, agentID, events))"

definition AdvanceSendCursor :: "int \<Rightarrow> Store \<Rightarrow> Store" where
  "AdvanceSendCursor n s =
     (if n \<le> 0 then s
      else let c = st_sendCursor s + nat n
           in s\<lparr>st_sendCursor := (if c > length (st_events s) then length (st_events s) else c)\<rparr>)"

definition TakeDroppedUnsent :: "Store \<Rightarrow> (int \<times> string) \<times> Store" where
  "TakeDroppedUnsent s =
     ((st_droppedUnsent s, st_lastDropReason s),
      s\<lparr>st_droppedUnsent := 0, st_lastDropReason := ''''\<rparr>)"

definition StoreCount :: "Store \<Rightarrow> int" where
  "StoreCount s = int (length (st_events s))"

section \<open>Queries\<close>

definition listMatches :: "ListOpts \<Rightarrow> EnrichedFlowEvent option \<Rightarrow> bool" where
  "listMatches opts event =
     (case event of
        None \<Rightarrow> False
      | Some e \<Rightarrow>
          if lo_since opts > 0 \<and> ee_timestampUnixNano e \<le> lo_since opts then False
          else if lo_namespace opts \<noteq> '''' \<and> GetInsNamespace (ee_src e) \<noteq> lo_namespace opts \<and>
                  GetRefNamespace (ee_dstRef e) \<noteq> lo_namespace opts then False
          else if lo_eventKind opts \<noteq> KIND_UNSPECIFIED \<and> ee_eventKind e \<noteq> lo_eventKind opts then False
          else if lo_srcWorkloadKind opts \<noteq> '''' \<and>
                  GetRefKind (ee_srcWorkload e) \<noteq> lo_srcWorkloadKind opts then False
          else if lo_dstKind opts \<noteq> '''' \<and> GetRefKind (ee_dstRef e) \<noteq> lo_dstKind opts then False
          else True)"

fun listLoop :: "ListOpts \<Rightarrow> int \<Rightarrow> int \<Rightarrow> EnrichedFlowEvent option list \<Rightarrow>
    EnrichedFlowEvent list \<Rightarrow> EnrichedFlowEvent list" where
  "listLoop opts limit skipped [] out = out"
| "listLoop opts limit skipped (event # es) out =
     (if \<not> listMatches opts event then listLoop opts limit skipped es out
      else if skipped < lo_offset opts then listLoop opts limit (skipped + 1) es out
      else let out' = out @ [the event]
           in if int (length out') \<ge> limit then out' else listLoop opts limit skipped es out')"

text \<open>
  The result is allocated with \<^verbatim>\<open>make([]*EnrichedFlowEvent, 0, limit)\<close>, which panics (\<open>None\<close>) when the
  capacity does not fit into the 48-bit address space: more than \<open>2\<^sup>4\<^sup>5\<close> pointers of eight bytes.
\<close>

definition maxSliceCap :: int where "maxSliceCap = 2 ^ 45"

definition ListEvents :: "ListOpts \<Rightarrow> Store \<Rightarrow> EnrichedFlowEvent list option" where
  "ListEvents opts s =
     (let limit = (if lo_limit opts \<le> 0 then int (length (st_events s)) else lo_limit opts)
      in if limit > maxSliceCap then None else Some (listLoop opts limit 0 (st_events s) []))"

section \<open>Invariant and the view of the unsent events\<close>

definition store_ok :: "Store \<Rightarrow> bool" where
  "store_ok s \<longleftrightarrow>
     None \<notin> set (st_events s) \<and> st_sendCursor s \<le> length (st_events s) \<and>
     0 < st_maxEvents s \<and> int (length (st_events s)) \<le> st_maxEvents s \<and>
     0 < st_maxAge s \<and> 0 \<le> st_droppedUnsent s"

definition unsent :: "Store \<Rightarrow> EnrichedFlowEvent list" where
  "unsent s = map the (drop (st_sendCursor s) (st_events s))"

text \<open>Dropping \<open>n\<close> events from the front, as both retention rules do.\<close>

definition dropFront :: "nat \<Rightarrow> string \<Rightarrow> Store \<Rightarrow> Store" where
  "dropFront n reason s = adjustCursorOnDrop (int n) reason (s\<lparr>st_events := drop n (st_events s)\<rparr>)"

lemma dropFront_fields:
  "st_events (dropFront n r s) = drop n (st_events s)"
  "st_sendCursor (dropFront n r s) = st_sendCursor s - n"
  "st_droppedUnsent (dropFront n r s) = st_droppedUnsent s + int (n - st_sendCursor s)"
  "st_maxEvents (dropFront n r s) = st_maxEvents s"
  "st_maxAge (dropFront n r s) = st_maxAge s"
  by (auto simp: dropFront_def adjustCursorOnDrop_def Let_def)

lemma dropFront_unsent:
  "st_sendCursor s \<le> length (st_events s) \<Longrightarrow>
     unsent (dropFront n r s) = drop (n - st_sendCursor s) (unsent s)"
proof -
  have "n + (st_sendCursor s - n) = st_sendCursor s + (n - st_sendCursor s)" by arith
  then show ?thesis by (simp add: unsent_def dropFront_fields drop_map add.commute)
qed

lemma store_pruneLocked_drops:
  "\<exists>n r. store_pruneLocked now s = dropFront n r s \<and> n \<le> length (st_events s)"
proof -
  let ?n = "length (takeWhile (\<lambda>e. GetTimestampUnixNano e < now - st_maxAge s) (st_events s))"
  have zero: "s = dropFront 0 r s" for r
    by (simp add: dropFront_def adjustCursorOnDrop_def)
  have "?n \<le> length (st_events s)" by (rule length_takeWhile_le)
  then have "store_pruneLocked now s = dropFront ?n ''max_age'' s \<or> store_pruneLocked now s = s"
    by (auto simp: store_pruneLocked_def dropFront_def Let_def)
  then show ?thesis
    using \<open>?n \<le> length (st_events s)\<close> zero by (metis le0)
qed

lemma store_enforceMaxLocked_drops:
  assumes "0 < st_maxEvents s"
  shows "\<exists>n r. store_enforceMaxLocked s = dropFront n r s \<and> n \<le> length (st_events s) \<and>
           int (length (st_events s) - n) \<le> st_maxEvents s"
proof (cases "int (length (st_events s)) \<le> st_maxEvents s")
  case True
  then have "store_enforceMaxLocked s = dropFront 0 ''max_events'' s"
    by (simp add: store_enforceMaxLocked_def dropFront_def adjustCursorOnDrop_def Let_def)
  with True show ?thesis by (metis diff_zero le0)
next
  case False
  let ?n = "nat (int (length (st_events s)) - st_maxEvents s)"
  from False have "store_enforceMaxLocked s = dropFront ?n ''max_events'' s"
    by (simp add: store_enforceMaxLocked_def dropFront_def Let_def)
  moreover have "?n \<le> length (st_events s)" and "int (length (st_events s) - ?n) \<le> st_maxEvents s"
    using assms False by linarith+
  ultimately show ?thesis by blast
qed

lemma store_ok_dropFront:
  assumes "None \<notin> set (st_events s)" "st_sendCursor s \<le> length (st_events s)"
    "0 < st_maxEvents s" "0 < st_maxAge s" "0 \<le> st_droppedUnsent s"
    and "int (length (st_events s) - n) \<le> st_maxEvents s"
  shows "store_ok (dropFront n r s)"
  using assms by (auto simp: store_ok_def dropFront_fields dest: in_set_dropD)

text \<open>
  What one append does, whatever the ages and the limits: some number of the oldest unsent
  events is dropped and counted, the rest is kept in order, the invariant holds again.
\<close>

lemma appendRows_effect:
  assumes ok: "store_ok s"
  obtains k where "k \<le> length (unsent s @ rows)"
    "unsent (appendRows now rows s) = drop k (unsent s @ rows)"
    "st_droppedUnsent (appendRows now rows s) = st_droppedUnsent s + int k"
    "store_ok (appendRows now rows s)"
    "st_maxEvents (appendRows now rows s) = st_maxEvents s"
    "st_maxAge (appendRows now rows s) = st_maxAge s"
proof -
  define s0 where "s0 = s\<lparr>st_events := st_events s @ map Some rows\<rparr>"
  define c where "c = st_sendCursor s"
  have c: "c \<le> length (st_events s)" using ok by (simp add: store_ok_def c_def)
  have u0: "unsent s0 = unsent s @ rows"
    using c by (simp add: unsent_def s0_def c_def)
  obtain n r where s1: "store_pruneLocked now s0 = dropFront n r s0" and n: "n \<le> length (st_events s0)"
    using store_pruneLocked_drops by blast
  obtain m r' where s2: "store_enforceMaxLocked (dropFront n r s0) = dropFront m r' (dropFront n r s0)"
    and m: "m \<le> length (st_events (dropFront n r s0))"
    and fits: "int (length (st_events (dropFront n r s0)) - m) \<le> st_maxEvents (dropFront n r s0)"
    using store_enforceMaxLocked_drops [of "dropFront n r s0"] ok
    by (auto simp: dropFront_fields s0_def store_ok_def)
  have res: "appendRows now rows s = dropFront m r' (dropFront n r s0)"
    using s1 s2 by (simp add: appendRows_def s0_def)
  have c1: "st_sendCursor (dropFront n r s0) \<le> length (st_events (dropFront n r s0))"
    using c by (auto simp: dropFront_fields s0_def c_def)
  let ?k = "(n - c) + (m - (c - n))"
  have "?k \<le> length (unsent s @ rows)"
    using n m c by (simp add: unsent_def dropFront_fields s0_def c_def)
  moreover have "unsent (dropFront m r' (dropFront n r s0)) = drop ?k (unsent s @ rows)"
  proof -
    have "unsent (dropFront n r s0) = drop (n - c) (unsent s @ rows)"
      using c u0 dropFront_unsent [of s0 n r] by (simp add: s0_def c_def)
    moreover have "st_sendCursor (dropFront n r s0) = c - n"
      by (simp add: dropFront_fields s0_def c_def)
    ultimately show ?thesis
      by (simp only: dropFront_unsent [OF c1] drop_drop add.commute)
  qed
  moreover have "store_ok (dropFront m r' (dropFront n r s0))"
    using ok c1 fits
    by (intro store_ok_dropFront)
       (auto simp: dropFront_fields s0_def store_ok_def dest: in_set_dropD)
  ultimately show ?thesis
    by (intro that [of ?k]) (simp_all add: res dropFront_fields s0_def c_def)
qed

interpretation retained: lossy_queue unsent st_droppedUnsent "\<lambda>s. nat (st_maxEvents s)" store_ok
  "appendRows now" for now
proof
  fix s and xs :: "EnrichedFlowEvent list"
  assume ok: "store_ok s"
  obtain k where k: "k \<le> length (unsent s @ xs)"
    "unsent (appendRows now xs s) = drop k (unsent s @ xs)"
    "st_droppedUnsent (appendRows now xs s) = st_droppedUnsent s + int k"
    "store_ok (appendRows now xs s)"
    "st_maxEvents (appendRows now xs s) = st_maxEvents s"
    using appendRows_effect [OF ok] by metis
  show "store_ok (appendRows now xs s)" by (rule k)
  show "nat (st_maxEvents (appendRows now xs s)) = nat (st_maxEvents s)" by (simp add: k)
  show "length (unsent (appendRows now xs s)) \<le> nat (st_maxEvents s)"
    using k(4,5) by (auto simp: unsent_def store_ok_def)
  show "\<exists>k\<le>length (unsent s @ xs). unsent (appendRows now xs s) = drop k (unsent s @ xs) \<and>
      st_droppedUnsent (appendRows now xs s) = st_droppedUnsent s + int k"
    using k by blast
qed

section \<open>Reading and committing\<close>

lemma collectBatch_noNil:
  "None \<notin> set es \<Longrightarrow>
     collectBatch room node agent es =
       takeWhile (\<lambda>e. ee_nodeName e = node \<and> ee_agentId e = agent) (take room (map the es))"
  by (induction room node agent es rule: collectBatch.induct) auto

text \<open>
  On a store that satisfies the invariant, a peek returns the longest run of unsent events
  of one node and agent, up to the limit.
\<close>

lemma PeekUnsentBatch_eq:
  assumes "store_ok s"
  shows "PeekUnsentBatch mx s =
    (case unsent s of
       [] \<Rightarrow> None
     | e # _ \<Rightarrow> Some (ee_nodeName e, ee_agentId e,
         takeWhile (\<lambda>x. ee_nodeName x = ee_nodeName e \<and> ee_agentId x = ee_agentId e)
           (take (nat (if mx \<le> 0 then 100 else mx)) (unsent s))))"
proof -
  let ?l = "drop (st_sendCursor s) (st_events s)"
  have nn: "None \<notin> set ?l" using assms by (auto simp: store_ok_def dest: in_set_dropD)
  show ?thesis
  proof (cases ?l)
    case Nil
    then show ?thesis by (simp add: PeekUnsentBatch_def unsent_def)
  next
    case (Cons a es)
    with nn obtain e where a: "a = Some e" by (cases a) auto
    define room where "room = nat (if mx \<le> 0 then 100 else mx)"
    obtain room' where r: "room = Suc room'" by (cases room) (auto simp: room_def split: if_splits)
    have nn': "None \<notin> set es" using nn Cons by simp
    have "dropWhile (\<lambda>e. e = None) ?l = Some e # es" by (simp add: Cons a)
    then show ?thesis
      using nn' by (simp add: PeekUnsentBatch_def Let_def unsent_def Cons a room_def [symmetric] r
          collectBatch_noNil)
  qed
qed

lemma AdvanceSendCursor_unsent:
  "st_sendCursor s \<le> length (st_events s) \<Longrightarrow>
     unsent (AdvanceSendCursor (int n) s) = drop n (unsent s)"
  by (auto simp: AdvanceSendCursor_def unsent_def Let_def drop_map add.commute)

lemma AdvanceSendCursor_ok: "store_ok s \<Longrightarrow> store_ok (AdvanceSendCursor n s)"
  by (auto simp: AdvanceSendCursor_def store_ok_def Let_def)

interpretation sending: unsent_queue unsent st_droppedUnsent "\<lambda>s. nat (st_maxEvents s)" store_ok
  "appendRows now" "\<lambda>s. map_option (snd \<circ> snd) (PeekUnsentBatch mx s)"
  "\<lambda>n. AdvanceSendCursor (int n)" for now mx
proof
  fix s assume ok: "store_ok s"
  show "(map_option (snd \<circ> snd) (PeekUnsentBatch mx s) = None) = (unsent s = [])"
    using ok by (simp add: PeekUnsentBatch_eq split: list.splits)
  show "unsent (AdvanceSendCursor (int n) s) = drop n (unsent s)" for n
    using ok by (simp add: AdvanceSendCursor_unsent store_ok_def)
  show "st_droppedUnsent (AdvanceSendCursor (int n) s) = st_droppedUnsent s" for n
    by (simp add: AdvanceSendCursor_def Let_def)
  show "store_ok (AdvanceSendCursor (int n) s)" for n
    using ok by (rule AdvanceSendCursor_ok)
next
  fix s and xs :: "EnrichedFlowEvent list"
  assume ok: "store_ok s" and pk: "map_option (snd \<circ> snd) (PeekUnsentBatch mx s) = Some xs"
  define room where "room = nat (if mx \<le> 0 then 100 else mx)"
  have "0 < room" by (simp add: room_def)
  then obtain room' where r: "room = Suc room'" by (cases room) auto
  from pk ok obtain e es where u: "unsent s = e # es"
    and xs: "xs = takeWhile (\<lambda>x. ee_nodeName x = ee_nodeName e \<and> ee_agentId x = ee_agentId e)
                   (take room (unsent s))"
    by (auto simp: PeekUnsentBatch_eq room_def split: list.splits)
  have "xs \<noteq> []" by (simp add: xs u r)
  moreover have "prefix xs (unsent s)"
    unfolding xs by (metis prefix_order.trans take_is_prefix takeWhile_is_prefix)
  ultimately show "xs \<noteq> [] \<and> (\<exists>ys. unsent s = xs @ ys)" by (auto simp: prefix_def)
qed

section \<open>Rows, queries and reachable stores\<close>

definition acceptedEvents :: "FlowEventBatch \<Rightarrow> FlowEvent list" where
  "acceptedEvents b = filter isAcceptableEvent (map the (filter (\<lambda>e. e \<noteq> None) (fb_events b)))"

lemma enrichRows_carries:
  "enrichRows enrich node agent es c = Some (rows, c') \<Longrightarrow>
     \<exists>ens. length ens = length (filter isAcceptableEvent (map the (filter (\<lambda>e. e \<noteq> None) es))) \<and>
       rows = map2 (enrichedFromEvent node agent)
         (filter isAcceptableEvent (map the (filter (\<lambda>e. e \<noteq> None) es))) ens"
proof (induction enrich node agent es c arbitrary: rows c' rule: enrichRows.induct)
  case (1 enrich node agent c)
  then show ?case by simp
next
  case (2 enrich node agent es c)
  then show ?case by simp
next
  case (3 enrich node agent e es c)
  show ?case
  proof (cases "isAcceptableEvent e")
    case False
    with 3 show ?thesis by simp
  next
    case True
    with "3.prems" obtain en c1 rows' where en: "runEnrich enrich e c = Some (en, c1)"
      and rest: "enrichRows enrich node agent es c1 = Some (rows', c')"
      and rows: "rows = enrichedFromEvent node agent e en # rows'"
      by (auto split: option.splits)
    obtain ens where "length ens = length (filter isAcceptableEvent (map the (filter (\<lambda>e. e \<noteq> None) es)))"
      and "rows' = map2 (enrichedFromEvent node agent)
         (filter isAcceptableEvent (map the (filter (\<lambda>e. e \<noteq> None) es))) ens"
      using "3.IH"(2) [OF _ en _ rest] True by auto
    with rows True show ?thesis by (intro exI [of _ "en # ens"]) simp
  qed
qed

lemma map2_project:
  "length ys = length xs \<Longrightarrow> (\<And>x y. f (g x y) = h x) \<Longrightarrow> map f (map2 g xs ys) = map h xs"
  by (induction xs ys rule: list_induct2') auto

text \<open>The loop of \<^verbatim>\<open>ListEvents\<close> against its specification: filter, then offset, then limit.\<close>

lemma listLoop_eq:
  "int (length out) < limit \<Longrightarrow>
   listLoop opts limit skipped es out =
     out @ take (nat (limit - int (length out)))
       (drop (nat (lo_offset opts - skipped)) (map the (filter (listMatches opts) es)))"
proof (induction opts limit skipped es out rule: listLoop.induct)
  case (1 opts limit skipped out)
  then show ?case by simp
next
  case (2 opts limit skipped event es out)
  show ?case
  proof (cases "listMatches opts event")
    case False
    with 2 show ?thesis by simp
  next
    case m: True
    show ?thesis
    proof (cases "skipped < lo_offset opts")
      case True
      then have "nat (lo_offset opts - skipped) = Suc (nat (lo_offset opts - (skipped + 1)))" by simp
      with 2 m True show ?thesis by simp
    next
      case False
      have one: "nat (limit - int (length out)) = Suc (nat (limit - int (length out) - 1))"
        using "2.prems" by simp
      show ?thesis
      proof (cases "limit \<le> int (length out) + 1")
        case True
        with "2.prems" have "nat (limit - int (length out) - 1) = 0" by simp
        with m False True one show ?thesis by (simp add: Let_def)
      next
        case more: False
        have "nat (limit - int (length (out @ [the event]))) = nat (limit - int (length out) - 1)"
          by simp
        with "2.IH"(3) [of "out @ [the event]"] m False more one show ?thesis
          by (simp add: Let_def)
      qed
    qed
  qed
qed

lemma takeWhile_drop_sorted:
  fixes f :: "'a \<Rightarrow> int"
  shows "sorted (map f xs) \<Longrightarrow> \<forall>x \<in> set (dropWhile (\<lambda>x. f x < c) xs). c \<le> f x"
proof (induction xs)
  case (Cons x xs)
  then show ?case by (cases "f x < c") auto
qed simp

inductive store_reachable :: "Store \<Rightarrow> bool" where
  reach_new: "store_reachable (NewStore maxEvents maxAge)"
| reach_append: "store_reachable s \<Longrightarrow> rows \<noteq> [] \<Longrightarrow> store_reachable (appendRows now rows s)"
| reach_advance: "store_reachable s \<Longrightarrow> store_reachable (AdvanceSendCursor n s)"
| reach_take: "store_reachable s \<Longrightarrow> store_reachable (snd (TakeDroppedUnsent s))"

lemma NewStore_ok: "store_ok (NewStore maxEvents maxAge)"
  by (simp add: store_ok_def NewStore_def Minute_def Second_def)

lemma NewStore_fresh [simp]:
  "unsent (NewStore maxEvents maxAge) = []" "st_droppedUnsent (NewStore maxEvents maxAge) = 0"
  by (simp_all add: unsent_def NewStore_def)

lemma TakeDroppedUnsent_ok: "store_ok s \<Longrightarrow> store_ok (snd (TakeDroppedUnsent s))"
  by (simp add: TakeDroppedUnsent_def store_ok_def)

lemma AppendBatch_cases:
  assumes "AppendBatch now batch enrich c s = Some (n, rows, c', s')"
  obtains "n = 0" "rows = []" "s' = s"
  | "n = int (length rows)" "rows \<noteq> []" "s' = appendRows now rows s"
  using assms by (auto simp: AppendBatch_def split: option.splits if_splits)

lemma AppendBatch_ok:
  assumes "store_ok s" and "AppendBatch now batch enrich c s = Some (n, rows, c', s')"
  shows "store_ok s'"
  using assms(2)
proof (cases rule: AppendBatch_cases)
  case 1
  with assms(1) show ?thesis by simp
next
  case 2
  with assms(1) show ?thesis by (simp add: retained.push_invar)
qed

section \<open>Properties\<close>

lemma AppendBatch_reachable:
  "store_reachable s \<Longrightarrow> AppendBatch now batch enrich c s = Some (n, rows, c', s') \<Longrightarrow> store_reachable s'"
  by (erule AppendBatch_cases) (auto intro: store_reachable.intros)

text \<open>
  C32: Every store the collector can reach, by any sequence of appends (whatever the batches,
  the enrichment callbacks and the clock), cursor advances and takes of the drop counter,
  satisfies the invariant: no nil entries, cursor within the buffer, at most \<^verbatim>\<open>maxEvents\<close>
  events, a non-negative drop counter.
\<close>
theorem store_reachable_ok: "store_reachable s \<Longrightarrow> store_ok s"
  by (induction rule: store_reachable.induct)
     (auto intro: NewStore_ok AdvanceSendCursor_ok TakeDroppedUnsent_ok retained.push_invar)

theorem store_reachable_ok_witness:
  "store_ok (AdvanceSendCursor 3 (NewStore 10 0)) \<and> st_maxAge (NewStore 10 0) = 900000000000"
  using store_reachable_ok [OF reach_advance [OF reach_new, of 3 10 0]]
  by (simp add: NewStore_def Minute_def Second_def)

text \<open>
  Retention is drop-oldest and fully accounted: after an append the unsent events are
  the previous unsent events followed by the new rows, less a prefix, and the drop counter
  has grown by exactly the length of that prefix.
\<close>
theorem AppendBatch_accounts_for_loss:
  assumes "store_ok s" and "AppendBatch now (Some b) enrich c s = Some (n, rows, c', s')"
  shows "\<exists>k. k \<le> length (unsent s) + length rows \<and>
    unsent s' = drop k (unsent s @ rows) \<and> st_droppedUnsent s' = st_droppedUnsent s + int k"
  using assms(2)
proof (cases rule: AppendBatch_cases)
  case 1
  then show ?thesis by (intro exI [of _ 0]) simp
next
  case 2
  with retained.push_drops_oldest [OF assms(1)] show ?thesis by simp
qed

text \<open>A TCP event for the witnesses below.\<close>

definition demoFlow :: "int \<Rightarrow> FlowEvent" where
  "demoFlow ts = \<lparr>fe_eventKind = KIND_TRAFFIC, fe_protocol = PROTOCOL_TCP, fe_timestampUnixNano = ts,
     fe_src = Some \<lparr>aw_namespace = ''ns'', aw_pod = ''web'', aw_container = ''c''\<rparr>,
     fe_srcEndpoint = None,
     fe_dst = Some \<lparr>ae_addr = ''10.0.0.1'', ae_port = 80\<rparr>,
     fe_bytesSent = 5, fe_bytesReceived = 7, fe_dns = None\<rparr>"

definition demoBatch :: "int list \<Rightarrow> FlowEventBatch" where
  "demoBatch tss = \<lparr>fb_nodeName = ''n1'', fb_agentId = ''a1'', fb_events = None # map (Some \<circ> demoFlow) tss\<rparr>"

abbreviation demoRow :: "int \<Rightarrow> EnrichedFlowEvent" where
  "demoRow ts \<equiv> enrichedFromEvent ''n1'' ''a1'' (demoFlow ts) (defaultEnrichment (demoFlow ts))"

lemma demoFlow_acceptable [simp]: "isAcceptableEvent (demoFlow ts)"
  by (simp add: isAcceptableEvent_def demoFlow_def)

lemma demoFlow_ts [simp]: "fe_timestampUnixNano (demoFlow ts) = ts"
  by (simp add: demoFlow_def)

lemma demoRow_ts: "ee_timestampUnixNano (demoRow ts) = ts"
  by simp

lemma demoRow_inj [simp]: "demoRow a = demoRow b \<longleftrightarrow> a = b"
  by (metis demoRow_ts)

theorem AppendBatch_accounts_for_loss_witness:
  "\<exists>k. k \<le> 2 \<and> unsent (appendRows 100 [demoRow 1, demoRow 2] (NewStore 1 0)) = drop k [demoRow 1, demoRow 2] \<and>
     st_droppedUnsent (appendRows 100 [demoRow 1, demoRow 2] (NewStore 1 0)) = int k"
proof -
  let ?s = "NewStore 1 0" and ?rows = "[demoRow 1, demoRow 2]"
  have "AppendBatch 100 (Some (demoBatch [1, 2])) None () ?s = Some (2, ?rows, (), appendRows 100 ?rows ?s)"
    by (simp add: AppendBatch_def demoBatch_def runEnrich_def)
  from AppendBatch_accounts_for_loss [OF NewStore_ok this]
  show ?thesis by (simp add: numeral_2_eq_2)
qed

text \<open>
  An append that does not panic accepts exactly the non-nil acceptable events of the
  batch, in order: the count returned is their number and the stored rows carry their
  timestamps, kinds, and sources, stamped with the batch's node and agent.
\<close>
theorem AppendBatch_accepts:
  assumes "AppendBatch now (Some b) enrich c s = Some (n, rows, c', s')"
  shows "n = int (length (acceptedEvents b)) \<and>
    map ee_timestampUnixNano rows = map fe_timestampUnixNano (acceptedEvents b) \<and>
    map ee_eventKind rows = map fe_eventKind (acceptedEvents b) \<and>
    map ee_src rows = map (cloneWorkloadRef \<circ> fe_src) (acceptedEvents b) \<and>
    (\<forall>r \<in> set rows. ee_nodeName r = fb_nodeName b \<and> ee_agentId r = fb_agentId b)"
proof -
  have "enrichRows enrich (fb_nodeName b) (fb_agentId b) (fb_events b) c = Some (rows, c')"
    and n: "n = int (length rows)"
    using assms by (auto simp: AppendBatch_def split: option.splits if_splits)
  then obtain ens where len: "length ens = length (acceptedEvents b)"
    and rows: "rows = map2 (enrichedFromEvent (fb_nodeName b) (fb_agentId b)) (acceptedEvents b) ens"
    unfolding acceptedEvents_def by (blast dest: enrichRows_carries)
  note project = map2_project [OF len, of _ "enrichedFromEvent (fb_nodeName b) (fb_agentId b)",
      folded rows]
  have "map ee_timestampUnixNano rows = map fe_timestampUnixNano (acceptedEvents b)"
    "map ee_eventKind rows = map fe_eventKind (acceptedEvents b)"
    "map ee_src rows = map (cloneWorkloadRef \<circ> fe_src) (acceptedEvents b)"
    by (rule project, simp)+
  moreover have "\<forall>r \<in> set rows. ee_nodeName r = fb_nodeName b \<and> ee_agentId r = fb_agentId b"
    by (auto simp: rows)
  ultimately show ?thesis
    using n len by (simp add: rows)
qed

theorem AppendBatch_accepts_witness:
  "acceptedEvents (demoBatch [1, 2]) = [demoFlow 1, demoFlow 2] \<and>
   int (length (acceptedEvents (demoBatch [1, 2]))) = 2"
proof -
  have "AppendBatch 100 (Some (demoBatch [1, 2])) None () (NewStore 5 0) =
      Some (2, [demoRow 1, demoRow 2], (), appendRows 100 [demoRow 1, demoRow 2] (NewStore 5 0))"
    by (simp add: AppendBatch_def demoBatch_def runEnrich_def)
  from AppendBatch_accepts [OF this] show ?thesis
    by (simp add: acceptedEvents_def demoBatch_def)
qed

text \<open>
  When the buffered events are in time order, every event kept by an append is at most
  \<^verbatim>\<open>maxAge\<close> old, and there are at most \<^verbatim>\<open>maxEvents\<close> of them.
\<close>
theorem appendRows_age_and_size:
  assumes "store_ok s"
    and "sorted (map GetTimestampUnixNano (st_events s @ map Some rows))"
  shows "(\<forall>e \<in> set (st_events (appendRows now rows s)). now - st_maxAge s \<le> GetTimestampUnixNano e) \<and>
    int (length (st_events (appendRows now rows s))) \<le> st_maxEvents s"
proof -
  define s0 where "s0 = s\<lparr>st_events := st_events s @ map Some rows\<rparr>"
  let ?old = "\<lambda>e. GetTimestampUnixNano e < now - st_maxAge s"
  have ev: "st_events (store_pruneLocked now s0) = dropWhile ?old (st_events s0)"
  proof (cases "st_events s0 = []")
    case True
    then show ?thesis by (simp add: store_pruneLocked_def)
  next
    case False
    then have "st_events (store_pruneLocked now s0) =
        drop (length (takeWhile ?old (st_events s0))) (st_events s0)"
      using assms(1)
      by (auto simp: store_pruneLocked_def Let_def adjustCursorOnDrop_def store_ok_def s0_def)
    then show ?thesis by (simp only: dropWhile_eq_drop)
  qed
  have "\<forall>e \<in> set (st_events (store_pruneLocked now s0)). now - st_maxAge s \<le> GetTimestampUnixNano e"
    unfolding ev using assms(2) by (intro takeWhile_drop_sorted) (simp add: s0_def)
  moreover have "set (st_events (store_enforceMaxLocked t)) \<subseteq> set (st_events t)" for t
    by (auto simp: store_enforceMaxLocked_def Let_def adjustCursorOnDrop_def dest: in_set_dropD)
  moreover have "int (length (st_events (appendRows now rows s))) \<le> st_maxEvents s"
    using appendRows_effect [OF assms(1)] by (metis store_ok_def)
  ultimately show ?thesis
    by (auto simp: appendRows_def s0_def [symmetric])
qed

theorem appendRows_age_and_size_witness:
  "list_all (\<lambda>e. (100::int) \<le> GetTimestampUnixNano e)
     (st_events (appendRows 900000000100 [demoRow 1, demoRow 200] (NewStore 5 0)))"
  using appendRows_age_and_size [OF NewStore_ok, of "5" 0 "[demoRow 1, demoRow 200]" 900000000100]
  by (simp add: NewStore_def Minute_def Second_def list_all_iff)

text \<open>
  A query returns exactly the matching events in buffer order, after skipping \<^verbatim>\<open>offset\<close> of
  them and up to \<^verbatim>\<open>limit\<close>; a limit of zero or less means no limit. A limit beyond what can be
  allocated makes the query panic, however few events there are.
\<close>
theorem ListEvents_spec:
  assumes "int (length (st_events s)) \<le> maxSliceCap"
  shows "ListEvents opts s =
     (let ms = drop (nat (lo_offset opts)) (map the (filter (listMatches opts) (st_events s)))
      in if lo_limit opts > maxSliceCap then None
         else Some (if lo_limit opts \<le> 0 then ms else take (nat (lo_limit opts)) ms))"
proof -
  have len: "length (drop k (map the (filter P es))) \<le> length es"
    for k P and es :: "EnrichedFlowEvent option list"
    by (simp add: le_diff_conv trans_le_add1)
  have pos: "0 < maxSliceCap" by (simp add: maxSliceCap_def)
  show ?thesis
  proof (cases "st_events s = []")
    case True
    with pos show ?thesis by (simp add: ListEvents_def)
  next
    case False
    then show ?thesis using assms pos len by (simp add: ListEvents_def Let_def listLoop_eq)
  qed
qed

definition demoListOpts :: ListOpts where
  "demoListOpts = \<lparr>lo_since = 0, lo_limit = 1, lo_offset = 1, lo_namespace = '''', lo_eventKind = KIND_UNSPECIFIED,
     lo_srcWorkloadKind = '''', lo_dstKind = ''''\<rparr>"

theorem ListEvents_spec_witness:
  "ListEvents demoListOpts (NewStore 5 0\<lparr>st_events := map Some [demoRow 1, demoRow 2, demoRow 3]\<rparr>) = Some [demoRow 2]"
  using ListEvents_spec [of "NewStore 5 0\<lparr>st_events := map Some [demoRow 1, demoRow 2, demoRow 3]\<rparr>" demoListOpts]
  by (simp add: demoListOpts_def listMatches_def maxSliceCap_def)

text \<open>
  A peek on a store that satisfies the invariant returns nothing exactly when nothing is
  unsent; otherwise it returns a non-empty prefix of the unsent events, all of one node and
  agent, not longer than the limit, and it stops early only at an event of another sender.
\<close>
theorem PeekUnsentBatch_spec:
  assumes "store_ok s" and "0 < mx"
  shows "(PeekUnsentBatch mx s = None \<longleftrightarrow> unsent s = []) \<and>
    (\<forall>node agent es. PeekUnsentBatch mx s = Some (node, agent, es) \<longrightarrow>
       (\<exists>rest. es \<noteq> [] \<and> unsent s = es @ rest \<and> int (length es) \<le> mx \<and>
         (\<forall>e \<in> set es. ee_nodeName e = node \<and> ee_agentId e = agent) \<and>
         (int (length es) < mx \<longrightarrow> rest = [] \<or> ee_nodeName (hd rest) \<noteq> node \<or> ee_agentId (hd rest) \<noteq> agent)))"
proof (intro conjI allI impI)
  show "(PeekUnsentBatch mx s = None) = (unsent s = [])"
    using assms(1) by (simp add: PeekUnsentBatch_eq split: list.splits)
next
  fix node agent es
  assume pk: "PeekUnsentBatch mx s = Some (node, agent, es)"
  let ?P = "\<lambda>x. ee_nodeName x = node \<and> ee_agentId x = agent"
  from pk assms have es: "es = takeWhile ?P (take (nat mx) (unsent s))"
    by (auto simp: PeekUnsentBatch_eq split: list.splits)
  from sending.peek_Some [OF assms(1), of mx es] pk
  obtain rest where ne: "es \<noteq> []" and u: "unsent s = es @ rest" by auto
  have len: "length es \<le> nat mx"
    unfolding es by (rule order_trans [OF length_takeWhile_le]) simp
  have all: "\<forall>e \<in> set es. ?P e" unfolding es by (auto dest: set_takeWhileD)
  have stop: "rest = [] \<or> \<not> ?P (hd rest)" if "length es < nat mx"
  proof (cases rest)
    case (Cons r rs)
    have "takeWhile ?P (take (nat mx) (es @ r # rs)) = es @ takeWhile ?P (take (nat mx - length es) (r # rs))"
      using len all by (subst takeWhile_append2 [symmetric]) auto
    with es u Cons that have "\<not> ?P r"
      by (cases "nat mx - length es") (auto split: if_splits)
    with Cons show ?thesis by simp
  qed simp
  show "\<exists>rest. es \<noteq> [] \<and> unsent s = es @ rest \<and> int (length es) \<le> mx \<and> (\<forall>e \<in> set es. ?P e) \<and>
         (int (length es) < mx \<longrightarrow> rest = [] \<or> ee_nodeName (hd rest) \<noteq> node \<or> ee_agentId (hd rest) \<noteq> agent)"
    using ne u len all stop assms(2) by (intro exI [of _ rest]) auto
qed

theorem PeekUnsentBatch_spec_witness:
  "store_ok (NewStore 5 0) \<and> PeekUnsentBatch 3 (NewStore 5 0) = None"
  using PeekUnsentBatch_spec [OF NewStore_ok, of 3 5 0] NewStore_ok
  by simp

end
