(* ===== verification/Upstream_Tls.thy ===== *)
theory Upstream_Tls
  imports Prelude
begin

text \<open>
  Address normalisation and the choice of transport credentials for the connection to
  Insights (\<^verbatim>\<open>pkg/collector/upstream/addr.go\<close>, \<^verbatim>\<open>tls.go\<close>). Reading a CA bundle touches the file
  system and the x509 library: these are parameters of \<open>loadCertPool\<close>.
\<close>

definition normalizeGRPCAddr :: "string \<Rightarrow> string" where
  "normalizeGRPCAddr addr = TrimPrefix (TrimPrefix (TrimSpace addr) ''http://'') ''https://''"

datatype TLSMode = TLSModeAuto | TLSModeOn | TLSModeOff

definition ParseTLSMode :: "string \<Rightarrow> TLSMode" where
  "ParseTLSMode value =
     (let v = ToLower (TrimSpace value) in
      if v \<in> set [''true'', ''on'', ''1'', ''yes''] then TLSModeOn
      else if v \<in> set [''false'', ''off'', ''0'', ''no''] then TLSModeOff
      else TLSModeAuto)"

record TLSConfig =
  tls_mode :: TLSMode
  tls_serverName :: string
  tls_caFile :: string

definition autoTLSEnabled :: "string \<Rightarrow> bool" where
  "autoTLSEnabled addr =
     (let addr = TrimSpace addr in
      if HasPrefix (ToLower addr) ''https://'' then True
      else case SplitHostPort (normalizeGRPCAddr addr) of
             None \<Rightarrow> False
           | Some (_, port) \<Rightarrow> port = ''443'')"

definition enabledFor :: "TLSConfig \<Rightarrow> string \<Rightarrow> bool" where
  "enabledFor t addr =
     (case tls_mode t of
        TLSModeOn \<Rightarrow> True
      | TLSModeOff \<Rightarrow> False
      | TLSModeAuto \<Rightarrow> autoTLSEnabled addr)"

definition hostFromGRPCAddr :: "string \<Rightarrow> string" where
  "hostFromGRPCAddr addr =
     (let addr = normalizeGRPCAddr addr in
      if addr = '''' then ''''
      else case SplitHostPort addr of
             None \<Rightarrow> TrimBytes addr ''[]''
           | Some (host, _) \<Rightarrow> TrimBytes host ''[]'')"

datatype tls_error = ServerNameRequired | CAFileError string

record 'pool ca_io =
  ca_readFile :: "string \<Rightarrow> string + string"
  ca_systemPool :: "'pool option"
  ca_newPool :: 'pool
  ca_appendPEM :: "'pool \<Rightarrow> string \<Rightarrow> 'pool \<times> bool"

text \<open>
  \<^verbatim>\<open>ca_readFile\<close> is \<^verbatim>\<open>os.ReadFile\<close> (\<^const>\<open>Inl\<close> its error), \<^verbatim>\<open>ca_systemPool\<close> is
  \<^verbatim>\<open>x509.SystemCertPool\<close> (\<^const>\<open>None\<close> for an error or a nil pool), \<^verbatim>\<open>ca_newPool\<close> is
  \<^verbatim>\<open>x509.NewCertPool\<close> and \<^verbatim>\<open>ca_appendPEM\<close> is \<^verbatim>\<open>AppendCertsFromPEM\<close>.
\<close>

definition loadCertPool :: "'pool ca_io \<Rightarrow> string \<Rightarrow> string + 'pool" where
  "loadCertPool io path =
     (case ca_readFile io path of
        Inl err \<Rightarrow> Inl err
      | Inr content \<Rightarrow>
          (let pool = (case ca_systemPool io of None \<Rightarrow> ca_newPool io | Some p \<Rightarrow> p) in
           case ca_appendPEM io pool content of
             (pool', added) \<Rightarrow>
               if \<not> added then Inl (''no certificates found in '' @ path) else Inr pool'))"

record 'pool tls_settings =
  ts_serverName :: string
  ts_rootCAs :: "'pool option"

text \<open>\<open>Inr None\<close> is a nil configuration: plaintext credentials. \<^verbatim>\<open>transportCredentials\<close> wraps the result.\<close>

definition buildTLSConfig :: "'pool ca_io \<Rightarrow> string \<Rightarrow> TLSConfig \<Rightarrow> tls_error + 'pool tls_settings option" where
  "buildTLSConfig io addr tlsCfg =
     (if \<not> enabledFor tlsCfg addr then Inr None
      else
        let trimmed = TrimSpace (tls_serverName tlsCfg);
            serverName = (if trimmed = '''' then hostFromGRPCAddr addr else trimmed)
        in if serverName = '''' then Inl ServerNameRequired
           else if tls_caFile tlsCfg \<noteq> ''''
           then (case loadCertPool io (tls_caFile tlsCfg) of
                   Inl err \<Rightarrow> Inl (CAFileError err)
                 | Inr pool \<Rightarrow> Inr (Some \<lparr>ts_serverName = serverName, ts_rootCAs = Some pool\<rparr>))
           else Inr (Some \<lparr>ts_serverName = serverName, ts_rootCAs = None\<rparr>))"

datatype 'pool credentials = InsecureCredentials | TLSCredentials "'pool tls_settings"

definition transportCredentials :: "'pool ca_io \<Rightarrow> string \<Rightarrow> TLSConfig \<Rightarrow> tls_error + 'pool credentials" where
  "transportCredentials io addr tlsCfg =
     (case buildTLSConfig io addr tlsCfg of
        Inl err \<Rightarrow> Inl err
      | Inr None \<Rightarrow> Inr InsecureCredentials
      | Inr (Some config) \<Rightarrow> Inr (TLSCredentials config))"

section \<open>Lemmas\<close>

lemma TrimPrefix_suffix: "suffix (TrimPrefix s p) s"
  by (auto simp: TrimPrefix_def suffix_drop)

text \<open>The bytes of a host name or port: visible, and none of the delimiters of an address.\<close>

definition hostByte :: "char \<Rightarrow> bool" where
  "hostByte c \<longleftrightarrow> isGraph c \<and> c \<notin> set '':/[]''"

lemma hostByte_graph: "hostByte c \<Longrightarrow> isGraph c"
  by (simp add: hostByte_def)

lemma graph_append: "(\<forall>c \<in> set (s @ t). isGraph c) \<longleftrightarrow> (\<forall>c \<in> set s. isGraph c) \<and> (\<forall>c \<in> set t. isGraph c)"
  by (simp add: ball_Un)

lemma HasPrefix_no_slash: "CHR ''/'' \<notin> set s \<Longrightarrow> CHR ''/'' \<in> set p \<Longrightarrow> \<not> HasPrefix s p"
  by (auto simp: HasPrefix_iff)

text \<open>For a plain \<open>host:port\<close> the automatic mode looks at the port only.\<close>

lemma autoTLSEnabled_plain:
  assumes "\<forall>c \<in> set host. hostByte c" and "\<forall>c \<in> set port. hostByte c"
  shows "normalizeGRPCAddr (host @ '':'' @ port) = host @ '':'' @ port"
    and "autoTLSEnabled (host @ '':'' @ port) \<longleftrightarrow> port = ''443''"
proof -
  let ?a = "host @ '':'' @ port"
  have "\<forall>c \<in> set '':''. isGraph c" by code_simp
  then have graph: "\<forall>c \<in> set ?a. isGraph c"
    using assms hostByte_graph by (simp only: graph_append) blast
  have slash: "CHR ''/'' \<notin> set ?a" using assms by (auto simp: hostByte_def)
  then have "CHR ''/'' \<notin> set (ToLower ?a)"
    unfolding ToLower_def set_map image_iff using lowerByte_slash by metis
  then have low: "\<not> HasPrefix (ToLower ?a) ''https://''" by (rule HasPrefix_no_slash) simp
  have t: "TrimSpace ?a = ?a" using graph by (rule TrimSpace_graph)
  have "\<not> HasPrefix ?a ''http://''" "\<not> HasPrefix ?a ''https://''"
    using slash by (rule HasPrefix_no_slash, simp)+
  with t show n: "normalizeGRPCAddr ?a = ?a"
    by (simp add: normalizeGRPCAddr_def TrimPrefix_def)
  have "SplitHostPort (host @ CHR '':'' # port) = Some (host, port)"
    using assms by (intro SplitHostPort_plain) (auto simp: hostByte_def)
  with t low n show "autoTLSEnabled ?a \<longleftrightarrow> port = ''443''"
    by (simp add: autoTLSEnabled_def Let_def)
qed

lemma https_address:
  assumes "\<forall>c \<in> set host. hostByte c" and "\<forall>c \<in> set port. hostByte c"
  shows "normalizeGRPCAddr (''https://'' @ host @ '':'' @ port) = host @ '':'' @ port"
    and "autoTLSEnabled (''https://'' @ host @ '':'' @ port)"
proof -
  let ?a = "''https://'' @ host @ '':'' @ port"
  have "\<forall>c \<in> set '':''. isGraph c" "\<forall>c \<in> set ''https://''. isGraph c" by code_simp+
  then have "\<forall>c \<in> set ?a. isGraph c"
    using assms hostByte_graph by (simp only: graph_append) blast
  then have t: "TrimSpace ?a = ?a" by (rule TrimSpace_graph)
  have "\<not> HasPrefix ?a ''http://''" by (simp add: HasPrefix_def)
  with t show "normalizeGRPCAddr ?a = host @ '':'' @ port"
    by (simp only: normalizeGRPCAddr_def TrimPrefix_append) (simp add: TrimPrefix_def HasPrefix_def)
  have "HasPrefix (ToLower ?a) ''https://''" by (simp add: ToLower_def HasPrefix_def lowerByte_def)
  with t show "autoTLSEnabled ?a" by (simp add: autoTLSEnabled_def)
qed

lemma transportCredentials_insecure_iff:
  "transportCredentials io addr cfg = Inr InsecureCredentials \<longleftrightarrow> \<not> enabledFor cfg addr"
  by (auto simp: transportCredentials_def buildTLSConfig_def Let_def
      split: sum.splits option.splits if_splits)

lemma enabledFor_auto: "tls_mode cfg = TLSModeAuto \<Longrightarrow> enabledFor cfg addr = autoTLSEnabled addr"
  by (simp add: enabledFor_def)

end
