(* ===== verification/Upstream_Client.thy ===== *)
theory Upstream_Client
  imports Flow_Store Upstream_Tls
begin

text \<open>
  The gRPC client that forwards stored events to Insights
  (\<^verbatim>\<open>pkg/collector/upstream/client.go\<close>): configuration defaults, the send loop over the
  store, the throttled log lines about losses and progress, the reconnect loop, and the
  interleaving of the send loop with appends by the collector's gRPC handlers.
\<close>

definition statusLogInterval :: duration where "statusLogInterval = Minute"
definition slowSendThreshold :: duration where "slowSendThreshold = 5 * Second"

record UpConfig =
  uc_insightsAddr :: string
  uc_organization :: string
  uc_cluster :: string
  uc_authToken :: string
  uc_tls :: TLSConfig
  uc_batchSize :: int
  uc_flushInterval :: duration
  uc_backoffMin :: duration
  uc_backoffMax :: duration

text \<open>The lines written to the log, with the attributes that depend on the state.\<close>

datatype UpLog =
    UpDropped int int int string "duration option" \<comment> \<open>dropped, unsent, buffered, reason, age\<close>
  | UpStalled int int int int "duration option" \<comment> \<open>events, batches, unsent, buffered, age\<close>
  | UpProgress int int int int "duration option"
  | UpSlow duration int string string int \<comment> \<open>duration, events, node, agent, unsent\<close>
  | UpBatchSent int string string

record UpClient =
  up_cfg :: UpConfig
  up_flushCh :: bool \<comment> \<open>whether the channel of capacity one holds a token\<close>
  up_dropLogNext :: go_time
  up_pendingDropLogCount :: int
  up_pendingDropLogReason :: string
  up_slowSendLogNext :: go_time
  up_sentEventsSinceLog :: int
  up_sentBatchesSinceLog :: int
  up_sessionSentEvents :: int
  up_sessionSentBatches :: int
  up_sessionConnectedAt :: go_time
  up_log :: "UpLog list"

definition upDefaults :: "UpConfig \<Rightarrow> UpConfig" where
  "upDefaults cfg = cfg
     \<lparr>uc_insightsAddr := normalizeGRPCAddr (uc_insightsAddr cfg),
      uc_batchSize := (if uc_batchSize cfg \<le> 0 then 10000 else uc_batchSize cfg),
      uc_flushInterval := (if uc_flushInterval cfg \<le> 0 then 10 * Second else uc_flushInterval cfg),
      uc_backoffMin := (if uc_backoffMin cfg \<le> 0 then Second else uc_backoffMin cfg),
      uc_backoffMax := (if uc_backoffMax cfg \<le> 0 then 30 * Second else uc_backoffMax cfg)\<rparr>"

definition NewUpClient :: "UpConfig \<Rightarrow> UpClient" where
  "NewUpClient cfg =
     \<lparr>up_cfg = upDefaults cfg, up_flushCh = False, up_dropLogNext = zeroTime,
      up_pendingDropLogCount = 0, up_pendingDropLogReason = '''', up_slowSendLogNext = zeroTime,
      up_sentEventsSinceLog = 0, up_sentBatchesSinceLog = 0, up_sessionSentEvents = 0,
      up_sessionSentBatches = 0, up_sessionConnectedAt = zeroTime, up_log = []\<rparr>"

definition upSignalFlush :: "UpClient \<Rightarrow> UpClient" where
  "upSignalFlush c = c\<lparr>up_flushCh := True\<rparr>"

definition UpFlush :: "UpClient \<Rightarrow> UpClient" where
  "UpFlush c = upSignalFlush c"

definition NotifyAppended :: "Store \<Rightarrow> UpClient \<Rightarrow> UpClient" where
  "NotifyAppended st c =
     (if UnsentCount st \<ge> uc_batchSize (up_cfg c) then upSignalFlush c else c)"

text \<open>The credentials \<^verbatim>\<open>dialStream\<close> asks for; dialling itself is gRPC.\<close>

definition dialCredentials :: "'pool ca_io \<Rightarrow> UpClient \<Rightarrow> tls_error + 'pool credentials" where
  "dialCredentials io c = transportCredentials io (uc_insightsAddr (up_cfg c)) (uc_tls (up_cfg c))"

section \<open>Throttled logging and session statistics\<close>

definition ageAttr :: "duration \<Rightarrow> duration option" where
  "ageAttr age = (if age > 0 then Some age else None)"

definition logDroppedUnsent :: "go_time \<Rightarrow> Store \<Rightarrow> UpClient \<Rightarrow> Store \<times> UpClient" where
  "logDroppedUnsent now st c =
     (case TakeDroppedUnsent st of
        ((count, reason), st') \<Rightarrow>
          if count = 0 then (st', c)
          else
            let c1 = c\<lparr>up_pendingDropLogCount := up_pendingDropLogCount c + count,
                       up_pendingDropLogReason :=
                         (if reason \<noteq> '''' then reason else up_pendingDropLogReason c)\<rparr>
            in if now < up_dropLogNext c1 then (st', c1)
               else (st', c1\<lparr>up_dropLogNext := now + statusLogInterval,
                             up_pendingDropLogCount := 0, up_pendingDropLogReason := '''',
                             up_log := up_log c1 @
                               [UpDropped (up_pendingDropLogCount c1) (UnsentCount st') (StoreCount st')
                                 (up_pendingDropLogReason c1) (ageAttr (OldestUnsentAge now st'))]\<rparr>))"

definition beginSession :: "go_time \<Rightarrow> UpClient \<Rightarrow> UpClient" where
  "beginSession now c = c\<lparr>up_sessionSentEvents := 0, up_sessionSentBatches := 0,
     up_sessionConnectedAt := now, up_sentEventsSinceLog := 0, up_sentBatchesSinceLog := 0\<rparr>"

definition noteSent :: "int \<Rightarrow> int \<Rightarrow> UpClient \<Rightarrow> UpClient" where
  "noteSent events batches c =
     (if events \<le> 0 \<and> batches \<le> 0 then c
      else c\<lparr>up_sentEventsSinceLog := up_sentEventsSinceLog c + events,
             up_sentBatchesSinceLog := up_sentBatchesSinceLog c + batches,
             up_sessionSentEvents := up_sessionSentEvents c + events,
             up_sessionSentBatches := up_sessionSentBatches c + batches\<rparr>)"

definition maybeLogSendProgress :: "go_time \<Rightarrow> Store \<Rightarrow> UpClient \<Rightarrow> UpClient" where
  "maybeLogSendProgress now st c =
     (let events = up_sentEventsSinceLog c;
          batches = up_sentBatchesSinceLog c;
          c1 = c\<lparr>up_sentEventsSinceLog := 0, up_sentBatchesSinceLog := 0\<rparr>;
          unsentN = UnsentCount st;
          buffered = StoreCount st;
          oldest = OldestUnsentAge now st
      in if events = 0 \<and> batches = 0 \<and> unsentN = 0 then c1
         else if events = 0 \<and> unsentN > 0 \<and> oldest \<ge> statusLogInterval
         then c1\<lparr>up_log := up_log c1 @ [UpStalled events batches unsentN buffered (ageAttr oldest)]\<rparr>
         else c1\<lparr>up_log := up_log c1 @ [UpProgress events batches unsentN buffered (ageAttr oldest)]\<rparr>)"

definition noteSlowSend :: "go_time \<Rightarrow> duration \<Rightarrow> int \<Rightarrow> string \<Rightarrow> string \<Rightarrow> Store \<Rightarrow> UpClient \<Rightarrow> UpClient" where
  "noteSlowSend now elapsed events node agent st c =
     (if elapsed < slowSendThreshold then c
      else if now < up_slowSendLogNext c then c
      else c\<lparr>up_slowSendLogNext := now + statusLogInterval,
             up_log := up_log c @ [UpSlow elapsed events node agent (UnsentCount st)]\<rparr>)"

definition connectedFor :: "go_time \<Rightarrow> UpClient \<Rightarrow> duration" where
  "connectedFor now c =
     (if isZeroTime (up_sessionConnectedAt c) then 0 else timeSub now (up_sessionConnectedAt c))"

section \<open>The send loop\<close>

text \<open>
  The stream and the clock are the environment, with a state \<open>'w\<close>: \<open>env_send\<close> is
  \<^verbatim>\<open>stream.Send\<close> (\<^const>\<open>True\<close> for a nil error), \<open>env_now\<close> is \<^verbatim>\<open>time.Now\<close>.
\<close>

record ('w, 'm) grpc_env =
  env_send :: "'m \<Rightarrow> 'w \<Rightarrow> 'w \<times> bool"
  env_now :: "'w \<Rightarrow> go_time"

record 'w send_state =
  ss_world :: 'w
  ss_store :: Store
  ss_client :: UpClient
  ss_sent :: "EnrichedFlowEventBatch list" \<comment> \<open>history: the messages \<^verbatim>\<open>Send\<close> accepted\<close>
  ss_appended :: "EnrichedFlowEvent list" \<comment> \<open>history: the rows appended to the store\<close>

definition upMessage :: "UpConfig \<Rightarrow> string \<Rightarrow> string \<Rightarrow> EnrichedFlowEvent list \<Rightarrow> EnrichedFlowEventBatch" where
  "upMessage cfg node agent es =
     \<lparr>eb_organization = uc_organization cfg, eb_cluster = uc_cluster cfg,
      eb_nodeName = node, eb_agentId = agent, eb_events = es\<rparr>"

definition upAfterSend :: "go_time \<Rightarrow> go_time \<Rightarrow> 'w \<Rightarrow> string \<Rightarrow> string \<Rightarrow> EnrichedFlowEvent list \<Rightarrow>
    'w send_state \<Rightarrow> 'w send_state" where
  "upAfterSend started finished w node agent es ss =
     (let n = int (length es);
          c1 = noteSlowSend finished (timeSub finished started) n node agent (ss_store ss) (ss_client ss);
          st1 = AdvanceSendCursor n (ss_store ss);
          c2 = noteSent n 1 c1
      in ss\<lparr>ss_world := w, ss_store := st1,
            ss_client := c2\<lparr>up_log := up_log c2 @ [UpBatchSent n node agent]\<rparr>,
            ss_sent := ss_sent ss @ [upMessage (up_cfg (ss_client ss)) node agent es]\<rparr>)"

lemma PeekUnsentBatch_progress:
  assumes "PeekUnsentBatch mx s = Some (node, agent, es)"
  shows "es \<noteq> [] \<and> st_sendCursor s < length (st_events s)"
proof -
  let ?rest = "dropWhile (\<lambda>e. e = None) (drop (st_sendCursor s) (st_events s))"
  from assms have "?rest \<noteq> []"
    by (cases ?rest) (simp_all add: PeekUnsentBatch_def Let_def)
  then have "drop (st_sendCursor s) (st_events s) \<noteq> []"
    by (metis dropWhile.simps(1))
  moreover from assms have "es \<noteq> []"
    by (auto simp: PeekUnsentBatch_def Let_def split: list.splits if_splits)
  ultimately show ?thesis by simp
qed

lemma AdvanceSendCursor_progress:
  assumes "es \<noteq> []" and "st_sendCursor s < length (st_events s)"
  shows "length (st_events (AdvanceSendCursor (int (length es)) s)) -
           st_sendCursor (AdvanceSendCursor (int (length es)) s)
         < length (st_events s) - st_sendCursor s"
  using assms by (cases es) (auto simp: AdvanceSendCursor_def Let_def)

lemma upAfterSend_store [simp]:
  "ss_store (upAfterSend a b w node agent es ss) = AdvanceSendCursor (int (length es)) (ss_store ss)"
  by (simp add: upAfterSend_def Let_def)

function sendLoop :: "('w, EnrichedFlowEventBatch) grpc_env \<Rightarrow> 'w send_state \<Rightarrow> 'w send_state \<times> bool" where
  "sendLoop env ss =
     (case PeekUnsentBatch (uc_batchSize (up_cfg (ss_client ss))) (ss_store ss) of
        None \<Rightarrow> (ss, True)
      | Some (node, agent, es) \<Rightarrow>
          (case env_send env (upMessage (up_cfg (ss_client ss)) node agent es) (ss_world ss) of
             (w, ok) \<Rightarrow>
               if \<not> ok then (ss\<lparr>ss_world := w\<rparr>, False)
               else sendLoop env (upAfterSend (env_now env (ss_world ss)) (env_now env w) w node agent es ss)))"
  by pat_completeness auto
termination
proof (relation "measure (\<lambda>(env, ss). length (st_events (ss_store ss)) - st_sendCursor (ss_store ss))")
  fix env :: "('w, EnrichedFlowEventBatch) grpc_env" and ss :: "'w send_state" and p p' node agent es w ok
  assume "PeekUnsentBatch (uc_batchSize (up_cfg (ss_client ss))) (ss_store ss) = Some p"
    and "(node, p') = p" "(agent, es) = p'"
  then have "es \<noteq> []" and "st_sendCursor (ss_store ss) < length (st_events (ss_store ss))"
    using PeekUnsentBatch_progress by blast+
  then show "((env, upAfterSend (env_now env (ss_world ss)) (env_now env w) w node agent es ss), env, ss)
      \<in> measure (\<lambda>(env, ss). length (st_events (ss_store ss)) - st_sendCursor (ss_store ss))"
    using AdvanceSendCursor_progress by simp
qed simp

declare sendLoop.simps [simp del]

definition upSendPending :: "('w, EnrichedFlowEventBatch) grpc_env \<Rightarrow> 'w send_state \<Rightarrow> 'w send_state \<times> bool" where
  "upSendPending env ss =
     (case logDroppedUnsent (env_now env (ss_world ss)) (ss_store ss) (ss_client ss) of
        (st, c) \<Rightarrow> sendLoop env (ss\<lparr>ss_store := st, ss_client := c\<rparr>))"

section \<open>The reconnect loop\<close>

text \<open>\<^verbatim>\<open>current * 2\<close> is computed on 64 bits.\<close>

definition upNextBackoff :: "duration \<Rightarrow> duration \<Rightarrow> duration" where
  "upNextBackoff backoffMax current =
     (let nxt = wrap64 (current * 2) in if nxt > backoffMax then backoffMax else nxt)"

text \<open>
  What the goroutine of \<^verbatim>\<open>Run\<close> can see while it waits: the ticker, a flush token, the
  cancelled context, and the work of the other goroutines (a handler that appends rows and
  calls \<^verbatim>\<open>NotifyAppended\<close>, the status logger).
\<close>

datatype run_event =
    Tick
  | FlushReady
  | CtxDone
  | Appended go_time "EnrichedFlowEvent list"
  | StatusTick go_time

datatype run_end = StillRunning | EndDone | EndErr

definition otherAppend :: "go_time \<Rightarrow> EnrichedFlowEvent list \<Rightarrow> 'w send_state \<Rightarrow> 'w send_state" where
  "otherAppend now rows ss =
     (if rows = [] then ss
      else let st = appendRows now rows (ss_store ss)
           in ss\<lparr>ss_store := st, ss_client := NotifyAppended st (ss_client ss),
                 ss_appended := ss_appended ss @ rows\<rparr>)"

fun upRunConnected :: "('w, EnrichedFlowEventBatch) grpc_env \<Rightarrow> run_event list \<Rightarrow> 'w send_state \<Rightarrow>
    'w send_state \<times> run_end" where
  "upRunConnected env [] ss = (ss, StillRunning)"
| "upRunConnected env (CtxDone # evs) ss = (ss, EndDone)"
| "upRunConnected env (Tick # evs) ss =
     (case upSendPending env ss of
        (ss', ok) \<Rightarrow> if ok then upRunConnected env evs ss' else (ss', EndErr))"
| "upRunConnected env (FlushReady # evs) ss =
     (if \<not> up_flushCh (ss_client ss) then upRunConnected env evs ss
      else case upSendPending env (ss\<lparr>ss_client := (ss_client ss)\<lparr>up_flushCh := False\<rparr>\<rparr>) of
             (ss', ok) \<Rightarrow> if ok then upRunConnected env evs ss' else (ss', EndErr))"
| "upRunConnected env (Appended now rows # evs) ss = upRunConnected env evs (otherAppend now rows ss)"
| "upRunConnected env (StatusTick now # evs) ss =
     upRunConnected env evs (ss\<lparr>ss_client := maybeLogSendProgress now (ss_store ss) (ss_client ss)\<rparr>)"

text \<open>
  The environment of one iteration of \<^verbatim>\<open>Run\<close>: rows appended before the dial, whether the
  context is already done, whether the dial succeeds, what happens while connected, whether
  the context is done when \<^verbatim>\<open>runConnected\<close> has returned, and whether the sleep before the next
  attempt ends by its timer.
\<close>

record run_script =
  rs_appends :: "(go_time \<times> EnrichedFlowEvent list) list"
  rs_ctxDone :: bool
  rs_dialOK :: bool
  rs_events :: "run_event list"
  rs_ctxAfter :: bool
  rs_slept :: bool

record 'w run_result =
  rr_state :: "'w send_state"
  rr_delays :: "duration list" \<comment> \<open>the delays slept, in order\<close>
  rr_returned :: bool

fun upRun :: "('w, EnrichedFlowEventBatch) grpc_env \<Rightarrow> run_script list \<Rightarrow> duration \<Rightarrow> duration list \<Rightarrow>
    'w send_state \<Rightarrow> 'w run_result" where
  "upRun env [] backoff delays ss = \<lparr>rr_state = ss, rr_delays = delays, rr_returned = False\<rparr>"
| "upRun env (sc # scs) backoff delays ss0 =
     (let ss = fold (\<lambda>(now, rows). otherAppend now rows) (rs_appends sc) ss0;
          cfg = up_cfg (ss_client ss);
          stop = (\<lambda>s d. \<lparr>rr_state = s, rr_delays = d, rr_returned = True\<rparr>)
      in if rs_ctxDone sc then stop ss delays
         else if \<not> rs_dialOK sc
         then (if \<not> rs_slept sc then stop ss (delays @ [backoff])
               else upRun env scs (upNextBackoff (uc_backoffMax cfg) backoff) (delays @ [backoff]) ss)
         else
           let ss1 = ss\<lparr>ss_client := beginSession (env_now env (ss_world ss)) (ss_client ss)\<rparr>;
               b = uc_backoffMin cfg
           in case upSendPending env ss1 of
                (ss2, ok) \<Rightarrow>
                  if \<not> ok
                  then (if \<not> rs_slept sc then stop ss2 (delays @ [b])
                        else upRun env scs (upNextBackoff (uc_backoffMax cfg) b) (delays @ [b]) ss2)
                  else
                    case upRunConnected env (rs_events sc) ss2 of
                      (ss3, StillRunning) \<Rightarrow> \<lparr>rr_state = ss3, rr_delays = delays, rr_returned = False\<rparr>
                    | (ss3, ended) \<Rightarrow>
                        if ended = EndDone \<or> rs_ctxAfter sc
                        then stop (fst (upSendPending env ss3)) delays
                        else if \<not> rs_slept sc then stop ss3 (delays @ [b])
                        else upRun env scs (upNextBackoff (uc_backoffMax cfg) b) (delays @ [b]) ss3)"

section \<open>Delivery by the send loop\<close>

definition delivered :: "'w send_state \<Rightarrow> EnrichedFlowEvent list" where
  "delivered ss = concat (map eb_events (ss_sent ss))"

lemma upAfterSend_fields [simp]:
  "delivered (upAfterSend a b w node agent es ss) = delivered ss @ es"
  "up_cfg (ss_client (upAfterSend a b w node agent es ss)) = up_cfg (ss_client ss)"
  "ss_world (upAfterSend a b w node agent es ss) = w"
  "ss_appended (upAfterSend a b w node agent es ss) = ss_appended ss"
  by (simp_all add: upAfterSend_def Let_def delivered_def upMessage_def noteSent_def noteSlowSend_def)

text \<open>
  The loop, whatever the stream answers: it hands over a prefix of the unsent events in
  order; on success that prefix is everything, on failure the rest stays unsent.
\<close>

lemma sendLoop_effect:
  assumes "sendLoop env ss = (ss', ok)" and "store_ok (ss_store ss)"
  shows "store_ok (ss_store ss') \<and>
    delivered ss @ unsent (ss_store ss) = delivered ss' @ unsent (ss_store ss') \<and>
    st_droppedUnsent (ss_store ss') = st_droppedUnsent (ss_store ss) \<and>
    (\<exists>xs. delivered ss' = delivered ss @ xs) \<and>
    (ok \<longrightarrow> unsent (ss_store ss') = [])"
  using assms
proof (induction env ss arbitrary: ss' ok rule: sendLoop.induct)
  case (1 env ss ss' k)
  let ?mx = "uc_batchSize (up_cfg (ss_client ss))"
  note ok = "1.prems"(2)
  show ?case
  proof (cases "PeekUnsentBatch ?mx (ss_store ss)")
    case None
    then have "unsent (ss_store ss) = []"
      using sending.peek_None [OF ok, of ?mx] by simp
    with "1.prems" None show ?thesis by (auto simp: sendLoop.simps [of env ss])
  next
    case (Some p)
    obtain node agent es where p: "p = (node, agent, es)" by (cases p)
    have pk: "map_option (snd \<circ> snd) (PeekUnsentBatch ?mx (ss_store ss)) = Some es"
      by (simp add: Some p)
    note split = sending.peek_commit [OF ok pk]
    obtain w b where sent: "env_send env (upMessage (up_cfg (ss_client ss)) node agent es) (ss_world ss) = (w, b)"
      by force
    show ?thesis
    proof (cases b)
      case False
      with "1.prems" Some p sent show ?thesis
        by (auto simp: sendLoop.simps [of env ss] delivered_def)
    next
      case True
      let ?ss = "upAfterSend (env_now env (ss_world ss)) (env_now env w) w node agent es ss"
      have rec: "sendLoop env ?ss = (ss', k)"
        using "1.prems"(1) Some p sent True by (simp add: sendLoop.simps [of env ss])
      have ok': "store_ok (ss_store ?ss)" using ok by (simp add: AdvanceSendCursor_ok)
      have "delivered ss @ unsent (ss_store ss) = delivered ?ss @ unsent (ss_store ?ss)"
        by (subst split) simp
      moreover have "st_droppedUnsent (ss_store ?ss) = st_droppedUnsent (ss_store ss)"
        using sending.commit_lost [OF ok] by simp
      moreover note "1.IH" [OF Some p [symmetric] refl sent [symmetric] _ rec ok'] True
      ultimately show ?thesis by (metis append.assoc upAfterSend_fields(1))
    qed
  qed
qed

section \<open>Conservation of events across the whole client\<close>

definition dropsIn :: "UpLog \<Rightarrow> int" where
  "dropsIn l = (case l of UpDropped n _ _ _ _ \<Rightarrow> n | _ \<Rightarrow> 0)"

text \<open>The losses the client knows of: logged, or collected and waiting for the next log line.\<close>

definition clientLoss :: "UpClient \<Rightarrow> int" where
  "clientLoss c = up_pendingDropLogCount c + sum_list (map dropsIn (up_log c))"



lemma clientLoss_upAfterSend [simp]:
  "clientLoss (ss_client (upAfterSend a b w node agent es ss)) = clientLoss (ss_client ss)"
  by (simp add: clientLoss_def upAfterSend_def Let_def noteSent_def noteSlowSend_def dropsIn_def)

lemma sendLoop_frame:
  assumes "sendLoop env ss = (ss', ok)"
  shows "clientLoss (ss_client ss') = clientLoss (ss_client ss) \<and> ss_appended ss' = ss_appended ss \<and>
    up_cfg (ss_client ss') = up_cfg (ss_client ss)"
  using assms
proof (induction env ss arbitrary: ss' ok rule: sendLoop.induct)
  case (1 env ss ss' ok)
  show ?case
  proof (cases "PeekUnsentBatch (uc_batchSize (up_cfg (ss_client ss))) (ss_store ss)")
    case None
    with "1.prems" show ?thesis by (simp add: sendLoop.simps [of env ss])
  next
    case (Some p)
    obtain node agent es where p: "p = (node, agent, es)" by (cases p)
    obtain w b where sent: "env_send env (upMessage (up_cfg (ss_client ss)) node agent es) (ss_world ss) = (w, b)"
      by force
    show ?thesis
    proof (cases b)
      case False
      with "1.prems" Some p sent show ?thesis by (auto simp: sendLoop.simps [of env ss])
    next
      case True
      then have "sendLoop env (upAfterSend (env_now env (ss_world ss)) (env_now env w) w node agent es ss)
          = (ss', ok)"
        using "1.prems" Some p sent by (simp add: sendLoop.simps [of env ss])
      from "1.IH" [OF Some p [symmetric] refl sent [symmetric] _ this] True show ?thesis by simp
    qed
  qed
qed

lemma subseq_take_more:
  assumes "subseq xs (take p ys)"
  shows "subseq xs (take (p + k) (ys @ zs))"
proof -
  have "prefix (take p ys) (take (p + k) (ys @ zs))"
    by (simp add: take_add)
  with assms show ?thesis using prefix_imp_subseq subseq_order.trans by blast
qed


lemma logDroppedUnsent_frame:
  assumes "logDroppedUnsent now st c = (st', c')"
  shows "unsent st' = unsent st \<and> (store_ok st \<longrightarrow> store_ok st') \<and>
    st_droppedUnsent st' + clientLoss c' = st_droppedUnsent st + clientLoss c \<and> up_cfg c' = up_cfg c"
  using assms TakeDroppedUnsent_ok [of st]
  by (auto simp: logDroppedUnsent_def TakeDroppedUnsent_def clientLoss_def dropsIn_def unsent_def Let_def
      split: if_splits)







interpretation up_backoff: doubling_backoff upNextBackoff
proof
  fix d mx :: int
  assume "0 < d" and "d \<le> 2 ^ 62 - 1"
  then have "wrap64 (d * 2) = d * 2"
    by (intro wrap64_id) (simp_all add: minInt64_def maxInt64_def)
  then show "upNextBackoff mx d = min mx (2 * d)"
    by (simp add: upNextBackoff_def Let_def min_def)
qed

text \<open>Every delay of a run lies between the configured bounds.\<close>

lemma upNextBackoff_bounds:
  assumes "0 < mn" "mn \<le> d" "d \<le> mx" "mx \<le> 2 ^ 62 - 1"
  shows "mn \<le> upNextBackoff mx d \<and> upNextBackoff mx d \<le> mx"
  using up_backoff.next_delay [of d mx] assms by (simp add: min_def)

lemma otherAppend_cfg [simp]: "up_cfg (ss_client (otherAppend now rows ss)) = up_cfg (ss_client ss)"
  by (simp add: otherAppend_def Let_def NotifyAppended_def upSignalFlush_def)

lemma fold_appends_cfg [simp]:
  "up_cfg (ss_client (fold (\<lambda>(now, rows). otherAppend now rows) xs ss)) = up_cfg (ss_client ss)"
  by (induction xs arbitrary: ss) auto

lemma sendPending_cfg:
  "upSendPending env ss = (ss', ok) \<Longrightarrow> up_cfg (ss_client ss') = up_cfg (ss_client ss)"
  by (auto simp: upSendPending_def split: prod.splits dest!: logDroppedUnsent_frame sendLoop_frame)

lemma runConnected_cfg:
  "upRunConnected env evs ss = (ss', e) \<Longrightarrow> up_cfg (ss_client ss') = up_cfg (ss_client ss)"
proof (induction env evs ss rule: upRunConnected.induct)
  case (3 env evs ss)
  obtain ss1 ok where "upSendPending env ss = (ss1, ok)" by force
  with 3 show ?case using sendPending_cfg by (fastforce split: if_splits)
next
  case (4 env evs ss)
  obtain ss1 ok where "upSendPending env (ss\<lparr>ss_client := (ss_client ss)\<lparr>up_flushCh := False\<rparr>\<rparr>) = (ss1, ok)"
    by force
  with 4 show ?case using sendPending_cfg by (fastforce split: if_splits)
qed (auto simp: maybeLogSendProgress_def Let_def)

lemma upRun_delays:
  assumes "0 < uc_backoffMin cfg" "uc_backoffMin cfg \<le> uc_backoffMax cfg" "uc_backoffMax cfg \<le> 2 ^ 62 - 1"
  shows "up_cfg (ss_client ss) = cfg \<Longrightarrow> uc_backoffMin cfg \<le> backoff \<Longrightarrow> backoff \<le> uc_backoffMax cfg \<Longrightarrow>
    \<forall>d \<in> set delays. uc_backoffMin cfg \<le> d \<and> d \<le> uc_backoffMax cfg \<Longrightarrow>
    \<forall>d \<in> set (rr_delays (upRun env scs backoff delays ss)). uc_backoffMin cfg \<le> d \<and> d \<le> uc_backoffMax cfg"
proof (induction scs arbitrary: backoff delays ss)
  case Nil
  then show ?case by simp
next
  case (Cons sc scs)
  define s0 where "s0 = fold (\<lambda>(now, rows). otherAppend now rows) (rs_appends sc) ss"
  define s1 where "s1 = s0\<lparr>ss_client := beginSession (env_now env (ss_world s0)) (ss_client s0)\<rparr>"
  obtain s2 ok where s2: "upSendPending env s1 = (s2, ok)" by force
  obtain s3 e where s3: "upRunConnected env (rs_events sc) s2 = (s3, e)" by force
  have c0: "up_cfg (ss_client s0) = cfg" using Cons.prems(1) by (simp add: s0_def)
  then have c1: "up_cfg (ss_client s1) = cfg" by (simp add: s1_def beginSession_def)
  then have c2: "up_cfg (ss_client s2) = cfg" using sendPending_cfg [OF s2] by simp
  then have c3: "up_cfg (ss_client s3) = cfg" using runConnected_cfg [OF s3] by simp
  note nb = upNextBackoff_bounds [OF assms(1) _ _ assms(3)]
  have nb1: "uc_backoffMin cfg \<le> upNextBackoff (uc_backoffMax cfg) backoff \<and>
      upNextBackoff (uc_backoffMax cfg) backoff \<le> uc_backoffMax cfg"
    using nb Cons.prems by blast
  have nb2: "uc_backoffMin cfg \<le> upNextBackoff (uc_backoffMax cfg) (uc_backoffMin cfg) \<and>
      upNextBackoff (uc_backoffMax cfg) (uc_backoffMin cfg) \<le> uc_backoffMax cfg"
    using nb assms(2) by blast
  have d1: "\<forall>d \<in> set (delays @ [backoff]). uc_backoffMin cfg \<le> d \<and> d \<le> uc_backoffMax cfg"
    using Cons.prems by auto
  have d2: "\<forall>d \<in> set (delays @ [uc_backoffMin cfg]). uc_backoffMin cfg \<le> d \<and> d \<le> uc_backoffMax cfg"
    using Cons.prems assms(2) by auto
  note I1 = Cons.IH [OF c0 conjunct1 [OF nb1] conjunct2 [OF nb1] d1]
  note I2 = Cons.IH [OF c2 conjunct1 [OF nb2] conjunct2 [OF nb2] d2]
  note I3 = Cons.IH [OF c3 conjunct1 [OF nb2] conjunct2 [OF nb2] d2]
  show ?case
    using I1 I2 I3 d1 d2 Cons.prems(4)
    by (cases e) (simp_all add: Let_def s0_def [symmetric] s1_def [symmetric] s2 s3 c0)
qed

section \<open>Interleaving with the collector's handlers\<close>

text \<open>
  \<^verbatim>\<open>Send\<close> runs without the store's lock, so appends can come between the peek and the advance
  of the cursor. The relation below has one rule per locked section: an append by a handler,
  the peek, and the two ways a send can end.
\<close>

record flow_sys =
  fs_store :: Store
  fs_inflight :: "EnrichedFlowEvent list option"
  fs_delivered :: "EnrichedFlowEvent list"
  fs_appended :: "EnrichedFlowEvent list"

definition flow_init :: "int \<Rightarrow> duration \<Rightarrow> flow_sys" where
  "flow_init maxEvents maxAge =
     \<lparr>fs_store = NewStore maxEvents maxAge, fs_inflight = None, fs_delivered = [], fs_appended = []\<rparr>"

inductive flow_step :: "flow_sys \<Rightarrow> flow_sys \<Rightarrow> bool" where
  fl_append: "rows \<noteq> [] \<Longrightarrow>
    flow_step s (s\<lparr>fs_store := appendRows now rows (fs_store s), fs_appended := fs_appended s @ rows\<rparr>)"
| fl_peek: "fs_inflight s = None \<Longrightarrow> PeekUnsentBatch mx (fs_store s) = Some (node, agent, es) \<Longrightarrow>
    flow_step s (s\<lparr>fs_inflight := Some es\<rparr>)"
| fl_ack: "fs_inflight s = Some es \<Longrightarrow>
    flow_step s (s\<lparr>fs_store := AdvanceSendCursor (int (length es)) (fs_store s), fs_inflight := None,
                   fs_delivered := fs_delivered s @ es\<rparr>)"
| fl_fail: "fs_inflight s = Some es \<Longrightarrow> flow_step s (s\<lparr>fs_inflight := None\<rparr>)"

inductive flow_reachable :: "flow_sys \<Rightarrow> bool" where
  fr_init: "flow_reachable (flow_init maxEvents maxAge)"
| fr_step: "flow_reachable s \<Longrightarrow> flow_step s t \<Longrightarrow> flow_reachable t"

text \<open>
  The unsent events are the appended ones from some position on; a batch in flight starts at
  or before that position, after everything delivered.
\<close>

definition sys_inv :: "flow_sys \<Rightarrow> bool" where
  "sys_inv s \<longleftrightarrow> store_ok (fs_store s) \<and>
     (\<exists>p \<le> length (fs_appended s). unsent (fs_store s) = drop p (fs_appended s) \<and>
        (case fs_inflight s of
           None \<Rightarrow> subseq (fs_delivered s) (take p (fs_appended s))
         | Some es \<Rightarrow> (\<exists>q \<le> p. subseq (fs_delivered s) (take q (fs_appended s)) \<and>
              q + length es \<le> length (fs_appended s) \<and> es = take (length es) (drop q (fs_appended s)))))"

lemma sys_inv_init: "sys_inv (flow_init maxEvents maxAge)"
  by (simp add: sys_inv_def flow_init_def NewStore_ok)

lemma subseq_take_le: "subseq xs (take q ys) \<Longrightarrow> q \<le> p \<Longrightarrow> subseq xs (take p ys)"
  using subseq_take_more [of xs q ys "p - q" "[]"] by simp

lemma sys_inv_append:
  assumes "sys_inv s"
  shows "sys_inv (s\<lparr>fs_store := appendRows now rows (fs_store s), fs_appended := fs_appended s @ rows\<rparr>)"
proof -
  obtain p where ok: "store_ok (fs_store s)" and p: "p \<le> length (fs_appended s)"
    "unsent (fs_store s) = drop p (fs_appended s)"
    and fl: "case fs_inflight s of
           None \<Rightarrow> subseq (fs_delivered s) (take p (fs_appended s))
         | Some es \<Rightarrow> (\<exists>q \<le> p. subseq (fs_delivered s) (take q (fs_appended s)) \<and>
              q + length es \<le> length (fs_appended s) \<and> es = take (length es) (drop q (fs_appended s)))"
    using assms unfolding sys_inv_def by blast
  obtain k where k: "k \<le> length (unsent (fs_store s) @ rows)"
    "unsent (appendRows now rows (fs_store s)) = drop k (unsent (fs_store s) @ rows)"
    "store_ok (appendRows now rows (fs_store s))"
    using appendRows_effect [OF ok] by metis
  have u: "unsent (appendRows now rows (fs_store s)) = drop (p + k) (fs_appended s @ rows)"
  proof -
    have "drop p (fs_appended s) @ rows = drop p (fs_appended s @ rows)" using p(1) by simp
    then show ?thesis using k(2) p(2) by (simp only: drop_drop add.commute)
  qed
  have le: "p + k \<le> length (fs_appended s @ rows)" using k(1) p by simp
  show ?thesis
  proof (cases "fs_inflight s")
    case None
    with fl have "subseq (fs_delivered s) (take (p + k) (fs_appended s @ rows))"
      by (simp add: subseq_take_more del: take_append)
    with None u le k(3) show ?thesis
      unfolding sys_inv_def by (intro conjI exI [of _ "p + k"]) (simp_all del: take_append)
  next
    case (Some es)
    with fl obtain q where q: "q \<le> p" "subseq (fs_delivered s) (take q (fs_appended s))"
      "q + length es \<le> length (fs_appended s)" "es = take (length es) (drop q (fs_appended s))"
      by auto
    have "subseq (fs_delivered s) (take q (fs_appended s @ rows))"
      using subseq_take_more [OF q(2), of 0 rows] by simp
    moreover have "es = take (length es) (drop q (fs_appended s @ rows))"
      using q(3,4) by simp
    ultimately have "\<exists>q \<le> p + k. subseq (fs_delivered s) (take q (fs_appended s @ rows)) \<and>
        q + length es \<le> length (fs_appended s @ rows) \<and> es = take (length es) (drop q (fs_appended s @ rows))"
      using q(1,3) by (intro exI [of _ q]) simp
    with Some u le k(3) show ?thesis
      unfolding sys_inv_def by (intro conjI exI [of _ "p + k"]) (simp_all del: take_append drop_append)
  qed
qed

lemma sys_inv_peek:
  assumes "sys_inv s" and "fs_inflight s = None"
    and "PeekUnsentBatch mx (fs_store s) = Some (node, agent, es)"
  shows "sys_inv (s\<lparr>fs_inflight := Some es\<rparr>)"
proof -
  obtain p where ok: "store_ok (fs_store s)" and p: "p \<le> length (fs_appended s)"
    "unsent (fs_store s) = drop p (fs_appended s)" "subseq (fs_delivered s) (take p (fs_appended s))"
    using assms(1,2) unfolding sys_inv_def by auto
  obtain ys where "unsent (fs_store s) = es @ ys"
    using sending.peek_Some [OF ok, of mx es] assms(3) by auto
  then have e: "drop p (fs_appended s) = es @ ys" using p(2) by simp
  then have "p + length es \<le> length (fs_appended s)"
    using p(1) by (metis add_le_cancel_left append_take_drop_id le_add1 length_append length_take min_absorb2)
  with e p ok show ?thesis
    unfolding sys_inv_def by (intro conjI exI [of _ p]) (auto intro!: exI [of _ p])
qed

lemma sys_inv_ack:
  assumes "sys_inv s" and "fs_inflight s = Some es"
  shows "sys_inv (s\<lparr>fs_store := AdvanceSendCursor (int (length es)) (fs_store s), fs_inflight := None,
                    fs_delivered := fs_delivered s @ es\<rparr>)"
proof -
  obtain p q where ok: "store_ok (fs_store s)" and p: "p \<le> length (fs_appended s)"
    "unsent (fs_store s) = drop p (fs_appended s)"
    and q: "q \<le> p" "subseq (fs_delivered s) (take q (fs_appended s))"
      "q + length es \<le> length (fs_appended s)" "es = take (length es) (drop q (fs_appended s))"
    using assms unfolding sys_inv_def by auto
  let ?p = "min (p + length es) (length (fs_appended s))"
  have "unsent (AdvanceSendCursor (int (length es)) (fs_store s)) = drop (p + length es) (fs_appended s)"
    using sending.commit_pending [OF ok] p(2) by (simp add: add.commute)
  also have "\<dots> = drop ?p (fs_appended s)" by (simp add: min_def)
  finally have u: "unsent (AdvanceSendCursor (int (length es)) (fs_store s)) = drop ?p (fs_appended s)" .
  have "subseq (fs_delivered s @ es) (take q (fs_appended s) @ take (length es) (drop q (fs_appended s)))"
    using q(2,4) by (intro list_emb_append_mono) simp_all
  then have "subseq (fs_delivered s @ es) (take (q + length es) (fs_appended s))"
    by (simp add: take_add)
  then have "subseq (fs_delivered s @ es) (take ?p (fs_appended s))"
    using q(1,3) by (elim subseq_take_le) simp
  with u AdvanceSendCursor_ok [OF ok] show ?thesis
    unfolding sys_inv_def by (intro conjI exI [of _ ?p]) simp_all
qed

lemma sys_inv_fail:
  assumes "sys_inv s" and "fs_inflight s = Some es"
  shows "sys_inv (s\<lparr>fs_inflight := None\<rparr>)"
proof -
  obtain p q where ok: "store_ok (fs_store s)" and p: "p \<le> length (fs_appended s)"
    "unsent (fs_store s) = drop p (fs_appended s)"
    and q: "q \<le> p" "subseq (fs_delivered s) (take q (fs_appended s))"
    using assms unfolding sys_inv_def by auto
  with subseq_take_le show ?thesis
    unfolding sys_inv_def by (intro conjI exI [of _ p]) auto
qed

lemma sys_inv_step: "flow_step s t \<Longrightarrow> sys_inv s \<Longrightarrow> sys_inv t"
  by (induction rule: flow_step.induct)
     (auto intro: sys_inv_append sys_inv_peek sys_inv_ack sys_inv_fail)

lemma sys_inv_reachable: "flow_reachable s \<Longrightarrow> sys_inv s"
  by (induction rule: flow_reachable.induct) (auto intro: sys_inv_init sys_inv_step)

section \<open>Properties\<close>

lemma sendLoop_all_accepted:
  assumes "\<And>m w. snd (env_send env m w)"
  shows "snd (sendLoop env ss)"
  using assms
proof (induction env ss rule: sendLoop.induct)
  case (1 env ss)
  show ?case
  proof (cases "PeekUnsentBatch (uc_batchSize (up_cfg (ss_client ss))) (ss_store ss)")
    case None
    then show ?thesis by (simp add: sendLoop.simps [of env ss])
  next
    case (Some p)
    obtain node agent es where p: "p = (node, agent, es)" by (cases p)
    obtain w b where sent: "env_send env (upMessage (up_cfg (ss_client ss)) node agent es) (ss_world ss) = (w, b)"
      by force
    then have b using "1.prems" by (metis snd_conv)
    with "1.IH" [OF Some p [symmetric] refl sent [symmetric] _ "1.prems"] Some p sent
    show ?thesis by (simp add: sendLoop.simps [of env ss])
  qed
qed

text \<open>
  C1: One pass of the send loop over a store that satisfies the invariant hands the unsent
  events to the stream in order and without repetition: what was delivered plus what is
  still unsent is unchanged as a sequence. A pass that reports success has delivered
  everything, and a pass over a stream that accepts every message reports success.
\<close>
theorem upSendPending_exactly_once:
  assumes "store_ok (ss_store ss)" and "upSendPending env ss = (ss', ok)"
  shows "delivered ss' @ unsent (ss_store ss') = delivered ss @ unsent (ss_store ss) \<and>
    (ok \<longrightarrow> unsent (ss_store ss') = [] \<and> delivered ss' = delivered ss @ unsent (ss_store ss)) \<and>
    ((\<forall>m w. snd (env_send env m w)) \<longrightarrow> ok)"
proof -
  obtain st c where lg: "logDroppedUnsent (env_now env (ss_world ss)) (ss_store ss) (ss_client ss) = (st, c)"
    by force
  let ?ss = "ss\<lparr>ss_store := st, ss_client := c\<rparr>"
  have loop: "sendLoop env ?ss = (ss', ok)"
    using assms(2) lg by (simp add: upSendPending_def)
  have pre: "store_ok (ss_store ?ss)" "unsent (ss_store ?ss) = unsent (ss_store ss)"
      "delivered ?ss = delivered ss"
    using logDroppedUnsent_frame [OF lg] assms(1) by (simp_all add: delivered_def)
  have "ok" if "\<forall>m w. snd (env_send env m w)"
    using sendLoop_all_accepted [of env ?ss] that loop by simp
  with sendLoop_effect [OF loop pre(1)] pre(2,3) show ?thesis by simp
qed

text \<open>A stream that accepts everything and a clock that stands still, for the witnesses.\<close>

definition demoEnv :: "(unit, EnrichedFlowEventBatch) grpc_env" where
  "demoEnv = \<lparr>env_send = (\<lambda>m w. (w, True)), env_now = (\<lambda>w. 100)\<rparr>"

lemma demoEnv_send [simp]: "snd (env_send demoEnv m w)"
  by (simp add: demoEnv_def)

definition demoConfig :: UpConfig where
  "demoConfig = \<lparr>uc_insightsAddr = ''grpc.example.com:443'', uc_organization = ''o'', uc_cluster = ''c'',
     uc_authToken = ''t'', uc_tls = \<lparr>tls_mode = TLSModeAuto, tls_serverName = '''', tls_caFile = ''''\<rparr>,
     uc_batchSize = 1, uc_flushInterval = 0, uc_backoffMin = 0, uc_backoffMax = 0\<rparr>"

definition demoStart :: "Store \<Rightarrow> EnrichedFlowEvent list \<Rightarrow> unit send_state" where
  "demoStart st rows = \<lparr>ss_world = (), ss_store = st, ss_client = NewUpClient demoConfig, ss_sent = [],
     ss_appended = rows\<rparr>"

lemma demoStart_simps [simp]:
  "ss_store (demoStart st rows) = st" "delivered (demoStart st rows) = []"
  by (simp_all add: demoStart_def delivered_def)

lemma demoStore: "unsent (appendRows 100 [demoRow 1, demoRow 2] (NewStore 5 0)) = [demoRow 1, demoRow 2]"
  by (simp add: appendRows_def store_pruneLocked_def store_enforceMaxLocked_def NewStore_def unsent_def
      adjustCursorOnDrop_def Let_def Minute_def Second_def)

theorem upSendPending_exactly_once_witness:
  "delivered (fst (upSendPending demoEnv (demoStart (appendRows 100 [demoRow 1, demoRow 2] (NewStore 5 0)) []))) =
     [demoRow 1, demoRow 2]"
proof -
  let ?ss = "demoStart (appendRows 100 [demoRow 1, demoRow 2] (NewStore 5 0)) []"
  obtain ss' ok where r: "upSendPending demoEnv ?ss = (ss', ok)" by force
  have "store_ok (ss_store ?ss)" using retained.push_invar [OF NewStore_ok] by simp
  from upSendPending_exactly_once [OF this r] show ?thesis
    by (simp add: r demoStore)
qed



text \<open>
  Reconnect delays: with positive bounds in order and an upper bound below 2 to the 62
  nanoseconds (so that doubling does not overflow), every delay a run sleeps lies between
  \<^verbatim>\<open>ReconnectBackoffMin\<close> and \<^verbatim>\<open>ReconnectBackoffMax\<close>, whatever the network does.
\<close>
theorem upRun_backoff_bounded:
  assumes "cfg = up_cfg (ss_client ss)"
    and "0 < uc_backoffMin cfg" and "uc_backoffMin cfg \<le> uc_backoffMax cfg" and "uc_backoffMax cfg < 2 ^ 62"
  shows "\<forall>d \<in> set (rr_delays (upRun env scs (uc_backoffMin cfg) [] ss)).
    uc_backoffMin cfg \<le> d \<and> d \<le> uc_backoffMax cfg"
  using assms by (intro upRun_delays) simp_all

theorem upRun_backoff_bounded_witness:
  "let cfg = upDefaults demoConfig in uc_backoffMin cfg = 1000000000 \<and> uc_backoffMax cfg = 30000000000 \<and>
    list_all (\<lambda>d. 1000000000 \<le> d \<and> d \<le> 30000000000) (rr_delays (upRun demoEnv
        (replicate 9 \<lparr>rs_appends = [], rs_ctxDone = False, rs_dialOK = False, rs_events = [],
           rs_ctxAfter = False, rs_slept = True\<rparr>)
        (uc_backoffMin cfg) [] (demoStart (NewStore 5 0) [])))"
proof -
  let ?ss = "demoStart (NewStore 5 0) []"
  have cfg: "upDefaults demoConfig = up_cfg (ss_client ?ss)"
    by (simp add: demoStart_def NewUpClient_def)
  have v: "uc_backoffMin (upDefaults demoConfig) = 1000000000" "uc_backoffMax (upDefaults demoConfig) = 30000000000"
    by (simp_all add: upDefaults_def demoConfig_def Second_def)
  then show ?thesis
    using upRun_backoff_bounded [OF cfg, of demoEnv] by (simp add: Let_def list_all_iff)
qed

text \<open>
  C5: At most once and in order under interleaving: in every state reachable by any
  interleaving of appends with the send loop (appends may fall between a peek and the
  advance of the cursor), the delivered events are a subsequence of the appended events.
\<close>
theorem flow_at_most_once_in_order:
  assumes "flow_reachable s"
  shows "subseq (fs_delivered s) (fs_appended s)"
proof -
  obtain p where "subseq (fs_delivered s) (take p (fs_appended s))"
    using sys_inv_reachable [OF assms] unfolding sys_inv_def by (auto split: option.splits)
  then show ?thesis
    using prefix_imp_subseq [OF take_is_prefix] subseq_order.trans by blast
qed

text \<open>The run used as a witness here and as the counterexample below.\<close>

definition raceState :: flow_sys where
  "raceState = \<lparr>fs_store = \<lparr>st_events = [Some (demoRow 2), Some (demoRow 3)], st_maxEvents = 2,
       st_maxAge = 900000000000, st_sendCursor = 1, st_droppedUnsent = 1, st_lastDropReason = ''max_events''\<rparr>,
     fs_inflight = None, fs_delivered = [demoRow 1], fs_appended = [demoRow 1, demoRow 2, demoRow 3]\<rparr>"

lemma raceState_reachable: "flow_reachable raceState"
proof -
  let ?r = "[demoRow 1, demoRow 2]"
  define s1 where "s1 = (flow_init 2 0)\<lparr>fs_store := appendRows 100 ?r (NewStore 2 0), fs_appended := ?r\<rparr>"
  define s2 where "s2 = s1\<lparr>fs_inflight := Some [demoRow 1]\<rparr>"
  define s3 where "s3 = s2\<lparr>fs_store := appendRows 100 [demoRow 3] (fs_store s2),
    fs_appended := fs_appended s2 @ [demoRow 3]\<rparr>"
  have r1: "flow_reachable s1"
    using fr_step [OF fr_init fl_append, of ?r 2 0 100] by (simp add: s1_def flow_init_def)
  have "PeekUnsentBatch 1 (fs_store s1) = Some (''n1'', ''a1'', [demoRow 1])"
    by (simp add: s1_def flow_init_def appendRows_def store_pruneLocked_def store_enforceMaxLocked_def
        NewStore_def Let_def Minute_def Second_def PeekUnsentBatch_def)
  then have r2: "flow_reachable s2"
    unfolding s2_def by (intro fr_step [OF r1 fl_peek]) (simp add: s1_def flow_init_def)
  have r3: "flow_reachable s3"
    unfolding s3_def by (rule fr_step [OF r2 fl_append]) simp
  have "fs_inflight s3 = Some [demoRow 1]" by (simp add: s3_def s2_def)
  from fr_step [OF r3 fl_ack [OF this]] show ?thesis
    by (simp add: s3_def s2_def s1_def flow_init_def raceState_def appendRows_def store_pruneLocked_def
        store_enforceMaxLocked_def NewStore_def Let_def Minute_def Second_def adjustCursorOnDrop_def
        AdvanceSendCursor_def)
qed

theorem flow_at_most_once_in_order_witness:
  "subseq [demoRow 1] [demoRow 1, demoRow 2, demoRow 3]"
  using flow_at_most_once_in_order [OF raceState_reachable] by (simp add: raceState_def)

text \<open>
  C39: The send cursor can pass an event that was never sent. When retention drops events of
  the batch in flight, \<^verbatim>\<open>AdvanceSendCursor\<close> still advances by the whole batch: a state is
  reachable in which no send is in flight and the buffer holds an event before the cursor
  that was in no batch, although the only event retention removed had been delivered.
\<close>
theorem cursor_can_skip_unsent:
  "\<exists>s e. flow_reachable s \<and> fs_inflight s = None \<and>
     Some e \<in> set (take (st_sendCursor (fs_store s)) (st_events (fs_store s))) \<and>
     e \<notin> set (fs_delivered s) \<and> e \<notin> set (unsent (fs_store s)) \<and>
     (\<forall>x \<in> set (fs_appended s). Some x \<notin> set (st_events (fs_store s)) \<longrightarrow> x \<in> set (fs_delivered s))"
  using raceState_reachable
  by (intro exI [of _ raceState] exI [of _ "demoRow 2"]) (simp add: raceState_def unsent_def)

theorem cursor_can_skip_unsent_witness:
  "\<exists>s. flow_reachable s \<and> fs_inflight s = None"
  using cursor_can_skip_unsent by blast

text \<open>
  The client never sees the scheme of its address: \<^verbatim>\<open>NewClient\<close> strips it before the
  credentials are chosen. For an address \<^verbatim>\<open>https://host:port\<close> in automatic mode the check
  for TLS would accept the configured address, but the client dials with TLS exactly when
  the port is 443, and in plaintext otherwise.
\<close>
theorem https_scheme_ignored:
  assumes "uc_insightsAddr cfg = ''https://'' @ host @ '':'' @ port"
    and "\<forall>c \<in> set host. hostByte c" and "\<forall>c \<in> set port. hostByte c"
    and "tls_mode (uc_tls cfg) = TLSModeAuto"
  shows "enabledFor (uc_tls cfg) (uc_insightsAddr cfg) \<and>
    (dialCredentials io (NewUpClient cfg) = Inr InsecureCredentials \<longleftrightarrow> port \<noteq> ''443'')"
proof -
  note https = https_address [OF assms(2,3)]
  have "dialCredentials io (NewUpClient cfg) = transportCredentials io (host @ '':'' @ port) (uc_tls cfg)"
    using https(1) by (simp add: dialCredentials_def NewUpClient_def upDefaults_def assms(1))
  moreover have "enabledFor (uc_tls cfg) (host @ '':'' @ port) \<longleftrightarrow> port = ''443''"
    using autoTLSEnabled_plain(2) [OF assms(2,3)] assms(4) by (simp add: enabledFor_auto)
  ultimately show ?thesis
    using https(2) assms(1,4) by (simp add: transportCredentials_insecure_iff enabledFor_auto)
qed

theorem https_scheme_ignored_witness:
  "dialCredentials \<lparr>ca_readFile = Inl, ca_systemPool = None, ca_newPool = (), ca_appendPEM = (\<lambda>p c. (p, False))\<rparr>
     (NewUpClient (demoConfig\<lparr>uc_insightsAddr := ''https://insights:8443''\<rparr>)) = Inr InsecureCredentials"
proof -
  have "\<forall>c \<in> set ''insights''. hostByte c" "\<forall>c \<in> set ''8443''. hostByte c"
    by code_simp+
  moreover have "tls_mode (uc_tls (demoConfig\<lparr>uc_insightsAddr := ''https://insights:8443''\<rparr>)) = TLSModeAuto"
    by (simp add: demoConfig_def)
  ultimately show ?thesis
    using https_scheme_ignored [of "demoConfig\<lparr>uc_insightsAddr := ''https://insights:8443''\<rparr>" "''insights''" "''8443''"
      "\<lparr>ca_readFile = Inl, ca_systemPool = None, ca_newPool = (), ca_appendPEM = (\<lambda>p c. (p, False))\<rparr>"]
    by simp
qed

end
