(* ===== verification/Agent_Mapper.thy ===== *)
theory Agent_Mapper
  imports Flow_Store
begin

text \<open>
  The agent's mapping from gadget records to flow events (\<^verbatim>\<open>network-flow/pkg/agent/mapper.go\<close>,
  \<^verbatim>\<open>mapper_dns.go\<close>) and the extraction of the fields from a gadget's data source
  (\<^verbatim>\<open>gadget_runner.go\<close>, \<^verbatim>\<open>gadget_top_tcp.go\<close>, \<^verbatim>\<open>gadget_trace_dns.go\<close>).
\<close>

record TCPFields =
  tf_namespace :: string
  tf_pod :: string
  tf_container :: string
  tf_srcAddr :: string
  tf_srcPort :: uint32
  tf_dstAddr :: string
  tf_dstPort :: uint32
  tf_pid :: uint32
  tf_timestamp :: int
  tf_bytesSent :: uint64
  tf_bytesReceived :: uint64
  tf_eventKind :: flow_event_kind

definition emptyTCPFields :: TCPFields where
  "emptyTCPFields = \<lparr>tf_namespace = '''', tf_pod = '''', tf_container = '''', tf_srcAddr = '''',
     tf_srcPort = 0, tf_dstAddr = '''', tf_dstPort = 0, tf_pid = 0, tf_timestamp = 0,
     tf_bytesSent = 0, tf_bytesReceived = 0, tf_eventKind = KIND_UNSPECIFIED\<rparr>"

definition MapFlowEvent :: "TCPFields \<Rightarrow> FlowEvent option" where
  "MapFlowEvent f =
     (if tf_pod f = '''' \<or> tf_dstAddr f = '''' then None
      else Some
        \<lparr>fe_eventKind = tf_eventKind f,
         fe_protocol = PROTOCOL_TCP,
         fe_timestampUnixNano = tf_timestamp f,
         fe_src = Some \<lparr>aw_namespace = tf_namespace f, aw_pod = tf_pod f,
                        aw_container = tf_container f\<rparr>,
         fe_srcEndpoint = Some \<lparr>ae_addr = tf_srcAddr f, ae_port = tf_srcPort f\<rparr>,
         fe_dst = Some \<lparr>ae_addr = tf_dstAddr f, ae_port = tf_dstPort f\<rparr>,
         fe_bytesSent = tf_bytesSent f,
         fe_bytesReceived = tf_bytesReceived f,
         fe_dns = None\<rparr>)"

definition splitEndpoint :: "string \<Rightarrow> string \<times> uint32" where
  "splitEndpoint endpoint =
     (if endpoint = '''' then ('''', 0)
      else case LastIndexByte endpoint (CHR '':'') of
             Some i \<Rightarrow>
               if i > 0
               then (case scanUint32 (drop (i + 1) endpoint) of
                       None \<Rightarrow> ('''', 0)
                     | Some port \<Rightarrow> (take i endpoint, port))
               else (endpoint, 0)
           | None \<Rightarrow> (endpoint, 0))"

record DNSFields =
  df_namespace :: string
  df_pod :: string
  df_container :: string
  df_srcAddr :: string
  df_srcPort :: uint32
  df_dstAddr :: string
  df_dstPort :: uint32
  df_timestamp :: int
  df_qr :: string
  df_name :: string
  df_qtype :: string
  df_rcode :: string
  df_addresses :: string
  df_queryID :: uint32

definition emptyDNSFields :: DNSFields where
  "emptyDNSFields = \<lparr>df_namespace = '''', df_pod = '''', df_container = '''', df_srcAddr = '''',
     df_srcPort = 0, df_dstAddr = '''', df_dstPort = 0, df_timestamp = 0, df_qr = '''', df_name = '''',
     df_qtype = '''', df_rcode = '''', df_addresses = '''', df_queryID = 0\<rparr>"

definition normalizeHostname :: "string \<Rightarrow> string" where
  "normalizeHostname name = TrimSuffix (TrimSpace name) ''.''"

definition parseAddresses :: "string \<Rightarrow> string list" where
  "parseAddresses raw =
     (let raw = TrimSpace raw in
      if raw = '''' then []
      else filter (\<lambda>p. p \<noteq> '''') (map TrimSpace (splitByte (CHR '','') raw)))"

definition MapDnsEvent :: "DNSFields \<Rightarrow> FlowEvent option" where
  "MapDnsEvent f =
     (if df_pod f = '''' \<or> df_name f = '''' then None
      else
        let kind = (if df_qr f = ''R'' then KIND_DNS_RESPONSE else KIND_DNS_QUERY);
            addresses = parseAddresses (df_addresses f);
            dstAddr = (if kind = KIND_DNS_RESPONSE \<and> addresses \<noteq> [] then hd addresses
                       else df_dstAddr f)
        in Some
          \<lparr>fe_eventKind = kind,
           fe_protocol = PROTOCOL_DNS,
           fe_timestampUnixNano = df_timestamp f,
           fe_src = Some \<lparr>aw_namespace = df_namespace f, aw_pod = df_pod f,
                          aw_container = df_container f\<rparr>,
           fe_srcEndpoint = Some \<lparr>ae_addr = df_srcAddr f, ae_port = df_srcPort f\<rparr>,
           fe_dst = Some \<lparr>ae_addr = dstAddr, ae_port = df_dstPort f\<rparr>,
           fe_bytesSent = 0,
           fe_bytesReceived = 0,
           fe_dns = Some \<lparr>ad_name = normalizeHostname (df_name f), ad_qtype = df_qtype f,
                          ad_rcode = df_rcode f, ad_addresses = addresses,
                          ad_queryId = df_queryID f\<rparr>\<rparr>)"

section \<open>Field extraction\<close>

text \<open>
  A gadget's data source offers accessors for the fields it has. A data item is seen through
  the accessors: \<open>ds_string name\<close> is \<^const>\<open>None\<close> when the source has no such field, and
  otherwise the value \<^verbatim>\<open>String\<close> returns on the item (the zero value when the accessor
  fails, whose error the code ignores); likewise for the numeric accessors.
\<close>

record datasource_item =
  ds_string :: "string \<Rightarrow> string option"
  ds_uint16 :: "string \<Rightarrow> 16 word option"
  ds_uint32 :: "string \<Rightarrow> uint32 option"
  ds_uint64 :: "string \<Rightarrow> uint64 option"
  ds_int64 :: "string \<Rightarrow> int option"

definition strField :: "datasource_item \<Rightarrow> string \<Rightarrow> string" where
  "strField d name = (case ds_string d name of None \<Rightarrow> '''' | Some v \<Rightarrow> v)"

definition portField :: "datasource_item \<Rightarrow> string \<Rightarrow> uint32" where
  "portField d name = (case ds_uint16 d name of None \<Rightarrow> 0 | Some v \<Rightarrow> ucast v)"

text \<open>The address and port, or the combined endpoint field when there is no address.\<close>

definition endpointFields :: "datasource_item \<Rightarrow> string \<Rightarrow> string \<Rightarrow> string \<Rightarrow> string \<times> uint32" where
  "endpointFields d addrName portName epName =
     (if strField d addrName = '''' \<and> ds_string d epName \<noteq> None
      then splitEndpoint (strField d epName)
      else (strField d addrName, portField d portName))"

definition traceTCP_extract :: "datasource_item \<Rightarrow> TCPFields" where
  "traceTCP_extract d =
     (let (sa, sp) = endpointFields d ''src.addr'' ''src.port'' ''src.endpoint'';
          (da, dp) = endpointFields d ''dst.addr'' ''dst.port'' ''dst.endpoint''
      in emptyTCPFields
        \<lparr>tf_namespace := strField d ''k8s.namespace'', tf_pod := strField d ''k8s.podName'',
         tf_container := strField d ''k8s.containerName'',
         tf_timestamp := (case ds_int64 d ''timestamp_raw'' of None \<Rightarrow> 0 | Some t \<Rightarrow> t),
         tf_srcAddr := sa, tf_srcPort := sp, tf_dstAddr := da, tf_dstPort := dp\<rparr>)"

definition topTCP_extract :: "datasource_item \<Rightarrow> TCPFields" where
  "topTCP_extract d =
     (let (sa, sp) = endpointFields d ''src.addr'' ''src.port'' ''src.endpoint'';
          (da, dp) = endpointFields d ''dst.addr'' ''dst.port'' ''dst.endpoint''
      in emptyTCPFields
        \<lparr>tf_namespace := strField d ''k8s.namespace'', tf_pod := strField d ''k8s.podName'',
         tf_container := strField d ''k8s.containerName'',
         tf_srcAddr := sa, tf_srcPort := sp, tf_dstAddr := da, tf_dstPort := dp,
         tf_bytesSent := (case ds_uint64 d ''sent_raw'' of None \<Rightarrow> 0 | Some n \<Rightarrow> n),
         tf_bytesReceived := (case ds_uint64 d ''received_raw'' of None \<Rightarrow> 0 | Some n \<Rightarrow> n),
         tf_pid := (case ds_uint32 d ''pid'' of None \<Rightarrow> 0 | Some n \<Rightarrow> n)\<rparr>)"

definition traceDNS_extract :: "datasource_item \<Rightarrow> DNSFields" where
  "traceDNS_extract d =
     (let (sa, sp) = endpointFields d ''src.addr'' ''src.port'' ''src.endpoint'';
          (da, dp) = endpointFields d ''dst.addr'' ''dst.port'' ''dst.endpoint''
      in emptyDNSFields
        \<lparr>df_namespace := strField d ''k8s.namespace'', df_pod := strField d ''k8s.podName'',
         df_container := strField d ''k8s.containerName'',
         df_timestamp := (case ds_int64 d ''timestamp_raw'' of None \<Rightarrow> 0 | Some t \<Rightarrow> t),
         df_srcAddr := sa, df_srcPort := sp, df_dstAddr := da, df_dstPort := dp,
         df_qr := strField d ''qr'', df_name := strField d ''name'', df_qtype := strField d ''qtype'',
         df_rcode := strField d ''rcode'', df_addresses := strField d ''addresses'',
         df_queryID := (case ds_uint32 d ''id'' of None \<Rightarrow> 0 | Some n \<Rightarrow> n)\<rparr>)"

datatype init_error = MissingField string

text \<open>The checks of the three \<^verbatim>\<open>init\<close> methods; \<open>has\<close> says which fields the data source offers.\<close>

definition traceTCP_init :: "(string \<Rightarrow> bool) \<Rightarrow> init_error + unit" where
  "traceTCP_init has =
     (if \<not> has ''k8s.podName'' then Inl (MissingField ''missing k8s.podName field'')
      else if \<not> has ''dst.addr'' \<and> \<not> has ''dst.endpoint'' then Inl (MissingField ''missing dst endpoint fields'')
      else Inr ())"

definition topTCP_init :: "(string \<Rightarrow> bool) \<Rightarrow> init_error + unit" where
  "topTCP_init has =
     (if \<not> has ''k8s.podName'' then Inl (MissingField ''missing k8s.podName field'')
      else if \<not> has ''sent_raw'' \<or> \<not> has ''received_raw'' then Inl (MissingField ''missing sent_raw/received_raw fields'')
      else if \<not> has ''dst.addr'' \<and> \<not> has ''dst.endpoint'' then Inl (MissingField ''missing dst endpoint fields'')
      else Inr ())"

definition traceDNS_init :: "(string \<Rightarrow> bool) \<Rightarrow> init_error + unit" where
  "traceDNS_init has =
     (if \<not> has ''k8s.podName'' then Inl (MissingField ''missing k8s.podName field'')
      else if \<not> has ''name'' then Inl (MissingField ''missing name field'')
      else Inr ())"

section \<open>Properties\<close>

text \<open>
  Every TCP event the agent maps is acceptable to the collector and carries the record's
  endpoints and byte counts; the only records not mapped are those without a pod or without
  a destination address.
\<close>
theorem MapFlowEvent_acceptable:
  "(case MapFlowEvent f of
      None \<Rightarrow> tf_pod f = '''' \<or> tf_dstAddr f = ''''
    | Some e \<Rightarrow> tf_pod f \<noteq> '''' \<and> tf_dstAddr f \<noteq> '''' \<and> isAcceptableEvent e \<and>
        fe_bytesSent e = tf_bytesSent f \<and> fe_bytesReceived e = tf_bytesReceived f \<and>
        GetAddr (fe_dst e) = tf_dstAddr f \<and> GetPort (fe_dst e) = tf_dstPort f \<and>
        GetAddr (fe_srcEndpoint e) = tf_srcAddr f \<and> GetPort (fe_srcEndpoint e) = tf_srcPort f)"
  by (simp add: MapFlowEvent_def isAcceptableEvent_def)

text \<open>
  A DNS record with a pod and a name is always mapped, but the collector accepts the event
  exactly when the name is not empty after normalisation: a query for the root name
  \<^verbatim>\<open>"."\<close> is sent by the agent and silently ignored by the collector.
\<close>
theorem MapDnsEvent_acceptable_iff:
  assumes "df_pod f \<noteq> ''''" and "df_name f \<noteq> ''''"
  shows "\<exists>e. MapDnsEvent f = Some e \<and>
    (isAcceptableEvent e \<longleftrightarrow> normalizeHostname (df_name f) \<noteq> '''')"
  using assms by (simp add: MapDnsEvent_def isAcceptableEvent_def Let_def)

lemma TrimSpace_dot [simp]: "TrimSpace ''.'' = ''.''"
proof -
  have "\<forall>c \<in> set ''.''. isGraph c" by code_simp
  then show ?thesis by (rule TrimSpace_graph)
qed

lemma normalizeHostname_dot [simp]: "normalizeHostname ''.'' = ''''"
  by (simp add: normalizeHostname_def TrimSuffix_def HasSuffix_def HasPrefix_def)

theorem MapDnsEvent_acceptable_iff_witness:
  "\<exists>e. MapDnsEvent (emptyDNSFields\<lparr>df_pod := ''web'', df_name := ''.''\<rparr>) = Some e \<and> \<not> isAcceptableEvent e"
  using MapDnsEvent_acceptable_iff [of "emptyDNSFields\<lparr>df_pod := ''web'', df_name := ''.''\<rparr>"] by simp

lemma digits_no_space:
  assumes "ds \<noteq> []" and "\<forall>c \<in> set ds. isDigit c"
  shows "trimLeftOf (filter P spaceRunes) ds = ds"
proof (rule trimLeftOf_id)
  fix p assume p: "p \<in> set (filter P spaceRunes)"
  then have "p \<noteq> []" "\<not> isGraph (hd p)" using spaceRunes_not_graph by auto
  moreover have "\<forall>c \<in> set ds. isGraph c" using assms(2) by (auto simp: isDigit_def isGraph_def)
  ultimately show "\<not> HasPrefix ds p" by (auto simp: HasPrefix_iff)
qed

text \<open>
  An endpoint written as a non-empty address, a colon and a decimal port that fits 32 bits
  is split back into the address and the port, also for addresses that contain colons.
\<close>
theorem splitEndpoint_roundtrip:
  assumes "addr \<noteq> ''''" and "ds \<noteq> ''''" and "\<forall>c \<in> set ds. isDigit c" and "digitsVal 0 ds < 2 ^ 32"
  shows "splitEndpoint (addr @ '':'' @ ds) = (addr, of_nat (digitsVal 0 ds))"
proof -
  have colon: "CHR '':'' \<notin> set ds" using assms(3) by (auto simp: isDigit_def)
  have "scanUint32 ds = Some (of_nat (digitsVal 0 ds))"
    using assms by (simp add: scanUint32_def digits_no_space Let_def takeWhile_eq_all_conv [THEN iffD2])
  with colon assms(1) show ?thesis
    by (simp add: splitEndpoint_def LastIndexByte_append)
qed

theorem splitEndpoint_roundtrip_witness: "splitEndpoint ''::1:8080'' = (''::1'', 8080)"
proof -
  have "\<forall>c \<in> set ''8080''. isDigit c" by code_simp
  moreover have "digitsVal 0 ''8080'' = 8080" by simp
  ultimately show ?thesis using splitEndpoint_roundtrip [of "''::1''" "''8080''"] by simp
qed

end
