(* ===== verification/Delta_Tracker.thy ===== *)
theory Delta_Tracker
  imports Agent_Mapper
begin

text \<open>
  The agent's conversion of cumulative per-connection counters into increments
  (\<^verbatim>\<open>network-flow/pkg/agent/delta_tracker.go\<close>) and the mapping of an increment to an event
  (\<^verbatim>\<open>gadget_top_tcp.go\<close>). Counters are 64-bit words. \<^verbatim>\<open>EndPoll\<close> ranges over a Go map, whose order
  is unspecified: the order is an argument, a list of the keys.
\<close>

record connKey =
  ck_namespace :: string
  ck_pod :: string
  ck_container :: string
  ck_srcAddr :: string
  ck_srcPort :: uint32
  ck_dstAddr :: string
  ck_dstPort :: uint32
  ck_pid :: uint32

record connState =
  cs_fields :: TCPFields
  cs_lastSent :: uint64
  cs_lastReceived :: uint64
  cs_emittedSent :: uint64
  cs_emittedReceived :: uint64
  cs_seen :: bool

record ByteDelta =
  bd_fields :: TCPFields
  bd_sent :: uint64
  bd_received :: uint64

type_synonym ByteDeltaTracker = "connKey \<rightharpoonup> connState"

definition NewByteDeltaTracker :: ByteDeltaTracker where
  "NewByteDeltaTracker = Map.empty"

definition connKeyFromFields :: "TCPFields \<Rightarrow> connKey" where
  "connKeyFromFields f =
     \<lparr>ck_namespace = tf_namespace f, ck_pod = tf_pod f, ck_container = tf_container f,
      ck_srcAddr = tf_srcAddr f, ck_srcPort = tf_srcPort f, ck_dstAddr = tf_dstAddr f,
      ck_dstPort = tf_dstPort f, ck_pid = tf_pid f\<rparr>"

definition remainingBytes :: "uint64 \<Rightarrow> uint64 \<Rightarrow> uint64" where
  "remainingBytes emittedN lastN = (if lastN \<ge> emittedN then lastN - emittedN else lastN)"

definition diffCumulative :: "uint64 \<Rightarrow> uint64 \<Rightarrow> uint64" where
  "diffCumulative prev current = (if current \<ge> prev then current - prev else current)"

definition BeginPoll :: "ByteDeltaTracker \<Rightarrow> ByteDeltaTracker" where
  "BeginPoll t = (\<lambda>k. map_option (\<lambda>st. st\<lparr>cs_seen := False\<rparr>) (t k))"

text \<open>\<^verbatim>\<open>Observe\<close>; the result \<^verbatim>\<open>(ByteDelta{}, false)\<close> is \<^const>\<open>None\<close>.\<close>

definition Observe :: "TCPFields \<Rightarrow> ByteDeltaTracker \<Rightarrow> ByteDelta option \<times> ByteDeltaTracker" where
  "Observe f t =
     (let key = connKeyFromFields f in
      case t key of
        None \<Rightarrow>
          (None, t(key \<mapsto> \<lparr>cs_fields = f, cs_lastSent = tf_bytesSent f,
             cs_lastReceived = tf_bytesReceived f, cs_emittedSent = 0, cs_emittedReceived = 0,
             cs_seen = True\<rparr>))
      | Some st \<Rightarrow>
          let deltaSent = diffCumulative (cs_lastSent st) (tf_bytesSent f);
              deltaReceived = diffCumulative (cs_lastReceived st) (tf_bytesReceived f);
              st1 = st\<lparr>cs_seen := True, cs_fields := f, cs_lastSent := tf_bytesSent f,
                       cs_lastReceived := tf_bytesReceived f\<rparr>
          in if deltaSent = 0 \<and> deltaReceived = 0 then (None, t(key \<mapsto> st1))
             else (Some \<lparr>bd_fields = f, bd_sent = deltaSent, bd_received = deltaReceived\<rparr>,
                   t(key \<mapsto> st1\<lparr>cs_emittedSent := cs_emittedSent st1 + deltaSent,
                                  cs_emittedReceived := cs_emittedReceived st1 + deltaReceived\<rparr>)))"

fun EndPoll :: "connKey list \<Rightarrow> ByteDeltaTracker \<Rightarrow> ByteDelta list \<times> ByteDeltaTracker" where
  "EndPoll [] t = ([], t)"
| "EndPoll (key # order) t =
     (case t key of
        None \<Rightarrow> EndPoll order t
      | Some st \<Rightarrow>
          if cs_seen st then EndPoll order t
          else
            let remainingSent = remainingBytes (cs_emittedSent st) (cs_lastSent st);
                remainingReceived = remainingBytes (cs_emittedReceived st) (cs_lastReceived st);
                (out, t') = EndPoll order (t(key := None))
            in (if remainingSent > 0 \<or> remainingReceived > 0
                then \<lparr>bd_fields = cs_fields st, bd_sent = remainingSent, bd_received = remainingReceived\<rparr> # out
                else out, t'))"

definition Delta :: "connKey \<Rightarrow> uint64 \<Rightarrow> uint64 \<Rightarrow> ByteDeltaTracker \<Rightarrow> (uint64 \<times> uint64 \<times> bool) \<times> ByteDeltaTracker" where
  "Delta key sent received t =
     (case Observe (emptyTCPFields
         \<lparr>tf_namespace := ck_namespace key, tf_pod := ck_pod key, tf_container := ck_container key,
          tf_srcAddr := ck_srcAddr key, tf_srcPort := ck_srcPort key, tf_dstAddr := ck_dstAddr key,
          tf_dstPort := ck_dstPort key, tf_pid := ck_pid key,
          tf_bytesSent := sent, tf_bytesReceived := received\<rparr>) t of
        (None, t') \<Rightarrow> ((0, 0, False), t')
      | (Some d, t') \<Rightarrow> ((bd_sent d, bd_received d, True), t'))"

definition mapTrafficDelta :: "go_time \<Rightarrow> ByteDelta \<Rightarrow> FlowEvent option" where
  "mapTrafficDelta now delta =
     (let f = bd_fields delta in
      if tf_pod f = '''' \<or> tf_dstAddr f = '''' then None
      else if bd_sent delta = 0 \<and> bd_received delta = 0 then None
      else MapFlowEvent (emptyTCPFields
        \<lparr>tf_namespace := tf_namespace f, tf_pod := tf_pod f, tf_container := tf_container f,
         tf_srcAddr := tf_srcAddr f, tf_srcPort := tf_srcPort f, tf_dstAddr := tf_dstAddr f,
         tf_dstPort := tf_dstPort f,
         tf_timestamp := (if tf_timestamp f = 0 then now else tf_timestamp f),
         tf_bytesSent := bd_sent delta, tf_bytesReceived := bd_received delta,
         tf_eventKind := KIND_TRAFFIC\<rparr>))"

text \<open>The body of the callback of \<^verbatim>\<open>TopTCPRunner.Run\<close>, as the increments it hands on.\<close>

fun observeAll :: "TCPFields list \<Rightarrow> ByteDeltaTracker \<Rightarrow> ByteDelta list \<times> ByteDeltaTracker" where
  "observeAll [] t = ([], t)"
| "observeAll (f # fs) t =
     (case Observe f t of
        (d, t1) \<Rightarrow>
          (case observeAll fs t1 of
             (ds, t2) \<Rightarrow> ((case d of None \<Rightarrow> ds | Some x \<Rightarrow> x # ds), t2)))"

definition pollOnce :: "connKey list \<Rightarrow> TCPFields list \<Rightarrow> ByteDeltaTracker \<Rightarrow> ByteDelta list \<times> ByteDeltaTracker" where
  "pollOnce order rows t =
     (case observeAll rows (BeginPoll t) of
        (ds, t1) \<Rightarrow> (case EndPoll order t1 of (closed, t2) \<Rightarrow> (ds @ closed, t2)))"

section \<open>The increments of one connection\<close>

definition deltasOf :: "connKey \<Rightarrow> ByteDelta list \<Rightarrow> ByteDelta list" where
  "deltasOf k ds = filter (\<lambda>d. connKeyFromFields (bd_fields d) = k) ds"

definition sentOf :: "connKey \<Rightarrow> ByteDelta list \<Rightarrow> uint64" where
  "sentOf k ds = sum_list (map bd_sent (deltasOf k ds))"

definition receivedOf :: "connKey \<Rightarrow> ByteDelta list \<Rightarrow> uint64" where
  "receivedOf k ds = sum_list (map bd_received (deltasOf k ds))"

lemma sentOf_simps [simp]:
  "sentOf k [] = 0"
  "sentOf k (d # ds) = (if connKeyFromFields (bd_fields d) = k then bd_sent d else 0) + sentOf k ds"
  "sentOf k (ds @ es) = sentOf k ds + sentOf k es"
  by (simp_all add: sentOf_def deltasOf_def)

lemma receivedOf_simps [simp]:
  "receivedOf k [] = 0"
  "receivedOf k (d # ds) = (if connKeyFromFields (bd_fields d) = k then bd_received d else 0) + receivedOf k ds"
  "receivedOf k (ds @ es) = receivedOf k ds + receivedOf k es"
  by (simp_all add: receivedOf_def deltasOf_def)

text \<open>What the tracker has emitted for a connection so far; a missing entry has emitted nothing.\<close>

definition emitted :: "connState option \<Rightarrow> uint64 \<times> uint64" where
  "emitted s = (case s of None \<Rightarrow> (0, 0) | Some st \<Rightarrow> (cs_emittedSent st, cs_emittedReceived st))"

definition tracker_ok :: "ByteDeltaTracker \<Rightarrow> bool" where
  "tracker_ok t \<longleftrightarrow> (\<forall>k st. t k = Some st \<longrightarrow> connKeyFromFields (cs_fields st) = k)"

lemma Observe_other: "connKeyFromFields f \<noteq> k \<Longrightarrow> snd (Observe f t) k = t k"
  by (simp add: Observe_def Let_def split: option.splits)

lemma Observe_delta_key:
  "fst (Observe f t) = Some d \<Longrightarrow> bd_fields d = f \<and> (bd_sent d \<noteq> 0 \<or> bd_received d \<noteq> 0)"
  by (auto simp: Observe_def Let_def split: option.splits if_splits)

lemma Observe_entry:
  assumes "connKeyFromFields f = k"
  shows "\<exists>st. snd (Observe f t) k = Some st \<and> cs_seen st \<and> cs_fields st = f \<and>
    cs_lastSent st = tf_bytesSent f \<and> cs_lastReceived st = tf_bytesReceived f"
  using assms by (cases "t k") (simp_all add: Observe_def Let_def)

lemma Observe_ok: "tracker_ok t \<Longrightarrow> tracker_ok (snd (Observe f t))"
  by (auto simp: tracker_ok_def Observe_def Let_def split: option.splits)

text \<open>The emitted counters are the running (wrapped) sums of the increments.\<close>

lemma Observe_emitted:
  assumes "Observe f t = (d, t')"
  shows "emitted (t' k) =
    (fst (emitted (t k)) + sentOf k (case d of None \<Rightarrow> [] | Some x \<Rightarrow> [x]),
     snd (emitted (t k)) + receivedOf k (case d of None \<Rightarrow> [] | Some x \<Rightarrow> [x]))"
  using assms
  by (auto simp: Observe_def Let_def emitted_def split: option.splits if_splits)

lemma observeAll_emitted:
  "observeAll fs t = (ds, t') \<Longrightarrow>
     emitted (t' k) = (fst (emitted (t k)) + sentOf k ds, snd (emitted (t k)) + receivedOf k ds)"
proof (induction fs arbitrary: t ds t')
  case Nil
  then show ?case by simp
next
  case (Cons f fs)
  obtain d t1 where o: "Observe f t = (d, t1)" by force
  obtain es t2 where r: "observeAll fs t1 = (es, t2)" by force
  have "ds = (case d of None \<Rightarrow> es | Some x \<Rightarrow> x # es)" "t' = t2"
    using Cons.prems o r by simp_all
  with Observe_emitted [OF o, of k] Cons.IH [OF r] show ?case
    by (simp add: add.assoc split: option.splits)
qed

lemma observeAll_ok: "tracker_ok t \<Longrightarrow> tracker_ok (snd (observeAll fs t))"
proof (induction fs arbitrary: t)
  case (Cons f fs)
  have "tracker_ok (snd (Observe f t))" using Cons.prems by (rule Observe_ok)
  from Cons.IH [OF this] show ?case by (simp add: case_prod_beta)
qed simp

text \<open>The last observation of a connection in a poll determines what the tracker remembers of it.\<close>

lemma observeAll_entry:
  "rows = filter (\<lambda>f. connKeyFromFields f = k) fs \<Longrightarrow>
   (rows = [] \<longrightarrow> snd (observeAll fs t) k = t k) \<and>
   (rows \<noteq> [] \<longrightarrow> (\<exists>st. snd (observeAll fs t) k = Some st \<and> cs_seen st \<and> cs_fields st = last rows \<and>
      cs_lastSent st = tf_bytesSent (last rows) \<and> cs_lastReceived st = tf_bytesReceived (last rows)))"
proof (induction fs arbitrary: t rows)
  case Nil
  then show ?case by simp
next
  case (Cons f fs)
  obtain d t1 where o: "Observe f t = (d, t1)" by force
  have snd: "snd (observeAll (f # fs) t) = snd (observeAll fs t1)"
    by (simp add: o split: prod.splits)
  note IH = Cons.IH [OF refl, of t1]
  show ?case
  proof (cases "connKeyFromFields f = k")
    case True
    obtain st where st: "t1 k = Some st" "cs_seen st" "cs_fields st = f"
      "cs_lastSent st = tf_bytesSent f" "cs_lastReceived st = tf_bytesReceived f"
      using Observe_entry [OF True, of t] o by auto
    with IH True Cons.prems show ?thesis unfolding snd by auto
  next
    case False
    then have "t1 k = t k" using Observe_other [of f k t] o by simp
    with IH False Cons.prems show ?thesis unfolding snd by simp
  qed
qed

section \<open>The lifetime of a connection\<close>

lemma BeginPoll_entry:
  "BeginPoll t k = map_option (\<lambda>st. st\<lparr>cs_seen := False\<rparr>) (t k)"
  "emitted (BeginPoll t k) = emitted (t k)"
  "tracker_ok t \<Longrightarrow> tracker_ok (BeginPoll t)"
  by (auto simp: BeginPoll_def emitted_def tracker_ok_def split: option.splits)

lemma EndPoll_entry:
  "snd (EndPoll order t) k =
     (if k \<in> set order \<and> (\<exists>st. t k = Some st \<and> \<not> cs_seen st) then None else t k)"
proof (induction order t rule: EndPoll.induct)
  case (1 t)
  then show ?case by simp
next
  case (2 key order t)
  show ?case
  proof (cases "t key")
    case None
    with 2 show ?thesis by auto
  next
    case (Some st)
    show ?thesis
    proof (cases "cs_seen st")
      case True
      with 2 Some show ?thesis by auto
    next
      case False
      with Some have eq: "snd (EndPoll (key # order) t) = snd (EndPoll order (t(key := None)))"
        by (simp add: Let_def case_prod_beta)
      show ?thesis
        unfolding eq "2.IH"(3) [OF Some False refl refl] using Some False by auto
    qed
  qed
qed

lemma EndPoll_ok: "tracker_ok t \<Longrightarrow> tracker_ok (snd (EndPoll order t))"
  by (auto simp: tracker_ok_def EndPoll_entry)

lemma EndPoll_closed:
  "tracker_ok t \<Longrightarrow>
   (case t k of
      Some st \<Rightarrow> if k \<in> set order \<and> \<not> cs_seen st
                 then sentOf k (fst (EndPoll order t)) = remainingBytes (cs_emittedSent st) (cs_lastSent st) \<and>
                      receivedOf k (fst (EndPoll order t)) = remainingBytes (cs_emittedReceived st) (cs_lastReceived st)
                 else sentOf k (fst (EndPoll order t)) = 0 \<and> receivedOf k (fst (EndPoll order t)) = 0
    | None \<Rightarrow> sentOf k (fst (EndPoll order t)) = 0 \<and> receivedOf k (fst (EndPoll order t)) = 0)"
proof (induction order t rule: EndPoll.induct)
  case (1 t)
  then show ?case by (simp split: option.splits)
next
  case (2 key order t)
  show ?case
  proof (cases "t key")
    case None
    with 2 show ?thesis by (auto split: option.splits)
  next
    case (Some st)
    show ?thesis
    proof (cases "cs_seen st")
      case True
      with 2 Some show ?thesis by (auto split: option.splits)
    next
      case False
      let ?t = "t(key := None)"
      obtain out t' where r: "EndPoll order ?t = (out, t')" by force
      have ok: "tracker_ok ?t" using "2.prems" by (simp add: tracker_ok_def)
      have keyst: "connKeyFromFields (cs_fields st) = key"
        using "2.prems" Some by (simp add: tracker_ok_def)
      note IH = "2.IH"(3) [OF Some False refl refl ok]
      have step: "sentOf k (fst (EndPoll (key # order) t)) =
          (if key = k then remainingBytes (cs_emittedSent st) (cs_lastSent st) else 0) + sentOf k (fst (EndPoll order ?t))"
        "receivedOf k (fst (EndPoll (key # order) t)) =
          (if key = k then remainingBytes (cs_emittedReceived st) (cs_lastReceived st) else 0) + receivedOf k (fst (EndPoll order ?t))"
        using Some False keyst r by (auto simp: Let_def word_gt_0)
      obtain S R where SR: "sentOf k (fst (EndPoll order ?t)) = S" "receivedOf k (fst (EndPoll order ?t)) = R"
        by blast
      from IH have "if k = key then S = 0 \<and> R = 0 else
          (case t k of
             Some st \<Rightarrow> if k \<in> set order \<and> \<not> cs_seen st
               then S = remainingBytes (cs_emittedSent st) (cs_lastSent st) \<and>
                    R = remainingBytes (cs_emittedReceived st) (cs_lastReceived st)
               else S = 0 \<and> R = 0
           | None \<Rightarrow> S = 0 \<and> R = 0)"
        unfolding SR by (cases "k = key") simp_all
      then show ?thesis
        unfolding step SR using Some False by (cases "k = key") (simp_all split: option.splits)
    qed
  qed
qed

text \<open>
  A connection that is being followed: its counters have grown from \<open>s0\<close>, \<open>r0\<close> to the last
  observed values \<open>s\<close>, \<open>r\<close>, and the tracker has emitted the difference.
\<close>

definition follows :: "uint64 \<Rightarrow> uint64 \<Rightarrow> uint64 \<Rightarrow> uint64 \<Rightarrow> connState option \<Rightarrow> bool" where
  "follows s0 r0 s r e \<longleftrightarrow> s0 \<le> s \<and> r0 \<le> r \<and>
     (\<exists>st. e = Some st \<and> cs_lastSent st = s \<and> cs_lastReceived st = r \<and>
        cs_emittedSent st = s - s0 \<and> cs_emittedReceived st = r - r0)"

lemma follows_Observe_first:
  "t k = None \<Longrightarrow> connKeyFromFields f = k \<Longrightarrow>
     follows (tf_bytesSent f) (tf_bytesReceived f) (tf_bytesSent f) (tf_bytesReceived f) (snd (Observe f t) k)"
  by (simp add: follows_def Observe_def Let_def)

lemma follows_Observe_next:
  "follows s0 r0 s r (t k) \<Longrightarrow> connKeyFromFields f = k \<Longrightarrow> s \<le> tf_bytesSent f \<Longrightarrow> r \<le> tf_bytesReceived f \<Longrightarrow>
     follows s0 r0 (tf_bytesSent f) (tf_bytesReceived f) (snd (Observe f t) k)"
  by (auto simp: follows_def Observe_def Let_def diffCumulative_def)

lemma follows_BeginPoll: "follows s0 r0 s r (t k) \<Longrightarrow> follows s0 r0 s r (BeginPoll t k)"
  by (auto simp: follows_def BeginPoll_def)

text \<open>Rows of a connection whose counters never decrease.\<close>

definition growing :: "uint64 \<Rightarrow> uint64 \<Rightarrow> TCPFields list \<Rightarrow> bool" where
  "growing s r fs \<longleftrightarrow> sorted (s # map tf_bytesSent fs) \<and> sorted (r # map tf_bytesReceived fs)"

lemma follows_observeAll:
  "follows s0 r0 s r (t k) \<Longrightarrow> rows = filter (\<lambda>f. connKeyFromFields f = k) fs \<Longrightarrow> growing s r rows \<Longrightarrow>
     follows s0 r0 (if rows = [] then s else tf_bytesSent (last rows))
       (if rows = [] then r else tf_bytesReceived (last rows)) (snd (observeAll fs t) k)"
proof (induction fs arbitrary: t s r rows)
  case Nil
  then show ?case by simp
next
  case (Cons f fs)
  obtain d t1 where o: "Observe f t = (d, t1)" by force
  have snd: "snd (observeAll (f # fs) t) = snd (observeAll fs t1)"
    by (simp add: o case_prod_beta)
  show ?case
  proof (cases "connKeyFromFields f = k")
    case True
    let ?rows = "filter (\<lambda>f. connKeyFromFields f = k) fs"
    have rows: "rows = f # ?rows" using Cons.prems(2) True by simp
    have "follows s0 r0 (tf_bytesSent f) (tf_bytesReceived f) (t1 k)"
      using follows_Observe_next [of s0 r0 s r t k f] True Cons.prems(1,3) o rows by (simp add: growing_def)
    moreover have "growing (tf_bytesSent f) (tf_bytesReceived f) ?rows"
      using Cons.prems(3) rows by (simp add: growing_def)
    ultimately show ?thesis
      using Cons.IH [of "tf_bytesSent f" "tf_bytesReceived f" t1 ?rows] unfolding snd rows by (cases "?rows = []") simp_all
  next
    case False
    then have "follows s0 r0 s r (t1 k)"
      using Cons.prems(1) Observe_other [OF False, of t] o by simp
    with Cons.IH [of s r t1 rows] Cons.prems False show ?thesis unfolding snd by simp
  qed
qed

text \<open>A sequence of polls.\<close>

fun runPolls :: "(connKey list \<times> TCPFields list) list \<Rightarrow> ByteDeltaTracker \<Rightarrow> ByteDelta list \<times> ByteDeltaTracker" where
  "runPolls [] t = ([], t)"
| "runPolls ((order, rows) # ps) t =
     (case pollOnce order rows t of
        (ds, t1) \<Rightarrow> (case runPolls ps t1 of (es, t2) \<Rightarrow> (ds @ es, t2)))"

definition rowsOf :: "connKey \<Rightarrow> TCPFields list \<Rightarrow> TCPFields list" where
  "rowsOf k fs = filter (\<lambda>f. connKeyFromFields f = k) fs"

lemma runPolls_append:
  "runPolls (ps @ qs) t =
     (case runPolls ps t of (ds, t1) \<Rightarrow> (case runPolls qs t1 of (es, t2) \<Rightarrow> (ds @ es, t2)))"
  by (induction ps arbitrary: t) (auto simp: case_prod_beta)

lemma pollOnce_ok: "tracker_ok t \<Longrightarrow> tracker_ok (snd (pollOnce order rows t))"
  using observeAll_ok [OF BeginPoll_entry(3)] EndPoll_ok
  by (simp add: pollOnce_def case_prod_beta)

lemma runPolls_ok: "tracker_ok t \<Longrightarrow> tracker_ok (snd (runPolls ps t))"
proof (induction ps arbitrary: t)
  case (Cons p ps)
  obtain order rows where p: "p = (order, rows)" by force
  show ?case
    using Cons.IH [OF pollOnce_ok [OF Cons.prems, of order rows]] by (simp add: p case_prod_beta)
qed simp

text \<open>A poll that sees the connection keeps its entry; the entry then depends on the observations only.\<close>

lemma pollOnce_seen:
  assumes "tracker_ok t" and "rowsOf k rows \<noteq> []"
  shows "snd (pollOnce order rows t) k = snd (observeAll rows (BeginPoll t)) k"
    and "sentOf k (fst (pollOnce order rows t)) = sentOf k (fst (observeAll rows (BeginPoll t)))"
    and "receivedOf k (fst (pollOnce order rows t)) = receivedOf k (fst (observeAll rows (BeginPoll t)))"
proof -
  let ?t1 = "snd (observeAll rows (BeginPoll t))"
  obtain st where st: "?t1 k = Some st" "cs_seen st"
    using observeAll_entry [OF refl, of k rows "BeginPoll t"] assms(2) by (auto simp: rowsOf_def)
  have ok: "tracker_ok ?t1" using assms(1) by (intro observeAll_ok BeginPoll_entry(3))
  show "snd (pollOnce order rows t) k = ?t1 k"
    using st by (simp add: pollOnce_def case_prod_beta EndPoll_entry)
  show "sentOf k (fst (pollOnce order rows t)) = sentOf k (fst (observeAll rows (BeginPoll t)))"
    "receivedOf k (fst (pollOnce order rows t)) = receivedOf k (fst (observeAll rows (BeginPoll t)))"
    using EndPoll_closed [OF ok, of k order] st by (simp_all add: pollOnce_def case_prod_beta)
qed

text \<open>A poll that does not see the connection closes it.\<close>

lemma pollOnce_unseen:
  assumes "tracker_ok t" and "rowsOf k rows = []" and "k \<in> set order" and "t k = Some st"
  shows "snd (pollOnce order rows t) k = None"
    and "sentOf k (fst (pollOnce order rows t)) = remainingBytes (cs_emittedSent st) (cs_lastSent st)"
    and "receivedOf k (fst (pollOnce order rows t)) = remainingBytes (cs_emittedReceived st) (cs_lastReceived st)"
proof -
  let ?o = "observeAll rows (BeginPoll t)"
  have e: "snd ?o k = Some (st\<lparr>cs_seen := False\<rparr>)"
    using observeAll_entry [OF refl, of k rows "BeginPoll t"] assms(2,4)
    by (simp add: rowsOf_def BeginPoll_entry(1))
  have ok: "tracker_ok (snd ?o)" using assms(1) by (intro observeAll_ok BeginPoll_entry(3))
  have "emitted (snd ?o k) = (fst (emitted (BeginPoll t k)) + sentOf k (fst ?o), snd (emitted (BeginPoll t k)) + receivedOf k (fst ?o))"
    by (rule observeAll_emitted) simp
  then have "sentOf k (fst ?o) = 0" "receivedOf k (fst ?o) = 0"
    using e assms(4) by (simp_all add: BeginPoll_entry(2)) (simp_all add: emitted_def)
  with EndPoll_closed [OF ok, of k order] e assms(3)
  show "snd (pollOnce order rows t) k = None"
    "sentOf k (fst (pollOnce order rows t)) = remainingBytes (cs_emittedSent st) (cs_lastSent st)"
    "receivedOf k (fst (pollOnce order rows t)) = remainingBytes (cs_emittedReceived st) (cs_lastReceived st)"
    by (simp_all add: pollOnce_def case_prod_beta EndPoll_entry)
qed

text \<open>The polls of a connection's life: how the entry and the increments develop while it is seen.\<close>

lemma follows_observeAll_first:
  "t k = None \<Longrightarrow> rows = filter (\<lambda>f. connKeyFromFields f = k) fs \<Longrightarrow> rows \<noteq> [] \<Longrightarrow> growing 0 0 rows \<Longrightarrow>
     follows (tf_bytesSent (hd rows)) (tf_bytesReceived (hd rows))
       (tf_bytesSent (last rows)) (tf_bytesReceived (last rows)) (snd (observeAll fs t) k)"
proof (induction fs arbitrary: t rows)
  case Nil
  then show ?case by simp
next
  case (Cons f fs)
  obtain d t1 where o: "Observe f t = (d, t1)" by force
  have snd: "snd (observeAll (f # fs) t) = snd (observeAll fs t1)"
    by (simp add: o case_prod_beta)
  show ?case
  proof (cases "connKeyFromFields f = k")
    case True
    let ?rows = "filter (\<lambda>f. connKeyFromFields f = k) fs"
    have rows: "rows = f # ?rows" using Cons.prems(2) True by simp
    have "follows (tf_bytesSent f) (tf_bytesReceived f) (tf_bytesSent f) (tf_bytesReceived f) (t1 k)"
      using follows_Observe_first [of t k f] Cons.prems(1) True o by simp
    moreover have "growing (tf_bytesSent f) (tf_bytesReceived f) ?rows"
      using Cons.prems(4) rows by (simp add: growing_def)
    ultimately show ?thesis
      using follows_observeAll [of "tf_bytesSent f" "tf_bytesReceived f" "tf_bytesSent f" "tf_bytesReceived f" t1 k ?rows fs]
      unfolding snd rows by (cases "?rows = []") simp_all
  next
    case False
    then have "t1 k = None"
      using Cons.prems(1) Observe_other [OF False, of t] o by simp
    with Cons.IH [of t1] Cons.prems False show ?thesis unfolding snd by simp
  qed
qed

definition seenIn :: "connKey \<Rightarrow> (connKey list \<times> TCPFields list) list \<Rightarrow> bool" where
  "seenIn k ps \<longleftrightarrow> (\<forall>p \<in> set ps. rowsOf k (snd p) \<noteq> [])"

definition history :: "connKey \<Rightarrow> (connKey list \<times> TCPFields list) list \<Rightarrow> TCPFields list" where
  "history k ps = concat (map (\<lambda>p. rowsOf k (snd p)) ps)"

lemma growing_append:
  "growing s r (fs @ gs) \<Longrightarrow> growing s r fs"
  "growing s r (fs @ gs) \<Longrightarrow> fs \<noteq> [] \<Longrightarrow> growing (tf_bytesSent (last fs)) (tf_bytesReceived (last fs)) gs"
  by (auto simp: growing_def sorted_append)

lemma pollOnce_follows:
  assumes "tracker_ok t" and "rowsOf k rows \<noteq> []" and "follows s0 r0 s r (t k)" and "growing s r (rowsOf k rows)"
  shows "follows s0 r0 (tf_bytesSent (last (rowsOf k rows))) (tf_bytesReceived (last (rowsOf k rows)))
           (snd (pollOnce order rows t) k)"
  using follows_observeAll [of s0 r0 s r "BeginPoll t" k "rowsOf k rows" rows] follows_BeginPoll [of s0 r0 s r t k] assms
    pollOnce_seen(1) [OF assms(1,2), of order]
  by (simp add: rowsOf_def)

lemma pollOnce_follows_first:
  assumes "tracker_ok t" and "rowsOf k rows \<noteq> []" and "t k = None" and "growing 0 0 (rowsOf k rows)"
  shows "follows (tf_bytesSent (hd (rowsOf k rows))) (tf_bytesReceived (hd (rowsOf k rows)))
           (tf_bytesSent (last (rowsOf k rows))) (tf_bytesReceived (last (rowsOf k rows)))
           (snd (pollOnce order rows t) k)"
  using follows_observeAll_first [of "BeginPoll t" k "rowsOf k rows" rows] assms
    pollOnce_seen(1) [OF assms(1,2), of order]
  by (simp add: rowsOf_def BeginPoll_entry(1))

lemma pollOnce_emitted:
  assumes "tracker_ok t" and "rowsOf k rows \<noteq> []"
  shows "emitted (snd (pollOnce order rows t) k) =
    (fst (emitted (t k)) + sentOf k (fst (pollOnce order rows t)),
     snd (emitted (t k)) + receivedOf k (fst (pollOnce order rows t)))"
  using observeAll_emitted [of rows "BeginPoll t" _ _ k, OF surjective_pairing]
  by (simp add: pollOnce_seen [OF assms] BeginPoll_entry(2))

lemma runPolls_emitted:
  "tracker_ok t \<Longrightarrow> seenIn k ps \<Longrightarrow>
     emitted (snd (runPolls ps t) k) =
       (fst (emitted (t k)) + sentOf k (fst (runPolls ps t)),
        snd (emitted (t k)) + receivedOf k (fst (runPolls ps t)))"
proof (induction ps arbitrary: t)
  case (Cons p ps)
  obtain order rows where p: "p = (order, rows)" by force
  have s: "rowsOf k rows \<noteq> []" "seenIn k ps" using Cons.prems(2) by (simp_all add: p seenIn_def)
  show ?case
    using Cons.IH [OF pollOnce_ok [OF Cons.prems(1), of order rows] s(2)]
      pollOnce_emitted [OF Cons.prems(1) s(1), of order]
    by (simp add: p case_prod_beta add.assoc)
qed simp

lemma runPolls_follows:
  "tracker_ok t \<Longrightarrow> seenIn k ps \<Longrightarrow> follows s0 r0 s r (t k) \<Longrightarrow> growing s r (history k ps) \<Longrightarrow>
     follows s0 r0 (if ps = [] then s else tf_bytesSent (last (history k ps)))
       (if ps = [] then r else tf_bytesReceived (last (history k ps))) (snd (runPolls ps t) k)"
proof (induction ps arbitrary: t s r)
  case (Cons p ps)
  obtain order rows where p: "p = (order, rows)" by force
  let ?R = "rowsOf k rows"
  have s: "?R \<noteq> []" "seenIn k ps" using Cons.prems(2) by (simp_all add: p seenIn_def)
  have h: "history k (p # ps) = ?R @ history k ps" by (simp add: p history_def)
  have g: "growing s r ?R" "growing (tf_bytesSent (last ?R)) (tf_bytesReceived (last ?R)) (history k ps)"
    using growing_append [of s r ?R "history k ps"] Cons.prems(4) s(1) by (simp_all add: h)
  have ne: "ps \<noteq> [] \<Longrightarrow> history k ps \<noteq> []" using s(2) by (cases ps) (auto simp: history_def seenIn_def)
  have "follows s0 r0 (tf_bytesSent (last ?R)) (tf_bytesReceived (last ?R)) (snd (pollOnce order rows t) k)"
    by (rule pollOnce_follows [OF Cons.prems(1) s(1) Cons.prems(3) g(1)])
  from Cons.IH [OF pollOnce_ok [OF Cons.prems(1)] s(2) this g(2)] show ?case
    using ne by (cases "ps = []") (simp_all add: p case_prod_beta h [unfolded p] history_def)
qed simp

lemma remaining_after_follows:
  assumes "follows s0 r0 s r (Some st)"
  shows "remainingBytes (cs_emittedSent st) (cs_lastSent st) = s0"
    and "remainingBytes (cs_emittedReceived st) (cs_lastReceived st) = r0"
    and "emitted (Some st) = (s - s0, r - r0)"
proof -
  have "s - s0 \<le> s" "r - r0 \<le> r" using assms by (auto simp: follows_def word_sub_le)
  then show "remainingBytes (cs_emittedSent st) (cs_lastSent st) = s0"
    "remainingBytes (cs_emittedReceived st) (cs_lastReceived st) = r0"
    "emitted (Some st) = (s - s0, r - r0)"
    using assms by (auto simp: follows_def remainingBytes_def emitted_def)
qed

section \<open>Properties\<close>

lemma lifetime_follows:
  assumes ok: "tracker_ok t" and fresh: "t k = None" and polls: "ps \<noteq> []"
    and seen: "seenIn k ps" and grow: "growing 0 0 (history k ps)"
  shows "\<exists>s0 r0. follows s0 r0 (tf_bytesSent (last (history k ps))) (tf_bytesReceived (last (history k ps)))
    (snd (runPolls ps t) k)"
proof -
  obtain order rows qs where ps: "ps = (order, rows) # qs" using polls by (cases ps) auto
  let ?R = "rowsOf k rows"
  let ?t1 = "snd (pollOnce order rows t)"
  have s: "?R \<noteq> []" "seenIn k qs" using seen by (simp_all add: ps seenIn_def)
  have h: "history k ps = ?R @ history k qs" by (simp add: ps history_def)
  have g: "growing 0 0 ?R" "growing (tf_bytesSent (last ?R)) (tf_bytesReceived (last ?R)) (history k qs)"
    using growing_append [of 0 0 ?R "history k qs"] grow s(1) by (simp_all add: h)
  note f1 = pollOnce_follows_first [OF ok s(1) fresh g(1), of order]
  have ne: "qs \<noteq> [] \<Longrightarrow> history k qs \<noteq> []" using s(2) by (cases qs) (auto simp: history_def seenIn_def)
  from runPolls_follows [OF pollOnce_ok [OF ok] s(2) f1 g(2)] show ?thesis
    unfolding h using ne by (cases "qs = []") (auto simp: ps case_prod_beta history_def)
qed

text \<open>
  C4: A connection is reported exactly. Take any tracker that does not know the connection, any
  sequence of polls each of which sees it (any number of times, among rows of any other connections),
  with counters that do not decrease, and then a poll that does not see it. The increments emitted for
  the connection, summed, are the last cumulative counters observed, sent and received, and the tracker
  has forgotten the connection. The range order over the map in \<^verbatim>\<open>EndPoll\<close> is arbitrary as long as it
  visits the connection.
\<close>
theorem lifetime_total_exact:
  assumes "tracker_ok t" and "t k = None" and "ps \<noteq> []"
    and "seenIn k ps" and "growing 0 0 (history k ps)"
    and "rowsOf k rows = []" and "k \<in> set order"
  shows "sentOf k (fst (runPolls (ps @ [(order, rows)]) t)) = tf_bytesSent (last (history k ps)) \<and>
         receivedOf k (fst (runPolls (ps @ [(order, rows)]) t)) = tf_bytesReceived (last (history k ps)) \<and>
         snd (runPolls (ps @ [(order, rows)]) t) k = None"
proof -
  obtain s0 r0 where f: "follows s0 r0 (tf_bytesSent (last (history k ps))) (tf_bytesReceived (last (history k ps)))
    (snd (runPolls ps t) k)" using lifetime_follows [OF assms(1-5)] by blast
  then obtain st where st: "snd (runPolls ps t) k = Some st" by (auto simp: follows_def)
  note rem = remaining_after_follows [OF f [unfolded st]]
  note closing = pollOnce_unseen [OF runPolls_ok [OF assms(1)] assms(6,7) st]
  have "emitted (Some st) = (sentOf k (fst (runPolls ps t)), receivedOf k (fst (runPolls ps t)))"
    using runPolls_emitted [OF assms(1,4)] assms(2) by (simp add: st emitted_def)
  with rem closing show ?thesis by (simp add: runPolls_append case_prod_beta)
qed

definition demoConn :: "uint64 \<Rightarrow> uint64 \<Rightarrow> TCPFields" where
  "demoConn s r = emptyTCPFields\<lparr>tf_namespace := ''shop'', tf_pod := ''web'', tf_dstAddr := ''10.0.0.9'',
     tf_dstPort := 443, tf_bytesSent := s, tf_bytesReceived := r\<rparr>"

definition demoKey :: connKey where
  "demoKey = connKeyFromFields (demoConn 0 0)"

lemma demoConn_simps [simp]:
  "connKeyFromFields (demoConn s r) = demoKey"
  "tf_bytesSent (demoConn s r) = s" "tf_bytesReceived (demoConn s r) = r"
  by (simp_all add: demoKey_def demoConn_def connKeyFromFields_def)

theorem lifetime_total_exact_witness:
  "sentOf demoKey (fst (runPolls ([([], [demoConn 100 7]), ([], [demoConn 150 9])] @ [([demoKey], [])]) NewByteDeltaTracker)) = 150"
proof -
  let ?ps = "[([], [demoConn 100 7]), ([], [demoConn 150 9])]"
  have h: "history demoKey ?ps = [demoConn 100 7, demoConn 150 9]"
    by (simp add: history_def rowsOf_def)
  have "sentOf demoKey (fst (runPolls (?ps @ [([demoKey], [])]) NewByteDeltaTracker)) =
      tf_bytesSent (last (history demoKey ?ps))"
    using lifetime_total_exact [of NewByteDeltaTracker demoKey ?ps "[]" "[demoKey]"]
    by (simp add: tracker_ok_def NewByteDeltaTracker_def seenIn_def rowsOf_def growing_def h)
  then show ?thesis by (simp add: h)
qed

lemma BeginPoll_empty [simp]: "BeginPoll Map.empty = Map.empty"
  by (simp add: BeginPoll_def fun_eq_iff)

lemma BeginPoll_single [simp]: "BeginPoll [k \<mapsto> st] = [k \<mapsto> st\<lparr>cs_seen := False\<rparr>]"
  by (simp add: BeginPoll_def fun_eq_iff)

text \<open>
  A counter that restarts is misreported. The counters 100, 150 and, after a restart, 30 account for
  180 bytes. The tracker emits 50 and 30 for the second and third observation; when the connection ends
  it compares the 80 bytes it has emitted with the last counter, 30, and emits 30 once more. The bytes
  after the restart are reported twice, and the 100 bytes of the first observation, which only the
  closing increment would report, never.
\<close>
theorem reset_reported_twice:
  "map bd_sent (fst (runPolls
      [([], [demoConn 100 0]), ([], [demoConn 150 0]), ([], [demoConn 30 0]), ([demoKey], [])]
      NewByteDeltaTracker)) = [50, 30, 30]"
proof -
  let ?st = "\<lambda>s e. \<lparr>cs_fields = demoConn s 0, cs_lastSent = s, cs_lastReceived = 0, cs_emittedSent = e,
    cs_emittedReceived = 0, cs_seen = True\<rparr>"
  have 1: "pollOnce [] [demoConn 100 0] Map.empty = ([], [demoKey \<mapsto> ?st 100 0])"
    by (simp add: pollOnce_def Observe_def)
  have 2: "pollOnce [] [demoConn 150 0] [demoKey \<mapsto> ?st 100 0] =
      ([\<lparr>bd_fields = demoConn 150 0, bd_sent = 50, bd_received = 0\<rparr>], [demoKey \<mapsto> ?st 150 50])"
    by (simp add: pollOnce_def Observe_def diffCumulative_def)
  have 3: "pollOnce [] [demoConn 30 0] [demoKey \<mapsto> ?st 150 50] =
      ([\<lparr>bd_fields = demoConn 30 0, bd_sent = 30, bd_received = 0\<rparr>], [demoKey \<mapsto> ?st 30 80])"
    by (simp add: pollOnce_def Observe_def diffCumulative_def)
  have 4: "pollOnce [demoKey] [] [demoKey \<mapsto> ?st 30 80] =
      ([\<lparr>bd_fields = demoConn 30 0, bd_sent = 30, bd_received = 0\<rparr>], Map.empty)"
    by (simp add: pollOnce_def remainingBytes_def Let_def)
  show ?thesis by (simp add: NewByteDeltaTracker_def 1 2 3 4)
qed

lemma observeAll_nonzero:
  "d \<in> set (fst (observeAll fs t)) \<Longrightarrow> bd_sent d \<noteq> 0 \<or> bd_received d \<noteq> 0"
proof (induction fs arbitrary: t)
  case (Cons f fs)
  have "fst (Observe f t) = Some d \<or> d \<in> set (fst (observeAll fs (snd (Observe f t))))"
    using Cons.prems by (cases "fst (Observe f t)") (auto simp: case_prod_beta)
  then show ?case
  proof
    assume "fst (Observe f t) = Some d"
    from Observe_delta_key [OF this] show ?thesis by blast
  next
    assume "d \<in> set (fst (observeAll fs (snd (Observe f t))))"
    then show ?thesis by (rule Cons.IH)
  qed
qed simp

lemma EndPoll_nonzero:
  "d \<in> set (fst (EndPoll order t)) \<Longrightarrow> bd_sent d \<noteq> 0 \<or> bd_received d \<noteq> 0"
proof (induction order arbitrary: t)
  case (Cons key order)
  show ?case
  proof (cases "t key")
    case None
    with Cons show ?thesis by simp
  next
    case (Some st)
    show ?thesis
    proof (cases "cs_seen st")
      case True
      with Some Cons show ?thesis by simp
    next
      case False
      let ?s = "remainingBytes (cs_emittedSent st) (cs_lastSent st)"
      let ?r = "remainingBytes (cs_emittedReceived st) (cs_lastReceived st)"
      have "d \<in> set (fst (EndPoll order (t(key := None)))) \<or>
          ((?s \<noteq> 0 \<or> ?r \<noteq> 0) \<and> d = \<lparr>bd_fields = cs_fields st, bd_sent = ?s, bd_received = ?r\<rparr>)"
        using Cons.prems Some False
        by (cases "?s = 0"; cases "?r = 0") (simp_all add: Let_def case_prod_beta, auto simp: word_gt_0)
      then show ?thesis using Cons.IH by auto
    qed
  qed
qed simp

lemma pollOnce_nonzero:
  "d \<in> set (fst (pollOnce order rows t)) \<Longrightarrow> bd_sent d \<noteq> 0 \<or> bd_received d \<noteq> 0"
  using observeAll_nonzero EndPoll_nonzero by (auto simp: pollOnce_def case_prod_beta)

text \<open>
  Every increment the tracker emits is a real one: it carries a non-zero number of bytes, in an
  observation as well as at the end of a connection, so that \<^verbatim>\<open>mapTrafficDelta\<close> drops it only for a
  missing pod or destination, and the event it makes otherwise is a traffic event, acceptable to the
  collector, that carries exactly the increment.
\<close>
theorem traffic_event_of_delta:
  assumes "d \<in> set (fst (pollOnce order rows t))"
  shows "(bd_sent d \<noteq> 0 \<or> bd_received d \<noteq> 0) \<and>
         (mapTrafficDelta now d = None \<longleftrightarrow> tf_pod (bd_fields d) = '''' \<or> tf_dstAddr (bd_fields d) = '''') \<and>
         (\<forall>e. mapTrafficDelta now d = Some e \<longrightarrow>
            fe_eventKind e = KIND_TRAFFIC \<and> isAcceptableEvent e \<and>
            fe_bytesSent e = bd_sent d \<and> fe_bytesReceived e = bd_received d)"
proof -
  have "bd_sent d \<noteq> 0 \<or> bd_received d \<noteq> 0" using pollOnce_nonzero [OF assms] .
  then show ?thesis
    by (auto simp: mapTrafficDelta_def MapFlowEvent_def isAcceptableEvent_def Let_def emptyTCPFields_def)
qed

theorem traffic_event_of_delta_witness:
  "bd_sent \<lparr>bd_fields = demoConn 150 0, bd_sent = 50, bd_received = 0\<rparr> = 50 \<and>
   mapTrafficDelta 5 \<lparr>bd_fields = demoConn 150 0, bd_sent = 50, bd_received = 0\<rparr> \<noteq> None"
proof -
  have "\<lparr>bd_fields = demoConn 150 0, bd_sent = 50, bd_received = 0\<rparr> \<in>
      set (fst (pollOnce [] [demoConn 100 0, demoConn 150 0] NewByteDeltaTracker))"
    by (simp add: NewByteDeltaTracker_def pollOnce_def BeginPoll_def Observe_def Let_def diffCumulative_def)
  from traffic_event_of_delta [OF this, of 5] show ?thesis by (simp add: demoConn_def)
qed

end
