(* ===== verification/Agent_Client.thy ===== *)
theory Agent_Client
  imports Delta_Tracker Interfaces "HOL-Library.Sublist"
begin

text \<open>
  The agent's gRPC client (\<^verbatim>\<open>network-flow/pkg/agent/collector_client.go\<close>): the bounded buffer of
  pending events, the send loop that drains it in batches and puts a failed batch back, the
  throttled log line about dropped events and the reconnect loop.

  The gadget goroutines call \<^verbatim>\<open>Enqueue\<close> while a \<^verbatim>\<open>Send\<close> is in progress; the lock is not held there.
  A \<open>send_reply\<close> is one return of \<^verbatim>\<open>stream.Send\<close>: whether the error was nil and what was enqueued
  meanwhile. A loop that needs more replies than it is given is still waiting in \<^verbatim>\<open>Send\<close>, with its
  batch in flight. Slices of the buffer are copied on no path that matters: \<^verbatim>\<open>requeue\<close> appends
  \<^verbatim>\<open>c.events\<close> to the batch it was cut from, which is a (possibly overlapping) copy onto itself.
\<close>

record ClientConfig =
  cc_collectorAddr :: string
  cc_nodeName :: string
  cc_agentId :: string
  cc_batchSize :: int
  cc_maxPendingEvents :: int
  cc_flushInterval :: duration
  cc_backoffMin :: duration
  cc_backoffMax :: duration

datatype AgLog =
    AgDropped int int string \<comment> \<open>dropped, pending, reason\<close>
  | AgBatchSent int int \<comment> \<open>events, pending\<close>

record Client =
  cl_cfg :: ClientConfig
  cl_events :: "FlowEvent list"
  cl_flushCh :: bool
  cl_droppedPending :: int
  cl_sendFailures :: int
  cl_lastDropReason :: string
  cl_dropLogNext :: go_time
  cl_pendingDropLogCount :: int
  cl_pendingDropLogReason :: string
  cl_log :: "AgLog list"

definition defaultMaxPendingEvents :: int where "defaultMaxPendingEvents = 50000"

definition clientDefaults :: "ClientConfig \<Rightarrow> ClientConfig" where
  "clientDefaults cfg = cfg
     \<lparr>cc_batchSize := (if cc_batchSize cfg \<le> 0 then 5000 else cc_batchSize cfg),
      cc_maxPendingEvents :=
        (if cc_maxPendingEvents cfg \<le> 0 then defaultMaxPendingEvents else cc_maxPendingEvents cfg),
      cc_flushInterval := (if cc_flushInterval cfg \<le> 0 then 5 * Second else cc_flushInterval cfg),
      cc_backoffMin := (if cc_backoffMin cfg \<le> 0 then Second else cc_backoffMin cfg),
      cc_backoffMax := (if cc_backoffMax cfg \<le> 0 then 30 * Second else cc_backoffMax cfg)\<rparr>"

definition NewClient :: "ClientConfig \<Rightarrow> Client" where
  "NewClient cfg =
     \<lparr>cl_cfg = clientDefaults cfg, cl_events = [], cl_flushCh = False, cl_droppedPending = 0,
      cl_sendFailures = 0, cl_lastDropReason = '''', cl_dropLogNext = zeroTime,
      cl_pendingDropLogCount = 0, cl_pendingDropLogReason = '''', cl_log = []\<rparr>"

definition PendingCount :: "Client \<Rightarrow> int" where
  "PendingCount c = int (length (cl_events c))"

definition enforceMaxLocked :: "Client \<Rightarrow> Client" where
  "enforceMaxLocked c =
     (let overflow = int (length (cl_events c)) - cc_maxPendingEvents (cl_cfg c) in
      if overflow \<le> 0 then c
      else c\<lparr>cl_events := drop (nat overflow) (cl_events c),
             cl_droppedPending := cl_droppedPending c + overflow,
             cl_lastDropReason := ''max_pending_events''\<rparr>)"

definition signalFlush :: "Client \<Rightarrow> Client" where
  "signalFlush c = c\<lparr>cl_flushCh := True\<rparr>"

definition Enqueue :: "FlowEvent option \<Rightarrow> Client \<Rightarrow> Client" where
  "Enqueue event c =
     (case event of
        None \<Rightarrow> c
      | Some e \<Rightarrow>
          let c1 = enforceMaxLocked (c\<lparr>cl_events := cl_events c @ [e]\<rparr>)
          in if int (length (cl_events c1)) \<ge> cc_batchSize (cl_cfg c1) then signalFlush c1 else c1)"

definition drainBatchLocked :: "int \<Rightarrow> Client \<Rightarrow> FlowEventBatch option \<times> Client" where
  "drainBatchLocked mx c =
     (if cl_events c = [] then (None, c)
      else
        let mx1 = (if mx \<le> 0 then cc_batchSize (cl_cfg c) else mx);
            mx2 = (if mx1 > int (length (cl_events c)) then int (length (cl_events c)) else mx1)
        in (Some \<lparr>fb_nodeName = cc_nodeName (cl_cfg c), fb_agentId = cc_agentId (cl_cfg c),
                  fb_events = map Some (take (nat mx2) (cl_events c))\<rparr>,
            c\<lparr>cl_events := drop (nat mx2) (cl_events c)\<rparr>))"

definition batchEvents :: "FlowEventBatch \<Rightarrow> FlowEvent list" where
  "batchEvents b = map the (fb_events b)"

definition requeue :: "FlowEventBatch \<Rightarrow> Client \<Rightarrow> Client" where
  "requeue b c =
     (if fb_events b = [] then c
      else enforceMaxLocked (c\<lparr>cl_events := batchEvents b @ cl_events c\<rparr>))"

definition logDroppedPending :: "go_time \<Rightarrow> Client \<Rightarrow> Client" where
  "logDroppedPending now c =
     (let count = cl_droppedPending c;
          reason = cl_lastDropReason c;
          c0 = (if count > 0 then c\<lparr>cl_droppedPending := 0, cl_lastDropReason := ''''\<rparr> else c)
      in if count = 0 then c0
         else
           let c1 = c0\<lparr>cl_pendingDropLogCount := cl_pendingDropLogCount c0 + count,
                       cl_pendingDropLogReason :=
                         (if reason \<noteq> '''' then reason else cl_pendingDropLogReason c0)\<rparr>
           in if now < cl_dropLogNext c1 then c1
              else c1\<lparr>cl_dropLogNext := now + Minute, cl_pendingDropLogCount := 0,
                      cl_pendingDropLogReason := '''',
                      cl_log := cl_log c1 @ [AgDropped (cl_pendingDropLogCount c1) (PendingCount c)
                                               (cl_pendingDropLogReason c1)]\<rparr>)"

definition agNextBackoff :: "duration \<Rightarrow> duration \<Rightarrow> duration" where
  "agNextBackoff backoffMax current =
     (let nxt = wrap64 (current * 2) in if nxt > backoffMax then backoffMax else nxt)"

section \<open>The send loop\<close>

record send_reply =
  sr_ok :: bool
  sr_enqueued :: "FlowEvent list"

datatype send_end = SendDone | SendErr | SendBlocked

record ag_state =
  as_client :: Client
  as_inflight :: "FlowEvent list"
  as_sent :: "FlowEventBatch list" \<comment> \<open>history: the messages \<^verbatim>\<open>Send\<close> accepted\<close>
  as_offered :: "FlowEvent list" \<comment> \<open>history: the events handed to \<^verbatim>\<open>Enqueue\<close>\<close>

definition offer :: "FlowEvent list \<Rightarrow> ag_state \<Rightarrow> ag_state" where
  "offer es s = s\<lparr>as_client := fold (\<lambda>e. Enqueue (Some e)) es (as_client s), as_offered := as_offered s @ es\<rparr>"

fun agSendLoop :: "send_reply list \<Rightarrow> ag_state \<Rightarrow> ag_state \<times> send_end" where
  "agSendLoop [] s =
     (case drainBatchLocked (cc_batchSize (cl_cfg (as_client s))) (as_client s) of
        (None, c) \<Rightarrow> (s\<lparr>as_client := c\<rparr>, SendDone)
      | (Some b, c) \<Rightarrow>
          if fb_events b = [] then (s\<lparr>as_client := c\<rparr>, SendDone)
          else (s\<lparr>as_client := c, as_inflight := batchEvents b\<rparr>, SendBlocked))"
| "agSendLoop (r # rs) s =
     (case drainBatchLocked (cc_batchSize (cl_cfg (as_client s))) (as_client s) of
        (None, c) \<Rightarrow> (s\<lparr>as_client := c\<rparr>, SendDone)
      | (Some b, c) \<Rightarrow>
          if fb_events b = [] then (s\<lparr>as_client := c\<rparr>, SendDone)
          else
            let s1 = offer (sr_enqueued r) (s\<lparr>as_client := c\<rparr>); c1 = as_client s1
            in if \<not> sr_ok r
               then (s1\<lparr>as_client := requeue b (c1\<lparr>cl_sendFailures := cl_sendFailures c1 + 1\<rparr>)\<rparr>, SendErr)
               else agSendLoop rs
                 (s1\<lparr>as_client := c1\<lparr>cl_log := cl_log c1 @ [AgBatchSent (int (length (fb_events b))) (PendingCount c)]\<rparr>,
                     as_sent := as_sent s1 @ [b]\<rparr>))"

definition agSendPending :: "go_time \<Rightarrow> send_reply list \<Rightarrow> ag_state \<Rightarrow> ag_state \<times> send_end" where
  "agSendPending now rs s = agSendLoop rs (s\<lparr>as_client := logDroppedPending now (as_client s)\<rparr>)"

section \<open>The reconnect loop\<close>

datatype ag_event =
    AgTick go_time "send_reply list"
  | AgFlushReady go_time "send_reply list"
  | AgEnqueue "FlowEvent list"
  | AgCtxDone

datatype ag_end = AgWaiting | AgCtxEnd | AgSendErr

fun agRunConnected :: "ag_event list \<Rightarrow> ag_state \<Rightarrow> ag_state \<times> ag_end" where
  "agRunConnected [] s = (s, AgWaiting)"
| "agRunConnected (AgCtxDone # evs) s = (s, AgCtxEnd)"
| "agRunConnected (AgEnqueue es # evs) s = agRunConnected evs (offer es s)"
| "agRunConnected (AgTick now rs # evs) s =
     (case agSendPending now rs s of
        (s', SendDone) \<Rightarrow> agRunConnected evs s'
      | (s', SendErr) \<Rightarrow> (s', AgSendErr)
      | (s', SendBlocked) \<Rightarrow> (s', AgWaiting))"
| "agRunConnected (AgFlushReady now rs # evs) s =
     (if \<not> cl_flushCh (as_client s) then agRunConnected evs s
      else case agSendPending now rs (s\<lparr>as_client := (as_client s)\<lparr>cl_flushCh := False\<rparr>\<rparr>) of
        (s', SendDone) \<Rightarrow> agRunConnected evs s'
      | (s', SendErr) \<Rightarrow> (s', AgSendErr)
      | (s', SendBlocked) \<Rightarrow> (s', AgWaiting))"

text \<open>One iteration of \<^verbatim>\<open>Run\<close>, as the environment decides it.\<close>

record ag_script =
  ag_offers :: "FlowEvent list" \<comment> \<open>enqueued before the iteration\<close>
  ag_ctxDone :: bool
  ag_dialOK :: bool
  ag_first :: "go_time \<times> send_reply list" \<comment> \<open>the first \<^verbatim>\<open>sendPending\<close>\<close>
  ag_events :: "ag_event list"
  ag_ctxAfter :: bool
  ag_last :: "go_time \<times> send_reply list" \<comment> \<open>the \<^verbatim>\<open>sendPending\<close> after cancellation\<close>
  ag_slept :: bool

record ag_result =
  ar_state :: ag_state
  ar_delays :: "duration list"
  ar_returned :: bool

fun agRun :: "ag_script list \<Rightarrow> duration \<Rightarrow> duration list \<Rightarrow> ag_state \<Rightarrow> ag_result" where
  "agRun [] backoff delays s = \<lparr>ar_state = s, ar_delays = delays, ar_returned = False\<rparr>"
| "agRun (sc # scs) backoff delays s0 =
     (let s = offer (ag_offers sc) s0;
          cfg = cl_cfg (as_client s);
          stop = (\<lambda>s d. \<lparr>ar_state = s, ar_delays = d, ar_returned = True\<rparr>);
          waiting = (\<lambda>s d. \<lparr>ar_state = s, ar_delays = d, ar_returned = False\<rparr>);
          mn = cc_backoffMin cfg; mx = cc_backoffMax cfg
      in if ag_ctxDone sc then stop s delays
         else if \<not> ag_dialOK sc
         then (if \<not> ag_slept sc then stop s (delays @ [backoff])
               else agRun scs (agNextBackoff mx backoff) (delays @ [backoff]) s)
         else case agSendPending (fst (ag_first sc)) (snd (ag_first sc)) s of
           (s1, SendBlocked) \<Rightarrow> waiting s1 delays
         | (s1, SendErr) \<Rightarrow>
             if \<not> ag_slept sc then stop s1 (delays @ [mn])
             else agRun scs (agNextBackoff mx mn) (delays @ [mn]) s1
         | (s1, SendDone) \<Rightarrow>
             (case agRunConnected (ag_events sc) s1 of
                (s2, AgWaiting) \<Rightarrow> waiting s2 delays
              | (s2, ended) \<Rightarrow>
                  if ended = AgCtxEnd \<or> ag_ctxAfter sc
                  then (case agSendPending (fst (ag_last sc)) (snd (ag_last sc)) s2 of
                          (s3, SendBlocked) \<Rightarrow> waiting s3 delays
                        | (s3, _) \<Rightarrow> stop s3 delays)
                  else if \<not> ag_slept sc then stop s2 (delays @ [mn])
                  else agRun scs (agNextBackoff mx mn) (delays @ [mn]) s2))"

section \<open>The buffer\<close>

definition client_ok :: "Client \<Rightarrow> bool" where
  "client_ok c \<longleftrightarrow> 0 < cc_batchSize (cl_cfg c) \<and> 0 < cc_maxPendingEvents (cl_cfg c) \<and>
     int (length (cl_events c)) \<le> cc_maxPendingEvents (cl_cfg c) \<and> 0 \<le> cl_droppedPending c"

lemma NewClient_ok: "client_ok (NewClient cfg)"
  by (simp add: client_ok_def NewClient_def clientDefaults_def defaultMaxPendingEvents_def)

lemma enforceMaxLocked_effect:
  assumes "0 < cc_maxPendingEvents (cl_cfg c)"
  obtains k where "k \<le> length (cl_events c)" and "cl_events (enforceMaxLocked c) = drop k (cl_events c)"
    and "cl_droppedPending (enforceMaxLocked c) = cl_droppedPending c + int k"
    and "int (length (cl_events (enforceMaxLocked c))) \<le> cc_maxPendingEvents (cl_cfg c)"
proof
  let ?k = "nat (int (length (cl_events c)) - cc_maxPendingEvents (cl_cfg c))"
  show "?k \<le> length (cl_events c)" using assms by simp
  show "cl_events (enforceMaxLocked c) = drop ?k (cl_events c)"
    by (simp add: enforceMaxLocked_def Let_def)
  show "cl_droppedPending (enforceMaxLocked c) = cl_droppedPending c + int ?k"
    by (simp add: enforceMaxLocked_def Let_def)
  show "int (length (cl_events (enforceMaxLocked c))) \<le> cc_maxPendingEvents (cl_cfg c)"
    using assms by (simp add: enforceMaxLocked_def Let_def)
qed

lemma enforceMaxLocked_frame [simp]:
  "cl_cfg (enforceMaxLocked c) = cl_cfg c" "cl_log (enforceMaxLocked c) = cl_log c"
  "cl_pendingDropLogCount (enforceMaxLocked c) = cl_pendingDropLogCount c"
  "cl_sendFailures (enforceMaxLocked c) = cl_sendFailures c"
  by (simp_all add: enforceMaxLocked_def Let_def)

lemma Enqueue_fields:
  "cl_events (Enqueue (Some e) c) = cl_events (enforceMaxLocked (c\<lparr>cl_events := cl_events c @ [e]\<rparr>))"
  "cl_droppedPending (Enqueue (Some e) c) = cl_droppedPending (enforceMaxLocked (c\<lparr>cl_events := cl_events c @ [e]\<rparr>))"
  "cl_cfg (Enqueue (Some e) c) = cl_cfg c" "cl_log (Enqueue (Some e) c) = cl_log c"
  "cl_pendingDropLogCount (Enqueue (Some e) c) = cl_pendingDropLogCount c"
  by (simp_all add: Enqueue_def Let_def signalFlush_def)

lemma Enqueue_effect:
  assumes "client_ok c"
  obtains k where "k \<le> length (cl_events c @ [e])" and "cl_events (Enqueue (Some e) c) = drop k (cl_events c @ [e])"
    and "cl_droppedPending (Enqueue (Some e) c) = cl_droppedPending c + int k" and "client_ok (Enqueue (Some e) c)"
  using assms enforceMaxLocked_effect [of "c\<lparr>cl_events := cl_events c @ [e]\<rparr>"]
  by (auto simp: client_ok_def Enqueue_fields simp del: drop_append)

interpretation agent_buffer: element_queue cl_events cl_droppedPending
  "\<lambda>c. nat (cc_maxPendingEvents (cl_cfg c))" client_ok "\<lambda>e. Enqueue (Some e)"
proof
  fix c :: Client and e
  assume ok: "client_ok c"
  show "client_ok (Enqueue (Some e) c)" using Enqueue_effect [OF ok] by blast
  show "nat (cc_maxPendingEvents (cl_cfg (Enqueue (Some e) c))) = nat (cc_maxPendingEvents (cl_cfg c))"
    by (simp add: Enqueue_fields)
  show "length (cl_events c) \<le> nat (cc_maxPendingEvents (cl_cfg c))"
    using ok unfolding client_ok_def by linarith
  show "\<exists>k\<le>length (cl_events c @ [e]). cl_events (Enqueue (Some e) c) = drop k (cl_events c @ [e]) \<and>
      cl_droppedPending (Enqueue (Some e) c) = cl_droppedPending c + int k"
    using Enqueue_effect [OF ok] by metis
qed

interpretation agent_backoff: doubling_backoff agNextBackoff
proof
  fix d mx :: int
  assume "0 < d" and "d \<le> 2 ^ 62 - 1"
  then have "wrap64 (d * 2) = d * 2"
    by (intro wrap64_id) (simp_all add: minInt64_def maxInt64_def)
  then show "agNextBackoff mx d = min mx (2 * d)"
    by (simp add: agNextBackoff_def Let_def min_def)
qed

section \<open>Conservation of events\<close>

definition agDropsIn :: "AgLog \<Rightarrow> int" where
  "agDropsIn l = (case l of AgDropped n _ _ \<Rightarrow> n | _ \<Rightarrow> 0)"

definition agLogged :: "Client \<Rightarrow> int" where
  "agLogged c = cl_pendingDropLogCount c + sum_list (map agDropsIn (cl_log c))"

definition agLoss :: "Client \<Rightarrow> int" where
  "agLoss c = cl_droppedPending c + agLogged c"

definition agDelivered :: "ag_state \<Rightarrow> FlowEvent list" where
  "agDelivered s = concat (map batchEvents (as_sent s))"

text \<open>
  The invariant, with \<open>xs\<close> the events taken out of the buffer and not yet delivered or put back.
\<close>

definition ag_inv :: "FlowEvent list \<Rightarrow> ag_state \<Rightarrow> bool" where
  "ag_inv xs s \<longleftrightarrow> client_ok (as_client s) \<and>
     subseq (agDelivered s @ xs @ cl_events (as_client s)) (as_offered s) \<and>
     int (length (as_offered s)) =
       int (length (agDelivered s @ xs @ cl_events (as_client s))) + agLoss (as_client s)"

lemma subseq_drop_tail: "subseq (xs @ ys) zs \<Longrightarrow> subseq (xs @ drop k ys) zs"
  by (meson list_emb_append_mono subseq_order.order_refl subseq_order.trans suffix_drop suffix_imp_subseq)

lemma fold_Enqueue_frame:
  "cl_cfg (fold (\<lambda>e. Enqueue (Some e)) es c) = cl_cfg c"
  "agLogged (fold (\<lambda>e. Enqueue (Some e)) es c) = agLogged c"
  by (induction es arbitrary: c) (simp_all add: Enqueue_fields agLogged_def)

lemma offer_fields [simp]:
  "as_sent (offer es s) = as_sent s" "as_inflight (offer es s) = as_inflight s"
  "as_offered (offer es s) = as_offered s @ es" "cl_cfg (as_client (offer es s)) = cl_cfg (as_client s)"
  "agDelivered (offer es s) = agDelivered s"
  by (simp_all add: offer_def agDelivered_def fold_Enqueue_frame)

lemma offer_inv:
  assumes "ag_inv xs s"
  shows "ag_inv xs (offer es s)"
proof -
  let ?c = "as_client s"
  have ok: "client_ok ?c" using assms by (simp add: ag_inv_def)
  obtain k where k: "k \<le> length (cl_events ?c @ es)"
    "cl_events (as_client (offer es s)) = drop k (cl_events ?c @ es)"
    "cl_droppedPending (as_client (offer es s)) = cl_droppedPending ?c + int k"
    using agent_buffer.fold_push1_drops_oldest [OF ok, of es] by (auto simp: offer_def)
  have "subseq ((agDelivered s @ xs @ cl_events ?c) @ es) (as_offered s @ es)"
    using assms by (intro list_emb_append_mono) (simp_all add: ag_inv_def)
  then have "subseq ((agDelivered s @ xs) @ drop k (cl_events ?c @ es)) (as_offered s @ es)"
    by (intro subseq_drop_tail) simp
  moreover have "agLoss (as_client (offer es s)) = agLoss ?c + int k"
    using k(3) by (simp add: agLoss_def offer_def fold_Enqueue_frame)
  moreover have "client_ok (as_client (offer es s))"
    using agent_buffer.fold_push1_invar [OF ok] by (simp add: offer_def)
  ultimately show ?thesis
    using assms k(1,2) by (simp add: ag_inv_def del: drop_append)
qed

lemma drainBatch_cases:
  assumes "client_ok c"
  obtains (empty) "cl_events c = []" "drainBatchLocked (cc_batchSize (cl_cfg c)) c = (None, c)"
  | (batch) b xs ys where "cl_events c = xs @ ys" "xs \<noteq> []" "fb_events b = map Some xs" "batchEvents b = xs"
      "drainBatchLocked (cc_batchSize (cl_cfg c)) c = (Some b, c\<lparr>cl_events := ys\<rparr>)"
      "int (length xs) = min (cc_batchSize (cl_cfg c)) (int (length (cl_events c)))"
proof (cases "cl_events c = []")
  case True
  then show ?thesis by (intro empty) (simp_all add: drainBatchLocked_def)
next
  case False
  define n where "n = nat (min (cc_batchSize (cl_cfg c)) (int (length (cl_events c))))"
  let ?b = "\<lparr>fb_nodeName = cc_nodeName (cl_cfg c), fb_agentId = cc_agentId (cl_cfg c),
    fb_events = map Some (take n (cl_events c))\<rparr>"
  have n: "int n = min (cc_batchSize (cl_cfg c)) (int (length (cl_events c)))"
    using assms by (simp add: n_def client_ok_def)
  then have "0 < n" "n \<le> length (cl_events c)"
    using assms False by (auto simp: client_ok_def min_def split: if_splits)
  moreover have "drainBatchLocked (cc_batchSize (cl_cfg c)) c = (Some ?b, c\<lparr>cl_events := drop n (cl_events c)\<rparr>)"
    using assms False by (auto simp: drainBatchLocked_def Let_def client_ok_def n_def min_def)
  ultimately show ?thesis
    using False n by (intro batch [of "take n (cl_events c)" "drop n (cl_events c)" ?b])
      (simp_all add: batchEvents_def comp_def)
qed

lemma take_out_inv:
  assumes "ag_inv [] s" and "cl_events (as_client s) = xs @ ys"
  shows "ag_inv xs (s\<lparr>as_client := (as_client s)\<lparr>cl_events := ys\<rparr>\<rparr>)"
  using assms by (simp add: ag_inv_def agDelivered_def client_ok_def agLoss_def agLogged_def)

lemma inflight_irrelevant [simp]: "ag_inv xs (s\<lparr>as_inflight := zs\<rparr>) = ag_inv xs s"
  by (simp add: ag_inv_def agDelivered_def)

lemma logDroppedPending_frame:
  "cl_events (logDroppedPending now c) = cl_events c" "cl_cfg (logDroppedPending now c) = cl_cfg c"
  "cl_flushCh (logDroppedPending now c) = cl_flushCh c"
  by (simp_all add: logDroppedPending_def Let_def)

lemma logDroppedPending_loss:
  assumes "client_ok c"
  shows "agLoss (logDroppedPending now c) = agLoss c" "client_ok (logDroppedPending now c)"
  using assms by (auto simp: logDroppedPending_def Let_def agLoss_def agLogged_def agDropsIn_def client_ok_def)

lemma requeue_effect:
  assumes "client_ok c" and "batchEvents b = xs" and "fb_events b = map Some xs"
  obtains k where "k \<le> length (xs @ cl_events c)" and "cl_events (requeue b c) = drop k (xs @ cl_events c)"
    and "agLoss (requeue b c) = agLoss c + int k" and "client_ok (requeue b c)"
proof (cases "xs = []")
  case True
  with assms that [of 0] show ?thesis by (simp add: requeue_def)
next
  case False
  let ?c = "c\<lparr>cl_events := xs @ cl_events c\<rparr>"
  have pos: "0 < cc_maxPendingEvents (cl_cfg ?c)" using assms(1) by (simp add: client_ok_def)
  have r: "requeue b c = enforceMaxLocked ?c" using False assms(2,3) by (simp add: requeue_def)
  show ?thesis
    by (rule enforceMaxLocked_effect [OF pos])
      (use assms(1) that in \<open>simp add: r client_ok_def agLoss_def agLogged_def del: drop_append\<close>)
qed

lemma agSendLoop_inv:
  "agSendLoop rs s = (s', e) \<Longrightarrow> ag_inv [] s \<Longrightarrow> as_inflight s = [] \<Longrightarrow>
     ag_inv (as_inflight s') s' \<and> cl_cfg (as_client s') = cl_cfg (as_client s) \<and>
     (e \<noteq> SendBlocked \<longrightarrow> as_inflight s' = []) \<and> (e = SendDone \<longrightarrow> cl_events (as_client s') = [])"
proof (induction rs arbitrary: s)
  case Nil
  have ok: "client_ok (as_client s)" using Nil.prems by (simp add: ag_inv_def)
  show ?case
    using ok
  proof (cases rule: drainBatch_cases)
    case empty
    with Nil.prems show ?thesis by auto
  next
    case (batch b xs ys)
    let ?s0 = "s\<lparr>as_client := (as_client s)\<lparr>cl_events := ys\<rparr>\<rparr>"
    have "s' = ?s0\<lparr>as_inflight := xs\<rparr>" "e = SendBlocked" using Nil.prems(1) batch by auto
    with take_out_inv [OF Nil.prems(2) batch(1)] show ?thesis by simp
  qed
next
  case (Cons r rs)
  let ?c = "as_client s"
  have ok: "client_ok ?c" using Cons.prems by (simp add: ag_inv_def)
  show ?case
    using ok
  proof (cases rule: drainBatch_cases)
    case empty
    with Cons.prems show ?thesis by auto
  next
    case (batch b xs ys)
    let ?s0 = "s\<lparr>as_client := ?c\<lparr>cl_events := ys\<rparr>\<rparr>"
    let ?s1 = "offer (sr_enqueued r) ?s0"
    let ?c1 = "as_client ?s1"
    have inv1: "ag_inv xs ?s1" by (rule offer_inv [OF take_out_inv [OF Cons.prems(2) batch(1)]])
    have infl: "as_inflight ?s1 = []" using Cons.prems(3) by simp
    show ?thesis
    proof (cases "sr_ok r")
      case True
      let ?s2 = "?s1\<lparr>as_client := ?c1\<lparr>cl_log := cl_log ?c1 @ [AgBatchSent (int (length (fb_events b)))
        (PendingCount (?c\<lparr>cl_events := ys\<rparr>))]\<rparr>, as_sent := as_sent ?s1 @ [b]\<rparr>"
      have rec: "agSendLoop rs ?s2 = (s', e)" using Cons.prems(1) batch(2,3,5) True by (simp add: Let_def)
      have "ag_inv [] ?s2" using inv1 batch(4)
        by (simp add: ag_inv_def agDelivered_def client_ok_def agLoss_def agLogged_def agDropsIn_def)
      from Cons.IH [OF rec this] show ?thesis using infl by simp
    next
      case False
      let ?c2 = "?c1\<lparr>cl_sendFailures := cl_sendFailures ?c1 + 1\<rparr>"
      have ok2: "client_ok ?c2" using inv1 by (simp add: ag_inv_def client_ok_def)
      obtain k where k: "k \<le> length (xs @ cl_events ?c2)" "cl_events (requeue b ?c2) = drop k (xs @ cl_events ?c2)"
        "agLoss (requeue b ?c2) = agLoss ?c2 + int k" "client_ok (requeue b ?c2)"
        by (rule requeue_effect [OF ok2 batch(4,3)])
      have s': "s' = ?s1\<lparr>as_client := requeue b ?c2\<rparr>" "e = SendErr"
        using Cons.prems(1) batch(2,3,5) False by (simp_all add: Let_def)
      have "subseq (agDelivered ?s1 @ (xs @ cl_events ?c1)) (as_offered ?s1)"
        using inv1 unfolding ag_inv_def by blast
      then have "subseq (agDelivered ?s1 @ drop k (xs @ cl_events ?c1)) (as_offered ?s1)"
        by (rule subseq_drop_tail)
      moreover have "agLoss ?c2 = agLoss ?c1" by (simp add: agLoss_def agLogged_def)
      moreover have "int (length (as_offered ?s1)) =
          int (length (agDelivered ?s1)) + int (length (xs @ cl_events ?c1)) + agLoss ?c1"
        using inv1 by (simp add: ag_inv_def)
      moreover have "cl_cfg (requeue b ?c2) = cl_cfg ?c" by (simp add: requeue_def)
      ultimately show ?thesis
        using k infl unfolding s' by (simp add: ag_inv_def agDelivered_def del: drop_append)
    qed
  qed
qed

lemma agSendPending_inv:
  assumes "agSendPending now rs s = (s', e)" and "ag_inv [] s" and "as_inflight s = []"
  shows "ag_inv (as_inflight s') s' \<and> cl_cfg (as_client s') = cl_cfg (as_client s) \<and>
    (e \<noteq> SendBlocked \<longrightarrow> as_inflight s' = []) \<and> (e = SendDone \<longrightarrow> cl_events (as_client s') = [])"
proof -
  let ?s = "s\<lparr>as_client := logDroppedPending now (as_client s)\<rparr>"
  have "ag_inv [] ?s"
    using assms(2) logDroppedPending_loss [of "as_client s" now]
    by (simp add: ag_inv_def agDelivered_def logDroppedPending_frame)
  from agSendLoop_inv [OF assms(1) [unfolded agSendPending_def] this] assms(3) show ?thesis
    by (simp add: logDroppedPending_frame)
qed

definition idle_inv :: "ag_state \<Rightarrow> bool" where
  "idle_inv s \<longleftrightarrow> ag_inv [] s \<and> as_inflight s = []"

lemma idle_inv_steps:
  "idle_inv s \<Longrightarrow> idle_inv (offer es s)"
  "idle_inv s \<Longrightarrow> idle_inv (s\<lparr>as_client := (as_client s)\<lparr>cl_flushCh := b\<rparr>\<rparr>)"
  by (simp add: idle_inv_def offer_inv)
    (simp add: idle_inv_def ag_inv_def agDelivered_def client_ok_def agLoss_def agLogged_def)

lemma agSendPending_idle:
  assumes "agSendPending now rs s = (s', e)" and "idle_inv s"
  shows "ag_inv (as_inflight s') s'" "cl_cfg (as_client s') = cl_cfg (as_client s)"
    "e \<noteq> SendBlocked \<Longrightarrow> idle_inv s'"
  using agSendPending_inv [OF assms(1)] assms(2) by (auto simp: idle_inv_def)

lemma agRunConnected_inv:
  "agRunConnected evs s = (s', e) \<Longrightarrow> idle_inv s \<Longrightarrow>
     ag_inv (as_inflight s') s' \<and> cl_cfg (as_client s') = cl_cfg (as_client s) \<and>
     (e \<noteq> AgWaiting \<longrightarrow> idle_inv s')"
proof (induction evs s rule: agRunConnected.induct)
  case (1 s)
  then show ?case by (simp add: idle_inv_def)
next
  case (2 evs s)
  then show ?case by (simp add: idle_inv_def)
next
  case (3 es evs s)
  from "3.IH" "3.prems" show ?case by (simp add: idle_inv_steps)
next
  case (4 now rs evs s)
  obtain s1 e1 where p: "agSendPending now rs s = (s1, e1)" by force
  note f = agSendPending_idle [OF p "4.prems"(2)]
  show ?case using "4.IH" [OF p [symmetric]] "4.prems"(1) f p by (cases e1) simp_all
next
  case (5 now rs evs s)
  show ?case
  proof (cases "cl_flushCh (as_client s)")
    case False
    with "5.IH"(1) "5.prems" show ?thesis by simp
  next
    case True
    let ?s = "s\<lparr>as_client := (as_client s)\<lparr>cl_flushCh := False\<rparr>\<rparr>"
    obtain s1 e1 where p: "agSendPending now rs ?s = (s1, e1)" by force
    note f = agSendPending_idle [OF p idle_inv_steps(2) [OF "5.prems"(2)]]
    show ?thesis using "5.IH"(2) [OF _ p [symmetric]] "5.prems"(1) f p True by (cases e1) simp_all
  qed
qed

definition delaysOK :: "ClientConfig \<Rightarrow> duration list \<Rightarrow> bool" where
  "delaysOK cfg ds \<longleftrightarrow> (\<forall>d \<in> set ds. cc_backoffMin cfg \<le> d \<and> d \<le> cc_backoffMax cfg)"

definition backoff_cfg :: "ClientConfig \<Rightarrow> bool" where
  "backoff_cfg cfg \<longleftrightarrow> 0 < cc_backoffMin cfg \<and> cc_backoffMin cfg \<le> cc_backoffMax cfg \<and> cc_backoffMax cfg < 2 ^ 62"

lemma agNextBackoff_bounds:
  assumes "backoff_cfg cfg" and "cc_backoffMin cfg \<le> d" and "d \<le> cc_backoffMax cfg"
  shows "cc_backoffMin cfg \<le> agNextBackoff (cc_backoffMax cfg) d \<and> agNextBackoff (cc_backoffMax cfg) d \<le> cc_backoffMax cfg"
proof -
  have "agNextBackoff (cc_backoffMax cfg) d = min (cc_backoffMax cfg) (2 * d)"
    using assms by (intro agent_backoff.next_delay) (auto simp: backoff_cfg_def)
  with assms show ?thesis by (auto simp: backoff_cfg_def)
qed

lemma agRun_effect:
  assumes bc: "backoff_cfg cfg"
  shows "idle_inv s \<Longrightarrow> cl_cfg (as_client s) = cfg \<Longrightarrow> delaysOK cfg (backoff # delays) \<Longrightarrow>
     r = agRun scs backoff delays s \<Longrightarrow>
     ag_inv (as_inflight (ar_state r)) (ar_state r) \<and> delaysOK cfg (ar_delays r)"
proof (induction scs arbitrary: backoff delays s r)
  case Nil
  then show ?case by (simp add: idle_inv_def delaysOK_def)
next
  case (Cons sc scs)
  define s0 where "s0 = offer (ag_offers sc) s"
  obtain s1 e1 where p1: "agSendPending (fst (ag_first sc)) (snd (ag_first sc)) s0 = (s1, e1)" by force
  obtain s2 e2 where p2: "agRunConnected (ag_events sc) s1 = (s2, e2)" by force
  obtain s3 e3 where p3: "agSendPending (fst (ag_last sc)) (snd (ag_last sc)) s2 = (s3, e3)" by force
  have i0: "idle_inv s0" "ag_inv (as_inflight s0) s0" and c0: "cl_cfg (as_client s0) = cfg"
    using idle_inv_steps(1) [OF Cons.prems(1)] Cons.prems(2) by (simp_all add: s0_def idle_inv_def)
  note f1 = agSendPending_idle [OF p1 i0(1)]
  note f2 = agRunConnected_inv [OF p2]
  note f3 = agSendPending_idle [OF p3]
  have d: "cc_backoffMin cfg \<le> cc_backoffMax cfg" "delaysOK cfg delays"
    "cc_backoffMin cfg \<le> backoff" "backoff \<le> cc_backoffMax cfg"
    using bc Cons.prems(3) by (simp_all add: backoff_cfg_def delaysOK_def)
  have D: "delaysOK cfg (agNextBackoff (cc_backoffMax cfg) backoff # delays @ [backoff])"
    "delaysOK cfg (agNextBackoff (cc_backoffMax cfg) (cc_backoffMin cfg) # delays @ [cc_backoffMin cfg])"
    using d agNextBackoff_bounds [OF bc d(3,4)] agNextBackoff_bounds [OF bc order_refl d(1)]
    by (auto simp: delaysOK_def)
  then have D': "delaysOK cfg (delays @ [backoff])" "delaysOK cfg (delays @ [cc_backoffMin cfg])"
    by (simp_all add: delaysOK_def)
  note I0 = Cons.IH [OF i0(1) c0 D(1) refl]
  note I1 = Cons.IH [of s1, OF _ _ D(2) refl]
  note I2 = Cons.IH [of s2, OF _ _ D(2) refl]
  note rdef = Cons.prems(4) [unfolded agRun.simps Let_def s0_def [symmetric] p1 c0 p2 p3]
  show ?case
  proof (cases "ag_ctxDone sc \<or> \<not> ag_dialOK sc \<or> e1 \<noteq> SendDone")
    case True
    consider "ag_ctxDone sc" | "\<not> ag_ctxDone sc" "\<not> ag_dialOK sc" | "\<not> ag_ctxDone sc" "ag_dialOK sc" "e1 = SendBlocked"
      | "\<not> ag_ctxDone sc" "ag_dialOK sc" "e1 = SendErr" using True by (cases e1) blast+
    then show ?thesis
    proof cases
      case 1
      then have "r = \<lparr>ar_state = s0, ar_delays = delays, ar_returned = True\<rparr>" using rdef by simp
      then show ?thesis using i0(2) d(2) by simp
    next
      case 2
      then have "r = (if \<not> ag_slept sc then \<lparr>ar_state = s0, ar_delays = delays @ [backoff], ar_returned = True\<rparr>
          else agRun scs (agNextBackoff (cc_backoffMax cfg) backoff) (delays @ [backoff]) s0)" using rdef by simp
      then show ?thesis using i0(2) D'(1) I0 by (simp split: if_splits)
    next
      case 3
      then have "r = \<lparr>ar_state = s1, ar_delays = delays, ar_returned = False\<rparr>" using rdef by simp
      then show ?thesis using f1 3 d(2) by simp
    next
      case 4
      then have "r = (if \<not> ag_slept sc then \<lparr>ar_state = s1, ar_delays = delays @ [cc_backoffMin cfg], ar_returned = True\<rparr>
          else agRun scs (agNextBackoff (cc_backoffMax cfg) (cc_backoffMin cfg)) (delays @ [cc_backoffMin cfg]) s1)"
        using rdef by simp
      then show ?thesis using f1 4 c0 D'(2) I1 by (auto simp: idle_inv_def split: if_splits)
    qed
  next
    case False
    then have ok: "\<not> ag_ctxDone sc" "ag_dialOK sc" "e1 = SendDone" "idle_inv s1" "cl_cfg (as_client s1) = cfg"
      using f1 c0 by auto
    note f2' = f2 [OF ok(4)]
    show ?thesis
    proof (cases "e2 = AgWaiting")
      case True
      with rdef ok f2' d(2) show ?thesis by (simp add: p2)
    next
      case False
      then have i2: "idle_inv s2" "ag_inv (as_inflight s2) s2" "cl_cfg (as_client s2) = cfg"
        using f2' ok by (simp_all add: idle_inv_def)
      note f3' = f3(1) [OF i2(1)]
      have "r = (if e2 = AgCtxEnd \<or> ag_ctxAfter sc
          then (case e3 of SendBlocked \<Rightarrow> \<lparr>ar_state = s3, ar_delays = delays, ar_returned = False\<rparr>
                | _ \<Rightarrow> \<lparr>ar_state = s3, ar_delays = delays, ar_returned = True\<rparr>)
          else if \<not> ag_slept sc then \<lparr>ar_state = s2, ar_delays = delays @ [cc_backoffMin cfg], ar_returned = True\<rparr>
          else agRun scs (agNextBackoff (cc_backoffMax cfg) (cc_backoffMin cfg)) (delays @ [cc_backoffMin cfg]) s2)"
        using rdef ok False by (cases e2; cases e3) (simp_all add: p2 p3)
      with i2 f3' d(2) D' I2 show ?thesis by (cases e3) auto
    qed
  qed
qed

section \<open>Properties\<close>

definition agInit :: "ClientConfig \<Rightarrow> ag_state" where
  "agInit cfg = \<lparr>as_client = NewClient cfg, as_inflight = [], as_sent = [], as_offered = []\<rparr>"

lemma agInit_inv: "idle_inv (agInit cfg)"
  using NewClient_ok [of cfg]
  by (simp add: idle_inv_def ag_inv_def agInit_def agDelivered_def agLoss_def agLogged_def NewClient_def)

lemma backoff_cfg_defaults:
  "cc_backoffMin (clientDefaults cfg) \<le> cc_backoffMax (clientDefaults cfg) \<Longrightarrow>
   cc_backoffMax (clientDefaults cfg) < 2 ^ 62 \<Longrightarrow> backoff_cfg (clientDefaults cfg)"
  by (simp add: backoff_cfg_def clientDefaults_def Second_def)

text \<open>
  The agent's buffer keeps the newest events: after any run of \<^verbatim>\<open>Enqueue\<close> calls on a client in a
  valid state, the buffer holds a suffix of what it held followed by the new events, no more than
  \<^verbatim>\<open>MaxPendingEvents\<close>, and \<^verbatim>\<open>droppedPending\<close> has grown by exactly the number of events cut off.
\<close>
theorem Enqueue_keeps_newest:
  assumes "client_ok c" and "c' = fold (\<lambda>e. Enqueue (Some e)) es c"
  shows "client_ok c' \<and> int (length (cl_events c')) \<le> cc_maxPendingEvents (cl_cfg c) \<and>
    (\<exists>k. cl_events c' = drop k (cl_events c @ es) \<and> cl_droppedPending c' = cl_droppedPending c + int k \<and>
         int (length (cl_events c')) = int (length (cl_events c)) + int (length es) - int k)"
proof -
  obtain k where k: "k \<le> length (cl_events c @ es)" "cl_events c' = drop k (cl_events c @ es)"
    "cl_droppedPending c' = cl_droppedPending c + int k"
    using agent_buffer.push_drops_oldest [OF assms(1), of es] assms(2) by metis
  have ok: "client_ok c'" using agent_buffer.push_invar [OF assms(1)] assms(2) by simp
  then have "int (length (cl_events c')) \<le> cc_maxPendingEvents (cl_cfg c)"
    using assms(2) by (simp add: client_ok_def fold_Enqueue_frame)
  moreover have "int (length (cl_events c')) = int (length (cl_events c)) + int (length es) - int k"
    using k(1) by (simp add: k(2) of_nat_diff del: drop_append)
  ultimately show ?thesis using ok k(2,3) by blast
qed

definition demoClientCfg :: ClientConfig where
  "demoClientCfg = \<lparr>cc_collectorAddr = ''collector:9443'', cc_nodeName = ''node1'', cc_agentId = ''agent1'',
     cc_batchSize = 2, cc_maxPendingEvents = 3, cc_flushInterval = 0, cc_backoffMin = 0, cc_backoffMax = 0\<rparr>"

definition demoEvent :: "nat \<Rightarrow> FlowEvent" where
  "demoEvent n = \<lparr>fe_eventKind = KIND_CONNECT, fe_protocol = PROTOCOL_TCP, fe_timestampUnixNano = int n,
     fe_src = Some \<lparr>aw_namespace = ''shop'', aw_pod = ''web'', aw_container = ''''\<rparr>, fe_srcEndpoint = None,
     fe_dst = Some \<lparr>ae_addr = ''10.0.0.9'', ae_port = 443\<rparr>, fe_bytesSent = 0, fe_bytesReceived = 0, fe_dns = None\<rparr>"

theorem Enqueue_keeps_newest_witness:
  "let c = fold (\<lambda>e. Enqueue (Some e)) (map demoEvent [1, 2, 3, 4, 5]) (NewClient demoClientCfg)
   in client_ok c \<and> cl_events c = map demoEvent [3, 4, 5] \<and> cl_droppedPending c = 2"
proof -
  let ?c = "fold (\<lambda>e. Enqueue (Some e)) (map demoEvent [1, 2, 3, 4, 5]) (NewClient demoClientCfg)"
  have v: "cl_events ?c = map demoEvent [3, 4, 5]" "cl_droppedPending ?c = 2"
    by (simp_all add: NewClient_def clientDefaults_def demoClientCfg_def Enqueue_def enforceMaxLocked_def
        signalFlush_def Let_def)
  have "client_ok ?c" using Enqueue_keeps_newest [OF NewClient_ok refl] by blast
  with v show ?thesis by (simp add: Let_def)
qed

lemma agSendLoop_quiet:
  "ag_inv [] s \<Longrightarrow> as_inflight s = [] \<Longrightarrow> \<forall>r \<in> set rs. sr_ok r \<and> sr_enqueued r = [] \<Longrightarrow>
   length (cl_events (as_client s)) \<le> length rs \<Longrightarrow> agSendLoop rs s = (s', e) \<Longrightarrow>
     e = SendDone \<and> agDelivered s' = agDelivered s @ cl_events (as_client s) \<and>
     (\<exists>bs. as_sent s' = as_sent s @ bs \<and>
        (\<forall>b \<in> set bs. fb_events b \<noteq> [] \<and> int (length (fb_events b)) \<le> cc_batchSize (cl_cfg (as_client s))))"
proof (induction rs arbitrary: s)
  case Nil
  then show ?case by (auto simp: drainBatchLocked_def agDelivered_def)
next
  case (Cons r rs)
  let ?c = "as_client s"
  have ok: "client_ok ?c" using Cons.prems by (simp add: ag_inv_def)
  then show ?case
  proof (cases rule: drainBatch_cases)
    case empty
    with Cons.prems show ?thesis by (auto simp: agDelivered_def)
  next
    case (batch b xs ys)
    let ?s1 = "offer [] (s\<lparr>as_client := ?c\<lparr>cl_events := ys\<rparr>\<rparr>)"
    let ?c1 = "as_client ?s1"
    let ?s2 = "?s1\<lparr>as_client := ?c1\<lparr>cl_log := cl_log ?c1 @ [AgBatchSent (int (length (fb_events b)))
        (PendingCount (?c\<lparr>cl_events := ys\<rparr>))]\<rparr>, as_sent := as_sent ?s1 @ [b]\<rparr>"
    have rec: "agSendLoop rs ?s2 = (s', e)"
      using Cons.prems(3,5) batch(2,3,5) by (simp add: Let_def)
    have "ag_inv xs ?s1" by (rule offer_inv [OF take_out_inv [OF Cons.prems(1) batch(1)]])
    then have inv2: "ag_inv [] ?s2" using batch(4)
      by (simp add: ag_inv_def agDelivered_def client_ok_def agLoss_def agLogged_def agDropsIn_def)
    have ev: "cl_events (as_client ?s2) = ys" "agDelivered ?s2 = agDelivered s @ xs" "as_sent ?s2 = as_sent s @ [b]"
      "cl_cfg (as_client ?s2) = cl_cfg ?c" "as_inflight ?s2 = []"
      using batch(4) Cons.prems(2) by (simp_all add: offer_def agDelivered_def)
    have len: "length ys \<le> length rs" using Cons.prems(4) batch(1,2) by (cases xs) simp_all
    have q: "\<forall>r \<in> set rs. sr_ok r \<and> sr_enqueued r = []" using Cons.prems(3) by simp
    note ih = Cons.IH [OF inv2 _ q _ rec, unfolded ev, OF refl len]
    obtain bs where bs: "as_sent s' = (as_sent s @ [b]) @ bs"
      "\<forall>b \<in> set bs. fb_events b \<noteq> [] \<and> int (length (fb_events b)) \<le> cc_batchSize (cl_cfg ?c)"
      using ih by blast
    have b: "fb_events b \<noteq> []" "int (length (fb_events b)) \<le> cc_batchSize (cl_cfg ?c)"
      using batch(2) by (simp_all add: batch(3,6))
    have "as_sent s' = as_sent s @ b # bs" using bs(1) by simp
    moreover have "\<forall>b \<in> set (b # bs). fb_events b \<noteq> [] \<and> int (length (fb_events b)) \<le> cc_batchSize (cl_cfg ?c)"
      using bs(2) b by simp
    moreover have "e = SendDone" "agDelivered s' = agDelivered s @ cl_events ?c"
      using ih unfolding batch(1) by auto
    ultimately show ?thesis by blast
  qed
qed

text \<open>
  The send loop returns and empties the buffer: on a stream that accepts every message, with no
  \<^verbatim>\<open>Enqueue\<close> in between, \<^verbatim>\<open>sendPending\<close> needs at most one \<^verbatim>\<open>Send\<close> per pending event, returns nil, and has
  handed over exactly the pending events in their order, in non-empty batches of at most \<^verbatim>\<open>BatchSize\<close>.
\<close>
theorem agSendPending_delivers:
  assumes "idle_inv s" and "\<forall>r \<in> set rs. sr_ok r \<and> sr_enqueued r = []"
    and "length (cl_events (as_client s)) \<le> length rs"
  shows "\<exists>s' bs. agSendPending now rs s = (s', SendDone) \<and> cl_events (as_client s') = [] \<and>
    as_sent s' = as_sent s @ bs \<and> concat (map batchEvents bs) = cl_events (as_client s) \<and>
    (\<forall>b \<in> set bs. fb_events b \<noteq> [] \<and> int (length (fb_events b)) \<le> cc_batchSize (cl_cfg (as_client s)))"
proof -
  let ?s = "s\<lparr>as_client := logDroppedPending now (as_client s)\<rparr>"
  obtain s' e where r: "agSendPending now rs s = (s', e)" by force
  have inv: "ag_inv [] ?s" "as_inflight ?s = []"
    using assms(1) logDroppedPending_loss [of "as_client s" now]
    by (simp_all add: idle_inv_def ag_inv_def agDelivered_def logDroppedPending_frame)
  have eqs: "cl_events (as_client ?s) = cl_events (as_client s)" "agDelivered ?s = agDelivered s"
    "as_sent ?s = as_sent s" "cl_cfg (as_client ?s) = cl_cfg (as_client s)"
    by (simp_all add: logDroppedPending_frame agDelivered_def)
  note q = agSendLoop_quiet [OF inv assms(2) _ r [unfolded agSendPending_def], unfolded eqs, OF assms(3)]
  have "e = SendDone" and del: "agDelivered s' = agDelivered s @ cl_events (as_client s)"
    and "\<exists>bs. as_sent s' = as_sent s @ bs \<and>
        (\<forall>b \<in> set bs. fb_events b \<noteq> [] \<and> int (length (fb_events b)) \<le> cc_batchSize (cl_cfg (as_client s)))"
    using q by blast+
  moreover have "cl_events (as_client s') = []"
    using agSendPending_inv [OF r] assms(1) \<open>e = SendDone\<close> by (simp add: idle_inv_def)
  moreover have "\<And>bs. as_sent s' = as_sent s @ bs \<Longrightarrow> concat (map batchEvents bs) = cl_events (as_client s)"
    using del by (simp add: agDelivered_def)
  ultimately show ?thesis using r by blast
qed

text \<open>
  A failed \<^verbatim>\<open>Send\<close> loses nothing by itself: when the first message of \<^verbatim>\<open>sendPending\<close> is refused and
  nothing was enqueued meanwhile, the batch is put back in front and the buffer is what it was; only the
  failure counter has changed.
\<close>
theorem failed_send_requeues:
  assumes "idle_inv s" and "cl_events (as_client s) \<noteq> []" and "\<not> sr_ok r" and "sr_enqueued r = []"
  shows "\<exists>s'. agSendPending now (r # rs) s = (s', SendErr) \<and>
    cl_events (as_client s') = cl_events (as_client s) \<and> as_sent s' = as_sent s \<and>
    agLoss (as_client s') = agLoss (as_client s) \<and>
    cl_sendFailures (as_client s') = cl_sendFailures (as_client s) + 1"
proof -
  let ?c = "logDroppedPending now (as_client s)"
  have ok: "client_ok ?c" and loss: "agLoss ?c = agLoss (as_client s)"
    using assms(1) logDroppedPending_loss [of "as_client s" now] by (simp_all add: idle_inv_def ag_inv_def)
  have fl: "cl_sendFailures ?c = cl_sendFailures (as_client s)" by (simp add: logDroppedPending_def Let_def)
  from ok show ?thesis
  proof (cases rule: drainBatch_cases)
    case empty
    then show ?thesis using assms(2) by (simp add: logDroppedPending_frame)
  next
    case (batch b xs ys)
    let ?c2 = "?c\<lparr>cl_events := ys, cl_sendFailures := cl_sendFailures ?c + 1\<rparr>"
    have "requeue b ?c2 = ?c\<lparr>cl_sendFailures := cl_sendFailures ?c + 1\<rparr>"
      using batch(1-4) ok by (simp add: requeue_def enforceMaxLocked_def Let_def client_ok_def)
    moreover have "agSendPending now (r # rs) s = (s\<lparr>as_client := requeue b ?c2\<rparr>, SendErr)"
      using batch(2,3,5) assms(3,4) by (simp add: agSendPending_def offer_def Let_def)
    ultimately show ?thesis
      using loss fl by (simp add: logDroppedPending_frame agLoss_def agLogged_def)
  qed
qed

text \<open>
  C3: Conservation over the whole life of the agent's client. Start from \<^verbatim>\<open>NewClient\<close> and let \<^verbatim>\<open>Run\<close> go
  through any number of dial attempts, sends, send errors with their requeue, ticks, flushes and a
  cancellation, with \<^verbatim>\<open>Enqueue\<close> calls at any point, also while a \<^verbatim>\<open>Send\<close> is in progress: the events
  delivered, in flight and pending, in this order, are a subsequence of the events enqueued (nothing
  is duplicated or reordered), every event missing from it is accounted for by the drop counters and
  log lines, the buffer is within its bound, and every reconnect delay lies within the configured limits.
\<close>
theorem agRun_conserves_events:
  assumes "cc_backoffMin (clientDefaults cfg) \<le> cc_backoffMax (clientDefaults cfg)"
    and "cc_backoffMax (clientDefaults cfg) < 2 ^ 62"
    and "r = agRun scs (cc_backoffMin (clientDefaults cfg)) [] (agInit cfg)"
    and "s = ar_state r"
  shows "subseq (agDelivered s @ as_inflight s @ cl_events (as_client s)) (as_offered s) \<and>
    int (length (as_offered s)) = int (length (agDelivered s)) + int (length (as_inflight s)) +
      int (length (cl_events (as_client s))) + agLoss (as_client s) \<and>
    client_ok (as_client s) \<and> delaysOK (clientDefaults cfg) (ar_delays r)"
proof -
  have bc: "backoff_cfg (clientDefaults cfg)" using assms(1,2) by (rule backoff_cfg_defaults)
  have "cl_cfg (as_client (agInit cfg)) = clientDefaults cfg" by (simp add: agInit_def NewClient_def)
  moreover have "delaysOK (clientDefaults cfg) [cc_backoffMin (clientDefaults cfg)]"
    using assms(1) by (simp add: delaysOK_def)
  ultimately show ?thesis
    using agRun_effect [OF bc agInit_inv _ _ assms(3)] assms(4) by (simp add: ag_inv_def)
qed

definition demoScript :: ag_script where
  "demoScript = \<lparr>ag_offers = map demoEvent [1, 2, 3], ag_ctxDone = False, ag_dialOK = True,
     ag_first = (0, [\<lparr>sr_ok = True, sr_enqueued = [demoEvent 4]\<rparr>, \<lparr>sr_ok = False, sr_enqueued = [demoEvent 5]\<rparr>]),
     ag_events = [], ag_ctxAfter = False, ag_last = (0, []), ag_slept = False\<rparr>"

lemma demoScript_run:
  "ar_state (agRun [demoScript] (cc_backoffMin (clientDefaults demoClientCfg)) [] (agInit demoClientCfg)) =
     \<lparr>as_client = \<lparr>cl_cfg = clientDefaults demoClientCfg, cl_events = map demoEvent [3, 4, 5], cl_flushCh = True,
        cl_droppedPending = 0, cl_sendFailures = 1, cl_lastDropReason = '''', cl_dropLogNext = zeroTime,
        cl_pendingDropLogCount = 0, cl_pendingDropLogReason = '''', cl_log = [AgBatchSent 2 1]\<rparr>,
      as_inflight = [],
      as_sent = [\<lparr>fb_nodeName = ''node1'', fb_agentId = ''agent1'', fb_events = map (Some \<circ> demoEvent) [1, 2]\<rparr>],
      as_offered = map demoEvent [1, 2, 3, 4, 5]\<rparr>"
  by (simp add: agInit_def NewClient_def clientDefaults_def demoClientCfg_def demoScript_def offer_def Enqueue_def
      enforceMaxLocked_def signalFlush_def agSendPending_def logDroppedPending_def drainBatchLocked_def requeue_def
      batchEvents_def PendingCount_def Second_def Let_def)

theorem agRun_conserves_events_witness:
  "let s = ar_state (agRun [demoScript] (cc_backoffMin (clientDefaults demoClientCfg)) [] (agInit demoClientCfg))
   in subseq (agDelivered s @ as_inflight s @ cl_events (as_client s)) (as_offered s) \<and>
      agDelivered s = map demoEvent [1, 2] \<and> cl_events (as_client s) = map demoEvent [3, 4, 5]"
proof -
  have b: "cc_backoffMin (clientDefaults demoClientCfg) \<le> cc_backoffMax (clientDefaults demoClientCfg)"
    "cc_backoffMax (clientDefaults demoClientCfg) < 2 ^ 62"
    by (simp_all add: clientDefaults_def demoClientCfg_def Second_def)
  note c = agRun_conserves_events [OF b refl refl, of "[demoScript]"]
  have "agDelivered (ar_state (agRun [demoScript] (cc_backoffMin (clientDefaults demoClientCfg)) [] (agInit demoClientCfg)))
      = map demoEvent [1, 2]"
    unfolding demoScript_run by (simp add: agDelivered_def batchEvents_def)
  then show ?thesis using c unfolding demoScript_run Let_def by simp
qed

lemma agInit_offer: "idle_inv (offer (map demoEvent [1, 2, 3]) (agInit demoClientCfg))"
  by (rule idle_inv_steps(1) [OF agInit_inv])

lemma demo_offer_events:
  "cl_events (as_client (offer (map demoEvent [1, 2, 3]) (agInit demoClientCfg))) = map demoEvent [1, 2, 3]"
  by (simp add: agInit_def NewClient_def clientDefaults_def demoClientCfg_def offer_def Enqueue_def
      enforceMaxLocked_def signalFlush_def Let_def)

theorem agSendPending_delivers_witness:
  "\<exists>s'. agSendPending 0 (replicate 3 \<lparr>sr_ok = True, sr_enqueued = []\<rparr>)
      (offer (map demoEvent [1, 2, 3]) (agInit demoClientCfg)) = (s', SendDone) \<and> cl_events (as_client s') = []"
  using agSendPending_delivers [OF agInit_offer, of "replicate 3 \<lparr>sr_ok = True, sr_enqueued = []\<rparr>" 0]
  unfolding demo_offer_events by auto

theorem failed_send_requeues_witness:
  "\<exists>s'. agSendPending 0 [\<lparr>sr_ok = False, sr_enqueued = []\<rparr>]
      (offer (map demoEvent [1, 2, 3]) (agInit demoClientCfg)) = (s', SendErr) \<and>
      cl_events (as_client s') = map demoEvent [1, 2, 3]"
  using failed_send_requeues [OF agInit_offer, of "\<lparr>sr_ok = False, sr_enqueued = []\<rparr>" 0 "[]"]
  unfolding demo_offer_events by auto

end
