(* ===== verification/Dns_Cache.thy ===== *)
theory Dns_Cache
  imports Interfaces
begin

text \<open>
  The cache of DNS answers (\<^verbatim>\<open>pkg/collector/dns/cache.go\<close>), which names the external hosts that pods
  connect to. Two maps, by workload and address and by address alone; entries expire.
\<close>

record workloadIPKey =
  wk_namespace :: string
  wk_pod :: string
  wk_ip :: string

record cacheEntry =
  ce_hostname :: string
  ce_seenAt :: go_time

record Cache =
  ca_byWorkload :: "workloadIPKey \<rightharpoonup> cacheEntry"
  ca_byIP :: "string \<rightharpoonup> cacheEntry"
  ca_maxAge :: duration

definition NewCache :: "duration \<Rightarrow> Cache" where
  "NewCache maxAge = \<lparr>ca_byWorkload = Map.empty, ca_byIP = Map.empty,
     ca_maxAge = (if maxAge \<le> 0 then 15 * Minute else maxAge)\<rparr>"

definition expired :: "Cache \<Rightarrow> go_time \<Rightarrow> cacheEntry \<Rightarrow> bool" where
  "expired c now e \<longleftrightarrow> ca_maxAge c > 0 \<and> timeSub now (ce_seenAt e) > ca_maxAge c"

definition isInternalHostname :: "string \<Rightarrow> bool" where
  "isInternalHostname name =
     (let lower = ToLower name in HasSuffix lower ''.svc.cluster.local'' \<or> HasSuffix lower ''.cluster.local'')"

definition isCoreDNSPod :: "string \<Rightarrow> string \<Rightarrow> bool" where
  "isCoreDNSPod ns pod \<longleftrightarrow> ns = ''kube-system'' \<and> HasPrefix pod ''coredns-''"

definition isCacheableResponse :: "string \<Rightarrow> string \<Rightarrow> bool" where
  "isCacheableResponse qtype rcode \<longleftrightarrow>
     ToUpper (TrimSpace qtype) \<in> {''A'', ''AAAA'', ''''} \<and> EqualFold (TrimSpace rcode) ''Success''"

definition cache_pruneLocked :: "go_time \<Rightarrow> Cache \<Rightarrow> Cache" where
  "cache_pruneLocked now c = c\<lparr>ca_byWorkload := deleteIf (expired c now) (ca_byWorkload c),
     ca_byIP := deleteIf (expired c now) (ca_byIP c)\<rparr>"

text \<open>The loop over the addresses.\<close>

fun recordAddresses :: "string \<Rightarrow> string \<Rightarrow> string \<Rightarrow> go_time \<Rightarrow> string list \<Rightarrow> Cache \<Rightarrow> Cache" where
  "recordAddresses ns pod hostname ts [] c = c"
| "recordAddresses ns pod hostname ts (a # addrs) c =
     (let ip = TrimSpace a in
      if ip = '''' then recordAddresses ns pod hostname ts addrs c
      else
        let entry = \<lparr>ce_hostname = hostname, ce_seenAt = ts\<rparr>
        in recordAddresses ns pod hostname ts addrs
             (c\<lparr>ca_byWorkload := (ca_byWorkload c)(\<lparr>wk_namespace = ns, wk_pod = pod, wk_ip = ip\<rparr> \<mapsto> entry),
                ca_byIP := (ca_byIP c)(ip \<mapsto> entry)\<rparr>))"

text \<open>The locked section of \<^verbatim>\<open>RecordResponse\<close>.\<close>

definition storeResponse :: "string \<Rightarrow> string \<Rightarrow> string \<Rightarrow> string list \<Rightarrow> go_time \<Rightarrow> Cache \<Rightarrow> Cache" where
  "storeResponse ns pod hostname addrs ts c = cache_pruneLocked ts (recordAddresses ns pod hostname ts addrs c)"

definition RecordResponse :: "go_time \<Rightarrow> string \<Rightarrow> string \<Rightarrow> string \<Rightarrow> string \<Rightarrow> string \<Rightarrow> string list \<Rightarrow>
    go_time \<Rightarrow> Cache \<Rightarrow> Cache" where
  "RecordResponse now srcNs srcPod hostname qtype rcode addresses ts c =
     (if addresses = [] \<or> \<not> isCacheableResponse qtype rcode then c
      else
        let hostname = TrimSuffix (TrimSpace hostname) ''.''
        in if hostname = '''' \<or> isInternalHostname hostname \<or> isCoreDNSPod srcNs srcPod then c
           else storeResponse srcNs srcPod hostname addresses (if isZeroTime ts then now else ts) c)"

text \<open>One of the two reads of \<^verbatim>\<open>Lookup\<close>, and \<^verbatim>\<open>Lookup\<close>.\<close>

definition liveHostname :: "Cache \<Rightarrow> go_time \<Rightarrow> cacheEntry option \<Rightarrow> string option" where
  "liveHostname c now e =
     (case e of None \<Rightarrow> None | Some x \<Rightarrow> if expired c now x then None else Some (ce_hostname x))"

definition cache_Lookup :: "go_time \<Rightarrow> string \<Rightarrow> string \<Rightarrow> string \<Rightarrow> Cache \<Rightarrow> string option" where
  "cache_Lookup now ns pod ip c =
     (if ip = '''' then None
      else case liveHostname c now (ca_byWorkload c \<lparr>wk_namespace = ns, wk_pod = pod, wk_ip = ip\<rparr>) of
             Some h \<Rightarrow> Some h
           | None \<Rightarrow> liveHostname c now (ca_byIP c ip))"

section \<open>Expiry\<close>

definition cache_ok :: "Cache \<Rightarrow> bool" where
  "cache_ok c \<longleftrightarrow> 0 < ca_maxAge c \<and> ca_maxAge c < maxInt64"

definition plainIP :: "string \<Rightarrow> bool" where
  "plainIP ip \<longleftrightarrow> ip \<noteq> '''' \<and> TrimSpace ip = ip"

lemma recordAddresses_frame [simp]: "ca_maxAge (recordAddresses ns pod h ts addrs c) = ca_maxAge c"
  by (induction addrs arbitrary: c) (simp_all add: Let_def)

lemma storeResponse_frame [simp]: "ca_maxAge (storeResponse ns pod h addrs ts c) = ca_maxAge c"
  by (simp add: storeResponse_def cache_pruneLocked_def)

lemma expired_cong: "ca_maxAge c = ca_maxAge c' \<Longrightarrow> expired c = expired c'"
  by (simp add: expired_def fun_eq_iff)

lemma expired_mono: "ts \<le> now \<Longrightarrow> expired c ts e \<Longrightarrow> expired c now e"
  using timeSub_mono [of ts now "ce_seenAt e"] by (auto simp: expired_def)

lemma expired_iff:
  assumes "cache_ok c"
  shows "expired c now e \<longleftrightarrow> ce_seenAt e + ca_maxAge c < now"
  using assms by (auto simp: expired_def cache_ok_def timeSub_def minInt64_def maxInt64_def)

lemma liveHostname_prune:
  assumes "ts \<le> now"
  shows "liveHostname c now (deleteIf (expired c ts) m k) = liveHostname c now (m k)"
  using expired_mono [OF assms, of c]
  by (cases "m k") (auto simp: liveHostname_def deleteIf_def)

lemma storeResponse_single:
  assumes "plainIP ip"
  shows "ca_byIP (storeResponse ns pod h [ip] ts c) =
      deleteIf (expired c ts) ((ca_byIP c)(ip \<mapsto> \<lparr>ce_hostname = h, ce_seenAt = ts\<rparr>))"
    and "ca_byWorkload (storeResponse ns pod h [ip] ts c) =
      deleteIf (expired c ts) ((ca_byWorkload c)(\<lparr>wk_namespace = ns, wk_pod = pod, wk_ip = ip\<rparr> \<mapsto>
        \<lparr>ce_hostname = h, ce_seenAt = ts\<rparr>))"
  using assms
  by (simp_all add: storeResponse_def cache_pruneLocked_def plainIP_def Let_def expired_def [abs_def])

lemma liveHostname_cong: "ca_maxAge c = ca_maxAge c' \<Longrightarrow> liveHostname c = liveHostname c'"
  by (simp add: liveHostname_def fun_eq_iff expired_cong [of c c'] split: option.splits)

text \<open>Both maps of the cache keep the contract of a map with expiring entries.\<close>

interpretation dns_by_ip: expiring_map
  "\<lambda>c ip now. liveHostname c now (ca_byIP c ip)" "\<lambda>ip h t. storeResponse ns pod h [ip] t"
  ca_maxAge cache_ok plainIP for ns pod
proof
  fix c ip ip' h and t now :: int
  assume ok: "cache_ok c"
  show "cache_ok (storeResponse ns pod h [ip] t c)" using ok by (simp add: cache_ok_def)
  assume ip: "plainIP ip"
  note e = expired_iff [OF ok]
  show "t \<le> now \<Longrightarrow> now \<le> t + ca_maxAge c \<Longrightarrow>
      liveHostname (storeResponse ns pod h [ip] t c) now (ca_byIP (storeResponse ns pod h [ip] t c) ip) = Some h"
    by (simp add: storeResponse_single [OF ip] liveHostname_cong [of "storeResponse ns pod h [ip] t c" c]
        liveHostname_prune) (simp add: liveHostname_def e)
  show "t + ca_maxAge c < now \<Longrightarrow>
      liveHostname (storeResponse ns pod h [ip] t c) now (ca_byIP (storeResponse ns pod h [ip] t c) ip) = None"
    by (simp add: storeResponse_single [OF ip] liveHostname_cong [of "storeResponse ns pod h [ip] t c" c])
      (auto simp: liveHostname_def e deleteIf_def)
  show "t \<le> now \<Longrightarrow> ip' \<noteq> ip \<Longrightarrow>
      liveHostname (storeResponse ns pod h [ip] t c) now (ca_byIP (storeResponse ns pod h [ip] t c) ip') =
      liveHostname c now (ca_byIP c ip')"
    by (simp add: storeResponse_single [OF ip] liveHostname_cong [of "storeResponse ns pod h [ip] t c" c]
        liveHostname_prune)
qed simp

interpretation dns_by_workload: expiring_map
  "\<lambda>c k now. liveHostname c now (ca_byWorkload c k)"
  "\<lambda>k h t. storeResponse (wk_namespace k) (wk_pod k) h [wk_ip k] t"
  ca_maxAge cache_ok "\<lambda>k. plainIP (wk_ip k)"
proof
  fix c h and k k' :: workloadIPKey and t now :: int
  let ?c = "storeResponse (wk_namespace k) (wk_pod k) h [wk_ip k] t c"
  assume ok: "cache_ok c"
  show "cache_ok ?c" using ok by (simp add: cache_ok_def)
  assume ip: "plainIP (wk_ip k)"
  note e = expired_iff [OF ok]
  have k: "\<lparr>wk_namespace = wk_namespace k, wk_pod = wk_pod k, wk_ip = wk_ip k\<rparr> = k" by simp
  show "t \<le> now \<Longrightarrow> now \<le> t + ca_maxAge c \<Longrightarrow> liveHostname ?c now (ca_byWorkload ?c k) = Some h"
    unfolding storeResponse_single [OF ip] k
    by (simp add: liveHostname_cong [of ?c c] liveHostname_prune) (simp add: liveHostname_def e)
  show "t + ca_maxAge c < now \<Longrightarrow> liveHostname ?c now (ca_byWorkload ?c k) = None"
    unfolding storeResponse_single [OF ip] k
    by (simp add: liveHostname_cong [of ?c c]) (auto simp: liveHostname_def e deleteIf_def)
  show "t \<le> now \<Longrightarrow> k' \<noteq> k \<Longrightarrow>
      liveHostname ?c now (ca_byWorkload ?c k') = liveHostname c now (ca_byWorkload c k')"
    unfolding storeResponse_single [OF ip] k
    by (simp add: liveHostname_cong [of ?c c] liveHostname_prune)
qed simp

section \<open>What a response changes\<close>

definition plainIPs :: "string list \<Rightarrow> string set" where
  "plainIPs addrs = set (map TrimSpace addrs) - {''''}"

lemma plainIPs_simps [simp]:
  "plainIPs [] = {}"
  "plainIPs (a # addrs) = (if TrimSpace a = '''' then plainIPs addrs else insert (TrimSpace a) (plainIPs addrs))"
  by (auto simp: plainIPs_def)

lemma recordAddresses_maps:
  "ca_byIP (recordAddresses ns pod h ts addrs c) ip =
     (if ip \<in> plainIPs addrs then Some \<lparr>ce_hostname = h, ce_seenAt = ts\<rparr> else ca_byIP c ip)"
  "ca_byWorkload (recordAddresses ns pod h ts addrs c) k =
     (if wk_namespace k = ns \<and> wk_pod k = pod \<and> wk_ip k \<in> plainIPs addrs
      then Some \<lparr>ce_hostname = h, ce_seenAt = ts\<rparr> else ca_byWorkload c k)"
  by (induction addrs arbitrary: c) (auto simp: Let_def)

lemma storeResponse_at:
  assumes "cache_ok c" and "ts \<le> now"
  shows "liveHostname c now (ca_byIP (storeResponse ns pod h addrs ts c) ip) =
     (if ip \<in> plainIPs addrs then (if now \<le> ts + ca_maxAge c then Some h else None)
      else liveHostname c now (ca_byIP c ip))"
    and "liveHostname c now (ca_byWorkload (storeResponse ns pod h addrs ts c) k) =
     (if wk_namespace k = ns \<and> wk_pod k = pod \<and> wk_ip k \<in> plainIPs addrs
      then (if now \<le> ts + ca_maxAge c then Some h else None) else liveHostname c now (ca_byWorkload c k))"
proof -
  have m: "ca_byIP (storeResponse ns pod h addrs ts c) =
      deleteIf (expired c ts) (ca_byIP (recordAddresses ns pod h ts addrs c))"
    "ca_byWorkload (storeResponse ns pod h addrs ts c) =
      deleteIf (expired c ts) (ca_byWorkload (recordAddresses ns pod h ts addrs c))"
    by (simp_all add: storeResponse_def cache_pruneLocked_def expired_def [abs_def])
  have new: "liveHostname c now (Some \<lparr>ce_hostname = h, ce_seenAt = ts\<rparr>) = (if now \<le> ts + ca_maxAge c then Some h else None)"
    using assms by (simp add: liveHostname_def expired_iff)
  show "liveHostname c now (ca_byIP (storeResponse ns pod h addrs ts c) ip) =
     (if ip \<in> plainIPs addrs then (if now \<le> ts + ca_maxAge c then Some h else None)
      else liveHostname c now (ca_byIP c ip))"
    by (simp add: m liveHostname_prune [OF assms(2)] recordAddresses_maps new)
  show "liveHostname c now (ca_byWorkload (storeResponse ns pod h addrs ts c) k) =
     (if wk_namespace k = ns \<and> wk_pod k = pod \<and> wk_ip k \<in> plainIPs addrs
      then (if now \<le> ts + ca_maxAge c then Some h else None) else liveHostname c now (ca_byWorkload c k))"
    by (simp add: m liveHostname_prune [OF assms(2)] recordAddresses_maps new)
qed

lemma storeResponse_live:
  assumes "cache_ok c" and "ts \<le> now" and "now \<le> ts + ca_maxAge c"
  shows "liveHostname c now (ca_byIP (storeResponse ns pod h addrs ts c) ip) =
     (if ip \<in> plainIPs addrs then Some h else liveHostname c now (ca_byIP c ip))"
    and "liveHostname c now (ca_byWorkload (storeResponse ns pod h addrs ts c) k) =
     (if wk_namespace k = ns \<and> wk_pod k = pod \<and> wk_ip k \<in> plainIPs addrs
      then Some h else liveHostname c now (ca_byWorkload c k))"
  using assms by (simp_all add: storeResponse_at)

lemma storeResponse_stale:
  assumes "cache_ok c" and "ts \<le> now" and "ts + ca_maxAge c < now" and "cache_Lookup now ns' pod' ip c = None"
  shows "cache_Lookup now ns' pod' ip (storeResponse ns pod h addrs ts c) = None"
proof -
  have lc: "liveHostname (storeResponse ns pod h addrs ts c) = liveHostname c" by (rule liveHostname_cong) simp
  show ?thesis
    using assms by (auto simp: cache_Lookup_def lc storeResponse_at split: option.splits if_splits)
qed

definition recordable :: "string \<Rightarrow> string \<Rightarrow> string \<Rightarrow> string \<Rightarrow> string \<Rightarrow> bool" where
  "recordable ns pod hostname qtype rcode \<longleftrightarrow> isCacheableResponse qtype rcode \<and>
     TrimSuffix (TrimSpace hostname) ''.'' \<noteq> '''' \<and>
     \<not> isInternalHostname (TrimSuffix (TrimSpace hostname) ''.'') \<and> \<not> isCoreDNSPod ns pod"

section \<open>Properties\<close>

text \<open>
  The complete effect of a recorded response on later lookups. Until the response expires, the
  workload that got it looks its name up for every address of the answer; any other workload gets its
  own unexpired answer for the address if it has one and otherwise this one; all other addresses, and
  every lookup after a response that is not recorded (failed, of another record type, internal, or
  seen at CoreDNS), are as before.
\<close>
theorem RecordResponse_Lookup:
  assumes "cache_ok c" and "ts0 = (if isZeroTime ts then now0 else ts)"
    and "ts0 \<le> now" and "now \<le> ts0 + ca_maxAge c" and "ip \<noteq> ''''"
    and "c' = RecordResponse now0 ns pod hostname qtype rcode addrs ts c"
    and "own = liveHostname c now (ca_byWorkload c \<lparr>wk_namespace = ns', wk_pod = pod', wk_ip = ip\<rparr>)"
  shows "cache_Lookup now ns' pod' ip c' =
    (if recordable ns pod hostname qtype rcode \<and> ip \<in> plainIPs addrs
     then (if ns' = ns \<and> pod' = pod \<or> own = None then Some (TrimSuffix (TrimSpace hostname) ''.'') else own)
     else cache_Lookup now ns' pod' ip c)"
proof (cases "addrs \<noteq> [] \<and> recordable ns pod hostname qtype rcode")
  case False
  then have "c' = c" unfolding assms(6) by (auto simp: RecordResponse_def recordable_def Let_def)
  with False show ?thesis by auto
next
  case True
  let ?h = "TrimSuffix (TrimSpace hostname) ''.''"
  have c': "c' = storeResponse ns pod ?h addrs ts0 c"
    using True unfolding assms(2,6) by (simp add: RecordResponse_def recordable_def Let_def)
  have lc: "liveHostname c' = liveHostname c" unfolding c' by (rule liveHostname_cong) simp
  note live = storeResponse_live [OF assms(1,3,4), of ns pod ?h addrs, folded c']
  show ?thesis
    using True assms(5) unfolding cache_Lookup_def lc live assms(7)
    by (auto split: option.splits)
qed

lemma demo_trim:
  "TrimSpace ''1.2.3.4'' = ''1.2.3.4''" "TrimSpace ''example.com.'' = ''example.com.''"
  "TrimSpace ''A'' = ''A''" "TrimSpace ''Success'' = ''Success''"
  by (rule TrimSpace_graph; simp add: isGraph_def)+

lemma demo_recordable:
  "recordable ''shop'' ''web'' ''example.com.'' ''A'' ''Success''"
  "TrimSuffix ''example.com.'' ''.'' = ''example.com''"
  unfolding recordable_def demo_trim isCacheableResponse_def isInternalHostname_def isCoreDNSPod_def Let_def
  by code_simp+

lemma NewCache_default: "cache_ok (NewCache 0)" "ca_maxAge (NewCache 0) = 900000000000"
  by (simp_all add: cache_ok_def NewCache_def Minute_def Second_def maxInt64_def)

theorem RecordResponse_Lookup_witness:
  "cache_Lookup 200 ''shop'' ''web'' ''1.2.3.4''
     (RecordResponse 0 ''shop'' ''web'' ''example.com.'' ''A'' ''Success'' [''1.2.3.4''] 100 (NewCache 0)) =
   Some ''example.com''"
  using RecordResponse_Lookup [of "NewCache 0" 100 100 0 200 "''1.2.3.4''" _ "''shop''" "''web''" "''example.com.''"
      "''A''" "''Success''" "[''1.2.3.4'']", OF NewCache_default(1) _ _ _ _ refl refl] demo_recordable
  by (simp add: demo_trim NewCache_default isZeroTime_def zeroTime_def)

text \<open>
  The workload's own latest answer wins. Through any sequence of answers, for any workloads, a lookup
  returns the last answer stored for this workload and address as long as that one has not expired,
  however many answers other workloads got for the same address since.
\<close>
theorem own_latest_answer_wins:
  fixes k :: workloadIPKey
  assumes "cache_ok c" and "k \<notin> fst ` set later"
    and "\<forall>(k', h', t') \<in> set later. t' \<le> now \<and> plainIP (wk_ip k')"
    and "plainIP (wk_ip k)" and "t \<le> now" and "now \<le> t + ca_maxAge c"
    and "c' = fold (\<lambda>(k, h, t). storeResponse (wk_namespace k) (wk_pod k) h [wk_ip k] t)
               (earlier @ (k, h, t) # later) c"
  shows "cache_Lookup now (wk_namespace k) (wk_pod k) (wk_ip k) c' = Some h"
proof -
  have f: "dns_by_workload.storeAll es s =
      fold (\<lambda>(k, h, t). storeResponse (wk_namespace k) (wk_pod k) h [wk_ip k] t) es s" for es s
    by (induction es s rule: dns_by_workload.storeAll.induct) simp_all
  have "liveHostname c' now (ca_byWorkload c' k) = Some h"
    using dns_by_workload.storeAll_last [OF assms(1-6), of earlier h] by (simp add: assms(7) f)
  moreover have "\<lparr>wk_namespace = wk_namespace k, wk_pod = wk_pod k, wk_ip = wk_ip k\<rparr> = k" by simp
  ultimately show ?thesis using assms(4) unfolding cache_Lookup_def plainIP_def by (simp only:) simp
qed

theorem own_latest_answer_wins_witness:
  "cache_Lookup 30 ''shop'' ''web'' ''1.2.3.4''
     (storeResponse ''shop'' ''api'' ''other.com'' [''1.2.3.4''] 20
       (storeResponse ''shop'' ''web'' ''example.com'' [''1.2.3.4''] 10 (NewCache 0))) = Some ''example.com''"
proof -
  let ?k = "\<lambda>p. \<lparr>wk_namespace = ''shop'', wk_pod = p, wk_ip = ''1.2.3.4''\<rparr>"
  show ?thesis
    using own_latest_answer_wins [of "NewCache 0" "?k ''web''" "[(?k ''api'', ''other.com'', 20)]" 30 10 _ "[]"
        "''example.com''", OF NewCache_default(1) _ _ _ _ _ refl]
    by (simp add: NewCache_default plainIP_def demo_trim)
qed

text \<open>The names in the cache.\<close>

definition externalName :: "string \<Rightarrow> bool" where
  "externalName h \<longleftrightarrow> h \<noteq> '''' \<and> \<not> isInternalHostname h"

definition cache_external :: "Cache \<Rightarrow> bool" where
  "cache_external c \<longleftrightarrow> (\<forall>k e. ca_byWorkload c k = Some e \<longrightarrow> externalName (ce_hostname e) \<and> \<not> isCoreDNSPod (wk_namespace k) (wk_pod k)) \<and>
     (\<forall>ip e. ca_byIP c ip = Some e \<longrightarrow> externalName (ce_hostname e))"

lemma storeResponse_external:
  assumes "cache_external c" and "externalName h" and "\<not> isCoreDNSPod ns pod"
  shows "cache_external (storeResponse ns pod h addrs ts c)"
  using assms
  by (auto simp: cache_external_def storeResponse_def cache_pruneLocked_def recordAddresses_maps split: if_splits)

lemma RecordResponse_external:
  "cache_external c \<Longrightarrow> cache_external (RecordResponse now ns pod hostname qtype rcode addrs ts c)"
  by (simp add: RecordResponse_def Let_def storeResponse_external externalName_def)

text \<open>
  Only external names are ever reported. Whatever responses a cache has recorded since it was made,
  a name found in it is non-empty and does not belong to the cluster's own domain.
\<close>
theorem Lookup_external_name:
  assumes "c = fold (\<lambda>(now, ns, pod, hostname, qtype, rcode, addrs, ts).
      RecordResponse now ns pod hostname qtype rcode addrs ts) rs (NewCache maxAge)"
    and "cache_Lookup now ns pod ip c = Some h"
  shows "h \<noteq> '''' \<and> \<not> isInternalHostname h"
proof -
  have "cache_external (fold (\<lambda>(now, ns, pod, hostname, qtype, rcode, addrs, ts).
      RecordResponse now ns pod hostname qtype rcode addrs ts) rs d)" if "cache_external d" for d
    using that by (induction rs arbitrary: d) (auto simp: RecordResponse_external)
  moreover have "cache_external (NewCache maxAge)" by (simp add: cache_external_def NewCache_def)
  ultimately have "cache_external c" using assms(1) by simp
  with assms(2) show ?thesis
    by (auto simp: cache_Lookup_def liveHostname_def cache_external_def externalName_def
        split: if_splits option.splits)
qed

theorem Lookup_external_name_witness:
  "cache_Lookup 200 ''shop'' ''web'' ''1.2.3.4''
     (RecordResponse 0 ''shop'' ''web'' ''example.com.'' ''A'' ''Success'' [''1.2.3.4''] 100 (NewCache 0)) =
   Some ''example.com'' \<and> \<not> isInternalHostname ''example.com''"
proof -
  let ?c = "RecordResponse 0 ''shop'' ''web'' ''example.com.'' ''A'' ''Success'' [''1.2.3.4''] 100 (NewCache 0)"
  have c: "?c = storeResponse ''shop'' ''web'' ''example.com'' [''1.2.3.4''] 100 (NewCache 0)"
    using demo_recordable by (simp add: RecordResponse_def recordable_def Let_def demo_trim isZeroTime_def zeroTime_def)
  have lc: "liveHostname ?c = liveHostname (NewCache 0)"
    by (rule liveHostname_cong) (simp add: c)
  have "cache_Lookup 200 ''shop'' ''web'' ''1.2.3.4'' ?c = Some ''example.com''"
    unfolding cache_Lookup_def lc unfolding c
    by (simp add: storeResponse_live NewCache_default demo_trim)
  moreover from this have "\<not> isInternalHostname ''example.com''"
    using Lookup_external_name [of ?c "[(0, ''shop'', ''web'', ''example.com.'', ''A'', ''Success'', [''1.2.3.4''], 100)]" 0] by simp
  ultimately show ?thesis by simp
qed

end
