(* ===== verification/Kube_Index.thy ===== *)
theory Kube_Index
  imports Interfaces
begin

text \<open>
  The indexes from addresses to Kubernetes objects (\<^verbatim>\<open>pkg/collector/kube/services.go\<close>, \<^verbatim>\<open>pod_ips.go\<close>,
  \<^verbatim>\<open>node_ips.go\<close>, \<^verbatim>\<open>ports.go\<close>). The API objects carry the fields the code reads; a nil element of a
  list of pointers is \<^const>\<open>None\<close>, a Go map is a function to options and an assignment to a key is \<open>\<mapsto>\<close>.
\<close>

section \<open>The API objects\<close>

record ServicePort =
  sp_port :: int
  sp_targetPort :: "int option" \<comment> \<open>the \<^verbatim>\<open>IntVal\<close> of an \<^verbatim>\<open>IntOrString\<close> of type \<^verbatim>\<open>Int\<close>, otherwise none\<close>

record Service =
  sv_namespace :: string
  sv_name :: string
  sv_clusterIP :: string
  sv_clusterIPs :: "string list"
  sv_externalIPs :: "string list"
  sv_ingressIPs :: "string list"
  sv_ports :: "ServicePort list"

record TargetRef =
  tr_kind :: string
  tr_namespace :: string
  tr_name :: string

record Endpoint =
  en_addresses :: "string list"
  en_ready :: "bool option"
  en_targetRef :: "TargetRef option"

record EndpointSlice =
  es_namespace :: string
  es_serviceName :: string \<comment> \<open>the label \<^verbatim>\<open>kubernetes.io/service-name\<close>, empty if missing\<close>
  es_endpoints :: "Endpoint list"
  es_ports :: "int option list"

record OwnerReference =
  or_kind :: string
  or_name :: string
  or_controller :: "bool option"

record Pod =
  po_namespace :: string
  po_name :: string
  po_owners :: "OwnerReference list"
  po_hostNetwork :: bool
  po_phase :: string
  po_podIP :: string
  po_podIPs :: "string list"

record NodeAddress =
  na_type :: string
  na_address :: string

record Node =
  no_name :: string
  no_addresses :: "NodeAddress list"

definition ClusterIPNone :: string where "ClusterIPNone = ''None''"

definition linuxDefaultEphemeralPortMin :: uint32 where
  "linuxDefaultEphemeralPortMin = 32768"

section \<open>Services\<close>

record servicePortKey =
  pk_clusterIP :: string
  pk_port :: uint32

record serviceRef =
  rf_namespace :: string
  rf_name :: string

record EndpointEntry =
  ep_serviceNamespace :: string
  ep_serviceName :: string
  ep_podNamespace :: string
  ep_podName :: string

record BackendIdentity =
  bi_podNamespace :: string
  bi_podName :: string
  bi_workloadNamespace :: string
  bi_workloadKind :: string
  bi_workloadName :: string
  bi_serviceNamespace :: string
  bi_serviceName :: string

definition MatchesService :: "BackendIdentity \<Rightarrow> string \<Rightarrow> string \<Rightarrow> bool" where
  "MatchesService b namespace name \<longleftrightarrow> bi_serviceNamespace b = namespace \<and> bi_serviceName b = name"

type_synonym serviceIndex = "servicePortKey \<rightharpoonup> serviceRef"

text \<open>The closure \<^verbatim>\<open>add\<close> of \<^verbatim>\<open>collectServiceAddrs\<close> and \<^verbatim>\<open>podIPs\<close>: \<open>skip\<close> is its first guard.\<close>

definition addOnce :: "(string \<Rightarrow> bool) \<Rightarrow> string \<Rightarrow> string list \<Rightarrow> string list" where
  "addOnce skip ip addrs = (if skip ip then addrs else if ip \<in> set addrs then addrs else addrs @ [ip])"

definition collectServiceAddrs :: "Service \<Rightarrow> string list" where
  "collectServiceAddrs svc =
     (let add = addOnce (\<lambda>ip. ip = '''' \<or> ip = ClusterIPNone);
          a1 = (if sv_clusterIP svc \<noteq> ClusterIPNone
                then fold add (sv_clusterIPs svc) (add (sv_clusterIP svc) []) else []);
          a2 = fold add (sv_externalIPs svc) a1
      in fold add (sv_ingressIPs svc) a2)"

definition serviceRefOf :: "Service \<Rightarrow> serviceRef" where
  "serviceRefOf svc = \<lparr>rf_namespace = sv_namespace svc, rf_name = sv_name svc\<rparr>"

definition portKey :: "string \<Rightarrow> int \<Rightarrow> servicePortKey" where
  "portKey addr p = \<lparr>pk_clusterIP = addr, pk_port = uint32_of_int32 p\<rparr>"

text \<open>
  The nested loops with assignments are folds of assignments over the list of claims that the loops
  visit in order; \<^verbatim>\<open>assignAll\<close> is the sequence of assignments.
\<close>

definition assignAll :: "('k \<times> 'v) list \<Rightarrow> ('k \<rightharpoonup> 'v) \<Rightarrow> ('k \<rightharpoonup> 'v)" where
  "assignAll kvs m = fold (\<lambda>(k, v) m. m(k \<mapsto> v)) kvs m"

definition nonNil :: "'a option list \<Rightarrow> 'a list" where
  "nonNil xs = map the (filter (\<lambda>x. x \<noteq> None) xs)"

definition buildServiceIndex :: "Service option list \<Rightarrow> serviceIndex" where
  "buildServiceIndex services =
     assignAll [(portKey addr (sp_port p), serviceRefOf svc).
        svc \<leftarrow> nonNil services, addr \<leftarrow> collectServiceAddrs svc, p \<leftarrow> sv_ports svc] Map.empty"

definition serviceIndex_lookup :: "serviceIndex \<Rightarrow> string \<Rightarrow> uint32 \<Rightarrow> serviceRef option" where
  "serviceIndex_lookup idx clusterIP port = idx \<lparr>pk_clusterIP = clusterIP, pk_port = port\<rparr>"

section \<open>Indexes of unique claims\<close>

record clusterIPIndexEntry =
  ci_ref :: serviceRef
  ci_ambiguous :: bool

type_synonym clusterIPIndex = "string \<rightharpoonup> clusterIPIndexEntry"

definition zeroServiceRef :: serviceRef where
  "zeroServiceRef = \<lparr>rf_namespace = '''', rf_name = ''''\<rparr>"

definition addClusterIPIndexEntry :: "clusterIPIndex \<Rightarrow> string \<Rightarrow> serviceRef \<Rightarrow> clusterIPIndex" where
  "addClusterIPIndexEntry idx addr ref =
     (case idx addr of
        None \<Rightarrow> idx(addr \<mapsto> \<lparr>ci_ref = ref, ci_ambiguous = False\<rparr>)
      | Some ent \<Rightarrow>
          if ci_ambiguous ent \<or> ci_ref ent = ref then idx
          else idx(addr \<mapsto> \<lparr>ci_ref = zeroServiceRef, ci_ambiguous = True\<rparr>))"

definition serviceClaims :: "Service option list \<Rightarrow> (string \<times> serviceRef) list" where
  "serviceClaims services = [(addr, serviceRefOf svc). svc \<leftarrow> nonNil services, addr \<leftarrow> collectServiceAddrs svc]"

definition buildClusterIPIndex :: "Service option list \<Rightarrow> clusterIPIndex" where
  "buildClusterIPIndex services =
     fold (\<lambda>(addr, ref) idx. addClusterIPIndexEntry idx addr ref) (serviceClaims services) Map.empty"

definition clusterIPIndex_lookup :: "clusterIPIndex \<Rightarrow> string \<Rightarrow> serviceRef option" where
  "clusterIPIndex_lookup idx clusterIP =
     (case idx clusterIP of None \<Rightarrow> None | Some ent \<Rightarrow> if ci_ambiguous ent then None else Some (ci_ref ent))"

text \<open>The endpoints of the slices that have a service name; \<^verbatim>\<open>Ready\<close> nil counts as ready.\<close>

definition readyEndpoints :: "EndpointSlice \<Rightarrow> Endpoint list" where
  "readyEndpoints sl = filter (\<lambda>ep. en_ready ep \<noteq> Some False) (es_endpoints sl)"

definition namedSlices :: "EndpointSlice option list \<Rightarrow> EndpointSlice list" where
  "namedSlices slices = filter (\<lambda>s. es_serviceName s \<noteq> '''') (nonNil slices)"

definition sliceRef :: "EndpointSlice \<Rightarrow> serviceRef" where
  "sliceRef sl = \<lparr>rf_namespace = es_namespace sl, rf_name = es_serviceName sl\<rparr>"

text \<open>
  \<^verbatim>\<open>endpointIPIndex\<close> has entries of the same shape as \<^verbatim>\<open>clusterIPIndex\<close>; the loop body is the one of
  \<^verbatim>\<open>addClusterIPIndexEntry\<close>, written inline in the source.
\<close>

record endpointIPIndexEntry =
  ei_ref :: serviceRef
  ei_ambiguous :: bool

type_synonym endpointIPIndex = "string \<rightharpoonup> endpointIPIndexEntry"

definition addEndpointIP :: "endpointIPIndex \<Rightarrow> string \<Rightarrow> serviceRef \<Rightarrow> endpointIPIndex" where
  "addEndpointIP idx addr ref =
     (case idx addr of
        None \<Rightarrow> idx(addr \<mapsto> \<lparr>ei_ref = ref, ei_ambiguous = False\<rparr>)
      | Some ent \<Rightarrow>
          if ei_ambiguous ent \<or> ei_ref ent = ref then idx
          else idx(addr \<mapsto> \<lparr>ei_ref = zeroServiceRef, ei_ambiguous = True\<rparr>))"

definition sliceClaims :: "EndpointSlice option list \<Rightarrow> (string \<times> serviceRef) list" where
  "sliceClaims slices =
     [(addr, sliceRef s). s \<leftarrow> namedSlices slices, ep \<leftarrow> readyEndpoints s, addr \<leftarrow> en_addresses ep]"

definition buildEndpointIPIndex :: "EndpointSlice option list \<Rightarrow> endpointIPIndex" where
  "buildEndpointIPIndex slices =
     fold (\<lambda>(addr, ref) idx. addEndpointIP idx addr ref) (sliceClaims slices) Map.empty"

definition endpointIPIndex_lookup :: "endpointIPIndex \<Rightarrow> string \<Rightarrow> serviceRef option" where
  "endpointIPIndex_lookup idx addr =
     (case idx addr of None \<Rightarrow> None | Some ent \<Rightarrow> if ei_ambiguous ent then None else Some (ei_ref ent))"

section \<open>Service and endpoint ports\<close>

definition mergeEndpointSliceIndex :: "serviceIndex \<Rightarrow> EndpointSlice option list \<Rightarrow> serviceIndex" where
  "mergeEndpointSliceIndex idx slices =
     assignAll [(portKey addr p, sliceRef s). s \<leftarrow> namedSlices slices, ep \<leftarrow> readyEndpoints s,
        addr \<leftarrow> en_addresses ep, p \<leftarrow> nonNil (es_ports s)] idx"

definition serviceAddressesByRef :: "EndpointSlice option list \<Rightarrow> serviceRef \<Rightarrow> string list" where
  "serviceAddressesByRef slices ref =
     [addr. s \<leftarrow> namedSlices slices, ep \<leftarrow> (if sliceRef s = ref then readyEndpoints s else []),
        addr \<leftarrow> en_addresses ep]"

text \<open>The numeric target ports that differ from the service port, as \<^verbatim>\<open>uint32\<close>.\<close>

definition targetPorts :: "Service \<Rightarrow> int list" where
  "targetPorts svc =
     [t. sp \<leftarrow> sv_ports svc,
         t \<leftarrow> (case sp_targetPort sp of
                None \<Rightarrow> []
              | Some t \<Rightarrow> if uint32_of_int32 t = uint32_of_int32 (sp_port sp) then [] else [t])]"

definition augmentEndpointIndexWithTargetPorts ::
    "serviceIndex \<Rightarrow> Service option list \<Rightarrow> EndpointSlice option list \<Rightarrow> serviceIndex" where
  "augmentEndpointIndexWithTargetPorts idx services slices =
     assignAll [(portKey addr t, serviceRefOf svc). svc \<leftarrow> nonNil services, t \<leftarrow> targetPorts svc,
        addr \<leftarrow> serviceAddressesByRef slices (serviceRefOf svc)] idx"

definition buildDstIndex :: "Service option list \<Rightarrow> EndpointSlice option list \<Rightarrow> serviceIndex" where
  "buildDstIndex services slices =
     augmentEndpointIndexWithTargetPorts (mergeEndpointSliceIndex (buildServiceIndex services) slices) services slices"

type_synonym endpointIndex = "servicePortKey \<rightharpoonup> EndpointEntry"

definition endpointPodIdentity :: "string \<Rightarrow> Endpoint \<Rightarrow> string \<times> string" where
  "endpointPodIdentity sliceNamespace ep =
     (case en_targetRef ep of
        Some r \<Rightarrow>
          if tr_kind r = ''Pod''
          then (if tr_namespace r = '''' then sliceNamespace else tr_namespace r, tr_name r)
          else ('''', '''')
      | None \<Rightarrow> ('''', ''''))"

definition mergeEndpointSlicePodIndex :: "endpointIndex \<Rightarrow> EndpointSlice option list \<Rightarrow> endpointIndex" where
  "mergeEndpointSlicePodIndex idx slices =
     assignAll [(portKey addr p,
         \<lparr>ep_serviceNamespace = es_namespace s, ep_serviceName = es_serviceName s,
          ep_podNamespace = fst (endpointPodIdentity (es_namespace s) ep),
          ep_podName = snd (endpointPodIdentity (es_namespace s) ep)\<rparr>).
        s \<leftarrow> namedSlices slices, ep \<leftarrow> readyEndpoints s, addr \<leftarrow> en_addresses ep, p \<leftarrow> nonNil (es_ports s)] idx"

text \<open>\<^verbatim>\<open>endpointPodsByAddress\<close> reads every non-nil slice, also one without a service name.\<close>

definition endpointPodsByAddress :: "EndpointSlice option list \<Rightarrow> string \<rightharpoonup> string \<times> string" where
  "endpointPodsByAddress slices =
     assignAll [(addr, endpointPodIdentity (es_namespace s) ep).
        s \<leftarrow> nonNil slices, ep \<leftarrow> readyEndpoints s, addr \<leftarrow> en_addresses ep] Map.empty"

definition augmentEndpointPodIndexWithTargetPorts ::
    "endpointIndex \<Rightarrow> Service option list \<Rightarrow> EndpointSlice option list \<Rightarrow> endpointIndex" where
  "augmentEndpointPodIndexWithTargetPorts idx services slices =
     assignAll [(portKey addr t,
         (let pod = getOr ('''', '''') (endpointPodsByAddress slices) addr in
          \<lparr>ep_serviceNamespace = sv_namespace svc, ep_serviceName = sv_name svc,
           ep_podNamespace = fst pod, ep_podName = snd pod\<rparr>)).
        svc \<leftarrow> nonNil services, t \<leftarrow> targetPorts svc,
        addr \<leftarrow> serviceAddressesByRef slices (serviceRefOf svc)] idx"

definition buildEndpointIndex :: "Service option list \<Rightarrow> EndpointSlice option list \<Rightarrow> endpointIndex" where
  "buildEndpointIndex services slices =
     augmentEndpointPodIndexWithTargetPorts (mergeEndpointSlicePodIndex Map.empty slices) services slices"

definition endpointIndex_lookup :: "endpointIndex \<Rightarrow> string \<Rightarrow> uint32 \<Rightarrow> EndpointEntry option" where
  "endpointIndex_lookup idx addr port = idx \<lparr>pk_clusterIP = addr, pk_port = port\<rparr>"

section \<open>Pods and nodes\<close>

record podRef =
  pr_namespace :: string
  pr_name :: string

record podIPIndexEntry =
  pe_ref :: podRef
  pe_ambiguous :: bool

type_synonym podIPIndex = "string \<rightharpoonup> podIPIndexEntry"

definition zeroPodRef :: podRef where
  "zeroPodRef = \<lparr>pr_namespace = '''', pr_name = ''''\<rparr>"

definition indexablePod :: "Pod \<Rightarrow> bool" where
  "indexablePod pod \<longleftrightarrow> \<not> po_hostNetwork pod \<and> po_phase pod \<noteq> ''Succeeded'' \<and> po_phase pod \<noteq> ''Failed''"

definition podIPs :: "Pod \<Rightarrow> string list" where
  "podIPs pod = (let add = addOnce (\<lambda>ip. ip = '''') in fold add (po_podIPs pod) (add (po_podIP pod) []))"

definition addPodIP :: "podIPIndex \<Rightarrow> string \<Rightarrow> podRef \<Rightarrow> podIPIndex" where
  "addPodIP idx ip ref =
     (case idx ip of
        None \<Rightarrow> idx(ip \<mapsto> \<lparr>pe_ref = ref, pe_ambiguous = False\<rparr>)
      | Some ent \<Rightarrow>
          if pe_ambiguous ent \<or> pe_ref ent = ref then idx
          else idx(ip \<mapsto> \<lparr>pe_ref = zeroPodRef, pe_ambiguous = True\<rparr>))"

definition podClaims :: "Pod option list \<Rightarrow> (string \<times> podRef) list" where
  "podClaims pods =
     [(ip, \<lparr>pr_namespace = po_namespace pod, pr_name = po_name pod\<rparr>).
        pod \<leftarrow> filter indexablePod (nonNil pods), ip \<leftarrow> filter (\<lambda>ip. ip \<noteq> '''') (podIPs pod)]"

definition buildPodIPIndex :: "Pod option list \<Rightarrow> podIPIndex" where
  "buildPodIPIndex pods = fold (\<lambda>(ip, ref) idx. addPodIP idx ip ref) (podClaims pods) Map.empty"

definition podIPIndex_lookup :: "podIPIndex \<Rightarrow> string \<Rightarrow> podRef option" where
  "podIPIndex_lookup idx addr =
     (case idx addr of None \<Rightarrow> None | Some ent \<Rightarrow> if pe_ambiguous ent then None else Some (pe_ref ent))"

record nodeIPIndexEntry =
  ne_name :: string
  ne_ambiguous :: bool

type_synonym nodeIPIndex = "string \<rightharpoonup> nodeIPIndexEntry"

definition addNodeIP :: "nodeIPIndex \<Rightarrow> string \<Rightarrow> string \<Rightarrow> nodeIPIndex" where
  "addNodeIP idx ip name =
     (case idx ip of
        None \<Rightarrow> idx(ip \<mapsto> \<lparr>ne_name = name, ne_ambiguous = False\<rparr>)
      | Some ent \<Rightarrow>
          if ne_ambiguous ent \<or> ne_name ent = name then idx
          else idx(ip \<mapsto> \<lparr>ne_name = '''', ne_ambiguous = True\<rparr>))"

definition nodeClaims :: "Node option list \<Rightarrow> (string \<times> string) list" where
  "nodeClaims nodes =
     [(na_address a, no_name n). n \<leftarrow> filter (\<lambda>n. no_name n \<noteq> '''') (nonNil nodes),
        a \<leftarrow> filter (\<lambda>a. (na_type a = ''InternalIP'' \<or> na_type a = ''ExternalIP'') \<and> na_address a \<noteq> '''') (no_addresses n)]"

definition buildNodeIPIndex :: "Node option list \<Rightarrow> nodeIPIndex" where
  "buildNodeIPIndex nodes = fold (\<lambda>(ip, name) idx. addNodeIP idx ip name) (nodeClaims nodes) Map.empty"

definition nodeIPIndex_lookup :: "nodeIPIndex \<Rightarrow> string \<Rightarrow> string option" where
  "nodeIPIndex_lookup idx addr =
     (case idx addr of None \<Rightarrow> None | Some ent \<Rightarrow> if ne_ambiguous ent then None else Some (ne_name ent))"

section \<open>Unique claims\<close>

interpretation service_addrs: unique_index addClusterIPIndexEntry
  "\<lambda>r. \<lparr>ci_ref = r, ci_ambiguous = False\<rparr>" "\<lparr>ci_ref = zeroServiceRef, ci_ambiguous = True\<rparr>"
  clusterIPIndex_lookup
  by unfold_locales (auto simp: addClusterIPIndexEntry_def clusterIPIndex_lookup_def split: option.splits)

interpretation endpoint_addrs: unique_index addEndpointIP
  "\<lambda>r. \<lparr>ei_ref = r, ei_ambiguous = False\<rparr>" "\<lparr>ei_ref = zeroServiceRef, ei_ambiguous = True\<rparr>"
  endpointIPIndex_lookup
  by unfold_locales (auto simp: addEndpointIP_def endpointIPIndex_lookup_def split: option.splits)

interpretation pod_addrs: unique_index addPodIP
  "\<lambda>r. \<lparr>pe_ref = r, pe_ambiguous = False\<rparr>" "\<lparr>pe_ref = zeroPodRef, pe_ambiguous = True\<rparr>"
  podIPIndex_lookup
  by unfold_locales (auto simp: addPodIP_def podIPIndex_lookup_def split: option.splits)

interpretation node_addrs: unique_index addNodeIP
  "\<lambda>n. \<lparr>ne_name = n, ne_ambiguous = False\<rparr>" "\<lparr>ne_name = '''', ne_ambiguous = True\<rparr>"
  nodeIPIndex_lookup
  by unfold_locales (auto simp: addNodeIP_def nodeIPIndex_lookup_def split: option.splits)

lemma unique_folds:
  "service_addrs.addAll m cs = fold (\<lambda>(a, r) idx. addClusterIPIndexEntry idx a r) cs m"
  "endpoint_addrs.addAll m' cs = fold (\<lambda>(a, r) idx. addEndpointIP idx a r) cs m'"
  "pod_addrs.addAll m'' ps = fold (\<lambda>(a, r) idx. addPodIP idx a r) ps m''"
  "node_addrs.addAll m''' ns = fold (\<lambda>(a, r) idx. addNodeIP idx a r) ns m'''"
proof -
  show "service_addrs.addAll m cs = fold (\<lambda>(a, r) idx. addClusterIPIndexEntry idx a r) cs m"
    by (induction cs arbitrary: m) auto
  show "endpoint_addrs.addAll m' cs = fold (\<lambda>(a, r) idx. addEndpointIP idx a r) cs m'"
    by (induction cs arbitrary: m') auto
  show "pod_addrs.addAll m'' ps = fold (\<lambda>(a, r) idx. addPodIP idx a r) ps m''"
    by (induction ps arbitrary: m'') auto
  show "node_addrs.addAll m''' ns = fold (\<lambda>(a, r) idx. addNodeIP idx a r) ns m'''"
    by (induction ns arbitrary: m''') auto
qed

lemma set_nonNil: "set (nonNil xs) = {x. Some x \<in> set xs}"
  by (force simp: nonNil_def)

lemma set_addOnce_fold:
  "set (fold (addOnce skip) xs acc) = set acc \<union> {x \<in> set xs. \<not> skip x}"
  by (induction xs arbitrary: acc) (auto simp: addOnce_def)

lemma set_collectServiceAddrs:
  "set (collectServiceAddrs svc) =
     {ip. ip \<noteq> '''' \<and> ip \<noteq> ClusterIPNone \<and>
        (sv_clusterIP svc \<noteq> ClusterIPNone \<and> (ip = sv_clusterIP svc \<or> ip \<in> set (sv_clusterIPs svc)) \<or>
         ip \<in> set (sv_externalIPs svc) \<or> ip \<in> set (sv_ingressIPs svc))}"
  by (auto simp: collectServiceAddrs_def Let_def set_addOnce_fold addOnce_def split: if_splits)

lemma set_podIPs: "set (podIPs pod) = {ip. ip \<noteq> '''' \<and> (ip = po_podIP pod \<or> ip \<in> set (po_podIPs pod))}"
  by (auto simp: podIPs_def Let_def set_addOnce_fold addOnce_def)

section \<open>Precedence in the port indexes\<close>

lemma assignAll_lookup:
  "assignAll kvs m k = (case map_of (rev kvs) k of None \<Rightarrow> m k | Some v \<Rightarrow> Some v)"
  unfolding assignAll_def
  by (induction kvs arbitrary: m) (auto simp: map_add_def split: option.splits)

lemma assignAll_Some_cases:
  "assignAll kvs m k = Some v \<Longrightarrow> (k, v) \<in> set kvs \<or> m k = Some v"
  by (auto simp: assignAll_lookup dest: map_of_SomeD split: option.splits)

lemma assignAll_map:
  assumes "assignAll kvs m k = Some v" and "\<And>v. m k = Some v \<Longrightarrow> n k = Some (f v)"
  shows "assignAll (map (\<lambda>(k, v). (k, f v)) kvs) n k = Some (f v)"
proof -
  have "map_of (rev (map (\<lambda>(k, v). (k, f v)) kvs)) k = map_option f (map_of (rev kvs) k)"
    unfolding rev_map by (simp add: map_of_map)
  with assms show ?thesis by (auto simp: assignAll_lookup split: option.splits)
qed

definition entryService :: "EndpointEntry \<Rightarrow> serviceRef" where
  "entryService e = \<lparr>rf_namespace = ep_serviceNamespace e, rf_name = ep_serviceName e\<rparr>"

lemma endpoint_claims_map:
  "[(portKey addr p, sliceRef s). s \<leftarrow> ss, ep \<leftarrow> readyEndpoints s, addr \<leftarrow> en_addresses ep, p \<leftarrow> nonNil (es_ports s)] =
   map (\<lambda>(k, e). (k, entryService e))
     [(portKey addr p,
         \<lparr>ep_serviceNamespace = es_namespace s, ep_serviceName = es_serviceName s,
          ep_podNamespace = fst (endpointPodIdentity (es_namespace s) ep),
          ep_podName = snd (endpointPodIdentity (es_namespace s) ep)\<rparr>).
        s \<leftarrow> ss, ep \<leftarrow> readyEndpoints s, addr \<leftarrow> en_addresses ep, p \<leftarrow> nonNil (es_ports s)]"
  by (simp add: map_concat comp_def entryService_def sliceRef_def)

lemma target_claims_map:
  "[(portKey addr t, serviceRefOf svc). svc \<leftarrow> sv, t \<leftarrow> targetPorts svc,
        addr \<leftarrow> serviceAddressesByRef slices (serviceRefOf svc)] =
   map (\<lambda>(k, e). (k, entryService e))
     [(portKey addr t,
         (let pod = getOr ('''', '''') (endpointPodsByAddress slices) addr in
          \<lparr>ep_serviceNamespace = sv_namespace svc, ep_serviceName = sv_name svc,
           ep_podNamespace = fst pod, ep_podName = snd pod\<rparr>)).
        svc \<leftarrow> sv, t \<leftarrow> targetPorts svc, addr \<leftarrow> serviceAddressesByRef slices (serviceRefOf svc)]"
  by (simp add: map_concat comp_def entryService_def serviceRefOf_def Let_def)

lemma endpoint_index_refines:
  assumes "buildEndpointIndex services slices k = Some e"
  shows "buildDstIndex services slices k = Some (entryService e)"
  unfolding buildDstIndex_def augmentEndpointIndexWithTargetPorts_def target_claims_map
proof (rule assignAll_map [OF assms [unfolded buildEndpointIndex_def augmentEndpointPodIndexWithTargetPorts_def]])
  fix e'
  assume "mergeEndpointSlicePodIndex Map.empty slices k = Some e'"
  then show "mergeEndpointSliceIndex (buildServiceIndex services) slices k = Some (entryService e')"
    unfolding mergeEndpointSliceIndex_def endpoint_claims_map mergeEndpointSlicePodIndex_def
    by (rule assignAll_map) simp
qed

section \<open>Properties\<close>

text \<open>An address that a Service answers on: a cluster address unless headless, an external or a load balancer address.\<close>

definition answersOn :: "Service \<Rightarrow> string \<Rightarrow> bool" where
  "answersOn svc ip \<longleftrightarrow> ip \<noteq> '''' \<and> ip \<noteq> ClusterIPNone \<and>
     (sv_clusterIP svc \<noteq> ClusterIPNone \<and> (ip = sv_clusterIP svc \<or> ip \<in> set (sv_clusterIPs svc)) \<or>
      ip \<in> set (sv_externalIPs svc) \<or> ip \<in> set (sv_ingressIPs svc))"

text \<open>
  The fallback on a Service's address is never a guess: whatever the order of the informer's list, the
  lookup answers exactly when the Services that answer on the address are one and the same, and with that one.
\<close>
theorem service_addr_unique:
  "clusterIPIndex_lookup (buildClusterIPIndex services) addr = Some r \<longleftrightarrow>
     {serviceRefOf svc | svc. Some svc \<in> set services \<and> answersOn svc addr} = {r}"
proof -
  have "service_addrs.claims (serviceClaims services) addr =
      {serviceRefOf svc | svc. Some svc \<in> set services \<and> answersOn svc addr}"
    by (auto simp: service_addrs.claims_def serviceClaims_def set_nonNil set_collectServiceAddrs answersOn_def)
  then show ?thesis
    using service_addrs.find_addAll_iff [of "serviceClaims services" addr r]
    by (simp add: buildClusterIPIndex_def unique_folds)
qed

text \<open>
  The same for endpoint addresses: the lookup answers exactly when the ready endpoints with the address
  belong to slices of a single Service.
\<close>
theorem endpoint_addr_unique:
  "endpointIPIndex_lookup (buildEndpointIPIndex slices) addr = Some r \<longleftrightarrow>
     {sliceRef s | s ep. Some s \<in> set slices \<and> es_serviceName s \<noteq> '''' \<and> ep \<in> set (es_endpoints s) \<and>
        en_ready ep \<noteq> Some False \<and> addr \<in> set (en_addresses ep)} = {r}"
proof -
  have "endpoint_addrs.claims (sliceClaims slices) addr =
      {sliceRef s | s ep. Some s \<in> set slices \<and> es_serviceName s \<noteq> '''' \<and> ep \<in> set (es_endpoints s) \<and>
        en_ready ep \<noteq> Some False \<and> addr \<in> set (en_addresses ep)}"
    by (auto simp: endpoint_addrs.claims_def sliceClaims_def namedSlices_def readyEndpoints_def set_nonNil)
  then show ?thesis
    using endpoint_addrs.find_addAll_iff [of "sliceClaims slices" addr r]
    by (simp add: buildEndpointIPIndex_def unique_folds)
qed

text \<open>
  A pod address resolves exactly when one pod, and only one, of those with an address of their own
  (not on the host network, not finished) has it; recycled and shared addresses resolve to nothing.
\<close>
theorem pod_addr_unique:
  "podIPIndex_lookup (buildPodIPIndex pods) addr = Some r \<longleftrightarrow>
     {\<lparr>pr_namespace = po_namespace p, pr_name = po_name p\<rparr> | p. Some p \<in> set pods \<and> indexablePod p \<and>
        addr \<noteq> '''' \<and> (addr = po_podIP p \<or> addr \<in> set (po_podIPs p))} = {r}"
proof -
  have "pod_addrs.claims (podClaims pods) addr =
      {\<lparr>pr_namespace = po_namespace p, pr_name = po_name p\<rparr> | p. Some p \<in> set pods \<and> indexablePod p \<and>
        addr \<noteq> '''' \<and> (addr = po_podIP p \<or> addr \<in> set (po_podIPs p))}"
    by (auto simp: pod_addrs.claims_def podClaims_def set_nonNil set_podIPs)
  then show ?thesis
    using pod_addrs.find_addAll_iff [of "podClaims pods" addr r]
    by (simp add: buildPodIPIndex_def unique_folds)
qed

text \<open>
  A node address resolves exactly when a single named node has it as an internal or external address.
\<close>
theorem node_addr_unique:
  "nodeIPIndex_lookup (buildNodeIPIndex nodes) addr = Some n \<longleftrightarrow>
     {no_name d | d a. Some d \<in> set nodes \<and> no_name d \<noteq> '''' \<and> a \<in> set (no_addresses d) \<and>
        (na_type a = ''InternalIP'' \<or> na_type a = ''ExternalIP'') \<and> addr \<noteq> '''' \<and> na_address a = addr} = {n}"
proof -
  have "node_addrs.claims (nodeClaims nodes) addr =
      {no_name d | d a. Some d \<in> set nodes \<and> no_name d \<noteq> '''' \<and> a \<in> set (no_addresses d) \<and>
        (na_type a = ''InternalIP'' \<or> na_type a = ''ExternalIP'') \<and> addr \<noteq> '''' \<and> na_address a = addr}"
    by (auto simp: node_addrs.claims_def nodeClaims_def set_nonNil)
  then show ?thesis
    using node_addrs.find_addAll_iff [of "nodeClaims nodes" addr n]
    by (simp add: buildNodeIPIndex_def unique_folds)
qed

end
