(* ===== verification/Net_IP.thy ===== *)
theory Net_IP
  imports Prelude
begin

text \<open>
  \<^verbatim>\<open>net.ParseIP\<close> with the two classifications the enricher uses (\<^verbatim>\<open>IsLoopback\<close>, \<^verbatim>\<open>IsLinkLocalUnicast\<close>),
  after Go's standard library: dotted decimals without leading zeros; up to eight groups of at most
  four hex digits, one \<open>::\<close>, and an optional dotted decimal in place of the last two groups; no zone.
  An address is its sixteen bytes, an IPv4 address in the mapped form.
\<close>

definition isHex :: "char \<Rightarrow> bool" where
  "isHex c \<longleftrightarrow> isDigit c \<or> c \<in> set ''abcdefABCDEF''"

definition hexVal :: "char \<Rightarrow> nat" where
  "hexVal c = (let n = of_char c in
     if isDigit c then n - 48 else if n \<ge> 97 then n - 87 else n - 55)"

definition hexNum :: "string \<Rightarrow> nat" where
  "hexNum s = foldl (\<lambda>a c. a * 16 + hexVal c) 0 s"

definition ipv4Field :: "string \<Rightarrow> nat option" where
  "ipv4Field f =
     (if f = '''' \<or> \<not> list_all isDigit f \<or> (length f > 1 \<and> hd f = CHR ''0'') \<or> digitsVal 0 f > 255 then None
      else Some (digitsVal 0 f))"

definition parseIPv4Fields :: "string \<Rightarrow> nat list option" where
  "parseIPv4Fields s =
     (case map ipv4Field (splitByte (CHR ''.'') s) of
        [Some a, Some b, Some c, Some d] \<Rightarrow> Some [a, b, c, d]
      | _ \<Rightarrow> None)"

text \<open>
  The loop of \<^verbatim>\<open>parseIPv6\<close>: \<open>n\<close> groups fit, \<open>ip\<close> are the bytes so far, \<open>ell\<close> is where the \<open>::\<close> stood. The
  result is the unread rest with the bytes and the position.
\<close>

fun parse6 :: "nat \<Rightarrow> string \<Rightarrow> nat list \<Rightarrow> nat option \<Rightarrow> (string \<times> nat list \<times> nat option) option" where
  "parse6 0 s ip ell = Some (s, ip, ell)"
| "parse6 (Suc n) s ip ell =
     (let hs = takeWhile isHex s; r = dropWhile isHex s in
      if hs = '''' \<or> length hs > 4 then None
      else if r \<noteq> '''' \<and> hd r = CHR ''.'' then
        (if ell = None \<and> length ip \<noteq> 12 then None
         else if length ip + 4 > 16 then None
         else case parseIPv4Fields s of None \<Rightarrow> None | Some q \<Rightarrow> Some ('''', ip @ q, ell))
      else
        let v = hexNum hs; ip1 = ip @ [v div 256, v mod 256] in
        if r = '''' then Some ('''', ip1, ell)
        else if hd r \<noteq> CHR '':'' \<or> tl r = '''' then None
        else
          let s1 = tl r in
          if hd s1 = CHR '':'' then
            (if ell \<noteq> None then None
             else if tl s1 = '''' then Some ('''', ip1, Some (length ip1))
             else parse6 n (tl s1) ip1 (Some (length ip1)))
          else parse6 n s1 ip1 ell)"

definition expand6 :: "string \<times> nat list \<times> nat option \<Rightarrow> nat list option" where
  "expand6 = (\<lambda>(s, ip, ell).
     if s \<noteq> '''' then None
     else if length ip < 16 then
       (case ell of None \<Rightarrow> None
        | Some e \<Rightarrow> Some (take e ip @ replicate (16 - length ip) 0 @ drop e ip))
     else if ell \<noteq> None then None else Some ip)"

definition parseIPv6 :: "string \<Rightarrow> nat list option" where
  "parseIPv6 s =
     (if HasPrefix s ''::'' then
        (let s1 = drop 2 s in
         if s1 = '''' then Some (replicate 16 0)
         else case parse6 8 s1 [] (Some 0) of None \<Rightarrow> None | Some r \<Rightarrow> expand6 r)
      else case parse6 8 s [] None of None \<Rightarrow> None | Some r \<Rightarrow> expand6 r)"

definition v4Prefix :: "nat list" where
  "v4Prefix = replicate 10 0 @ [255, 255]"

definition ParseIP :: "string \<Rightarrow> nat list option" where
  "ParseIP s =
     (case filter (\<lambda>c. c \<in> set ''.:%'') s of
        [] \<Rightarrow> None
      | c # _ \<Rightarrow>
          if CHR ''%'' \<in> set s then None
          else if c = CHR ''.'' then map_option (\<lambda>q. v4Prefix @ q) (parseIPv4Fields s)
          else parseIPv6 s)"

definition To4 :: "nat list \<Rightarrow> nat list option" where
  "To4 ip = (if take 12 ip = v4Prefix then Some (drop 12 ip) else None)"

definition IsLoopback :: "nat list \<Rightarrow> bool" where
  "IsLoopback ip = (case To4 ip of Some q \<Rightarrow> q ! 0 = 127 | None \<Rightarrow> ip = replicate 15 0 @ [1])"

definition IsLinkLocalUnicast :: "nat list \<Rightarrow> bool" where
  "IsLinkLocalUnicast ip =
     (case To4 ip of Some q \<Rightarrow> q ! 0 = 169 \<and> q ! 1 = 254
      | None \<Rightarrow> ip ! 0 = 254 \<and> ip ! 1 div 64 = 2)"

lemma parseIPv4Fields_length: "parseIPv4Fields s = Some q \<Longrightarrow> length q = 4"
  by (auto simp: parseIPv4Fields_def split: list.splits option.splits)

lemma parse6_length:
  "parse6 n s ip ell = Some (r, ip', ell') \<Longrightarrow> length ip + 2 * n = 16 \<Longrightarrow> (\<forall>e. ell = Some e \<longrightarrow> e \<le> length ip) \<Longrightarrow>
     length ip' \<le> 16 \<and> (\<forall>e. ell' = Some e \<longrightarrow> e \<le> length ip')"
proof (induction n s ip ell rule: parse6.induct)
  case (1 s ip ell)
  then show ?case by auto
next
  case (2 n s ip ell)
  let ?hs = "takeWhile isHex s"
  let ?ip1 = "ip @ [hexNum ?hs div 256, hexNum ?hs mod 256]"
  let ?r = "dropWhile isHex s"
  from "2.prems"(1) have hs: "\<not> (?hs = '''' \<or> length ?hs > 4)" by (auto simp: Let_def)
  show ?case
  proof (cases "?r \<noteq> '''' \<and> hd ?r = CHR ''.''")
    case True
    then obtain q where "parseIPv4Fields s = Some q" "ip' = ip @ q" "ell' = ell" "length ip + 4 \<le> 16"
      using "2.prems"(1) hs by (auto simp: Let_def split: if_splits option.splits)
    with parseIPv4Fields_length "2.prems"(3) show ?thesis by auto
  next
    case False
    note IH = "2.IH" [OF refl refl hs False refl refl _ _ refl]
    have w: "\<forall>e. ell = Some e \<longrightarrow> e \<le> Suc (Suc (length ip))" using "2.prems"(3) by auto
    show ?thesis
      using "2.prems" hs False IH w by (auto simp: Let_def split: if_splits)
  qed
qed

text \<open>An address that parses has sixteen bytes, so the classifications never index out of range.\<close>

lemma expand6_length:
  assumes "parse6 8 s [] ell = Some r" and "ell = None \<or> ell = Some 0" and "expand6 r = Some ip"
  shows "length ip = 16"
proof -
  obtain rest bs ell' where r: "r = (rest, bs, ell')" by (cases r)
  have "length bs \<le> 16" "\<forall>e. ell' = Some e \<longrightarrow> e \<le> length bs"
    using parse6_length [of 8 s "[]" ell rest bs ell'] assms(1,2) by (auto simp: r)
  then show ?thesis using assms(3) by (auto simp: r expand6_def split: if_splits option.splits)
qed

lemma ParseIP_length:
  assumes "ParseIP s = Some ip"
  shows "length ip = 16"
proof -
  have "length ip = 16" if "parseIPv6 s = Some ip"
    using that expand6_length by (auto simp: parseIPv6_def Let_def split: if_splits option.splits)
  then show ?thesis
    using assms parseIPv4Fields_length [of s]
    by (auto simp: ParseIP_def v4Prefix_def split: list.splits if_splits)
qed

end
