(* ===== verification/Enricher.thy ===== *)
theory Enricher
  imports Kube_Index Net_IP
begin

text \<open>
  The Kubernetes enricher (\<^verbatim>\<open>pkg/collector/kube/enricher.go\<close>): the walk from a pod to its top controller
  and the attribution of a destination address. The informer caches are client-go; their answers at
  one moment are the argument \<open>Listers\<close> of every definition.
\<close>

record WorkloadIdentity =
  wi_namespace :: string
  wi_kind :: string
  wi_name :: string

record DstIdentity =
  di_namespace :: string
  di_kind :: string
  di_name :: string
  di_addr :: string

record Listers =
  li_pod :: "string \<Rightarrow> string \<Rightarrow> Pod option" \<comment> \<open>\<^verbatim>\<open>podLister.Pods(ns).Get(name)\<close>, none on error\<close>
  li_replicaSet :: "string \<Rightarrow> string \<Rightarrow> OwnerReference list option"
  li_job :: "string \<Rightarrow> string \<Rightarrow> OwnerReference list option"
  li_pods :: "Pod option list option" \<comment> \<open>\<^verbatim>\<open>List\<close>, none on error\<close>
  li_nodes :: "Node option list option" \<comment> \<open>none on error or for a nil lister\<close>
  li_services :: "Service option list option"
  li_slices :: "EndpointSlice option list option"

definition maxOwnerWalkDepth :: nat where "maxOwnerWalkDepth = 8"

definition controllerOwner :: "OwnerReference list \<Rightarrow> OwnerReference option" where
  "controllerOwner owners =
     (case find (\<lambda>ow. or_controller ow = Some True) owners of
        Some ow \<Rightarrow> Some ow
      | None \<Rightarrow> (case owners of [] \<Rightarrow> None | ow # _ \<Rightarrow> Some ow))"

text \<open>The loop of \<^verbatim>\<open>resolveTopWorkload\<close>; the first argument is the number of rounds left.\<close>

fun walkOwners :: "nat \<Rightarrow> Listers \<Rightarrow> string \<Rightarrow> string \<Rightarrow> string \<Rightarrow> OwnerReference list \<Rightarrow> WorkloadIdentity" where
  "walkOwners 0 L ns kind name owners = \<lparr>wi_namespace = ns, wi_kind = kind, wi_name = name\<rparr>"
| "walkOwners (Suc n) L ns kind name owners =
     (case controllerOwner owners of
        None \<Rightarrow> \<lparr>wi_namespace = ns, wi_kind = kind, wi_name = name\<rparr>
      | Some ow \<Rightarrow>
          if or_kind ow = ''Node'' then \<lparr>wi_namespace = ns, wi_kind = kind, wi_name = name\<rparr>
          else if or_kind ow = ''ReplicaSet'' then
            (case li_replicaSet L ns (or_name ow) of
               None \<Rightarrow> \<lparr>wi_namespace = ns, wi_kind = or_kind ow, wi_name = or_name ow\<rparr>
             | Some owners' \<Rightarrow> walkOwners n L ns (or_kind ow) (or_name ow) owners')
          else if or_kind ow = ''Job'' then
            (case li_job L ns (or_name ow) of
               None \<Rightarrow> \<lparr>wi_namespace = ns, wi_kind = or_kind ow, wi_name = or_name ow\<rparr>
             | Some owners' \<Rightarrow> walkOwners n L ns (or_kind ow) (or_name ow) owners')
          else \<lparr>wi_namespace = ns, wi_kind = or_kind ow, wi_name = or_name ow\<rparr>)"

definition resolveTopWorkload :: "Listers \<Rightarrow> Pod \<Rightarrow> WorkloadIdentity" where
  "resolveTopWorkload L pod = walkOwners maxOwnerWalkDepth L (po_namespace pod) ''Pod'' (po_name pod) (po_owners pod)"

definition ResolveSrcWorkload :: "Listers \<Rightarrow> string \<Rightarrow> string \<Rightarrow> WorkloadIdentity" where
  "ResolveSrcWorkload L namespace podName =
     (let fallback = \<lparr>wi_namespace = namespace, wi_kind = ''Pod'', wi_name = podName\<rparr> in
      if namespace = '''' \<or> podName = '''' then fallback
      else case li_pod L namespace podName of
             None \<Rightarrow> fallback
           | Some pod \<Rightarrow> resolveTopWorkload L pod)"

definition listServicesAndSlices :: "Listers \<Rightarrow> Service option list \<times> EndpointSlice option list" where
  "listServicesAndSlices L =
     ((case li_services L of None \<Rightarrow> [] | Some s \<Rightarrow> s), (case li_slices L of None \<Rightarrow> [] | Some s \<Rightarrow> s))"

definition serviceDst :: "serviceRef \<Rightarrow> string \<Rightarrow> DstIdentity" where
  "serviceDst ref addr = \<lparr>di_namespace = rf_namespace ref, di_kind = ''Service'', di_name = rf_name ref, di_addr = addr\<rparr>"

definition resolveDstFromPodIP :: "Listers \<Rightarrow> string \<Rightarrow> DstIdentity option" where
  "resolveDstFromPodIP L addr =
     (case li_pods L of
        None \<Rightarrow> None
      | Some pods \<Rightarrow>
          (case podIPIndex_lookup (buildPodIPIndex pods) addr of
             None \<Rightarrow> None
           | Some ref \<Rightarrow>
               let wl = ResolveSrcWorkload L (pr_namespace ref) (pr_name ref)
               in Some \<lparr>di_namespace = wi_namespace wl, di_kind = wi_kind wl, di_name = wi_name wl, di_addr = addr\<rparr>))"

definition resolveDstFromNodeIP :: "Listers \<Rightarrow> string \<Rightarrow> DstIdentity option" where
  "resolveDstFromNodeIP L addr =
     (case li_nodes L of
        None \<Rightarrow> None
      | Some nodes \<Rightarrow>
          map_option (\<lambda>name. \<lparr>di_namespace = '''', di_kind = ''Node'', di_name = name, di_addr = addr\<rparr>)
            (nodeIPIndex_lookup (buildNodeIPIndex nodes) addr))"

definition isLoopbackAddr :: "string \<Rightarrow> bool" where
  "isLoopbackAddr addr = (case ParseIP addr of None \<Rightarrow> False | Some ip \<Rightarrow> IsLoopback ip)"

definition isLinkLocalAddr :: "string \<Rightarrow> bool" where
  "isLinkLocalAddr addr = (case ParseIP addr of None \<Rightarrow> False | Some ip \<Rightarrow> IsLinkLocalUnicast ip)"

definition noIdentity :: "string \<Rightarrow> DstIdentity" where
  "noIdentity addr = \<lparr>di_namespace = '''', di_kind = '''', di_name = '''', di_addr = addr\<rparr>"

definition ResolveDst :: "Listers \<Rightarrow> string \<Rightarrow> uint32 \<Rightarrow> DstIdentity" where
  "ResolveDst L addr port =
     (if addr = '''' then noIdentity addr
      else case listServicesAndSlices L of (services, slices) \<Rightarrow>
        (case serviceIndex_lookup (buildDstIndex services slices) addr port of
           Some ref \<Rightarrow> serviceDst ref addr
         | None \<Rightarrow>
        (case clusterIPIndex_lookup (buildClusterIPIndex services) addr of
           Some ref \<Rightarrow> serviceDst ref addr
         | None \<Rightarrow>
        (case endpointIPIndex_lookup (buildEndpointIPIndex slices) addr of
           Some ref \<Rightarrow> serviceDst ref addr
         | None \<Rightarrow>
        (case (if port < linuxDefaultEphemeralPortMin then resolveDstFromPodIP L addr else None) of
           Some dst \<Rightarrow> dst
         | None \<Rightarrow>
        (case resolveDstFromNodeIP L addr of
           Some dst \<Rightarrow> dst
         | None \<Rightarrow>
             if isLoopbackAddr addr
             then \<lparr>di_namespace = '''', di_kind = ''Loopback'', di_name = ''localhost'', di_addr = addr\<rparr>
             else if isLinkLocalAddr addr
             then \<lparr>di_namespace = '''', di_kind = ''LinkLocal'', di_name = ''metadata'', di_addr = addr\<rparr>
             else noIdentity addr))))))"

definition LookupEndpoint :: "Listers \<Rightarrow> string \<Rightarrow> uint32 \<Rightarrow> EndpointEntry option" where
  "LookupEndpoint L addr port =
     (if addr = '''' \<or> port = 0 then None
      else case listServicesAndSlices L of (services, slices) \<Rightarrow>
        if services = [] \<and> slices = [] then None
        else endpointIndex_lookup (buildEndpointIndex services slices) addr port)"

definition ResolveBackendFromEndpoint :: "Listers \<Rightarrow> string \<Rightarrow> uint32 \<Rightarrow> BackendIdentity option" where
  "ResolveBackendFromEndpoint L addr port =
     (case LookupEndpoint L addr port of
        None \<Rightarrow> None
      | Some entry \<Rightarrow>
          if ep_podName entry = '''' then None
          else
            let workload = ResolveSrcWorkload L (ep_podNamespace entry) (ep_podName entry)
            in Some \<lparr>bi_podNamespace = ep_podNamespace entry, bi_podName = ep_podName entry,
                     bi_workloadNamespace = wi_namespace workload, bi_workloadKind = wi_kind workload,
                     bi_workloadName = wi_name workload, bi_serviceNamespace = ep_serviceNamespace entry,
                     bi_serviceName = ep_serviceName entry\<rparr>)"

section \<open>The top controller\<close>

text \<open>
  The owner chain as a relation, with no bound on its length: the controller of an object is followed
  through ReplicaSets and Jobs that still exist; every other controller, and one that is gone, is the
  top; an object without owner, or owned by its node, is its own top. The natural number counts the
  owners that were followed.
\<close>

inductive topOwner :: "Listers \<Rightarrow> string \<Rightarrow> string \<times> string \<Rightarrow> OwnerReference list \<Rightarrow> nat \<Rightarrow> string \<times> string \<Rightarrow> bool"
  for L ns where
  top_self: "controllerOwner owners = None \<or> (\<exists>ow. controllerOwner owners = Some ow \<and> or_kind ow = ''Node'') \<Longrightarrow>
     topOwner L ns obj owners 0 obj"
| top_replicaSet: "controllerOwner owners = Some ow \<Longrightarrow> or_kind ow = ''ReplicaSet'' \<Longrightarrow>
     li_replicaSet L ns (or_name ow) = Some owners' \<Longrightarrow>
     topOwner L ns (or_kind ow, or_name ow) owners' n res \<Longrightarrow> topOwner L ns obj owners (Suc n) res"
| top_job: "controllerOwner owners = Some ow \<Longrightarrow> or_kind ow = ''Job'' \<Longrightarrow>
     li_job L ns (or_name ow) = Some owners' \<Longrightarrow>
     topOwner L ns (or_kind ow, or_name ow) owners' n res \<Longrightarrow> topOwner L ns obj owners (Suc n) res"
| top_gone: "controllerOwner owners = Some ow \<Longrightarrow>
     (or_kind ow = ''ReplicaSet'' \<and> li_replicaSet L ns (or_name ow) = None) \<or>
     (or_kind ow = ''Job'' \<and> li_job L ns (or_name ow) = None) \<Longrightarrow>
     topOwner L ns obj owners 1 (or_kind ow, or_name ow)"
| top_other: "controllerOwner owners = Some ow \<Longrightarrow> or_kind ow \<notin> {''Node'', ''ReplicaSet'', ''Job''} \<Longrightarrow>
     topOwner L ns obj owners 1 (or_kind ow, or_name ow)"

inductive_cases topOwnerE: "topOwner L ns obj owners n res"

lemma walkOwners_top:
  "topOwner L ns obj owners n res \<Longrightarrow> n \<le> fuel \<Longrightarrow>
     walkOwners fuel L ns (fst obj) (snd obj) owners = \<lparr>wi_namespace = ns, wi_kind = fst res, wi_name = snd res\<rparr>"
proof (induction arbitrary: fuel rule: topOwner.induct)
  case (top_self owners obj)
  then show ?case by (cases fuel) auto
next
  case (top_replicaSet owners ow owners' n res obj)
  from top_replicaSet.prems obtain m where "fuel = Suc m" "n \<le> m" by (cases fuel) auto
  with top_replicaSet.IH [of m] top_replicaSet.hyps show ?case by simp
next
  case (top_job owners ow owners' n res obj)
  from top_job.prems obtain m where "fuel = Suc m" "n \<le> m" by (cases fuel) auto
  with top_job.IH [of m] top_job.hyps show ?case by simp
next
  case (top_gone owners ow obj)
  then show ?case by (cases fuel) auto
next
  case (top_other owners ow obj)
  then show ?case by (cases fuel) auto
qed

lemma walkOwners_namespace [simp]: "wi_namespace (walkOwners fuel L ns kind name owners) = ns"
  by (induction fuel L ns kind name owners rule: walkOwners.induct)
    (simp_all split: option.splits)

lemma walkOwners_kind:
  "kind \<noteq> ''Node'' \<Longrightarrow> wi_kind (walkOwners fuel L ns kind name owners) \<noteq> ''Node''"
  by (induction fuel L ns kind name owners rule: walkOwners.induct)
    (simp_all split: option.splits)

lemma resolveDstFromPodIP_addr: "resolveDstFromPodIP L addr = Some d \<Longrightarrow> di_addr d = addr"
  by (auto simp: resolveDstFromPodIP_def Let_def split: option.splits)

lemma resolveDstFromNodeIP_addr: "resolveDstFromNodeIP L addr = Some d \<Longrightarrow> di_addr d = addr"
  by (auto simp: resolveDstFromNodeIP_def split: option.splits)

section \<open>Properties\<close>

text \<open>
  C33: A pod is attributed to its top controller: when the pod's owner chain ends after at most eight
  owners, in whatever mixture of ReplicaSets and Jobs, the walk finds exactly its end, in the pod's
  namespace. Chains are followed through the controller reference, or the first owner if none is marked.
\<close>
theorem ResolveSrcWorkload_top:
  assumes "ns \<noteq> ''''" and "pod \<noteq> ''''" and "li_pod L ns pod = Some p" and "po_namespace p = ns"
    and "topOwner L ns (''Pod'', po_name p) (po_owners p) n (kind, name)" and "n \<le> maxOwnerWalkDepth"
  shows "ResolveSrcWorkload L ns pod = \<lparr>wi_namespace = ns, wi_kind = kind, wi_name = name\<rparr>"
  using walkOwners_top [OF assms(5,6)] assms(1-4)
  by (simp add: ResolveSrcWorkload_def resolveTopWorkload_def)

definition demoOwner :: "string \<Rightarrow> string \<Rightarrow> OwnerReference" where
  "demoOwner kind name = \<lparr>or_kind = kind, or_name = name, or_controller = Some True\<rparr>"

definition demoPod :: Pod where
  "demoPod = \<lparr>po_namespace = ''shop'', po_name = ''web-1'', po_owners = [demoOwner ''ReplicaSet'' ''web-abc''],
     po_hostNetwork = False, po_phase = ''Running'', po_podIP = ''10.0.0.9'', po_podIPs = []\<rparr>"

definition demoService :: Service where
  "demoService = \<lparr>sv_namespace = ''shop'', sv_name = ''api'', sv_clusterIP = ''10.96.0.1'', sv_clusterIPs = [],
     sv_externalIPs = [], sv_ingressIPs = [], sv_ports = [\<lparr>sp_port = 80, sp_targetPort = Some 8080\<rparr>]\<rparr>"

definition demoSlice :: EndpointSlice where
  "demoSlice = \<lparr>es_namespace = ''shop'', es_serviceName = ''api'',
     es_endpoints = [\<lparr>en_addresses = [''10.0.0.7''], en_ready = None,
        en_targetRef = Some \<lparr>tr_kind = ''Pod'', tr_namespace = '''', tr_name = ''api-1''\<rparr>\<rparr>],
     es_ports = [Some 8080]\<rparr>"

definition demoListers :: Listers where
  "demoListers = \<lparr>li_pod = (\<lambda>ns n. if ns = ''shop'' \<and> n = ''web-1'' then Some demoPod else None),
     li_replicaSet = (\<lambda>ns n. if n = ''web-abc'' then Some [demoOwner ''Deployment'' ''web''] else None),
     li_job = (\<lambda>ns n. None), li_pods = Some [Some demoPod], li_nodes = None,
     li_services = Some [Some demoService], li_slices = Some [Some demoSlice]\<rparr>"

theorem ResolveSrcWorkload_top_witness:
  "ResolveSrcWorkload demoListers ''shop'' ''web-1'' =
     \<lparr>wi_namespace = ''shop'', wi_kind = ''Deployment'', wi_name = ''web''\<rparr>"
proof -
  have "topOwner demoListers ''shop'' (''ReplicaSet'', ''web-abc'') [demoOwner ''Deployment'' ''web''] 1 (''Deployment'', ''web'')"
    using topOwner.top_other [of "[demoOwner ''Deployment'' ''web'']" "demoOwner ''Deployment'' ''web''"]
    by (simp add: controllerOwner_def demoOwner_def)
  then have "topOwner demoListers ''shop'' (''Pod'', po_name demoPod) (po_owners demoPod) (Suc 1) (''Deployment'', ''web'')"
    using topOwner.top_replicaSet [of "po_owners demoPod" "demoOwner ''ReplicaSet'' ''web-abc''" demoListers "''shop''"]
    by (simp add: controllerOwner_def demoOwner_def demoPod_def demoListers_def)
  then show ?thesis
    using ResolveSrcWorkload_top [of "''shop''" "''web-1''" demoListers demoPod "Suc 1" "''Deployment''" "''web''"]
    by (simp add: demoListers_def demoPod_def maxOwnerWalkDepth_def)
qed

text \<open>
  The walk is total and stays in the pod's namespace, whatever the owner references are (cyclic
  ones included), and never names a Node.
\<close>
theorem resolveTopWorkload_total:
  "wi_namespace (resolveTopWorkload L pod) = po_namespace pod \<and> wi_kind (resolveTopWorkload L pod) \<noteq> ''Node''"
  by (simp add: resolveTopWorkload_def walkOwners_kind)

text \<open>
  No attribution through pod addresses on ephemeral ports: for a destination port of 32768 or more
  the result does not depend on the pods at all, nor on anything reached from them, so that a recycled
  pod address cannot create an edge.
\<close>
theorem ResolveDst_ephemeral_ignores_pods:
  assumes "linuxDefaultEphemeralPortMin \<le> port"
  shows "ResolveDst (L\<lparr>li_pods := ps, li_pod := getPod, li_replicaSet := getRS, li_job := getJob\<rparr>) addr port =
         ResolveDst L addr port"
  using assms by (simp add: ResolveDst_def listServicesAndSlices_def resolveDstFromNodeIP_def leD cong: option.case_cong)

theorem ResolveDst_ephemeral_ignores_pods_witness:
  "ResolveDst demoListers ''10.0.0.9'' 40000 = ResolveDst (demoListers\<lparr>li_pods := None\<rparr>) ''10.0.0.9'' 40000 \<and>
   di_kind (ResolveDst demoListers ''10.0.0.9'' 8080) = ''Deployment''"
proof
  show "ResolveDst demoListers ''10.0.0.9'' 40000 = ResolveDst (demoListers\<lparr>li_pods := None\<rparr>) ''10.0.0.9'' 40000"
    using ResolveDst_ephemeral_ignores_pods [where port = 40000 and L = demoListers and ps = None
        and getPod = "li_pod demoListers" and getRS = "li_replicaSet demoListers"
        and getJob = "li_job demoListers" and addr = "''10.0.0.9''"]
    by (simp add: linuxDefaultEphemeralPortMin_def)
  show "di_kind (ResolveDst demoListers ''10.0.0.9'' 8080) = ''Deployment''"
    by code_simp
qed

text \<open>
  The two views of an endpoint agree: where the endpoint index knows the backing pod of an address
  and port, the destination is attributed to that endpoint's Service, so the Service check in front of
  the backend attribution cannot discard it.
\<close>
theorem endpoint_and_destination_agree:
  assumes "LookupEndpoint L addr port = Some e"
  shows "ResolveDst L addr port = serviceDst (entryService e) addr"
proof -
  obtain services slices where l: "listServicesAndSlices L = (services, slices)" by force
  have a: "addr \<noteq> ''''" and e: "buildEndpointIndex services slices \<lparr>pk_clusterIP = addr, pk_port = port\<rparr> = Some e"
    using assms by (auto simp: LookupEndpoint_def l endpointIndex_lookup_def split: if_splits)
  from endpoint_index_refines [OF e] a show ?thesis
    by (simp add: ResolveDst_def l serviceIndex_lookup_def)
qed

theorem endpoint_and_destination_agree_witness:
  "ResolveDst demoListers ''10.0.0.7'' 8080 =
     \<lparr>di_namespace = ''shop'', di_kind = ''Service'', di_name = ''api'', di_addr = ''10.0.0.7''\<rparr>"
proof -
  have "LookupEndpoint demoListers ''10.0.0.7'' 8080 =
      Some \<lparr>ep_serviceNamespace = ''shop'', ep_serviceName = ''api'', ep_podNamespace = ''shop'', ep_podName = ''api-1''\<rparr>"
    by code_simp
  from endpoint_and_destination_agree [OF this] show ?thesis
    by (simp add: serviceDst_def entryService_def)
qed

lemma ResolveDst_addr: "di_addr (ResolveDst L addr port) = addr"
  by (auto simp: ResolveDst_def serviceDst_def noIdentity_def
      dest: resolveDstFromPodIP_addr resolveDstFromNodeIP_addr split: option.splits prod.splits if_splits)

end
