(* ===== verification/Peer_Index.thy ===== *)
theory Peer_Index
  imports Interfaces Kube_Index
begin

text \<open>
  The peer index (\<^verbatim>\<open>pkg/collector/peerindex/index.go\<close>): the backend that accepted a connection, by the
  client's address and port, for a limited time.
\<close>

record peerKey =
  ky_addr :: string
  ky_port :: uint32

record entryWithExpiry =
  ee_entry :: BackendIdentity
  ee_expires :: go_time

record Index =
  ix_entries :: "peerKey \<rightharpoonup> entryWithExpiry"
  ix_ttl :: duration

definition NewIndex :: "duration \<Rightarrow> Index" where
  "NewIndex ttl = \<lparr>ix_entries = Map.empty, ix_ttl = (if ttl \<le> 0 then 5 * Minute else ttl)\<rparr>"

definition index_pruneLocked :: "go_time \<Rightarrow> Index \<Rightarrow> Index" where
  "index_pruneLocked now idx = idx\<lparr>ix_entries := deleteIf (\<lambda>item. now > ee_expires item) (ix_entries idx)\<rparr>"

definition Put :: "string \<Rightarrow> uint32 \<Rightarrow> BackendIdentity \<Rightarrow> go_time \<Rightarrow> Index \<Rightarrow> Index" where
  "Put clientAddr clientPort backend now idx =
     (if clientAddr = '''' \<or> clientPort = 0 then idx
      else
        let idx1 = index_pruneLocked now idx
        in idx1\<lparr>ix_entries := (ix_entries idx1)(\<lparr>ky_addr = clientAddr, ky_port = clientPort\<rparr> \<mapsto>
             \<lparr>ee_entry = backend, ee_expires = now + ix_ttl idx1\<rparr>)\<rparr>)"

definition index_Lookup :: "go_time \<Rightarrow> string \<Rightarrow> uint32 \<Rightarrow> Index \<Rightarrow> BackendIdentity option \<times> Index" where
  "index_Lookup now clientAddr clientPort idx =
     (if clientAddr = '''' \<or> clientPort = 0 then (None, idx)
      else
        let idx1 = index_pruneLocked now idx
        in (case ix_entries idx1 \<lparr>ky_addr = clientAddr, ky_port = clientPort\<rparr> of
              None \<Rightarrow> None
            | Some item \<Rightarrow> if now > ee_expires item then None else Some (ee_entry item), idx1))"

lemma peerKey_eta: "\<lparr>ky_addr = ky_addr k, ky_port = ky_port k\<rparr> = k" for k :: peerKey
  by simp

lemma Put_ttl [simp]: "ix_ttl (Put a p b t idx) = ix_ttl idx"
  by (simp add: Put_def Let_def index_pruneLocked_def)

lemma index_Lookup_ttl [simp]: "ix_ttl (snd (index_Lookup now a p idx)) = ix_ttl idx"
  by (simp add: index_Lookup_def Let_def index_pruneLocked_def)

text \<open>A lookup, as a function of the entries before it.\<close>

lemma index_Lookup_value:
  "fst (index_Lookup now a p idx) =
     (if a = '''' \<or> p = 0 then None
      else case ix_entries idx \<lparr>ky_addr = a, ky_port = p\<rparr> of
             None \<Rightarrow> None
           | Some item \<Rightarrow> if now > ee_expires item then None else Some (ee_entry item))"
  by (auto simp: index_Lookup_def Let_def index_pruneLocked_def deleteIf_def split: option.splits)

interpretation peers: expiring_map
  "\<lambda>idx k now. fst (index_Lookup now (ky_addr k) (ky_port k) idx)"
  "\<lambda>k b t. Put (ky_addr k) (ky_port k) b t" ix_ttl "\<lambda>idx. 0 < ix_ttl idx"
  "\<lambda>k :: peerKey. ky_addr k \<noteq> '''' \<and> ky_port k \<noteq> 0"
proof
  fix idx :: Index and k k' :: peerKey and b and t now :: int
  assume ttl: "0 < ix_ttl idx" and k: "ky_addr k \<noteq> '''' \<and> ky_port k \<noteq> 0"
  let ?i = "Put (ky_addr k) (ky_port k) b t idx"
  have e: "ix_entries ?i = (deleteIf (\<lambda>item. t > ee_expires item) (ix_entries idx))(k \<mapsto> \<lparr>ee_entry = b, ee_expires = t + ix_ttl idx\<rparr>)"
    using k by (simp add: Put_def Let_def index_pruneLocked_def peerKey_eta)
  note eta = peerKey_eta
  show "t \<le> now \<Longrightarrow> now \<le> t + ix_ttl idx \<Longrightarrow> fst (index_Lookup now (ky_addr k) (ky_port k) ?i) = Some b"
    using k by (simp add: index_Lookup_value eta e)
  show "t + ix_ttl idx < now \<Longrightarrow> fst (index_Lookup now (ky_addr k) (ky_port k) ?i) = None"
    using k by (simp add: index_Lookup_value eta e)
  show "t \<le> now \<Longrightarrow> k' \<noteq> k \<Longrightarrow>
      fst (index_Lookup now (ky_addr k') (ky_port k') ?i) = fst (index_Lookup now (ky_addr k') (ky_port k') idx)"
    by (auto simp: index_Lookup_value eta e deleteIf_def split: option.splits)
qed simp_all

text \<open>Lookups in between prune, and change no later lookup.\<close>

lemma Lookup_keeps:
  assumes "t \<le> now"
  shows "fst (index_Lookup now a p (snd (index_Lookup t b q idx))) = fst (index_Lookup now a p idx)"
  using assms
  by (auto simp: index_Lookup_value index_Lookup_def [of t] Let_def index_pruneLocked_def deleteIf_def split: option.splits)

text \<open>
  A client connection is matched with the backend recorded last for its address and port: after any
  sequence of \<^verbatim>\<open>Put\<close>s for any connections in the past, a lookup within the time to live of the last
  \<^verbatim>\<open>Put\<close> for this connection returns that backend.
\<close>
theorem peer_last_backend:
  fixes k :: peerKey
  assumes "k \<notin> fst ` set later" and "\<forall>(k', b', t') \<in> set later. t' \<le> now \<and> ky_addr k' \<noteq> '''' \<and> ky_port k' \<noteq> 0"
    and "ky_addr k \<noteq> '''' \<and> ky_port k \<noteq> 0" and "t \<le> now" and "now \<le> t + ix_ttl (NewIndex ttl)"
    and "idx = fold (\<lambda>(k, b, t). Put (ky_addr k) (ky_port k) b t) (earlier @ (k, b, t) # later) (NewIndex ttl)"
  shows "fst (index_Lookup now (ky_addr k) (ky_port k) idx) = Some b"
proof -
  have f: "peers.storeAll es s = fold (\<lambda>(k, b, t). Put (ky_addr k) (ky_port k) b t) es s" for es s
    by (induction es s rule: peers.storeAll.induct) simp_all
  have "0 < ix_ttl (NewIndex ttl)" by (simp add: NewIndex_def Minute_def Second_def)
  from peers.storeAll_last [OF this assms(1-5), of earlier b] show ?thesis by (simp add: assms(6) f)
qed

definition demoBackend :: "string \<Rightarrow> BackendIdentity" where
  "demoBackend pod = \<lparr>bi_podNamespace = ''shop'', bi_podName = pod, bi_workloadNamespace = ''shop'',
     bi_workloadKind = ''Deployment'', bi_workloadName = ''api'', bi_serviceNamespace = ''shop'', bi_serviceName = ''api''\<rparr>"

theorem peer_last_backend_witness:
  "fst (index_Lookup 50 ''10.0.0.9'' 40000
     (Put ''10.0.0.8'' 41000 (demoBackend ''api-2'') 20 (Put ''10.0.0.9'' 40000 (demoBackend ''api-1'') 10 (NewIndex 0)))) =
   Some (demoBackend ''api-1'')"
  using peer_last_backend [of "\<lparr>ky_addr = ''10.0.0.9'', ky_port = 40000\<rparr>"
      "[(\<lparr>ky_addr = ''10.0.0.8'', ky_port = 41000\<rparr>, demoBackend ''api-2'', 20)]" 50 10 0 _ "[]" "demoBackend ''api-1''",
      OF _ _ _ _ _ refl]
  by (simp add: NewIndex_def Minute_def Second_def)

end
