(* ===== verification/Collector_Server.thy ===== *)
theory Collector_Server
  imports Flow_Store Upstream_Client Dns_Cache Enricher Peer_Index "HOL-Library.Monad_Syntax"
begin

text \<open>
  The collector's ingest service (\<^verbatim>\<open>pkg/collector/server.go\<close>): the enrichment of an event from the
  Kubernetes enricher, the DNS cache and the peer index, and the loop that receives batches.

  A panic is \<^const>\<open>None\<close>. \<open>now\<close> is the clock and \<open>Listers\<close> are the informer caches while one batch is
  enriched. The field \<^verbatim>\<open>enricher\<close> has an interface type: it can be nil, or hold a nil pointer, or hold
  an enricher, and only the first compares equal to nil.
\<close>

datatype flowEnricher = NilInterface | NilPointer | Live Listers

fun isNil :: "flowEnricher \<Rightarrow> bool" where
  "isNil NilInterface = True"
| "isNil NilPointer = False"
| "isNil (Live L) = False"

text \<open>The method calls: on a nil pointer they panic at the first field access.\<close>

fun callResolveSrcWorkload :: "flowEnricher \<Rightarrow> string \<Rightarrow> string \<Rightarrow> WorkloadIdentity option" where
  "callResolveSrcWorkload NilInterface ns pod = None"
| "callResolveSrcWorkload NilPointer ns pod =
     (if ns = '''' \<or> pod = '''' then Some \<lparr>wi_namespace = ns, wi_kind = ''Pod'', wi_name = pod\<rparr> else None)"
| "callResolveSrcWorkload (Live L) ns pod = Some (ResolveSrcWorkload L ns pod)"

fun callResolveDst :: "flowEnricher \<Rightarrow> string \<Rightarrow> uint32 \<Rightarrow> DstIdentity option" where
  "callResolveDst NilInterface addr port = None"
| "callResolveDst NilPointer addr port = (if addr = '''' then Some (noIdentity addr) else None)"
| "callResolveDst (Live L) addr port = Some (ResolveDst L addr port)"

fun callLookupEndpoint :: "flowEnricher \<Rightarrow> string \<Rightarrow> uint32 \<Rightarrow> EndpointEntry option option" where
  "callLookupEndpoint NilInterface addr port = None"
| "callLookupEndpoint NilPointer addr port = (if addr = '''' \<or> port = 0 then Some None else None)"
| "callLookupEndpoint (Live L) addr port = Some (LookupEndpoint L addr port)"

definition defaultPeerIndexTTL :: duration where "defaultPeerIndexTTL = 5 * Minute"

text \<open>The part of \<^verbatim>\<open>Server\<close> that \<^verbatim>\<open>enrichEvent\<close> reads and changes, and the whole.\<close>

record Server =
  se_enricher :: flowEnricher
  se_dnsCache :: "Cache option"
  se_peerIndex :: "Index option"

record Collector =
  co_server :: Server
  co_store :: Store
  co_upstream :: "UpClient option"

definition NewServer :: "Store \<Rightarrow> Listers option \<Rightarrow> Cache option \<Rightarrow> UpClient option \<Rightarrow> Collector" where
  "NewServer st enricher dnsCache upstreamClient =
     \<lparr>co_server = \<lparr>se_enricher = (case enricher of None \<Rightarrow> NilPointer | Some L \<Rightarrow> Live L),
                   se_dnsCache = dnsCache, se_peerIndex = Some (NewIndex defaultPeerIndexTTL)\<rparr>,
      co_store = st, co_upstream = upstreamClient\<rparr>"

definition isServerObservedTCP :: "FlowEvent \<Rightarrow> Server \<Rightarrow> bool option" where
  "isServerObservedTCP event s =
     (if fe_protocol event \<noteq> PROTOCOL_TCP \<or> isNil (se_enricher s) then Some False
      else
        let srcAddr = GetAddr (fe_srcEndpoint event); srcPort = GetPort (fe_srcEndpoint event)
        in if srcAddr = '''' \<or> srcPort = 0 then Some False
           else do { entry \<leftarrow> callLookupEndpoint (se_enricher s) srcAddr srcPort; Some (entry \<noteq> None) })"

definition recordServerPeer :: "go_time \<Rightarrow> FlowEvent \<Rightarrow> WorkloadIdentity \<Rightarrow> Server \<Rightarrow> Server option" where
  "recordServerPeer now event src s =
     (case se_peerIndex s of
        None \<Rightarrow> Some s
      | Some idx \<Rightarrow>
          if isNil (se_enricher s) then Some s
          else
            let srcAddr = GetAddr (fe_srcEndpoint event); srcPort = GetPort (fe_srcEndpoint event)
            in if srcAddr = '''' \<or> srcPort = 0 then Some s
               else do {
                 entry \<leftarrow> callLookupEndpoint (se_enricher s) srcAddr srcPort;
                 (case entry of
                    None \<Rightarrow> Some s
                  | Some e \<Rightarrow>
                      let clientAddr = GetAddr (fe_dst event); clientPort = GetPort (fe_dst event)
                      in if clientAddr = '''' \<or> clientPort = 0 then Some s
                         else
                           let t = (if fe_timestampUnixNano event = 0 then now
                                    else timeUnixNano (fe_timestampUnixNano event));
                               b = \<lparr>bi_podNamespace = GetNamespace (fe_src event), bi_podName = GetPod (fe_src event),
                                    bi_workloadNamespace = wi_namespace src, bi_workloadKind = wi_kind src,
                                    bi_workloadName = wi_name src,
                                    bi_serviceNamespace = ep_serviceNamespace e, bi_serviceName = ep_serviceName e\<rparr>
                           in Some (s\<lparr>se_peerIndex := Some (Put clientAddr clientPort b t idx)\<rparr>)) })"

definition resolveClientBackend :: "go_time \<Rightarrow> FlowEvent \<Rightarrow> DstIdentity \<Rightarrow> Server \<Rightarrow>
    (BackendIdentity option \<times> Server) option" where
  "resolveClientBackend now event dst s =
     (if isNil (se_enricher s) then Some (None, s)
      else do {
        entry \<leftarrow> callLookupEndpoint (se_enricher s) (GetAddr (fe_dst event)) (GetPort (fe_dst event));
        let direct = (case entry of
             None \<Rightarrow> None
           | Some e \<Rightarrow>
               if ep_podName e \<noteq> '''' \<and> ep_serviceNamespace e = di_namespace dst \<and> ep_serviceName e = di_name dst
               then Some e else None);
        (case direct of
           Some e \<Rightarrow> do {
             workload \<leftarrow> callResolveSrcWorkload (se_enricher s) (ep_podNamespace e) (ep_podName e);
             Some (Some \<lparr>bi_podNamespace = ep_podNamespace e, bi_podName = ep_podName e,
                         bi_workloadNamespace = wi_namespace workload, bi_workloadKind = wi_kind workload,
                         bi_workloadName = wi_name workload,
                         bi_serviceNamespace = ep_serviceNamespace e, bi_serviceName = ep_serviceName e\<rparr>, s) }
         | None \<Rightarrow>
             (case se_peerIndex s of
                None \<Rightarrow> Some (None, s)
              | Some idx \<Rightarrow>
                  let clientAddr = GetAddr (fe_srcEndpoint event); clientPort = GetPort (fe_srcEndpoint event)
                  in if clientAddr = '''' \<or> clientPort = 0 then Some (None, s)
                     else
                       (case index_Lookup now clientAddr clientPort idx of
                          (found, idx') \<Rightarrow>
                            Some (case found of
                                    None \<Rightarrow> None
                                  | Some b \<Rightarrow>
                                      if MatchesService b (di_namespace dst) (di_name dst) then Some b else None,
                                  s\<lparr>se_peerIndex := Some idx'\<rparr>)))) })"

definition srcEnrichment :: "WorkloadIdentity \<Rightarrow> Enrichment" where
  "srcEnrichment src = emptyEnrichment\<lparr>en_srcNamespace := wi_namespace src, en_srcWorkloadKind := wi_kind src,
     en_srcWorkloadName := wi_name src\<rparr>"

definition withDst :: "DstIdentity \<Rightarrow> Enrichment \<Rightarrow> Enrichment" where
  "withDst dst en = en\<lparr>en_dstNamespace := di_namespace dst, en_dstKind := di_kind dst, en_dstName := di_name dst\<rparr>"

definition withBackend :: "BackendIdentity \<Rightarrow> Enrichment \<Rightarrow> Enrichment" where
  "withBackend b en = en\<lparr>en_backendWorkloadNamespace := bi_workloadNamespace b,
     en_backendWorkloadKind := bi_workloadKind b, en_backendWorkloadName := bi_workloadName b,
     en_backendPodNamespace := bi_podNamespace b, en_backendPodName := bi_podName b\<rparr>"

text \<open>The first part of \<^verbatim>\<open>enrichEvent\<close>, the DNS branch, and the TCP branch.\<close>

definition srcOf :: "FlowEvent \<Rightarrow> Server \<Rightarrow> WorkloadIdentity option" where
  "srcOf event s =
     (let srcNs = GetNamespace (fe_src event); srcPod = GetPod (fe_src event) in
      if isNil (se_enricher s) then Some \<lparr>wi_namespace = srcNs, wi_kind = ''Pod'', wi_name = srcPod\<rparr>
      else callResolveSrcWorkload (se_enricher s) srcNs srcPod)"

definition recordDns :: "go_time \<Rightarrow> FlowEvent \<Rightarrow> Server \<Rightarrow> Server" where
  "recordDns now event s =
     (case se_dnsCache s of
        None \<Rightarrow> s
      | Some c \<Rightarrow>
          if fe_eventKind event = KIND_DNS_RESPONSE
          then s\<lparr>se_dnsCache := Some (RecordResponse now (GetNamespace (fe_src event)) (GetPod (fe_src event))
                 (GetDnsName (fe_dns event)) (GetQtype (fe_dns event)) (GetRcode (fe_dns event))
                 (GetAddresses (fe_dns event)) (timeUnixNano (fe_timestampUnixNano event)) c)\<rparr>
          else s)"

definition enrichDns :: "go_time \<Rightarrow> FlowEvent \<Rightarrow> WorkloadIdentity \<Rightarrow> Server \<Rightarrow> (Enrichment \<times> Server) option" where
  "enrichDns now event src s =
     (let s1 = recordDns now event s; addr = GetAddr (fe_dst event) in
      do {
        dst \<leftarrow> (if \<not> isNil (se_enricher s1) \<and> addr \<noteq> ''''
               then callResolveDst (se_enricher s1) addr (GetPort (fe_dst event)) else Some (noIdentity addr));
        Some (withDst dst (srcEnrichment src), s1) })"

definition namedByDns :: "go_time \<Rightarrow> FlowEvent \<Rightarrow> Server \<Rightarrow> DstIdentity \<Rightarrow> DstIdentity" where
  "namedByDns now event s dst =
     (if di_kind dst \<noteq> '''' then dst
      else case se_dnsCache s of
             None \<Rightarrow> dst
           | Some c \<Rightarrow>
               (case cache_Lookup now (GetNamespace (fe_src event)) (GetPod (fe_src event)) (GetAddr (fe_dst event)) c of
                  None \<Rightarrow> dst
                | Some hostname \<Rightarrow>
                    \<lparr>di_namespace = '''', di_kind = ''ExternalHostname'', di_name = hostname,
                     di_addr = GetAddr (fe_dst event)\<rparr>))"

definition enrichTcp :: "go_time \<Rightarrow> FlowEvent \<Rightarrow> WorkloadIdentity \<Rightarrow> Server \<Rightarrow> (Enrichment \<times> Server) option" where
  "enrichTcp now event src s =
     do {
       observed \<leftarrow> isServerObservedTCP event s;
       (if observed
        then do { s1 \<leftarrow> recordServerPeer now event src s; Some (srcEnrichment src, s1) }
        else do {
          dst0 \<leftarrow> (if \<not> isNil (se_enricher s)
                  then callResolveDst (se_enricher s) (GetAddr (fe_dst event)) (GetPort (fe_dst event))
                  else Some (noIdentity (GetAddr (fe_dst event))));
          let dst = namedByDns now event s dst0;
          let en = withDst dst (srcEnrichment src);
          s1 \<leftarrow> recordServerPeer now event src s;
          (if di_kind dst = ''Service''
           then do {
             (backend, s2) \<leftarrow> resolveClientBackend now event dst s1;
             Some (case backend of None \<Rightarrow> en | Some b \<Rightarrow> withBackend b en, s2) }
           else Some (en, s1)) }) }"

definition enrichEvent :: "go_time \<Rightarrow> FlowEvent \<Rightarrow> Server \<Rightarrow> (Enrichment \<times> Server) option" where
  "enrichEvent now event s =
     do {
       src \<leftarrow> srcOf event s;
       (if fe_protocol event = PROTOCOL_DNS then enrichDns now event src s else enrichTcp now event src s) }"

section \<open>Receiving batches\<close>

datatype recv = RecvBatch go_time FlowEventBatch | RecvEOF | RecvErr

datatype push_end = PushAck int | PushInternal | PushOpen

fun PushEvents :: "recv list \<Rightarrow> int \<Rightarrow> Collector \<Rightarrow> (push_end \<times> Collector) option" where
  "PushEvents [] accTotal c = Some (PushOpen, c)"
| "PushEvents (RecvEOF # rs) accTotal c = Some (PushAck accTotal, c)"
| "PushEvents (RecvErr # rs) accTotal c = Some (PushInternal, c)"
| "PushEvents (RecvBatch now batch # rs) accTotal c =
     do {
       (accepted, rows, sv, st) \<leftarrow> AppendBatch now (Some batch) (Some (enrichEvent now)) (co_server c) (co_store c);
       PushEvents rs (accTotal + accepted)
         (c\<lparr>co_server := sv, co_store := st,
            co_upstream := (if accepted > 0 then map_option (NotifyAppended st) (co_upstream c) else co_upstream c)\<rparr>) }"

section \<open>Where enrichment can panic\<close>

definition working :: "Server \<Rightarrow> bool" where
  "working s \<longleftrightarrow> se_enricher s \<noteq> NilPointer"

lemma calls_defined:
  assumes "working s" and "\<not> isNil (se_enricher s)"
  obtains L where "se_enricher s = Live L"
  using assms by (cases "se_enricher s") (auto simp: working_def)

lemma srcOf_defined: "working s \<Longrightarrow> \<exists>src. srcOf event s = Some src"
  by (cases "se_enricher s") (auto simp: srcOf_def working_def Let_def)

lemma isServerObservedTCP_defined: "working s \<Longrightarrow> \<exists>b. isServerObservedTCP event s = Some b"
  by (cases "se_enricher s") (auto simp: isServerObservedTCP_def working_def Let_def)

lemma recordServerPeer_defined:
  "working s \<Longrightarrow> \<exists>s'. recordServerPeer now event src s = Some s' \<and> working s' \<and> se_enricher s' = se_enricher s \<and>
     se_dnsCache s' = se_dnsCache s"
  by (cases "se_enricher s")
    (auto simp: recordServerPeer_def working_def Let_def split: option.splits)

lemma resolveClientBackend_defined:
  "working s \<Longrightarrow> \<exists>b s'. resolveClientBackend now event dst s = Some (b, s') \<and> se_enricher s' = se_enricher s"
  by (cases "se_enricher s")
    (auto simp: resolveClientBackend_def working_def Let_def split: option.splits prod.splits)

lemma enrichDns_defined:
  "working s \<Longrightarrow> \<exists>en s'. enrichDns now event src s = Some (en, s') \<and> se_enricher s' = se_enricher s"
  by (cases "se_enricher s")
    (auto simp: enrichDns_def recordDns_def working_def Let_def split: option.splits)

lemma enrichTcp_defined:
  assumes "working s"
  shows "\<exists>en s'. enrichTcp now event src s = Some (en, s') \<and> se_enricher s' = se_enricher s"
proof -
  obtain b where b: "isServerObservedTCP event s = Some b" using isServerObservedTCP_defined [OF assms] by blast
  obtain s1 where s1: "recordServerPeer now event src s = Some s1" "working s1" "se_enricher s1 = se_enricher s"
    using recordServerPeer_defined [OF assms] by blast
  have "\<exists>d. (if \<not> isNil (se_enricher s)
             then callResolveDst (se_enricher s) (GetAddr (fe_dst event)) (GetPort (fe_dst event))
             else Some (noIdentity (GetAddr (fe_dst event)))) = Some d"
    using assms by (cases "se_enricher s") (auto simp: working_def)
  then obtain d where d: "(if \<not> isNil (se_enricher s)
             then callResolveDst (se_enricher s) (GetAddr (fe_dst event)) (GetPort (fe_dst event))
             else Some (noIdentity (GetAddr (fe_dst event)))) = Some d" ..
  obtain be s2 where r: "resolveClientBackend now event (namedByDns now event s d) s1 = Some (be, s2)"
    "se_enricher s2 = se_enricher s1"
    using resolveClientBackend_defined [OF s1(2)] by blast
  show ?thesis
    unfolding enrichTcp_def b s1 d using r s1(1,3) by (simp add: Let_def)
qed

lemma enrichEvent_defined:
  assumes "working s"
  shows "\<exists>en s'. enrichEvent now event s = Some (en, s') \<and> se_enricher s' = se_enricher s"
  using srcOf_defined [OF assms, of event] enrichDns_defined [OF assms, of now event]
    enrichTcp_defined [OF assms, of now event]
  by (auto simp: enrichEvent_def)

text \<open>
  Without a Kubernetes client the collector panics. \<^verbatim>\<open>NewServer\<close> stores a nil \<^verbatim>\<open>*kube.Enricher\<close> in the
  interface field, where the nil checks of \<^verbatim>\<open>enrichEvent\<close> do not see it: with \<^verbatim>\<open>-disable-kube\<close>, or when the
  client or the informers are unavailable (\<^verbatim>\<open>running without enrichment\<close>), every event with a source
  namespace and pod makes \<^verbatim>\<open>enrichEvent\<close> dereference a nil pointer, whatever the caches hold.
\<close>
theorem no_enricher_panics:
  assumes "GetNamespace (fe_src event) \<noteq> ''''" and "GetPod (fe_src event) \<noteq> ''''"
  shows "enrichEvent now event (co_server (NewServer st None dns up)) = None"
  using assms by (simp add: enrichEvent_def srcOf_def NewServer_def Let_def)

theorem no_enricher_panics_witness:
  "enrichEvent 0 (demoFlow 5) (co_server (NewServer (NewStore 5 0) None None None)) = None"
  using no_enricher_panics [of "demoFlow 5" 0 "NewStore 5 0" None None] by (simp add: demoFlow_def)

lemma enrichRows_working:
  "working c \<Longrightarrow> \<exists>rows c'. enrichRows (Some (enrichEvent now)) node agent es c = Some (rows, c') \<and> working c'"
proof (induction es arbitrary: c)
  case (Cons e es)
  show ?case
  proof (cases e)
    case None
    with Cons show ?thesis by simp
  next
    case (Some ev)
    obtain en c1 where e: "enrichEvent now ev c = Some (en, c1)" "working c1"
      using enrichEvent_defined [OF Cons.prems, of now ev] Cons.prems by (auto simp: working_def)
    from Cons.IH [OF e(2)] Cons.IH [OF Cons.prems] show ?thesis
      by (auto simp: Some runEnrich_def e(1))
  qed
qed simp

lemma AppendBatch_working:
  assumes "working c"
  shows "\<exists>rows c' s'. AppendBatch now (Some b) (Some (enrichEvent now)) c s =
    Some (int (length (acceptedEvents b)), rows, c', s') \<and> working c'"
proof -
  obtain rows c' where r: "enrichRows (Some (enrichEvent now)) (fb_nodeName b) (fb_agentId b) (fb_events b) c = Some (rows, c')"
    "working c'" using enrichRows_working [OF assms] by blast
  have "length rows = length (acceptedEvents b)"
    using enrichRows_carries [OF r(1)] by (auto simp: acceptedEvents_def)
  with r show ?thesis by (auto simp: AppendBatch_def)
qed

text \<open>
  With a Kubernetes enricher, and with a truly nil one, enrichment never panics and a stream of
  batches is consumed to its end: the acknowledgement at end of file carries the number of acceptable
  events of all batches, and a stream that fails is answered with an error.
\<close>
theorem PushEvents_acknowledges:
  assumes "working (co_server c)" and "msg = RecvEOF \<or> msg = RecvErr"
  shows "\<exists>c'. PushEvents (map (\<lambda>(t, b). RecvBatch t b) bs @ [msg]) n c =
    Some (if msg = RecvEOF then PushAck (n + (\<Sum>(t, b) \<leftarrow> bs. int (length (acceptedEvents b)))) else PushInternal, c')"
  using assms(1)
proof (induction bs arbitrary: n c)
  case Nil
  with assms(2) show ?case by auto
next
  case (Cons tb bs)
  obtain t b where tb: "tb = (t, b)" by force
  obtain rows sv st where a: "AppendBatch t (Some b) (Some (enrichEvent t)) (co_server c) (co_store c) =
      Some (int (length (acceptedEvents b)), rows, sv, st)" "working sv"
    using AppendBatch_working [OF Cons.prems] by blast
  let ?n = "int (length (acceptedEvents b))"
  let ?c = "c\<lparr>co_server := sv, co_store := st,
    co_upstream := (if ?n > 0 then map_option (NotifyAppended st) (co_upstream c) else co_upstream c)\<rparr>"
  have "working (co_server ?c)" using a(2) by simp
  from Cons.IH [OF this, of "n + ?n"] obtain c' where
    ih: "PushEvents (map (\<lambda>(t, b). RecvBatch t b) bs @ [msg]) (n + ?n) ?c =
      Some (if msg = RecvEOF then PushAck (n + ?n + (\<Sum>(t, b) \<leftarrow> bs. int (length (acceptedEvents b)))) else PushInternal, c')" ..
  have "PushEvents (map (\<lambda>(t, b). RecvBatch t b) (tb # bs) @ [msg]) n c =
      PushEvents (map (\<lambda>(t, b). RecvBatch t b) bs @ [msg]) (n + ?n) ?c"
    by (simp add: tb a(1))
  then show ?case unfolding ih by (auto simp: tb add.assoc)
qed

definition demoCollector :: Collector where
  "demoCollector = NewServer (NewStore 5 0) (Some demoListers) (Some (NewCache 0)) None"

lemma demoCollector_working: "working (co_server demoCollector)"
  by (simp add: demoCollector_def NewServer_def working_def)

theorem PushEvents_acknowledges_witness:
  "\<exists>c'. PushEvents [RecvBatch 100 (demoBatch [1, 2]), RecvEOF] 0 demoCollector = Some (PushAck 2, c')"
  using PushEvents_acknowledges [OF demoCollector_working, of RecvEOF "[(100, demoBatch [1, 2])]" 0]
  by (simp add: acceptedEvents_def demoBatch_def)

section \<open>Attribution\<close>

lemma emptyEnrichment_fields [simp]:
  "en_dstNamespace (srcEnrichment src) = ''''" "en_dstKind (srcEnrichment src) = ''''"
  "en_dstName (srcEnrichment src) = ''''" "en_backendPodNamespace (srcEnrichment src) = ''''"
  "en_backendPodName (srcEnrichment src) = ''''" "en_backendWorkloadNamespace (srcEnrichment src) = ''''"
  "en_backendWorkloadKind (srcEnrichment src) = ''''" "en_backendWorkloadName (srcEnrichment src) = ''''"
  by (simp_all add: srcEnrichment_def emptyEnrichment_def)

definition noDst :: "Enrichment \<Rightarrow> bool" where
  "noDst en \<longleftrightarrow> en_dstNamespace en = '''' \<and> en_dstKind en = '''' \<and> en_dstName en = ''''"

definition noBackend :: "Enrichment \<Rightarrow> bool" where
  "noBackend en \<longleftrightarrow> en_backendPodNamespace en = '''' \<and> en_backendPodName en = '''' \<and>
     en_backendWorkloadNamespace en = '''' \<and> en_backendWorkloadKind en = '''' \<and> en_backendWorkloadName en = ''''"

definition hasBackend :: "BackendIdentity \<Rightarrow> Enrichment \<Rightarrow> bool" where
  "hasBackend b en \<longleftrightarrow> en_backendPodNamespace en = bi_podNamespace b \<and> en_backendPodName en = bi_podName b \<and>
     en_backendWorkloadNamespace en = bi_workloadNamespace b \<and> en_backendWorkloadKind en = bi_workloadKind b \<and>
     en_backendWorkloadName en = bi_workloadName b"

lemma backend_simps [simp]:
  "noBackend (withDst d (srcEnrichment src))" "noBackend (srcEnrichment src)" "noDst (srcEnrichment src)"
  "hasBackend b (withBackend b en)"
  "en_dstKind (withDst d en) = di_kind d" "en_dstNamespace (withDst d en) = di_namespace d"
  "en_dstName (withDst d en) = di_name d"
  "en_dstKind (withBackend b en) = en_dstKind en" "en_dstNamespace (withBackend b en) = en_dstNamespace en"
  "en_dstName (withBackend b en) = en_dstName en"
  by (simp_all add: noBackend_def noDst_def hasBackend_def withDst_def withBackend_def)

lemma resolveClientBackend_matches:
  assumes "resolveClientBackend now event dst s = Some (Some b, s')"
  shows "MatchesService b (di_namespace dst) (di_name dst)"
  using assms
  by (auto simp: resolveClientBackend_def MatchesService_def Let_def bind_eq_Some_conv
      split: if_splits option.splits prod.splits)

lemma enrichTcp_unobserved:
  assumes "isServerObservedTCP event s = Some False" and "enrichTcp now event src s = Some (en, s')"
  obtains d s1 where "recordServerPeer now event src s = Some s1"
    and "di_kind d \<noteq> ''Service'' \<longrightarrow> en = withDst d (srcEnrichment src)"
    and "di_kind d = ''Service'' \<longrightarrow> (\<exists>b. resolveClientBackend now event d s1 = Some (b, s') \<and>
           en = (case b of None \<Rightarrow> withDst d (srcEnrichment src) | Some b \<Rightarrow> withBackend b (withDst d (srcEnrichment src))))"
proof -
  obtain d0 s1 where s1: "recordServerPeer now event src s = Some s1"
    and e: "(let d = namedByDns now event s d0; en = withDst d (srcEnrichment src) in
       if di_kind d = ''Service''
       then Option.bind (resolveClientBackend now event d s1)
              (\<lambda>(backend, s2). Some (case backend of None \<Rightarrow> en | Some b \<Rightarrow> withBackend b en, s2))
       else Some (en, s1)) = Some (en, s')"
    using assms unfolding enrichTcp_def by (simp add: bind_eq_Some_conv Let_def del: split_paired_Ex) blast
  show ?thesis
    by (rule that [OF s1, of "namedByDns now event s d0"])
      (use e in \<open>auto simp: Let_def bind_eq_Some_conv\<close>)
qed

text \<open>
  Events seen from the server's side carry no destination: when the source address and port of a TCP
  event are a ready endpoint of a Service, the enriched event has no destination and no backend, so
  that replies create no edges of their own.
\<close>
theorem server_observed_has_no_destination:
  assumes "isServerObservedTCP event s = Some True" and "enrichEvent now event s = Some (en, s')"
  shows "noDst en \<and> noBackend en"
proof -
  have "fe_protocol event \<noteq> PROTOCOL_DNS"
    using assms(1) by (auto simp: isServerObservedTCP_def split: if_splits)
  then show ?thesis
    using assms by (auto simp: enrichEvent_def enrichTcp_def bind_eq_Some_conv)
qed

text \<open>
  A backend is only ever attached to a flow to a Service, and it is a backend of that Service: it
  comes either from the endpoint behind the destination or from the peer index, and in both cases the
  Service recorded with it is the one the destination was attributed to.
\<close>
theorem backend_belongs_to_destination:
  assumes "enrichEvent now event s = Some (en, s')"
  shows "noBackend en \<or>
    (en_dstKind en = ''Service'' \<and> (\<exists>b. hasBackend b en \<and> MatchesService b (en_dstNamespace en) (en_dstName en)))"
proof -
  obtain src where src: "srcOf event s = Some src" using assms by (auto simp: enrichEvent_def bind_eq_Some_conv)
  show ?thesis
  proof (cases "fe_protocol event = PROTOCOL_DNS")
    case True
    with assms src show ?thesis by (auto simp: enrichEvent_def enrichDns_def Let_def bind_eq_Some_conv)
  next
    case False
    with assms src have tcp: "enrichTcp now event src s = Some (en, s')" by (simp add: enrichEvent_def)
    then obtain observed where o: "isServerObservedTCP event s = Some observed"
      by (auto simp: enrichTcp_def bind_eq_Some_conv)
    show ?thesis
    proof (cases observed)
      case True
      with tcp o show ?thesis by (auto simp: enrichTcp_def bind_eq_Some_conv)
    next
      case False
      then obtain d s1 where d: "di_kind d \<noteq> ''Service'' \<longrightarrow> en = withDst d (srcEnrichment src)"
        "di_kind d = ''Service'' \<longrightarrow> (\<exists>b. resolveClientBackend now event d s1 = Some (b, s') \<and>
           en = (case b of None \<Rightarrow> withDst d (srcEnrichment src) | Some b \<Rightarrow> withBackend b (withDst d (srcEnrichment src))))"
        using enrichTcp_unobserved [OF _ tcp] o by metis
      show ?thesis
      proof (cases "di_kind d = ''Service''")
        case True
        then obtain b where b: "resolveClientBackend now event d s1 = Some (b, s')"
          "en = (case b of None \<Rightarrow> withDst d (srcEnrichment src) | Some b \<Rightarrow> withBackend b (withDst d (srcEnrichment src)))"
          using d(2) by blast
        show ?thesis
        proof (cases b)
          case None
          with b(2) show ?thesis by simp
        next
          case (Some be)
          then have "hasBackend be en" "MatchesService be (en_dstNamespace en) (en_dstName en)" "en_dstKind en = ''Service''"
            using b resolveClientBackend_matches True by simp_all
          then show ?thesis by blast
        qed
      next
        case False
        with d(1) show ?thesis by simp
      qed
    qed
  qed
qed

definition demoTcp :: "string \<Rightarrow> string \<times> uint32 \<Rightarrow> string \<times> uint32 \<Rightarrow> int \<Rightarrow> FlowEvent" where
  "demoTcp pod src dst ts = \<lparr>fe_eventKind = KIND_CONNECT, fe_protocol = PROTOCOL_TCP, fe_timestampUnixNano = ts,
     fe_src = Some \<lparr>aw_namespace = ''shop'', aw_pod = pod, aw_container = ''''\<rparr>,
     fe_srcEndpoint = Some \<lparr>ae_addr = fst src, ae_port = snd src\<rparr>,
     fe_dst = Some \<lparr>ae_addr = fst dst, ae_port = snd dst\<rparr>, fe_bytesSent = 0, fe_bytesReceived = 0, fe_dns = None\<rparr>"

definition apiEntry :: EndpointEntry where
  "apiEntry = \<lparr>ep_serviceNamespace = ''shop'', ep_serviceName = ''api'', ep_podNamespace = ''shop'', ep_podName = ''api-1''\<rparr>"

lemma demo_answers:
  "LookupEndpoint demoListers ''10.0.0.7'' 8080 = Some apiEntry"
  "LookupEndpoint demoListers ''10.0.0.9'' 40000 = None"
  "LookupEndpoint demoListers ''10.96.0.1'' 80 = None"
  "ResolveDst demoListers ''10.96.0.1'' 80 = serviceDst (entryService apiEntry) ''10.96.0.1''"
  "ResolveSrcWorkload demoListers ''shop'' ''api-1'' = \<lparr>wi_namespace = ''shop'', wi_kind = ''Pod'', wi_name = ''api-1''\<rparr>"
  by code_simp+

lemma demoCollector_server:
  "se_enricher (co_server demoCollector) = Live demoListers"
  "se_peerIndex (co_server demoCollector) = Some (NewIndex defaultPeerIndexTTL)"
  by (simp_all add: demoCollector_def NewServer_def)

theorem server_observed_has_no_destination_witness:
  "\<exists>en s'. enrichEvent 100 (demoTcp ''api-1'' (''10.0.0.7'', 8080) (''10.0.0.9'', 40000) 50) (co_server demoCollector) = Some (en, s') \<and>
     noDst en"
proof -
  let ?e = "demoTcp ''api-1'' (''10.0.0.7'', 8080) (''10.0.0.9'', 40000) 50"
  obtain en s' where e: "enrichEvent 100 ?e (co_server demoCollector) = Some (en, s')"
    using enrichEvent_defined [OF demoCollector_working] by blast
  have "isServerObservedTCP ?e (co_server demoCollector) = Some True"
    by (simp add: isServerObservedTCP_def demoCollector_server demoTcp_def demo_answers)
  from server_observed_has_no_destination [OF this e] e show ?thesis by blast
qed

text \<open>
  C6: The two sides of a connection are joined. The server's side of a connection is seen first: its
  source is an endpoint of a Service. When, within the time to live, the client's side is enriched (its
  source is the address and port the server saw, and is no endpoint itself; its destination resolves
  to that Service but not to an endpoint, as a cluster address does), the client's flow names the
  server's pod and its workload as the backend.
\<close>
theorem connection_sides_joined:
  assumes "se_enricher s = Live L" and "se_peerIndex s = Some idx" and "0 < ix_ttl idx"
    and "fe_protocol ev1 = PROTOCOL_TCP" and "fe_srcEndpoint ev1 = Some \<lparr>ae_addr = sa, ae_port = sp\<rparr>"
    and "LookupEndpoint L sa sp = Some e" and "fe_dst ev1 = Some \<lparr>ae_addr = ca, ae_port = cp\<rparr>"
    and "ca \<noteq> ''''" and "cp \<noteq> 0" and "fe_timestampUnixNano ev1 \<noteq> 0"
    and "enrichEvent now1 ev1 s = Some (en1, s1)"
    and "fe_protocol ev2 = PROTOCOL_TCP" and "fe_srcEndpoint ev2 = Some \<lparr>ae_addr = ca, ae_port = cp\<rparr>"
    and "LookupEndpoint L ca cp = None" and "fe_dst ev2 = Some \<lparr>ae_addr = da, ae_port = dp\<rparr>"
    and "ResolveDst L da dp = serviceDst (entryService e) da" and "LookupEndpoint L da dp = None"
    and "fe_timestampUnixNano ev1 \<le> now2" and "now2 \<le> fe_timestampUnixNano ev1 + ix_ttl idx"
    and "enrichEvent now2 ev2 s1 = Some (en2, s2)"
  shows "en_dstKind en2 = ''Service'' \<and> en_dstName en2 = ep_serviceName e \<and>
    en_backendPodNamespace en2 = GetNamespace (fe_src ev1) \<and> en_backendPodName en2 = GetPod (fe_src ev1) \<and>
    en_backendWorkloadName en2 = wi_name (ResolveSrcWorkload L (GetNamespace (fe_src ev1)) (GetPod (fe_src ev1)))"
proof -
  define wl where "wl = ResolveSrcWorkload L (GetNamespace (fe_src ev1)) (GetPod (fe_src ev1))"
  define b where "b = \<lparr>bi_podNamespace = GetNamespace (fe_src ev1), bi_podName = GetPod (fe_src ev1),
    bi_workloadNamespace = wi_namespace wl, bi_workloadKind = wi_kind wl, bi_workloadName = wi_name wl,
    bi_serviceNamespace = ep_serviceNamespace e, bi_serviceName = ep_serviceName e\<rparr>"
  let ?t = "fe_timestampUnixNano ev1"
  have sa: "sa \<noteq> ''''" "sp \<noteq> 0" using assms(6) by (auto simp: LookupEndpoint_def split: if_splits)
  have s1: "s1 = s\<lparr>se_peerIndex := Some (Put ca cp b ?t idx)\<rparr>"
    using assms(11,1,2,4-10) sa
    by (simp add: enrichEvent_def enrichTcp_def srcOf_def isServerObservedTCP_def recordServerPeer_def
        b_def wl_def timeUnixNano_def Let_def)
  obtain found idx' where lk: "index_Lookup now2 ca cp (Put ca cp b ?t idx) = (found, idx')" by force
  have "found = Some b"
    using peers.find_stored [of idx "\<lparr>ky_addr = ca, ky_port = cp\<rparr>" ?t now2 b] assms(3,8,9,18,19) lk by simp
  moreover have "MatchesService b (di_namespace (serviceDst (entryService e) da)) (di_name (serviceDst (entryService e) da))"
    by (simp add: MatchesService_def serviceDst_def entryService_def b_def)
  ultimately have en2: "en2 = withBackend b (withDst (serviceDst (entryService e) da)
      (srcEnrichment (ResolveSrcWorkload L (GetNamespace (fe_src ev2)) (GetPod (fe_src ev2)))))"
    using assms(1,8,9,12-17,20) s1 lk
    by (simp add: enrichEvent_def enrichTcp_def srcOf_def isServerObservedTCP_def recordServerPeer_def
        resolveClientBackend_def namedByDns_def Let_def serviceDst_def)
  show ?thesis
    unfolding en2 by (simp add: withBackend_def withDst_def serviceDst_def entryService_def b_def wl_def)
qed

theorem connection_sides_joined_witness:
  "\<exists>en1 s1 en2 s2.
     enrichEvent 100 (demoTcp ''api-1'' (''10.0.0.7'', 8080) (''10.0.0.9'', 40000) 50) (co_server demoCollector) = Some (en1, s1) \<and>
     enrichEvent 110 (demoTcp ''web-1'' (''10.0.0.9'', 40000) (''10.96.0.1'', 80) 60) s1 = Some (en2, s2) \<and>
     en_backendPodName en2 = ''api-1''"
proof -
  let ?e1 = "demoTcp ''api-1'' (''10.0.0.7'', 8080) (''10.0.0.9'', 40000) 50"
  let ?e2 = "demoTcp ''web-1'' (''10.0.0.9'', 40000) (''10.96.0.1'', 80) 60"
  let ?s = "co_server demoCollector"
  obtain en1 s1 where e1: "enrichEvent 100 ?e1 ?s = Some (en1, s1)" "se_enricher s1 = se_enricher ?s"
    using enrichEvent_defined [OF demoCollector_working] by blast
  then have "working s1" using demoCollector_working by (simp add: working_def)
  then obtain en2 s2 where e2: "enrichEvent 110 ?e2 s1 = Some (en2, s2)" using enrichEvent_defined by blast
  have "en_backendPodName en2 = ''api-1''"
    using connection_sides_joined [OF demoCollector_server, of ?e1 "''10.0.0.7''" 8080 apiEntry "''10.0.0.9''" 40000
        100 en1 s1 ?e2 "''10.96.0.1''" 80 110 en2 s2] e1(1) e2
    by (simp add: demoTcp_def demo_answers NewIndex_def defaultPeerIndexTTL_def Minute_def Second_def)
  with e1 e2 show ?thesis by blast
qed

theorem backend_belongs_to_destination_witness:
  "\<exists>en s'. enrichEvent 110 (demoTcp ''web-1'' (''10.0.0.9'', 40000) (''10.0.0.7'', 8080) 60) (co_server demoCollector) = Some (en, s') \<and>
     (noBackend en \<or> en_dstKind en = ''Service'')"
proof -
  obtain en s' where e: "enrichEvent 110 (demoTcp ''web-1'' (''10.0.0.9'', 40000) (''10.0.0.7'', 8080) 60) (co_server demoCollector) = Some (en, s')"
    using enrichEvent_defined [OF demoCollector_working] by blast
  from backend_belongs_to_destination [OF e] e show ?thesis by blast
qed

text \<open>
  A DNS response without a timestamp is never used. \<^verbatim>\<open>RecordResponse\<close> means to replace a missing
  timestamp by the current time, but \<^verbatim>\<open>enrichEvent\<close> hands it \<^verbatim>\<open>time.Unix(0, 0)\<close>, which is not the zero
  \<^verbatim>\<open>time.Time\<close>: the answer is stored as seen in 1970, and no lookup at a time later than the cache's
  maximum age after that finds it.
\<close>
theorem dns_without_timestamp_lost:
  assumes "fe_timestampUnixNano event = 0" and "se_dnsCache s = Some c" and "cache_ok c"
    and "ca_maxAge c < now" and "cache_Lookup now ns pod ip c = None"
    and "se_dnsCache (recordDns now event s) = Some c'"
  shows "cache_Lookup now ns pod ip c' = None"
proof -
  let ?h = "TrimSuffix (TrimSpace (GetDnsName (fe_dns event))) ''.''"
  have "c' = c \<or> c' = storeResponse (GetNamespace (fe_src event)) (GetPod (fe_src event)) ?h (GetAddresses (fe_dns event)) 0 c"
    using assms(1,2,6)
    by (auto simp: recordDns_def RecordResponse_def Let_def timeUnixNano_def isZeroTime_def zeroTime_def split: if_splits)
  moreover have "0 \<le> now" "0 + ca_maxAge c < now" using assms(3,4) by (simp_all add: cache_ok_def)
  ultimately show ?thesis using storeResponse_stale [OF assms(3) _ _ assms(5)] assms(5) by auto
qed

definition demoDnsEvent :: "int \<Rightarrow> FlowEvent" where
  "demoDnsEvent ts = \<lparr>fe_eventKind = KIND_DNS_RESPONSE, fe_protocol = PROTOCOL_DNS, fe_timestampUnixNano = ts,
     fe_src = Some \<lparr>aw_namespace = ''shop'', aw_pod = ''web'', aw_container = ''''\<rparr>, fe_srcEndpoint = None,
     fe_dst = None, fe_bytesSent = 0, fe_bytesReceived = 0,
     fe_dns = Some \<lparr>ad_name = ''example.com.'', ad_qtype = ''A'', ad_rcode = ''Success'', ad_addresses = [''1.2.3.4''], ad_queryId = 7\<rparr>\<rparr>"

theorem dns_without_timestamp_lost_witness:
  "\<exists>c'. se_dnsCache (recordDns 1700000000000000000 (demoDnsEvent 0) (co_server demoCollector)) = Some c' \<and>
     cache_Lookup 1700000000000000000 ''shop'' ''web'' ''1.2.3.4'' c' = None"
proof -
  have d: "se_dnsCache (co_server demoCollector) = Some (NewCache 0)"
    by (simp add: demoCollector_def NewServer_def)
  obtain c' where c': "se_dnsCache (recordDns 1700000000000000000 (demoDnsEvent 0) (co_server demoCollector)) = Some c'"
    by (simp add: recordDns_def d demoDnsEvent_def)
  have "cache_Lookup 1700000000000000000 ''shop'' ''web'' ''1.2.3.4'' (NewCache 0) = None"
    by (simp add: cache_Lookup_def NewCache_def liveHostname_def)
  from dns_without_timestamp_lost [OF _ d NewCache_default(1) _ this c'] c' show ?thesis
    by (simp add: demoDnsEvent_def NewCache_default)
qed

end
