(* ===== verification/Debug_Http.thy ===== *)
theory Debug_Http
  imports Flow_Store
begin

text \<open>
  The debug HTTP interface of the collector (\<^verbatim>\<open>pkg/collector/http_debug.go\<close>): the query parameters and
  the answer of \<^verbatim>\<open>GET /api/v1/flows\<close>. The parsed URL is a function from parameter names to first values
  (empty when missing); \<open>marshal\<close> is protojson.
\<close>

text \<open>The value \<^verbatim>\<open>strconv.ParseInt\<close> returns; the callers ignore the error.\<close>

definition parseIntValue :: "string \<Rightarrow> int" where
  "parseIntValue s = fst (ParseInt s)"

definition parseInt64 :: "string \<Rightarrow> int" where
  "parseInt64 v = (if v = '''' then 0 else parseIntValue v)"

text \<open>\<^verbatim>\<open>strconv.Atoi\<close> agrees with \<^verbatim>\<open>ParseInt\<close> on 64-bit platforms.\<close>

definition parseInt :: "string \<Rightarrow> int" where
  "parseInt v = (if v = '''' then 0 else parseIntValue v)"

definition parseEventKind :: "string \<Rightarrow> flow_event_kind" where
  "parseEventKind v =
     (if v \<in> {''CONNECT'', ''connect'', ''1''} then KIND_CONNECT
      else if v \<in> {''TRAFFIC'', ''traffic'', ''2''} then KIND_TRAFFIC
      else if v \<in> {''DNS_QUERY'', ''dns_query'', ''3''} then KIND_DNS_QUERY
      else if v \<in> {''DNS_RESPONSE'', ''dns_response'', ''4''} then KIND_DNS_RESPONSE
      else KIND_UNSPECIFIED)"

definition flowsOpts :: "(string \<Rightarrow> string) \<Rightarrow> ListOpts" where
  "flowsOpts q =
     \<lparr>lo_since = parseInt64 (q ''since''), lo_limit = parseInt (q ''limit''), lo_offset = parseInt (q ''offset''),
      lo_namespace = q ''namespace'',
      lo_eventKind = (if q ''event_kind'' \<noteq> '''' then parseEventKind (q ''event_kind'') else KIND_UNSPECIFIED),
      lo_srcWorkloadKind = q ''src_workload_kind'', lo_dstKind = q ''dst_kind''\<rparr>"

text \<open>A panic of a handler is recovered by the HTTP server, which closes the connection.\<close>

datatype http_reply = InternalError string | FlowsReply "string list" int | HandlerPanicked

fun marshalAll :: "(EnrichedFlowEvent \<Rightarrow> string option) \<Rightarrow> EnrichedFlowEvent list \<Rightarrow> string list \<Rightarrow> string list option" where
  "marshalAll marshal [] out = Some out"
| "marshalAll marshal (e # es) out =
     (case marshal e of None \<Rightarrow> None | Some b \<Rightarrow> marshalAll marshal es (out @ [b]))"

definition handleFlows :: "(EnrichedFlowEvent \<Rightarrow> string option) \<Rightarrow> (string \<Rightarrow> string) \<Rightarrow> Store \<Rightarrow> http_reply" where
  "handleFlows marshal q st =
     (case ListEvents (flowsOpts q) st of
        None \<Rightarrow> HandlerPanicked
      | Some events \<Rightarrow>
          (case marshalAll marshal events [] of
             None \<Rightarrow> InternalError ''marshal event''
           | Some out \<Rightarrow> FlowsReply out (int (length out))))"

lemma parseIntValue_digits:
  assumes "ds \<noteq> ''''" and "list_all isDigit ds"
  shows "parseIntValue ds = min maxInt64 (int (digitsVal 0 ds))"
    and "parseIntValue (CHR ''-'' # ds) = max minInt64 (- int (digitsVal 0 ds))"
proof -
  let ?v = "digitsVal 0 ds"
  have hd: "hd ds \<noteq> CHR ''-''" "hd ds \<noteq> CHR ''+''"
    using assms by (cases ds; auto simp: isDigit_def)+
  have p: "parseUintLoop ds 0 = (if ?v < 2 ^ 64 then Inr ?v else Inl ErrRange)"
    by (rule parseUintLoop_digits [OF assms(2)]) simp
  have i: "?v < 2 ^ 63 \<longleftrightarrow> int ?v < 2 ^ 63" "?v \<le> 2 ^ 63 \<longleftrightarrow> int ?v \<le> 2 ^ 63" by simp_all
  show "parseIntValue ds = min maxInt64 (int ?v)"
    using assms(1) hd p i by (auto simp: parseIntValue_def ParseInt_def Let_def maxInt64_def)
  show "parseIntValue (CHR ''-'' # ds) = max minInt64 (- int ?v)"
    using assms(1) p i by (auto simp: parseIntValue_def ParseInt_def Let_def minInt64_def)
qed

lemma marshalAll_eq:
  "marshalAll marshal es out =
     (if \<forall>e \<in> set es. marshal e \<noteq> None then Some (out @ map (\<lambda>e. the (marshal e)) es) else None)"
  by (induction es arbitrary: out) (auto split: option.splits)

section \<open>Properties\<close>

text \<open>
  A decimal number in a query is read as itself, saturated at the largest 64-bit value, and with a
  minus sign as its negation, saturated at the smallest.
\<close>
theorem parseInt64_saturates:
  assumes "ds \<noteq> ''''" and "list_all isDigit ds"
  shows "parseInt64 ds = min maxInt64 (int (digitsVal 0 ds)) \<and>
         parseInt64 (CHR ''-'' # ds) = max minInt64 (- int (digitsVal 0 ds))"
  using parseIntValue_digits [OF assms] assms(1) by (simp add: parseInt64_def)

theorem parseInt64_saturates_witness:
  "parseInt64 ''1500'' = 1500 \<and> parseInt64 ''-99999999999999999999'' = minInt64"
  using parseInt64_saturates [of "''1500''"] parseInt64_saturates [of "''99999999999999999999''"]
  by (simp add: isDigit_def minInt64_def maxInt64_def)

text \<open>
  The flows endpoint answers with exactly the events the query selects, each marshalled, in order, and
  with their number; it fails if one of them cannot be marshalled, and then with no partial answer.
\<close>
theorem handleFlows_answer:
  assumes "ListEvents (flowsOpts q) st = Some es"
  shows "handleFlows marshal q st =
     (if list_all (\<lambda>e. marshal e \<noteq> None) es
      then FlowsReply (map (\<lambda>e. the (marshal e)) es) (int (length es))
      else InternalError ''marshal event'')"
  using assms by (simp add: handleFlows_def marshalAll_eq list_all_iff)

theorem handleFlows_answer_witness:
  "handleFlows (\<lambda>e. Some ''{}'') (\<lambda>k. '''') (NewStore 5 0\<lparr>st_events := [Some (demoRow 1), None, Some (demoRow 2)]\<rparr>) =
     FlowsReply [''{}'', ''{}''] 2"
proof -
  have "ListEvents (flowsOpts (\<lambda>k. '''')) (NewStore 5 0\<lparr>st_events := [Some (demoRow 1), None, Some (demoRow 2)]\<rparr>) =
      Some [demoRow 1, demoRow 2]"
    by (simp add: ListEvents_def flowsOpts_def parseInt64_def parseInt_def listMatches_def maxSliceCap_def Let_def)
  from handleFlows_answer [OF this] show ?thesis by simp
qed

text \<open>
  A query with a limit of twenty nines makes the handler panic on any store, because the limit it
  asks for, saturated to the largest integer, is allocated before any event is read.
\<close>
theorem huge_limit_panics:
  assumes "q ''limit'' = ''99999999999999999999''"
  shows "handleFlows marshal q st = HandlerPanicked"
proof -
  have "parseInt (q ''limit'') = maxInt64"
    using parseIntValue_digits(1) [of "''99999999999999999999''"] assms
    by (simp add: parseInt_def isDigit_def maxInt64_def)
  then show ?thesis
    by (simp add: handleFlows_def ListEvents_def flowsOpts_def maxInt64_def maxSliceCap_def)
qed

theorem huge_limit_panics_witness:
  "handleFlows (\<lambda>e. None) (\<lambda>k. if k = ''limit'' then ''99999999999999999999'' else '''') (NewStore 1 1) = HandlerPanicked"
  by (rule huge_limit_panics) simp

end
