(* ===== verification/Trust_Models.thy ===== *)
theory Trust_Models
  imports Prelude
begin

text \<open>
  The data of the image-trust plugin (\<^verbatim>\<open>image-trust/pkg/models\<close>): discovered images and their references,
  verification results, the report; and the rewriting of references to mirrored registries
  (\<^verbatim>\<open>pkg/registry/mirrors.go\<close>). \<^verbatim>\<open>Status\<close> is a string type in the source; the code uses its five
  constants and the zero value.
\<close>

datatype Status =
    StatusVerified | StatusUnsigned | StatusSignedUntrusted | StatusVerificationError | StatusUnknown | StatusNone

text \<open>\<^verbatim>\<open>VerificationMode\<close> is a string type too; the empty string means no mode.\<close>

type_synonym VerificationMode = string

definition ModeCosignKeyless :: VerificationMode where "ModeCosignKeyless = ''cosign-keyless''"
definition ModeCosignKey :: VerificationMode where "ModeCosignKey = ''cosign-key''"
definition ModeCosignAttestationKeyless :: VerificationMode where
  "ModeCosignAttestationKeyless = ''cosign-attestation-keyless''"
definition ModeCosignAttestationKey :: VerificationMode where
  "ModeCosignAttestationKey = ''cosign-attestation-key''"
definition ModePolicyAny :: string where "ModePolicyAny = ''any''"
definition ModePolicyAll :: string where "ModePolicyAll = ''all''"

lemmas mode_defs = ModeCosignKeyless_def ModeCosignKey_def ModeCosignAttestationKeyless_def
  ModeCosignAttestationKey_def ModePolicyAny_def ModePolicyAll_def

record Resource =
  re_name :: string
  re_kind :: string
  re_namespace :: string
  re_container :: string

record DiscoveredImage =
  im_name :: string
  im_id :: string
  im_pullRef :: string
  im_owners :: "Resource list"
  im_digestResolveError :: string

record SignerDetails =
  sd_issuer :: string
  sd_subject :: string
  sd_keyRef :: string

definition noSigner :: SignerDetails where
  "noSigner = \<lparr>sd_issuer = '''', sd_subject = '''', sd_keyRef = ''''\<rparr>"

record VerificationObservation =
  ob_mode :: VerificationMode
  ob_verifiedBy :: VerificationMode
  ob_status :: Status
  ob_reason :: string
  ob_attestationType :: string
  ob_signer :: SignerDetails
  ob_signers :: "SignerDetails list"

definition zeroObservation :: VerificationObservation where
  "zeroObservation = \<lparr>ob_mode = '''', ob_verifiedBy = '''', ob_status = StatusNone, ob_reason = '''',
     ob_attestationType = '''', ob_signer = noSigner, ob_signers = []\<rparr>"

record ImageTrustResult =
  rs_name :: string
  rs_id :: string
  rs_pullRef :: string
  rs_status :: Status
  rs_reason :: string
  rs_verificationMode :: string
  rs_verifiedBy :: string
  rs_attestationType :: string
  rs_allowlisted :: bool
  rs_allowlistReason :: string
  rs_owners :: "Resource list"
  rs_signer :: SignerDetails
  rs_candidateSigners :: "SignerDetails list"
  rs_digestResolveError :: string
  rs_lastCheckedAt :: go_time

record Finding =
  fi_resourceNamespace :: string
  fi_resourceKind :: string
  fi_resourceName :: string
  fi_resourceContainer :: string
  fi_title :: string
  fi_description :: string
  fi_remediation :: string
  fi_severity :: nat \<comment> \<open>in tenths: 3 for 0.3, 7 for 0.7\<close>
  fi_category :: string

record AllowlistPolicy =
  ap_images :: "string list option" \<comment> \<open>\<open>None\<close> is a nil slice, JSON \<^verbatim>\<open>null\<close>\<close>
  ap_registries :: "string list option"
  ap_signers :: "string list option"

record ReportPolicy =
  rp_allowlists :: AllowlistPolicy

record Summary =
  su_totalImages :: int
  su_verified :: int
  su_unsigned :: int
  su_signedUntrusted :: int
  su_verificationError :: int
  su_unknown :: int
  su_allowlisted :: int

record Report =
  rt_images :: "ImageTrustResult list"
  rt_summary :: Summary
  rt_policy :: ReportPolicy
  rt_findings :: "Finding list"

section \<open>References\<close>

text \<open>The position after the last \<open>/\<close>: \<^verbatim>\<open>lastColon > lastSlash\<close> with \<open>-1\<close> for a missing byte.\<close>

definition lastColonAfterSlash :: "string \<Rightarrow> nat option" where
  "lastColonAfterSlash s =
     (case LastIndexByte s (CHR '':'') of
        None \<Rightarrow> None
      | Some c \<Rightarrow>
          (case LastIndexByte s (CHR ''/'') of
             None \<Rightarrow> Some c
           | Some sl \<Rightarrow> if c > sl then Some c else None))"

definition repositoryFromReference :: "string \<Rightarrow> string" where
  "repositoryFromReference ref =
     (if ref = '''' then ''''
      else case IndexByte ref (CHR ''@'') of
             Some i \<Rightarrow> take i ref
           | None \<Rightarrow>
               (case lastColonAfterSlash ref of Some c \<Rightarrow> take c ref | None \<Rightarrow> ref))"

definition Digest :: "DiscoveredImage \<Rightarrow> string" where
  "Digest i =
     (if im_id i = '''' then ''''
      else case splitByte (CHR ''@'') (im_id i) of
             a # b # _ \<Rightarrow> b
           | _ \<Rightarrow> im_id i)"

definition UniqueKey :: "DiscoveredImage \<Rightarrow> string" where
  "UniqueKey i = (if im_id i \<noteq> '''' then im_id i else im_name i)"

definition image_VerificationReference :: "DiscoveredImage \<Rightarrow> string" where
  "image_VerificationReference i =
     (if Contains (im_id i) ''@sha256:'' then im_id i
      else
        let repo = repositoryFromReference (im_name i) in
        if HasPrefix (im_id i) ''sha256:'' \<and> repo \<noteq> '''' then repo @ ''@'' @ im_id i
        else if Contains (im_name i) ''@sha256:'' then im_name i
        else '''')"

text \<open>\<^verbatim>\<open>RemapMirror\<close>: the range over the map is the order of the list.\<close>

fun remapLoop :: "string \<Rightarrow> (string \<times> string) list \<Rightarrow> string" where
  "remapLoop ref [] = ref"
| "remapLoop ref ((mirror, upstream) # ms) =
     (if mirror = '''' \<or> upstream = '''' then remapLoop ref ms
      else if HasPrefix ref (mirror @ ''/'') then upstream @ TrimPrefix ref mirror
      else if ref = mirror then upstream
      else remapLoop ref ms)"

definition RemapMirror :: "string \<Rightarrow> (string \<times> string) list \<Rightarrow> string" where
  "RemapMirror ref mirrors = (if ref = '''' \<or> mirrors = [] then ref else remapLoop ref mirrors)"

definition creds_VerificationReference :: "(string \<times> string) list \<Rightarrow> string \<Rightarrow> string" where
  "creds_VerificationReference mirrors ref = RemapMirror ref mirrors"

section \<open>Immutable references\<close>

lemma Contains_append: "Contains t p \<Longrightarrow> Contains (s @ t) p"
  by (induction s) (cases t; simp)+

lemma Contains_prefix: "HasPrefix s p \<Longrightarrow> Contains s p"
  by (cases s) (auto simp: HasPrefix_def)

lemma VerificationReference_cases:
  "image_VerificationReference i = '''' \<or> Contains (image_VerificationReference i) ''@sha256:''"
proof -
  have "Contains (r @ ''@'' @ im_id i) ''@sha256:''" if "HasPrefix (im_id i) ''sha256:''" for r
    using that by (intro Contains_append Contains_prefix) (auto simp: HasPrefix_iff)
  then show ?thesis by (simp add: image_VerificationReference_def Let_def)
qed

end
