(* ===== verification/Trust_Verify.thy ===== *)
theory Trust_Verify
  imports Trust_Models
begin

text \<open>
  Signature verification (\<^verbatim>\<open>image-trust/pkg/verify\<close>): the classification of cosign's messages, the four
  cosign strategies, their combination under a policy, retries, and the results per image.

  What runs outside the program is an argument: \<open>'w\<close> is the state of the world, \<open>cosign\<close> runs the binary
  with its arguments and returns standard output, standard error and an error message if it failed;
  \<open>decode\<close> is the JSON decoding of cosign's output into the \<^verbatim>\<open>optional\<close> maps of its records (the string
  values), or the decoder's message. Compiled regular expressions are predicates.
\<close>

section \<open>Instances\<close>

text \<open>
  The order of \<^verbatim>\<open>mergeObservations\<close>: an untrusted signature outweighs a missing one, that an operational
  error, that an unknown state.
\<close>

fun statusRank :: "Status \<Rightarrow> nat" where
  "statusRank StatusSignedUntrusted = 0"
| "statusRank StatusUnsigned = 1"
| "statusRank StatusVerificationError = 2"
| "statusRank StatusUnknown = 3"
| "statusRank StatusVerified = 4"
| "statusRank StatusNone = 5"

lemma statusRank_inj [simp]: "statusRank a = statusRank b \<longleftrightarrow> a = b"
  by (cases a; cases b) simp_all

instantiation Status :: linorder
begin

definition less_eq_Status :: "Status \<Rightarrow> Status \<Rightarrow> bool" where
  "less_eq_Status a b \<longleftrightarrow> statusRank a \<le> statusRank b"

definition less_Status :: "Status \<Rightarrow> Status \<Rightarrow> bool" where
  "less_Status a b \<longleftrightarrow> statusRank a < statusRank b"

instance
  by standard (auto simp: less_eq_Status_def less_Status_def)

end

section \<open>Classification of messages\<close>

definition decimal :: "nat \<Rightarrow> string" where
  "decimal n = map (\<lambda>d. char_of (48 + d)) [n div 100 mod 10, n div 10 mod 10, n mod 10]"

definition containsHTTPStatus :: "string \<Rightarrow> nat \<Rightarrow> bool" where
  "containsHTTPStatus message code =
     (let codeStr = decimal code in
      Contains message ('' '' @ codeStr) \<or> Contains message ('':'' @ codeStr) \<or>
      Contains message (''status '' @ codeStr) \<or> Contains message (''status code: '' @ codeStr) \<or>
      Contains message (''http '' @ codeStr))"

definition classifyCosignFailure :: "string \<Rightarrow> Status \<times> string" where
  "classifyCosignFailure message =
     (let normalized = ToLower (TrimSpace message);
          reason0 = TrimSpace message;
          reason = (if reason0 = '''' then ''cosign verification failed'' else reason0)
      in if normalized = '''' then (StatusVerificationError, ''cosign verification failed'')
         else if Contains normalized ''no matching signatures'' \<or> Contains normalized ''no signatures found'' \<or>
                 Contains normalized ''no matching attestations'' \<or> Contains normalized ''no attestations found'' \<or>
                 (Contains normalized ''not found in transparency log'' \<and> Contains normalized ''signature'')
         then (StatusUnsigned, reason)
         else if Contains normalized ''unauthorized'' \<or> Contains normalized ''authentication required'' \<or>
                 containsHTTPStatus normalized 401 \<or> containsHTTPStatus normalized 403 \<or>
                 Contains normalized ''access denied'' \<or> Contains normalized ''denied: access forbidden'' \<or>
                 Contains normalized ''forbidden''
         then (StatusVerificationError, reason)
         else if Contains normalized ''certificate identity'' \<or> Contains normalized ''certificate oidc issuer'' \<or>
                 Contains normalized ''oidc issuer did not match'' \<or> Contains normalized ''expected identities''
         then (StatusSignedUntrusted, reason)
         else (StatusVerificationError, reason))"

definition IsTransientFailure :: "string \<Rightarrow> bool" where
  "IsTransientFailure reason =
     (let normalized = ToLower (TrimSpace reason) in
      Contains normalized ''timeout'' \<or> Contains normalized ''temporary failure'' \<or>
      Contains normalized ''connection refused'' \<or> Contains normalized ''connection reset'' \<or>
      Contains normalized ''i/o timeout'' \<or> Contains normalized ''tls handshake timeout'' \<or>
      Contains normalized ''no such host'' \<or> containsHTTPStatus normalized 429 \<or>
      containsHTTPStatus normalized 502 \<or> containsHTTPStatus normalized 503 \<or>
      containsHTTPStatus normalized 504 \<or> Contains normalized ''too many requests'' \<or>
      Contains normalized ''service unavailable'')"

fun firstNonEmpty :: "string list \<Rightarrow> string" where
  "firstNonEmpty [] = ''''"
| "firstNonEmpty (v # vs) = (if TrimSpace v \<noteq> '''' then v else firstNonEmpty vs)"

section \<open>Merging\<close>

definition signerIsEmpty :: "SignerDetails \<Rightarrow> bool" where
  "signerIsEmpty s \<longleftrightarrow> sd_issuer s = '''' \<and> sd_subject s = '''' \<and> sd_keyRef s = ''''"

definition isSignatureMode :: "VerificationMode \<Rightarrow> bool" where
  "isSignatureMode m \<longleftrightarrow> m = ModeCosignKeyless \<or> m = ModeCosignKey"

definition isAttestationMode :: "VerificationMode \<Rightarrow> bool" where
  "isAttestationMode m \<longleftrightarrow> m = ModeCosignAttestationKeyless \<or> m = ModeCosignAttestationKey"

definition signerKey :: "SignerDetails \<Rightarrow> string" where
  "signerKey s = sd_issuer s @ [CHR 0x00] @ sd_subject s @ [CHR 0x00] @ sd_keyRef s"

fun dedupeLoop :: "string list \<Rightarrow> SignerDetails list \<Rightarrow> SignerDetails list" where
  "dedupeLoop seen [] = []"
| "dedupeLoop seen (s # ss) =
     (if signerIsEmpty s then dedupeLoop seen ss
      else if signerKey s \<in> set seen then dedupeLoop seen ss
      else s # dedupeLoop (signerKey s # seen) ss)"

definition dedupeSigners :: "SignerDetails list \<Rightarrow> SignerDetails list" where
  "dedupeSigners signers = (if signers = [] then [] else dedupeLoop [] signers)"

definition stampVerifiedBy :: "VerificationObservation \<Rightarrow> VerificationObservation" where
  "stampVerifiedBy ob = (if ob_verifiedBy ob = '''' then ob\<lparr>ob_verifiedBy := ob_mode ob\<rparr> else ob)"

definition mergeVerifiedObservations :: "VerificationObservation list \<Rightarrow> VerificationObservation" where
  "mergeVerifiedObservations attempts =
     (let m0 = stampVerifiedBy (last attempts);
          m1 = fold (\<lambda>a m. if ob_attestationType a \<noteq> '''' then m\<lparr>ob_attestationType := ob_attestationType a\<rparr> else m) attempts m0;
          m2 = (case find (\<lambda>a. isSignatureMode (ob_mode a) \<and> \<not> signerIsEmpty (ob_signer a)) attempts of
                  Some a \<Rightarrow> m1\<lparr>ob_signer := ob_signer a\<rparr> | None \<Rightarrow> m1);
          m3 = (if signerIsEmpty (ob_signer m2)
                then (case find (\<lambda>a. isAttestationMode (ob_mode a) \<and> \<not> signerIsEmpty (ob_signer a)) attempts of
                        Some a \<Rightarrow> m2\<lparr>ob_signer := ob_signer a\<rparr> | None \<Rightarrow> m2)
                else m2)
      in m3\<lparr>ob_signers := dedupeSigners (concat (map ob_signers attempts)),
            ob_reason := ''all configured verification modes succeeded''\<rparr>)"

definition priority :: "Status list" where
  "priority = [StatusSignedUntrusted, StatusUnsigned, StatusVerificationError, StatusUnknown]"

fun firstByPriority :: "Status list \<Rightarrow> VerificationObservation list \<Rightarrow> VerificationObservation option" where
  "firstByPriority [] attempts = None"
| "firstByPriority (st # sts) attempts =
     (case find (\<lambda>a. ob_status a = st) attempts of
        Some a \<Rightarrow> Some a
      | None \<Rightarrow> firstByPriority sts attempts)"

definition noModesObservation :: VerificationObservation where
  "noModesObservation = zeroObservation\<lparr>ob_status := StatusVerificationError,
     ob_reason := ''no verification modes produced a result''\<rparr>"

definition mergeObservations :: "VerificationObservation list \<Rightarrow> VerificationObservation" where
  "mergeObservations attempts =
     (if attempts = [] then noModesObservation
      else case firstByPriority priority attempts of
             Some a \<Rightarrow> stampVerifiedBy a
           | None \<Rightarrow> stampVerifiedBy (hd attempts))"

section \<open>The cosign strategies\<close>

record cmd_result =
  cr_stdout :: string
  cr_stderr :: string
  cr_err :: "string option" \<comment> \<open>\<^verbatim>\<open>err.Error()\<close>\<close>

type_synonym 'w runner = "string list \<Rightarrow> 'w \<Rightarrow> cmd_result \<times> 'w"
type_synonym decoder = "string \<Rightarrow> string + (string \<rightharpoonup> string) list"

definition optionalString :: "(string \<rightharpoonup> string) \<Rightarrow> string \<Rightarrow> string" where
  "optionalString values key = getOr '''' values key"

definition extractCosignSigners :: "decoder \<Rightarrow> string \<Rightarrow> string + SignerDetails list" where
  "extractCosignSigners decode stdout =
     (if TrimSpace stdout = '''' then Inr []
      else case decode stdout of
             Inl err \<Rightarrow> Inl err
           | Inr records \<Rightarrow>
               Inr (filter (\<lambda>s. \<not> signerIsEmpty s)
                 (map (\<lambda>r. \<lparr>sd_issuer = optionalString r ''Issuer'', sd_subject = optionalString r ''Subject'',
                             sd_keyRef = firstNonEmpty [optionalString r ''keyid'', optionalString r ''KeyID'',
                               optionalString r ''KeyRef'']\<rparr>) records)))"

definition observation :: "VerificationMode \<Rightarrow> Status \<Rightarrow> string \<Rightarrow> VerificationObservation" where
  "observation mode st reason = zeroObservation\<lparr>ob_mode := mode, ob_status := st, ob_reason := reason\<rparr>"

text \<open>The handling of a failed cosign run, which the four strategies share.\<close>

definition runFailure :: "VerificationMode \<Rightarrow> cmd_result \<Rightarrow> string \<Rightarrow> VerificationObservation" where
  "runFailure mode r err =
     (if Contains err ''executable file not found''
      then observation mode StatusVerificationError ''cosign binary not available''
      else case classifyCosignFailure (firstNonEmpty [cr_stderr r, cr_stdout r, err]) of
             (st, reason) \<Rightarrow> observation mode st reason)"

definition unresolved :: "VerificationMode \<Rightarrow> VerificationObservation" where
  "unresolved mode = observation mode StatusUnknown ''image could not be resolved to an immutable digest reference''"

record trust_policy =
  tp_issuer :: "(string \<Rightarrow> bool) option" \<comment> \<open>\<^verbatim>\<open>trustedIssuerMatcher\<close>, nil if no issuer is configured\<close>
  tp_subject :: "(string \<Rightarrow> bool) option"

definition hasTrustPolicy :: "trust_policy \<Rightarrow> bool" where
  "hasTrustPolicy v \<longleftrightarrow> tp_issuer v \<noteq> None \<or> tp_subject v \<noteq> None"

definition isTrustedSigner :: "trust_policy \<Rightarrow> SignerDetails \<Rightarrow> bool" where
  "isTrustedSigner v s \<longleftrightarrow>
     (case tp_issuer v of None \<Rightarrow> True | Some m \<Rightarrow> m (sd_issuer s)) \<and>
     (case tp_subject v of None \<Rightarrow> True | Some m \<Rightarrow> m (sd_subject s))"

definition keylessArgs :: "string \<Rightarrow> string list" where
  "keylessArgs ref = [''verify'', ''--output'', ''json'', ''--certificate-identity-regexp'', ''.*'',
     ''--certificate-oidc-issuer-regexp'', ''.*'', ref]"

text \<open>\<^verbatim>\<open>CosignVerifier.Verify\<close>.\<close>

definition keyless_Verify :: "'w runner \<Rightarrow> decoder \<Rightarrow> (string \<times> string) list \<Rightarrow> trust_policy \<Rightarrow> DiscoveredImage \<Rightarrow>
    'w \<Rightarrow> VerificationObservation \<times> 'w" where
  "keyless_Verify cosign decode mirrors v img w =
     (let mode = ModeCosignKeyless;
          ref = creds_VerificationReference mirrors (image_VerificationReference img)
      in if ref = '''' then (unresolved mode, w)
         else
           case cosign (keylessArgs ref) w of
             (r, w') \<Rightarrow>
               (case cr_err r of
                  Some err \<Rightarrow> runFailure mode r err
                | None \<Rightarrow>
                    (case extractCosignSigners decode (cr_stdout r) of
                       Inl err \<Rightarrow> observation mode StatusVerificationError
                         (''cosign verification succeeded but signer data could not be parsed: '' @ err)
                     | Inr signers \<Rightarrow>
                         if \<not> hasTrustPolicy v
                         then observation mode StatusVerificationError ''trusted issuer or subject policy is not configured''
                         else
                           (case signers of
                              [] \<Rightarrow> observation mode StatusVerificationError
                                ''cosign verification succeeded but signer identity could not be determined''
                            | s0 # _ \<Rightarrow>
                                (case find (isTrustedSigner v) signers of
                                   Some s \<Rightarrow> (observation mode StatusVerified ''cosign verification succeeded'')
                                     \<lparr>ob_signer := s, ob_signers := signers\<rparr>
                                 | None \<Rightarrow> (observation mode StatusSignedUntrusted
                                     ''signature was verified but no signer matched the configured trust policy'')
                                     \<lparr>ob_signer := s0, ob_signers := signers\<rparr>))), w'))"

record TrustedPublicKey =
  tk_ref :: string
  tk_id :: string

definition isRemoteKeyRef :: "string \<Rightarrow> bool" where
  "isRemoteKeyRef ref = Contains ref ''://''"

definition ReportKeyRef :: "TrustedPublicKey \<Rightarrow> string" where
  "ReportKeyRef k = (if isRemoteKeyRef (tk_ref k) then tk_ref k else tk_id k)"

text \<open>The signer reported for a key: the key, with the identity of the first signer cosign printed.\<close>

definition keySigner :: "TrustedPublicKey \<Rightarrow> SignerDetails list \<Rightarrow> SignerDetails" where
  "keySigner key signers =
     (case signers of
        [] \<Rightarrow> noSigner\<lparr>sd_keyRef := ReportKeyRef key\<rparr>
      | s # _ \<Rightarrow> \<lparr>sd_issuer = sd_issuer s, sd_subject = sd_subject s, sd_keyRef = ReportKeyRef key\<rparr>)"

definition keyArgs :: "bool \<Rightarrow> string \<Rightarrow> string \<Rightarrow> string list" where
  "keyArgs ignoreTlog keyRef ref = [''verify'', ''--output'', ''json'', ''--key'', keyRef] @
     (if ignoreTlog then [''--insecure-ignore-tlog''] else []) @ [ref]"

definition key_verifyWithKey :: "'w runner \<Rightarrow> decoder \<Rightarrow> bool \<Rightarrow> string \<Rightarrow> TrustedPublicKey \<Rightarrow> 'w \<Rightarrow>
    VerificationObservation \<times> 'w" where
  "key_verifyWithKey cosign decode ignoreTlog ref key w =
     (case cosign (keyArgs ignoreTlog (tk_ref key) ref) w of
        (r, w') \<Rightarrow>
          (case cr_err r of
             Some err \<Rightarrow> runFailure ModeCosignKey r err
           | None \<Rightarrow>
               (case extractCosignSigners decode (cr_stdout r) of
                  Inl err \<Rightarrow> observation ModeCosignKey StatusVerificationError
                    (''cosign verification succeeded but signer data could not be parsed: '' @ err)
                | Inr signers \<Rightarrow>
                    (observation ModeCosignKey StatusVerified
                       (''cosign verification succeeded with trusted public key '' @ ReportKeyRef key))
                      \<lparr>ob_signer := keySigner key signers, ob_signers := signers\<rparr>), w'))"

text \<open>
  The loop that the three strategies with several attempts share: the first verified attempt wins,
  otherwise the attempts are merged and stamped with the strategy's mode.
\<close>

fun tryAttempts :: "VerificationMode \<Rightarrow> ('w \<Rightarrow> VerificationObservation \<times> 'w) list \<Rightarrow> VerificationObservation list \<Rightarrow>
    'w \<Rightarrow> VerificationObservation \<times> 'w" where
  "tryAttempts mode [] attempts w = ((mergeObservations attempts)\<lparr>ob_mode := mode\<rparr>, w)"
| "tryAttempts mode (f # fs) attempts w =
     (case f w of
        (ob, w') \<Rightarrow> if ob_status ob = StatusVerified then (ob, w') else tryAttempts mode fs (attempts @ [ob]) w')"

definition key_Verify :: "'w runner \<Rightarrow> decoder \<Rightarrow> (string \<times> string) list \<Rightarrow> TrustedPublicKey list \<Rightarrow> bool \<Rightarrow>
    DiscoveredImage \<Rightarrow> 'w \<Rightarrow> VerificationObservation \<times> 'w" where
  "key_Verify cosign decode mirrors keys ignoreTlog img w =
     (let ref = creds_VerificationReference mirrors (image_VerificationReference img)
      in if ref = '''' then (unresolved ModeCosignKey, w)
         else tryAttempts ModeCosignKey (map (key_verifyWithKey cosign decode ignoreTlog ref) keys) [] w)"

definition attestationArgs :: "string \<Rightarrow> string \<Rightarrow> string list" where
  "attestationArgs attestationType ref = [''verify-attestation'', ''--output'', ''json'', ''--type'', attestationType,
     ''--certificate-identity-regexp'', ''.*'', ''--certificate-oidc-issuer-regexp'', ''.*'', ref]"

definition attestation_verifyType :: "'w runner \<Rightarrow> decoder \<Rightarrow> trust_policy \<Rightarrow> string \<Rightarrow> string \<Rightarrow> 'w \<Rightarrow>
    VerificationObservation \<times> 'w" where
  "attestation_verifyType cosign decode v ref attestationType w =
     (let mode = ModeCosignAttestationKeyless in
      case cosign (attestationArgs attestationType ref) w of
        (r, w') \<Rightarrow>
          (case cr_err r of
             Some err \<Rightarrow> runFailure mode r err
           | None \<Rightarrow>
               (case extractCosignSigners decode (cr_stdout r) of
                  Inl err \<Rightarrow> observation mode StatusVerificationError
                    (''cosign attestation verification succeeded but signer data could not be parsed: '' @ err)
                | Inr [] \<Rightarrow> observation mode StatusVerificationError
                    ''cosign attestation verification succeeded but signer identity could not be determined''
                | Inr (s0 # ss) \<Rightarrow>
                    (case find (isTrustedSigner v) (s0 # ss) of
                       Some s \<Rightarrow> (observation mode StatusVerified
                           (''cosign attestation verification succeeded for type '' @ attestationType))
                         \<lparr>ob_attestationType := attestationType, ob_signer := s, ob_signers := s0 # ss\<rparr>
                     | None \<Rightarrow> (observation mode StatusSignedUntrusted
                           (''attestation type '' @ attestationType @
                            '' was verified but no signer matched the configured trust policy''))
                         \<lparr>ob_signer := s0, ob_signers := s0 # ss\<rparr>)), w'))"

definition attestation_Verify :: "'w runner \<Rightarrow> decoder \<Rightarrow> (string \<times> string) list \<Rightarrow> trust_policy \<Rightarrow> string list \<Rightarrow>
    DiscoveredImage \<Rightarrow> 'w \<Rightarrow> VerificationObservation \<times> 'w" where
  "attestation_Verify cosign decode mirrors v types img w =
     (let mode = ModeCosignAttestationKeyless;
          ref = creds_VerificationReference mirrors (image_VerificationReference img)
      in if ref = '''' then (unresolved mode, w)
         else if \<not> hasTrustPolicy v
         then (observation mode StatusVerificationError ''trusted issuer or subject policy is not configured'', w)
         else tryAttempts mode (map (attestation_verifyType cosign decode v ref) types) [] w)"

definition attestationKeyArgs :: "bool \<Rightarrow> string \<Rightarrow> string \<Rightarrow> string \<Rightarrow> string list" where
  "attestationKeyArgs ignoreTlog attestationType keyRef ref =
     [''verify-attestation'', ''--output'', ''json'', ''--type'', attestationType, ''--key'', keyRef] @
     (if ignoreTlog then [''--insecure-ignore-tlog''] else []) @ [ref]"

definition attestationKey_verifyWithKey :: "'w runner \<Rightarrow> decoder \<Rightarrow> bool \<Rightarrow> string \<Rightarrow> TrustedPublicKey \<times> string \<Rightarrow> 'w \<Rightarrow>
    VerificationObservation \<times> 'w" where
  "attestationKey_verifyWithKey cosign decode ignoreTlog ref = (\<lambda>(key, attestationType) w.
     let mode = ModeCosignAttestationKey in
     case cosign (attestationKeyArgs ignoreTlog attestationType (tk_ref key) ref) w of
       (r, w') \<Rightarrow>
         (case cr_err r of
            Some err \<Rightarrow> runFailure mode r err
          | None \<Rightarrow>
              (case extractCosignSigners decode (cr_stdout r) of
                 Inl err \<Rightarrow> observation mode StatusVerificationError
                   (''cosign attestation verification succeeded but signer data could not be parsed: '' @ err)
               | Inr signers \<Rightarrow>
                   (observation mode StatusVerified
                      (''cosign attestation verification succeeded with trusted public key '' @ ReportKeyRef key @
                       '' for type '' @ attestationType))
                     \<lparr>ob_attestationType := attestationType, ob_signer := keySigner key signers,
                      ob_signers := signers\<rparr>), w'))"

definition attestationKey_Verify :: "'w runner \<Rightarrow> decoder \<Rightarrow> (string \<times> string) list \<Rightarrow> TrustedPublicKey list \<Rightarrow>
    string list \<Rightarrow> bool \<Rightarrow> DiscoveredImage \<Rightarrow> 'w \<Rightarrow> VerificationObservation \<times> 'w" where
  "attestationKey_Verify cosign decode mirrors keys types ignoreTlog img w =
     (let mode = ModeCosignAttestationKey;
          ref = creds_VerificationReference mirrors (image_VerificationReference img)
      in if ref = '''' then (unresolved mode, w)
         else tryAttempts mode
           (map (attestationKey_verifyWithKey cosign decode ignoreTlog ref) [(k, t). k \<leftarrow> keys, t \<leftarrow> types]) [] w)"

section \<open>Composition of strategies\<close>

record 'w Verifier =
  ve_name :: VerificationMode
  ve_verify :: "DiscoveredImage \<Rightarrow> 'w \<Rightarrow> (string + VerificationObservation) \<times> 'w" \<comment> \<open>an error is its message\<close>

record 'w CompositeVerifier =
  cv_verifiers :: "'w Verifier list"
  cv_policy :: string

definition NewCompositeVerifier :: "string \<Rightarrow> 'w Verifier list \<Rightarrow> string + 'w CompositeVerifier" where
  "NewCompositeVerifier policy verifiers =
     (if verifiers = [] then Inl ''at least one verifier is required''
      else
        let policy = (if policy = '''' then ModePolicyAny else policy)
        in if policy \<noteq> ModePolicyAny \<and> policy \<noteq> ModePolicyAll then Inl ''unsupported mode policy''
           else Inr \<lparr>cv_verifiers = verifiers, cv_policy = policy\<rparr>)"

fun verifyAll :: "DiscoveredImage \<Rightarrow> 'w Verifier list \<Rightarrow> VerificationObservation list \<Rightarrow> 'w \<Rightarrow>
    (string + VerificationObservation) \<times> 'w" where
  "verifyAll img [] attempts w =
     (Inr (if attempts = [] then noModesObservation else mergeVerifiedObservations attempts), w)"
| "verifyAll img (v # vs) attempts w =
     (case ve_verify v img w of
        (Inl err, w') \<Rightarrow> (Inl (ve_name v @ '': '' @ err), w')
      | (Inr ob, w') \<Rightarrow>
          if ob_status ob \<noteq> StatusVerified then (Inr (stampVerifiedBy ob), w')
          else verifyAll img vs (attempts @ [ob]) w')"

fun verifyAny :: "DiscoveredImage \<Rightarrow> 'w Verifier list \<Rightarrow> VerificationObservation list \<Rightarrow> 'w \<Rightarrow>
    (string + VerificationObservation) \<times> 'w" where
  "verifyAny img [] attempts w =
     (let merged = mergeObservations attempts
      in (Inr (if ob_verifiedBy merged = '''' \<and> ob_mode merged = '''' \<and> attempts \<noteq> []
               then merged\<lparr>ob_mode := ob_mode (hd attempts)\<rparr> else merged), w))"
| "verifyAny img (v # vs) attempts w =
     (case ve_verify v img w of
        (Inl err, w') \<Rightarrow> (Inl (ve_name v @ '': '' @ err), w')
      | (Inr ob, w') \<Rightarrow>
          if ob_status ob = StatusVerified then (Inr (stampVerifiedBy ob), w')
          else verifyAny img vs (attempts @ [ob]) w')"

definition composite_Verify :: "'w CompositeVerifier \<Rightarrow> DiscoveredImage \<Rightarrow> 'w \<Rightarrow> (string + VerificationObservation) \<times> 'w" where
  "composite_Verify c img w =
     (if cv_policy c = ModePolicyAny then verifyAny img (cv_verifiers c) [] w
      else if cv_policy c = ModePolicyAll then verifyAll img (cv_verifiers c) [] w
      else (Inl ''unsupported mode policy'', w))"

definition asVerifier :: "'w CompositeVerifier \<Rightarrow> 'w Verifier" where
  "asVerifier c = \<lparr>ve_name = ve_name (hd (cv_verifiers c)), ve_verify = composite_Verify c\<rparr>"

section \<open>Retries and results\<close>

definition Preflight :: "(string \<times> string) list \<Rightarrow> DiscoveredImage \<Rightarrow> VerificationObservation option" where
  "Preflight mirrors img =
     (if creds_VerificationReference mirrors (image_VerificationReference img) \<noteq> '''' then None
      else if im_digestResolveError img \<noteq> ''''
      then Some (zeroObservation\<lparr>ob_status := StatusVerificationError, ob_reason := im_digestResolveError img\<rparr>)
      else Some (zeroObservation\<lparr>ob_status := StatusUnknown,
             ob_reason := ''image could not be resolved to an immutable digest reference''\<rparr>))"

text \<open>
  The loop of \<^verbatim>\<open>VerifyWithRetries\<close> with \<open>n\<close> attempts left. \<open>sleep\<close> waits for the delay (the random part of it
  is the world's) and returns the context's error if it was done first.
\<close>

fun retryLoop :: "'w Verifier \<Rightarrow> ('w \<Rightarrow> string option \<times> 'w) \<Rightarrow> DiscoveredImage \<Rightarrow> nat \<Rightarrow> VerificationObservation \<Rightarrow> 'w \<Rightarrow>
    (string + VerificationObservation) \<times> 'w" where
  "retryLoop v sleep img 0 lastOb w = (Inr lastOb, w)"
| "retryLoop v sleep img (Suc n) lastOb w =
     (case ve_verify v img w of
        (Inl err, w') \<Rightarrow> (Inl err, w')
      | (Inr ob, w') \<Rightarrow>
          if ob_status ob \<noteq> StatusVerificationError \<or> \<not> IsTransientFailure (ob_reason ob) then (Inr ob, w')
          else if n = 0 then (Inr ob, w')
          else case sleep w' of
                 (Some err, w'') \<Rightarrow> (Inl err, w'')
               | (None, w'') \<Rightarrow> retryLoop v sleep img n ob w'')"

definition VerifyWithRetries :: "'w Verifier \<Rightarrow> ('w \<Rightarrow> string option \<times> 'w) \<Rightarrow> DiscoveredImage \<Rightarrow> int \<Rightarrow> 'w \<Rightarrow>
    (string + VerificationObservation) \<times> 'w" where
  "VerifyWithRetries v sleep img retries w =
     retryLoop v sleep img (nat (if retries < 1 then 1 else retries)) zeroObservation w"

definition verificationModeFromObservation :: "VerificationObservation \<Rightarrow> string" where
  "verificationModeFromObservation ob =
     (if ob_verifiedBy ob \<noteq> '''' then ob_verifiedBy ob else if ob_mode ob \<noteq> '''' then ob_mode ob else '''')"

definition imageTrustResultFromObservation :: "DiscoveredImage \<Rightarrow> VerificationObservation \<Rightarrow> ImageTrustResult" where
  "imageTrustResultFromObservation img ob =
     \<lparr>rs_name = im_name img, rs_id = im_id img, rs_pullRef = im_pullRef img, rs_status = ob_status ob,
      rs_reason = ob_reason ob, rs_verificationMode = verificationModeFromObservation ob,
      rs_verifiedBy = (if ob_verifiedBy ob = '''' then ob_mode ob else ob_verifiedBy ob),
      rs_attestationType = ob_attestationType ob, rs_allowlisted = False, rs_allowlistReason = '''',
      rs_owners = im_owners img, rs_signer = ob_signer ob, rs_candidateSigners = ob_signers ob,
      rs_digestResolveError = im_digestResolveError img, rs_lastCheckedAt = zeroTime\<rparr>"

definition imageTrustResultFromError :: "DiscoveredImage \<Rightarrow> string \<Rightarrow> ImageTrustResult" where
  "imageTrustResultFromError img err =
     \<lparr>rs_name = im_name img, rs_id = im_id img, rs_pullRef = im_pullRef img, rs_status = StatusVerificationError,
      rs_reason = (if err = '''' then ''image trust verification failed'' else err),
      rs_verificationMode = '''', rs_verifiedBy = '''', rs_attestationType = '''', rs_allowlisted = False,
      rs_allowlistReason = '''', rs_owners = im_owners img, rs_signer = noSigner, rs_candidateSigners = [],
      rs_digestResolveError = im_digestResolveError img, rs_lastCheckedAt = zeroTime\<rparr>"

text \<open>
  The goroutine of one image. The goroutines of \<^verbatim>\<open>VerifyImages\<close> write disjoint elements of the result, so
  the result is the list of what each computes; each starts with the context's error, if any,
  and the world as it finds it.
\<close>

definition verifyImage :: "(string \<times> string) list \<Rightarrow> 'w Verifier \<Rightarrow> ('w \<Rightarrow> string option \<times> 'w) \<Rightarrow> int \<Rightarrow> string option \<Rightarrow> 'w \<Rightarrow>
    DiscoveredImage \<Rightarrow> ImageTrustResult" where
  "verifyImage mirrors v sleep retries ctxErr w img =
     (if ctxErr \<noteq> None then imageTrustResultFromError img (the ctxErr)
      else case Preflight mirrors img of
             Some ob \<Rightarrow> imageTrustResultFromObservation img ob
           | None \<Rightarrow>
               (case fst (VerifyWithRetries v sleep img retries w) of
                  Inl err \<Rightarrow> imageTrustResultFromError img err
                | Inr ob \<Rightarrow> imageTrustResultFromObservation img ob))"

definition VerifyImages :: "(string \<times> string) list \<Rightarrow> 'w Verifier \<Rightarrow> ('w \<Rightarrow> string option \<times> 'w) \<Rightarrow> int \<Rightarrow>
    (nat \<Rightarrow> string option \<times> 'w) \<Rightarrow> DiscoveredImage list \<Rightarrow> ImageTrustResult list" where
  "VerifyImages mirrors v sleep retries start images =
     map (\<lambda>(i, img). verifyImage mirrors v sleep retries (fst (start i)) (snd (start i)) img) (enumerate 0 images)"

section \<open>Merging keeps the most telling status\<close>

lemma stampVerifiedBy_fields [simp]:
  "ob_status (stampVerifiedBy ob) = ob_status ob" "ob_signer (stampVerifiedBy ob) = ob_signer ob"
  "ob_reason (stampVerifiedBy ob) = ob_reason ob" "ob_signers (stampVerifiedBy ob) = ob_signers ob"
  by (simp_all add: stampVerifiedBy_def)

lemma firstByPriority_None:
  "firstByPriority sts attempts = None \<longleftrightarrow> (\<forall>a \<in> set attempts. ob_status a \<notin> set sts)"
proof (induction sts)
  case (Cons st sts)
  show ?case
  proof (cases "find (\<lambda>a. ob_status a = st) attempts")
    case None
    moreover from this have "\<forall>a \<in> set attempts. ob_status a \<noteq> st" by (simp add: find_None_iff)
    ultimately show ?thesis using Cons by auto
  next
    case (Some b)
    then have "b \<in> set attempts" "ob_status b = st" by (auto simp: find_Some_iff)
    with Some show ?thesis by auto
  qed
qed simp

lemma firstByPriority_Some:
  "firstByPriority sts attempts = Some a \<Longrightarrow>
     a \<in> set attempts \<and> (\<exists>pre post. sts = pre @ ob_status a # post \<and> (\<forall>x \<in> set attempts. ob_status x \<notin> set pre))"
proof (induction sts)
  case (Cons st sts)
  show ?case
  proof (cases "find (\<lambda>a. ob_status a = st) attempts")
    case None
    with Cons obtain pre post where "a \<in> set attempts" "sts = pre @ ob_status a # post"
      "\<forall>x \<in> set attempts. ob_status x \<notin> set pre" by auto
    with None have "st # sts = (st # pre) @ ob_status a # post" "\<forall>x \<in> set attempts. ob_status x \<notin> set (st # pre)"
      by (auto simp: find_None_iff)
    with \<open>a \<in> set attempts\<close> show ?thesis by blast
  next
    case (Some b)
    with Cons.prems have "b = a" by simp
    with Some have "a \<in> set attempts" "ob_status a = st" by (auto simp: find_Some_iff)
    then have "st # sts = [] @ ob_status a # sts" by simp
    with \<open>a \<in> set attempts\<close> show ?thesis by (metis empty_iff list.set(1))
  qed
qed simp

lemma priority_sorted: "sorted_wrt (<) (priority @ [StatusVerified, StatusNone])"
  by (simp add: priority_def less_Status_def)

lemma status_in_priority: "st \<in> set (priority @ [StatusVerified, StatusNone])"
  by (cases st) (simp_all add: priority_def)

lemma mergeObservations_status:
  assumes "attempts \<noteq> []" and "\<forall>a \<in> set attempts. ob_status a \<noteq> StatusVerified \<and> ob_status a \<noteq> StatusNone"
  shows "ob_status (mergeObservations attempts) = Min (ob_status ` set attempts)"
proof -
  have "firstByPriority priority attempts \<noteq> None"
    using assms status_in_priority [of "ob_status (hd attempts)"]
    by (auto simp: firstByPriority_None intro!: bexI [of _ "hd attempts"])
  then obtain a where a: "firstByPriority priority attempts = Some a" by blast
  then obtain pre post where p: "a \<in> set attempts" "priority = pre @ ob_status a # post"
    "\<forall>x \<in> set attempts. ob_status x \<notin> set pre"
    using firstByPriority_Some [OF a] by blast
  have "ob_status a \<le> ob_status x" if "x \<in> set attempts" for x
  proof -
    have "ob_status x \<in> set priority" using that assms(2) status_in_priority [of "ob_status x"] by auto
    then have "ob_status x \<in> set (ob_status a # post)" using that p(3) unfolding p(2) by auto
    moreover have "sorted_wrt (<) (pre @ ob_status a # post)"
      using priority_sorted unfolding p(2) [symmetric] by (simp add: sorted_wrt_append)
    ultimately show ?thesis by (auto simp: sorted_wrt_append)
  qed
  then have "Min (ob_status ` set attempts) = ob_status a" using p(1) by (intro Min_eqI) auto
  then show ?thesis using assms(1) a by (simp add: mergeObservations_def)
qed

section \<open>Properties\<close>

text \<open>What the strategies answer when they are run one after the other.\<close>

fun answers :: "DiscoveredImage \<Rightarrow> 'w Verifier list \<Rightarrow> 'w \<Rightarrow> (string + VerificationObservation) list" where
  "answers img [] w = []"
| "answers img (v # vs) w = (case ve_verify v img w of (r, w') \<Rightarrow> r # answers img vs w')"

definition noErrors :: "(string + VerificationObservation) list \<Rightarrow> bool" where
  "noErrors rs \<longleftrightarrow> list_all (\<lambda>r. \<not> isl r) rs"

lemma verifyAny_status:
  "noErrors (answers img vs w) \<Longrightarrow> \<forall>a \<in> set attempts. ob_status a \<noteq> StatusVerified \<Longrightarrow>
   \<exists>ob w'. verifyAny img vs attempts w = (Inr ob, w') \<and>
     (if \<exists>a \<in> set (answers img vs w). ob_status (projr a) = StatusVerified then ob_status ob = StatusVerified
      else ob_status ob = ob_status (mergeObservations (attempts @ map projr (answers img vs w))))"
proof (induction vs arbitrary: attempts w)
  case Nil
  then show ?case by (simp add: Let_def)
next
  case (Cons v vs)
  obtain r w1 where r: "ve_verify v img w = (r, w1)" by force
  with Cons.prems obtain ob where ob: "r = Inr ob" by (cases r) (auto simp: noErrors_def)
  show ?case
  proof (cases "ob_status ob = StatusVerified")
    case True
    with r ob show ?thesis by auto
  next
    case False
    obtain ob' w' where ih: "verifyAny img vs (attempts @ [ob]) w1 = (Inr ob', w')"
      "if \<exists>a \<in> set (answers img vs w1). ob_status (projr a) = StatusVerified then ob_status ob' = StatusVerified
       else ob_status ob' = ob_status (mergeObservations ((attempts @ [ob]) @ map projr (answers img vs w1)))"
      using Cons.IH [of w1 "attempts @ [ob]"] Cons.prems r ob False by (auto simp: noErrors_def)
    have "verifyAny img (v # vs) attempts w = (Inr ob', w')" using r ob False ih(1) by simp
    then show ?thesis using ih(2) False by (simp add: r ob)
  qed
qed

lemma mergeVerified_status:
  "attempts \<noteq> [] \<Longrightarrow> \<forall>a \<in> set attempts. ob_status a = StatusVerified \<Longrightarrow>
     ob_status (mergeVerifiedObservations attempts) = StatusVerified"
proof -
  assume a: "attempts \<noteq> []" "\<forall>a \<in> set attempts. ob_status a = StatusVerified"
  have f: "ob_status (fold (\<lambda>a m. if ob_attestationType a \<noteq> '''' then m\<lparr>ob_attestationType := ob_attestationType a\<rparr> else m) xs m) = ob_status m"
    for xs :: "VerificationObservation list" and m
    by (induction xs arbitrary: m) auto
  have "ob_status (last attempts) = StatusVerified" using a by simp
  then show ?thesis by (simp add: mergeVerifiedObservations_def Let_def f split: option.splits)
qed

lemma verifyAll_status:
  "noErrors (answers img vs w) \<Longrightarrow> \<forall>a \<in> set attempts. ob_status a = StatusVerified \<Longrightarrow> attempts @ map projr (answers img vs w) \<noteq> [] \<Longrightarrow>
   \<exists>ob w'. verifyAll img vs attempts w = (Inr ob, w') \<and>
     (ob_status ob = StatusVerified \<longleftrightarrow> (\<forall>a \<in> set (answers img vs w). ob_status (projr a) = StatusVerified))"
proof (induction vs arbitrary: attempts w)
  case Nil
  then show ?case by (simp add: mergeVerified_status)
next
  case (Cons v vs)
  obtain r w1 where r: "ve_verify v img w = (r, w1)" by force
  with Cons.prems obtain ob where ob: "r = Inr ob" by (cases r) (auto simp: noErrors_def)
  show ?case
  proof (cases "ob_status ob = StatusVerified")
    case False
    with r ob show ?thesis by auto
  next
    case True
    with Cons.IH [of w1 "attempts @ [ob]"] Cons.prems r ob show ?thesis by (auto simp: noErrors_def)
  qed
qed

text \<open>
  C10: The two policies mean what they say. When no strategy fails with an error, under \<^verbatim>\<open>any\<close> an image is
  verified exactly if some strategy verifies it, and otherwise gets the most telling of the statuses
  (untrusted before unsigned before error before unknown); under \<^verbatim>\<open>all\<close> it is verified exactly if every
  strategy verifies it.
\<close>
theorem composite_policies:
  assumes "vs \<noteq> []" and "noErrors (answers img vs w)"
    and "\<forall>a \<in> set (answers img vs w). ob_status (projr a) \<noteq> StatusNone"
  shows "(\<exists>ob w'. composite_Verify \<lparr>cv_verifiers = vs, cv_policy = ModePolicyAny\<rparr> img w = (Inr ob, w') \<and>
            ob_status ob = (if \<exists>a \<in> set (answers img vs w). ob_status (projr a) = StatusVerified then StatusVerified
                            else Min ((\<lambda>a. ob_status (projr a)) ` set (answers img vs w)))) \<and>
         (\<exists>ob w'. composite_Verify \<lparr>cv_verifiers = vs, cv_policy = ModePolicyAll\<rparr> img w = (Inr ob, w') \<and>
            (ob_status ob = StatusVerified \<longleftrightarrow> (\<forall>a \<in> set (answers img vs w). ob_status (projr a) = StatusVerified)))"
proof -
  let ?as = "map projr (answers img vs w)"
  have ne: "?as \<noteq> []" using assms(1) by (cases vs) (auto split: prod.splits)
  obtain ob1 w1 where any: "verifyAny img vs [] w = (Inr ob1, w1)"
    "if \<exists>a \<in> set (answers img vs w). ob_status (projr a) = StatusVerified then ob_status ob1 = StatusVerified
     else ob_status ob1 = ob_status (mergeObservations ?as)"
    using verifyAny_status [OF assms(2), of "[]"] by auto
  obtain ob2 w2 where all: "verifyAll img vs [] w = (Inr ob2, w2)"
    "ob_status ob2 = StatusVerified \<longleftrightarrow> (\<forall>a \<in> set (answers img vs w). ob_status (projr a) = StatusVerified)"
    using verifyAll_status [OF assms(2), of "[]"] ne by auto
  have "ob_status (mergeObservations ?as) = Min ((\<lambda>a. ob_status (projr a)) ` set (answers img vs w))"
    if "\<not> (\<exists>a \<in> set (answers img vs w). ob_status (projr a) = StatusVerified)"
    using mergeObservations_status [OF ne] that assms(3) by (auto simp: image_image)
  with any all show ?thesis by (simp add: composite_Verify_def ModePolicyAny_def ModePolicyAll_def)
qed

definition demoVerifier :: "Status \<Rightarrow> unit Verifier" where
  "demoVerifier st = \<lparr>ve_name = ModeCosignKeyless, ve_verify = (\<lambda>img w. (Inr (observation ModeCosignKeyless st ''''), w))\<rparr>"

definition demoImage :: DiscoveredImage where
  "demoImage = \<lparr>im_name = ''ghcr.io/example/api:1.0'', im_id = ''ghcr.io/example/api@sha256:abc'', im_pullRef = '''',
     im_owners = [], im_digestResolveError = ''''\<rparr>"

theorem composite_policies_witness:
  "\<exists>ob w'. composite_Verify \<lparr>cv_verifiers = [demoVerifier StatusUnsigned, demoVerifier StatusSignedUntrusted],
       cv_policy = ModePolicyAny\<rparr> demoImage () = (Inr ob, w') \<and> ob_status ob = StatusSignedUntrusted"
proof -
  have "Min {StatusUnsigned, StatusSignedUntrusted} = StatusSignedUntrusted"
    by (intro Min_eqI) (auto simp: less_eq_Status_def)
  then show ?thesis
    using composite_policies [of "[demoVerifier StatusUnsigned, demoVerifier StatusSignedUntrusted]" demoImage "()"]
    by (auto simp: demoVerifier_def noErrors_def observation_def)
qed

lemma classify_not_verified: "fst (classifyCosignFailure m) \<noteq> StatusVerified"
  unfolding classifyCosignFailure_def Let_def
  by (simp only: fst_conv Status.distinct not_False_eq_True simp_thms split: if_split)

lemma runFailure_not_verified: "ob_status (runFailure m r err) \<noteq> StatusVerified"
  using classify_not_verified [of "firstNonEmpty [cr_stderr r, cr_stdout r, err]"]
  by (cases "classifyCosignFailure (firstNonEmpty [cr_stderr r, cr_stdout r, err])")
    (simp add: runFailure_def observation_def)

lemma keyless_verified:
  assumes "keyless_Verify cosign decode mirrors v img w = (ob, w')" and "ob_status ob = StatusVerified"
  shows "hasTrustPolicy v \<and> Contains (image_VerificationReference img) ''@sha256:'' \<and>
    (\<exists>r signers. cosign (keylessArgs (creds_VerificationReference mirrors (image_VerificationReference img))) w = (r, w') \<and>
       cr_err r = None \<and> extractCosignSigners decode (cr_stdout r) = Inr signers \<and>
       ob_signer ob \<in> set signers \<and> isTrustedSigner v (ob_signer ob))"
proof -
  let ?ref = "creds_VerificationReference mirrors (image_VerificationReference img)"
  have ref: "?ref \<noteq> ''''" using assms by (auto simp: keyless_Verify_def unresolved_def observation_def)
  then have "image_VerificationReference img \<noteq> ''''"
    by (auto simp: creds_VerificationReference_def RemapMirror_def)
  then have imm: "Contains (image_VerificationReference img) ''@sha256:''"
    using VerificationReference_cases [of img] by blast
  obtain r w1 where r: "cosign (keylessArgs ?ref) w = (r, w1)" by force
  note fail = runFailure_not_verified [of _ r]
  have err: "cr_err r = None"
    using assms r ref fail by (cases "cr_err r") (auto simp: keyless_Verify_def Let_def)
  obtain signers where s: "extractCosignSigners decode (cr_stdout r) = Inr signers"
    using assms r ref err
    by (cases "extractCosignSigners decode (cr_stdout r)") (auto simp: keyless_Verify_def Let_def observation_def)
  have k: "keyless_Verify cosign decode mirrors v img w =
      (if \<not> hasTrustPolicy v
       then observation ModeCosignKeyless StatusVerificationError ''trusted issuer or subject policy is not configured''
       else case signers of
              [] \<Rightarrow> observation ModeCosignKeyless StatusVerificationError
                ''cosign verification succeeded but signer identity could not be determined''
            | s0 # _ \<Rightarrow>
                (case find (isTrustedSigner v) signers of
                   Some s \<Rightarrow> (observation ModeCosignKeyless StatusVerified ''cosign verification succeeded'')
                     \<lparr>ob_signer := s, ob_signers := signers\<rparr>
                 | None \<Rightarrow> (observation ModeCosignKeyless StatusSignedUntrusted
                     ''signature was verified but no signer matched the configured trust policy'')
                     \<lparr>ob_signer := s0, ob_signers := signers\<rparr>), w1)"
    using ref r err s by (simp add: keyless_Verify_def Let_def)
  have w1: "w1 = w'" using assms(1) k by simp
  have pol: "hasTrustPolicy v" using assms k by (cases "hasTrustPolicy v") (auto simp: observation_def)
  obtain s0 ss where ss: "signers = s0 # ss" using assms k pol by (cases signers) (auto simp: observation_def)
  obtain sg where sg: "find (isTrustedSigner v) signers = Some sg"
    using assms k pol ss by (cases "find (isTrustedSigner v) signers") (auto simp: observation_def)
  then have "ob_signer ob = sg" using assms k pol ss by auto
  moreover have "sg \<in> set signers" "isTrustedSigner v sg" using sg by (auto simp: find_Some_iff)
  ultimately show ?thesis using pol imm r err s w1 by blast
qed

text \<open>
  C9: An image is verified keyless only by a trusted signer: the verdict \<^verbatim>\<open>verified\<close> means that a policy is
  configured, that the image has a digest-pinned reference, that cosign succeeded on the (mirror-mapped)
  reference, and that the reported signer is one that cosign printed and the policy trusts.
\<close>
theorem keyless_verified_is_trusted:
  assumes "keyless_Verify cosign decode mirrors v img w = (ob, w')" and "ob_status ob = StatusVerified"
  shows "hasTrustPolicy v \<and> Contains (image_VerificationReference img) ''@sha256:'' \<and>
    (\<exists>r signers. cosign (keylessArgs (creds_VerificationReference mirrors (image_VerificationReference img))) w = (r, w') \<and>
       cr_err r = None \<and> extractCosignSigners decode (cr_stdout r) = Inr signers \<and>
       ob_signer ob \<in> set signers \<and> isTrustedSigner v (ob_signer ob))"
  using keyless_verified [OF assms] .

definition demoPolicy :: trust_policy where
  "demoPolicy = \<lparr>tp_issuer = Some (\<lambda>s. s = ''https://issuer''), tp_subject = None\<rparr>"

definition demoCosign :: "nat runner" where
  "demoCosign args n = (\<lparr>cr_stdout = ''[...]'', cr_stderr = '''', cr_err = None\<rparr>, Suc n)"

definition demoDecode :: decoder where
  "demoDecode s = Inr [[''Issuer'' \<mapsto> ''https://other''], [''Issuer'' \<mapsto> ''https://issuer'']]"

theorem keyless_verified_is_trusted_witness:
  "\<exists>ob w'. keyless_Verify demoCosign demoDecode [] demoPolicy demoImage 0 = (ob, w') \<and> ob_status ob = StatusVerified \<and>
     isTrustedSigner demoPolicy (ob_signer ob)"
proof -
  let ?ob = "fst (keyless_Verify demoCosign demoDecode [] demoPolicy demoImage 0)"
  have "ob_status ?ob = StatusVerified" by code_simp
  moreover have run: "keyless_Verify demoCosign demoDecode [] demoPolicy demoImage 0 =
      (?ob, snd (keyless_Verify demoCosign demoDecode [] demoPolicy demoImage 0))" by simp
  ultimately have "isTrustedSigner demoPolicy (ob_signer ?ob)"
    using keyless_verified_is_trusted [OF run] by auto
  with \<open>ob_status ?ob = StatusVerified\<close> run show ?thesis by blast
qed

section \<open>Retries\<close>








end
