(* ===== verification/Trust_Config.thy ===== *)
theory Trust_Config
  imports Trust_Verify "HOL-Library.AList"
begin

text \<open>
  Configuration of the image-trust plugin (\<^verbatim>\<open>image-trust/pkg/config\<close>, \<^verbatim>\<open>pkg/sigstore\<close>) and the construction
  of its verifiers (\<^verbatim>\<open>pkg/verify/factory.go\<close> and the \<^verbatim>\<open>New\<close> functions). The environment is a function from
  names to values; the file system is a record of functions. Error messages are constructors with the
  values that the message shows.
\<close>

type_synonym environment = "string \<Rightarrow> string"

record file_io =
  io_abs :: "string \<Rightarrow> string + string"
  io_readDir :: "string \<Rightarrow> string + (string \<times> bool) list" \<comment> \<open>names, and whether they are directories\<close>
  io_stat :: "string \<Rightarrow> string + (bool \<times> int)" \<comment> \<open>directory?, size\<close>
  io_readFile :: "string \<Rightarrow> string + string"
  io_lines :: "string \<Rightarrow> string + string list" \<comment> \<open>opening and scanning by lines\<close>
  io_clean :: "string \<Rightarrow> string" \<comment> \<open>\<^verbatim>\<open>filepath.Clean\<close>\<close>
  io_dir :: "string \<Rightarrow> string" \<comment> \<open>\<^verbatim>\<open>filepath.Dir\<close> of a cleaned path\<close>
  io_decodeAuths :: "string \<Rightarrow> string + (string \<times> string \<times> string) list" \<comment> \<open>the JSON decoder: host, username, password\<close>

datatype config_error =
    NotANumber string num_error
  | OutOfRange string
  | NamespaceOverlap "string list"
  | UnsupportedMode string
  | UnsupportedModePolicy string
  | NoSignerPolicy VerificationMode
  | NoKeysConfigured VerificationMode
  | NoAttestationTypes
  | AttestationsWithoutTypes
  | AttestationsWithoutMode
  | TooManyRegexps
  | RegexpTooLong
  | KeyPath string string
  | KeyRefNotURI string
  | TooManyKeys
  | KeyDir string
  | NoKeys
  | KeyStat string string
  | KeyIsDir string
  | KeyTooLarge string
  | BadFile string string
  | BadAuths string
  | AuthWithoutHost nat
  | BadMirrorPair string
  | BadCertDirPair string
  | BadDockerConfig string

section \<open>Environment variables\<close>

definition parseCSV :: "string \<Rightarrow> string list" where
  "parseCSV raw =
     (if raw = '''' then [] else filter (\<lambda>s. s \<noteq> '''') (map TrimSpace (splitByte (CHR '','') raw)))"

definition parseCSVEnv :: "environment \<Rightarrow> string \<Rightarrow> string list" where
  "parseCSVEnv env name = parseCSV (env name)"

definition parseLowerCSVEnv :: "environment \<Rightarrow> string \<Rightarrow> string list" where
  "parseLowerCSVEnv env name = map ToLower (parseCSVEnv env name)"

fun dedupeLoopModes :: "string list \<Rightarrow> string list \<Rightarrow> string list" where
  "dedupeLoopModes seen [] = []"
| "dedupeLoopModes seen (m # ms) =
     (if m \<in> set seen then dedupeLoopModes seen ms else m # dedupeLoopModes (m # seen) ms)"

definition dedupeModes :: "string list \<Rightarrow> string list" where
  "dedupeModes modes = dedupeLoopModes [] modes"

definition modeEnabled :: "string list \<Rightarrow> string \<Rightarrow> bool" where
  "modeEnabled modes mode \<longleftrightarrow> list_ex (\<lambda>c. c = mode) modes"

definition parseBoolEnvDefault :: "environment \<Rightarrow> string \<Rightarrow> bool \<Rightarrow> bool" where
  "parseBoolEnvDefault env name dflt =
     (let raw = TrimSpace (ToLower (env name)) in
      if raw = '''' then dflt
      else if raw = ''0'' \<or> raw = ''false'' \<or> raw = ''no'' then False
      else raw = ''1'' \<or> raw = ''true'' \<or> raw = ''yes'')"

definition parseBoolEnv :: "environment \<Rightarrow> string \<Rightarrow> bool" where
  "parseBoolEnv env name = parseBoolEnvDefault env name False"

text \<open>The four numeric variables: an unset one keeps the default, a number below the minimum is refused.\<close>

definition numEnv :: "environment \<Rightarrow> string \<Rightarrow> int \<Rightarrow> int \<Rightarrow> config_error + int" where
  "numEnv env name minimum dflt =
     (if env name = '''' then Inr dflt
      else case Atoi (env name) of
             Inl e \<Rightarrow> Inl (NotANumber name e)
           | Inr v \<Rightarrow> if v < minimum then Inl (OutOfRange name) else Inr v)"

section \<open>The configuration\<close>

record Config =
  cf_namespaceAllowlist :: "string list"
  cf_namespaceBlocklist :: "string list"
  cf_modes :: "string list"
  cf_modePolicy :: string
  cf_trustedIssuers :: "string list"
  cf_trustedSubjects :: "string list"
  cf_trustedSubjectREs :: "string list"
  cf_publicKeyPaths :: "string list"
  cf_publicKeyRefs :: "string list"
  cf_publicKeyDir :: string
  cf_trustedPublicKeys :: "TrustedPublicKey list"
  cf_ignoreTlog :: bool
  cf_signerAllowlist :: "string list"
  cf_imageAllowlist :: "string list"
  cf_registryAllowlist :: "string list"
  cf_maxConcurrentScans :: int
  cf_imageVerifyTimeout :: duration
  cf_resolveDigests :: bool
  cf_registryAuthHost :: string
  cf_registryAuths :: "(string \<times> string \<times> string) list"
  cf_registryMirrors :: "(string \<times> string) list" \<comment> \<open>the entries of the map\<close>
  cf_registryCertDirs :: "(string \<times> string) list"
  cf_registryUser :: string
  cf_registryPassword :: string
  cf_registryCertDir :: string
  cf_registryDockerConfigDir :: string
  cf_attestationTypes :: "string list"
  cf_attestationsEnabled :: bool
  cf_verifyRetries :: int
  cf_verifyRetryBackoff :: duration
  cf_verifyRetryJitter :: bool
  cf_sigstoreEnvFile :: string
  cf_sigstoreEnv :: "string list"

definition wantsAttestations :: "Config \<Rightarrow> bool" where
  "wantsAttestations c \<longleftrightarrow> cf_attestationsEnabled c \<or> cf_attestationTypes c \<noteq> []"

definition shouldEnableAttestationKeyless :: "Config \<Rightarrow> bool" where
  "shouldEnableAttestationKeyless c = modeEnabled (cf_modes c) ModeCosignKeyless"

definition shouldEnableAttestationKey :: "Config \<Rightarrow> bool" where
  "shouldEnableAttestationKey c = modeEnabled (cf_modes c) ModeCosignKey"

definition ResolveVerificationModes :: "Config \<Rightarrow> Config" where
  "ResolveVerificationModes c =
     (if \<not> wantsAttestations c then c
      else
        let m0 = dedupeModes (cf_modes c);
            m1 = (if shouldEnableAttestationKeyless c \<and> \<not> modeEnabled m0 ModeCosignAttestationKeyless
                  then m0 @ [ModeCosignAttestationKeyless] else m0);
            m2 = (if shouldEnableAttestationKey c \<and> \<not> modeEnabled m1 ModeCosignAttestationKey
                  then m1 @ [ModeCosignAttestationKey] else m1)
        in c\<lparr>cf_modes := dedupeModes m2\<rparr>)"

definition supportedModes :: "string list" where
  "supportedModes = [ModeCosignKeyless, ModeCosignKey, ModeCosignAttestationKeyless, ModeCosignAttestationKey]"

definition MaxTrustedSubjectRegexpLen :: nat where "MaxTrustedSubjectRegexpLen = 512"
definition MaxTrustedSubjectRegexpCount :: nat where "MaxTrustedSubjectRegexpCount = 32"

definition namespaceOverlap :: "Config \<Rightarrow> string list" where
  "namespaceOverlap c = filter (\<lambda>ns. ns \<in> set (cf_namespaceBlocklist c)) (cf_namespaceAllowlist c)"

definition hasSignerPolicy :: "Config \<Rightarrow> bool" where
  "hasSignerPolicy c \<longleftrightarrow> cf_trustedIssuers c \<noteq> [] \<or> cf_trustedSubjects c \<noteq> [] \<or> cf_trustedSubjectREs c \<noteq> []"

definition hasKeySource :: "Config \<Rightarrow> bool" where
  "hasKeySource c \<longleftrightarrow> cf_publicKeyPaths c \<noteq> [] \<or> cf_publicKeyRefs c \<noteq> [] \<or> cf_publicKeyDir c \<noteq> ''''"

text \<open>\<^verbatim>\<open>Validate\<close>; \<open>None\<close> is no error.\<close>

definition Validate :: "Config \<Rightarrow> config_error option" where
  "Validate c =
     (let on = modeEnabled (cf_modes c) in
      if namespaceOverlap c \<noteq> [] then Some (NamespaceOverlap (namespaceOverlap c))
      else case find (\<lambda>m. m \<notin> set supportedModes) (cf_modes c) of
        Some m \<Rightarrow> Some (UnsupportedMode m)
      | None \<Rightarrow>
          if cf_modePolicy c \<noteq> ModePolicyAny \<and> cf_modePolicy c \<noteq> ModePolicyAll
          then Some (UnsupportedModePolicy (cf_modePolicy c))
          else if on ModeCosignKeyless \<and> \<not> hasSignerPolicy c then Some (NoSignerPolicy ModeCosignKeyless)
          else if on ModeCosignKey \<and> \<not> hasKeySource c then Some (NoKeysConfigured ModeCosignKey)
          else if (on ModeCosignAttestationKeyless \<or> on ModeCosignAttestationKey) \<and> cf_attestationTypes c = []
          then Some NoAttestationTypes
          else if wantsAttestations c \<and> cf_attestationTypes c = [] then Some AttestationsWithoutTypes
          else if wantsAttestations c \<and> \<not> on ModeCosignAttestationKeyless \<and> \<not> on ModeCosignAttestationKey
          then Some AttestationsWithoutMode
          else if on ModeCosignAttestationKeyless \<and> \<not> hasSignerPolicy c
          then Some (NoSignerPolicy ModeCosignAttestationKeyless)
          else if on ModeCosignAttestationKey \<and> \<not> hasKeySource c
          then Some (NoKeysConfigured ModeCosignAttestationKey)
          else if length (cf_trustedSubjectREs c) > MaxTrustedSubjectRegexpCount then Some TooManyRegexps
          else if list_ex (\<lambda>p. length p > MaxTrustedSubjectRegexpLen) (cf_trustedSubjectREs c)
          then Some RegexpTooLong
          else None)"

section \<open>Public keys\<close>

definition MaxPublicKeyFiles :: nat where "MaxPublicKeyFiles = 32"
definition MaxPublicKeyBytes :: int where "MaxPublicKeyBytes = 64 * 1024"

definition addRef :: "file_io \<Rightarrow> string \<Rightarrow> string list \<Rightarrow> config_error + string list" where
  "addRef fs raw resolved =
     (let ref = TrimSpace raw in
      if ref = '''' then Inr resolved
      else
        (case (if isRemoteKeyRef ref then Inr ref else io_abs fs ref) of
           Inl err \<Rightarrow> Inl (KeyPath ref err)
         | Inr ref' \<Rightarrow>
             if ref' \<in> set resolved then Inr resolved
             else if length resolved \<ge> MaxPublicKeyFiles then Inl TooManyKeys
             else Inr (resolved @ [ref'])))"

fun addRefs :: "file_io \<Rightarrow> string list \<Rightarrow> string list \<Rightarrow> config_error + string list" where
  "addRefs fs [] resolved = Inr resolved"
| "addRefs fs (r # rs) resolved =
     (case addRef fs r resolved of Inl e \<Rightarrow> Inl e | Inr resolved' \<Rightarrow> addRefs fs rs resolved')"

fun addRemoteRefs :: "file_io \<Rightarrow> string list \<Rightarrow> string list \<Rightarrow> config_error + string list" where
  "addRemoteRefs fs [] resolved = Inr resolved"
| "addRemoteRefs fs (raw # rs) resolved =
     (let ref = TrimSpace raw in
      if ref = '''' then addRemoteRefs fs rs resolved
      else if \<not> isRemoteKeyRef ref then Inl (KeyRefNotURI ref)
      else case addRef fs ref resolved of Inl e \<Rightarrow> Inl e | Inr resolved' \<Rightarrow> addRemoteRefs fs rs resolved')"

definition keyFilesIn :: "string \<Rightarrow> (string \<times> bool) list \<Rightarrow> string list" where
  "keyFilesIn dir entries =
     map (\<lambda>(name, _). joinPath dir name)
       (filter (\<lambda>(name, isDir). \<not> isDir \<and> (HasSuffix (ToLower name) ''.pub'' \<or> HasSuffix (ToLower name) ''.pem''))
         entries)"

definition addKeyDir :: "file_io \<Rightarrow> string \<Rightarrow> string list \<Rightarrow> config_error + string list" where
  "addKeyDir fs dir resolved =
     (if TrimSpace dir = '''' then Inr resolved
      else case io_abs fs (TrimSpace dir) of
             Inl err \<Rightarrow> Inl (KeyDir err)
           | Inr dirAbs \<Rightarrow>
               (case io_readDir fs dirAbs of
                  Inl err \<Rightarrow> Inl (KeyDir err)
                | Inr entries \<Rightarrow> addRefs fs (keyFilesIn dirAbs entries) resolved))"

definition keyID :: "string \<Rightarrow> string" where
  "keyID ref =
     (if isRemoteKeyRef ref
      then (case LastIndexByte ref (CHR ''/'') of Some i \<Rightarrow> drop (Suc i) ref | None \<Rightarrow> ref)
      else pathBase ref)"

definition checkKey :: "file_io \<Rightarrow> string \<Rightarrow> config_error option" where
  "checkKey fs ref =
     (if isRemoteKeyRef ref then None
      else case io_stat fs ref of
             Inl err \<Rightarrow> Some (KeyStat ref err)
           | Inr (isDir, bytes) \<Rightarrow>
               if isDir then Some (KeyIsDir ref)
               else if bytes > MaxPublicKeyBytes then Some (KeyTooLarge ref) else None)"

fun buildKeys :: "file_io \<Rightarrow> string list \<Rightarrow> TrustedPublicKey list \<Rightarrow> config_error + TrustedPublicKey list" where
  "buildKeys fs [] keys = Inr keys"
| "buildKeys fs (ref # refs) keys =
     (case checkKey fs ref of
        Some e \<Rightarrow> Inl e
      | None \<Rightarrow> buildKeys fs refs (keys @ [\<lparr>tk_ref = ref, tk_id = keyID ref\<rparr>]))"

definition LoadTrustedPublicKeys :: "file_io \<Rightarrow> string list \<Rightarrow> string list \<Rightarrow> string \<Rightarrow> config_error + TrustedPublicKey list" where
  "LoadTrustedPublicKeys fs paths refs dir =
     (case addRemoteRefs fs refs [] of
        Inl e \<Rightarrow> Inl e
      | Inr r1 \<Rightarrow>
          (case addRefs fs paths r1 of
             Inl e \<Rightarrow> Inl e
           | Inr r2 \<Rightarrow>
               (case addKeyDir fs dir r2 of
                  Inl e \<Rightarrow> Inl e
                | Inr r3 \<Rightarrow> if r3 = [] then Inl NoKeys else buildKeys fs r3 [])))"

section \<open>Registry and Sigstore settings\<close>

definition envValueOrFile :: "file_io \<Rightarrow> environment \<Rightarrow> string \<Rightarrow> string \<Rightarrow> config_error + string" where
  "envValueOrFile fs env envKey fileEnvKey =
     (let raw = TrimSpace (env envKey); path = TrimSpace (env fileEnvKey) in
      if path = '''' then Inr raw
      else case io_readFile fs path of Inl err \<Rightarrow> Inl (BadFile fileEnvKey err) | Inr content \<Rightarrow> Inr content)"

definition parseRegistryAuths :: "file_io \<Rightarrow> string \<Rightarrow> config_error + (string \<times> string \<times> string) list" where
  "parseRegistryAuths fs raw0 =
     (let raw = TrimSpace raw0 in
      if raw = '''' then Inr []
      else case io_decodeAuths fs raw of
             Inl err \<Rightarrow> Inl (BadAuths err)
           | Inr auths \<Rightarrow>
               (case find (\<lambda>(i, host, _). TrimSpace host = '''') (enumerate 0 auths) of
                  Some (i, _) \<Rightarrow> Inl (AuthWithoutHost i)
                | None \<Rightarrow> Inr auths))"

text \<open>The loop over \<^verbatim>\<open>key=value\<close> pairs that mirrors and certificate directories share; \<open>bad\<close> makes the error.\<close>

fun parsePairs :: "(string \<Rightarrow> config_error) \<Rightarrow> string list \<Rightarrow> (string \<times> string) list \<Rightarrow>
    config_error + (string \<times> string) list" where
  "parsePairs bad [] m = Inr m"
| "parsePairs bad (p # ps) m =
     (let pair = TrimSpace p in
      if pair = '''' then parsePairs bad ps m
      else case CutByte pair (CHR ''='') of
             None \<Rightarrow> Inl (bad pair)
           | Some (k, v) \<Rightarrow>
               if TrimSpace k = '''' \<or> TrimSpace v = '''' then Inl (bad pair)
               else parsePairs bad ps (AList.update (TrimSpace k) (TrimSpace v) m))"

definition parseRegistryMirrors :: "string \<Rightarrow> config_error + (string \<times> string) list" where
  "parseRegistryMirrors raw =
     (if TrimSpace raw = '''' then Inr [] else parsePairs BadMirrorPair (splitByte (CHR '','') (TrimSpace raw)) [])"

definition parseRegistryCertDirs :: "string \<Rightarrow> config_error + (string \<times> string) list" where
  "parseRegistryCertDirs raw =
     (if TrimSpace raw = '''' then Inr [] else parsePairs BadCertDirPair (splitByte (CHR '','') (TrimSpace raw)) [])"

definition resolveDockerConfigDir :: "file_io \<Rightarrow> string \<Rightarrow> config_error + string" where
  "resolveDockerConfigDir fs path0 =
     (let path = io_clean fs path0 in
      case io_stat fs path of
        Inl err \<Rightarrow> Inl (BadDockerConfig path)
      | Inr (isDir, _) \<Rightarrow>
          if isDir
          then (case io_stat fs (joinPath path ''config.json'') of
                  Inl err \<Rightarrow> Inl (BadDockerConfig path)
                | Inr _ \<Rightarrow> Inr path)
          else if pathBase path \<noteq> ''config.json'' then Inl (BadDockerConfig path)
          else Inr (io_dir fs path))"

record registrySettings =
  rg_auths :: "(string \<times> string \<times> string) list"
  rg_mirrors :: "(string \<times> string) list"
  rg_certDirs :: "(string \<times> string) list"
  rg_user :: string
  rg_password :: string
  rg_certDir :: string
  rg_dockerConfigDir :: string

definition loadRegistryAuths :: "file_io \<Rightarrow> environment \<Rightarrow> config_error + (string \<times> string \<times> string) list" where
  "loadRegistryAuths fs env =
     (case envValueOrFile fs env ''IMAGE_TRUST_REGISTRY_AUTHS'' ''IMAGE_TRUST_REGISTRY_AUTHS_FILE'' of
        Inl e \<Rightarrow> Inl e | Inr raw \<Rightarrow> parseRegistryAuths fs raw)"

definition loadRegistryMirrors :: "file_io \<Rightarrow> environment \<Rightarrow> config_error + (string \<times> string) list" where
  "loadRegistryMirrors fs env =
     (case envValueOrFile fs env ''IMAGE_TRUST_REGISTRY_MIRRORS'' ''IMAGE_TRUST_REGISTRY_MIRRORS_FILE'' of
        Inl e \<Rightarrow> Inl e | Inr raw \<Rightarrow> parseRegistryMirrors raw)"

definition loadRegistryCertDirs :: "file_io \<Rightarrow> environment \<Rightarrow> config_error + (string \<times> string) list" where
  "loadRegistryCertDirs fs env =
     (case envValueOrFile fs env ''IMAGE_TRUST_REGISTRY_CERT_DIRS'' ''IMAGE_TRUST_REGISTRY_CERT_DIRS_FILE'' of
        Inl e \<Rightarrow> Inl e | Inr raw \<Rightarrow> parseRegistryCertDirs raw)"

definition loadRegistryCredentials :: "file_io \<Rightarrow> environment \<Rightarrow> config_error + (string \<times> string \<times> string \<times> string)" where
  "loadRegistryCredentials fs env =
     (let username = TrimSpace (env ''REGISTRY_USER''); certDir = TrimSpace (env ''REGISTRY_CERT_DIR'');
          passwordFile = TrimSpace (env ''REGISTRY_PASSWORD_FILE'');
          dockerConfigPath = TrimSpace (env ''REGISTRY_DOCKER_CONFIG_PATH'')
      in case (if passwordFile = '''' then Inr (TrimSpace (env ''REGISTRY_PASSWORD''))
               else case io_readFile fs passwordFile of
                      Inl err \<Rightarrow> Inl (BadFile ''REGISTRY_PASSWORD_FILE'' err)
                    | Inr content \<Rightarrow> Inr (TrimSpace content)) of
           Inl e \<Rightarrow> Inl e
         | Inr password \<Rightarrow>
             if dockerConfigPath = '''' then Inr (username, password, certDir, '''')
             else case resolveDockerConfigDir fs dockerConfigPath of
                    Inl e \<Rightarrow> Inl e
                  | Inr dir \<Rightarrow> Inr (username, password, certDir, dir))"

definition loadRegistrySettings :: "file_io \<Rightarrow> environment \<Rightarrow> config_error + registrySettings" where
  "loadRegistrySettings fs env =
     (case loadRegistryAuths fs env of
        Inl e \<Rightarrow> Inl e
      | Inr auths \<Rightarrow>
          (case loadRegistryMirrors fs env of
             Inl e \<Rightarrow> Inl e
           | Inr mirrors \<Rightarrow>
               (case loadRegistryCertDirs fs env of
                  Inl e \<Rightarrow> Inl e
                | Inr certDirs \<Rightarrow>
                    (case loadRegistryCredentials fs env of
                       Inl e \<Rightarrow> Inl e
                     | Inr (user, password, certDir, dockerDir) \<Rightarrow>
                         Inr \<lparr>rg_auths = auths, rg_mirrors = mirrors, rg_certDirs = certDirs, rg_user = user,
                              rg_password = password, rg_certDir = certDir, rg_dockerConfigDir = dockerDir\<rparr>))))"

definition wellKnownEnvVars :: "string list" where
  "wellKnownEnvVars = [''SIGSTORE_ROOT_FILE'', ''COSIGN_ROOT'', ''SIGSTORE_CT_LOG_PUBLIC_KEY_FILE'', ''FULCIO_URL'',
     ''REKOR_URL'', ''TUF_ROOT'', ''SIGSTORE_FULCIO_URL'', ''SIGSTORE_REKOR_URL'', ''SIGSTORE_CT_LOG_PUBLIC_KEY_FILE'',
     ''SIGSTORE_TUF_ROOT'', ''COSIGN_EXPERIMENTAL'', ''GOOGLE_APPLICATION_CREDENTIALS'', ''AWS_REGION'',
     ''AWS_DEFAULT_REGION'', ''AWS_ROLE_ARN'', ''AWS_WEB_IDENTITY_TOKEN_FILE'', ''AZURE_CLIENT_ID'',
     ''AZURE_TENANT_ID'', ''AZURE_FEDERATED_TOKEN_FILE'']"

text \<open>\<^verbatim>\<open>appendVar\<close> on the keys seen and the pairs collected; the first value of a key wins.\<close>

definition appendVar :: "string \<times> string \<Rightarrow> string list \<times> string list \<Rightarrow> string list \<times> string list" where
  "appendVar = (\<lambda>(key, value) (seen, out).
     if value = '''' \<or> key \<in> set seen then (seen, out)
     else (key # seen, out @ [key @ ''='' @ value]))"

definition envFileVars :: "string list \<Rightarrow> (string \<times> string) list" where
  "envFileVars lns =
     map (\<lambda>(k, v). (TrimSpace k, TrimSpace v))
       (List.map_filter (\<lambda>l. let line = TrimSpace l in
          if line = '''' \<or> HasPrefix line ''#'' then None else CutByte line (CHR ''='')) lns)"

definition LoadEnv :: "file_io \<Rightarrow> string \<Rightarrow> (string \<Rightarrow> string) \<Rightarrow> string + string list" where
  "LoadEnv fs envFile vars =
     (let st = fold appendVar (map (\<lambda>k. (k, vars k)) wellKnownEnvVars) ([], []) in
      if TrimSpace envFile = '''' then Inr (snd st)
      else case io_lines fs (TrimSpace envFile) of
             Inl err \<Rightarrow> Inl err
           | Inr lns \<Rightarrow> Inr (snd (fold appendVar (envFileVars lns) st)))"

definition loadSigstoreSettings :: "file_io \<Rightarrow> environment \<Rightarrow> config_error + (string \<times> string list)" where
  "loadSigstoreSettings fs env =
     (let envFile = TrimSpace (env ''IMAGE_TRUST_SIGSTORE_ENV_FILE'');
          vars = (\<lambda>k. if k \<in> set wellKnownEnvVars then TrimSpace (env k) else '''')
      in case LoadEnv fs envFile vars of
           Inl err \<Rightarrow> Inl (BadFile envFile err)
         | Inr out \<Rightarrow> Inr (envFile, out))"

section \<open>Loading\<close>

definition baseConfig :: "environment \<Rightarrow> Config" where
  "baseConfig env =
     (let modes = parseCSVEnv env ''IMAGE_TRUST_MODES'';
          policy = ToLower (TrimSpace (env ''IMAGE_TRUST_MODE_POLICY''))
      in \<lparr>cf_namespaceAllowlist = parseLowerCSVEnv env ''IMAGE_TRUST_NAMESPACE_ALLOWLIST'',
          cf_namespaceBlocklist = parseLowerCSVEnv env ''IMAGE_TRUST_NAMESPACE_BLOCKLIST'',
          cf_modes = dedupeModes (if modes = [] then [ModeCosignKeyless] else modes),
          cf_modePolicy = (if policy = '''' then ModePolicyAny else policy),
          cf_trustedIssuers = parseCSVEnv env ''IMAGE_TRUST_TRUSTED_ISSUERS'',
          cf_trustedSubjects = parseCSVEnv env ''IMAGE_TRUST_TRUSTED_SUBJECTS'',
          cf_trustedSubjectREs = parseCSVEnv env ''IMAGE_TRUST_TRUSTED_SUBJECT_REGEXPS'',
          cf_publicKeyPaths = parseCSVEnv env ''IMAGE_TRUST_PUBLIC_KEY_PATHS'',
          cf_publicKeyRefs = parseCSVEnv env ''IMAGE_TRUST_PUBLIC_KEY_REFS'',
          cf_publicKeyDir = TrimSpace (env ''IMAGE_TRUST_PUBLIC_KEY_DIR''),
          cf_trustedPublicKeys = [],
          cf_ignoreTlog = parseBoolEnv env ''IMAGE_TRUST_IGNORE_TLOG'',
          cf_signerAllowlist = parseCSVEnv env ''IMAGE_TRUST_SIGNER_ALLOWLIST'',
          cf_imageAllowlist = parseCSVEnv env ''IMAGE_TRUST_IMAGE_ALLOWLIST'',
          cf_registryAllowlist = parseCSVEnv env ''IMAGE_TRUST_REGISTRY_ALLOWLIST'',
          cf_maxConcurrentScans = 5, cf_imageVerifyTimeout = 3 * Minute,
          cf_resolveDigests = parseBoolEnvDefault env ''IMAGE_TRUST_RESOLVE_DIGESTS'' True,
          cf_registryAuthHost = TrimSpace (env ''IMAGE_TRUST_REGISTRY_AUTH_HOST''),
          cf_registryAuths = [], cf_registryMirrors = [], cf_registryCertDirs = [], cf_registryUser = '''',
          cf_registryPassword = '''', cf_registryCertDir = '''', cf_registryDockerConfigDir = '''',
          cf_attestationTypes = parseCSVEnv env ''IMAGE_TRUST_ATTESTATION_TYPES'',
          cf_attestationsEnabled = parseBoolEnv env ''IMAGE_TRUST_ATTESTATIONS_ENABLED'',
          cf_verifyRetries = 3, cf_verifyRetryBackoff = 2 * Second,
          cf_verifyRetryJitter = parseBoolEnvDefault env ''IMAGE_TRUST_VERIFY_RETRY_JITTER'' True,
          cf_sigstoreEnvFile = '''', cf_sigstoreEnv = []\<rparr>)"

text \<open>The numbers, in the order in which the code reads them; a duration of seconds is computed on 64 bits.\<close>

definition withNumbers :: "environment \<Rightarrow> Config \<Rightarrow> config_error + Config" where
  "withNumbers env c =
     (case numEnv env ''MAX_CONCURRENT_SCANS'' 1 (cf_maxConcurrentScans c) of
        Inl e \<Rightarrow> Inl e
      | Inr scans \<Rightarrow>
          (case numEnv env ''IMAGE_VERIFY_TIMEOUT_SECONDS'' 1 180 of
             Inl e \<Rightarrow> Inl e
           | Inr timeout \<Rightarrow>
               (case numEnv env ''IMAGE_TRUST_VERIFY_RETRIES'' 1 (cf_verifyRetries c) of
                  Inl e \<Rightarrow> Inl e
                | Inr retries \<Rightarrow>
                    (case numEnv env ''IMAGE_TRUST_VERIFY_RETRY_BACKOFF_SECONDS'' 0 2 of
                       Inl e \<Rightarrow> Inl e
                     | Inr backoff \<Rightarrow>
                         Inr (c\<lparr>cf_maxConcurrentScans := scans, cf_imageVerifyTimeout := wrap64 (timeout * Second),
                                cf_verifyRetries := retries, cf_verifyRetryBackoff := wrap64 (backoff * Second)\<rparr>)))))"

definition withRegistry :: "registrySettings \<Rightarrow> Config \<Rightarrow> Config" where
  "withRegistry r c = c\<lparr>cf_registryAuths := rg_auths r, cf_registryMirrors := rg_mirrors r,
     cf_registryCertDirs := rg_certDirs r, cf_registryUser := rg_user r, cf_registryPassword := rg_password r,
     cf_registryCertDir := rg_certDir r, cf_registryDockerConfigDir := rg_dockerConfigDir r\<rparr>"

text \<open>The end of \<^verbatim>\<open>LoadFromEnvironment\<close>: validation, and the keys for the mode \<^verbatim>\<open>cosign-key\<close>.\<close>

definition validateAndLoadKeys :: "file_io \<Rightarrow> Config \<Rightarrow> config_error + Config" where
  "validateAndLoadKeys fs c =
     (case Validate c of
        Some e \<Rightarrow> Inl e
      | None \<Rightarrow>
          if \<not> modeEnabled (cf_modes c) ModeCosignKey then Inr c
          else case LoadTrustedPublicKeys fs (cf_publicKeyPaths c) (cf_publicKeyRefs c) (cf_publicKeyDir c) of
                 Inl e \<Rightarrow> Inl e
               | Inr keys \<Rightarrow> Inr (c\<lparr>cf_trustedPublicKeys := keys\<rparr>))"

definition LoadFromEnvironment :: "file_io \<Rightarrow> environment \<Rightarrow> config_error + Config" where
  "LoadFromEnvironment fs env =
     (case withNumbers env (baseConfig env) of
        Inl e \<Rightarrow> Inl e
      | Inr c0 \<Rightarrow>
          let c1 = ResolveVerificationModes c0 in
          (case loadRegistrySettings fs env of
             Inl e \<Rightarrow> Inl e
           | Inr r \<Rightarrow>
               let c2 = withRegistry r c1 in
               (case loadSigstoreSettings fs env of
                  Inl e \<Rightarrow> Inl e
                | Inr (envFile, sigEnv) \<Rightarrow>
                    validateAndLoadKeys fs (c2\<lparr>cf_sigstoreEnvFile := envFile, cf_sigstoreEnv := sigEnv\<rparr>))))"

section \<open>Construction of the verifiers\<close>

text \<open>\<^verbatim>\<open>regexp.Compile\<close> is the argument \<open>compile\<close>: a message, or the matcher of the expression.\<close>

type_synonym regexp_compile = "string \<Rightarrow> string + (string \<Rightarrow> bool)"

definition QuoteMeta :: "string \<Rightarrow> string" where
  "QuoteMeta s = concat (map (\<lambda>c. if c \<in> set (CHR 0x5C # ''.+*?()|[]{}^$'') then [CHR 0x5C, c] else [c]) s)"

fun joinWith :: "string \<Rightarrow> string list \<Rightarrow> string" where
  "joinWith sep [] = ''''"
| "joinWith sep [s] = s"
| "joinWith sep (s # ss) = s @ sep @ joinWith sep ss"

definition exactPatterns :: "string list \<Rightarrow> string list" where
  "exactPatterns exacts = map (\<lambda>e. ''^'' @ QuoteMeta e @ ''$'') (filter (\<lambda>e. TrimSpace e \<noteq> '''') exacts)"

definition buildAlternationRegex :: "regexp_compile \<Rightarrow> string list \<Rightarrow> string list \<Rightarrow> string + string" where
  "buildAlternationRegex compile exacts regexes =
     (let rs = filter (\<lambda>p. TrimSpace p \<noteq> '''') regexes in
      case find (\<lambda>p. isl (compile p)) rs of
        Some p \<Rightarrow> Inl (projl (compile p))
      | None \<Rightarrow> Inr (joinWith ''|'' (exactPatterns exacts @ map (\<lambda>p. ''(?:'' @ p @ '')'') rs)))"

definition compileOptional :: "regexp_compile \<Rightarrow> string \<Rightarrow> string \<Rightarrow> string + (string \<Rightarrow> bool) option" where
  "compileOptional compile what re =
     (if re = '''' then Inr None
      else case compile re of
             Inl err \<Rightarrow> Inl (''compiling '' @ what @ '' regex: '' @ err)
           | Inr m \<Rightarrow> Inr (Some m))"

text \<open>The part of \<^verbatim>\<open>NewCosignVerifier\<close> and \<^verbatim>\<open>NewCosignAttestationVerifier\<close> that builds the two matchers.\<close>

definition newTrustPolicy :: "regexp_compile \<Rightarrow> string list \<Rightarrow> string list \<Rightarrow> string list \<Rightarrow> string + trust_policy" where
  "newTrustPolicy compile issuers subjects subjectREs =
     (case buildAlternationRegex compile issuers [] of
        Inl err \<Rightarrow> Inl (''building issuer regex: '' @ err)
      | Inr issuerRE \<Rightarrow>
          (case buildAlternationRegex compile subjects subjectREs of
             Inl err \<Rightarrow> Inl (''building subject regex: '' @ err)
           | Inr subjectRE \<Rightarrow>
               (case compileOptional compile ''issuer'' issuerRE of
                  Inl err \<Rightarrow> Inl err
                | Inr im \<Rightarrow>
                    (case compileOptional compile ''subject'' subjectRE of
                       Inl err \<Rightarrow> Inl err
                     | Inr sm \<Rightarrow> Inr \<lparr>tp_issuer = im, tp_subject = sm\<rparr>))))"

record 'w outside =
  ou_compile :: regexp_compile
  ou_cosign :: "'w runner"
  ou_decode :: decoder

definition NewCosignVerifier :: "'w outside \<Rightarrow> (string \<times> string) list \<Rightarrow> string list \<Rightarrow> string list \<Rightarrow> string list \<Rightarrow>
    string + 'w Verifier" where
  "NewCosignVerifier ou mirrors issuers subjects subjectREs =
     (case newTrustPolicy (ou_compile ou) issuers subjects subjectREs of
        Inl err \<Rightarrow> Inl err
      | Inr p \<Rightarrow> Inr \<lparr>ve_name = ModeCosignKeyless,
          ve_verify = (\<lambda>img w. case keyless_Verify (ou_cosign ou) (ou_decode ou) mirrors p img w of (ob, w') \<Rightarrow> (Inr ob, w'))\<rparr>)"

definition NewCosignKeyVerifier :: "'w outside \<Rightarrow> (string \<times> string) list \<Rightarrow> TrustedPublicKey list \<Rightarrow> bool \<Rightarrow>
    string + 'w Verifier" where
  "NewCosignKeyVerifier ou mirrors keys ignoreTlog =
     (if keys = [] then Inl ''at least one trusted public key is required''
      else Inr \<lparr>ve_name = ModeCosignKey,
          ve_verify = (\<lambda>img w. case key_Verify (ou_cosign ou) (ou_decode ou) mirrors keys ignoreTlog img w of
                                 (ob, w') \<Rightarrow> (Inr ob, w'))\<rparr>)"

definition NewCosignAttestationVerifier :: "'w outside \<Rightarrow> (string \<times> string) list \<Rightarrow> string list \<Rightarrow> string list \<Rightarrow>
    string list \<Rightarrow> string list \<Rightarrow> string + 'w Verifier" where
  "NewCosignAttestationVerifier ou mirrors types issuers subjects subjectREs =
     (if types = [] then Inl ''at least one attestation type is required''
      else case newTrustPolicy (ou_compile ou) issuers subjects subjectREs of
             Inl err \<Rightarrow> Inl err
           | Inr p \<Rightarrow> Inr \<lparr>ve_name = ModeCosignAttestationKeyless,
               ve_verify = (\<lambda>img w. case attestation_Verify (ou_cosign ou) (ou_decode ou) mirrors p types img w of
                                      (ob, w') \<Rightarrow> (Inr ob, w'))\<rparr>)"

definition NewCosignAttestationKeyVerifier :: "'w outside \<Rightarrow> (string \<times> string) list \<Rightarrow> TrustedPublicKey list \<Rightarrow>
    string list \<Rightarrow> bool \<Rightarrow> string + 'w Verifier" where
  "NewCosignAttestationKeyVerifier ou mirrors keys types ignoreTlog =
     (if keys = [] then Inl ''at least one trusted public key is required''
      else if types = [] then Inl ''at least one attestation type is required''
      else Inr \<lparr>ve_name = ModeCosignAttestationKey,
          ve_verify = (\<lambda>img w. case attestationKey_Verify (ou_cosign ou) (ou_decode ou) mirrors keys types ignoreTlog img w of
                                 (ob, w') \<Rightarrow> (Inr ob, w'))\<rparr>)"

definition newForMode :: "'w outside \<Rightarrow> (string \<times> string) list \<Rightarrow> Config \<Rightarrow> string \<Rightarrow> string + 'w Verifier" where
  "newForMode ou mirrors c mode =
     (if mode = ModeCosignKeyless
      then NewCosignVerifier ou mirrors (cf_trustedIssuers c) (cf_trustedSubjects c) (cf_trustedSubjectREs c)
      else if mode = ModeCosignKey then NewCosignKeyVerifier ou mirrors (cf_trustedPublicKeys c) (cf_ignoreTlog c)
      else if mode = ModeCosignAttestationKeyless
      then NewCosignAttestationVerifier ou mirrors (cf_attestationTypes c) (cf_trustedIssuers c)
             (cf_trustedSubjects c) (cf_trustedSubjectREs c)
      else if mode = ModeCosignAttestationKey
      then NewCosignAttestationKeyVerifier ou mirrors (cf_trustedPublicKeys c) (cf_attestationTypes c) (cf_ignoreTlog c)
      else Inl (''unsupported verification mode '' @ [CHR 0x22] @ mode @ [CHR 0x22]))"

fun newVerifiers :: "'w outside \<Rightarrow> (string \<times> string) list \<Rightarrow> Config \<Rightarrow> string list \<Rightarrow> string + 'w Verifier list" where
  "newVerifiers ou mirrors c [] = Inr []"
| "newVerifiers ou mirrors c (m # ms) =
     (case newForMode ou mirrors c m of
        Inl err \<Rightarrow> Inl err
      | Inr v \<Rightarrow> (case newVerifiers ou mirrors c ms of Inl err \<Rightarrow> Inl err | Inr vs \<Rightarrow> Inr (v # vs)))"

definition NewVerifier :: "'w outside \<Rightarrow> (string \<times> string) list \<Rightarrow> Config \<Rightarrow> string + 'w Verifier" where
  "NewVerifier ou mirrors c =
     (if cf_modes c = [] then Inl ''no verification modes configured''
      else case newVerifiers ou mirrors c (cf_modes c) of
             Inl err \<Rightarrow> Inl err
           | Inr [v] \<Rightarrow> Inr v
           | Inr vs \<Rightarrow>
               (case NewCompositeVerifier (cf_modePolicy c) vs of
                  Inl err \<Rightarrow> Inl err
                | Inr cv \<Rightarrow> Inr (asVerifier cv)))"

section \<open>Facts about the configuration\<close>

lemma modeEnabled_iff: "modeEnabled modes m \<longleftrightarrow> m \<in> set modes"
  by (auto simp: modeEnabled_def list_ex_iff)

lemma set_dedupeLoopModes: "set (dedupeLoopModes seen ms) = set ms - set seen"
  by (induction seen ms rule: dedupeLoopModes.induct) auto

lemma set_dedupeModes [simp]: "set (dedupeModes ms) = set ms"
  by (simp add: dedupeModes_def set_dedupeLoopModes)

lemma distinct_dedupeLoopModes: "distinct (dedupeLoopModes seen ms)"
  by (induction seen ms rule: dedupeLoopModes.induct) (auto simp: set_dedupeLoopModes)

lemma ResolveVerificationModes_fields:
  "set (cf_modes c) \<subseteq> set (cf_modes (ResolveVerificationModes c))"
  "cf_trustedPublicKeys (ResolveVerificationModes c) = cf_trustedPublicKeys c"
  by (auto simp: ResolveVerificationModes_def Let_def)

lemma Validate_None:
  assumes "Validate c = None"
  shows "set (cf_modes c) \<subseteq> set supportedModes" and "cf_modePolicy c = ModePolicyAny \<or> cf_modePolicy c = ModePolicyAll"
    and "ModeCosignAttestationKeyless \<in> set (cf_modes c) \<or> ModeCosignAttestationKey \<in> set (cf_modes c) \<Longrightarrow>
           cf_attestationTypes c \<noteq> []"
    and "ModeCosignKeyless \<in> set (cf_modes c) \<or> ModeCosignAttestationKeyless \<in> set (cf_modes c) \<Longrightarrow> hasSignerPolicy c"
proof -
  have n: "find (\<lambda>m. m \<notin> set supportedModes) (cf_modes c) = None"
    using assms by (auto simp: Validate_def Let_def split: option.splits if_splits)
  then show "set (cf_modes c) \<subseteq> set supportedModes" by (auto simp: find_None_iff)
  show "cf_modePolicy c = ModePolicyAny \<or> cf_modePolicy c = ModePolicyAll"
    using assms n by (auto simp: Validate_def Let_def split: if_splits)
  show "cf_attestationTypes c \<noteq> []"
    if "ModeCosignAttestationKeyless \<in> set (cf_modes c) \<or> ModeCosignAttestationKey \<in> set (cf_modes c)"
    using assms n that by (auto simp: Validate_def Let_def modeEnabled_iff split: if_splits)
  show "hasSignerPolicy c" if "ModeCosignKeyless \<in> set (cf_modes c) \<or> ModeCosignAttestationKeyless \<in> set (cf_modes c)"
    using assms n that by (auto simp: Validate_def Let_def modeEnabled_iff split: if_splits)
qed

lemma checks_ignore_keys [simp]:
  "namespaceOverlap (c\<lparr>cf_trustedPublicKeys := ks\<rparr>) = namespaceOverlap c"
  "hasSignerPolicy (c\<lparr>cf_trustedPublicKeys := ks\<rparr>) = hasSignerPolicy c"
  "hasKeySource (c\<lparr>cf_trustedPublicKeys := ks\<rparr>) = hasKeySource c"
  "wantsAttestations (c\<lparr>cf_trustedPublicKeys := ks\<rparr>) = wantsAttestations c"
  by (simp_all add: namespaceOverlap_def hasSignerPolicy_def hasKeySource_def wantsAttestations_def)

lemma Validate_keys [simp]: "Validate (c\<lparr>cf_trustedPublicKeys := ks\<rparr>) = Validate c"
  by (simp add: Validate_def cong del: if_weak_cong option.case_cong_weak)

lemma buildKeys_Inr:
  "buildKeys fs refs keys = Inr ks \<Longrightarrow>
     ks = keys @ map (\<lambda>ref. \<lparr>tk_ref = ref, tk_id = keyID ref\<rparr>) refs \<and> (\<forall>ref \<in> set refs. checkKey fs ref = None)"
proof (induction refs arbitrary: keys)
  case (Cons ref refs)
  then have "checkKey fs ref = None" "buildKeys fs refs (keys @ [\<lparr>tk_ref = ref, tk_id = keyID ref\<rparr>]) = Inr ks"
    by (auto split: option.splits)
  with Cons.IH show ?case by fastforce
qed simp

lemma LoadTrustedPublicKeys_nonempty: "LoadTrustedPublicKeys fs paths refs dir = Inr keys \<Longrightarrow> keys \<noteq> []"
  unfolding LoadTrustedPublicKeys_def
  by (auto split: sum.splits if_splits dest!: buildKeys_Inr)

lemma withNumbers_keeps:
  "withNumbers env c = Inr c' \<Longrightarrow> cf_modes c' = cf_modes c \<and> cf_trustedPublicKeys c' = cf_trustedPublicKeys c"
  by (auto simp: withNumbers_def split: sum.splits)

lemma validateAndLoadKeys_Inr:
  assumes "validateAndLoadKeys fs c3 = Inr c" and "cf_trustedPublicKeys c3 = []"
  shows "Validate c = None" and "cf_modes c = cf_modes c3"
    and "ModeCosignKey \<in> set (cf_modes c) \<longleftrightarrow> cf_trustedPublicKeys c \<noteq> []"
proof -
  have v: "Validate c3 = None" using assms(1) by (auto simp: validateAndLoadKeys_def split: option.splits)
  consider "ModeCosignKey \<notin> set (cf_modes c3)" "c = c3"
    | keys where "ModeCosignKey \<in> set (cf_modes c3)" "c = c3\<lparr>cf_trustedPublicKeys := keys\<rparr>"
        "LoadTrustedPublicKeys fs (cf_publicKeyPaths c3) (cf_publicKeyRefs c3) (cf_publicKeyDir c3) = Inr keys"
    using assms(1) v by (auto simp: validateAndLoadKeys_def modeEnabled_iff split: if_splits sum.splits)
  then have "Validate c = None \<and> cf_modes c = cf_modes c3 \<and>
      (ModeCosignKey \<in> set (cf_modes c) \<longleftrightarrow> cf_trustedPublicKeys c \<noteq> [])"
  proof cases
    case 1
    with v assms(2) show ?thesis by simp
  next
    case 2
    with v LoadTrustedPublicKeys_nonempty [OF 2(3)] show ?thesis by simp
  qed
  then show "Validate c = None" "cf_modes c = cf_modes c3"
    "ModeCosignKey \<in> set (cf_modes c) \<longleftrightarrow> cf_trustedPublicKeys c \<noteq> []" by blast+
qed

lemma LoadFromEnvironment_Inr:
  assumes "LoadFromEnvironment fs env = Inr c"
  shows "Validate c = None" and "cf_modes c \<noteq> []"
    and "ModeCosignKey \<in> set (cf_modes c) \<longleftrightarrow> cf_trustedPublicKeys c \<noteq> []"
proof -
  obtain c0 r envFile sigEnv where c0: "withNumbers env (baseConfig env) = Inr c0"
    and r: "loadRegistrySettings fs env = Inr r" and s: "loadSigstoreSettings fs env = Inr (envFile, sigEnv)"
    using assms by (auto simp: LoadFromEnvironment_def Let_def split: sum.splits)
  define c3 where "c3 = (withRegistry r (ResolveVerificationModes c0))\<lparr>cf_sigstoreEnvFile := envFile, cf_sigstoreEnv := sigEnv\<rparr>"
  have load: "validateAndLoadKeys fs c3 = Inr c"
    using assms by (simp add: LoadFromEnvironment_def c0 r s c3_def Let_def)
  have base: "cf_modes (baseConfig env) \<noteq> []" "cf_trustedPublicKeys (baseConfig env) = []"
    using set_dedupeModes by (auto simp: baseConfig_def Let_def simp flip: set_empty)
  have m3: "cf_modes c3 = cf_modes (ResolveVerificationModes c0)" "cf_trustedPublicKeys c3 = []"
    using withNumbers_keeps [OF c0] base(2) by (simp_all add: c3_def withRegistry_def ResolveVerificationModes_fields)
  have "cf_modes c3 \<noteq> []"
    unfolding m3 using ResolveVerificationModes_fields(1) [of c0] withNumbers_keeps [OF c0] base(1) by auto
  with validateAndLoadKeys_Inr [OF load m3(2)]
  show "Validate c = None" "cf_modes c \<noteq> []" "ModeCosignKey \<in> set (cf_modes c) \<longleftrightarrow> cf_trustedPublicKeys c \<noteq> []"
    by metis+
qed

lemma newVerifiers_Inr:
  "\<forall>m \<in> set ms. \<exists>v. newForMode ou mirrors c m = Inr v \<Longrightarrow>
     \<exists>vs. newVerifiers ou mirrors c ms = Inr vs \<and> length vs = length ms"
  by (induction ms) auto

lemma newVerifiers_Inl:
  "m \<in> set ms \<Longrightarrow> \<forall>m' \<in> set ms. m' \<noteq> m \<longrightarrow> (\<exists>v. newForMode ou mirrors c m' = Inr v) \<Longrightarrow>
   newForMode ou mirrors c m = Inl err \<Longrightarrow> newVerifiers ou mirrors c ms = Inl err"
proof (induction ms)
  case (Cons m1 ms)
  show ?case
  proof (cases "m1 = m")
    case False
    with Cons obtain v where "newForMode ou mirrors c m1 = Inr v" by auto
    with Cons False show ?thesis by auto
  qed (use Cons in simp)
qed simp

lemma NewVerifier_ok:
  assumes "newVerifiers ou mirrors c (cf_modes c) = Inr vs" and "vs \<noteq> []"
    and "cf_modePolicy c = ModePolicyAny \<or> cf_modePolicy c = ModePolicyAll" and "cf_modes c \<noteq> []"
  shows "\<exists>v. NewVerifier ou mirrors c = Inr v"
proof (cases "\<exists>v. vs = [v]")
  case True
  with assms show ?thesis by (auto simp: NewVerifier_def)
next
  case False
  with assms(2) obtain v1 v2 vs' where "vs = v1 # v2 # vs'" by (metis neq_Nil_conv)
  with assms show ?thesis by (auto simp: NewVerifier_def NewCompositeVerifier_def Let_def)
qed

text \<open>The verifier of each mode in a validated configuration whose expressions compile.\<close>

lemma newForMode_cases:
  assumes "LoadFromEnvironment fs env = Inr c" and "m \<in> set (cf_modes c)"
    and "newTrustPolicy (ou_compile ou) (cf_trustedIssuers c) (cf_trustedSubjects c) (cf_trustedSubjectREs c) = Inr p"
  shows "(\<exists>v. newForMode ou mirrors c m = Inr v) \<or>
    m = ModeCosignAttestationKey \<and> ModeCosignKey \<notin> set (cf_modes c) \<and>
    newForMode ou mirrors c m = Inl ''at least one trusted public key is required''"
proof -
  note ok = LoadFromEnvironment_Inr [OF assms(1)]
  note valid = Validate_None [OF ok(1)]
  have "m \<in> set supportedModes" using valid(1) assms(2) by auto
  then consider "m = ModeCosignKeyless" | "m = ModeCosignKey" | "m = ModeCosignAttestationKeyless" | "m = ModeCosignAttestationKey"
    by (auto simp: supportedModes_def)
  then show ?thesis
  proof cases
    case 1
    then show ?thesis using assms(3) by (simp add: newForMode_def NewCosignVerifier_def)
  next
    case 2
    then show ?thesis using ok(3) assms(2) by (simp add: newForMode_def NewCosignKeyVerifier_def mode_defs)
  next
    case 3
    then show ?thesis using assms(2,3) valid(3)
      by (simp add: newForMode_def NewCosignAttestationVerifier_def mode_defs)
  next
    case 4
    then show ?thesis using assms(2) valid(3) ok(3)
      by (auto simp: newForMode_def NewCosignAttestationKeyVerifier_def mode_defs)
  qed
qed

section \<open>Properties\<close>

text \<open>
  A configuration that loads can be run: it has a supported mode and policy, and the verifier for its
  modes can be built whenever its expressions compile, provided that \<^verbatim>\<open>cosign-attestation-key\<close> is not enabled
  without \<^verbatim>\<open>cosign-key\<close>.
\<close>
theorem loaded_config_builds_verifier:
  assumes "LoadFromEnvironment fs env = Inr c"
    and "newTrustPolicy (ou_compile ou) (cf_trustedIssuers c) (cf_trustedSubjects c) (cf_trustedSubjectREs c) = Inr p"
    and "ModeCosignAttestationKey \<in> set (cf_modes c) \<longrightarrow> ModeCosignKey \<in> set (cf_modes c)"
  shows "\<exists>v. NewVerifier ou mirrors c = Inr v"
proof -
  note ok = LoadFromEnvironment_Inr [OF assms(1)]
  have "\<exists>v. newForMode ou mirrors c m = Inr v" if "m \<in> set (cf_modes c)" for m
    using newForMode_cases [OF assms(1) that assms(2)] assms(3) that by auto
  then obtain vs where "newVerifiers ou mirrors c (cf_modes c) = Inr vs" "length vs = length (cf_modes c)"
    using newVerifiers_Inr by blast
  then show ?thesis using NewVerifier_ok ok(2) Validate_None(2) [OF ok(1)] by (metis length_0_conv)
qed

definition demoFs :: file_io where
  "demoFs = \<lparr>io_abs = (\<lambda>p. Inr p), io_readDir = (\<lambda>_. Inr []), io_stat = (\<lambda>_. Inr (False, 100)),
     io_readFile = (\<lambda>_. Inl ''no such file''), io_lines = (\<lambda>_. Inl ''no such file''), io_clean = (\<lambda>p. p),
     io_dir = (\<lambda>p. p), io_decodeAuths = (\<lambda>_. Inl ''bad'')\<rparr>"

definition demoEnvOf :: "(string \<times> string) list \<Rightarrow> environment" where
  "demoEnvOf kvs k = (case map_of kvs k of None \<Rightarrow> '''' | Some v \<Rightarrow> v)"

definition demoOutside :: "nat outside" where
  "demoOutside = \<lparr>ou_compile = (\<lambda>re. Inr (\<lambda>s. re = ''^'' @ QuoteMeta s @ ''$'')), ou_cosign = demoCosign, ou_decode = demoDecode\<rparr>"

definition keyOnlyEnv :: "string \<Rightarrow> environment" where
  "keyOnlyEnv modes = demoEnvOf [(''IMAGE_TRUST_MODES'', modes), (''IMAGE_TRUST_PUBLIC_KEY_REFS'', ''gcpkms://k''),
     (''IMAGE_TRUST_ATTESTATION_TYPES'', ''spdxjson'')]"

lemma keyOnly_loads:
  "case LoadFromEnvironment demoFs (keyOnlyEnv ''cosign-key'') of
     Inr c \<Rightarrow> cf_modes c = [ModeCosignKey, ModeCosignAttestationKey] \<and> cf_trustedIssuers c = [] \<and>
       cf_trustedSubjects c = [] \<and> cf_trustedSubjectREs c = []
   | Inl _ \<Rightarrow> False"
  "case LoadFromEnvironment demoFs (keyOnlyEnv ''cosign-attestation-key'') of
     Inr c \<Rightarrow> cf_modes c = [ModeCosignAttestationKey] \<and> cf_trustedIssuers c = [] \<and>
       cf_trustedSubjects c = [] \<and> cf_trustedSubjectREs c = []
   | Inl _ \<Rightarrow> False"
  by code_simp+

lemma newTrustPolicy_empty: "newTrustPolicy compile [] [] [] = Inr \<lparr>tp_issuer = None, tp_subject = None\<rparr>"
  by (simp add: newTrustPolicy_def buildAlternationRegex_def exactPatterns_def compileOptional_def)

theorem loaded_config_builds_verifier_witness:
  "\<exists>c v. LoadFromEnvironment demoFs (keyOnlyEnv ''cosign-key'') = Inr c \<and> NewVerifier demoOutside [] c = Inr v"
proof -
  obtain c where c: "LoadFromEnvironment demoFs (keyOnlyEnv ''cosign-key'') = Inr c"
    "cf_modes c = [ModeCosignKey, ModeCosignAttestationKey]"
    "cf_trustedIssuers c = []" "cf_trustedSubjects c = []" "cf_trustedSubjectREs c = []"
    using keyOnly_loads(1) by (auto split: sum.splits)
  have "\<exists>v. NewVerifier demoOutside [] c = Inr v"
    by (rule loaded_config_builds_verifier [OF c(1)]) (simp_all add: c newTrustPolicy_empty)
  with c(1) show ?thesis by blast
qed

text \<open>
  The documented mode \<^verbatim>\<open>cosign-attestation-key\<close> does not work on its own. \<^verbatim>\<open>Validate\<close> accepts it with public
  keys configured, but \<^verbatim>\<open>LoadFromEnvironment\<close> loads the keys only for \<^verbatim>\<open>cosign-key\<close>: the configuration loads,
  and the construction of the verifier then fails for want of a key.
\<close>
theorem attestation_key_alone_fails:
  assumes "LoadFromEnvironment fs env = Inr c"
    and "newTrustPolicy (ou_compile ou) (cf_trustedIssuers c) (cf_trustedSubjects c) (cf_trustedSubjectREs c) = Inr p"
    and "ModeCosignAttestationKey \<in> set (cf_modes c)" and "ModeCosignKey \<notin> set (cf_modes c)"
  shows "hasKeySource c \<and> NewVerifier ou mirrors c = Inl ''at least one trusted public key is required''"
proof
  note ok = LoadFromEnvironment_Inr [OF assms(1)]
  show "hasKeySource c"
    using ok(1) assms(3) by (auto simp: Validate_def Let_def modeEnabled_iff split: option.splits if_splits)
  have "newForMode ou mirrors c ModeCosignAttestationKey = Inl ''at least one trusted public key is required''"
    using ok(3) assms(4) by (simp add: newForMode_def NewCosignAttestationKeyVerifier_def mode_defs)
  then have "newVerifiers ou mirrors c (cf_modes c) = Inl ''at least one trusted public key is required''"
    using newVerifiers_Inl [OF assms(3)] newForMode_cases [OF assms(1) _ assms(2)] by blast
  then show "NewVerifier ou mirrors c = Inl ''at least one trusted public key is required''"
    using ok(2) by (simp add: NewVerifier_def)
qed

theorem attestation_key_alone_fails_witness:
  "\<exists>c. LoadFromEnvironment demoFs (keyOnlyEnv ''cosign-attestation-key'') = Inr c \<and>
     NewVerifier demoOutside [] c = Inl ''at least one trusted public key is required''"
proof -
  obtain c where c: "LoadFromEnvironment demoFs (keyOnlyEnv ''cosign-attestation-key'') = Inr c"
    "cf_modes c = [ModeCosignAttestationKey]"
    "cf_trustedIssuers c = []" "cf_trustedSubjects c = []" "cf_trustedSubjectREs c = []"
    using keyOnly_loads(2) by (auto split: sum.splits)
  have "hasKeySource c \<and> NewVerifier demoOutside [] c = Inl ''at least one trusted public key is required''"
    by (rule attestation_key_alone_fails [OF c(1)]) (simp_all add: c newTrustPolicy_empty mode_defs)
  with c(1) show ?thesis by blast
qed

section \<open>The keys that are loaded\<close>

definition refs_ok :: "string list \<Rightarrow> bool" where
  "refs_ok refs \<longleftrightarrow> distinct refs \<and> length refs \<le> MaxPublicKeyFiles"

lemma addRef_ok: "addRef fs raw refs = Inr refs' \<Longrightarrow> refs_ok refs \<Longrightarrow> refs_ok refs' \<and> set refs \<subseteq> set refs'"
  by (auto simp: addRef_def refs_ok_def Let_def split: if_splits sum.splits)

lemma addRefs_ok: "addRefs fs rs refs = Inr refs' \<Longrightarrow> refs_ok refs \<Longrightarrow> refs_ok refs' \<and> set refs \<subseteq> set refs'"
proof (induction rs arbitrary: refs)
  case (Cons r rs)
  then obtain refs1 where "addRef fs r refs = Inr refs1" "addRefs fs rs refs1 = Inr refs'"
    by (auto split: sum.splits)
  with addRef_ok Cons.IH Cons.prems(2) show ?case by blast
qed simp

lemma addRemoteRefs_ok:
  "addRemoteRefs fs rs refs = Inr refs' \<Longrightarrow> refs_ok refs \<Longrightarrow> refs_ok refs' \<and> set refs \<subseteq> set refs'"
proof (induction rs arbitrary: refs)
  case (Cons r rs)
  show ?case
  proof (cases "TrimSpace r = ''''")
    case False
    with Cons.prems obtain refs1 where "addRef fs (TrimSpace r) refs = Inr refs1" "addRemoteRefs fs rs refs1 = Inr refs'"
      by (auto simp: Let_def split: sum.splits if_splits)
    with addRef_ok Cons.IH Cons.prems(2) show ?thesis by blast
  qed (use Cons in \<open>simp add: Let_def\<close>)
qed simp

lemma addKeyDir_ok: "addKeyDir fs dir refs = Inr refs' \<Longrightarrow> refs_ok refs \<Longrightarrow> refs_ok refs' \<and> set refs \<subseteq> set refs'"
  by (auto simp: addKeyDir_def split: if_splits sum.splits dest: addRefs_ok)

text \<open>
  The trusted keys are few, distinct and checked: loading succeeds only with at least one and at most 32
  keys, no reference occurs twice, and every key that is not a remote URI is a regular file of at most
  64 KiB, named in reports by the base name of its path.
\<close>
theorem LoadTrustedPublicKeys_bounds:
  assumes "LoadTrustedPublicKeys fs paths refs dir = Inr keys"
  shows "keys \<noteq> [] \<and> length keys \<le> 32 \<and> distinct (map tk_ref keys) \<and>
    (\<forall>k \<in> set keys. isRemoteKeyRef (tk_ref k) \<and> ReportKeyRef k = tk_ref k \<or>
       (\<exists>n. io_stat fs (tk_ref k) = Inr (False, n) \<and> n \<le> 65536) \<and> ReportKeyRef k = pathBase (tk_ref k))"
proof -
  obtain r1 r2 r3 where r: "addRemoteRefs fs refs [] = Inr r1" "addRefs fs paths r1 = Inr r2"
    "addKeyDir fs dir r2 = Inr r3" "r3 \<noteq> []" "buildKeys fs r3 [] = Inr keys"
    using assms by (auto simp: LoadTrustedPublicKeys_def split: sum.splits if_splits)
  have "refs_ok r3"
    using addKeyDir_ok [OF r(3)] addRefs_ok [OF r(2)] addRemoteRefs_ok [OF r(1)] by (simp add: refs_ok_def)
  moreover from buildKeys_Inr [OF r(5)] have k: "keys = map (\<lambda>ref. \<lparr>tk_ref = ref, tk_id = keyID ref\<rparr>) r3"
    "\<forall>ref \<in> set r3. checkKey fs ref = None" by simp_all
  moreover have "map tk_ref keys = r3" unfolding k(1) by (simp add: comp_def)
  moreover have "isRemoteKeyRef ref \<and> ReportKeyRef \<lparr>tk_ref = ref, tk_id = keyID ref\<rparr> = ref \<or>
      (\<exists>n. io_stat fs ref = Inr (False, n) \<and> n \<le> 65536) \<and> ReportKeyRef \<lparr>tk_ref = ref, tk_id = keyID ref\<rparr> = pathBase ref"
    if "checkKey fs ref = None" for ref
    using that
    by (auto simp: checkKey_def ReportKeyRef_def keyID_def MaxPublicKeyBytes_def split: if_splits sum.splits)
  ultimately show ?thesis using r(4) by (auto simp: refs_ok_def MaxPublicKeyFiles_def)
qed

theorem LoadTrustedPublicKeys_bounds_witness:
  "\<exists>keys. LoadTrustedPublicKeys demoFs [''/keys/a.pub''] [''gcpkms://k'', ''gcpkms://k''] '''' = Inr keys \<and> length keys \<le> 32"
proof -
  have "\<not> isl (LoadTrustedPublicKeys demoFs [''/keys/a.pub''] [''gcpkms://k'', ''gcpkms://k''] '''')" by code_simp
  then obtain keys where k: "LoadTrustedPublicKeys demoFs [''/keys/a.pub''] [''gcpkms://k'', ''gcpkms://k''] '''' = Inr keys"
    by (auto simp: isl_def split: sum.splits) (metis sum.exhaust)
  with LoadTrustedPublicKeys_bounds [OF k] show ?thesis by blast
qed

end
