(* ===== verification/Trust_Policy.thy ===== *)
theory Trust_Policy
  imports Trust_Verify
begin

text \<open>
  Allowlists (\<^verbatim>\<open>image-trust/pkg/policy\<close>), the report (\<^verbatim>\<open>pkg/report\<close>) and the composition of
  verification, allowlists and report in \<^verbatim>\<open>cmd/main.go\<close>. The glob matcher \<^verbatim>\<open>doublestar.Match\<close> is the
  argument \<open>glob\<close>, which answers with an error message for a malformed pattern.
\<close>

type_synonym glob_fn = "string \<Rightarrow> string \<Rightarrow> string + bool"

section \<open>Allowlists\<close>

record AllowlistMatcher =
  am_imagePatterns :: "string list"
  am_registryPatterns :: "string list"
  am_signerPatterns :: "string list"

definition NewAllowlistMatcher :: "string list \<Rightarrow> string list \<Rightarrow> string list \<Rightarrow> AllowlistMatcher" where
  "NewAllowlistMatcher images registries signers =
     \<lparr>am_imagePatterns = images, am_registryPatterns = registries, am_signerPatterns = signers\<rparr>"

datatype allow_error =
    LengthMismatch nat nat
  | BadPattern string string string \<comment> \<open>which list, the pattern, the matcher's message\<close>

definition registryFromReference :: "string \<Rightarrow> string" where
  "registryFromReference ref =
     (if ref = '''' then ''''
      else
        let c1 = (case IndexByte ref (CHR ''@'') of Some i \<Rightarrow> take i ref | None \<Rightarrow> ref);
            c2 = (case lastColonAfterSlash c1 of Some c \<Rightarrow> take c c1 | None \<Rightarrow> c1);
            firstSegment = (case IndexByte c2 (CHR ''/'') of Some i \<Rightarrow> take i c2 | None \<Rightarrow> c2)
        in if firstSegment = ''localhost'' \<or> Contains firstSegment ''.'' \<or> Contains firstSegment '':''
           then firstSegment else ''docker.io'')"

text \<open>The two nested loops, which occur three times: the first pattern that matches a candidate.\<close>

fun matchCandidates :: "glob_fn \<Rightarrow> string \<Rightarrow> string \<Rightarrow> string list \<Rightarrow> allow_error + bool" where
  "matchCandidates glob list pat [] = Inr False"
| "matchCandidates glob list pat (c # cs) =
     (if c = '''' then matchCandidates glob list pat cs
      else case glob pat c of
             Inl err \<Rightarrow> Inl (BadPattern list pat err)
           | Inr True \<Rightarrow> Inr True
           | Inr False \<Rightarrow> matchCandidates glob list pat cs)"

fun matchPatterns :: "glob_fn \<Rightarrow> string \<Rightarrow> string list \<Rightarrow> string list \<Rightarrow> allow_error + string option" where
  "matchPatterns glob list [] cands = Inr None"
| "matchPatterns glob list (p # ps) cands =
     (case matchCandidates glob list p cands of
        Inl err \<Rightarrow> Inl err
      | Inr True \<Rightarrow> Inr (Some p)
      | Inr False \<Rightarrow> matchPatterns glob list ps cands)"

definition imageCandidates :: "DiscoveredImage \<Rightarrow> string list" where
  "imageCandidates img = [im_name img, im_id img, im_pullRef img, image_VerificationReference img]"

definition registryCandidates :: "DiscoveredImage \<Rightarrow> ImageTrustResult \<Rightarrow> string list" where
  "registryCandidates img result =
     [registryFromReference (im_name img), registryFromReference (image_VerificationReference img),
      registryFromReference (rs_id result)]"

definition signerStrings :: "SignerDetails \<Rightarrow> string list" where
  "signerStrings s =
     (if sd_issuer s \<noteq> '''' then [sd_issuer s] else []) @
     (if sd_subject s \<noteq> '''' then [sd_subject s] else []) @
     (if sd_issuer s \<noteq> '''' \<or> sd_subject s \<noteq> '''' then [sd_issuer s @ ''|'' @ sd_subject s] else [])"

definition signerCandidates :: "ImageTrustResult \<Rightarrow> string list" where
  "signerCandidates result =
     concat (map signerStrings (rs_candidateSigners result)) @
     (let s = rs_signer result in
      if sd_issuer s \<noteq> '''' \<or> sd_subject s \<noteq> ''''
      then [sd_issuer s, sd_subject s, sd_issuer s @ ''|'' @ sd_subject s] else [])"

text \<open>\<^verbatim>\<open>match\<close>: the reason of the first rule that applies, images before registries before signers.\<close>

definition allow_match :: "glob_fn \<Rightarrow> AllowlistMatcher \<Rightarrow> DiscoveredImage \<Rightarrow> ImageTrustResult \<Rightarrow> allow_error + string option" where
  "allow_match glob m img result =
     (case matchPatterns glob ''image'' (am_imagePatterns m) (imageCandidates img) of
        Inl err \<Rightarrow> Inl err
      | Inr (Some p) \<Rightarrow> Inr (Some (''image allowlist matched: '' @ p))
      | Inr None \<Rightarrow>
          (case matchPatterns glob ''registry'' (am_registryPatterns m) (registryCandidates img result) of
             Inl err \<Rightarrow> Inl err
           | Inr (Some p) \<Rightarrow> Inr (Some (''registry allowlist matched: '' @ p))
           | Inr None \<Rightarrow>
               (case matchPatterns glob ''signer'' (am_signerPatterns m) (signerCandidates result) of
                  Inl err \<Rightarrow> Inl err
                | Inr (Some p) \<Rightarrow> Inr (Some (''signer allowlist matched: '' @ p))
                | Inr None \<Rightarrow> Inr None)))"

definition markAllowlisted :: "string option \<Rightarrow> ImageTrustResult \<Rightarrow> ImageTrustResult" where
  "markAllowlisted m r =
     (case m of None \<Rightarrow> r | Some reason \<Rightarrow> r\<lparr>rs_allowlisted := True, rs_allowlistReason := reason\<rparr>)"

fun applyLoop :: "glob_fn \<Rightarrow> AllowlistMatcher \<Rightarrow> (DiscoveredImage \<times> ImageTrustResult) list \<Rightarrow>
    allow_error + ImageTrustResult list" where
  "applyLoop glob m [] = Inr []"
| "applyLoop glob m ((img, r) # rest) =
     (case allow_match glob m img r of
        Inl err \<Rightarrow> Inl err
      | Inr found \<Rightarrow>
          (case applyLoop glob m rest of
             Inl err \<Rightarrow> Inl err
           | Inr rs \<Rightarrow> Inr (markAllowlisted found r # rs)))"

definition Apply :: "glob_fn \<Rightarrow> AllowlistMatcher \<Rightarrow> DiscoveredImage list \<Rightarrow> ImageTrustResult list \<Rightarrow>
    allow_error + ImageTrustResult list" where
  "Apply glob m images results =
     (if length images \<noteq> length results then Inl (LengthMismatch (length images) (length results))
      else applyLoop glob m (zip images results))"

section \<open>The report\<close>

definition verificationErrorSeverity :: nat where "verificationErrorSeverity = 3"
definition nonCompliantSeverity :: nat where "nonCompliantSeverity = 7"
definition findingsCategory :: string where "findingsCategory = ''ImageTrust''"

definition imageReference :: "ImageTrustResult \<Rightarrow> string" where
  "imageReference r =
     (if rs_id r \<noteq> '''' then rs_id r else if rs_name r \<noteq> '''' then rs_name r else ''(unknown image)'')"

definition detailsForStatus :: "ImageTrustResult \<Rightarrow> string \<times> string \<times> string \<times> nat" where
  "detailsForStatus r =
     (let imageRef = imageReference r in
      case rs_status r of
        StatusUnsigned \<Rightarrow>
          (''Container image is unsigned'',
           ''The image-trust plugin did not find a matching Cosign signature for image '' @ imageRef @ ''.'',
           ''Sign the image in CI with Cosign keyless signing and redeploy the workload using the signed digest reference.'',
           nonCompliantSeverity)
      | StatusSignedUntrusted \<Rightarrow>
          (''Container image is signed by an untrusted signer'',
           ''The image-trust plugin verified a Cosign signature on image '' @ imageRef @
             '', but the signer did not match the configured trusted issuer/subject policy.'',
           ''Update signer trust configuration or publish the image using an approved signing identity.'',
           nonCompliantSeverity)
      | StatusVerificationError \<Rightarrow>
          if rs_digestResolveError r \<noteq> ''''
          then (''Container image digest could not be resolved'',
                ''The image-trust plugin could not resolve image '' @ imageRef @
                  '' to a digest before signature verification: '' @ rs_digestResolveError r,
                ''Fix registry authentication (IMAGE_TRUST_REGISTRY_AUTHS or REGISTRY_PASSWORD_FILE), network access, and mirror mapping (IMAGE_TRUST_REGISTRY_MIRRORS).'',
                verificationErrorSeverity)
          else (''Container image trust could not be verified'',
                ''The image-trust plugin encountered an operational error while verifying image '' @ imageRef @ '': '' @ rs_reason r,
                ''Fix registry access, network connectivity, or verifier configuration and rerun the report.'',
                verificationErrorSeverity)
      | StatusUnknown \<Rightarrow>
          (''Container image trust is unknown'',
           ''The image-trust plugin could not resolve image '' @ imageRef @
             '' to an immutable digest reference for Cosign verification.'',
           ''Ensure the workload resolves to a digest-backed image reference or that runtime image metadata is available.'',
           verificationErrorSeverity)
      | _ \<Rightarrow>
          (''Container image trust requires attention'',
           ''Image trust status for '' @ imageRef @ '' requires review.'',
           ''Review image trust configuration and rerun the report.'',
           verificationErrorSeverity))"

definition buildFinding :: "Resource \<Rightarrow> ImageTrustResult \<Rightarrow> Finding" where
  "buildFinding owner r =
     (case detailsForStatus r of
        (title, description, remediation, severity) \<Rightarrow>
          \<lparr>fi_resourceNamespace = re_namespace owner, fi_resourceKind = re_kind owner,
           fi_resourceName = re_name owner, fi_resourceContainer = re_container owner,
           fi_title = title, fi_description = description, fi_remediation = remediation,
           fi_severity = severity, fi_category = findingsCategory\<rparr>)"

definition zeroSummary :: Summary where
  "zeroSummary = \<lparr>su_totalImages = 0, su_verified = 0, su_unsigned = 0, su_signedUntrusted = 0,
     su_verificationError = 0, su_unknown = 0, su_allowlisted = 0\<rparr>"

definition incrementSummary :: "ImageTrustResult \<Rightarrow> Summary \<Rightarrow> Summary" where
  "incrementSummary r s =
     (let s1 = (case rs_status r of
                  StatusVerified \<Rightarrow> s\<lparr>su_verified := su_verified s + 1\<rparr>
                | StatusUnsigned \<Rightarrow> s\<lparr>su_unsigned := su_unsigned s + 1\<rparr>
                | StatusSignedUntrusted \<Rightarrow> s\<lparr>su_signedUntrusted := su_signedUntrusted s + 1\<rparr>
                | StatusVerificationError \<Rightarrow> s\<lparr>su_verificationError := su_verificationError s + 1\<rparr>
                | StatusUnknown \<Rightarrow> s\<lparr>su_unknown := su_unknown s + 1\<rparr>
                | StatusNone \<Rightarrow> s)
      in if rs_allowlisted r then s1\<lparr>su_allowlisted := su_allowlisted s1 + 1\<rparr> else s1)"

fun buildLoop :: "ImageTrustResult list \<Rightarrow> Summary \<Rightarrow> Finding list \<Rightarrow> Summary \<times> Finding list" where
  "buildLoop [] summary findings = (summary, findings)"
| "buildLoop (r # rs) summary findings =
     (let summary' = incrementSummary r summary in
      if rs_allowlisted r \<or> rs_status r = StatusVerified then buildLoop rs summary' findings
      else buildLoop rs summary' (findings @ map (\<lambda>owner. buildFinding owner r) (rs_owners r)))"

definition Build :: "ImageTrustResult list \<Rightarrow> ReportPolicy \<Rightarrow> Report" where
  "Build results policy =
     (case buildLoop results (zeroSummary\<lparr>su_totalImages := int (length results)\<rparr>) [] of
        (summary, findings) \<Rightarrow>
          \<lparr>rt_images = results, rt_summary = summary, rt_policy = policy, rt_findings = findings\<rparr>)"

text \<open>
  Here nil and empty slices differ, as they do in the JSON: \<open>None\<close> is nil. Appending the elements of a
  slice to a nil slice gives nil when there are none.
\<close>

definition appendToNil :: "string list \<Rightarrow> string list option" where
  "appendToNil xs = (if xs = [] then None else Some xs)"

definition PolicyFromAllowlists :: "string list option \<Rightarrow> string list option \<Rightarrow> string list option \<Rightarrow> ReportPolicy" where
  "PolicyFromAllowlists images registries signers =
     (let images' = (case images of None \<Rightarrow> [] | Some xs \<Rightarrow> xs);
          registries' = (case registries of None \<Rightarrow> [] | Some xs \<Rightarrow> xs);
          signers' = (case signers of None \<Rightarrow> [] | Some xs \<Rightarrow> xs)
      in \<lparr>rp_allowlists = \<lparr>ap_images = appendToNil images', ap_registries = appendToNil registries',
                             ap_signers = appendToNil signers'\<rparr>\<rparr>)"

section \<open>What an allowlist exempts\<close>

definition matchesSome :: "glob_fn \<Rightarrow> string list \<Rightarrow> string list \<Rightarrow> bool" where
  "matchesSome glob ps cands \<longleftrightarrow> (\<exists>p \<in> set ps. \<exists>c \<in> set cands. c \<noteq> '''' \<and> glob p c = Inr True)"

definition exempt :: "glob_fn \<Rightarrow> AllowlistMatcher \<Rightarrow> DiscoveredImage \<Rightarrow> ImageTrustResult \<Rightarrow> bool" where
  "exempt glob m img r \<longleftrightarrow>
     matchesSome glob (am_imagePatterns m) (imageCandidates img) \<or>
     matchesSome glob (am_registryPatterns m) (registryCandidates img r) \<or>
     matchesSome glob (am_signerPatterns m) (signerCandidates r)"

lemma matchCandidates_Inr:
  "matchCandidates glob l p cs = Inr b \<Longrightarrow> b \<longleftrightarrow> (\<exists>c \<in> set cs. c \<noteq> '''' \<and> glob p c = Inr True)"
  by (induction glob l p cs rule: matchCandidates.induct) (auto split: if_splits sum.splits bool.splits)

lemma matchCandidates_Inl:
  "matchCandidates glob l p cs = Inl err \<Longrightarrow> \<exists>c e. c \<in> set cs \<and> glob p c = Inl e \<and> err = BadPattern l p e"
  by (induction cs) (fastforce split: if_splits sum.splits bool.splits)+

lemma matchPatterns_Inr:
  "matchPatterns glob l ps cands = Inr found \<Longrightarrow> found \<noteq> None \<longleftrightarrow> matchesSome glob ps cands"
proof (induction ps)
  case Nil
  then show ?case by (simp add: matchesSome_def)
next
  case (Cons p ps)
  then obtain b where b: "matchCandidates glob l p cands = Inr b" by (auto split: sum.splits)
  show ?case
  proof (cases b)
    case True
    with b Cons.prems matchCandidates_Inr [OF b] show ?thesis by (auto simp: matchesSome_def)
  next
    case False
    with b Cons.prems have "matchPatterns glob l ps cands = Inr found" by simp
    with Cons.IH matchCandidates_Inr [OF b] False show ?thesis by (auto simp: matchesSome_def)
  qed
qed

lemma matchPatterns_Inl:
  "matchPatterns glob l ps cands = Inl err \<Longrightarrow>
     \<exists>p e. p \<in> set ps \<and> (\<exists>c. glob p c = Inl e) \<and> err = BadPattern l p e"
  by (induction ps) (auto split: sum.splits bool.splits dest!: matchCandidates_Inl)

lemma allow_match_Inr: "allow_match glob m img r = Inr found \<Longrightarrow> found \<noteq> None \<longleftrightarrow> exempt glob m img r"
  unfolding allow_match_def exempt_def
  by (auto split: sum.splits option.splits dest!: matchPatterns_Inr)

lemma allow_match_total: "\<forall>p c. \<not> isl (glob p c) \<Longrightarrow> \<exists>found. allow_match glob m img r = Inr found"
  unfolding allow_match_def
  by (auto split: sum.splits option.splits dest!: matchPatterns_Inl) (metis isl_def)+

lemma applyLoop_Inr:
  "applyLoop glob m irs = Inr rs \<Longrightarrow>
     list_all2 (\<lambda>(img, r) r'. \<exists>found. allow_match glob m img r = Inr found \<and> r' = markAllowlisted found r) irs rs"
  by (induction irs arbitrary: rs) (auto split: sum.splits)

lemma applyLoop_total:
  "\<forall>(img, r) \<in> set irs. \<exists>found. allow_match glob m img r = Inr found \<Longrightarrow> \<exists>rs. applyLoop glob m irs = Inr rs"
  by (induction irs) auto

lemma Apply_nth:
  assumes "Apply glob m images results = Inr updated" and "i < length results"
  shows "\<exists>found. allow_match glob m (images ! i) (results ! i) = Inr found \<and>
    updated ! i = markAllowlisted found (results ! i)"
proof -
  have len: "length images = length results" and loop: "applyLoop glob m (zip images results) = Inr updated"
    using assms(1) by (auto simp: Apply_def split: if_splits)
  from list_all2_nthD [OF applyLoop_Inr [OF loop], of i] show ?thesis using len assms(2) by simp
qed

lemma Apply_length: "Apply glob m images results = Inr updated \<Longrightarrow> length updated = length results"
  using list_all2_lengthD [OF applyLoop_Inr] by (fastforce simp: Apply_def split: if_splits)

lemma markAllowlisted_fields [simp]:
  "rs_allowlisted (markAllowlisted found r) \<longleftrightarrow> rs_allowlisted r \<or> found \<noteq> None"
  "rs_status (markAllowlisted found r) = rs_status r" "rs_owners (markAllowlisted found r) = rs_owners r"
  "rs_id (markAllowlisted found r) = rs_id r" "rs_name (markAllowlisted found r) = rs_name r"
  "rs_reason (markAllowlisted found r) = rs_reason r"
  "rs_digestResolveError (markAllowlisted found r) = rs_digestResolveError r"
  by (simp_all add: markAllowlisted_def split: option.splits)

text \<open>
  Allowlists exempt exactly what they name. When no pattern is malformed, applying them succeeds for
  results that belong to the images, keeps every status, owner and reason, and marks a result exactly if
  it was marked before or some image, registry or signer pattern matches one of its candidate strings.
\<close>
theorem Apply_exempts_exactly:
  assumes "length images = length results" and "\<forall>p c. \<not> isl (glob p c)"
  shows "\<exists>updated. Apply glob m images results = Inr updated \<and> length updated = length results \<and>
    (\<forall>i < length results.
       rs_allowlisted (updated ! i) = (rs_allowlisted (results ! i) \<or> exempt glob m (images ! i) (results ! i)) \<and>
       rs_status (updated ! i) = rs_status (results ! i) \<and> rs_owners (updated ! i) = rs_owners (results ! i) \<and>
       rs_reason (updated ! i) = rs_reason (results ! i))"
proof -
  have "\<exists>rs. applyLoop glob m (zip images results) = Inr rs"
    using applyLoop_total allow_match_total [OF assms(2)] by fastforce
  then obtain updated where u: "Apply glob m images results = Inr updated" using assms(1) by (auto simp: Apply_def)
  show ?thesis
  proof (intro exI conjI allI impI)
    fix i assume i: "i < length results"
    obtain found where f: "allow_match glob m (images ! i) (results ! i) = Inr found"
      "updated ! i = markAllowlisted found (results ! i)" using Apply_nth [OF u i] by blast
    show "rs_allowlisted (updated ! i) = (rs_allowlisted (results ! i) \<or> exempt glob m (images ! i) (results ! i))"
      using f(2) allow_match_Inr [OF f(1)] by simp
    show "rs_status (updated ! i) = rs_status (results ! i)" "rs_owners (updated ! i) = rs_owners (results ! i)"
      "rs_reason (updated ! i) = rs_reason (results ! i)" using f(2) by simp_all
  qed (use u Apply_length in auto)
qed

definition demoGlob :: glob_fn where
  "demoGlob p s = Inr (p = s)"

definition demoMatcher :: AllowlistMatcher where
  "demoMatcher = NewAllowlistMatcher [] [''ghcr.io''] []"

definition demoResult :: ImageTrustResult where
  "demoResult = imageTrustResultFromError demoImage ''timeout''"

theorem Apply_exempts_exactly_witness:
  "\<exists>r. Apply demoGlob demoMatcher [demoImage] [demoResult] = Inr [r] \<and> rs_allowlisted r \<and> rs_status r = StatusVerificationError"
proof -
  have ex: "exempt demoGlob demoMatcher demoImage demoResult"
  proof -
    have "registryFromReference (im_name demoImage) = ''ghcr.io''" by code_simp
    then show ?thesis
      by (auto simp: exempt_def matchesSome_def demoGlob_def demoMatcher_def NewAllowlistMatcher_def registryCandidates_def)
  qed
  obtain updated where u: "Apply demoGlob demoMatcher [demoImage] [demoResult] = Inr updated" "length updated = 1"
    "rs_allowlisted (updated ! 0)" "rs_status (updated ! 0) = rs_status demoResult"
    using Apply_exempts_exactly [of "[demoImage]" "[demoResult]" demoGlob demoMatcher] ex
    by (auto simp: demoGlob_def)
  then obtain r where "updated = [r]" by (cases updated) auto
  with u show ?thesis by (simp add: demoResult_def imageTrustResultFromError_def)
qed

section \<open>What the report says\<close>

definition statusCount :: "Status \<Rightarrow> ImageTrustResult list \<Rightarrow> int" where
  "statusCount st rs = int (length (filter (\<lambda>r. rs_status r = st) rs))"

definition needsFinding :: "ImageTrustResult \<Rightarrow> bool" where
  "needsFinding r \<longleftrightarrow> \<not> rs_allowlisted r \<and> rs_status r \<noteq> StatusVerified"

lemma buildLoop_findings:
  "snd (buildLoop rs su fs) = fs @ concat (map (\<lambda>r. map (\<lambda>owner. buildFinding owner r) (rs_owners r)) (filter needsFinding rs))"
  by (induction rs arbitrary: su fs) (auto simp: Let_def needsFinding_def)

lemma buildLoop_summary: "fst (buildLoop rs su fs) = fold incrementSummary rs su"
  by (induction rs arbitrary: su fs) (auto simp: Let_def)

lemma fold_incrementSummary:
  "fold incrementSummary rs su = su\<lparr>
     su_verified := su_verified su + statusCount StatusVerified rs,
     su_unsigned := su_unsigned su + statusCount StatusUnsigned rs,
     su_signedUntrusted := su_signedUntrusted su + statusCount StatusSignedUntrusted rs,
     su_verificationError := su_verificationError su + statusCount StatusVerificationError rs,
     su_unknown := su_unknown su + statusCount StatusUnknown rs,
     su_allowlisted := su_allowlisted su + int (length (filter rs_allowlisted rs))\<rparr>"
proof (induction rs arbitrary: su)
  case Nil
  then show ?case by (simp add: statusCount_def)
next
  case (Cons r rs)
  show ?case
    unfolding fold_simps comp_apply Cons.IH
    by (cases "rs_status r"; cases "rs_allowlisted r") (simp_all add: incrementSummary_def statusCount_def Let_def)
qed

lemma statusCount_sum:
  "(\<Sum>st \<leftarrow> [StatusVerified, StatusUnsigned, StatusSignedUntrusted, StatusVerificationError, StatusUnknown, StatusNone].
     statusCount st rs) = int (length rs)"
proof (induction rs)
  case (Cons r rs)
  then show ?case by (cases "rs_status r") (simp_all add: statusCount_def)
qed (simp add: statusCount_def)

lemma Build_fields:
  "rt_findings (Build rs pol) =
     concat (map (\<lambda>r. map (\<lambda>owner. buildFinding owner r) (rs_owners r)) (filter needsFinding rs))"
  "rt_images (Build rs pol) = rs" "rt_policy (Build rs pol) = pol"
  "rt_summary (Build rs pol) = fold incrementSummary rs (zeroSummary\<lparr>su_totalImages := int (length rs)\<rparr>)"
  using buildLoop_findings [of rs "zeroSummary\<lparr>su_totalImages := int (length rs)\<rparr>" "[]"]
    buildLoop_summary [of rs "zeroSummary\<lparr>su_totalImages := int (length rs)\<rparr>" "[]"]
  by (simp_all add: Build_def case_prod_beta)

text \<open>
  The report is complete and consistent. A finding names an owner exactly when the owner runs an image
  that is neither allowlisted nor verified; its severity is high exactly for unsigned and untrusted
  images; and the five status counts of the summary add up to the number of images when every image
  has one of the five statuses.
\<close>
theorem Build_report:
  assumes "report = Build rs pol" and "\<forall>r \<in> set rs. rs_status r \<noteq> StatusNone"
  shows "(\<forall>f. f \<in> set (rt_findings report) \<longleftrightarrow>
            (\<exists>r \<in> set rs. \<exists>owner \<in> set (rs_owners r). \<not> rs_allowlisted r \<and> rs_status r \<noteq> StatusVerified \<and> f = buildFinding owner r)) \<and>
    (\<forall>r owner. fi_severity (buildFinding owner r) = nonCompliantSeverity \<longleftrightarrow>
       rs_status r = StatusUnsigned \<or> rs_status r = StatusSignedUntrusted) \<and>
    su_totalImages (rt_summary report) = su_verified (rt_summary report) + su_unsigned (rt_summary report) +
      su_signedUntrusted (rt_summary report) + su_verificationError (rt_summary report) + su_unknown (rt_summary report)"
proof (intro conjI)
  show "\<forall>f. f \<in> set (rt_findings report) \<longleftrightarrow>
      (\<exists>r \<in> set rs. \<exists>owner \<in> set (rs_owners r). \<not> rs_allowlisted r \<and> rs_status r \<noteq> StatusVerified \<and> f = buildFinding owner r)"
    unfolding assms(1) Build_fields by (auto simp: needsFinding_def)
  show "\<forall>r owner. fi_severity (buildFinding owner r) = nonCompliantSeverity \<longleftrightarrow>
      rs_status r = StatusUnsigned \<or> rs_status r = StatusSignedUntrusted"
    by (auto simp: buildFinding_def detailsForStatus_def Let_def nonCompliantSeverity_def verificationErrorSeverity_def
        split: Status.splits)
  have "statusCount StatusNone rs = 0" using assms(2) by (auto simp: statusCount_def filter_empty_conv)
  with statusCount_sum [of rs]
  show "su_totalImages (rt_summary report) = su_verified (rt_summary report) + su_unsigned (rt_summary report) +
      su_signedUntrusted (rt_summary report) + su_verificationError (rt_summary report) + su_unknown (rt_summary report)"
    unfolding assms(1) Build_fields fold_incrementSummary by (simp add: zeroSummary_def)
qed

definition demoResource :: Resource where
  "demoResource = \<lparr>re_name = ''api'', re_kind = ''Deployment'', re_namespace = ''prod'', re_container = ''main''\<rparr>"

theorem Build_report_witness:
  "buildFinding demoResource (demoResult\<lparr>rs_owners := [demoResource]\<rparr>)
     \<in> set (rt_findings (Build [demoResult\<lparr>rs_owners := [demoResource]\<rparr>] (PolicyFromAllowlists None None None)))"
  using Build_report [OF refl, of "[demoResult\<lparr>rs_owners := [demoResource]\<rparr>]" "PolicyFromAllowlists None None None"]
  by (simp add: demoResult_def imageTrustResultFromError_def)

text \<open>
  \<^verbatim>\<open>PolicyFromAllowlists\<close> replaces nil lists by empty ones, so that the report has arrays for them, but
  copies them with an append to a nil slice: a list without patterns is nil again in the report, and
  \<^verbatim>\<open>null\<close> in its JSON, whether it was nil or empty.
\<close>
theorem empty_allowlists_are_nil:
  assumes "images \<in> {None, Some []}"
  shows "ap_images (rp_allowlists (PolicyFromAllowlists images registries signers)) = None"
  using assms by (auto simp: PolicyFromAllowlists_def appendToNil_def Let_def)

theorem empty_allowlists_are_nil_witness:
  "ap_images (rp_allowlists (PolicyFromAllowlists (Some []) None None)) = None"
  by (rule empty_allowlists_are_nil) simp

end
