(* ===== verification/Trust_Discovery.thy ===== *)
theory Trust_Discovery
  imports Trust_Models "HOL-Library.AList"
begin

text \<open>
  Discovery of the images in use (\<^verbatim>\<open>image-trust/pkg/discovery\<close>) and the resolution of tags to digests
  (\<^verbatim>\<open>pkg/registry/resolve.go\<close>, \<^verbatim>\<open>pkg/resolve\<close>). The answers of the Kubernetes API and of the registry are
  arguments. The maps of the source are association lists in the order of insertion; the order in which
  Go ranges over them is not specified, so the results are stated as sets.
\<close>

section \<open>What the Kubernetes API returns\<close>

record ContainerStatus =
  ct_name :: string
  ct_image :: string
  ct_imageID :: string

record KubePod =
  kp_namespace :: string
  kp_name :: string
  kp_phase :: string
  kp_controllers :: "bool option list" \<comment> \<open>the field \<^verbatim>\<open>Controller\<close> of each owner reference\<close>
  kp_containerStatuses :: "ContainerStatus list"
  kp_initContainerStatuses :: "ContainerStatus list"
  kp_ephemeralContainerStatuses :: "ContainerStatus list"

record TopController =
  tc_namespace :: string
  tc_kind :: string
  tc_name :: string
  tc_pods :: "KubePod option list" \<comment> \<open>\<open>None\<close>: the object is not a pod\<close>

record Job =
  jb_namespace :: string
  jb_name :: string
  jb_active :: int
  jb_pods :: "(string + KubePod list) option" \<comment> \<open>\<open>None\<close>: no valid selector; otherwise the list call\<close>

record Cluster =
  cu_controllers :: "string + TopController list"
  cu_namespaces :: "string + string list"
  cu_runningPods :: "string \<Rightarrow> string + KubePod list"
  cu_jobs :: "string \<Rightarrow> string + Job list"

section \<open>Discovery\<close>

definition namespaceIsBlocked :: "string \<Rightarrow> string list \<Rightarrow> string list \<Rightarrow> bool" where
  "namespaceIsBlocked ns blocklist allowlist =
     (if list_ex (\<lambda>b. ns = b) blocklist then True
      else if allowlist = [] then False
      else if list_ex (\<lambda>a. ns = a) allowlist then False
      else True)"

definition podKey :: "string \<Rightarrow> string \<Rightarrow> string" where
  "podKey ns name = ns @ ''/'' @ name"

definition containerStatusesFromPod :: "KubePod \<Rightarrow> ContainerStatus list" where
  "containerStatusesFromPod pod =
     kp_containerStatuses pod @ kp_initContainerStatuses pod @ kp_ephemeralContainerStatuses pod"

definition hasControllerOwner :: "bool option list \<Rightarrow> bool" where
  "hasControllerOwner owners = list_ex (\<lambda>o'. o' = Some True) owners"

definition jobHasActivePods :: "Job \<Rightarrow> bool" where
  "jobHasActivePods job \<longleftrightarrow> jb_active job > 0"

record Discovery =
  di_images :: "(string \<times> DiscoveredImage) list" \<comment> \<open>\<^verbatim>\<open>keyToImage\<close>\<close>
  di_owners :: "(string \<times> Resource list) list" \<comment> \<open>\<^verbatim>\<open>imageOwners\<close>, each a set without duplicates\<close>
  di_seen :: "string list" \<comment> \<open>\<^verbatim>\<open>seenPods\<close>\<close>

definition markPodSeen :: "string \<Rightarrow> string \<Rightarrow> Discovery \<Rightarrow> Discovery" where
  "markPodSeen ns name d = d\<lparr>di_seen := List.insert (podKey ns name) (di_seen d)\<rparr>"

definition dockerIOPrefix :: string where "dockerIOPrefix = ''index.docker.io/''"

text \<open>The image that \<^verbatim>\<open>recordContainerImage\<close> reads off a container status.\<close>

definition imageOfStatus :: "ContainerStatus \<Rightarrow> DiscoveredImage" where
  "imageOfStatus st =
     (let imageID = TrimPrefix (ct_imageID st) ''docker-pullable://'';
          imageName = (if HasPrefix (ct_image st) ''sha256'' then imageID else ct_image st);
          pullRef = (if imageID = '''' \<or> HasPrefix imageID ''sha256:'' then imageName else imageID)
      in \<lparr>im_name = TrimPrefix imageName dockerIOPrefix, im_id = TrimPrefix imageID dockerIOPrefix,
          im_pullRef = pullRef, im_owners = [], im_digestResolveError = ''''\<rparr>)"

definition imageKey :: "DiscoveredImage \<Rightarrow> string" where
  "imageKey img = im_name img @ ''/'' @ im_id img"

definition recordContainerImage :: "ContainerStatus \<Rightarrow> Resource \<Rightarrow> Discovery \<Rightarrow> Discovery" where
  "recordContainerImage st owner d =
     (let img = imageOfStatus st; key = imageKey img; owner' = owner\<lparr>re_container := ct_name st\<rparr>;
          owners = (case map_of (di_owners d) key of None \<Rightarrow> [] | Some os \<Rightarrow> os);
          d1 = d\<lparr>di_owners := AList.update key (List.insert owner' owners) (di_owners d)\<rparr>
      in case map_of (di_images d1) key of
           Some _ \<Rightarrow> d1
         | None \<Rightarrow> d1\<lparr>di_images := AList.update key img (di_images d1)\<rparr>)"

definition recordPod :: "Resource \<Rightarrow> KubePod \<Rightarrow> Discovery \<Rightarrow> Discovery" where
  "recordPod owner pod d =
     fold (\<lambda>st. recordContainerImage st owner) (containerStatusesFromPod pod)
       (markPodSeen (kp_namespace pod) (kp_name pod) d)"

definition tcOwner :: "TopController \<Rightarrow> Resource" where
  "tcOwner tc = \<lparr>re_name = tc_name tc, re_kind = tc_kind tc, re_namespace = tc_namespace tc, re_container = ''''\<rparr>"

definition recordController :: "string list \<Rightarrow> string list \<Rightarrow> TopController \<Rightarrow> Discovery \<Rightarrow> Discovery" where
  "recordController blocklist allowlist tc d =
     (if namespaceIsBlocked (ToLower (tc_namespace tc)) blocklist allowlist then d
      else fold (recordPod (tcOwner tc)) (List.map_filter (\<lambda>p. p) (tc_pods tc)) d)"

definition orphanOwner :: "KubePod \<Rightarrow> Resource" where
  "orphanOwner pod = \<lparr>re_name = kp_name pod, re_kind = ''Pod'', re_namespace = kp_namespace pod, re_container = ''''\<rparr>"

definition recordOrphan :: "KubePod \<Rightarrow> Discovery \<Rightarrow> Discovery" where
  "recordOrphan pod d =
     (if podKey (kp_namespace pod) (kp_name pod) \<in> set (di_seen d) then d
      else if hasControllerOwner (kp_controllers pod) then d
      else recordPod (orphanOwner pod) pod d)"

fun recordOrphanPods :: "Cluster \<Rightarrow> string list \<Rightarrow> Discovery \<Rightarrow> string + Discovery" where
  "recordOrphanPods cl [] d = Inr d"
| "recordOrphanPods cl (ns # nss) d =
     (case cu_runningPods cl ns of
        Inl err \<Rightarrow> Inl (''listing pods in namespace '' @ ns @ '': '' @ err)
      | Inr pods \<Rightarrow> recordOrphanPods cl nss (fold recordOrphan pods d))"

definition jobOwner :: "Job \<Rightarrow> Resource" where
  "jobOwner job = \<lparr>re_name = jb_name job, re_kind = ''Job'', re_namespace = jb_namespace job, re_container = ''''\<rparr>"

fun recordJobs :: "string \<Rightarrow> Job list \<Rightarrow> Discovery \<Rightarrow> string + Discovery" where
  "recordJobs ns [] d = Inr d"
| "recordJobs ns (job # jobs) d =
     (if \<not> jobHasActivePods job then recordJobs ns jobs d
      else case jb_pods job of
             None \<Rightarrow> recordJobs ns jobs d
           | Some (Inl err) \<Rightarrow> Inl (''listing job pods in namespace '' @ ns @ '': '' @ err)
           | Some (Inr pods) \<Rightarrow>
               recordJobs ns jobs (fold (recordPod (jobOwner job)) (filter (\<lambda>p. kp_phase p = ''Running'') pods) d))"

fun recordJobPods :: "Cluster \<Rightarrow> string list \<Rightarrow> Discovery \<Rightarrow> string + Discovery" where
  "recordJobPods cl [] d = Inr d"
| "recordJobPods cl (ns # nss) d =
     (case cu_jobs cl ns of
        Inl err \<Rightarrow> Inl (''listing jobs in namespace '' @ ns @ '': '' @ err)
      | Inr jobs \<Rightarrow>
          (case recordJobs ns jobs d of Inl err \<Rightarrow> Inl err | Inr d' \<Rightarrow> recordJobPods cl nss d'))"

definition listScopedNamespaces :: "Cluster \<Rightarrow> string list \<Rightarrow> string list \<Rightarrow> string + string list" where
  "listScopedNamespaces cl allowlist blocklist =
     (if allowlist \<noteq> []
      then Inr (filter (\<lambda>ns. \<not> namespaceIsBlocked (ToLower ns) blocklist allowlist) allowlist)
      else case cu_namespaces cl of
             Inl err \<Rightarrow> Inl (''listing namespaces: '' @ err)
           | Inr nss \<Rightarrow> Inr (filter (\<lambda>ns. \<not> namespaceIsBlocked (ToLower ns) blocklist allowlist) nss))"

definition discoveredImages :: "Discovery \<Rightarrow> DiscoveredImage list" where
  "discoveredImages d =
     map (\<lambda>(key, img). case map_of (di_owners d) key of None \<Rightarrow> img | Some os \<Rightarrow> img\<lparr>im_owners := os\<rparr>) (di_images d)"

definition ListImages :: "Cluster \<Rightarrow> string list \<Rightarrow> string list \<Rightarrow> string + DiscoveredImage list" where
  "ListImages cl blocklist allowlist =
     (case cu_controllers cl of
        Inl err \<Rightarrow> Inl (''could not retrieve top controllers with pods: '' @ err)
      | Inr controllers \<Rightarrow>
          let d1 = fold (recordController blocklist allowlist) controllers \<lparr>di_images = [], di_owners = [], di_seen = []\<rparr> in
          (case listScopedNamespaces cl allowlist blocklist of
             Inl err \<Rightarrow> Inl err
           | Inr nss \<Rightarrow>
               (case recordOrphanPods cl nss d1 of
                  Inl err \<Rightarrow> Inl err
                | Inr d2 \<Rightarrow>
                    (case recordJobPods cl nss d2 of
                       Inl err \<Rightarrow> Inl err
                     | Inr d3 \<Rightarrow> Inr (discoveredImages d3)))))"

section \<open>Digests\<close>

definition tagReference :: "DiscoveredImage \<Rightarrow> string" where
  "tagReference img =
     (case find (\<lambda>c. c \<noteq> '''' \<and> \<not> Contains c ''@sha256:'' \<and> \<not> HasPrefix c ''sha256:'')
             (map TrimSpace [im_name img, im_pullRef img]) of
        Some c \<Rightarrow> c | None \<Rightarrow> '''')"

text \<open>\<open>registry\<close> is the lookup of the manifest digest for a reference in a registry.\<close>

definition ResolveDigest :: "(string \<Rightarrow> string + string) \<Rightarrow> (string \<times> string) list \<Rightarrow> DiscoveredImage \<Rightarrow> string + string" where
  "ResolveDigest registry mirrors img =
     (if tagReference img = '''' then Inl (''image '' @ im_name img @ '' is not a tag reference'')
      else registry (RemapMirror (tagReference img) mirrors))"

definition EnrichDigest :: "(string \<Rightarrow> string + string) \<Rightarrow> (string \<times> string) list \<Rightarrow> DiscoveredImage \<Rightarrow> DiscoveredImage" where
  "EnrichDigest registry mirrors img =
     (if image_VerificationReference img \<noteq> '''' then img
      else if tagReference img = '''' then img
      else case ResolveDigest registry mirrors img of
             Inl err \<Rightarrow> img\<lparr>im_digestResolveError :=
               ''registry digest lookup failed for '' @ tagReference img @ '': '' @ err\<rparr>
           | Inr digestRef \<Rightarrow>
               img\<lparr>im_id := digestRef,
                   im_pullRef := (if im_pullRef img = '''' \<or> \<not> Contains (im_pullRef img) ''@sha256:''
                                  then digestRef else im_pullRef img)\<rparr>)"

text \<open>\<^verbatim>\<open>resolve.Images\<close>: the goroutines write disjoint elements.\<close>

definition resolveImages :: "(string \<Rightarrow> string + string) \<Rightarrow> (string \<times> string) list \<Rightarrow> bool \<Rightarrow> DiscoveredImage list \<Rightarrow>
    DiscoveredImage list" where
  "resolveImages registry mirrors enabled images =
     (if \<not> enabled \<or> images = [] then images else map (EnrichDigest registry mirrors) images)"

section \<open>The records of a discovery\<close>

definition disc_ok :: "Discovery \<Rightarrow> bool" where
  "disc_ok d \<longleftrightarrow> distinct (map fst (di_images d)) \<and> dom (map_of (di_images d)) = dom (map_of (di_owners d)) \<and>
     (\<forall>k img. map_of (di_images d) k = Some img \<longrightarrow> imageKey img = k)"

text \<open>The pairs of an image key and an owner that have been recorded.\<close>

definition records :: "Discovery \<Rightarrow> (string \<times> Resource) set" where
  "records d = {(k, ow). \<exists>os. map_of (di_owners d) k = Some os \<and> ow \<in> set os}"

definition statusRecord :: "Resource \<Rightarrow> ContainerStatus \<Rightarrow> string \<times> Resource" where
  "statusRecord owner st = (imageKey (imageOfStatus st), owner\<lparr>re_container := ct_name st\<rparr>)"

definition podRecords :: "Resource \<Rightarrow> KubePod \<Rightarrow> (string \<times> Resource) set" where
  "podRecords owner pod = statusRecord owner ` set (containerStatusesFromPod pod)"

lemma markPodSeen_simps [simp]:
  "disc_ok (markPodSeen ns n d) = disc_ok d" "records (markPodSeen ns n d) = records d"
  by (simp_all add: markPodSeen_def disc_ok_def records_def)

lemma recordContainerImage_ok: "disc_ok d \<Longrightarrow> disc_ok (recordContainerImage st owner d)"
  by (auto simp: recordContainerImage_def disc_ok_def Let_def update_conv' imageKey_def
      split: option.splits if_splits intro!: distinct_update)

lemma recordContainerImage_records:
  "records (recordContainerImage st owner d) = insert (statusRecord owner st) (records d)"
  by (auto simp: recordContainerImage_def records_def statusRecord_def Let_def update_conv'
      split: option.splits if_splits)

lemma recordStatuses_records:
  "records (fold (\<lambda>st. recordContainerImage st owner) sts d) = records d \<union> statusRecord owner ` set sts"
  by (induction sts arbitrary: d) (auto simp: recordContainerImage_records)

lemma recordPod_records: "records (recordPod owner pod d) = records d \<union> podRecords owner pod"
  by (simp add: recordPod_def podRecords_def recordStatuses_records)

lemma recordStatuses_ok: "disc_ok d \<Longrightarrow> disc_ok (fold (\<lambda>st. recordContainerImage st owner) sts d)"
  by (induction sts arbitrary: d) (auto intro: recordContainerImage_ok)

lemma recordPod_ok: "disc_ok d \<Longrightarrow> disc_ok (recordPod owner pod d)"
  unfolding recordPod_def by (rule recordStatuses_ok) simp

lemma recordPods_records: "records (fold (recordPod owner) pods d) = records d \<union> (\<Union>p \<in> set pods. podRecords owner p)"
  by (induction pods arbitrary: d) (auto simp: recordPod_records)

lemma recordPods_ok: "disc_ok d \<Longrightarrow> disc_ok (fold (recordPod owner) pods d)"
  by (induction pods arbitrary: d) (auto intro: recordPod_ok)

definition controllerRecords :: "string list \<Rightarrow> string list \<Rightarrow> TopController \<Rightarrow> (string \<times> Resource) set" where
  "controllerRecords bl al tc =
     (if namespaceIsBlocked (ToLower (tc_namespace tc)) bl al then {}
      else \<Union>p \<in> {p. Some p \<in> set (tc_pods tc)}. podRecords (tcOwner tc) p)"

lemma set_map_filter_id: "set (List.map_filter (\<lambda>p. p) ps) = {p. Some p \<in> set ps}"
  by (induction ps) (auto simp: List.map_filter_simps split: option.splits)

lemma recordController_one:
  "records (recordController bl al tc d) = records d \<union> controllerRecords bl al tc"
  "disc_ok d \<Longrightarrow> disc_ok (recordController bl al tc d)"
  by (auto simp: recordController_def controllerRecords_def recordPods_records set_map_filter_id intro: recordPods_ok)

lemma recordControllers:
  "records (fold (recordController bl al) tcs d) = records d \<union> (\<Union>tc \<in> set tcs. controllerRecords bl al tc)"
  by (induction tcs arbitrary: d) (auto simp: recordController_one)

lemma recordControllers_ok: "disc_ok d \<Longrightarrow> disc_ok (fold (recordController bl al) tcs d)"
  by (induction tcs arbitrary: d) (auto intro: recordController_one)

text \<open>A step that keeps the records and adds owners of the given namespaces only.\<close>

definition extends :: "string set \<Rightarrow> Discovery \<Rightarrow> Discovery \<Rightarrow> bool" where
  "extends nss d d' \<longleftrightarrow> (disc_ok d \<longrightarrow> disc_ok d') \<and> records d \<subseteq> records d' \<and>
     (\<forall>k ow. (k, ow) \<in> records d' \<longrightarrow> (k, ow) \<in> records d \<or> re_namespace ow \<in> nss)"

lemma extends_refl [simp]: "extends nss d d"
  by (simp add: extends_def)

lemma extends_trans: "extends a d d1 \<Longrightarrow> extends b d1 d2 \<Longrightarrow> a \<subseteq> c \<Longrightarrow> b \<subseteq> c \<Longrightarrow> extends c d d2"
  unfolding extends_def by blast

lemma podRecords_namespace: "(k, ow) \<in> podRecords owner p \<Longrightarrow> re_namespace ow = re_namespace owner"
  by (auto simp: podRecords_def statusRecord_def)

lemma recordPods_extends: "re_namespace owner \<in> nss \<Longrightarrow> extends nss d (fold (recordPod owner) pods d)"
  unfolding extends_def recordPods_records by (auto intro: recordPods_ok dest: podRecords_namespace)

lemma recordOrphans_extends:
  "\<forall>p \<in> set pods. kp_namespace p \<in> nss \<Longrightarrow> extends nss d (fold recordOrphan pods d)"
proof (induction pods arbitrary: d)
  case (Cons p pods)
  have "extends nss d (recordOrphan p d)"
    using Cons.prems recordPods_extends [of "orphanOwner p" nss d "[p]"]
    by (simp add: recordOrphan_def orphanOwner_def)
  moreover have "extends nss (recordOrphan p d) (fold recordOrphan pods (recordOrphan p d))"
    using Cons by simp
  ultimately show ?case by (auto intro: extends_trans)
qed simp

lemma recordOrphanPods_extends:
  assumes "\<And>ns pods p. cu_runningPods cl ns = Inr pods \<Longrightarrow> p \<in> set pods \<Longrightarrow> kp_namespace p = ns"
    and "recordOrphanPods cl nss d = Inr d'"
  shows "extends (set nss) d d'"
  using assms(2)
proof (induction nss arbitrary: d)
  case (Cons ns nss)
  then obtain pods where pods: "cu_runningPods cl ns = Inr pods" "recordOrphanPods cl nss (fold recordOrphan pods d) = Inr d'"
    by (auto split: sum.splits)
  have "extends {ns} d (fold recordOrphan pods d)"
    using assms(1) [OF pods(1)] by (intro recordOrphans_extends) auto
  from extends_trans [OF this Cons.IH [OF pods(2)]] show ?case by auto
qed simp

lemma recordJobs_extends:
  assumes "\<forall>job \<in> set jobs. jb_namespace job = ns" and "recordJobs ns' jobs d = Inr d'"
  shows "extends {ns} d d'"
  using assms
proof (induction jobs arbitrary: d)
  case (Cons job jobs)
  consider "recordJobs ns' jobs d = Inr d'"
    | pods where "recordJobs ns' jobs (fold (recordPod (jobOwner job)) (filter (\<lambda>p. kp_phase p = ''Running'') pods) d) = Inr d'"
    using Cons.prems(2) by (auto split: if_splits option.splits sum.splits)
  then show ?case
  proof cases
    case 1
    with Cons show ?thesis by simp
  next
    case 2
    have "extends {ns} d (fold (recordPod (jobOwner job)) (filter (\<lambda>p. kp_phase p = ''Running'') pods) d)"
      using Cons.prems(1) by (intro recordPods_extends) (simp add: jobOwner_def)
    from extends_trans [OF this Cons.IH [OF _ 2]] Cons.prems(1) show ?thesis by auto
  qed
qed simp

lemma recordJobPods_extends:
  assumes "\<And>ns jobs job. cu_jobs cl ns = Inr jobs \<Longrightarrow> job \<in> set jobs \<Longrightarrow> jb_namespace job = ns"
    and "recordJobPods cl nss d = Inr d'"
  shows "extends (set nss) d d'"
  using assms(2)
proof (induction nss arbitrary: d)
  case (Cons ns nss)
  then obtain jobs d1 where j: "cu_jobs cl ns = Inr jobs" "recordJobs ns jobs d = Inr d1" "recordJobPods cl nss d1 = Inr d'"
    by (auto split: sum.splits)
  have "extends {ns} d d1" using assms(1) [OF j(1)] by (intro recordJobs_extends [OF _ j(2)]) auto
  from extends_trans [OF this Cons.IH [OF j(3)]] show ?case by auto
qed simp

lemma discoveredImages_owner_iff:
  assumes "disc_ok d"
  shows "(\<exists>img \<in> set (discoveredImages d). imageKey img = k \<and> ow \<in> set (im_owners img)) \<longleftrightarrow> (k, ow) \<in> records d"
proof -
  let ?own = "\<lambda>(key, img). case map_of (di_owners d) key of None \<Rightarrow> img | Some os \<Rightarrow> img\<lparr>im_owners := os\<rparr>"
  have key: "imageKey img = k'" "\<exists>os. map_of (di_owners d) k' = Some os" if "(k', img) \<in> set (di_images d)" for k' img
    using that assms by (auto simp: disc_ok_def)
  have K: "imageKey (img\<lparr>im_owners := os\<rparr>) = imageKey img" for img os by (simp add: imageKey_def)
  show ?thesis
  proof
    assume "\<exists>img \<in> set (discoveredImages d). imageKey img = k \<and> ow \<in> set (im_owners img)"
    then obtain k' img where i: "(k', img) \<in> set (di_images d)" "imageKey (?own (k', img)) = k" "ow \<in> set (im_owners (?own (k', img)))"
      by (auto simp: discoveredImages_def)
    obtain os where os: "map_of (di_owners d) k' = Some os" using key(2) [OF i(1)] by blast
    with i K key(1) [OF i(1)] show "(k, ow) \<in> records d" by (auto simp: records_def)
  next
    assume "(k, ow) \<in> records d"
    then obtain os where os: "map_of (di_owners d) k = Some os" "ow \<in> set os" by (auto simp: records_def)
    then have "k \<in> dom (map_of (di_images d))" using assms unfolding disc_ok_def by blast
    then obtain img where "map_of (di_images d) k = Some img" by blast
    then have mem: "(k, img) \<in> set (di_images d)" by (rule map_of_SomeD)
    have "?own (k, img) = img\<lparr>im_owners := os\<rparr>" using os(1) by simp
    moreover from mem have "?own (k, img) \<in> set (discoveredImages d)"
      unfolding discoveredImages_def set_map by (rule imageI)
    ultimately have "img\<lparr>im_owners := os\<rparr> \<in> set (discoveredImages d)" by simp
    moreover have "imageKey (img\<lparr>im_owners := os\<rparr>) = k" using K key(1) [OF mem] by simp
    ultimately show "\<exists>img \<in> set (discoveredImages d). imageKey img = k \<and> ow \<in> set (im_owners img)"
      using os(2) by (intro bexI [of _ "img\<lparr>im_owners := os\<rparr>"]) simp_all
  qed
qed

section \<open>Properties\<close>

text \<open>
  Discovery is complete for workloads and keeps to its namespaces. When the API lists the pods and jobs of
  the namespace it is asked for, every container of every pod of a workload in a namespace in scope
  contributes its image with the workload and the container as an owner, and no owner of any image
  that is found lives in a namespace that is blocked.
\<close>
theorem ListImages_scope:
  assumes "ListImages cl bl al = Inr imgs" and "cu_controllers cl = Inr tcs"
    and "\<And>ns pods p. cu_runningPods cl ns = Inr pods \<Longrightarrow> p \<in> set pods \<Longrightarrow> kp_namespace p = ns"
    and "\<And>ns jobs job. cu_jobs cl ns = Inr jobs \<Longrightarrow> job \<in> set jobs \<Longrightarrow> jb_namespace job = ns"
  shows "(\<forall>tc \<in> set tcs. \<not> namespaceIsBlocked (ToLower (tc_namespace tc)) bl al \<longrightarrow>
            (\<forall>p. Some p \<in> set (tc_pods tc) \<longrightarrow> (\<forall>st \<in> set (containerStatusesFromPod p).
               \<exists>img \<in> set imgs. imageKey img = imageKey (imageOfStatus st) \<and>
                 (tcOwner tc)\<lparr>re_container := ct_name st\<rparr> \<in> set (im_owners img)))) \<and>
    (\<forall>img \<in> set imgs. \<forall>ow \<in> set (im_owners img). \<not> namespaceIsBlocked (ToLower (re_namespace ow)) bl al)"
proof -
  let ?d0 = "\<lparr>di_images = [], di_owners = [], di_seen = []\<rparr>"
  define d1 where "d1 = fold (recordController bl al) tcs ?d0"
  obtain nss d2 d3 where n: "listScopedNamespaces cl al bl = Inr nss" and d2: "recordOrphanPods cl nss d1 = Inr d2"
    and d3: "recordJobPods cl nss d2 = Inr d3" and imgs: "imgs = discoveredImages d3"
    using assms(1,2) by (auto simp: ListImages_def d1_def Let_def split: sum.splits)
  have scoped: "\<not> namespaceIsBlocked (ToLower ns) bl al" if "ns \<in> set nss" for ns
    using n that by (auto simp: listScopedNamespaces_def split: if_splits sum.splits)
  have d0: "disc_ok ?d0" "records ?d0 = {}" by (simp_all add: disc_ok_def records_def)
  have r1: "disc_ok d1" "records d1 = (\<Union>tc \<in> set tcs. controllerRecords bl al tc)"
    unfolding d1_def recordControllers d0(2) using recordControllers_ok [OF d0(1)] by simp_all
  have ext: "extends (set nss) d1 d3"
    using extends_trans [OF recordOrphanPods_extends [OF assms(3) d2] recordJobPods_extends [OF assms(4) d3]] by simp
  have found: "(\<exists>img \<in> set imgs. imageKey img = k \<and> ow \<in> set (im_owners img)) \<longleftrightarrow> (k, ow) \<in> records d3" for k ow
    unfolding imgs by (rule discoveredImages_owner_iff) (use ext r1(1) in \<open>simp add: extends_def\<close>)
  have tcns: "\<not> namespaceIsBlocked (ToLower (re_namespace ow)) bl al" if "(k, ow) \<in> controllerRecords bl al tc" for k ow tc
    using that by (auto simp: controllerRecords_def podRecords_def statusRecord_def tcOwner_def split: if_splits)
  have "\<not> namespaceIsBlocked (ToLower (re_namespace ow)) bl al" if "img \<in> set imgs" "ow \<in> set (im_owners img)" for img ow
  proof -
    have m: "(imageKey img, ow) \<in> records d3" using found that by blast
    then consider "(imageKey img, ow) \<in> records d1" | "re_namespace ow \<in> set nss" using ext unfolding extends_def by blast
    then show ?thesis using r1(2) tcns scoped by cases auto
  qed
  moreover have "\<exists>img \<in> set imgs. imageKey img = imageKey (imageOfStatus st) \<and> (tcOwner tc)\<lparr>re_container := ct_name st\<rparr> \<in> set (im_owners img)"
    if "tc \<in> set tcs" "\<not> namespaceIsBlocked (ToLower (tc_namespace tc)) bl al" "Some p \<in> set (tc_pods tc)"
      "st \<in> set (containerStatusesFromPod p)" for tc p st
  proof -
    have "statusRecord (tcOwner tc) st \<in> records d1"
      unfolding r1(2) using that by (auto simp: controllerRecords_def podRecords_def)
    then show ?thesis using found ext unfolding extends_def statusRecord_def by blast
  qed
  ultimately show ?thesis by blast
qed

definition demoStatus :: ContainerStatus where
  "demoStatus = \<lparr>ct_name = ''main'', ct_image = ''index.docker.io/library/nginx:1.25'',
     ct_imageID = ''docker-pullable://index.docker.io/library/nginx@sha256:abc''\<rparr>"

definition demoKubePod :: KubePod where
  "demoKubePod = \<lparr>kp_namespace = ''prod'', kp_name = ''web-1'', kp_phase = ''Running'', kp_controllers = [Some True],
     kp_containerStatuses = [demoStatus], kp_initContainerStatuses = [], kp_ephemeralContainerStatuses = []\<rparr>"

definition demoController :: TopController where
  "demoController = \<lparr>tc_namespace = ''prod'', tc_kind = ''Deployment'', tc_name = ''web'', tc_pods = [Some demoKubePod]\<rparr>"

definition demoCluster :: Cluster where
  "demoCluster = \<lparr>cu_controllers = Inr [demoController], cu_namespaces = Inr [''prod'', ''kube-system''],
     cu_runningPods = (\<lambda>ns. Inr []), cu_jobs = (\<lambda>ns. Inr [])\<rparr>"

theorem ListImages_scope_witness:
  "\<exists>imgs. ListImages demoCluster [''kube-system''] [] = Inr imgs \<and>
     (\<exists>img \<in> set imgs. imageKey img = ''library/nginx:1.25/library/nginx@sha256:abc'' \<and>
        (tcOwner demoController)\<lparr>re_container := ''main''\<rparr> \<in> set (im_owners img))"
proof -
  have "\<not> isl (ListImages demoCluster [''kube-system''] [])" by code_simp
  then obtain imgs where i: "ListImages demoCluster [''kube-system''] [] = Inr imgs"
    by (cases "ListImages demoCluster [''kube-system''] []") auto
  have "imageKey (imageOfStatus demoStatus) = ''library/nginx:1.25/library/nginx@sha256:abc''" by code_simp
  moreover have "\<not> namespaceIsBlocked (ToLower (tc_namespace demoController)) [''kube-system''] []" by code_simp
  moreover have "ct_name demoStatus = ''main''" by (simp add: demoStatus_def)
  ultimately show ?thesis
    using ListImages_scope [OF i, of "[demoController]"] i
    by (auto simp: demoCluster_def demoController_def demoKubePod_def containerStatusesFromPod_def)
qed

lemma VerificationReference_ignores_error [simp]:
  "image_VerificationReference (img\<lparr>im_digestResolveError := e\<rparr>) = image_VerificationReference img"
  by (simp add: image_VerificationReference_def Let_def)

text \<open>
  Resolving digests never touches an image that already has an immutable reference, never both sets a
  digest and reports an error, and gives an immutable reference to every image whose tag the registry
  resolves, when the registry answers with digest references.
\<close>
theorem EnrichDigest_immutable:
  assumes "\<And>ref d. registry ref = Inr d \<Longrightarrow> Contains d ''@sha256:''"
  shows "(image_VerificationReference img \<noteq> '''' \<longrightarrow> EnrichDigest registry mirrors img = img) \<and>
    (image_VerificationReference img = '''' \<and> tagReference img \<noteq> '''' \<longrightarrow>
       (case registry (RemapMirror (tagReference img) mirrors) of
          Inr d \<Rightarrow> image_VerificationReference (EnrichDigest registry mirrors img) = d \<and>
                  im_digestResolveError (EnrichDigest registry mirrors img) = im_digestResolveError img
        | Inl err \<Rightarrow> image_VerificationReference (EnrichDigest registry mirrors img) = '''' \<and>
                  im_digestResolveError (EnrichDigest registry mirrors img) \<noteq> ''''))"
proof (intro conjI impI)
  show "EnrichDigest registry mirrors img = img" if "image_VerificationReference img \<noteq> ''''"
    using that by (simp add: EnrichDigest_def)
  assume a: "image_VerificationReference img = '''' \<and> tagReference img \<noteq> ''''"
  show "case registry (RemapMirror (tagReference img) mirrors) of
          Inr d \<Rightarrow> image_VerificationReference (EnrichDigest registry mirrors img) = d \<and>
                  im_digestResolveError (EnrichDigest registry mirrors img) = im_digestResolveError img
        | Inl err \<Rightarrow> image_VerificationReference (EnrichDigest registry mirrors img) = '''' \<and>
                  im_digestResolveError (EnrichDigest registry mirrors img) \<noteq> ''''"
  proof (cases "registry (RemapMirror (tagReference img) mirrors)")
    case (Inl err)
    with a show ?thesis by (simp add: EnrichDigest_def ResolveDigest_def)
  next
    case (Inr d)
    with assms have "Contains d ''@sha256:''" by blast
    with a Inr show ?thesis by (simp add: EnrichDigest_def ResolveDigest_def image_VerificationReference_def)
  qed
qed

theorem EnrichDigest_immutable_witness:
  "image_VerificationReference (EnrichDigest (\<lambda>ref. Inr ''docker.io/library/nginx@sha256:abc'') []
     \<lparr>im_name = ''nginx:1.25'', im_id = '''', im_pullRef = '''', im_owners = [], im_digestResolveError = ''''\<rparr>) =
     ''docker.io/library/nginx@sha256:abc''"
proof -
  let ?img = "\<lparr>im_name = ''nginx:1.25'', im_id = '''', im_pullRef = '''', im_owners = [], im_digestResolveError = ''''\<rparr>"
  have "image_VerificationReference ?img = ''''" "tagReference ?img \<noteq> ''''"
    "Contains ''docker.io/library/nginx@sha256:abc'' ''@sha256:''" by code_simp+
  then show ?thesis
    using EnrichDigest_immutable [of "\<lambda>ref. Inr ''docker.io/library/nginx@sha256:abc''" ?img "[]"] by simp
qed

end
