(* ===== verification/Trust_Main.thy ===== *)
theory Trust_Main
  imports Trust_Config Trust_Policy Trust_Discovery
begin

text \<open>
  The program of the image-trust plugin (\<^verbatim>\<open>image-trust/cmd/main.go\<close>): configuration, discovery, digests,
  verification, allowlists and report, and what the report as a whole guarantees. The registry credential
  files that \<^verbatim>\<open>registry.Prepare\<close> writes are part of the world in which cosign and the registry answer.
\<close>

datatype main_error =
  ConfigError config_error | DiscoveryError string | VerifierError string | AllowlistError allow_error

record 'w run_env =
  ru_fs :: file_io
  ru_env :: environment
  ru_cluster :: Cluster
  ru_registry :: "string \<Rightarrow> string + string"
  ru_outside :: "'w outside"
  ru_glob :: glob_fn
  ru_sleep :: "'w \<Rightarrow> string option \<times> 'w"
  ru_start :: "nat \<Rightarrow> string option \<times> 'w" \<comment> \<open>the context and the world that the goroutine of an image finds\<close>
  ru_now :: go_time

definition main_verifyImages :: "'w run_env \<Rightarrow> Config \<Rightarrow> DiscoveredImage list \<Rightarrow> main_error + ImageTrustResult list" where
  "main_verifyImages ru cfg images =
     (case NewVerifier (ru_outside ru) (cf_registryMirrors cfg) cfg of
        Inl err \<Rightarrow> Inl (VerifierError err)
      | Inr v \<Rightarrow>
          let results = VerifyImages (cf_registryMirrors cfg) v (ru_sleep ru) (cf_verifyRetries cfg) (ru_start ru) images in
          (case Apply (ru_glob ru) (NewAllowlistMatcher (cf_imageAllowlist cfg) (cf_registryAllowlist cfg) (cf_signerAllowlist cfg))
                  images results of
             Inl err \<Rightarrow> Inl (AllowlistError err)
           | Inr updated \<Rightarrow> Inr (map (\<lambda>r. r\<lparr>rs_lastCheckedAt := ru_now ru\<rparr>) updated)))"

text \<open>A configured list without entries is nil.\<close>

definition nilIfEmpty :: "string list \<Rightarrow> string list option" where
  "nilIfEmpty xs = (if xs = [] then None else Some xs)"

definition main :: "'w run_env \<Rightarrow> main_error + (Config \<times> DiscoveredImage list \<times> Report)" where
  "main ru =
     (case LoadFromEnvironment (ru_fs ru) (ru_env ru) of
        Inl err \<Rightarrow> Inl (ConfigError err)
      | Inr cfg \<Rightarrow>
          (case ListImages (ru_cluster ru) (cf_namespaceBlocklist cfg) (cf_namespaceAllowlist cfg) of
             Inl err \<Rightarrow> Inl (DiscoveryError err)
           | Inr found \<Rightarrow>
               let images = resolveImages (ru_registry ru) (cf_registryMirrors cfg) (cf_resolveDigests cfg) found in
               (case main_verifyImages ru cfg images of
                  Inl err \<Rightarrow> Inl err
                | Inr results \<Rightarrow>
                    Inr (cfg, images, Build results (PolicyFromAllowlists (nilIfEmpty (cf_imageAllowlist cfg))
                       (nilIfEmpty (cf_registryAllowlist cfg)) (nilIfEmpty (cf_signerAllowlist cfg)))))))"

section \<open>From the report back to the verifier\<close>

definition matcherOf :: "Config \<Rightarrow> AllowlistMatcher" where
  "matcherOf cfg = NewAllowlistMatcher (cf_imageAllowlist cfg) (cf_registryAllowlist cfg) (cf_signerAllowlist cfg)"

lemma VerifyImages_nth [simp]:
  "length (VerifyImages mirrors v sleep retries start images) = length images"
  "i < length images \<Longrightarrow> VerifyImages mirrors v sleep retries start images ! i =
     verifyImage mirrors v sleep retries (fst (start i)) (snd (start i)) (images ! i)"
  by (simp_all add: VerifyImages_def nth_enumerate_eq)

lemma retryLoop_answer:
  "retryLoop v sleep img (Suc n) ob0 w = (Inr ob, w') \<Longrightarrow> \<exists>w1 w2. ve_verify v img w1 = (Inr ob, w2)"
proof (induction n arbitrary: ob0 w)
  case 0
  then show ?case by (auto split: prod.splits sum.splits if_splits)
next
  case (Suc n)
  obtain r w1 where r: "ve_verify v img w = (r, w1)" by force
  with Suc.prems obtain ob1 where ob1: "r = Inr ob1" by (cases r) (auto simp: retryLoop.simps(2))
  show ?case
  proof (cases "ob_status ob1 \<noteq> StatusVerificationError \<or> \<not> IsTransientFailure (ob_reason ob1)")
    case True
    with Suc.prems r ob1 show ?thesis by (auto simp: retryLoop.simps(2))
  next
    case False
    with Suc.prems r ob1 obtain w2 where "retryLoop v sleep img (Suc n) ob1 w2 = (Inr ob, w')"
      by (auto simp: retryLoop.simps(2) [of _ _ _ "Suc n"] split: prod.splits option.splits)
    then show ?thesis by (rule Suc.IH)
  qed
qed

lemma verifyImage_verified:
  assumes "rs_status (verifyImage mirrors v sleep retries ctxErr w img) = StatusVerified"
  shows "Contains (image_VerificationReference img) ''@sha256:''"
    and "\<exists>ob w1 w2. ve_verify v img w1 = (Inr ob, w2) \<and> ob_status ob = StatusVerified \<and>
      rs_signer (verifyImage mirrors v sleep retries ctxErr w img) = ob_signer ob"
proof -
  have pre: "ctxErr = None" "Preflight mirrors img = None"
    using assms by (auto simp: verifyImage_def imageTrustResultFromError_def imageTrustResultFromObservation_def
        Preflight_def zeroObservation_def split: option.splits if_splits)
  then have "creds_VerificationReference mirrors (image_VerificationReference img) \<noteq> ''''"
    by (auto simp: Preflight_def split: if_splits)
  then have "image_VerificationReference img \<noteq> ''''"
    by (auto simp: creds_VerificationReference_def RemapMirror_def)
  then show "Contains (image_VerificationReference img) ''@sha256:''" using VerificationReference_cases [of img] by blast
  obtain r w' where run: "VerifyWithRetries v sleep img retries w = (r, w')" by force
  with assms pre obtain ob where ob: "r = Inr ob" "ob_status ob = StatusVerified"
    by (cases r) (auto simp: verifyImage_def imageTrustResultFromError_def imageTrustResultFromObservation_def)
  have k: "nat (if retries < 1 then 1 else retries) = Suc (nat (max 1 retries - 1))" by auto
  obtain w1 w2 where "ve_verify v img w1 = (Inr ob, w2)"
    using retryLoop_answer run ob(1) unfolding VerifyWithRetries_def k by metis
  moreover have "rs_signer (verifyImage mirrors v sleep retries ctxErr w img) = ob_signer ob"
    using pre run ob(1) by (simp add: verifyImage_def imageTrustResultFromObservation_def)
  ultimately show "\<exists>ob w1 w2. ve_verify v img w1 = (Inr ob, w2) \<and> ob_status ob = StatusVerified \<and>
      rs_signer (verifyImage mirrors v sleep retries ctxErr w img) = ob_signer ob" using ob(2) by blast
qed

lemma verifyImage_owners [simp]:
  "rs_owners (verifyImage mirrors v sleep retries ctxErr w img) = im_owners img"
  "\<not> rs_allowlisted (verifyImage mirrors v sleep retries ctxErr w img)"
  by (auto simp: verifyImage_def imageTrustResultFromError_def imageTrustResultFromObservation_def
      split: option.splits sum.splits)

text \<open>What a finding says about its owner.\<close>

definition names :: "Finding \<Rightarrow> Resource \<Rightarrow> bool" where
  "names f ow \<longleftrightarrow> fi_resourceNamespace f = re_namespace ow \<and> fi_resourceKind f = re_kind ow \<and>
     fi_resourceName f = re_name ow \<and> fi_resourceContainer f = re_container ow"

lemma buildFinding_category: "fi_category (buildFinding ow r) = findingsCategory"
  by (simp add: buildFinding_def split: prod.splits)

lemma buildFinding_names [simp]: "names (buildFinding ow r) ow"
  by (simp add: names_def buildFinding_def split: prod.splits)

lemma main_results:
  assumes "main ru = Inr (cfg, images, report)"
  shows "\<exists>v. LoadFromEnvironment (ru_fs ru) (ru_env ru) = Inr cfg \<and>
    NewVerifier (ru_outside ru) (cf_registryMirrors cfg) cfg = Inr v \<and>
    length (rt_images report) = length images \<and>
    (\<forall>i < length images. \<exists>found.
       let r0 = verifyImage (cf_registryMirrors cfg) v (ru_sleep ru) (cf_verifyRetries cfg)
                  (fst (ru_start ru i)) (snd (ru_start ru i)) (images ! i)
       in allow_match (ru_glob ru) (matcherOf cfg) (images ! i) r0 = Inr found \<and>
          rt_images report ! i = (markAllowlisted found r0)\<lparr>rs_lastCheckedAt := ru_now ru\<rparr>) \<and>
    rt_findings report =
      concat (map (\<lambda>r. map (\<lambda>owner. buildFinding owner r) (rs_owners r)) (filter needsFinding (rt_images report)))"
proof -
  obtain results where load: "LoadFromEnvironment (ru_fs ru) (ru_env ru) = Inr cfg"
    and res: "main_verifyImages ru cfg images = Inr results"
    and rep: "rt_images report = results"
      "rt_findings report = concat (map (\<lambda>r. map (\<lambda>owner. buildFinding owner r) (rs_owners r)) (filter needsFinding results))"
    using assms by (auto simp: main_def Let_def Build_fields split: sum.splits)
  obtain v updated where v: "NewVerifier (ru_outside ru) (cf_registryMirrors cfg) cfg = Inr v"
    and up: "Apply (ru_glob ru) (matcherOf cfg) images
      (VerifyImages (cf_registryMirrors cfg) v (ru_sleep ru) (cf_verifyRetries cfg) (ru_start ru) images) = Inr updated"
    and results: "results = map (\<lambda>r. r\<lparr>rs_lastCheckedAt := ru_now ru\<rparr>) updated"
    using res by (auto simp: main_verifyImages_def matcherOf_def Let_def split: sum.splits)
  have len: "length updated = length images" using Apply_length [OF up] by simp
  have "\<exists>found. let r0 = verifyImage (cf_registryMirrors cfg) v (ru_sleep ru) (cf_verifyRetries cfg)
                  (fst (ru_start ru i)) (snd (ru_start ru i)) (images ! i)
       in allow_match (ru_glob ru) (matcherOf cfg) (images ! i) r0 = Inr found \<and>
          rt_images report ! i = (markAllowlisted found r0)\<lparr>rs_lastCheckedAt := ru_now ru\<rparr>" if "i < length images" for i
    using Apply_nth [OF up, of i] that len rep(1) results by (auto simp: Let_def)
  then show ?thesis using load v rep results len by auto
qed

text \<open>The image at a position of a report: exempt, reported for each of its owners, or verified.\<close>

lemma main_image_cases:
  assumes "main ru = Inr (cfg, images, report)" and "i < length images" and "ow \<in> set (im_owners (images ! i))"
  obtains f where "f \<in> set (rt_findings report)" "names f ow" "fi_category f = findingsCategory"
  | "rs_allowlisted (rt_images report ! i)" "exempt (ru_glob ru) (matcherOf cfg) (images ! i) (rt_images report ! i)"
  | v ob w1 w2 where "NewVerifier (ru_outside ru) (cf_registryMirrors cfg) cfg = Inr v"
      "ve_verify v (images ! i) w1 = (Inr ob, w2)" "ob_status ob = StatusVerified"
      "rs_signer (rt_images report ! i) = ob_signer ob"
      "Contains (image_VerificationReference (images ! i)) ''@sha256:''"
proof -
  let ?img = "images ! i" and ?r = "rt_images report ! i"
  obtain v found where v: "NewVerifier (ru_outside ru) (cf_registryMirrors cfg) cfg = Inr v"
    and len: "length (rt_images report) = length images"
    and m: "allow_match (ru_glob ru) (matcherOf cfg) ?img
      (verifyImage (cf_registryMirrors cfg) v (ru_sleep ru) (cf_verifyRetries cfg) (fst (ru_start ru i)) (snd (ru_start ru i)) ?img) = Inr found"
    and r: "?r = (markAllowlisted found (verifyImage (cf_registryMirrors cfg) v (ru_sleep ru) (cf_verifyRetries cfg)
      (fst (ru_start ru i)) (snd (ru_start ru i)) ?img))\<lparr>rs_lastCheckedAt := ru_now ru\<rparr>"
    and fs: "rt_findings report =
      concat (map (\<lambda>r. map (\<lambda>owner. buildFinding owner r) (rs_owners r)) (filter needsFinding (rt_images report)))"
    using main_results [OF assms(1)] assms(2) by (auto simp: Let_def)
  let ?raw = "verifyImage (cf_registryMirrors cfg) v (ru_sleep ru) (cf_verifyRetries cfg) (fst (ru_start ru i)) (snd (ru_start ru i)) ?img"
  have same: "rs_status ?r = rs_status ?raw" "rs_owners ?r = im_owners ?img" "rs_signer ?r = rs_signer ?raw"
    "exempt (ru_glob ru) (matcherOf cfg) ?img ?r = exempt (ru_glob ru) (matcherOf cfg) ?img ?raw"
    unfolding r by (simp_all add: exempt_def registryCandidates_def signerCandidates_def markAllowlisted_def split: option.splits)
  have "\<not> rs_allowlisted ?raw" by (rule verifyImage_owners)
  then have allow: "rs_allowlisted ?r \<longleftrightarrow> found \<noteq> None" unfolding r by (cases found) (simp_all add: markAllowlisted_def)
  have mem: "?r \<in> set (rt_images report)" using assms(2) len by simp
  consider "needsFinding ?r" | "rs_allowlisted ?r" | "rs_status ?r = StatusVerified" by (auto simp: needsFinding_def)
  then show thesis
  proof cases
    case 1
    then have "buildFinding ow ?r \<in> set (rt_findings report)" unfolding fs using mem same(2) assms(3) by auto
    then show thesis by (rule that(1)) (simp_all add: buildFinding_category)
  next
    case 2
    then show thesis using that(2) same(4) allow allow_match_Inr [OF m] by simp
  next
    case 3
    then have "rs_status ?raw = StatusVerified" using same(1) by simp
    from verifyImage_verified [OF this] show thesis using that(3) v same(3) by metis
  qed
qed

section \<open>Properties\<close>

text \<open>
  C8: No image goes unnoticed. In a run of the plugin that produces a report, every owner of every image is
  named by a finding, unless the image is exempt because a configured allowlist pattern matches it (and it is
  marked so), or the image has a digest-pinned reference and the configured verifier verified it.
\<close>
theorem report_covers_every_owner:
  assumes "main ru = Inr (cfg, images, report)" and "i < length images" and "ow \<in> set (im_owners (images ! i))"
  shows "(\<exists>f \<in> set (rt_findings report). names f ow \<and> fi_category f = findingsCategory) \<or>
    rs_allowlisted (rt_images report ! i) \<and> exempt (ru_glob ru) (matcherOf cfg) (images ! i) (rt_images report ! i) \<or>
    (\<exists>v ob w1 w2. NewVerifier (ru_outside ru) (cf_registryMirrors cfg) cfg = Inr v \<and>
       ve_verify v (images ! i) w1 = (Inr ob, w2) \<and> ob_status ob = StatusVerified \<and>
       Contains (image_VerificationReference (images ! i)) ''@sha256:'')"
  using main_image_cases [OF assms] by metis

definition demoEnvVars :: environment where
  "demoEnvVars = demoEnvOf [(''IMAGE_TRUST_TRUSTED_ISSUERS'', ''https://issuer''), (''IMAGE_TRUST_REGISTRY_ALLOWLIST'', ''quay.io'')]"

definition demoRun :: "nat run_env" where
  "demoRun = \<lparr>ru_fs = demoFs, ru_env = demoEnvVars, ru_cluster = demoCluster, ru_registry = (\<lambda>ref. Inl ''down''),
     ru_outside = demoOutside, ru_glob = demoGlob, ru_sleep = (\<lambda>w. (None, w)), ru_start = (\<lambda>i. (None, 0)), ru_now = 0\<rparr>"

lemma demoRun_report:
  "case main demoRun of
     Inr (cfg, images, report) \<Rightarrow> length images = 1 \<and> im_owners (images ! 0) = [(tcOwner demoController)\<lparr>re_container := ''main''\<rparr>] \<and>
       cf_modes cfg = [ModeCosignKeyless] \<and> cf_trustedIssuers cfg = [''https://issuer''] \<and> cf_trustedSubjects cfg = [] \<and>
       cf_trustedSubjectREs cfg = [] \<and> rt_findings report = [] \<and> \<not> rs_allowlisted (rt_images report ! 0)
   | Inl _ \<Rightarrow> False"
  by code_simp

theorem report_covers_every_owner_witness:
  "\<exists>cfg images report v ob w1 w2. main demoRun = Inr (cfg, images, report) \<and>
     NewVerifier demoOutside (cf_registryMirrors cfg) cfg = Inr v \<and>
     ve_verify v (images ! 0) w1 = (Inr ob, w2) \<and> ob_status ob = StatusVerified"
proof -
  obtain cfg images report where r: "main demoRun = Inr (cfg, images, report)" "length images = 1"
    "im_owners (images ! 0) = [(tcOwner demoController)\<lparr>re_container := ''main''\<rparr>]"
    "rt_findings report = []" "\<not> rs_allowlisted (rt_images report ! 0)"
    using demoRun_report by (auto split: sum.splits prod.splits)
  have "ru_outside demoRun = demoOutside" by (simp add: demoRun_def)
  then show ?thesis
    using report_covers_every_owner [OF r(1), of 0 "(tcOwner demoController)\<lparr>re_container := ''main''\<rparr>"] r by auto
qed

lemma NewVerifier_keyless:
  assumes "cf_modes cfg = [ModeCosignKeyless]" and "NewVerifier ou mirrors cfg = Inr v"
  obtains p where "newTrustPolicy (ou_compile ou) (cf_trustedIssuers cfg) (cf_trustedSubjects cfg) (cf_trustedSubjectREs cfg) = Inr p"
    and "\<And>img w. ve_verify v img w = (case keyless_Verify (ou_cosign ou) (ou_decode ou) mirrors p img w of (ob, w') \<Rightarrow> (Inr ob, w'))"
  using assms by (auto simp: NewVerifier_def newForMode_def NewCosignVerifier_def split: sum.splits)

lemma newTrustPolicy_issuer:
  assumes "newTrustPolicy compile issuers subjects subjectREs = Inr p"
    and "compile (joinWith ''|'' (exactPatterns issuers)) = Inr m" and "joinWith ''|'' (exactPatterns issuers) \<noteq> ''''"
  shows "tp_issuer p = Some m"
  using assms by (auto simp: newTrustPolicy_def buildAlternationRegex_def compileOptional_def split: sum.splits if_splits)

text \<open>
  C7: With keyless verification and trusted issuers configured, the whole pipeline enforces them: for every
  owner of an image that no finding names, and whose image no allowlist pattern exempts, the report names a
  signer of the image that cosign printed and whose issuer is one of the configured ones. The assumption
  on \<^verbatim>\<open>regexp\<close> is that the alternation of the quoted issuers compiles and matches exactly the issuers.
\<close>
theorem keyless_pipeline_enforces_issuers:
  assumes "main ru = Inr (cfg, images, report)" and "i < length images" and "ow \<in> set (im_owners (images ! i))"
    and "\<not> (\<exists>f \<in> set (rt_findings report). names f ow)"
    and "\<not> exempt (ru_glob ru) (matcherOf cfg) (images ! i) (rt_images report ! i)"
    and "cf_modes cfg = [ModeCosignKeyless]"
    and "joinWith ''|'' (exactPatterns (cf_trustedIssuers cfg)) \<noteq> ''''"
    and "ou_compile (ru_outside ru) (joinWith ''|'' (exactPatterns (cf_trustedIssuers cfg))) = Inr m"
    and "\<And>s. m s \<longleftrightarrow> s \<in> set (cf_trustedIssuers cfg)"
  shows "sd_issuer (rs_signer (rt_images report ! i)) \<in> set (cf_trustedIssuers cfg) \<and>
    (\<exists>args w. case ou_cosign (ru_outside ru) args w of (r, _) \<Rightarrow> cr_err r = None \<and>
       (\<exists>signers. extractCosignSigners (ou_decode (ru_outside ru)) (cr_stdout r) = Inr signers \<and>
          rs_signer (rt_images report ! i) \<in> set signers))"
proof (cases rule: main_image_cases [OF assms(1-3)])
  case (1 f)
  with assms(4) show ?thesis by blast
next
  case 2
  with assms(5) show ?thesis by blast
next
  case (3 v ob w1 w2)
  obtain p where p: "newTrustPolicy (ou_compile (ru_outside ru)) (cf_trustedIssuers cfg) (cf_trustedSubjects cfg)
      (cf_trustedSubjectREs cfg) = Inr p"
    and verify: "\<And>img w. ve_verify v img w =
      (case keyless_Verify (ou_cosign (ru_outside ru)) (ou_decode (ru_outside ru)) (cf_registryMirrors cfg) p img w of (ob, w') \<Rightarrow> (Inr ob, w'))"
    using NewVerifier_keyless [OF assms(6) 3(1)] by blast
  have k: "keyless_Verify (ou_cosign (ru_outside ru)) (ou_decode (ru_outside ru)) (cf_registryMirrors cfg) p (images ! i) w1 = (ob, w2)"
    using 3(2) unfolding verify by (auto split: prod.splits)
  have "tp_issuer p = Some m" using newTrustPolicy_issuer [OF p assms(8,7)] .
  with keyless_verified [OF k 3(3)] have "sd_issuer (ob_signer ob) \<in> set (cf_trustedIssuers cfg)"
    by (auto simp: isTrustedSigner_def assms(9))
  moreover obtain args r signers where "ou_cosign (ru_outside ru) args w1 = (r, w2)" "cr_err r = None"
    "extractCosignSigners (ou_decode (ru_outside ru)) (cr_stdout r) = Inr signers" "ob_signer ob \<in> set signers"
    using keyless_verified [OF k 3(3)] by blast
  ultimately show ?thesis using 3(4) by (metis (mono_tags, lifting) case_prod_conv)
qed

lemma QuoteMeta_inj: "QuoteMeta s = QuoteMeta t \<longleftrightarrow> s = t"
proof (induction s arbitrary: t)
  case Nil
  then show ?case by (cases t) (auto simp: QuoteMeta_def)
next
  case (Cons a s)
  then show ?case by (cases t) (auto simp: QuoteMeta_def split: if_splits)
qed

theorem keyless_pipeline_enforces_issuers_witness:
  "\<exists>cfg images report. main demoRun = Inr (cfg, images, report) \<and>
     sd_issuer (rs_signer (rt_images report ! 0)) \<in> set [''https://issuer'']"
proof -
  obtain cfg images report where r: "main demoRun = Inr (cfg, images, report)" "length images = 1"
    "im_owners (images ! 0) = [(tcOwner demoController)\<lparr>re_container := ''main''\<rparr>]"
    "rt_findings report = []" "cf_modes cfg = [ModeCosignKeyless]" "cf_trustedIssuers cfg = [''https://issuer'']"
    using demoRun_report by (auto split: sum.splits prod.splits)
  have "case main demoRun of Inr (cfg, images, report) \<Rightarrow> \<not> exempt demoGlob (matcherOf cfg) (images ! 0) (rt_images report ! 0) | Inl _ \<Rightarrow> False"
    by code_simp
  then have ex: "\<not> exempt (ru_glob demoRun) (matcherOf cfg) (images ! 0) (rt_images report ! 0)"
    using r(1) by (simp add: demoRun_def)
  have pat: "joinWith ''|'' (exactPatterns [''https://issuer'']) = ''^'' @ QuoteMeta ''https://issuer'' @ ''$''"
    by code_simp
  have "sd_issuer (rs_signer (rt_images report ! 0)) \<in> set (cf_trustedIssuers cfg)"
    by (rule keyless_pipeline_enforces_issuers [OF r(1) _ _ _ ex r(5), THEN conjunct1,
          of "(tcOwner demoController)\<lparr>re_container := ''main''\<rparr>"
             "\<lambda>s. ''^'' @ QuoteMeta ''https://issuer'' @ ''$'' = ''^'' @ QuoteMeta s @ ''$''"])
      (auto simp: r pat demoRun_def demoOutside_def QuoteMeta_inj)
  with r show ?thesis by auto
qed

end
