(* ===== verification/Kyverno_Sync.thy ===== *)
theory Kyverno_Sync
  imports Prelude
begin

text \<open>
  The kyverno-policy-sync plugin (\<^verbatim>\<open>kyverno-policy-sync/pkg/sync\<close>, \<^verbatim>\<open>pkg/lock\<close>, \<^verbatim>\<open>pkg/insights\<close>, \<^verbatim>\<open>pkg/config\<close>,
  \<^verbatim>\<open>cmd/main.go\<close>). The type \<open>'w\<close> is the world of the cluster and of Insights; the two interfaces
  \<^verbatim>\<open>PolicyManager\<close> and \<^verbatim>\<open>insights.Client\<close> are records of functions on it. A failed type assertion is a panic,
  \<open>None\<close>. Ranging over a Go map is a list argument that enumerates its keys.
\<close>

section \<open>Data\<close>

text \<open>YAML values as far as the code looks into them.\<close>

datatype yval = YStr string | YMap "(string \<times> yval) list" | YOther

record ClusterPolicy =
  cp_kind :: string
  cp_name :: string
  cp_annotations :: "(string \<times> string) list"
  cp_spec :: "(string \<times> yval) list"
  cp_yaml :: string

record PolicySyncActions =
  ac_toApply :: "string list"
  ac_toUpdate :: "string list"
  ac_toRemove :: "ClusterPolicy list"

record PolicySyncResult =
  sr_success :: bool
  sr_actions :: PolicySyncActions
  sr_applied :: "string list"
  sr_updated :: "string list"
  sr_removed :: "string list"
  sr_failed :: "string list"
  sr_errors :: "string list"
  sr_duration :: duration
  sr_summary :: string

record 'w PolicyManager =
  pm_applyPolicy :: "ClusterPolicy \<Rightarrow> 'w \<Rightarrow> string option \<times> 'w"
  pm_removePolicy :: "ClusterPolicy \<Rightarrow> 'w \<Rightarrow> string option \<times> 'w"

record statusUpdate =
  su_policyName :: string
  su_action :: string
  su_status :: string
  su_policyBody :: string
  su_output :: string

record 'w InsightsClient =
  ic_getYAML :: "'w \<Rightarrow> (string + string) \<times> 'w"
  ic_updateStatus :: "statusUpdate \<Rightarrow> 'w \<Rightarrow> string option \<times> 'w"

section \<open>Dry run\<close>



text \<open>
  The client over HTTP. \<open>http\<close> is the request library: method, path and body to an error or the status code
  and the body of the response; \<^verbatim>\<open>IsErrorState\<close> holds from code 400 on. \<open>now\<close> is the formatted time, and the payload is
  the list of the entries of the JSON object.
\<close>

type_synonym 'w http = "string \<Rightarrow> string \<Rightarrow> (string \<times> string) list \<Rightarrow> 'w \<Rightarrow> (string + nat \<times> string) \<times> 'w"

definition IsErrorState :: "nat \<Rightarrow> bool" where "IsErrorState code \<longleftrightarrow> 399 < code"

definition clusterURL :: "string \<Rightarrow> string \<Rightarrow> string \<Rightarrow> string" where
  "clusterURL organization cluster rest =
     ''/v0/organizations/'' @ organization @ ''/clusters/'' @ cluster @ rest"

definition HTTPClient :: "'w http \<Rightarrow> ('w \<Rightarrow> string) \<Rightarrow> string \<Rightarrow> string \<Rightarrow> 'w InsightsClient" where
  "HTTPClient http now organization cluster =
     \<lparr>ic_getYAML = (\<lambda>w. case http ''GET'' (clusterURL organization cluster ''/kyverno-policies/with-app-groups-applied/yaml'') [] w of
          (Inl err, w') \<Rightarrow> (Inl (''failed to get cluster Kyverno policies: '' @ err), w')
        | (Inr (code, body), w') \<Rightarrow>
            (if IsErrorState code
             then Inl (''error getting cluster Kyverno policies: status '' @ showNat code @ '', body '' @ body)
             else Inr body, w')),
      ic_updateStatus = (\<lambda>u w. case http ''PUT'' (clusterURL organization cluster ''/policies/apply-status'')
            [(''policyName'', su_policyName u), (''reportType'', ''kyverno''), (''action'', su_action u), (''status'', su_status u),
             (''lastAppliedAt'', now w), (''policyBody'', su_policyBody u), (''output'', su_output u)] w of
          (Inl err, w') \<Rightarrow> (Some (''failed to update Kyverno policy status: '' @ err), w')
        | (Inr (code, body), w') \<Rightarrow>
            (if IsErrorState code
             then Some (''failed to update Kyverno policy status: status '' @ showNat code @ '', body '' @ body)
             else None, w'))\<rparr>"





section \<open>Reading policies\<close>

definition getResourceNames :: "string list" where
  "getResourceNames = [''clusterpolicies'', ''policies'', ''validatingpolicies'', ''validatingadmissionpolicies'',
     ''clustercleanuppolicies'', ''imagevalidatingpolicies'', ''mutatingpolicies'', ''generatingpolicies'',
     ''deletingpolicies'', ''namespacedvalidatingpolicies'', ''policyexceptions'']"

definition deriveKindFromResourceName :: "string \<Rightarrow> string" where
  "deriveKindFromResourceName r =
     (if r = ''clusterpolicies'' then ''ClusterPolicy''
      else if r = ''policies'' then ''Policy''
      else if r = ''validatingpolicies'' then ''ValidatingPolicy''
      else if r = ''validatingadmissionpolicies'' then ''ValidatingAdmissionPolicy''
      else if r = ''clustercleanuppolicies'' then ''ClusterCleanupPolicy''
      else if r = ''imagevalidatingpolicies'' then ''ImageValidatingPolicy''
      else if r = ''mutatingpolicies'' then ''MutatingPolicy''
      else if r = ''generatingpolicies'' then ''GeneratingPolicy''
      else if r = ''deletingpolicies'' then ''DeletingPolicy''
      else if r = ''namespacedvalidatingpolicies'' then ''NamespacedValidatingPolicy''
      else if r = ''policyexceptions'' then ''PolicyException''
      else ''ClusterPolicy'')"

text \<open>An object of the cluster; \<open>co_yaml\<close> is its marshalled form or the error, \<open>co_spec\<close> the field \<^verbatim>\<open>spec\<close> if it is a map.\<close>

record clusterObject =
  co_name :: string
  co_kind :: string
  co_annotations :: "(string \<times> string) list"
  co_spec :: "(string \<times> yval) list option"
  co_yaml :: "string + string"

record clusterAPI =
  ca_resourceFor :: "string \<Rightarrow> string option" \<comment> \<open>the error of the REST mapper\<close>
  ca_list :: "string \<Rightarrow> string + clusterObject list"

definition ownedByKey :: string where "ownedByKey = ''insights.fairwinds.com/owned-by''"

definition hasAnnotation :: "clusterObject \<Rightarrow> bool" where
  "hasAnnotation item \<longleftrightarrow> map_of (co_annotations item) ownedByKey = Some ''Fairwinds Insights''"

fun processItems :: "string \<Rightarrow> clusterObject list \<Rightarrow> ClusterPolicy list \<Rightarrow> (string + ClusterPolicy list) option" where
  "processItems resource [] acc = Some (Inr acc)"
| "processItems resource (item # items) acc =
     (case co_yaml item of
        Inl err \<Rightarrow> Some (Inl (''failed to marshal policy to YAML: '' @ err))
      | Inr yaml \<Rightarrow>
          if \<not> hasAnnotation item then processItems resource items acc
          else case co_spec item of
                 None \<Rightarrow> None
               | Some spec \<Rightarrow>
                   processItems resource items (acc @ [\<lparr>
                     cp_kind = (if co_kind item = '''' then deriveKindFromResourceName resource else co_kind item),
                     cp_name = co_name item, cp_annotations = co_annotations item, cp_spec = spec, cp_yaml = yaml\<rparr>]))"

definition isMissingResource :: "string \<Rightarrow> bool" where
  "isMissingResource err \<longleftrightarrow>
     (let m = ToLower err in Contains m ''not found'' \<or> Contains m ''could not find the requested resource'' \<or>
        Contains m ''no matches for'')"

fun listResources :: "clusterAPI \<Rightarrow> string list \<Rightarrow> ClusterPolicy list \<Rightarrow> (string + ClusterPolicy list) option" where
  "listResources api [] acc = Some (Inr acc)"
| "listResources api (r # rs) acc =
     (case ca_resourceFor api r of
        Some err \<Rightarrow>
          if isMissingResource err then listResources api rs acc
          else Some (Inl (''failed to discover resource '' @ r @ '': '' @ err))
      | None \<Rightarrow>
          (case ca_list api r of
             Inl err \<Rightarrow>
               if Contains err ''not found'' \<or> Contains err ''could not find the requested resource''
               then listResources api rs acc
               else Some (Inl (''failed to list '' @ r @ '' policies: '' @ err))
           | Inr items \<Rightarrow>
               (case processItems r items acc of
                  None \<Rightarrow> None
                | Some (Inl err) \<Rightarrow> Some (Inl err)
                | Some (Inr acc') \<Rightarrow> listResources api rs acc')))"

definition listInsightsManagedPolicies :: "clusterAPI \<Rightarrow> (string + ClusterPolicy list) option" where
  "listInsightsManagedPolicies api = listResources api getResourceNames []"

text \<open>
  Parsing. \<open>decode\<close> is the YAML decoder: the documents up to the end of the input or an error;
  \<open>marshal\<close> writes a document back.
\<close>

record yaml_io =
  ya_decode :: "string \<Rightarrow> (string \<times> yval) list list \<times> string option"
  ya_marshal :: "(string \<times> yval) list \<Rightarrow> string + string"

definition stringEntries :: "(string \<times> yval) list \<Rightarrow> (string \<times> string) list" where
  "stringEntries m = List.map_filter (\<lambda>(k, v). case v of YStr s \<Rightarrow> Some (k, s) | _ \<Rightarrow> None) m"

fun parseDocs :: "yaml_io \<Rightarrow> (string \<times> yval) list list \<Rightarrow> string option \<Rightarrow> ClusterPolicy list \<Rightarrow>
    (string + ClusterPolicy list) option" where
  "parseDocs ya [] err acc =
     (case err of None \<Rightarrow> Some (Inr acc) | Some e \<Rightarrow> Some (Inl (''failed to parse YAML document: '' @ e)))"
| "parseDocs ya (policy # docs) err acc =
     (if policy = [] then parseDocs ya docs err acc
      else case map_of policy ''metadata'' of
        Some (YMap metadata) \<Rightarrow>
          (case map_of metadata ''name'' of
             Some (YStr name) \<Rightarrow>
               (case ya_marshal ya policy of
                  Inl e \<Rightarrow> Some (Inl (''failed to marshal policy to YAML: '' @ e))
                | Inr yaml \<Rightarrow>
                    (case map_of policy ''spec'' of
                       Some (YMap spec) \<Rightarrow>
                         parseDocs ya docs err (acc @ [\<lparr>
                           cp_kind = (case map_of policy ''kind'' of Some (YStr k) \<Rightarrow> k | _ \<Rightarrow> ''''),
                           cp_name = name,
                           cp_annotations = (case map_of metadata ''annotations'' of Some (YMap ann) \<Rightarrow> stringEntries ann | _ \<Rightarrow> []),
                           cp_spec = spec, cp_yaml = yaml\<rparr>])
                     | _ \<Rightarrow> None))
           | _ \<Rightarrow> parseDocs ya docs err acc)
      | _ \<Rightarrow> parseDocs ya docs err acc)"

definition parsePoliciesFromYAML :: "yaml_io \<Rightarrow> string \<Rightarrow> (string + ClusterPolicy list) option" where
  "parsePoliciesFromYAML ya content =
     (if TrimSpace content = '''' then Some (Inr [])
      else case ya_decode ya content of (docs, err) \<Rightarrow> parseDocs ya docs err [])"

section \<open>Comparison\<close>

text \<open>The maps by name; a later policy of the same name replaces an earlier one.\<close>

definition byName :: "ClusterPolicy list \<Rightarrow> string \<rightharpoonup> ClusterPolicy" where
  "byName ps = fold (\<lambda>p m. m(cp_name p \<mapsto> p)) ps Map.empty"

text \<open>
  \<^verbatim>\<open>comparePolicies\<close> ranges over the map of expected names twice and over that of current names once;
  \<open>e1\<close>, \<open>e2\<close> and \<open>cs\<close> are the orders in which it does.
\<close>

definition comparePolicies :: "string list \<Rightarrow> string list \<Rightarrow> string list \<Rightarrow> ClusterPolicy list \<Rightarrow> ClusterPolicy list \<Rightarrow>
    PolicySyncActions" where
  "comparePolicies e1 e2 cs expected current =
     (let em = byName expected; cm = byName current in
      \<lparr>ac_toApply = filter (\<lambda>n. cm n = None) e1,
       ac_toUpdate = filter (\<lambda>n. cm n \<noteq> None) e2,
       ac_toRemove = map (\<lambda>n. the (cm n)) (filter (\<lambda>n. em n = None) cs)\<rparr>)"

text \<open>An enumeration of the keys of a map, as ranging over it gives.\<close>

definition ranges :: "string list \<Rightarrow> ClusterPolicy list \<Rightarrow> bool" where
  "ranges ns ps \<longleftrightarrow> distinct ns \<and> set ns = cp_name ` set ps"

section \<open>Execution\<close>

definition statusFor :: "string \<Rightarrow> string \<Rightarrow> string \<Rightarrow> string option \<Rightarrow> string \<Rightarrow> statusUpdate" where
  "statusFor name action body failure okBody =
     (case failure of
        Some msg \<Rightarrow> \<lparr>su_policyName = name, su_action = action, su_status = ''failed'', su_policyBody = body, su_output = msg\<rparr>
      | None \<Rightarrow> \<lparr>su_policyName = name, su_action = action, su_status = ''success'', su_policyBody = okBody, su_output = ''''\<rparr>)"

text \<open>One iteration of the loops over \<^verbatim>\<open>ToApply\<close> and \<^verbatim>\<open>ToUpdate\<close>; only the first records a success.\<close>

definition applyOne :: "string \<Rightarrow> bool \<Rightarrow> 'w PolicyManager \<Rightarrow> 'w InsightsClient \<Rightarrow> (string \<rightharpoonup> ClusterPolicy) \<Rightarrow> string \<Rightarrow>
    PolicySyncResult \<times> 'w \<Rightarrow> PolicySyncResult \<times> 'w" where
  "applyOne verb note_applied pm ic managed name = (\<lambda>(result, w).
     case managed name of
       None \<Rightarrow> (result, w)
     | Some policy \<Rightarrow>
         (case pm_applyPolicy pm policy w of
            (Some err, w1) \<Rightarrow>
              let msg = ''Failed to '' @ verb @ '' policy '' @ name @ '': '' @ err in
              (result\<lparr>sr_failed := sr_failed result @ [name], sr_errors := sr_errors result @ [msg]\<rparr>,
               snd (ic_updateStatus ic (statusFor name ''apply'' (cp_yaml policy) (Some msg) '''') w1))
          | (None, w1) \<Rightarrow>
              (if note_applied then result\<lparr>sr_applied := sr_applied result @ [name]\<rparr> else result,
               snd (ic_updateStatus ic (statusFor name ''apply'' '''' None (cp_yaml policy)) w1))))"

definition removeOne :: "'w PolicyManager \<Rightarrow> 'w InsightsClient \<Rightarrow> ClusterPolicy \<Rightarrow>
    PolicySyncResult \<times> 'w \<Rightarrow> PolicySyncResult \<times> 'w" where
  "removeOne pm ic policy = (\<lambda>(result, w).
     case pm_removePolicy pm policy w of
       (Some err, w1) \<Rightarrow>
         let msg = ''Failed to remove policy '' @ cp_name policy @ '': '' @ err in
         (result\<lparr>sr_failed := sr_failed result @ [cp_name policy], sr_errors := sr_errors result @ [msg]\<rparr>,
          snd (ic_updateStatus ic (statusFor (cp_name policy) ''delete'' ''Failed to remove policy from cluster'' (Some msg) '''') w1))
     | (None, w1) \<Rightarrow>
         (result\<lparr>sr_removed := sr_removed result @ [cp_name policy]\<rparr>,
          snd (ic_updateStatus ic (statusFor (cp_name policy) ''delete'' '''' None ''Successfully removed policy from cluster'') w1)))"

definition executeSyncActions :: "'w PolicyManager \<Rightarrow> 'w InsightsClient \<Rightarrow> PolicySyncActions \<Rightarrow> ClusterPolicy list \<Rightarrow>
    PolicySyncResult \<times> 'w \<Rightarrow> PolicySyncResult \<times> 'w" where
  "executeSyncActions pm ic actions managed s =
     fold (removeOne pm ic) (ac_toRemove actions)
       (fold (applyOne ''update'' False pm ic (byName managed)) (ac_toUpdate actions)
         (fold (applyOne ''apply'' True pm ic (byName managed)) (ac_toApply actions) s))"

definition generateSummary :: "(duration \<Rightarrow> string) \<Rightarrow> PolicySyncResult \<Rightarrow> string" where
  "generateSummary showDuration r =
     (let part = (\<lambda>what (names :: string list). if names \<noteq> [] then what @ '' '' @ showNat (length names) @ '', '' else '''')
      in TrimSuffix (''Policy sync '' @ (if sr_success r then ''completed'' else ''failed'') @ '': '' @
           part ''Applied'' (sr_applied r) @ part ''Updated'' (sr_updated r) @ part ''Removed'' (sr_removed r) @
           part ''Failed'' (sr_failed r) @ ''Duration: '' @ showDuration (sr_duration r)) '', '')"

definition emptyActions :: PolicySyncActions where
  "emptyActions = \<lparr>ac_toApply = [], ac_toUpdate = [], ac_toRemove = []\<rparr>"

definition emptyResult :: PolicySyncResult where
  "emptyResult = \<lparr>sr_success = False, sr_actions = emptyActions, sr_applied = [], sr_updated = [],
     sr_removed = [], sr_failed = [], sr_errors = [], sr_duration = 0, sr_summary = ''''\<rparr>"

text \<open>
  The leader's work. \<open>api\<close> is the cluster as the world shows it when it is listed; \<open>orders\<close> are the three map
  orders; \<open>elapsed\<close> is the time taken.
\<close>

record 'w sync_env =
  se_manager :: "'w PolicyManager"
  se_client :: "'w InsightsClient"
  se_api :: "'w \<Rightarrow> clusterAPI"
  se_yaml :: yaml_io
  se_orders :: "ClusterPolicy list \<Rightarrow> ClusterPolicy list \<Rightarrow> string list \<times> string list \<times> string list"
  se_elapsed :: "'w \<Rightarrow> duration"
  se_showDuration :: "duration \<Rightarrow> string"

definition finishResult :: "'w sync_env \<Rightarrow> PolicySyncResult \<times> 'w \<Rightarrow> PolicySyncResult \<times> 'w" where
  "finishResult env = (\<lambda>(r, w).
     let r1 = r\<lparr>sr_duration := se_elapsed env w, sr_success := (sr_errors r = [])\<rparr>
     in (r1\<lparr>sr_summary := generateSummary (se_showDuration env) r1\<rparr>, w))"

definition syncPoliciesInternal :: "'w sync_env \<Rightarrow> 'w \<Rightarrow> ((string option \<times> PolicySyncResult) \<times> 'w) option" where
  "syncPoliciesInternal env w =
     (case ic_getYAML (se_client env) w of
        (Inl err, w1) \<Rightarrow> Some ((Some (''failed to fetch expected policies from Insights: '' @ err), emptyResult), w1)
      | (Inr content, w1) \<Rightarrow>
          (case listInsightsManagedPolicies (se_api env w1) of
             None \<Rightarrow> None
           | Some (Inl err) \<Rightarrow>
               Some ((Some (''failed to list currently deployed Insights-managed policies: '' @ err), emptyResult), w1)
           | Some (Inr current) \<Rightarrow>
               (case parsePoliciesFromYAML (se_yaml env) content of
                  None \<Rightarrow> None
                | Some (Inl err) \<Rightarrow> Some ((Some (''failed to parse expected policies from YAML: '' @ err), emptyResult), w1)
                | Some (Inr expected) \<Rightarrow>
                    (case se_orders env expected current of
                       (e1, e2, cs) \<Rightarrow>
                         let actions = comparePolicies e1 e2 cs expected current;
                             (r, w2) = finishResult env (executeSyncActions (se_manager env) (se_client env) actions expected
                                         (emptyResult\<lparr>sr_actions := actions\<rparr>, w1))
                         in Some ((None, r), w2)))))"

text \<open>
  Leader election is the library's. Either the lock cannot be created, or the context ends before this
  instance leads, or it leads and the callback runs to its end before \<^verbatim>\<open>RunOrDie\<close> returns. A lease that
  is lost in the middle of a sync is not modelled.
\<close>

datatype election = LockFailed string | NeverLed | Led

definition SyncPolicies :: "election \<Rightarrow> 'w sync_env \<Rightarrow> 'w \<Rightarrow> ((string option \<times> PolicySyncResult) \<times> 'w) option" where
  "SyncPolicies el env w =
     (case el of
        LockFailed err \<Rightarrow>
          let msg = ''failed to create resource lock: '' @ err in
          Some ((Some (''leader election failed: '' @ msg), emptyResult\<lparr>sr_errors := [msg]\<rparr>), w)
      | NeverLed \<Rightarrow> Some ((Some ''sync result is nil'', emptyResult\<lparr>sr_errors := [''sync result is nil'']\<rparr>), w)
      | Led \<Rightarrow> syncPoliciesInternal env w)"


definition maskToken :: "string \<Rightarrow> string" where
  "maskToken token =
     (if length token \<le> 8 then ''***'' else take 4 token @ ''***'' @ drop (length token - 4) token)"

section \<open>Lock and configuration\<close>

definition getLockIdentifier :: "(string \<Rightarrow> string) \<Rightarrow> string option \<Rightarrow> int \<Rightarrow> string" where
  "getLockIdentifier env hostname unixNow =
     (if env ''POD_NAME'' \<noteq> '''' then ''fw-pod-'' @ env ''POD_NAME''
      else if env ''JOB_NAME'' \<noteq> '''' then ''fw-job-'' @ env ''JOB_NAME''
      else case hostname of
             Some h \<Rightarrow> ''fw-host-'' @ h
           | None \<Rightarrow> ''fw-unknown-'' @ showInt unixNow)"

datatype namespace_file = FileContent string | FileMissing | FileError string

definition getCurrentNamespace :: "namespace_file \<Rightarrow> (string \<Rightarrow> string) \<Rightarrow> string + string" where
  "getCurrentNamespace f env =
     (case f of
        FileContent data \<Rightarrow> Inr (TrimSpace data)
      | FileMissing \<Rightarrow>
          if env ''NAMESPACE'' \<noteq> '''' then Inr (env ''NAMESPACE'')
          else Inl ''namespace file not found and NAMESPACE env variable is not set''
      | FileError err \<Rightarrow> Inl (''failed to read namespace file: '' @ err))"

record PolicySyncLock =
  pl_leaseName :: string
  pl_namespace :: string
  pl_lockedBy :: string

definition NewPolicySyncLock :: "namespace_file \<Rightarrow> (string \<Rightarrow> string) \<Rightarrow> string option \<Rightarrow> int \<Rightarrow> PolicySyncLock" where
  "NewPolicySyncLock f env hostname unixNow =
     \<lparr>pl_leaseName = ''kyverno-policy-sync-lock'',
      pl_namespace = (case getCurrentNamespace f env of Inl _ \<Rightarrow> ''default'' | Inr ns \<Rightarrow> ns),
      pl_lockedBy = getLockIdentifier env hostname unixNow\<rparr>"

record SyncConfig =
  sc_host :: string
  sc_token :: string
  sc_organization :: string
  sc_cluster :: string
  sc_devMode :: bool
  sc_dryRun :: bool
  sc_validatePolicies :: bool
  sc_logLevel :: string

definition validateConfig :: "SyncConfig \<Rightarrow> string option" where
  "validateConfig c =
     (if sc_host c = '''' then Some ''host is required''
      else if sc_token c = '''' then Some ''token is required''
      else if sc_organization c = '''' then Some ''organization is required''
      else if sc_cluster c = '''' then Some ''cluster is required''
      else None)"


section \<open>The plan\<close>

lemma byName_append: "byName (ps @ [p]) = (byName ps)(cp_name p \<mapsto> p)"
  by (simp add: byName_def)

lemma byName_None [simp]: "byName ps n = None \<longleftrightarrow> n \<notin> cp_name ` set ps"
  by (induction ps rule: rev_induct) (auto simp: byName_append byName_def)

lemma byName_dom [simp]: "(\<exists>p. byName ps n = Some p) \<longleftrightarrow> n \<in> cp_name ` set ps"
  using byName_None [of ps n] by (cases "byName ps n") auto



section \<open>Execution reaches the plan's state\<close>










section \<open>Properties\<close>




definition demo_policy :: "string \<Rightarrow> ClusterPolicy" where
  "demo_policy yaml = \<lparr>cp_kind = ''ClusterPolicy'', cp_name = take 1 yaml, cp_annotations = [], cp_spec = [], cp_yaml = yaml\<rparr>"












lemma executeSyncActions_updated:
  "sr_updated (fst (executeSyncActions pm ic actions managed s)) = sr_updated (fst s)"
proof -
  have a: "sr_updated (fst (applyOne verb note_applied pm ic (byName managed) n s)) = sr_updated (fst s)" for verb note_applied n s
    by (auto simp: applyOne_def Let_def split: option.splits prod.splits)
  have r: "sr_updated (fst (removeOne pm ic p s)) = sr_updated (fst s)" for p s
    by (auto simp: removeOne_def Let_def split: option.splits prod.splits)
  have f: "sr_updated (fst (fold f xs s)) = sr_updated (fst s)"
    if "\<And>x s. sr_updated (fst (f x s)) = sr_updated (fst s)" for f :: "'x \<Rightarrow> PolicySyncResult \<times> 'b \<Rightarrow> PolicySyncResult \<times> 'b" and xs s
    using that by (induction xs arbitrary: s) simp_all
  show ?thesis unfolding executeSyncActions_def by (simp only: f [OF a] f [OF r])
qed

text \<open>
  The result of a sync never counts an updated policy: the list of updated names is empty after every run,
  also when policies were updated, so the summary and the log never mention them.
\<close>
theorem updated_never_reported:
  "case SyncPolicies el env w of None \<Rightarrow> True | Some ((err, r), w') \<Rightarrow> sr_updated r = []"
proof -
  have kept: "sr_updated r = sr_updated (fst s)" if "executeSyncActions pm ic actions managed s = (r, w'')"
    for pm ic actions managed s r and w'' :: 'a
    using executeSyncActions_updated [of pm ic actions managed s] that by simp
  show ?thesis
    by (auto simp: SyncPolicies_def syncPoliciesInternal_def finishResult_def emptyResult_def Let_def
        split: election.splits option.splits prod.splits sum.splits dest!: kept)
qed

text \<open>
  Policies are told apart by name only. Of two managed policies with the same name (of different kinds, say),
  neither of them expected any more, the plan removes the one listed last; the other one stays in the cluster.
\<close>
theorem same_name_policy_left_behind:
  assumes "cp_name p = cp_name q" and "ranges cs [p, q]"
  shows "ac_toRemove (comparePolicies e1 e2 cs [] [p, q]) = [q]"
proof -
  have "cs = [cp_name q]" using assms by (cases cs) (auto simp: ranges_def neq_Nil_conv subset_singleton_iff)
  then show ?thesis using assms(1) by (simp add: comparePolicies_def byName_def)
qed

theorem same_name_policy_left_behind_witness:
  "ac_toRemove (comparePolicies [] [] [''a''] [] [(demo_policy ''a1'')\<lparr>cp_kind := ''Policy''\<rparr>, demo_policy ''a2'']) = [demo_policy ''a2'']"
  by (rule same_name_policy_left_behind) (simp_all add: demo_policy_def ranges_def)

end
