(* ===== verification/Go_Float.thy ===== *)
theory Go_Float
  imports Prelude Complex_Main
begin

text \<open>
  Go's \<^verbatim>\<open>float64\<close>: IEEE 754 doubles with rounding to the nearest, ties to even. A finite value is the rational that it
  denotes; the sign of zero is not kept, as nothing that the modelled programs do shows it. \<open>rnd\<close> is the rounding of an exact result,
  with the gradual underflow of the format, and \<open>fl\<close> its overflow to an infinity. The lemmas say where rounding is harmless:
  whole numbers up to \<open>2 ^ 53\<close> are exact, and the floor of a quotient of whole numbers survives its rounding.
\<close>

datatype float64 = Finite rat | Infinite bool | NaN

section \<open>Rounding\<close>

fun ilog2 :: "nat \<Rightarrow> nat" where
  "ilog2 n = (if n < 2 then 0 else Suc (ilog2 (n div 2)))"

declare ilog2.simps [simp del]

definition pow2 :: "int \<Rightarrow> rat" where
  "pow2 e = (if 0 \<le> e then 2 ^ nat e else 1 / 2 ^ nat (- e))"

definition expo :: "rat \<Rightarrow> int" where
  "expo r = (let (p, q) = quotient_of r; e = int (ilog2 (nat p)) - int (ilog2 (nat q)) in if pow2 e \<le> r then e else e - 1)"

text \<open>The distance of neighbouring doubles around a positive number.\<close>

definition ulp :: "rat \<Rightarrow> rat" where
  "ulp r = pow2 (max (expo r - 52) (- 1074))"

definition roundEven :: "rat \<Rightarrow> int" where
  "roundEven y = (let n = \<lfloor>y\<rfloor>; d = y - of_int n in if d < 1/2 \<or> (d = 1/2 \<and> even n) then n else n + 1)"

definition rnd :: "rat \<Rightarrow> rat" where
  "rnd r =
     (if r = 0 then 0
      else let u = ulp \<bar>r\<bar>; x = of_int (roundEven (\<bar>r\<bar> / u)) * u in if r < 0 then - x else x)"

definition fl :: "rat \<Rightarrow> float64" where
  "fl r = (let x = rnd r in if x = 0 \<or> expo \<bar>x\<bar> < 1024 then Finite x else Infinite (x < 0))"

section \<open>Operations\<close>

fun fadd :: "float64 \<Rightarrow> float64 \<Rightarrow> float64" where
  "fadd (Finite a) (Finite b) = fl (a + b)"
| "fadd NaN _ = NaN"
| "fadd _ NaN = NaN"
| "fadd (Infinite s) (Infinite t) = (if s = t then Infinite s else NaN)"
| "fadd (Infinite s) _ = Infinite s"
| "fadd _ (Infinite t) = Infinite t"

text \<open>Multiplication and division by a finite number, the only ones in use.\<close>

fun fmul :: "float64 \<Rightarrow> rat \<Rightarrow> float64" where
  "fmul (Finite a) b = fl (a * b)"
| "fmul (Infinite s) b = (if b = 0 then NaN else Infinite (s \<noteq> (b < 0)))"
| "fmul NaN _ = NaN"

fun fdiv :: "float64 \<Rightarrow> rat \<Rightarrow> float64" where
  "fdiv (Finite a) b = (if b \<noteq> 0 then fl (a / b) else if a = 0 then NaN else Infinite (a < 0))"
| "fdiv (Infinite s) b = Infinite (s \<noteq> (b < 0))"
| "fdiv NaN _ = NaN"

fun ffloor :: "float64 \<Rightarrow> float64" where
  "ffloor (Finite a) = Finite (of_int \<lfloor>a\<rfloor>)"
| "ffloor f = f"

definition trunc :: "rat \<Rightarrow> int" where
  "trunc r = (if 0 \<le> r then \<lfloor>r\<rfloor> else \<lceil>r\<rceil>)"

text \<open>\<^verbatim>\<open>math.Mod\<close>, whose result is exact and has the sign of the dividend.\<close>

fun fmod :: "float64 \<Rightarrow> rat \<Rightarrow> float64" where
  "fmod (Finite a) b = (if b = 0 then NaN else Finite (a - b * of_int (trunc (a / b))))"
| "fmod _ _ = NaN"

fun fless :: "float64 \<Rightarrow> float64 \<Rightarrow> bool" where
  "fless (Finite a) (Finite b) = (a < b)"
| "fless (Infinite s) (Finite b) = s"
| "fless (Finite a) (Infinite t) = (\<not> t)"
| "fless (Infinite s) (Infinite t) = (s \<and> \<not> t)"
| "fless _ _ = False"

text \<open>
  \<^verbatim>\<open>int64(f)\<close> cuts the fraction off. For values outside the range Go leaves the result to the implementation, which is the argument
  \<open>other\<close>.
\<close>

definition int64_of :: "(float64 \<Rightarrow> int) \<Rightarrow> float64 \<Rightarrow> int" where
  "int64_of other f = (case f of Finite a \<Rightarrow> if minInt64 \<le> trunc a \<and> trunc a \<le> maxInt64 then trunc a else other f | _ \<Rightarrow> other f)"

section \<open>Powers of two and exponents\<close>

lemma pow2_powi: "pow2 e = 2 powi e"
  by (simp add: pow2_def power_int_def field_simps)

lemma pow2_pos [simp]: "0 < pow2 e"
  by (simp add: pow2_def)

lemma pow2_add: "pow2 (a + b) = pow2 a * pow2 b"
  by (simp add: pow2_powi power_int_add)

lemma pow2_mono: "a \<le> b \<Longrightarrow> pow2 a \<le> pow2 b"
  by (simp add: pow2_powi power_int_increasing)

lemma pow2_less_iff: "pow2 a < pow2 b \<longleftrightarrow> a < b"
proof
  show "a < b" if "pow2 a < pow2 b" using pow2_mono [of b a] that by linarith
  show "pow2 a < pow2 b" if "a < b" using that by (simp add: pow2_powi power_int_strict_increasing)
qed

lemma pow2_of_nat: "pow2 (int n) = 2 ^ n"
  by (simp add: pow2_def)

lemma ilog2_bounds: "0 < n \<Longrightarrow> 2 ^ ilog2 n \<le> n \<and> n < 2 ^ Suc (ilog2 n)"
proof (induction n rule: ilog2.induct)
  case (1 n)
  show ?case
  proof (cases "n < 2")
    case True
    with 1 show ?thesis by (simp add: ilog2.simps)
  next
    case False
    have "2 ^ ilog2 (n div 2) \<le> n div 2 \<and> n div 2 < 2 ^ Suc (ilog2 (n div 2))" using False 1 by simp
    then have "2 * 2 ^ ilog2 (n div 2) \<le> n \<and> n < 2 * 2 ^ Suc (ilog2 (n div 2))" by linarith
    with False show ?thesis by (simp add: ilog2.simps [of n])
  qed
qed

lemma expo_bounds:
  assumes "0 < r"
  shows "pow2 (expo r) \<le> r" "r < pow2 (expo r + 1)"
proof -
  obtain p q where pq: "quotient_of r = (p, q)" by (cases "quotient_of r")
  have q: "0 < q" and r: "r = of_int p / of_int q"
    using quotient_of_denom_pos [OF pq] quotient_of_div [OF pq] by auto
  have p: "0 < p" using assms q unfolding r by (simp add: zero_less_divide_iff)
  let ?a = "int (ilog2 (nat p))" and ?b = "int (ilog2 (nat q))"
  have bounds: "pow2 (int (ilog2 (nat n))) \<le> of_int n \<and> of_int n < pow2 (int (ilog2 (nat n)) + 1)" if "0 < n" for n :: int
  proof -
    have "2 ^ ilog2 (nat n) \<le> nat n" "nat n < 2 ^ Suc (ilog2 (nat n))" using ilog2_bounds [of "nat n"] that by simp_all
    then have "(of_nat (2 ^ ilog2 (nat n)) :: rat) \<le> of_nat (nat n)" "(of_nat (nat n) :: rat) < of_nat (2 ^ Suc (ilog2 (nat n)))"
      by (simp_all only: of_nat_le_iff of_nat_less_iff)
    then show ?thesis using that by (simp add: pow2_of_nat pow2_add pow2_def [of 1] mult.commute)
  qed
  have lo: "pow2 (?a - ?b - 1) < r"
  proof -
    have "pow2 (?a - ?b - 1) * of_int q < pow2 (?a - ?b - 1) * pow2 (?b + 1)" using bounds [OF q] by simp
    also have "\<dots> = pow2 ?a" by (simp add: pow2_add [symmetric])
    also have "\<dots> \<le> of_int p" using bounds [OF p] by simp
    finally show ?thesis using q by (simp add: r pos_less_divide_eq)
  qed
  have hi: "r < pow2 (?a - ?b + 1)"
  proof -
    have "of_int p < pow2 (?a + 1)" using bounds [OF p] by simp
    also have "\<dots> = pow2 (?a - ?b + 1) * pow2 ?b" by (simp add: pow2_add [symmetric])
    also have "\<dots> \<le> pow2 (?a - ?b + 1) * of_int q" using bounds [OF q] by simp
    finally show ?thesis using q by (simp add: r pos_divide_less_eq)
  qed
  show "pow2 (expo r) \<le> r" "r < pow2 (expo r + 1)"
    using lo hi by (auto simp: expo_def pq Let_def)
qed

lemma expo_less: "0 < r \<Longrightarrow> r < pow2 k \<Longrightarrow> expo r < k"
  using expo_bounds(1) [of r] pow2_less_iff [of "expo r" k] by linarith

section \<open>Rounding to the nearest\<close>

lemma roundEven_error: "\<bar>of_int (roundEven y) - y\<bar> \<le> 1/2"
  using of_int_floor_le [of y] floor_correct [of y] by (auto simp: roundEven_def Let_def abs_le_iff)

lemma roundEven_of_int [simp]: "roundEven (of_int k) = k"
  by (simp add: roundEven_def)

lemma roundEven_ge: "of_int k \<le> y \<Longrightarrow> k \<le> roundEven y"
  using le_floor_iff [of k y] by (auto simp: roundEven_def Let_def)

lemma ulp_pos [simp]: "0 < ulp r"
  by (simp add: ulp_def)

lemma rnd_pos: "0 < r \<Longrightarrow> rnd r = of_int (roundEven (r / ulp r)) * ulp r"
  by (simp add: rnd_def Let_def)

lemma rnd_error:
  assumes "0 < r"
  shows "\<bar>rnd r - r\<bar> \<le> ulp r / 2"
proof -
  have u: "0 < ulp r" by simp
  have "rnd r - r = (of_int (roundEven (r / ulp r)) - r / ulp r) * ulp r"
    using assms less_imp_neq [OF u] by (simp add: rnd_pos left_diff_distrib)
  then have "\<bar>rnd r - r\<bar> = \<bar>of_int (roundEven (r / ulp r)) - r / ulp r\<bar> * ulp r"
    using abs_of_pos [OF u] by (simp only: abs_mult)
  also have "\<dots> \<le> 1/2 * ulp r" using roundEven_error less_imp_le [OF u] by (intro mult_right_mono)
  finally show ?thesis by simp
qed

lemma rnd_multiple: "0 < r \<Longrightarrow> r = of_int k * ulp r \<Longrightarrow> rnd r = r"
proof -
  assume r: "0 < r" "r = of_int k * ulp r"
  then have "r / ulp r = of_int k" using ulp_pos [of r] by (metis less_irrefl nonzero_eq_divide_eq)
  with r show "rnd r = r" by (simp add: rnd_pos)
qed

lemma rnd_ge_multiple:
  assumes "0 < r" "of_int k * ulp r \<le> r"
  shows "of_int k * ulp r \<le> rnd r"
proof -
  have "k \<le> roundEven (r / ulp r)" using assms by (intro roundEven_ge) (simp add: pos_le_divide_eq)
  then show ?thesis using assms(1) by (simp add: rnd_pos mult_right_mono less_imp_le)
qed

text \<open>Below \<open>2 ^ 53\<close> the neighbours are at most one apart, and whole numbers are doubles.\<close>

lemma ulp_divides_one:
  assumes "0 < r" "r < 2 ^ 53"
  obtains m :: int where "1 = of_int m * ulp r" and "0 < m"
proof -
  have "expo r < 53" using expo_less [OF assms(1), of 53] assms(2) by (simp add: pow2_def)
  define j where "j = nat (- max (expo r - 52) (- 1074))"
  have "max (expo r - 52) (- 1074) = - int j" using \<open>expo r < 53\<close> by (simp add: j_def max_def)
  then have "of_int (2 ^ j) * ulp r = 1" by (simp add: ulp_def pow2_def)
  then show ?thesis using that [of "2 ^ j"] by simp
qed

lemma rnd_whole: 
  assumes "\<bar>k\<bar> < 2 ^ 53"
  shows "rnd (of_int k) = of_int k"
proof -
  have pos: "rnd (of_int k) = of_int k" if k: "0 < k" "k < 2 ^ 53" for k
  proof -
    have "(of_int k :: rat) < of_int (2 ^ 53)" using k(2) by (simp only: of_int_less_iff)
    then obtain m where m: "1 = of_int m * ulp (of_int k)" using ulp_divides_one [of "of_int k"] k(1) by auto
    then have "of_int k = of_int (k * m) * ulp (of_int k)" by simp
    then show ?thesis using rnd_multiple [of "of_int k" "k * m"] k(1) by simp
  qed
  have neg: "rnd (- r) = - rnd r" for r by (auto simp: rnd_def Let_def)
  consider "k = 0" | "0 < k" | "k < 0" by linarith
  then show ?thesis
  proof cases
    case 3
    then have "rnd (of_int (- k)) = of_int (- k)" using pos [of "- k"] assms by simp
    then show ?thesis using neg [of "of_int k"] by simp
  qed (use pos [of k] assms in \<open>auto simp: rnd_def\<close>)
qed

lemma fl_finite: "\<bar>rnd r\<bar> < 2 ^ 1024 \<Longrightarrow> fl r = Finite (rnd r)"
  using expo_less [of "\<bar>rnd r\<bar>" 1024] pow2_of_nat [of 1024] by (auto simp: fl_def Let_def)

lemma fl_whole: "\<bar>k\<bar> < 2 ^ 53 \<Longrightarrow> fl (of_int k) = Finite (of_int k)"
proof -
  assume k: "\<bar>k\<bar> < 2 ^ 53"
  then have "\<bar>k\<bar> < 2 ^ 1024" by (rule order.strict_trans2) simp
  then have "(of_int \<bar>k\<bar> :: rat) < of_int (2 ^ 1024)" by (simp only: of_int_less_iff)
  with rnd_whole [OF k] show ?thesis using fl_finite [of "of_int k"] by simp
qed

text \<open>A positive number is rounded by at most one part in \<open>2 ^ 53\<close>, or by less than the smallest double.\<close>

lemma ulp_le:
  assumes "0 < r"
  shows "ulp r \<le> max (r / 2 ^ 52) (1 / 2 ^ 1074)"
proof -
  have "pow2 (expo r - 52) = pow2 (expo r) * pow2 (- 52)" by (simp flip: pow2_add)
  also have "\<dots> \<le> r * pow2 (- 52)" using expo_bounds(1) [OF assms] by (intro mult_right_mono) (simp_all add: less_imp_le)
  finally have "pow2 (expo r - 52) \<le> r / 2 ^ 52" by (simp add: pow2_def [of "- 52"])
  moreover have "pow2 (- 1074) = 1 / 2 ^ 1074" by (simp add: pow2_def)
  ultimately show ?thesis by (auto simp: ulp_def max_def)
qed

text \<open>The floor of a quotient of whole numbers survives the rounding of the quotient.\<close>

lemma floor_rnd_quotient:
  fixes v :: int and n :: nat
  assumes "0 \<le> v" "v < 2 ^ 53" "0 < n" "int n < 2 ^ 53"
  shows "\<lfloor>rnd (of_int v / of_nat n)\<rfloor> = v div int n"
proof (cases "v = 0")
  case False
  let ?x = "of_int v / of_nat n :: rat" and ?k = "v div int n"
  have x: "0 < ?x" using assms False by simp
  have "(of_int v :: rat) < of_int (2 ^ 53)" using assms(2) by (simp only: of_int_less_iff)
  then have v: "(of_int v :: rat) < 2 ^ 53" by simp
  have "?x \<le> of_int v" using assms(1,3) by (simp add: pos_divide_le_eq mult_le_cancel_left1)
  with v have x53: "?x < 2 ^ 53" by linarith
  obtain m where m: "1 = of_int m * ulp ?x" "0 < m" using ulp_divides_one [OF x x53] by blast
  have vk: "v = ?k * int n + v mod int n" by simp
  have kx: "of_int ?k \<le> ?x" by (metis floor_divide_of_int_eq of_int_floor_le of_int_of_nat_eq)
  have k: "of_int ?k = of_int (?k * m) * ulp ?x" using m(1) by (simp add: mult.assoc)
  then have "of_int (?k * m) * ulp ?x \<le> ?x" using kx by (simp only:)
  from rnd_ge_multiple [OF x this] k have lo: "of_int ?k \<le> rnd ?x" by (simp only:)
  have "v mod int n + 1 \<le> int n" using assms(3) pos_mod_bound [of "int n" v] by linarith
  then have "v + 1 \<le> (?k + 1) * int n" unfolding distrib_right using vk by linarith
  then have "(of_int (v + 1) :: rat) \<le> of_int ((?k + 1) * int n)" by (simp only: of_int_le_iff)
  then have gap: "?x + 1 / of_nat n \<le> of_int ?k + 1" using assms(3) by (simp add: pos_divide_le_eq flip: add_divide_distrib)
  have "?x / 2 ^ 52 < 2 * (1 / of_nat n)" using v assms(3) by (simp add: field_simps)
  moreover have "(1 :: rat) / 2 ^ 1074 < 2 * (1 / of_nat n)"
  proof -
    have "(of_nat n :: rat) < 2 ^ 53" using assms(4) by (metis of_int_less_iff of_int_numeral of_int_of_nat_eq of_int_power)
    then have "(of_nat n :: rat) < 2 ^ 1074" by (rule order.strict_trans) simp
    then have "(1 :: rat) / 2 ^ 1074 < 1 / of_nat n"
      using assms(3) by (intro divide_strict_left_mono) (simp_all del: power_numeral)
    moreover have "0 < 1 / (of_nat n :: rat)" using assms(3) by simp
    ultimately show ?thesis by linarith
  qed
  ultimately have "ulp ?x / 2 < 1 / of_nat n" using ulp_le [OF x] by linarith
  with rnd_error [OF x] gap have "rnd ?x < of_int ?k + 1" by linarith
  with lo show ?thesis by (simp add: floor_unique)
qed (simp add: rnd_def)

lemma rnd_below_one: 
  assumes "0 \<le> r" "r \<le> 1/2"
  shows "0 \<le> rnd r \<and> rnd r < 1"
proof (cases "r = 0")
  case False
  then have r: "0 < r" using assms by simp
  have "(1 :: rat) / 2 ^ 1074 < 1/2" "r / 2 ^ 52 < 1/2" using assms by simp_all
  then have "ulp r < 1/2" using ulp_le [OF r] by linarith
  moreover have "0 \<le> rnd r" using rnd_ge_multiple [OF r, of 0] r by simp
  ultimately show ?thesis using rnd_error [OF r] assms by linarith
qed (simp add: rnd_def)

text \<open>Computing a rounding by the nearest multiple, for concrete numbers.\<close>

lemma rnd_nearest:
  assumes "pow2 e \<le> r" "r < pow2 (e + 1)" "- 1022 \<le> e" "\<bar>r / pow2 (e - 52) - of_int k\<bar> < 1/2"
  shows "rnd r = of_int k * pow2 (e - 52)" "expo r = e"
proof -
  have r: "0 < r" using assms(1) pow2_pos [of e] by linarith
  have "expo r < e + 1" using expo_less [OF r assms(2)] .
  moreover have "pow2 e < pow2 (expo r + 1)" using assms(1) expo_bounds(2) [OF r] by linarith
  ultimately show e: "expo r = e" by (simp add: pow2_less_iff)
  have u: "ulp r = pow2 (e - 52)" using assms(3) by (simp add: ulp_def e)
  have "\<bar>of_int (roundEven (r / ulp r)) - of_int k :: rat\<bar> < 1"
    using roundEven_error [of "r / ulp r"] assms(4) unfolding u by linarith
  then have "\<bar>roundEven (r / ulp r) - k\<bar> < 1" by (metis of_int_abs of_int_diff of_int_less_1_iff)
  then show "rnd r = of_int k * pow2 (e - 52)" using rnd_pos [OF r] u by simp
qed

end
