(* ===== verification/Sizer_Report.thy ===== *)
theory Sizer_Report
  imports Go_Float
begin

text \<open>
  The report of the right-sizer (\<^verbatim>\<open>right-sizer/src/report/report.go\<close>) and the helpers it takes from
  \<^verbatim>\<open>right-sizer/src/util/kubernetes.go\<close>. Resource quantities are rationals, which is what the exact decimals of
  \<^verbatim>\<open>inf.Dec\<close> denote; their format only matters for printing, a parameter. A nil pointer is \<open>None\<close>; a
  nil dereference or an index out of range is a panic, the result \<open>None\<close> of an operation. Error messages that print
  whole structures are abbreviated; no part of the program reads them.
\<close>

section \<open>Quantities\<close>

definition gtZero :: "float64 \<Rightarrow> bool" where
  "gtZero f = (case f of Finite r \<Rightarrow> 0 < r | Infinite neg \<Rightarrow> \<not> neg | NaN \<Rightarrow> False)"

text \<open>
  The decimal that \<^verbatim>\<open>fmt.Sprintf("%.2f", f)\<close> denotes: the nearest multiple of one hundredth, the even one
  of two equally near. The texts of infinities and of NaN are no decimals, which is the error of \<^verbatim>\<open>SetString\<close>.
\<close>

definition hundredths :: "rat \<Rightarrow> int" where
  "hundredths r = (let n = \<lfloor>r * 100\<rfloor>; d = r * 100 - of_int n in
     if 1/2 < d \<or> (d = 1/2 \<and> odd n) then n + 1 else n)"

definition multiplierAsDec :: "float64 \<Rightarrow> rat option" where
  "multiplierAsDec f = (case f of Finite r \<Rightarrow> Some (of_int (hundredths r) / 100) | _ \<Rightarrow> None)"

text \<open>An error leaves the zero quantity.\<close>

definition MultiplyResourceQuantity :: "rat \<Rightarrow> float64 \<Rightarrow> rat \<times> bool" where
  "MultiplyResourceQuantity q multiplier =
     (case multiplierAsDec multiplier of None \<Rightarrow> (0, True) | Some m \<Rightarrow> (q * m, False))"

section \<open>Items\<close>

record RightSizerReportItem =
  ri_kind :: string
  ri_resourceName :: string
  ri_resourceNamespace :: string
  ri_resourceContainer :: string
  ri_startingMemory :: "rat option"
  ri_endingMemory :: "rat option"
  ri_numOOMs :: int
  ri_firstOOM :: go_time
  ri_lastOOM :: go_time
  ri_resourceGeneration :: int

text \<open>The four fields that identify an item in the loops of the builder.\<close>

type_synonym itemKey = "string \<times> string \<times> string \<times> string"

definition keyOf :: "RightSizerReportItem \<Rightarrow> itemKey" where
  "keyOf i = (ri_kind i, ri_resourceNamespace i, ri_resourceName i, ri_resourceContainer i)"

definition itemString :: "RightSizerReportItem \<Rightarrow> string" where
  "itemString i = ri_kind i @ '' '' @ ri_resourceNamespace i @ ''/'' @ ri_resourceName i @ '':'' @ ri_resourceContainer i"

definition MaxAllowedEndingMemory :: "RightSizerReportItem \<Rightarrow> float64 \<Rightarrow> (rat \<times> bool) option" where
  "MaxAllowedEndingMemory i maxMultiplier =
     map_option (\<lambda>q. MultiplyResourceQuantity q maxMultiplier) (ri_startingMemory i)"

definition IncrementMemory :: "RightSizerReportItem \<Rightarrow> rat \<Rightarrow> float64 \<Rightarrow> float64 \<Rightarrow> rat option" where
  "IncrementMemory i currentMemory incrementMultiplier maxMultiplier =
     (case MultiplyResourceQuantity currentMemory incrementMultiplier of
        (newMemory, err) \<Rightarrow>
          if err then Some 0
          else case MaxAllowedEndingMemory i maxMultiplier of
            None \<Rightarrow> None
          | Some (maxAllowed, err) \<Rightarrow>
              if err then Some 0 else if maxAllowed < newMemory then Some 0 else Some newMemory)"

section \<open>Workloads\<close>

text \<open>
  Containers, with the memory limit that \<^verbatim>\<open>Limits.Memory()\<close> reads, and the JSON tree of an unstructured object.
\<close>

record container =
  cn_name :: string
  cn_memoryLimit :: "rat option"

definition limitsMemory :: "container \<Rightarrow> rat" where
  "limitsMemory c = (case cn_memoryLimit c of None \<Rightarrow> 0 | Some q \<Rightarrow> q)"

datatype json = JObject "(string \<times> json) list" | JArray "json list" | JLeaf string

record unstructured =
  un_kind :: string
  un_namespace :: string
  un_name :: string
  un_generation :: int
  un_content :: "(string \<times> json) list"

text \<open>\<^verbatim>\<open>unstructured.NestedMap\<close>: the map at a path, if there is one; a path through something else is an error.\<close>

fun NestedMap :: "(string \<times> json) list \<Rightarrow> string list \<Rightarrow> (string \<times> json) list option" where
  "NestedMap m [] = Some m"
| "NestedMap m (f # fs) = (case map_of m f of Some (JObject m') \<Rightarrow> NestedMap m' fs | _ \<Rightarrow> None)"

definition searchFields :: "string list list" where
  "searchFields = [[''spec''], [''spec'', ''jobTemplate''], [''spec'', ''template'', ''spec'']]"

fun joinWith :: "string \<Rightarrow> string list \<Rightarrow> string" where
  "joinWith sep [] = ''''"
| "joinWith sep [x] = x"
| "joinWith sep (x # y # ys) = x @ sep @ joinWith sep (y # ys)"

text \<open>
  \<open>convert\<close> is the library's conversion of a map to a pod spec, here its containers. The first place whose
  conversion succeeds with at least one container is taken.
\<close>

type_synonym converter = "(string \<times> json) list \<Rightarrow> string + container list"

fun findPodSpec :: "converter \<Rightarrow> (string \<times> json) list \<Rightarrow> string list list \<Rightarrow> (container list \<times> string) option" where
  "findPodSpec convert content [] = None"
| "findPodSpec convert content (path # rest) =
     (case NestedMap content path of
        None \<Rightarrow> findPodSpec convert content rest
      | Some m \<Rightarrow>
          (case convert m of
             Inr (c # cs) \<Rightarrow> Some (c # cs, joinWith ''/'' path)
           | _ \<Rightarrow> findPodSpec convert content rest))"

definition objInfo :: "string \<Rightarrow> string \<Rightarrow> string \<Rightarrow> string" where
  "objInfo kind ns name = kind @ '' '' @ ns @ ''/'' @ name"

definition FindPodSpecInUnstructured :: "converter \<Rightarrow> unstructured \<Rightarrow> string + container list \<times> string" where
  "FindPodSpecInUnstructured convert u =
     (case findPodSpec convert (un_content u) searchFields of
        Some r \<Rightarrow> Inr r
      | None \<Rightarrow> Inl (''no pod spec found in '' @ objInfo (un_kind u) (un_namespace u) (un_name u)))"

fun findContainer :: "container list \<Rightarrow> string \<Rightarrow> nat \<Rightarrow> (container \<times> nat) option" where
  "findContainer [] name i = None"
| "findContainer (c # cs) name i = (if cn_name c = name then Some (c, i) else findContainer cs name (Suc i))"

definition FindContainerInPodSpec :: "container list \<Rightarrow> string \<Rightarrow> (container \<times> nat) option" where
  "FindContainerInPodSpec podSpec name = findContainer podSpec name 0"

text \<open>The container, the path of the pod spec and the container's number; \<open>Inr None\<close> if it is not found.\<close>

definition FindContainerInUnstructured :: "converter \<Rightarrow> unstructured \<Rightarrow> string \<Rightarrow> string + (container \<times> string \<times> nat) option" where
  "FindContainerInUnstructured convert u name =
     (case FindPodSpecInUnstructured convert u of
        Inl err \<Rightarrow> Inl (''unable to find podspec to find container '' @ name @ '': '' @ err)
      | Inr (podSpec, path) \<Rightarrow> Inr (map_option (\<lambda>(c, i). (c, path, i)) (FindContainerInPodSpec podSpec name)))"

section \<open>The report\<close>

text \<open>\<open>rb_report\<close> is \<^verbatim>\<open>Report.Items\<close>; the pointer \<^verbatim>\<open>Report\<close> itself can become nil when a state is read.\<close>

record RightSizerReportBuilder =
  rb_report :: "RightSizerReportItem list option"
  rb_tooOldAge :: duration
  rb_stateConfigMapNamespace :: string
  rb_stateConfigMapName :: string

datatype builderOption = WithStateConfigMapNamespace string | WithStateConfigMapName string | WithTooOldAge duration

definition applyBuilderOption :: "builderOption \<Rightarrow> RightSizerReportBuilder \<Rightarrow> RightSizerReportBuilder" where
  "applyBuilderOption opt r =
     (case opt of
        WithStateConfigMapNamespace v \<Rightarrow> if v \<noteq> '''' then r\<lparr>rb_stateConfigMapNamespace := v\<rparr> else r
      | WithStateConfigMapName v \<Rightarrow> if v \<noteq> '''' then r\<lparr>rb_stateConfigMapName := v\<rparr> else r
      | WithTooOldAge v \<Rightarrow> if 0 < v then r\<lparr>rb_tooOldAge := v\<rparr> else r)"

definition NewRightSizerReportBuilder :: "builderOption list \<Rightarrow> RightSizerReportBuilder" where
  "NewRightSizerReportBuilder options =
     fold applyBuilderOption options
       \<lparr>rb_report = Some [], rb_tooOldAge = 86400000000000, rb_stateConfigMapNamespace = ''insights-agent'',
        rb_stateConfigMapName = ''insights-agent-right-sizer-controller-state''\<rparr>"

definition PopulateExistingItemFields :: "RightSizerReportItem list \<Rightarrow> RightSizerReportItem \<Rightarrow> RightSizerReportItem \<times> bool" where
  "PopulateExistingItemFields items yourItem =
     (case find (\<lambda>i. keyOf i = keyOf yourItem) items of Some i \<Rightarrow> (i, True) | None \<Rightarrow> (yourItem, False))"

definition CreateRightSizerReportItem :: "RightSizerReportItem list \<Rightarrow> unstructured \<Rightarrow> container \<Rightarrow> go_time \<Rightarrow> RightSizerReportItem" where
  "CreateRightSizerReportItem items podController c now =
     (let fresh = \<lparr>ri_kind = un_kind podController, ri_resourceName = un_name podController,
                   ri_resourceNamespace = un_namespace podController, ri_resourceContainer = cn_name c,
                   ri_startingMemory = None, ri_endingMemory = None, ri_numOOMs = 0, ri_firstOOM = zeroTime,
                   ri_lastOOM = zeroTime, ri_resourceGeneration = un_generation podController\<rparr>;
          (item, itemAlreadyExists) = PopulateExistingItemFields items fresh;
          item1 = item\<lparr>ri_lastOOM := now, ri_numOOMs := ri_numOOMs item + 1, ri_endingMemory := Some (limitsMemory c)\<rparr>
      in if itemAlreadyExists then item1
         else item1\<lparr>ri_firstOOM := ri_lastOOM item1, ri_startingMemory := Some (limitsMemory c)\<rparr>)"

fun storeLoop :: "RightSizerReportItem list \<Rightarrow> RightSizerReportItem \<Rightarrow> RightSizerReportItem list option" where
  "storeLoop [] newItem = None"
| "storeLoop (item # items) newItem =
     (if keyOf item = keyOf newItem
      then Some (newItem\<lparr>ri_firstOOM := ri_firstOOM item, ri_startingMemory := ri_startingMemory item\<rparr> # items)
      else map_option ((#) item) (storeLoop items newItem))"

definition StoreItem :: "RightSizerReportItem list \<Rightarrow> RightSizerReportItem \<Rightarrow> go_time \<Rightarrow> RightSizerReportItem list" where
  "StoreItem items newItem now =
     (case storeLoop items newItem of
        Some items' \<Rightarrow> items'
      | None \<Rightarrow> items @ [newItem\<lparr>ri_numOOMs := 1, ri_firstOOM := now, ri_lastOOM := now\<rparr>])"

definition MatchItems :: "RightSizerReportItem list \<Rightarrow> string \<Rightarrow> string \<Rightarrow> string \<Rightarrow> RightSizerReportItem list option" where
  "MatchItems items kind ns name =
     (let matched = filter (\<lambda>i. ri_kind i = kind \<and> ri_resourceNamespace i = ns \<and> ri_resourceName i = name) items
      in if matched \<noteq> [] then Some matched else None)"

text \<open>
  The loop over the matches: the items that are older than the generation in the cluster and have another memory
  limit. An item without an ending memory panics in the comparison.
\<close>

fun olderLoop :: "converter \<Rightarrow> unstructured \<Rightarrow> RightSizerReportItem list \<Rightarrow> RightSizerReportItem list option" where
  "olderLoop convert res [] = Some []"
| "olderLoop convert res (item # items) =
     (if ri_resourceGeneration item < 1 then olderLoop convert res items
      else case FindPodSpecInUnstructured convert res of
        Inl _ \<Rightarrow> olderLoop convert res items
      | Inr (podSpec, _) \<Rightarrow>
          (case FindContainerInPodSpec podSpec (ri_resourceContainer item) of
             None \<Rightarrow> olderLoop convert res items
           | Some (c, _) \<Rightarrow>
               (case ri_endingMemory item of
                  None \<Rightarrow> None
                | Some ending \<Rightarrow>
                    if ri_resourceGeneration item < un_generation res \<and> ending \<noteq> limitsMemory c
                    then map_option ((#) item) (olderLoop convert res items)
                    else olderLoop convert res items)))"

text \<open>
  The answer of \<^verbatim>\<open>GetUnstructuredResourceFromObjectRef\<close>: the object, that it is absent, or an error. An error
  comes with \<^verbatim>\<open>found = false\<close>, which the caller tests first.
\<close>

datatype 'a lookup = LFound 'a | LNotFound | LError string

record objectRef =
  or_kind :: string
  or_namespace :: string
  or_name :: string
  or_apiVersion :: string
  or_uid :: string
  or_resourceVersion :: string
  or_fieldPath :: string

definition GetUnstructuredResourceFromObjectRef ::
    "(objectRef \<Rightarrow> string option) \<Rightarrow> (objectRef \<Rightarrow> unstructured lookup) \<Rightarrow> objectRef \<Rightarrow>
     unstructured option \<times> bool \<times> string option" where
  "GetUnstructuredResourceFromObjectRef restMapping get ref =
     (case restMapping ref of
        Some err \<Rightarrow> (None, False, Some (''error creating RESTMapper mapping from group-version-kind: '' @ err))
      | None \<Rightarrow>
          (case get ref of
             LNotFound \<Rightarrow> (None, False, None)
           | LError err \<Rightarrow> (None, False, Some err)
           | LFound res \<Rightarrow> (Some res, True, None)))"

definition MatchItemsOlderWithModifiedMemoryLimits ::
    "converter \<Rightarrow> (objectRef \<Rightarrow> string option) \<Rightarrow> (objectRef \<Rightarrow> unstructured lookup) \<Rightarrow> RightSizerReportItem list \<Rightarrow> objectRef \<Rightarrow>
     (string + RightSizerReportItem list option) option" where
  "MatchItemsOlderWithModifiedMemoryLimits convert restMapping get items ref =
     (case MatchItems items (or_kind ref) (or_namespace ref) (or_name ref) of
        None \<Rightarrow> Some (Inr None)
      | Some allMatches \<Rightarrow>
          (case GetUnstructuredResourceFromObjectRef restMapping get ref of
             (res, found, err) \<Rightarrow>
               if \<not> found then Some (Inr None)
               else case err of
                 Some e \<Rightarrow> Some (Inl (''error finding resource from involved object '' @
                             objInfo (or_kind ref) (or_namespace ref) (or_name ref) @ '': '' @ e))
               | None \<Rightarrow>
                   (case res of
                      None \<Rightarrow> None
                    | Some r \<Rightarrow> map_option (\<lambda>older. Inr (if older \<noteq> [] then Some older else None))
                        (olderLoop convert r allMatches))))"

definition RemoveOldItems :: "duration \<Rightarrow> go_time \<Rightarrow> RightSizerReportItem list \<Rightarrow> RightSizerReportItem list \<times> bool" where
  "RemoveOldItems tooOldAge now items =
     (let kept = filter (\<lambda>i. \<not> (0 < tooOldAge \<and> tooOldAge \<le> timeSub now (ri_lastOOM i))) items
      in if length kept \<noteq> length items then (kept, True) else (items, False))"

text \<open>
  \<^verbatim>\<open>RemoveItems\<close>. The inner loop over the items to remove deletes from the slice at the index and steps the index
  back, and goes on with the remaining items to remove at the index before; at index 0 that is index -1, and
  reading it panics.
\<close>

fun removeInner :: "RightSizerReportItem list \<Rightarrow> RightSizerReportItem list \<Rightarrow> int \<Rightarrow> bool \<Rightarrow>
    (RightSizerReportItem list \<times> int \<times> bool) option" where
  "removeInner [] kept itemNum removed = Some (kept, itemNum, removed)"
| "removeInner (r # rs) kept itemNum removed =
     (if itemNum < 0 \<or> int (length kept) \<le> itemNum then None
      else if itemString (kept ! nat itemNum) = itemString r
      then removeInner rs (take (nat itemNum) kept @ drop (Suc (nat itemNum)) kept) (itemNum - 1) True
      else removeInner rs kept itemNum removed)"

text \<open>The inner loop never moves the index forward and shortens the slice whenever it moves it back.\<close>

lemma removeInner_measure:
  "removeInner rs kept n b = Some (kept', n', b') \<Longrightarrow> n' \<le> n \<and> int (length kept') - n' = int (length kept) - n \<and> length kept' \<le> length kept"
proof (induction rs kept n b rule: removeInner.induct)
  case (2 r rs kept n b)
  then show ?case
    by (fastforce split: if_splits)
qed simp

function removeOuter :: "RightSizerReportItem list \<Rightarrow> RightSizerReportItem list \<Rightarrow> int \<Rightarrow> bool \<Rightarrow>
    (RightSizerReportItem list \<times> bool) option" where
  "removeOuter rs kept itemNum removed =
     (if int (length kept) \<le> itemNum then Some (kept, removed)
      else case removeInner rs kept itemNum removed of
        None \<Rightarrow> None
      | Some (kept', itemNum', removed') \<Rightarrow> removeOuter rs kept' (itemNum' + 1) removed')"
  by auto
termination
  by (relation "measure (\<lambda>(rs, kept, n, b). nat (int (length kept) - n))")
    (use removeInner_measure in fastforce)+

definition RemoveItems :: "RightSizerReportItem list \<Rightarrow> RightSizerReportItem list \<Rightarrow> (RightSizerReportItem list \<times> bool) option" where
  "RemoveItems items removeItems =
     (if removeItems = [] then Some (items, False)
      else map_option (\<lambda>(kept, removed). (if removed then kept else items, removed)) (removeOuter removeItems items 0 False))"

section \<open>Removal\<close>

definition toRemove :: "RightSizerReportItem list \<Rightarrow> RightSizerReportItem \<Rightarrow> bool" where
  "toRemove rs x \<longleftrightarrow> itemString x \<in> itemString ` set rs"

lemma toRemove_Cons: "toRemove (r # rs) x \<longleftrightarrow> itemString x = itemString r \<or> toRemove rs x"
  by (auto simp: toRemove_def)

lemma removeInner_keeps:
  assumes "0 \<le> n" and "n < int (length kept)" and "\<not> toRemove rs (kept ! nat n)"
  shows "removeInner rs kept n b = Some (kept, n, b)"
  using assms by (induction rs) (auto simp: toRemove_Cons)

lemma removeInner_inside:
  assumes "\<not> toRemove rs y" and "toRemove rs x"
  shows "removeInner rs (ps @ y # x # xs) (int (length ps) + 1) b = Some (ps @ y # xs, int (length ps), True)"
  using assms
proof (induction rs)
  case Nil
  then show ?case by (simp add: toRemove_def)
next
  case (Cons r rs)
  have n: "nat (int (length ps) + 1) = Suc (length ps)" by simp
  have rest: "removeInner rs (ps @ y # xs) (int (length ps)) True = Some (ps @ y # xs, int (length ps), True)"
    using Cons.prems by (intro removeInner_keeps) (auto simp: toRemove_Cons)
  show ?case
  proof (cases "itemString x = itemString r")
    case True
    then show ?thesis using rest by (simp add: n nth_append)
  next
    case False
    then show ?thesis using Cons by (simp add: n nth_append toRemove_Cons)
  qed
qed

lemma removeInner_first:
  assumes "toRemove rs x"
  shows "removeInner rs (x # xs) 0 b = (if toRemove (butlast rs) x then None else Some (xs, -1, True))"
  using assms
proof (induction rs)
  case Nil
  then show ?case by (simp add: toRemove_def)
next
  case (Cons r rs)
  show ?case
  proof (cases "itemString x = itemString r")
    case True
    then show ?thesis by (cases rs) (auto simp: toRemove_Cons toRemove_def)
  next
    case False
    then show ?thesis using Cons by (cases rs) (auto simp: toRemove_Cons toRemove_def)
  qed
qed

declare removeOuter.simps [simp del]

lemma removeOuter_inside:
  "\<not> toRemove rs y \<Longrightarrow>
   removeOuter rs (ps @ y # xs) (int (length ps) + 1) b =
     Some (ps @ y # filter (\<lambda>x. \<not> toRemove rs x) xs, b \<or> list_ex (toRemove rs) xs)"
proof (induction xs arbitrary: ps y b)
  case Nil
  then show ?case by (simp add: removeOuter.simps)
next
  case (Cons x xs)
  show ?case
  proof (cases "toRemove rs x")
    case True
    then show ?thesis using removeInner_inside [OF Cons.prems True, of ps xs b] Cons.IH [OF Cons.prems, of ps True]
      by (subst removeOuter.simps) simp
  next
    case False
    have "removeInner rs (ps @ y # x # xs) (int (length ps) + 1) b = Some (ps @ y # x # xs, int (length ps) + 1, b)"
      using False by (intro removeInner_keeps) (auto simp: nth_append nat_add_distrib)
    with False Cons.IH [OF False, of "ps @ [y]" b] show ?thesis
      by (subst removeOuter.simps) (simp add: add.commute)
  qed
qed

lemma removeOuter_start:
  "removeOuter rs xs 0 b =
     (if list_ex (toRemove (butlast rs)) (takeWhile (toRemove rs) xs) then None
      else Some (filter (\<lambda>x. \<not> toRemove rs x) xs, b \<or> list_ex (toRemove rs) xs))"
proof (induction xs arbitrary: b)
  case Nil
  then show ?case by (simp add: removeOuter.simps)
next
  case (Cons x xs)
  show ?case
  proof (cases "toRemove rs x")
    case True
    then show ?thesis using removeInner_first [OF True, of xs b] Cons.IH [of True]
      by (subst removeOuter.simps) simp
  next
    case False
    have "removeInner rs (x # xs) 0 b = Some (x # xs, 0, b)"
      using False by (intro removeInner_keeps) auto
    with False removeOuter_inside [OF False, of "[]" xs b] show ?thesis
      by (subst removeOuter.simps) simp
  qed
qed

lemma RemoveItems_eq:
  "RemoveItems items rs =
     (if list_ex (toRemove (butlast rs)) (takeWhile (toRemove rs) items) then None
      else Some (filter (\<lambda>x. \<not> toRemove rs x) items, list_ex (toRemove rs) items))"
proof (cases "rs = []")
  case True
  then show ?thesis by (auto simp: RemoveItems_def toRemove_def list_ex_iff dest: set_takeWhileD)
next
  case False
  have "filter (\<lambda>x. \<not> toRemove rs x) items = items" if "\<not> list_ex (toRemove rs) items"
    using that by (auto simp: list_ex_iff filter_id_conv)
  with False show ?thesis by (simp add: RemoveItems_def removeOuter_start)
qed

section \<open>Storing and finding\<close>

definition itemAt :: "RightSizerReportItem list \<Rightarrow> itemKey \<Rightarrow> RightSizerReportItem option" where
  "itemAt items k = find (\<lambda>i. keyOf i = k) items"

lemma itemAt_simps [simp]:
  "itemAt [] k = None" "itemAt (i # items) k = (if keyOf i = k then Some i else itemAt items k)"
  by (simp_all add: itemAt_def)

lemma itemAt_append: "itemAt (xs @ ys) k = (case itemAt xs k of Some i \<Rightarrow> Some i | None \<Rightarrow> itemAt ys k)"
  by (induction xs) simp_all

lemma itemAt_Some: "itemAt items k = Some i \<Longrightarrow> i \<in> set items \<and> keyOf i = k"
  by (induction items) (auto split: if_splits)

lemma itemAt_None: "itemAt items k = None \<longleftrightarrow> k \<notin> keyOf ` set items"
  by (induction items) auto

lemma keyOf_updates [simp]:
  "keyOf (i\<lparr>ri_firstOOM := t\<rparr>) = keyOf i" "keyOf (i\<lparr>ri_lastOOM := t\<rparr>) = keyOf i"
  "keyOf (i\<lparr>ri_startingMemory := q\<rparr>) = keyOf i" "keyOf (i\<lparr>ri_endingMemory := q\<rparr>) = keyOf i"
  "keyOf (i\<lparr>ri_numOOMs := n\<rparr>) = keyOf i" "keyOf (i\<lparr>ri_resourceGeneration := n\<rparr>) = keyOf i"
  by (simp_all add: keyOf_def)

lemma storeLoop_None: "storeLoop items x = None \<longleftrightarrow> itemAt items (keyOf x) = None"
  by (induction items) auto

lemma storeLoop_keys: "storeLoop items x = Some items' \<Longrightarrow> map keyOf items' = map keyOf items"
  by (induction items arbitrary: items') (auto split: if_splits)

lemma storeLoop_itemAt:
  "storeLoop items x = Some items' \<Longrightarrow>
   itemAt items' k = (if k = keyOf x
     then map_option (\<lambda>old. x\<lparr>ri_firstOOM := ri_firstOOM old, ri_startingMemory := ri_startingMemory old\<rparr>) (itemAt items k)
     else itemAt items k)"
  by (induction items arbitrary: items') (auto split: if_splits)

text \<open>What \<^verbatim>\<open>StoreItem\<close> leaves under a key.\<close>

definition stored :: "RightSizerReportItem option \<Rightarrow> RightSizerReportItem \<Rightarrow> go_time \<Rightarrow> RightSizerReportItem" where
  "stored old x now = (case old of
     Some i \<Rightarrow> x\<lparr>ri_firstOOM := ri_firstOOM i, ri_startingMemory := ri_startingMemory i\<rparr>
   | None \<Rightarrow> x\<lparr>ri_numOOMs := 1, ri_firstOOM := now, ri_lastOOM := now\<rparr>)"

lemma StoreItem_itemAt:
  "itemAt (StoreItem items x now) k = (if k = keyOf x then Some (stored (itemAt items k) x now) else itemAt items k)"
proof (cases "storeLoop items x")
  case None
  then have "itemAt items (keyOf x) = None" using storeLoop_None [of items x] by simp
  with None show ?thesis by (auto simp: StoreItem_def itemAt_append stored_def split: option.splits)
next
  case (Some items')
  then have "itemAt items (keyOf x) \<noteq> None" using storeLoop_None [of items x] by simp
  then show ?thesis using Some storeLoop_itemAt [OF Some] by (auto simp: StoreItem_def stored_def)
qed

lemma StoreItem_distinct: "distinct (map keyOf items) \<Longrightarrow> distinct (map keyOf (StoreItem items x now))"
proof (cases "storeLoop items x")
  case None
  moreover from this have "keyOf x \<notin> keyOf ` set items" using storeLoop_None [of items x] by (simp add: itemAt_None)
  moreover assume "distinct (map keyOf items)"
  ultimately show ?thesis by (simp add: StoreItem_def)
next
  case (Some items')
  assume "distinct (map keyOf items)"
  with Some show ?thesis using storeLoop_keys [OF Some] by (simp add: StoreItem_def)
qed

text \<open>The contract the controller relies on: what was first seen of a key stays until the key is removed.\<close>

locale first_seen_store =
  fixes invar :: "'s \<Rightarrow> bool"
    and lookup :: "'s \<Rightarrow> 'k \<Rightarrow> 'v option"
    and put :: "'x \<Rightarrow> 's \<Rightarrow> 's"
    and key :: "'x \<Rightarrow> 'k"
    and origin :: "'v \<Rightarrow> 'o"
  assumes put_invar: "invar s \<Longrightarrow> invar (put x s)"
    and put_other: "k \<noteq> key x \<Longrightarrow> lookup (put x s) k = lookup s k"
    and put_origin: "lookup s (key x) = Some v \<Longrightarrow> \<exists>v'. lookup (put x s) (key x) = Some v' \<and> origin v' = origin v"
    and put_found: "lookup (put x s) (key x) \<noteq> None"
begin

lemma puts_invar: "invar s \<Longrightarrow> invar (fold put xs s)"
  by (induction xs arbitrary: s) (simp_all add: put_invar)

lemma puts_origin: "lookup s k = Some v \<Longrightarrow> \<exists>v'. lookup (fold put xs s) k = Some v' \<and> origin v' = origin v"
proof (induction xs arbitrary: s v)
  case (Cons x xs)
  obtain v1 where "lookup (put x s) k = Some v1" "origin v1 = origin v"
    using Cons.prems put_origin put_other by (cases "k = key x") fastforce+
  with Cons.IH [of "put x s" v1] show ?case by auto
qed simp

lemma puts_dom: "lookup (fold put xs s) k \<noteq> None \<longleftrightarrow> lookup s k \<noteq> None \<or> k \<in> key ` set xs"
proof (induction xs arbitrary: s)
  case (Cons x xs)
  then show ?case using put_found [of x s] put_other [of k x s] by (cases "k = key x") auto
qed simp

end

interpretation report_items: first_seen_store "\<lambda>items. distinct (map keyOf items)" itemAt
  "\<lambda>(x, now) items. StoreItem items x now" "\<lambda>(x, now). keyOf x" "\<lambda>i. (ri_startingMemory i, ri_firstOOM i)"
  by unfold_locales (auto simp: StoreItem_distinct StoreItem_itemAt stored_def)

lemma CreateRightSizerReportItem_key:
  "keyOf (CreateRightSizerReportItem items u c now) = (un_kind u, un_namespace u, un_name u, cn_name c)"
  by (auto simp: CreateRightSizerReportItem_def PopulateExistingItemFields_def Let_def keyOf_def find_Some_iff
      split: option.splits)

lemma RemoveOldItems_items:
  "fst (RemoveOldItems age now items) = filter (\<lambda>i. \<not> (0 < age \<and> age \<le> timeSub now (ri_lastOOM i))) items"
proof -
  have "filter P items = items" if "length (filter P items) = length items" for P
    using that by (simp add: filter_id_conv) (metis length_filter_less less_irrefl)
  from this [symmetric] show ?thesis unfolding RemoveOldItems_def Let_def by (auto split: if_splits)
qed

section \<open>Properties\<close>

text \<open>
  What \<^verbatim>\<open>RemoveItems\<close> does. It panics exactly if one of the items at the front of the report that are to be removed
  matches an item to remove that is not the last one of those; otherwise exactly the matching items are gone, the
  others keep their order, and the result tells whether there were any.
\<close>
theorem RemoveItems_spec:
  "RemoveItems items rs =
     (if list_ex (\<lambda>x. itemString x \<in> itemString ` set (butlast rs)) (takeWhile (\<lambda>x. itemString x \<in> itemString ` set rs) items) then None
      else Some (filter (\<lambda>x. itemString x \<notin> itemString ` set rs) items, list_ex (\<lambda>x. itemString x \<in> itemString ` set rs) items))"
  using RemoveItems_eq [of items rs] unfolding toRemove_def by simp

text \<open>
  What was first seen of a container stays. After any sequence of stores into a report, an item that was in it is still
  found under its four identifying fields, with the starting memory and the time of the first OOM kill it had.
\<close>
theorem first_seen_is_kept:
  assumes "itemAt items k = Some i"
  shows "\<exists>i'. itemAt (fold (\<lambda>(x, now) items. StoreItem items x now) xs items) k = Some i' \<and>
    ri_startingMemory i' = ri_startingMemory i \<and> ri_firstOOM i' = ri_firstOOM i"
  using report_items.puts_origin [OF assms, of xs] by simp

definition demo_item :: "string \<Rightarrow> int \<Rightarrow> RightSizerReportItem" where
  "demo_item c n = \<lparr>ri_kind = ''Deployment'', ri_resourceName = ''web'', ri_resourceNamespace = ''prod'',
     ri_resourceContainer = c, ri_startingMemory = Some 100, ri_endingMemory = Some 100, ri_numOOMs = n,
     ri_firstOOM = 5, ri_lastOOM = 5, ri_resourceGeneration = 1\<rparr>"

theorem first_seen_is_kept_witness:
  "\<exists>i'. itemAt (fold (\<lambda>(x, now) items. StoreItem items x now)
       [((demo_item ''app'' 2)\<lparr>ri_startingMemory := Some 7\<rparr>, 9), (demo_item ''db'' 1, 10)] [demo_item ''app'' 1])
       (''Deployment'', ''prod'', ''web'', ''app'') = Some i' \<and> ri_startingMemory i' = Some 100 \<and> ri_firstOOM i' = 5"
  using first_seen_is_kept [of "[demo_item ''app'' 1]" "(''Deployment'', ''prod'', ''web'', ''app'')" "demo_item ''app'' 1"
      "[((demo_item ''app'' 2)\<lparr>ri_startingMemory := Some 7\<rparr>, 9), (demo_item ''db'' 1, 10)]"]
  by (simp add: demo_item_def keyOf_def)

text \<open>
  An error while the workload of an event is fetched is never reported. The lookup returns its errors together with \<^verbatim>\<open>found = false\<close>,
  which is tested first and answered with "no match", so that the error branch after it is dead.
\<close>
theorem lookup_error_swallowed:
  "MatchItemsOlderWithModifiedMemoryLimits convert restMapping get items ref \<noteq> Some (Inl err)"
  by (auto simp: MatchItemsOlderWithModifiedMemoryLimits_def GetUnstructuredResourceFromObjectRef_def
      split: option.splits lookup.splits)

text \<open>
  The pod spec of a CronJob is never found. In a CronJob the containers are below
  \<^verbatim>\<open>spec.jobTemplate.spec.template.spec\<close>, and neither \<^verbatim>\<open>spec\<close> nor \<^verbatim>\<open>spec.jobTemplate\<close> has containers itself; the search
  looks at \<^verbatim>\<open>spec.jobTemplate\<close> and reports an error.
\<close>
theorem cronjob_pod_spec_not_found:
  assumes "\<And>m c cs. convert m = Inr (c # cs) \<Longrightarrow> map_of m ''containers'' \<noteq> None"
    and "map_of (un_content u) ''spec'' = Some (JObject spec)" and "map_of spec ''containers'' = None"
    and "map_of spec ''template'' = None"
    and "map_of spec ''jobTemplate'' = Some (JObject job)" and "map_of job ''containers'' = None"
  shows "FindPodSpecInUnstructured convert u = Inl (''no pod spec found in '' @ objInfo (un_kind u) (un_namespace u) (un_name u))"
proof -
  have "convert spec \<noteq> Inr (c # cs)" "convert job \<noteq> Inr (c # cs)" for c cs using assms(1,3,6) by blast+
  then show ?thesis
    using assms(2,4,5)
    by (auto simp: FindPodSpecInUnstructured_def searchFields_def split: sum.splits list.splits)
qed

text \<open>A converter that reads the names and limits of the entries under \<^verbatim>\<open>containers\<close>, for the witnesses.\<close>

definition demo_container :: "json \<Rightarrow> container" where
  "demo_container j = (case j of
     JObject m \<Rightarrow> \<lparr>cn_name = (case map_of m ''name'' of Some (JLeaf n) \<Rightarrow> n | _ \<Rightarrow> ''''),
        cn_memoryLimit = (case map_of m ''memory'' of Some (JLeaf n) \<Rightarrow> Some (of_nat (length n)) | _ \<Rightarrow> None)\<rparr>
   | _ \<Rightarrow> \<lparr>cn_name = '''', cn_memoryLimit = None\<rparr>)"

definition demo_convert :: converter where
  "demo_convert m = (case map_of m ''containers'' of
     None \<Rightarrow> Inr [] | Some (JArray js) \<Rightarrow> Inr (map demo_container js) | Some _ \<Rightarrow> Inl ''containers: not a list'')"

definition demo_podSpec :: "(string \<times> json) list" where
  "demo_podSpec = [(''containers'', JArray [JObject [(''name'', JLeaf ''app''), (''memory'', JLeaf ''xxx'')],
     JObject [(''name'', JLeaf ''db''), (''memory'', JLeaf ''xx'')]])]"

definition demo_cronjob :: unstructured where
  "demo_cronjob = \<lparr>un_kind = ''CronJob'', un_namespace = ''prod'', un_name = ''nightly'', un_generation = 1,
     un_content = [(''spec'', JObject [(''jobTemplate'', JObject [(''spec'', JObject [(''template'', JObject [(''spec'', JObject demo_podSpec)])])])])]\<rparr>"

theorem cronjob_pod_spec_not_found_witness:
  "FindPodSpecInUnstructured demo_convert demo_cronjob = Inl (''no pod spec found in CronJob prod/nightly'')"
proof -
  have "FindPodSpecInUnstructured demo_convert demo_cronjob =
      Inl (''no pod spec found in '' @ objInfo (un_kind demo_cronjob) (un_namespace demo_cronjob) (un_name demo_cronjob))"
    by (rule cronjob_pod_spec_not_found) (auto simp: demo_convert_def demo_cronjob_def split: option.splits json.splits)
  then show ?thesis by (simp add: demo_cronjob_def objInfo_def)
qed

end
