(* ===== verification/Sizer_Controller.thy ===== *)
theory Sizer_Controller
  imports Sizer_Report
begin

text \<open>
  The controller of the right-sizer (\<^verbatim>\<open>right-sizer/src/controller/controller.go\<close>), with the parts of the report
  builder and of \<^verbatim>\<open>util/kubernetes.go\<close> that talk to the cluster. The cluster, the clock and the libraries are an
  environment: its answers are functions of a counter that every call advances, so that they may differ from
  call to call in any way. What the program does to the outside is the list of its effects.
\<close>

section \<open>The environment and the state\<close>

record pod_status =
  ps_name :: string
  ps_containerID :: string
  ps_lastTerminated :: "(string \<times> go_time) option"
  ps_terminated :: "(string \<times> go_time) option"

record pod =
  pd_namespace :: string
  pd_name :: string
  pd_containers :: "container list"
  pd_statuses :: "pod_status list"

record configMap =
  cm_data :: "(string \<times> string) list option"
  cm_annotations :: "(string \<times> string) list option"

record kube_env =
  en_now :: "nat \<Rightarrow> go_time"
  en_getPod :: "nat \<Rightarrow> string \<Rightarrow> string \<Rightarrow> pod lookup"
  en_topController :: "nat \<Rightarrow> pod \<Rightarrow> string + unstructured"
  en_restMapping :: "nat \<Rightarrow> objectRef \<Rightarrow> string option"
  en_patchMapping :: "nat \<Rightarrow> unstructured \<Rightarrow> string option"
  en_getObject :: "nat \<Rightarrow> objectRef \<Rightarrow> unstructured lookup"
  en_getConfigMap :: "nat \<Rightarrow> string \<Rightarrow> string \<Rightarrow> configMap lookup"
  en_writeConfigMap :: "nat \<Rightarrow> string option"
  en_patch :: "nat \<Rightarrow> string + unstructured"
  en_convert :: converter
  en_showQuantity :: "rat \<Rightarrow> string"
  en_showTime :: "go_time \<Rightarrow> string"
  en_marshal :: "RightSizerReportItem list option \<Rightarrow> string + string"
  en_decode :: "string \<Rightarrow> RightSizerReportItem list option \<Rightarrow> string option \<times> RightSizerReportItem list option"

text \<open>
  An effect: a counted metric, an event on a pod, a patch of a workload (with its namespace, the JSON path, the quantity
  and the printed value), or a write of the state's ConfigMap.
\<close>

datatype effect =
    Metric string
  | PodEvent string string string
  | Patch unstructured string rat string
  | UpdateConfigMap "(string \<times> string) list" "(string \<times> string) list"
  | CreateConfigMap "(string \<times> string) list" "(string \<times> string) list"

record sizer =
  sz_report :: "RightSizerReportItem list option"
  sz_tick :: nat
  sz_effects :: "effect list"

definition tick :: "sizer \<Rightarrow> sizer" where
  "tick s = s\<lparr>sz_tick := Suc (sz_tick s)\<rparr>"

definition emit :: "effect \<Rightarrow> sizer \<Rightarrow> sizer" where
  "emit e s = s\<lparr>sz_effects := sz_effects s @ [e]\<rparr>"

section \<open>The state's ConfigMap\<close>

text \<open>An update of a key in a Go map.\<close>

definition putKey :: "string \<Rightarrow> string \<Rightarrow> (string \<times> string) list \<Rightarrow> (string \<times> string) list" where
  "putKey k v m = (k, v) # filter (\<lambda>(k', _). k' \<noteq> k) m"

definition unableConfigMap :: "RightSizerReportBuilder \<Rightarrow> string \<Rightarrow> string \<Rightarrow> string \<Rightarrow> string" where
  "unableConfigMap b what rest err =
     ''unable to '' @ what @ '' '' @ rb_stateConfigMapNamespace b @ ''/'' @ rb_stateConfigMapName b @ rest @ '': '' @ err"

text \<open>An error of the write is the result; assigning to the data of a ConfigMap that has none is a panic.\<close>

definition WriteConfigMap :: "kube_env \<Rightarrow> RightSizerReportBuilder \<Rightarrow> sizer \<Rightarrow> (string option \<times> sizer) option" where
  "WriteConfigMap env b s =
     (let updateTime = en_showTime env (en_now env (sz_tick s)); s1 = tick s in
      case en_marshal env (sz_report s1) of
        Inl err \<Rightarrow> Some (Some err, s1)
      | Inr reportJSON \<Rightarrow>
          (case en_getConfigMap env (sz_tick s1) (rb_stateConfigMapNamespace b) (rb_stateConfigMapName b) of
             LError err \<Rightarrow> Some (Some (unableConfigMap b ''get ConfigMap'' '' to write report'' err), tick s1)
           | LFound cm \<Rightarrow>
               (case cm_data cm of
                  None \<Rightarrow> None
                | Some data \<Rightarrow>
                    let s2 = emit (UpdateConfigMap (putKey ''report'' reportJSON data)
                               (putKey ''last-updated'' updateTime (case cm_annotations cm of None \<Rightarrow> [] | Some a \<Rightarrow> a))) (tick s1)
                    in Some (map_option (unableConfigMap b ''update ConfigMap'' '' to write report'')
                               (en_writeConfigMap env (sz_tick s2)), tick s2))
           | LNotFound \<Rightarrow>
               let s2 = emit (CreateConfigMap [(''report'', reportJSON)] [(''last-updated'', updateTime)]) (tick s1)
               in Some (map_option (unableConfigMap b ''create state ConfigMap'' '''') (en_writeConfigMap env (sz_tick s2)), tick s2)))"

definition ReadConfigMap :: "kube_env \<Rightarrow> RightSizerReportBuilder \<Rightarrow> sizer \<Rightarrow> (string option \<times> sizer) option" where
  "ReadConfigMap env b s =
     (case en_getConfigMap env (sz_tick s) (rb_stateConfigMapNamespace b) (rb_stateConfigMapName b) of
        LNotFound \<Rightarrow>
          map_option (\<lambda>(err, s'). (map_option (unableConfigMap b ''nitialize new ConfigMap''
            '', state will be lost when this controller restarts if this error is not resolved'') err, s'))
            (WriteConfigMap env b (tick s))
      | LError err \<Rightarrow> Some (Some (unableConfigMap b ''get ConfigMap'' '' to read report state'' err), tick s)
      | LFound cm \<Rightarrow>
          (case map_of (case cm_data cm of None \<Rightarrow> [] | Some d \<Rightarrow> d) ''report'' of
             None \<Rightarrow> Some (Some (''unable to read report from ConfigMap '' @ rb_stateConfigMapNamespace b @ ''/'' @
                        rb_stateConfigMapName b @ '' as it does not contain a report key''), tick s)
           | Some reportJSON \<Rightarrow>
               (case en_decode env reportJSON (sz_report s) of
                  (err, report) \<Rightarrow>
                    Some (map_option (unableConfigMap b ''unmarshal while reading report from ConfigMap'' '''') err,
                          (tick s)\<lparr>sz_report := report\<rparr>))))"

section \<open>Ageing and removal on updates\<close>

text \<open>One tick of \<^verbatim>\<open>LoopRemoveOldItems\<close>; the result of the write is dropped.\<close>

definition removeOldTick :: "kube_env \<Rightarrow> RightSizerReportBuilder \<Rightarrow> sizer \<Rightarrow> sizer option" where
  "removeOldTick env b s =
     (case sz_report s of
        None \<Rightarrow> None
      | Some items \<Rightarrow>
          (case RemoveOldItems (rb_tooOldAge b) (en_now env (sz_tick s)) items of
             (items', removed) \<Rightarrow>
               let s1 = (tick s)\<lparr>sz_report := Some items'\<rparr> in
               if removed then map_option snd (WriteConfigMap env b s1) else Some s1))"

definition RemoveRelatedItemsOlderWithModifiedMemoryLimits ::
    "kube_env \<Rightarrow> RightSizerReportBuilder \<Rightarrow> objectRef \<Rightarrow> sizer \<Rightarrow> (string option \<times> sizer) option" where
  "RemoveRelatedItemsOlderWithModifiedMemoryLimits env b ref s =
     (case sz_report s of
        None \<Rightarrow> None
      | Some items \<Rightarrow>
          (case MatchItemsOlderWithModifiedMemoryLimits (en_convert env) (en_restMapping env (sz_tick s))
                  (en_getObject env (sz_tick s)) items ref of
             None \<Rightarrow> None
           | Some (Inl err) \<Rightarrow> Some (Some err, tick s)
           | Some (Inr None) \<Rightarrow> Some (None, tick s)
           | Some (Inr (Some related)) \<Rightarrow>
               (case RemoveItems items related of
                  None \<Rightarrow> None
                | Some (items', removed) \<Rightarrow>
                    let s1 = (tick s)\<lparr>sz_report := Some items'\<rparr> in
                    if removed then map_option (\<lambda>(_, s'). (None, s')) (WriteConfigMap env b s1) else Some (None, s1))))"

section \<open>Patching\<close>

text \<open>The effect is recorded when the request is sent, whether or not the cluster accepts it.\<close>

definition PatchContainerMemoryLimits :: "kube_env \<Rightarrow> unstructured \<Rightarrow> string \<Rightarrow> rat \<Rightarrow> sizer \<Rightarrow> (string + unstructured) \<times> sizer" where
  "PatchContainerMemoryLimits env res containerName newLimits s =
     (case FindContainerInUnstructured (en_convert env) res containerName of
        Inl err \<Rightarrow> (Inl err, s)
      | Inr None \<Rightarrow> (Inl (''no container '' @ containerName @ '' found in resource''), s)
      | Inr (Some (_, path, num)) \<Rightarrow>
          (case en_patchMapping env (sz_tick s) res of
             Some err \<Rightarrow> (Inl (''error creating RESTMapper mapping from group-version-kind: '' @ err), tick s)
           | None \<Rightarrow>
               let s1 = emit (Patch res (''/'' @ path @ ''/containers/'' @ showNat num @ ''/resources/limits/memory'')
                                newLimits (en_showQuantity env newLimits)) (tick s)
               in (case en_patch env (sz_tick s1) of
                     Inl err \<Rightarrow> (Inl (''error patching '' @ objInfo (un_kind res) (un_namespace res) (un_name res) @ '': '' @ err), tick s1)
                   | Inr res' \<Rightarrow> (Inr res', tick s1))))"

section \<open>Configuration\<close>

record controllerConfig =
  cc_updateMemoryLimits :: bool
  cc_updateMemoryLimitsIncrement :: float64
  cc_updateMemoryLimitsMax :: float64
  cc_updateMemoryLimitsMinimumOOMs :: int
  cc_allowedNamespaces :: "string list"
  cc_allowedUpdateNamespaces :: "string list"

datatype controllerOption =
    WithAllowedNamespaces "string list" | WithAllowedUpdateNamespaces "string list" | WithUpdateMemoryLimits bool
  | WithUpdateMemoryLimitsIncrement float64 | WithUpdateMemoryLimitsMax float64 | WithUpdateMemoryLimitsMinimumOOMs int

definition applyControllerOption :: "controllerOption \<Rightarrow> controllerConfig \<Rightarrow> controllerConfig" where
  "applyControllerOption opt c =
     (case opt of
        WithAllowedNamespaces v \<Rightarrow> c\<lparr>cc_allowedNamespaces := v\<rparr>
      | WithAllowedUpdateNamespaces v \<Rightarrow> c\<lparr>cc_allowedUpdateNamespaces := v\<rparr>
      | WithUpdateMemoryLimits v \<Rightarrow> c\<lparr>cc_updateMemoryLimits := v\<rparr>
      | WithUpdateMemoryLimitsIncrement v \<Rightarrow> if gtZero v then c\<lparr>cc_updateMemoryLimitsIncrement := v\<rparr> else c
      | WithUpdateMemoryLimitsMax v \<Rightarrow> if gtZero v then c\<lparr>cc_updateMemoryLimitsMax := v\<rparr> else c
      | WithUpdateMemoryLimitsMinimumOOMs v \<Rightarrow> if 0 < v then c\<lparr>cc_updateMemoryLimitsMinimumOOMs := v\<rparr> else c)"

text \<open>
  The configuration that \<^verbatim>\<open>NewController\<close> computes; the rest of it starts informers. The default increment is the double
  nearest to 1.2.
\<close>

definition NewController_config :: "controllerOption list \<Rightarrow> controllerConfig" where
  "NewController_config options =
     (let c = fold applyControllerOption options
                \<lparr>cc_updateMemoryLimits = False, cc_updateMemoryLimitsIncrement = Finite (5404319552844595 / 4503599627370496),
                 cc_updateMemoryLimitsMax = Finite 2, cc_updateMemoryLimitsMinimumOOMs = 2,
                 cc_allowedNamespaces = [], cc_allowedUpdateNamespaces = []\<rparr>;
          missing = filter (\<lambda>n. n \<notin> set (cc_allowedNamespaces c)) (cc_allowedUpdateNamespaces c)
      in if cc_allowedNamespaces c \<noteq> [] \<and> missing \<noteq> []
         then c\<lparr>cc_allowedNamespaces := cc_allowedNamespaces c @ missing\<rparr> else c)"

definition UpdateMemoryLimitsPrecheck :: "controllerConfig \<Rightarrow> string \<Rightarrow> int \<Rightarrow> bool \<times> string" where
  "UpdateMemoryLimitsPrecheck c namespace OOMs =
     (if \<not> cc_updateMemoryLimits c then (False, ''updating memory limits has not been enabled'')
      else if cc_allowedUpdateNamespaces c \<noteq> [] \<and> namespace \<notin> set (cc_allowedUpdateNamespaces c)
      then (False, ''namespace '' @ namespace @ '' is not allowed by allowedUpdateNamespaces'')
      else if 0 < cc_updateMemoryLimitsMinimumOOMs c \<and> OOMs < cc_updateMemoryLimitsMinimumOOMs c
      then (False, showInt OOMs @ '' OOMs is lessthan the minimum required '' @
              showInt (cc_updateMemoryLimitsMinimumOOMs c) @ '' OOMs'')
      else (True, ''''))"

section \<open>OOM kills\<close>

definition TerminationReasonOOMKilled :: string where "TerminationReasonOOMKilled = ''OOMKilled''"

definition wasOOMKilled :: "pod_status \<Rightarrow> bool" where
  "wasOOMKilled st \<longleftrightarrow>
     \<not> ((case ps_lastTerminated st of None \<Rightarrow> True | Some (reason, _) \<Rightarrow> reason \<noteq> TerminationReasonOOMKilled) \<and>
        (case ps_terminated st of None \<Rightarrow> True | Some (reason, _) \<Rightarrow> reason \<noteq> TerminationReasonOOMKilled))"

definition containerTerminatedTime :: "pod_status \<Rightarrow> go_time option" where
  "containerTerminatedTime st =
     (case ps_lastTerminated st of
        Some (_, t) \<Rightarrow> Some t
      | None \<Rightarrow> (case ps_terminated st of Some (_, t) \<Rightarrow> Some t | None \<Rightarrow> None))"

definition quoted :: "string \<Rightarrow> string" where
  "quoted s = CHR 0x27 # s @ [CHR 0x27]"

definition storeIn :: "kube_env \<Rightarrow> RightSizerReportItem \<Rightarrow> sizer \<Rightarrow> sizer option" where
  "storeIn env item s =
     map_option (\<lambda>items. (tick s)\<lparr>sz_report := Some (StoreItem items item (en_now env (sz_tick s)))\<rparr>) (sz_report s)"

definition updateLimits :: "kube_env \<Rightarrow> controllerConfig \<Rightarrow> pod \<Rightarrow> unstructured \<Rightarrow> container \<Rightarrow> RightSizerReportItem \<Rightarrow> sizer \<Rightarrow> sizer option" where
  "updateLimits env cfg pod ctl c item s =
     (if \<not> fst (UpdateMemoryLimitsPrecheck cfg (pd_namespace pod) (ri_numOOMs item)) then storeIn env item s
      else case IncrementMemory item (limitsMemory c) (cc_updateMemoryLimitsIncrement cfg) (cc_updateMemoryLimitsMax cfg) of
        None \<Rightarrow> None
      | Some new \<Rightarrow>
          if new = 0 then storeIn env item s
          else case PatchContainerMemoryLimits env ctl (ri_resourceContainer item) new s of
            (Inl _, s1) \<Rightarrow> storeIn env item s1
          | (Inr res, s1) \<Rightarrow>
              let item1 = item\<lparr>ri_resourceGeneration := un_generation res\<rparr> in
              (case FindContainerInUnstructured (en_convert env) res (ri_resourceContainer item) of
                 Inr (Some (pc, _, _)) \<Rightarrow> storeIn env (item1\<lparr>ri_endingMemory := Some (limitsMemory pc)\<rparr>) s1
               | _ \<Rightarrow> storeIn env (item1\<lparr>ri_endingMemory := Some new\<rparr>) s1))"

text \<open>One iteration over the container statuses, with whether the loop goes on.\<close>

definition processStatus :: "kube_env \<Rightarrow> controllerConfig \<Rightarrow> go_time \<Rightarrow> pod \<Rightarrow> pod_status \<Rightarrow> sizer \<Rightarrow> (bool \<times> sizer) option" where
  "processStatus env cfg startTime pod st s =
     (if \<not> wasOOMKilled st then Some (True, emit (Metric ''not_oomkilled'') s)
      else case containerTerminatedTime st of
        None \<Rightarrow> Some (True, s)
      | Some t \<Rightarrow>
          if t < startTime then Some (True, emit (Metric ''oomkilled_termination_too_old'') s)
          else
            let s1 = emit (Metric ''oomkilled_event_sent'') (emit (PodEvent (pd_namespace pod) (pd_name pod)
                       (''The previous instance of the container '' @ quoted (ps_name st) @ '' ('' @ ps_containerID st @ '') was OOMKilled'')) s)
            in case FindContainerInPodSpec (pd_containers pod) (ps_name st) of
                 None \<Rightarrow> Some (True, s1)
               | Some (c, _) \<Rightarrow>
                   (case en_topController env (sz_tick s1) pod of
                      Inl _ \<Rightarrow> Some (False, tick s1)
                    | Inr ctl \<Rightarrow>
                        let s2 = tick s1 in
                        (case sz_report s2 of
                           None \<Rightarrow> None
                         | Some items \<Rightarrow>
                             let item = CreateRightSizerReportItem items ctl c (en_now env (sz_tick s2)) in
                             map_option (Pair True) (updateLimits env cfg pod ctl c item (tick s2)))))"

fun processStatuses :: "kube_env \<Rightarrow> controllerConfig \<Rightarrow> go_time \<Rightarrow> pod \<Rightarrow> pod_status list \<Rightarrow> sizer \<Rightarrow> (bool \<times> sizer) option" where
  "processStatuses env cfg startTime pod [] s = Some (True, s)"
| "processStatuses env cfg startTime pod (st # sts) s =
     (case processStatus env cfg startTime pod st s of
        None \<Rightarrow> None
      | Some (False, s') \<Rightarrow> Some (False, s')
      | Some (True, s') \<Rightarrow> processStatuses env cfg startTime pod sts s')"

definition processOOMKilledPod :: "kube_env \<Rightarrow> RightSizerReportBuilder \<Rightarrow> controllerConfig \<Rightarrow> go_time \<Rightarrow> pod \<Rightarrow> sizer \<Rightarrow> sizer option" where
  "processOOMKilledPod env b cfg startTime pod s =
     (case processStatuses env cfg startTime pod (pd_statuses pod) s of
        None \<Rightarrow> None
      | Some (False, s') \<Rightarrow> Some s'
      | Some (True, s') \<Rightarrow> map_option snd (WriteConfigMap env b s'))"

section \<open>Events\<close>

record kube_event =
  ev_namespace :: string
  ev_name :: string
  ev_reason :: string
  ev_count :: int
  ev_involvedObject :: objectRef
  ev_others :: string \<comment> \<open>the other fields\<close>

definition startedEvent :: string where "startedEvent = ''Started''"
definition podKind :: string where "podKind = ''Pod''"

definition isContainerStartedEvent :: "kube_event \<Rightarrow> bool" where
  "isContainerStartedEvent e \<longleftrightarrow> ev_reason e = startedEvent \<and> or_kind (ev_involvedObject e) = podKind"

definition isSameEventOccurrence :: "kube_event \<Rightarrow> kube_event \<Rightarrow> bool" where
  "isSameEventOccurrence old new \<longleftrightarrow> ev_involvedObject old = ev_involvedObject new \<and> ev_count old = ev_count new"

definition processEvent :: "kube_env \<Rightarrow> RightSizerReportBuilder \<Rightarrow> controllerConfig \<Rightarrow> go_time \<Rightarrow> kube_event \<Rightarrow> sizer \<Rightarrow> sizer option" where
  "processEvent env b cfg startTime e s =
     (if cc_allowedNamespaces cfg \<noteq> [] \<and> ev_namespace e \<notin> set (cc_allowedNamespaces cfg) then Some s
      else if isContainerStartedEvent e then
        (case en_getPod env (sz_tick s) (or_namespace (ev_involvedObject e)) (or_name (ev_involvedObject e)) of
           LFound pod \<Rightarrow> processOOMKilledPod env b cfg startTime pod (tick s)
         | _ \<Rightarrow> Some (tick s))
      else if or_kind (ev_involvedObject e) = podKind then Some s
      else map_option snd (RemoveRelatedItemsOlderWithModifiedMemoryLimits env b (ev_involvedObject e) s))"

definition processEventUpdate :: "kube_env \<Rightarrow> RightSizerReportBuilder \<Rightarrow> controllerConfig \<Rightarrow> go_time \<Rightarrow>
    kube_event option \<Rightarrow> kube_event \<Rightarrow> sizer \<Rightarrow> sizer option" where
  "processEventUpdate env b cfg startTime oldEvent e s =
     (case oldEvent of
        None \<Rightarrow> Some s
      | Some old \<Rightarrow> if old = e then Some s else if isSameEventOccurrence old e then Some s
                    else processEvent env b cfg startTime e s)"

text \<open>
  What the main loop and the ageing loop receive, in the order in which they take it. Each is handled as one step.
\<close>

datatype sizer_input = EventAdded kube_event | EventUpdated "kube_event option" kube_event | MinuteTick

definition sizerStep :: "kube_env \<Rightarrow> RightSizerReportBuilder \<Rightarrow> controllerConfig \<Rightarrow> go_time \<Rightarrow> sizer_input \<Rightarrow> sizer \<Rightarrow> sizer option" where
  "sizerStep env b cfg startTime i s =
     (case i of
        EventAdded e \<Rightarrow> processEvent env b cfg startTime e s
      | EventUpdated old e \<Rightarrow> processEventUpdate env b cfg startTime old e s
      | MinuteTick \<Rightarrow> removeOldTick env b s)"

fun sizerLoop :: "kube_env \<Rightarrow> RightSizerReportBuilder \<Rightarrow> controllerConfig \<Rightarrow> go_time \<Rightarrow> sizer_input list \<Rightarrow> sizer \<Rightarrow> sizer option" where
  "sizerLoop env b cfg startTime [] s = Some s"
| "sizerLoop env b cfg startTime (i # is) s =
     (case sizerStep env b cfg startTime i s of None \<Rightarrow> None | Some s' \<Rightarrow> sizerLoop env b cfg startTime is s')"

text \<open>\<^verbatim>\<open>Run\<close>, up to the signal that stops it.\<close>

definition sizerRun :: "kube_env \<Rightarrow> builderOption list \<Rightarrow> controllerOption list \<Rightarrow> go_time \<Rightarrow> sizer_input list \<Rightarrow> sizer option" where
  "sizerRun env bopts copts startTime is =
     (let b = NewRightSizerReportBuilder bopts; cfg = NewController_config copts in
      case ReadConfigMap env b \<lparr>sz_report = rb_report b, sz_tick = 0, sz_effects = []\<rparr> of
        None \<Rightarrow> None
      | Some (_, s) \<Rightarrow> sizerLoop env b cfg startTime is s)"

section \<open>Facts about single steps\<close>

definition isPatch :: "effect \<Rightarrow> bool" where
  "isPatch e = (case e of Patch _ _ _ _ \<Rightarrow> True | _ \<Rightarrow> False)"

definition patchesOf :: "sizer \<Rightarrow> effect list" where
  "patchesOf s = filter isPatch (sz_effects s)"

lemma tick_simps [simp]:
  "sz_report (tick s) = sz_report s" "sz_effects (tick s) = sz_effects s" "patchesOf (tick s) = patchesOf s"
  "patchesOf (s\<lparr>sz_report := r\<rparr>) = patchesOf s" "sz_report (emit e s) = sz_report s"
  "patchesOf (emit e s) = patchesOf s @ (if isPatch e then [e] else [])"
  by (simp_all add: tick_def emit_def patchesOf_def)

lemma isPatch_simps [simp]:
  "isPatch (Patch r p q t)" "\<not> isPatch (Metric m)" "\<not> isPatch (PodEvent a n t)"
  "\<not> isPatch (UpdateConfigMap d an)" "\<not> isPatch (CreateConfigMap d an)"
  by (simp_all add: isPatch_def)

lemma WriteConfigMap_keeps:
  "WriteConfigMap env b s = Some (err, s') \<Longrightarrow> sz_report s' = sz_report s \<and> patchesOf s' = patchesOf s"
  by (auto simp: WriteConfigMap_def Let_def split: sum.splits lookup.splits option.splits)

text \<open>Items only gain OOM kills, and keep what was first seen of them.\<close>

definition grows :: "RightSizerReportItem list \<Rightarrow> RightSizerReportItem list \<Rightarrow> bool" where
  "grows items items' \<longleftrightarrow> (\<forall>k i. itemAt items k = Some i \<longrightarrow>
     (\<exists>i'. itemAt items' k = Some i' \<and> ri_startingMemory i' = ri_startingMemory i \<and>
        ri_firstOOM i' = ri_firstOOM i \<and> ri_numOOMs i \<le> ri_numOOMs i'))"

lemma grows_refl [simp]: "grows items items"
  by (simp add: grows_def)

lemma growsD:
  "grows items items' \<Longrightarrow> itemAt items k = Some i \<Longrightarrow>
   \<exists>i'. itemAt items' k = Some i' \<and> ri_startingMemory i' = ri_startingMemory i \<and>
        ri_firstOOM i' = ri_firstOOM i \<and> ri_numOOMs i \<le> ri_numOOMs i'"
  unfolding grows_def by blast

lemma grows_trans:
  assumes "grows xs ys" and "grows ys zs"
  shows "grows xs zs"
  unfolding grows_def
proof (intro allI impI)
  fix k i assume "itemAt xs k = Some i"
  from growsD [OF assms(1) this] obtain j where j: "itemAt ys k = Some j" "ri_startingMemory j = ri_startingMemory i"
    "ri_firstOOM j = ri_firstOOM i" "ri_numOOMs i \<le> ri_numOOMs j" by blast
  from growsD [OF assms(2) j(1)] j(2-) show "\<exists>i'. itemAt zs k = Some i' \<and> ri_startingMemory i' = ri_startingMemory i \<and>
        ri_firstOOM i' = ri_firstOOM i \<and> ri_numOOMs i \<le> ri_numOOMs i'" by force
qed

lemma StoreItem_grows:
  "(\<And>i. itemAt items (keyOf x) = Some i \<Longrightarrow> ri_numOOMs i \<le> ri_numOOMs x) \<Longrightarrow> grows items (StoreItem items x now)"
  by (auto simp: grows_def StoreItem_itemAt stored_def)

lemma Create_existing:
  "itemAt items (un_kind u, un_namespace u, un_name u, cn_name c) = Some i \<Longrightarrow>
   CreateRightSizerReportItem items u c now = i\<lparr>ri_lastOOM := now, ri_numOOMs := ri_numOOMs i + 1, ri_endingMemory := Some (limitsMemory c)\<rparr>"
  by (auto simp: CreateRightSizerReportItem_def PopulateExistingItemFields_def itemAt_def keyOf_def Let_def)

lemma Create_new:
  "itemAt items (un_kind u, un_namespace u, un_name u, cn_name c) = None \<Longrightarrow>
   ri_numOOMs (CreateRightSizerReportItem items u c now) = 1 \<and>
   ri_startingMemory (CreateRightSizerReportItem items u c now) = Some (limitsMemory c)"
  by (auto simp: CreateRightSizerReportItem_def PopulateExistingItemFields_def itemAt_def keyOf_def Let_def)

text \<open>
  What the handling of an OOM kill stores, on every branch: a version of the created item that differs at most
  in its generation and ending memory.
\<close>

definition variantOf :: "RightSizerReportItem \<Rightarrow> RightSizerReportItem \<Rightarrow> bool" where
  "variantOf item x \<longleftrightarrow> (\<exists>g m. x = item\<lparr>ri_resourceGeneration := g, ri_endingMemory := m\<rparr>)"

lemma variantOf_refl [simp]: "variantOf item item"
  unfolding variantOf_def by (intro exI [of _ "ri_resourceGeneration item"] exI [of _ "ri_endingMemory item"]) simp

lemma variantOf_simps:
  "variantOf item x \<Longrightarrow> keyOf x = keyOf item \<and> ri_numOOMs x = ri_numOOMs item \<and> ri_startingMemory x = ri_startingMemory item \<and>
     ri_lastOOM x = ri_lastOOM item \<and> ri_firstOOM x = ri_firstOOM item"
  by (auto simp: variantOf_def)

lemma PatchContainerMemoryLimits_keeps:
  "PatchContainerMemoryLimits env res cname q s = (r, s') \<Longrightarrow> sz_report s' = sz_report s \<and>
     (patchesOf s' = patchesOf s \<or> (\<exists>path tx. patchesOf s' = patchesOf s @ [Patch res path q tx]))"
  by (auto simp: PatchContainerMemoryLimits_def Let_def split: sum.splits option.splits prod.splits)

lemma storeIn_Some:
  "storeIn env x s = Some s' \<Longrightarrow> sz_report s = Some items \<Longrightarrow>
   (\<exists>now. sz_report s' = Some (StoreItem items x now)) \<and> patchesOf s' = patchesOf s"
  by (auto simp: storeIn_def)

lemma IncrementMemory_bound:
  assumes "IncrementMemory item cur inc mx = Some q" and "q \<noteq> 0"
  shows "\<exists>m f g. ri_startingMemory item = Some m \<and> multiplierAsDec mx = Some f \<and> q \<le> m * f \<and>
    multiplierAsDec inc = Some g \<and> q = cur * g"
  using assms
  by (auto simp: IncrementMemory_def MaxAllowedEndingMemory_def MultiplyResourceQuantity_def split: option.splits if_splits)

lemma updateLimits_Some:
  assumes "updateLimits env cfg pod ctl c item s = Some s'" and "sz_report s = Some items"
  shows "\<exists>x now. variantOf item x \<and> sz_report s' = Some (StoreItem items x now) \<and>
     (patchesOf s' = patchesOf s \<or>
      (\<exists>path q tx m f g. patchesOf s' = patchesOf s @ [Patch ctl path q tx] \<and>
         fst (UpdateMemoryLimitsPrecheck cfg (pd_namespace pod) (ri_numOOMs item)) \<and>
         ri_startingMemory item = Some m \<and> multiplierAsDec (cc_updateMemoryLimitsMax cfg) = Some f \<and> q \<le> m * f \<and>
         multiplierAsDec (cc_updateMemoryLimitsIncrement cfg) = Some g \<and> q = limitsMemory c * g))"
    (is "\<exists>x now. ?P x now")
proof -
  have plain: ?thesis if "storeIn env item s = Some s'"
    using storeIn_Some [OF that assms(2)] variantOf_refl [of item] by blast
  show ?thesis
  proof (cases "fst (UpdateMemoryLimitsPrecheck cfg (pd_namespace pod) (ri_numOOMs item))")
    case False
    then show ?thesis using assms(1) plain by (simp add: updateLimits_def)
  next
    case ok: True
    show ?thesis
    proof (cases "IncrementMemory item (limitsMemory c) (cc_updateMemoryLimitsIncrement cfg) (cc_updateMemoryLimitsMax cfg)")
      case None
      then show ?thesis using assms(1) ok by (simp add: updateLimits_def)
    next
      case (Some q)
      show ?thesis
      proof (cases "q = 0")
        case True
        then show ?thesis using assms(1) ok Some plain by (simp add: updateLimits_def)
      next
        case False
        obtain r s1 where p: "PatchContainerMemoryLimits env ctl (ri_resourceContainer item) q s = (r, s1)" by force
        obtain x where x: "variantOf item x" "storeIn env x s1 = Some s'"
          using assms(1) ok Some False p
          by (auto simp: updateLimits_def Let_def variantOf_def split: sum.splits option.splits prod.splits)
             (metis RightSizerReportItem.surjective RightSizerReportItem.update_convs(6,10))+
        have "sz_report s1 = Some items" using PatchContainerMemoryLimits_keeps [OF p] assms(2) by simp
        from storeIn_Some [OF x(2) this] PatchContainerMemoryLimits_keeps [OF p] x(1) ok
          IncrementMemory_bound [OF Some False]
        show ?thesis by fastforce
      qed
    qed
  qed
qed

section \<open>Which patches are sent\<close>

text \<open>
  A patch that the configuration allows for a pod of a namespace, seen from the report \<open>items\<close>: the report has an item of
  the patched workload whose starting memory times the maximum factor is at least the patch's quantity, and that has
  seen as many OOM kills as are required.
\<close>

definition authorised :: "controllerConfig \<Rightarrow> string \<Rightarrow> RightSizerReportItem list \<Rightarrow> effect \<Rightarrow> bool" where
  "authorised cfg ns items e \<longleftrightarrow> cc_updateMemoryLimits cfg \<and>
     (cc_allowedUpdateNamespaces cfg = [] \<or> ns \<in> set (cc_allowedUpdateNamespaces cfg)) \<and>
     (case e of
        Patch res path q tx \<Rightarrow>
          \<exists>c item m f. itemAt items (un_kind res, un_namespace res, un_name res, c) = Some item \<and>
            ri_startingMemory item = Some m \<and> multiplierAsDec (cc_updateMemoryLimitsMax cfg) = Some f \<and> q \<le> m * f \<and>
            (cc_updateMemoryLimitsMinimumOOMs cfg \<le> 0 \<or> cc_updateMemoryLimitsMinimumOOMs cfg \<le> ri_numOOMs item)
      | _ \<Rightarrow> False)"

lemma authorised_mono: "authorised cfg ns items e \<Longrightarrow> grows items items' \<Longrightarrow> authorised cfg ns items' e"
proof (cases e)
  case (Patch res path q tx)
  assume a: "authorised cfg ns items e" "grows items items'"
  then obtain c item m f where i: "itemAt items (un_kind res, un_namespace res, un_name res, c) = Some item"
      "ri_startingMemory item = Some m" "multiplierAsDec (cc_updateMemoryLimitsMax cfg) = Some f" "q \<le> m * f"
      "cc_updateMemoryLimitsMinimumOOMs cfg \<le> 0 \<or> cc_updateMemoryLimitsMinimumOOMs cfg \<le> ri_numOOMs item"
    unfolding authorised_def Patch by auto
  from growsD [OF a(2) i(1)] obtain item' where
    "itemAt items' (un_kind res, un_namespace res, un_name res, c) = Some item'"
    "ri_startingMemory item' = Some m" "ri_numOOMs item \<le> ri_numOOMs item'" using i(2) by auto
  with i a(1) show ?thesis unfolding authorised_def Patch by fastforce
qed (simp_all add: authorised_def)

text \<open>How a part of the handling of a pod moves the state.\<close>

definition advancesTo :: "controllerConfig \<Rightarrow> string \<Rightarrow> sizer \<Rightarrow> sizer \<Rightarrow> bool" where
  "advancesTo cfg ns s s' \<longleftrightarrow>
     (sz_report s = None \<longrightarrow> sz_report s' = None \<and> patchesOf s' = patchesOf s) \<and>
     (\<forall>items. sz_report s = Some items \<longrightarrow> (\<exists>items' new. sz_report s' = Some items' \<and> grows items items' \<and>
        (distinct (map keyOf items) \<longrightarrow> distinct (map keyOf items')) \<and>
        patchesOf s' = patchesOf s @ new \<and> list_all (authorised cfg ns items') new))"

lemma advancesTo_same: "sz_report s' = sz_report s \<Longrightarrow> patchesOf s' = patchesOf s \<Longrightarrow> advancesTo cfg ns s s'"
  by (auto simp: advancesTo_def)

lemma advancesTo_trans:
  assumes "advancesTo cfg ns s s1" and "advancesTo cfg ns s1 s2"
  shows "advancesTo cfg ns s s2"
  unfolding advancesTo_def
proof (intro conjI allI impI)
  assume "sz_report s = None"
  with assms show "sz_report s2 = None" "patchesOf s2 = patchesOf s" unfolding advancesTo_def by simp_all
next
  fix items assume "sz_report s = Some items"
  with assms(1) obtain items1 new1 where 1: "sz_report s1 = Some items1" "grows items items1"
    "distinct (map keyOf items) \<longrightarrow> distinct (map keyOf items1)" "patchesOf s1 = patchesOf s @ new1"
    "list_all (authorised cfg ns items1) new1" unfolding advancesTo_def by blast
  with assms(2) obtain items2 new2 where 2: "sz_report s2 = Some items2" "grows items1 items2"
    "distinct (map keyOf items1) \<longrightarrow> distinct (map keyOf items2)" "patchesOf s2 = patchesOf s1 @ new2"
    "list_all (authorised cfg ns items2) new2" unfolding advancesTo_def by blast
  have "list_all (authorised cfg ns items2) (new1 @ new2)"
    using 1(5) 2(2,5) authorised_mono by (auto simp: list_all_iff)
  with 1 2 grows_trans [OF 1(2) 2(2)]
  show "\<exists>items' new. sz_report s2 = Some items' \<and> grows items items' \<and>
        (distinct (map keyOf items) \<longrightarrow> distinct (map keyOf items')) \<and>
        patchesOf s2 = patchesOf s @ new \<and> list_all (authorised cfg ns items') new" by auto
qed

lemma updateLimits_advances:
  assumes "updateLimits env cfg pod ctl c (CreateRightSizerReportItem items ctl c now) s = Some s'" and "sz_report s = Some items"
  shows "advancesTo cfg (pd_namespace pod) s s'"
proof -
  let ?item = "CreateRightSizerReportItem items ctl c now" and ?k = "(un_kind ctl, un_namespace ctl, un_name ctl, cn_name c)"
  obtain x now' where x: "variantOf ?item x" "sz_report s' = Some (StoreItem items x now')"
    and patches: "patchesOf s' = patchesOf s \<or>
      (\<exists>path q tx m f g. patchesOf s' = patchesOf s @ [Patch ctl path q tx] \<and>
         fst (UpdateMemoryLimitsPrecheck cfg (pd_namespace pod) (ri_numOOMs ?item)) \<and>
         ri_startingMemory ?item = Some m \<and> multiplierAsDec (cc_updateMemoryLimitsMax cfg) = Some f \<and> q \<le> m * f \<and>
         multiplierAsDec (cc_updateMemoryLimitsIncrement cfg) = Some g \<and> q = limitsMemory c * g)"
    using updateLimits_Some [OF assms] by blast
  note v = variantOf_simps [OF x(1)]
  have k: "keyOf x = ?k" using v CreateRightSizerReportItem_key by simp
  have grow: "grows items (StoreItem items x now')"
    using v k Create_existing [of items ctl c] by (intro StoreItem_grows) auto
  have at: "itemAt (StoreItem items x now') ?k = Some (stored (itemAt items ?k) x now')"
    using k by (simp add: StoreItem_itemAt)
  have st: "ri_startingMemory (stored (itemAt items ?k) x now') = ri_startingMemory ?item \<and>
      ri_numOOMs (stored (itemAt items ?k) x now') = ri_numOOMs ?item"
    using v Create_existing [of items ctl c _ now] Create_new [of items ctl c now]
    by (cases "itemAt items ?k") (simp_all add: stored_def)
  have "\<exists>new. patchesOf s' = patchesOf s @ new \<and> list_all (authorised cfg (pd_namespace pod) (StoreItem items x now')) new"
    using patches
  proof (elim disjE exE conjE)
    fix path q tx m f g
    assume a: "patchesOf s' = patchesOf s @ [Patch ctl path q tx]"
      "fst (UpdateMemoryLimitsPrecheck cfg (pd_namespace pod) (ri_numOOMs ?item))"
      "ri_startingMemory ?item = Some m" "multiplierAsDec (cc_updateMemoryLimitsMax cfg) = Some f" "q \<le> m * f"
    have "authorised cfg (pd_namespace pod) (StoreItem items x now') (Patch ctl path q tx)"
      using a(2-5) at st by (fastforce simp: authorised_def UpdateMemoryLimitsPrecheck_def split: if_splits)
    with a(1) show ?thesis by auto
  qed auto
  with x(2) assms(2) grow show ?thesis
    unfolding advancesTo_def by (auto simp: StoreItem_distinct)
qed

lemma processStatus_advances:
  assumes "processStatus env cfg startTime pod st s = Some (go, s')"
  shows "advancesTo cfg (pd_namespace pod) s s'"
proof -
  have quiet: ?thesis if "sz_report s' = sz_report s" "patchesOf s' = patchesOf s"
    using that by (rule advancesTo_same)
  have upd: ?thesis if "updateLimits env cfg pod ctl c (CreateRightSizerReportItem items ctl c now) s1 = Some s'"
      "sz_report s1 = Some items" "sz_report s1 = sz_report s" "patchesOf s1 = patchesOf s" for ctl c items now s1
    by (rule advancesTo_trans [OF advancesTo_same updateLimits_advances [OF that(1,2)]]) (simp_all add: that(3,4))
  show ?thesis
    using assms upd quiet
    by (auto simp: processStatus_def Let_def split: if_splits option.splits sum.splits prod.splits)
qed

lemma processStatuses_advances:
  "processStatuses env cfg startTime pod sts s = Some (go, s') \<Longrightarrow> advancesTo cfg (pd_namespace pod) s s'"
proof (induction sts arbitrary: s)
  case Nil
  then show ?case by (auto intro: advancesTo_same)
next
  case (Cons st sts)
  obtain go1 s1 where 1: "processStatus env cfg startTime pod st s = Some (go1, s1)"
    using Cons.prems by (auto split: option.splits)
  with Cons.prems Cons.IH [of s1] processStatus_advances [OF 1] show ?case
    by (cases go1) (auto intro: advancesTo_trans)
qed

lemma processOOMKilledPod_advances:
  "processOOMKilledPod env b cfg startTime pod s = Some s' \<Longrightarrow> advancesTo cfg (pd_namespace pod) s s'"
  by (auto simp: processOOMKilledPod_def split: option.splits bool.splits
      dest!: processStatuses_advances WriteConfigMap_keeps intro: advancesTo_trans [OF _ advancesTo_same])

lemma RemoveRelated_keeps:
  "RemoveRelatedItemsOlderWithModifiedMemoryLimits env b ref s = Some (err, s') \<Longrightarrow>
   patchesOf s' = patchesOf s \<and> (\<exists>items items'. sz_report s = Some items \<and> sz_report s' = Some items' \<and>
     (\<exists>P. items' = filter P items))"
proof -
  assume run: "RemoveRelatedItemsOlderWithModifiedMemoryLimits env b ref s = Some (err, s')"
  have id: "\<exists>P. xs = filter P xs" for xs :: "RightSizerReportItem list" by (intro exI [of _ "\<lambda>_. True"]) simp
  from run id show ?thesis
    by (auto simp: RemoveRelatedItemsOlderWithModifiedMemoryLimits_def RemoveItems_eq Let_def
        split: option.splits sum.splits prod.splits if_splits dest!: WriteConfigMap_keeps)
qed

lemma removeOldTick_keeps:
  "removeOldTick env b s = Some s' \<Longrightarrow>
   patchesOf s' = patchesOf s \<and> (\<exists>items items'. sz_report s = Some items \<and> sz_report s' = Some items' \<and>
     items' = filter (\<lambda>i. \<not> (0 < rb_tooOldAge b \<and> rb_tooOldAge b \<le> timeSub (en_now env (sz_tick s)) (ri_lastOOM i))) items)"
  using RemoveOldItems_items [of "rb_tooOldAge b" "en_now env (sz_tick s)"]
  by (auto simp: removeOldTick_def Let_def split: option.splits prod.splits if_splits dest!: WriteConfigMap_keeps)
     (metis fst_conv)+

lemma processEvent_cases:
  assumes "processEvent env b cfg startTime e s = Some s'"
  obtains (pod) pod where "cc_allowedNamespaces cfg = [] \<or> ev_namespace e \<in> set (cc_allowedNamespaces cfg)"
      "isContainerStartedEvent e"
      "en_getPod env (sz_tick s) (or_namespace (ev_involvedObject e)) (or_name (ev_involvedObject e)) = LFound pod"
      "advancesTo cfg (pd_namespace pod) s s'"
  | (keep) "sz_report s' = sz_report s" "patchesOf s' = patchesOf s"
  | (remove) items P where "sz_report s = Some items" "sz_report s' = Some (filter P items)" "patchesOf s' = patchesOf s"
proof -
  have adv: "advancesTo cfg (pd_namespace pod) s s'" if "processOOMKilledPod env b cfg startTime pod (tick s) = Some s'" for pod
    by (rule advancesTo_trans [OF advancesTo_same processOOMKilledPod_advances [OF that]]) simp_all
  show thesis
    using assms adv pod keep remove
    by (auto simp: processEvent_def split: if_splits lookup.splits dest!: RemoveRelated_keeps)
qed

lemma sizerStep_cases:
  assumes "sizerStep env b cfg startTime i s = Some s'"
  obtains (pod) ns where "advancesTo cfg ns s s'"
  | (keep) "sz_report s' = sz_report s" "patchesOf s' = patchesOf s"
  | (remove) items P where "sz_report s = Some items" "sz_report s' = Some (filter P items)" "patchesOf s' = patchesOf s"
proof -
  have ev: thesis if "processEvent env b cfg startTime e s = Some s'" for e
    by (rule processEvent_cases [OF that]) (blast intro: pod keep remove)+
  show thesis
    using assms ev keep remove removeOldTick_keeps [of env b s s']
    by (auto simp: sizerStep_def processEventUpdate_def split: sizer_input.splits option.splits if_splits)
qed

section \<open>Properties\<close>

text \<open>
  C13: Memory limits are only raised within the configured limits. Every patch that the handling of an event sends is
  sent for a pod whose container was reported as started in an allowed namespace, with updates enabled, in a
  namespace where updates are allowed; and afterwards the report has an item of the patched workload with the required number of OOM
  kills, whose memory at its first OOM kill times the maximum factor (rounded to two decimals) is at least the patched quantity.
\<close>
theorem patches_authorised:
  assumes "processEvent env b cfg startTime e s = Some s'" and "sz_report s = Some items"
  shows "\<exists>items' new. sz_report s' = Some items' \<and> patchesOf s' = patchesOf s @ new \<and>
    (new = [] \<or> (cc_allowedNamespaces cfg = [] \<or> ev_namespace e \<in> set (cc_allowedNamespaces cfg)) \<and> isContainerStartedEvent e \<and>
       (\<exists>pod. en_getPod env (sz_tick s) (or_namespace (ev_involvedObject e)) (or_name (ev_involvedObject e)) = LFound pod \<and>
          list_all (authorised cfg (pd_namespace pod) items') new))"
  using assms(1)
proof (cases rule: processEvent_cases)
  case (pod p)
  with assms(2) obtain items' new where "sz_report s' = Some items'" "patchesOf s' = patchesOf s @ new"
    "list_all (authorised cfg (pd_namespace p) items') new" unfolding advancesTo_def by blast
  with pod show ?thesis by blast
qed (use assms(2) in auto)

text \<open>
  A report never holds two items of the same container of the same workload: the main loop and the ageing loop
  keep the four identifying fields unique, whatever the cluster answers.
\<close>
theorem report_keys_unique:
  assumes "sizerLoop env b cfg startTime is s = Some s'" and "sz_report s = Some items" and "distinct (map keyOf items)"
  shows "\<exists>items'. sz_report s' = Some items' \<and> distinct (map keyOf items')"
  using assms
proof (induction "is" arbitrary: s items)
  case (Cons i "is")
  obtain s1 where step: "sizerStep env b cfg startTime i s = Some s1" and rest: "sizerLoop env b cfg startTime is s1 = Some s'"
    using Cons.prems(1) by (auto split: option.splits)
  from step have "\<exists>items1. sz_report s1 = Some items1 \<and> distinct (map keyOf items1)"
  proof (cases rule: sizerStep_cases)
    case (pod ns)
    then show ?thesis using Cons.prems(2,3) unfolding advancesTo_def by blast
  qed (use Cons.prems(2,3) in \<open>auto intro: distinct_filter simp: distinct_map_filter\<close>)
  with Cons.IH [OF rest] show ?case by blast
qed simp

text \<open>
  Without the option that enables updates (the default) the controller never sends a patch, in any run.
\<close>
theorem disabled_never_patches:
  assumes "\<not> cc_updateMemoryLimits (NewController_config copts)" and "sizerRun env bopts copts startTime is = Some s"
  shows "patchesOf s = []"
proof -
  let ?cfg = "NewController_config copts"
  have step: "patchesOf s2 = patchesOf s1" if "sizerStep env b ?cfg startTime i s1 = Some s2" for b i s1 s2
    using that
  proof (cases rule: sizerStep_cases)
    case (pod ns)
    have none: "new = []" if "list_all (authorised ?cfg ns items') new" for items' new
      using that assms(1) by (cases new) (auto simp: authorised_def)
    show ?thesis
    proof (cases "sz_report s1")
      case None
      then show ?thesis using pod unfolding advancesTo_def by simp
    next
      case (Some items)
      then show ?thesis using pod none unfolding advancesTo_def by (metis append_Nil2)
    qed
  qed auto
  have loop: "patchesOf s2 = patchesOf s1" if "sizerLoop env b ?cfg startTime is s1 = Some s2" for b s1 s2 "is"
    using that step by (induction "is" arbitrary: s1) (auto split: option.splits)
  have "patchesOf s1 = patchesOf s0" if "ReadConfigMap env b s0 = Some (err, s1)" for b s0 err s1
    using that by (auto simp: ReadConfigMap_def split: lookup.splits option.splits prod.splits dest!: WriteConfigMap_keeps)
  with assms(2) show ?thesis
    by (auto simp: sizerRun_def Let_def patchesOf_def [of "sizer.fields _ _ _"] split: option.splits dest!: loop)
       (fastforce simp: patchesOf_def)
qed


text \<open>
  Two stale containers of one workload at the front of the report crash the controller. When a workload's memory limits
  were changed and the first item of the report and another one are found to be stale, removing them reads the slice at index
  -1: the handling of the event panics.
\<close>
theorem stale_containers_crash:
  assumes "sz_report s = Some (x # items)"
    and "MatchItemsOlderWithModifiedMemoryLimits (en_convert env) (en_restMapping env (sz_tick s)) (en_getObject env (sz_tick s))
           (x # items) ref = Some (Inr (Some (x # y # ys)))"
  shows "RemoveRelatedItemsOlderWithModifiedMemoryLimits env b ref s = None"
  using assms by (simp add: RemoveRelatedItemsOlderWithModifiedMemoryLimits_def RemoveItems_eq toRemove_Cons)

text \<open>
  An OOM kill can be missed when the container had ended before. If its last termination, for whatever reason, was
  before the start of the controller and the current one is an OOM kill, the time of the last termination is the
  one compared with the start, and the OOM kill is counted as too old, however recent it is.
\<close>
theorem oom_kill_after_other_exit_missed:
  assumes "ps_lastTerminated st = Some (reason, t0)" and "t0 < startTime"
    and "ps_terminated st = Some (TerminationReasonOOMKilled, t1)"
  shows "processStatus env cfg startTime pod st s = Some (True, emit (Metric ''oomkilled_termination_too_old'') s)"
  using assms by (simp add: processStatus_def wasOOMKilled_def containerTerminatedTime_def)

text \<open>
  C40: The state survives a restart. If a write of the state's ConfigMap succeeds, and a new controller finds a ConfigMap with the data
  that was written, then, as far as the JSON decoder inverts the encoder, reading the state gives the report that was
  written.
\<close>
theorem state_survives_restart:
  assumes "WriteConfigMap env b s = Some (None, s')"
    and "last (sz_effects s') = UpdateConfigMap data an \<or> last (sz_effects s') = CreateConfigMap data an"
    and "en_getConfigMap env' (sz_tick s0) (rb_stateConfigMapNamespace b) (rb_stateConfigMapName b) = LFound \<lparr>cm_data = Some data, cm_annotations = an'\<rparr>"
    and "\<And>j. en_marshal env (sz_report s) = Inr j \<Longrightarrow> en_decode env' j (sz_report s0) = (None, sz_report s)"
  shows "\<exists>s1. ReadConfigMap env' b s0 = Some (None, s1) \<and> sz_report s1 = sz_report s"
proof -
  obtain j where j: "en_marshal env (sz_report s) = Inr j"
    using assms(1) by (cases "en_marshal env (sz_report s)") (simp_all add: WriteConfigMap_def Let_def)
  then have "map_of data ''report'' = Some j"
    using assms(1,2) by (auto simp: WriteConfigMap_def Let_def putKey_def emit_def tick_def split: lookup.splits option.splits)
  then show ?thesis using assms(3,4) j by (simp add: ReadConfigMap_def tick_def)
qed

section \<open>Witnesses\<close>

definition demo_deployment :: "int \<Rightarrow> unstructured" where
  "demo_deployment g = \<lparr>un_kind = ''Deployment'', un_namespace = ''prod'', un_name = ''web'', un_generation = g,
     un_content = [(''spec'', JObject [(''template'', JObject [(''spec'', JObject demo_podSpec)])])]\<rparr>"

definition demo_pod :: pod where
  "demo_pod = \<lparr>pd_namespace = ''prod'', pd_name = ''web-1'', pd_containers = [\<lparr>cn_name = ''app'', cn_memoryLimit = Some 100\<rparr>],
     pd_statuses = [\<lparr>ps_name = ''app'', ps_containerID = ''c1'', ps_lastTerminated = Some (TerminationReasonOOMKilled, 20), ps_terminated = None\<rparr>]\<rparr>"

text \<open>A cluster with one Deployment; the state is printed as its number of items and read back as a given report.\<close>

definition demo_kube :: "RightSizerReportItem list \<Rightarrow> kube_env" where
  "demo_kube saved = \<lparr>en_now = (\<lambda>n. 30 + int n), en_getPod = (\<lambda>n ns name. LFound demo_pod),
     en_topController = (\<lambda>n p. Inr (demo_deployment 3)), en_restMapping = (\<lambda>n r. None), en_patchMapping = (\<lambda>n u. None),
     en_getObject = (\<lambda>n r. LFound (demo_deployment 3)),
     en_getConfigMap = (\<lambda>n ns name. LFound \<lparr>cm_data = Some [(''report'', ''old'')], cm_annotations = None\<rparr>),
     en_writeConfigMap = (\<lambda>n. None), en_patch = (\<lambda>n. Inr (demo_deployment 4)), en_convert = demo_convert,
     en_showQuantity = (\<lambda>q. ''120''), en_showTime = (\<lambda>t. showInt t),
     en_marshal = (\<lambda>r. Inr ''old''), en_decode = (\<lambda>j r. (None, Some saved))\<rparr>"

definition demo_event :: "string \<Rightarrow> string \<Rightarrow> kube_event" where
  "demo_event reason kind = \<lparr>ev_namespace = ''prod'', ev_name = ''e'', ev_reason = reason, ev_count = 1,
     ev_involvedObject = \<lparr>or_kind = kind, or_namespace = ''prod'', or_name = ''web'', or_apiVersion = ''v1'', or_uid = '''',
       or_resourceVersion = '''', or_fieldPath = ''''\<rparr>, ev_others = ''''\<rparr>"

definition demo_cfg :: controllerConfig where
  "demo_cfg = NewController_config [WithUpdateMemoryLimits True, WithAllowedNamespaces [''prod'']]"

definition demo_sizer :: "RightSizerReportItem list \<Rightarrow> sizer" where
  "demo_sizer items = \<lparr>sz_report = Some items, sz_tick = 0, sz_effects = []\<rparr>"

definition demo_builder :: RightSizerReportBuilder where
  "demo_builder = NewRightSizerReportBuilder []"

definition demo_after :: "sizer option" where
  "demo_after = processEvent (demo_kube []) demo_builder demo_cfg 10 (demo_event ''Started'' ''Pod'') (demo_sizer [demo_item ''app'' 1])"

lemma demo_after_patches:
  "map_option (\<lambda>s. map (\<lambda>e. case e of Patch _ p q _ \<Rightarrow> (p, q) | _ \<Rightarrow> ([], 0)) (patchesOf s)) demo_after =
     Some [(''/spec/template/spec/containers/0/resources/limits/memory'', 120)]"
  by code_simp

theorem patches_authorised_witness:
  "\<exists>s' items' new. demo_after = Some s' \<and> sz_report s' = Some items' \<and> patchesOf s' = new \<and> new \<noteq> [] \<and>
     list_all (authorised demo_cfg ''prod'' items') new"
proof -
  obtain s' where s': "demo_after = Some s'" and patch: "patchesOf s' \<noteq> []"
    using demo_after_patches by (cases demo_after) auto
  have empty: "patchesOf (demo_sizer [demo_item ''app'' 1]) = []" by (simp add: patchesOf_def demo_sizer_def)
  have "\<exists>items' new. sz_report s' = Some items' \<and> patchesOf s' = patchesOf (demo_sizer [demo_item ''app'' 1]) @ new \<and>
    (new = [] \<or> (cc_allowedNamespaces demo_cfg = [] \<or> ev_namespace (demo_event ''Started'' ''Pod'') \<in> set (cc_allowedNamespaces demo_cfg)) \<and>
       isContainerStartedEvent (demo_event ''Started'' ''Pod'') \<and>
       (\<exists>pod. en_getPod (demo_kube []) (sz_tick (demo_sizer [demo_item ''app'' 1]))
            (or_namespace (ev_involvedObject (demo_event ''Started'' ''Pod''))) (or_name (ev_involvedObject (demo_event ''Started'' ''Pod''))) = LFound pod \<and>
          list_all (authorised demo_cfg (pd_namespace pod) items') new))"
    using s' unfolding demo_after_def by (rule patches_authorised) (simp add: demo_sizer_def)
  then obtain items' new where r: "sz_report s' = Some items'" "patchesOf s' = new"
    and a: "new = [] \<or> (\<exists>pod. en_getPod (demo_kube []) (sz_tick (demo_sizer [demo_item ''app'' 1]))
            (or_namespace (ev_involvedObject (demo_event ''Started'' ''Pod''))) (or_name (ev_involvedObject (demo_event ''Started'' ''Pod''))) = LFound pod \<and>
          list_all (authorised demo_cfg (pd_namespace pod) items') new)" using empty by auto
  have "new \<noteq> []" using patch r(2) by simp
  with a have "list_all (authorised demo_cfg ''prod'' items') new" by (auto simp: demo_kube_def demo_pod_def)
  with s' r \<open>new \<noteq> []\<close> show ?thesis by blast
qed

theorem report_keys_unique_witness:
  "\<exists>s' items'. sizerLoop (demo_kube []) demo_builder demo_cfg 10 [EventAdded (demo_event ''Started'' ''Pod''), MinuteTick]
       (demo_sizer [demo_item ''app'' 1]) = Some s' \<and> sz_report s' = Some items' \<and> distinct (map keyOf items')"
proof -
  have "sizerLoop (demo_kube []) demo_builder demo_cfg 10 [EventAdded (demo_event ''Started'' ''Pod''), MinuteTick]
       (demo_sizer [demo_item ''app'' 1]) \<noteq> None" by code_simp
  then obtain s' where s': "sizerLoop (demo_kube []) demo_builder demo_cfg 10 [EventAdded (demo_event ''Started'' ''Pod''), MinuteTick]
       (demo_sizer [demo_item ''app'' 1]) = Some s'" by blast
  have "\<exists>items'. sz_report s' = Some items' \<and> distinct (map keyOf items')"
    using s' by (rule report_keys_unique [where items = "[demo_item ''app'' 1]"]) (simp_all add: demo_sizer_def)
  with s' show ?thesis by blast
qed

theorem disabled_never_patches_witness:
  "\<exists>s. sizerRun (demo_kube [demo_item ''app'' 5]) [] [WithAllowedNamespaces [''prod'']] 10 [EventAdded (demo_event ''Started'' ''Pod'')] = Some s \<and>
     patchesOf s = [] \<and> map_option (map ri_numOOMs) (sz_report s) = Some [6]"
proof -
  have run: "map_option (\<lambda>s. map_option (map ri_numOOMs) (sz_report s))
      (sizerRun (demo_kube [demo_item ''app'' 5]) [] [WithAllowedNamespaces [''prod'']] 10 [EventAdded (demo_event ''Started'' ''Pod'')]) = Some (Some [6])"
    by code_simp
  then obtain s where s: "sizerRun (demo_kube [demo_item ''app'' 5]) [] [WithAllowedNamespaces [''prod'']] 10 [EventAdded (demo_event ''Started'' ''Pod'')] = Some s"
    by auto
  have "\<not> cc_updateMemoryLimits (NewController_config [WithAllowedNamespaces [''prod'']])" by code_simp
  from disabled_never_patches [OF this s] s run show ?thesis by auto
qed



definition demo_stale :: "RightSizerReportItem list" where
  "demo_stale = [demo_item ''app'' 1, demo_item ''db'' 1]"

theorem stale_containers_crash_witness:
  "RemoveRelatedItemsOlderWithModifiedMemoryLimits (demo_kube []) demo_builder
       (ev_involvedObject (demo_event ''ScalingReplicaSet'' ''Deployment'')) (demo_sizer demo_stale) = None \<and>
   processEvent (demo_kube []) demo_builder demo_cfg 10 (demo_event ''ScalingReplicaSet'' ''Deployment'') (demo_sizer demo_stale) = None"
proof -
  have m: "MatchItemsOlderWithModifiedMemoryLimits (en_convert (demo_kube [])) (en_restMapping (demo_kube []) 0) (en_getObject (demo_kube []) 0)
      demo_stale (ev_involvedObject (demo_event ''ScalingReplicaSet'' ''Deployment'')) = Some (Inr (Some demo_stale))"
    by code_simp
  have crash: "RemoveRelatedItemsOlderWithModifiedMemoryLimits (demo_kube []) demo_builder
       (ev_involvedObject (demo_event ''ScalingReplicaSet'' ''Deployment'')) (demo_sizer demo_stale) = None"
    using m by (intro stale_containers_crash [of _ "demo_item ''app'' 1" "[demo_item ''db'' 1]" _ _ "demo_item ''db'' 1" "[]"])
      (simp_all add: demo_sizer_def demo_stale_def)
  moreover have "\<not> isContainerStartedEvent (demo_event ''ScalingReplicaSet'' ''Deployment'')"
    "or_kind (ev_involvedObject (demo_event ''ScalingReplicaSet'' ''Deployment'')) \<noteq> podKind" by code_simp+
  moreover have "''prod'' \<in> set (cc_allowedNamespaces demo_cfg)" by code_simp
  moreover have "ev_namespace (demo_event ''ScalingReplicaSet'' ''Deployment'') = ''prod''" by (simp add: demo_event_def)
  ultimately show ?thesis unfolding processEvent_def by simp
qed

theorem oom_kill_after_other_exit_missed_witness:
  "processStatus (demo_kube []) demo_cfg 10 demo_pod
     \<lparr>ps_name = ''app'', ps_containerID = ''c1'', ps_lastTerminated = Some (''Completed'', 5), ps_terminated = Some (TerminationReasonOOMKilled, 25)\<rparr>
     (demo_sizer []) = Some (True, emit (Metric ''oomkilled_termination_too_old'') (demo_sizer []))"
  by (rule oom_kill_after_other_exit_missed [where reason = "''Completed''" and ?t0.0 = 5 and ?t1.0 = 25]) simp_all

theorem state_survives_restart_witness:
  "\<exists>s1. ReadConfigMap (demo_kube demo_stale) demo_builder (demo_sizer []) = Some (None, s1) \<and> sz_report s1 = Some demo_stale"
proof -
  have w: "WriteConfigMap (demo_kube []) demo_builder (demo_sizer demo_stale) =
      Some (None, \<lparr>sz_report = Some demo_stale, sz_tick = 3,
        sz_effects = [UpdateConfigMap [(''report'', ''old'')] [(''last-updated'', ''30'')]]\<rparr>)" by code_simp
  have "\<exists>s1. ReadConfigMap (demo_kube demo_stale) demo_builder (demo_sizer []) = Some (None, s1) \<and>
      sz_report s1 = sz_report (demo_sizer demo_stale)"
    by (rule state_survives_restart [OF w, where data = "[(''report'', ''old'')]" and an = "[(''last-updated'', ''30'')]" and an' = None])
      (simp_all add: demo_kube_def demo_sizer_def)
  then show ?thesis by (simp add: demo_sizer_def)
qed

end
