(* ===== verification/Go_Strings.thy ===== *)
theory Go_Strings
  imports Prelude
begin

text \<open>
  Substrings in Go: \<^verbatim>\<open>strings.Index\<close>, slice expressions, which panic, \<^const>\<open>None\<close>, if their bounds are out of order, and
  \<^verbatim>\<open>strings.ReplaceAll\<close>.
\<close>

section \<open>Substrings\<close>

text \<open>\<^verbatim>\<open>strings.Index\<close>, with \<open>-1\<close> for a substring that does not occur, and the slice expression \<^verbatim>\<open>s[i:j]\<close>.\<close>

fun indexFrom :: "int \<Rightarrow> string \<Rightarrow> string \<Rightarrow> int" where
  "indexFrom n [] sub = (if sub = [] then n else -1)"
| "indexFrom n (c # s) sub = (if HasPrefix (c # s) sub then n else indexFrom (n + 1) s sub)"

definition strIndex :: "string \<Rightarrow> string \<Rightarrow> int" where
  "strIndex s sub = indexFrom 0 s sub"

definition sliceAt :: "string \<Rightarrow> int \<Rightarrow> int \<Rightarrow> string option" where
  "sliceAt s i j = (if 0 \<le> i \<and> i \<le> j \<and> j \<le> int (length s) then Some (take (nat (j - i)) (drop (nat i) s)) else None)"

definition sliceFrom :: "string \<Rightarrow> int \<Rightarrow> string option" where
  "sliceFrom s i = sliceAt s i (int (length s))"

definition len :: "string \<Rightarrow> int" where "len s = int (length s)"

text \<open>
  \<^verbatim>\<open>strings.ReplaceAll\<close>. An empty text is found before every character, that is before every byte that does not continue one, and
  at the end.
\<close>

definition startsRune :: "char \<Rightarrow> bool" where
  "startsRune c = (of_char c < (128 :: nat) \<or> 192 \<le> (of_char c :: nat))"

function replaceFrom :: "string \<Rightarrow> string \<Rightarrow> string \<Rightarrow> string" where
  "replaceFrom old new s =
     (if s = [] then []
      else if old \<noteq> [] \<and> HasPrefix s old then new @ replaceFrom old new (drop (length old) s)
      else hd s # replaceFrom old new (tl s))"
  by auto
termination by (relation "measure (\<lambda>(old, new, s). length s)") auto

declare replaceFrom.simps [simp del]

definition ReplaceAll :: "string \<Rightarrow> string \<Rightarrow> string \<Rightarrow> string" where
  "ReplaceAll s old new =
     (if old = [] then concat (map (\<lambda>c. if startsRune c then new @ [c] else [c]) s) @ new else replaceFrom old new s)"

section \<open>Facts\<close>

lemma indexFrom_range: "0 \<le> n \<Longrightarrow> indexFrom n s sub = -1 \<or> n \<le> indexFrom n s sub"
proof (induction s arbitrary: n)
  case (Cons c s)
  then show ?case using Cons.IH [of "n + 1"] by (cases "indexFrom (n + 1) s sub = -1") auto
qed simp

lemma indexFrom_Contains: "0 \<le> n \<Longrightarrow> indexFrom n s sub = -1 \<longleftrightarrow> \<not> Contains s sub"
proof (induction s arbitrary: n)
  case (Cons c s)
  then show ?case using Cons.IH [of "n + 1"] by auto
qed simp

lemma Index_Contains: "strIndex s sub = -1 \<longleftrightarrow> \<not> Contains s sub"
  by (simp add: strIndex_def indexFrom_Contains)

lemma indexFrom_byte: "indexFrom n s [c] = (case IndexByte s c of None \<Rightarrow> -1 | Some i \<Rightarrow> n + int i)"
proof (induction s arbitrary: n)
  case (Cons x s)
  then show ?case by (auto simp: HasPrefix_def split: option.splits)
qed simp

lemma Index_byte: "strIndex s [c] = (case IndexByte s c of None \<Rightarrow> -1 | Some i \<Rightarrow> int i)"
  by (simp add: strIndex_def indexFrom_byte split: option.splits)

lemma sliceAt_middle: "sliceAt (p @ m @ q) (int (length p)) (int (length p + length m)) = Some m"
  by (simp add: sliceAt_def)

end
