(* ===== verification/Watch_Messages.thy ===== *)
theory Watch_Messages
  imports Go_Strings
begin

text \<open>
  The event-watcher's messages (\<^verbatim>\<open>event-watcher/pkg/models\<close>) and what it reads out of them
  (\<^verbatim>\<open>event-watcher/pkg/utils/utils.go\<close>): the tests that classify an audit event, the extraction of policy names from the text of
  a response, and the events made of them. A slice expression whose bounds are out of order panics; a function
  with such an expression has the result \<open>None\<close> then. The YAML decoder and the format of times are parameters.
\<close>

section \<open>Small helpers\<close>

text \<open>\<^verbatim>\<open>strings.ReplaceAll\<close> of one byte by nothing.\<close>

definition removeByte :: "char \<Rightarrow> string \<Rightarrow> string" where
  "removeByte c s = filter (\<lambda>x. x \<noteq> c) s"

definition dq :: string where "dq = [CHR 0x22]"

section \<open>Models\<close>

type_synonym policies = "(string \<times> (string \<times> string) list) list"

text \<open>Values of type \<^verbatim>\<open>any\<close> in the maps of an event; \<open>VOpaque\<close> stands for structures that are only passed on.\<close>

datatype anyval =
    VStr string | VInt int | VStrMap "(string \<times> string) list" | VPolicies policies
  | VMap "(string \<times> anyval) list" | VOpaque string | VNil

record ObjectRef =
  ob_resource :: string
  ob_namespace :: string
  ob_name :: string
  ob_uid :: string
  ob_apiGroup :: string
  ob_apiVersion :: string

record AuditEvent =
  ae_auditID :: string
  ae_username :: string
  ae_objectRef :: ObjectRef
  ae_code :: int
  ae_status :: string
  ae_message :: string
  ae_annotations :: "(string \<times> string) list"
  ae_requestReceived :: go_time
  ae_stageTimestamp :: go_time

record PolicyViolationEventModel =
  pv_timestamp :: go_time
  pv_apiVersion :: string
  pv_apiGroup :: string
  pv_name :: string
  pv_namespace :: string
  pv_resourceType :: string
  pv_user :: string
  pv_action :: string
  pv_message :: string
  pv_auditID :: string
  pv_policies :: policies
  pv_annotations :: "(string \<times> string) list"

text \<open>The event type is \<^verbatim>\<open>ADDED\<close> wherever the program makes one; \<open>None\<close> data or metadata is a nil map.\<close>

record WatchedEvent =
  we_eventVersion :: int
  we_timestamp :: int
  we_eventTime :: string
  we_eventType :: string
  we_kind :: string
  we_namespace :: string
  we_name :: string
  we_uid :: string
  we_data :: "(string \<times> anyval) list option"
  we_metadata :: "(string \<times> anyval) list option"
  we_eventSource :: string
  we_success :: bool
  we_blocked :: bool

record PolicyViolationEvent =
  pe_eventType :: string
  pe_resourceType :: string
  pe_namespace :: string
  pe_name :: string
  pe_uid :: string
  pe_timestamp :: int
  pe_data :: "(string \<times> anyval) list option"
  pe_metadata :: "(string \<times> anyval) list option"
  pe_policies :: policies
  pe_message :: string
  pe_blocked :: bool
  pe_success :: bool
  pe_eventTime :: string

definition EventTypeAdded :: string where "EventTypeAdded = ''ADDED''"

definition KyvernoPolicyViolationPrefix :: string where "KyvernoPolicyViolationPrefix = ''pol-violation''"
definition ValidatingPolicyViolationPrefix :: string where "ValidatingPolicyViolationPrefix = ''vpol-violation''"
definition NamespacedValidatingPolicyViolationPrefix :: string where "NamespacedValidatingPolicyViolationPrefix = ''nvpol-violation''"
definition ImageValidatingPolicyViolationPrefix :: string where "ImageValidatingPolicyViolationPrefix = ''ivpol-violation''"
definition ValidatingAdmissionPolicyViolationPrefix :: string where "ValidatingAdmissionPolicyViolationPrefix = ''vap-violation''"
definition AuditOnlyAllowedValidatingAdmissionPolicyPrefix :: string where "AuditOnlyAllowedValidatingAdmissionPolicyPrefix = ''audit-only-vap''"
definition AuditOnlyClusterPolicyViolationPrefix :: string where "AuditOnlyClusterPolicyViolationPrefix = ''audit-only-cp''"
definition AuditOnlyValidatingPolicyViolationPrefix :: string where "AuditOnlyValidatingPolicyViolationPrefix = ''audit-only-vpol''"
definition AuditOnlyNamespacedValidatingPolicyViolationPrefix :: string where "AuditOnlyNamespacedValidatingPolicyViolationPrefix = ''audit-only-nvpol''"
definition AuditOnlyImageValidatingPolicyViolationPrefix :: string where "AuditOnlyImageValidatingPolicyViolationPrefix = ''audit-only-ivpol''"

section \<open>Policies in messages\<close>

type_synonym yaml_policies = "string \<Rightarrow> policies option"

definition onePolicy :: "string \<Rightarrow> string \<Rightarrow> policies" where
  "onePolicy name message = [(name, [(name, message)])]"

definition ExtractPoliciesFromMessage :: "yaml_policies \<Rightarrow> string \<Rightarrow> policies" where
  "ExtractPoliciesFromMessage yaml message =
     (let expectedText = ''due to the following policies'';
          allPolicies =
            (if Contains message ''admission webhook'' \<and> Contains message ''denied the request:'' then
               (let start = strIndex message expectedText in
                if start \<noteq> -1 then drop (nat (start + len expectedText)) message else '''')
             else '''')
      in case yaml allPolicies of Some policies \<Rightarrow> policies | None \<Rightarrow> [])"

text \<open>The common part: what is between the marker and \<^verbatim>\<open>" failed:"\<close>. The test of the start index never fails, as a length was added.\<close>

definition deniedPolicy :: "string \<Rightarrow> string option" where
  "deniedPolicy message =
     (let startIndex = strIndex message ''denied the request: Policy'' + len ''denied the request: Policy'';
          endIndex = strIndex message '' failed:'' in
      if startIndex \<noteq> -1 \<and> endIndex \<noteq> -1 then map_option TrimSpace (sliceAt message startIndex endIndex)
      else Some ''unknown'')"

definition ExtractValidatingPoliciesFromMessage :: "string \<Rightarrow> policies option" where
  "ExtractValidatingPoliciesFromMessage message =
     map_option (\<lambda>name. onePolicy name message)
       (if Contains message ''vpol.'' \<and> \<not> Contains message ''nvpol.'' \<and> Contains message ''kyverno'' \<and> Contains message ''denied the request:''
        then deniedPolicy message else Some ''unknown'')"

definition ExtractNamespacedValidatingPoliciesFromMessage :: "string \<Rightarrow> policies option" where
  "ExtractNamespacedValidatingPoliciesFromMessage message =
     map_option (\<lambda>name. onePolicy name message)
       (if Contains message ''nvpol.'' \<and> Contains message ''kyverno'' \<and> Contains message ''denied the request:''
        then deniedPolicy message else Some ''unknown'')"

definition markerEnd :: "string \<Rightarrow> int \<Rightarrow> int" where
  "markerEnd message startIndex =
     fold (\<lambda>marker endIndex. let idx = strIndex message marker in
       if startIndex < idx \<and> (endIndex = -1 \<or> idx < endIndex) then idx else endIndex) ['' error:'', '' failed:''] (-1)"

definition ExtractImageValidatingPoliciesFromMessage :: "string \<Rightarrow> policies option" where
  "ExtractImageValidatingPoliciesFromMessage message =
     map_option (\<lambda>name. onePolicy name message)
       (if \<not> Contains message ''ivpol.'' \<or> \<not> Contains message ''kyverno'' \<or> \<not> Contains message ''denied the request:''
        then Some ''unknown''
        else if Contains message ''denied the request: Policy'' then
          (let startIndex = strIndex message ''denied the request: Policy'' + len ''denied the request: Policy'';
               endIndex = markerEnd message startIndex in
           if 0 < startIndex \<and> startIndex < endIndex then map_option TrimSpace (sliceAt message startIndex endIndex)
           else Some ''unknown'')
        else Some ''unknown'')"

definition ExtractValidatingAdmissionPoliciesFromMessage :: "string \<Rightarrow> policies option" where
  "ExtractValidatingAdmissionPoliciesFromMessage message =
     (if Contains message ''ValidatingAdmissionPolicy'' \<and> Contains message ''denied request:'' then
        map_option (\<lambda>s. onePolicy (TrimSpace (removeByte (CHR 0x27) s)) message)
          (sliceAt message (strIndex message ''ValidatingAdmissionPolicy'' + len ''ValidatingAdmissionPolicy'') (strIndex message '' with binding ''))
      else Some [])"

definition lookupStr :: "(string \<times> string) list \<Rightarrow> string \<Rightarrow> string" where
  "lookupStr m k = (case map_of m k of Some v \<Rightarrow> v | None \<Rightarrow> '''')"

definition validationFailureKey :: string where
  "validationFailureKey = ''validation.policy.admission.k8s.io/validation_failure''"

definition policyField :: string where
  "policyField = dq @ ''policy'' @ dq @ '':''"

definition ExtractAuditOnlyAllowedValidatingAdmissionPoliciesFromMessage :: "(string \<times> string) list \<Rightarrow> policies option" where
  "ExtractAuditOnlyAllowedValidatingAdmissionPoliciesFromMessage annotations =
     (let validationFailure = lookupStr annotations validationFailureKey;
          startIndex = strIndex validationFailure policyField + len policyField in
      if startIndex \<noteq> -1 then
        map_option (\<lambda>substring.
          (case CutByte substring (CHR '','') of
             Some (before, _) \<Rightarrow> [(removeByte (CHR 0x22) before, [(removeByte (CHR 0x22) before, validationFailure)])]
           | None \<Rightarrow> [(''unknown'', [(''unknown'', validationFailure)])]))
          (sliceFrom validationFailure startIndex)
      else Some [(''unknown'', [(''unknown'', validationFailure)])])"

text \<open>The rule name in brackets of an audit-only event; the four functions of the source have the same body.\<close>

definition bracketRule :: "string \<Rightarrow> string \<Rightarrow> policies option" where
  "bracketRule policyName message =
     (let startIndex = strIndex message ''['' ; endIndex = strIndex message '']'' in
      map_option (\<lambda>ruleName. [(policyName, [(ruleName, message)])])
        (if startIndex \<noteq> -1 \<and> endIndex \<noteq> -1 then map_option TrimSpace (sliceAt message (startIndex + 1) endIndex)
         else Some policyName))"

definition ExtractAuditOnlyClusterPoliciesFromMessage :: "string \<Rightarrow> string \<Rightarrow> policies option" where
  "ExtractAuditOnlyClusterPoliciesFromMessage = bracketRule"

definition ExtractAuditOnlyValidatingPoliciesFromMessage :: "string \<Rightarrow> string \<Rightarrow> policies option" where
  "ExtractAuditOnlyValidatingPoliciesFromMessage = bracketRule"

definition ExtractAuditOnlyNamespacedValidatingPoliciesFromMessage :: "string \<Rightarrow> string \<Rightarrow> policies option" where
  "ExtractAuditOnlyNamespacedValidatingPoliciesFromMessage = bracketRule"

definition ExtractAuditOnlyImageValidatingPoliciesFromMessage :: "string \<Rightarrow> string \<Rightarrow> policies option" where
  "ExtractAuditOnlyImageValidatingPoliciesFromMessage = bracketRule"

text \<open>The referenced object in the text of a response; each nested search is a step that leaves the rest as it is when it fails.\<close>

definition refOfResource :: "string \<Rightarrow> string \<times> string \<times> string \<Rightarrow> (string \<times> string \<times> string) option" where
  "refOfResource subText = (\<lambda>(resource, namespace, name).
     case CutByte subText (CHR ''/'') of
       None \<Rightarrow> Some (resource, namespace, name)
     | Some (resource', rest) \<Rightarrow>
         (case CutByte rest (CHR ''/'') of
            None \<Rightarrow> Some (resource', namespace, name)
          | Some (namespace', _) \<Rightarrow>
              (let finalIndex = strIndex rest '' was blocked'' in
               if finalIndex = -1 then Some (resource', namespace', name)
               else map_option (\<lambda>n. (resource', namespace', n)) (sliceAt rest (strIndex rest ''/'' + 1) finalIndex))))"

definition extractObjectRefFromMessage :: "string \<Rightarrow> ObjectRef \<Rightarrow> (string \<times> string \<times> string) option" where
  "extractObjectRefFromMessage policyMessage ref =
     (let own = (ob_resource ref, ob_namespace ref, ob_name ref); index = strIndex policyMessage ''denied the request:'' in
      if ob_uid ref \<noteq> '''' \<or> index = -1 then Some own
      else let subText = drop (nat (index + len ''denied the request:'')) policyMessage; index' = strIndex subText ''resource '' in
           if index' = -1 then Some own
           else refOfResource (drop (nat (index' + len ''resource '')) subText) own)"

section \<open>Classification\<close>

definition IsKyvernoPolicyViolation :: "int \<Rightarrow> string \<Rightarrow> bool" where
  "IsKyvernoPolicyViolation code message \<longleftrightarrow>
     400 \<le> code \<and> Contains message ''kyverno'' \<and> Contains message ''blocked due to the following policies''"

definition IsValidatingPolicyViolation :: "int \<Rightarrow> string \<Rightarrow> bool" where
  "IsValidatingPolicyViolation code message \<longleftrightarrow>
     400 \<le> code \<and> Contains message ''kyverno'' \<and> Contains message (dq @ ''vpol.'') \<and>
     \<not> Contains message (dq @ ''nvpol.'') \<and> \<not> Contains message (dq @ ''ivpol.'')"

definition IsNamespacedValidatingPolicyViolation :: "int \<Rightarrow> string \<Rightarrow> bool" where
  "IsNamespacedValidatingPolicyViolation code message \<longleftrightarrow> 400 \<le> code \<and> Contains message ''nvpol.'' \<and> Contains message ''kyverno''"

definition IsImageValidatingPolicyViolation :: "int \<Rightarrow> string \<Rightarrow> bool" where
  "IsImageValidatingPolicyViolation code message \<longleftrightarrow> 400 \<le> code \<and> Contains message ''ivpol.'' \<and> Contains message ''kyverno''"

definition IsValidatingAdmissionPolicyViolation :: "int \<Rightarrow> string \<Rightarrow> bool" where
  "IsValidatingAdmissionPolicyViolation code message \<longleftrightarrow> 400 \<le> code \<and> Contains message ''ValidatingAdmissionPolicy''"

definition IsValidatingAdmissionPolicyViolationAuditOnlyAllowEvent :: "(string \<times> string) list \<Rightarrow> bool" where
  "IsValidatingAdmissionPolicyViolationAuditOnlyAllowEvent annotations \<longleftrightarrow>
     lookupStr annotations ''authorization.k8s.io/decision'' = ''allow'' \<and> lookupStr annotations validationFailureKey \<noteq> ''''"

definition isBlockedViolation :: "AuditEvent \<Rightarrow> bool" where
  "isBlockedViolation e \<longleftrightarrow>
     IsKyvernoPolicyViolation (ae_code e) (ae_message e) \<or> IsValidatingPolicyViolation (ae_code e) (ae_message e) \<or>
     IsNamespacedValidatingPolicyViolation (ae_code e) (ae_message e) \<or> IsImageValidatingPolicyViolation (ae_code e) (ae_message e) \<or>
     IsValidatingAdmissionPolicyViolation (ae_code e) (ae_message e)"

section \<open>Facts about substrings\<close>



section \<open>Properties of the extraction\<close>

text \<open>
  The rule of an audit-only violation is read back from its message: if the first opening bracket of the message is
  followed by the rule and the first closing bracket, the result names the policy with this rule, spaces trimmed,
  and the whole message.
\<close>
theorem bracketRule_reads_rule:
  assumes "CHR ''['' \<notin> set before" and "CHR '']'' \<notin> set before" and "CHR '']'' \<notin> set rule"
  shows "bracketRule policyName (before @ ''['' @ rule @ '']'' @ after) =
    Some [(policyName, [(TrimSpace rule, before @ ''['' @ rule @ '']'' @ after)])]"
proof -
  let ?m = "before @ ''['' @ rule @ '']'' @ after"
  have s: "strIndex ?m ''['' = int (length before)"
    using IndexByte_append [OF assms(1), of "rule @ '']'' @ after"] by (simp add: Index_byte)
  have "CHR '']'' \<notin> set (before @ ''['' @ rule)" using assms(2,3) by auto
  from IndexByte_append [OF this, of after] have e: "strIndex ?m '']'' = int (length before + 1 + length rule)"
    by (simp add: Index_byte)
  have "sliceAt ?m (int (length before) + 1) (int (length before + 1 + length rule)) = Some rule"
    using sliceAt_middle [of "before @ ''[''" rule "'']'' @ after"] by (simp add: algebra_simps)
  with s e show ?thesis by (simp add: bracketRule_def Let_def)
qed

theorem bracketRule_reads_rule_witness:
  "bracketRule ''labels'' ''Pod a/b: [ check ] fail'' = Some [(''labels'', [(''check'', ''Pod a/b: [ check ] fail'')])]"
proof -
  have "TrimSpace '' check '' = ''check''" by code_simp
  then show ?thesis using bracketRule_reads_rule [of "''Pod a/b: ''" "'' check ''" "''labels''" "'' fail''"] by simp
qed

text \<open>
  A message with a closing bracket before the first opening one makes the extraction panic: the slice ends before it
  starts.
\<close>
theorem bracketRule_panics:
  assumes "CHR ''['' \<notin> set before" and "CHR '']'' \<notin> set before" and "CHR ''['' \<notin> set between"
  shows "bracketRule policyName (before @ '']'' @ between @ ''['' @ after) = None"
proof -
  let ?m = "before @ '']'' @ between @ ''['' @ after"
  have e: "strIndex ?m '']'' = int (length before)"
    using IndexByte_append [OF assms(2), of "between @ ''['' @ after"] by (simp add: Index_byte)
  have "CHR ''['' \<notin> set (before @ '']'' @ between)" using assms(1,3) by auto
  from IndexByte_append [OF this, of after] have "strIndex ?m ''['' = int (length before + 1 + length between)"
    by (simp add: Index_byte)
  with e show ?thesis by (simp add: bracketRule_def Let_def sliceAt_def)
qed

theorem bracketRule_panics_witness: "bracketRule ''p'' ''a] b [c'' = None"
  using bracketRule_panics [of "''a''" "'' b ''" "''p''" "''c''"] by simp

text \<open>
  A denial by a ValidatingAdmissionPolicy whose message does not name a binding makes the extraction panic, as the index
  of the binding is then -1.
\<close>
theorem admission_policy_without_binding_panics:
  assumes "Contains message ''ValidatingAdmissionPolicy''" and "Contains message ''denied request:''"
    and "\<not> Contains message '' with binding ''"
  shows "ExtractValidatingAdmissionPoliciesFromMessage message = None"
proof -
  have "strIndex message ''ValidatingAdmissionPolicy'' \<noteq> -1" using assms(1) by (simp add: Index_Contains)
  moreover have "strIndex message '' with binding '' = -1" using assms(3) by (simp add: Index_Contains)
  ultimately show ?thesis
    using assms(1,2) indexFrom_range [of 0 message "''ValidatingAdmissionPolicy''"]
    by (auto simp: ExtractValidatingAdmissionPoliciesFromMessage_def sliceAt_def len_def strIndex_def)
qed

theorem admission_policy_without_binding_panics_witness:
  "ExtractValidatingAdmissionPoliciesFromMessage ''ValidatingAdmissionPolicy replicas denied request: no'' = None"
  by (rule admission_policy_without_binding_panics) code_simp+

text \<open>
  The object of a blocked request is read back from the message. If the audit event has no object UID and the
  message says, after "denied the request:", that the resource KIND/NAMESPACE/NAME was blocked, these three are the result.
\<close>
theorem extractObjectRef_reads_message:
  assumes "ob_uid ref = ''''" and "strIndex message ''denied the request:'' = int (length pre)"
    and "message = pre @ ''denied the request:'' @ mid @ ''resource '' @ kind @ ''/'' @ ns @ ''/'' @ name @ '' was blocked'' @ rest"
    and "strIndex (mid @ ''resource '' @ kind @ ''/'' @ ns @ ''/'' @ name @ '' was blocked'' @ rest) ''resource '' = int (length mid)"
    and "CHR ''/'' \<notin> set kind" and "CHR ''/'' \<notin> set ns"
    and "strIndex (ns @ ''/'' @ name @ '' was blocked'' @ rest) '' was blocked'' = int (length ns + 1 + length name)"
  shows "extractObjectRefFromMessage message ref = Some (kind, ns, name)"
proof -
  let ?own = "(ob_resource ref, ob_namespace ref, ob_name ref)"
  let ?sub = "mid @ ''resource '' @ kind @ ''/'' @ ns @ ''/'' @ name @ '' was blocked'' @ rest"
  let ?res = "kind @ ''/'' @ ns @ ''/'' @ name @ '' was blocked'' @ rest"
  let ?rest = "ns @ ''/'' @ name @ '' was blocked'' @ rest"
  have d1: "drop (nat (int (length pre) + len ''denied the request:'')) message = ?sub"
    using assms(3) by (simp add: len_def nat_add_distrib)
  have d2: "drop (nat (int (length mid) + len ''resource '')) ?sub = ?res" by (simp add: len_def nat_add_distrib)
  have c1: "CutByte ?res (CHR ''/'') = Some (kind, ?rest)"
    using IndexByte_append [OF assms(5), of ?rest] by (simp add: CutByte_def)
  have c2: "CutByte ?rest (CHR ''/'') = Some (ns, name @ '' was blocked'' @ rest)"
    using IndexByte_append [OF assms(6), of "name @ '' was blocked'' @ rest"] by (simp add: CutByte_def)
  have i: "strIndex ?rest ''/'' = int (length ns)"
    using IndexByte_append [OF assms(6), of "name @ '' was blocked'' @ rest"] by (simp add: Index_byte)
  have "sliceAt ?rest (int (length ns) + 1) (int (length ns + 1 + length name)) = Some name"
    using sliceAt_middle [of "ns @ ''/''" name "'' was blocked'' @ rest"] by (simp add: algebra_simps)
  then have r: "refOfResource ?res ?own = Some (kind, ns, name)"
    using c1 c2 i assms(7) by (simp add: refOfResource_def)
  have "strIndex message ''denied the request:'' \<noteq> -1" "strIndex ?sub ''resource '' \<noteq> -1" using assms(2,4) by simp_all
  then show ?thesis
    unfolding extractObjectRefFromMessage_def Let_def assms(2) d1 using r assms(1,4) d2 by simp
qed

theorem extractObjectRef_reads_message_witness:
  "extractObjectRefFromMessage ''webhook denied the request: x resource Pod/prod/web-1 was blocked due to''
     \<lparr>ob_resource = ''pods'', ob_namespace = '''', ob_name = '''', ob_uid = '''', ob_apiGroup = '''', ob_apiVersion = ''v1''\<rparr> =
   Some (''Pod'', ''prod'', ''web-1'')"
  by (rule extractObjectRef_reads_message [where pre = "''webhook ''" and mid = "'' x ''" and rest = "'' due to''"]) code_simp+

end
