(* ===== verification/Watch_Pipeline.thy ===== *)
theory Watch_Pipeline
  imports Complex_Main Watch_Messages
begin

text \<open>
  The event-watcher from its sources to Insights: the events made of audit events and of Kubernetes events
  (\<^verbatim>\<open>pkg/utils/utils.go\<close>, \<^verbatim>\<open>pkg/producers\<close>), the handlers and their choice (\<^verbatim>\<open>pkg/consumers\<close>), sending with the
  cache of what was sent, the processing loop with its metrics, and the health check (\<^verbatim>\<open>pkg/watcher\<close>, \<^verbatim>\<open>pkg/metrics\<close>,
  \<^verbatim>\<open>pkg/health\<close>). The answers of Insights and of the cache are the environment's, by a counter of calls. A panic is \<open>None\<close>.
\<close>

datatype http_answer = MarshalError string | RequestError string | TransportError string | HttpStatus int

record watch_env =
  wn_yaml :: yaml_policies
  wn_rfc3339 :: "go_time \<Rightarrow> string"
  wn_rfc3339UTC :: "go_time \<Rightarrow> string"
  wn_answer :: "nat \<Rightarrow> http_answer"
  wn_cacheSet :: "nat \<Rightarrow> bool"

definition unixSeconds :: "go_time \<Rightarrow> int" where
  "unixSeconds t = t div Second"

definition dashed :: "string \<Rightarrow> string \<Rightarrow> string \<Rightarrow> string \<Rightarrow> string" where
  "dashed a b c d = a @ ''-'' @ b @ ''-'' @ c @ ''-'' @ d"

section \<open>Events from audit events\<close>

text \<open>The prefix and the policies of a blocked violation, in the order of the tests.\<close>

definition blockedKind :: "watch_env \<Rightarrow> AuditEvent \<Rightarrow> (string \<times> policies) option" where
  "blockedKind env e =
     (let code = ae_code e; message = ae_message e in
      if IsKyvernoPolicyViolation code message then Some (KyvernoPolicyViolationPrefix, ExtractPoliciesFromMessage (wn_yaml env) message)
      else if IsValidatingPolicyViolation code message
      then map_option (Pair ValidatingPolicyViolationPrefix) (ExtractValidatingPoliciesFromMessage message)
      else if IsNamespacedValidatingPolicyViolation code message
      then map_option (Pair NamespacedValidatingPolicyViolationPrefix) (ExtractNamespacedValidatingPoliciesFromMessage message)
      else if IsImageValidatingPolicyViolation code message
      then map_option (Pair ImageValidatingPolicyViolationPrefix) (ExtractImageValidatingPoliciesFromMessage message)
      else map_option (Pair ValidatingAdmissionPolicyViolationPrefix) (ExtractValidatingAdmissionPoliciesFromMessage message))"

definition CreateBlockedPolicyViolationEvent :: "watch_env \<Rightarrow> AuditEvent \<Rightarrow> PolicyViolationEventModel option option" where
  "CreateBlockedPolicyViolationEvent env e =
     (if \<not> isBlockedViolation e then Some None
      else case extractObjectRefFromMessage (ae_message e) (ae_objectRef e) of
        None \<Rightarrow> None
      | Some (resource, namespace, name) \<Rightarrow>
          map_option (\<lambda>(pfx, policies). Some
            \<lparr>pv_timestamp = ae_requestReceived e, pv_apiVersion = ob_apiVersion (ae_objectRef e), pv_apiGroup = ob_apiGroup (ae_objectRef e),
             pv_name = dashed pfx resource name (ae_auditID e), pv_namespace = namespace, pv_resourceType = resource,
             pv_user = ae_username e, pv_action = ae_status e, pv_message = ae_message e, pv_auditID = ae_auditID e,
             pv_policies = policies, pv_annotations = []\<rparr>) (blockedKind env e))"

text \<open>
  The watched event made directly of an audit event, a function that the program exports and does not use. The name of
  every kind but the first contains the name made for the first.
\<close>

definition CreateBlockedWatchedEventFromAuditEvent :: "watch_env \<Rightarrow> AuditEvent \<Rightarrow> WatchedEvent option option" where
  "CreateBlockedWatchedEventFromAuditEvent env e =
     (if \<not> isBlockedViolation e then Some None
      else case (blockedKind env e, extractObjectRefFromMessage (ae_message e) (ae_objectRef e)) of
        (Some (_, policies), Some (resource, namespace, name)) \<Rightarrow>
          (let reason = (if 400 \<le> ae_code e then ''Blocked'' else ''Allowed'');
               code = ae_code e; message = ae_message e;
               name1 = dashed KyvernoPolicyViolationPrefix resource name (ae_auditID e);
               name2 = (if IsValidatingPolicyViolation code message then dashed ValidatingPolicyViolationPrefix resource name1 (ae_auditID e)
                  else if IsNamespacedValidatingPolicyViolation code message then dashed NamespacedValidatingPolicyViolationPrefix resource name1 (ae_auditID e)
                  else if IsImageValidatingPolicyViolation code message then dashed ImageValidatingPolicyViolationPrefix resource name1 (ae_auditID e)
                  else if IsValidatingAdmissionPolicyViolation code message then dashed ValidatingAdmissionPolicyViolationPrefix resource name1 (ae_auditID e)
                  else name1);
               stage = VStr (wn_rfc3339 env (ae_stageTimestamp e)); ref = ae_objectRef e in
           Some (Some \<lparr>we_eventVersion = 0, we_timestamp = unixSeconds (ae_stageTimestamp e), we_eventTime = wn_rfc3339UTC env (ae_stageTimestamp e),
             we_eventType = EventTypeAdded, we_kind = resource, we_namespace = namespace, we_name = name2, we_uid = ae_auditID e,
             we_data = Some [(''reason'', VStr reason), (''message'', VStr message), (''source'', VMap [(''component'', VStr ''cloudwatch'')]),
               (''involvedObject'', VMap [(''resource'', VStr (ob_resource ref)), (''namespace'', VStr (ob_namespace ref)), (''name'', VStr (ob_name ref)),
                  (''uid'', VStr (ob_uid ref)), (''apiGroup'', VStr (ob_apiGroup ref)), (''apiVersion'', VStr (ob_apiVersion ref))]),
               (''firstTimestamp'', VStr (wn_rfc3339 env (ae_requestReceived e))), (''lastTimestamp'', stage), (''annotations'', VStrMap (ae_annotations e))],
             we_metadata = Some [(''audit_id'', VStr (ae_auditID e)), (''policies'', VPolicies policies), (''resource_name'', VStr name2),
               (''namespace'', VStr namespace), (''action'', VStr reason), (''message'', VStr message), (''timestamp'', stage), (''event_time'', stage)],
             we_eventSource = '''', we_success = False, we_blocked = True\<rparr>))
      | _ \<Rightarrow> None)"

definition CreateValidatingAdmissionPolicyViolationAuditOnlyAllowEvent :: "AuditEvent \<Rightarrow> PolicyViolationEventModel option option" where
  "CreateValidatingAdmissionPolicyViolationAuditOnlyAllowEvent e =
     (if \<not> IsValidatingAdmissionPolicyViolationAuditOnlyAllowEvent (ae_annotations e) then Some None
      else map_option (\<lambda>policies. Some
            \<lparr>pv_timestamp = ae_requestReceived e, pv_apiVersion = ob_apiVersion (ae_objectRef e), pv_apiGroup = ob_apiGroup (ae_objectRef e),
             pv_name = ob_name (ae_objectRef e), pv_namespace = ob_namespace (ae_objectRef e), pv_resourceType = ob_resource (ae_objectRef e),
             pv_user = ae_username e, pv_action = ae_status e, pv_message = ae_message e, pv_auditID = ae_auditID e,
             pv_policies = policies, pv_annotations = ae_annotations e\<rparr>)
         (ExtractAuditOnlyAllowedValidatingAdmissionPoliciesFromMessage (ae_annotations e)))"

text \<open>
  The watched event of a blocked violation. The time of the violation is replaced by the current time exactly if it is set.
\<close>

definition blockedWatchedEvent :: "watch_env \<Rightarrow> go_time \<Rightarrow> PolicyViolationEventModel \<Rightarrow> WatchedEvent" where
  "blockedWatchedEvent env now v =
     (let ts = (if \<not> isZeroTime (pv_timestamp v) then now else pv_timestamp v); stamp = VStr (wn_rfc3339 env (pv_timestamp v)) in
      \<lparr>we_eventVersion = 0, we_timestamp = unixSeconds ts, we_eventTime = wn_rfc3339UTC env ts, we_eventType = EventTypeAdded,
       we_kind = pv_resourceType v, we_namespace = pv_namespace v, we_name = pv_name v, we_uid = pv_auditID v,
       we_data = Some [(''reason'', VStr (pv_action v)), (''type'', VStr ''Warning''), (''message'', VStr (pv_message v)),
         (''policies'', VPolicies (pv_policies v)), (''source'', VMap [(''component'', VStr ''audit-log-handler'')]),
         (''involvedObject'', VMap [(''apiVersion'', VStr (pv_apiVersion v)), (''apiGroup'', VStr (pv_apiGroup v)), (''kind'', VStr (pv_resourceType v)),
            (''resourceType'', VStr (pv_resourceType v)), (''name'', VStr (pv_name v)), (''namespace'', VStr (pv_namespace v)), (''uid'', VStr (pv_auditID v))]),
         (''firstTimestamp'', stamp), (''lastTimestamp'', stamp), (''count'', VInt 1), (''annotations'', VStrMap (pv_annotations v))],
       we_metadata = Some [(''audit_id'', VStr (pv_auditID v)), (''annotations'', VStrMap (pv_annotations v)), (''policies'', VPolicies (pv_policies v)),
         (''resource_name'', VStr (pv_name v)), (''namespace'', VStr (pv_namespace v)), (''action'', VStr (pv_action v)),
         (''message'', VStr (pv_message v)), (''timestamp'', stamp), (''event_time'', stamp)],
       we_eventSource = '''', we_success = False, we_blocked = True\<rparr>)"

text \<open>
  Sending to the channel without waiting: \<open>room\<close> tells whether the channel takes the event. The results are the error and the
  event that was sent.
\<close>

definition CreateBlockedWatchedEventFromPolicyViolationEvent ::
    "watch_env \<Rightarrow> go_time \<Rightarrow> bool \<Rightarrow> PolicyViolationEventModel option \<Rightarrow> string option \<times> WatchedEvent option" where
  "CreateBlockedWatchedEventFromPolicyViolationEvent env now room violation =
     (case violation of
        None \<Rightarrow> (Some ''policy violation event is nil'', None)
      | Some v \<Rightarrow> if room then (None, Some (blockedWatchedEvent env now v)) else (Some ''event channel full'', None))"

definition auditOnlyWatchedEvent :: "watch_env \<Rightarrow> PolicyViolationEventModel \<Rightarrow> WatchedEvent" where
  "auditOnlyWatchedEvent env v =
     (let stamp = VStr (wn_rfc3339 env (pv_timestamp v)) in
      \<lparr>we_eventVersion = 0, we_timestamp = unixSeconds (pv_timestamp v), we_eventTime = wn_rfc3339 env (pv_timestamp v),
       we_eventType = EventTypeAdded, we_kind = pv_resourceType v, we_namespace = pv_namespace v,
       we_name = dashed AuditOnlyAllowedValidatingAdmissionPolicyPrefix (pv_resourceType v) (pv_name v) (pv_auditID v), we_uid = pv_auditID v,
       we_data = Some [(''reason'', VStr (pv_action v)), (''message'', VStr (pv_message v)), (''source'', VMap [(''component'', VStr ''cloudwatch'')]),
         (''involvedObject'', VMap [(''apiVersion'', VStr (pv_apiVersion v)), (''apiGroup'', VStr (pv_apiGroup v)), (''kind'', VStr (pv_resourceType v)),
            (''name'', VStr (pv_name v)), (''namespace'', VStr (pv_namespace v)), (''uid'', VStr (pv_auditID v))]),
         (''firstTimestamp'', stamp), (''lastTimestamp'', stamp), (''annotations'', VStrMap (pv_annotations v))],
       we_metadata = Some [(''audit_id'', VStr (pv_auditID v)), (''policies'', VPolicies (pv_policies v)), (''resource_type'', VStr (pv_resourceType v)),
         (''api_group'', VStr (pv_apiGroup v)), (''api_version'', VStr (pv_apiVersion v)), (''name'', VStr (pv_name v)),
         (''namespace'', VStr (pv_namespace v)), (''action'', VStr (pv_action v)), (''message'', VStr (pv_message v)),
         (''timestamp'', stamp), (''event_time'', stamp)],
       we_eventSource = '''', we_success = False, we_blocked = False\<rparr>)"

definition CreateAuditOnlyAllowWatchedEventFromValidatingAdmissionPolicyViolation ::
    "watch_env \<Rightarrow> bool \<Rightarrow> PolicyViolationEventModel option \<Rightarrow> WatchedEvent option" where
  "CreateAuditOnlyAllowWatchedEventFromValidatingAdmissionPolicyViolation env room violation =
     (case violation of None \<Rightarrow> None | Some v \<Rightarrow> if room then Some (auditOnlyWatchedEvent env v) else None)"

text \<open>
  One audit event, from CloudWatch or from a line of the audit log: \<open>None\<close> for a text that is not JSON. The result is
  what was put into the channel.
\<close>

definition IsPolicyViolationAlreadyProcessed :: "string list \<Rightarrow> string \<Rightarrow> bool" where
  "IsPolicyViolationAlreadyProcessed cache uid \<longleftrightarrow> uid \<in> set cache"

definition processLogEvent :: "watch_env \<Rightarrow> string list \<Rightarrow> go_time \<Rightarrow> bool \<Rightarrow> AuditEvent option \<Rightarrow> WatchedEvent option option" where
  "processLogEvent env cache now room parsed =
     (case parsed of
        None \<Rightarrow> Some None
      | Some e \<Rightarrow>
          if IsPolicyViolationAlreadyProcessed cache (ae_auditID e) then Some None
          else if isBlockedViolation e then
            (case CreateBlockedPolicyViolationEvent env e of
               None \<Rightarrow> None
             | Some None \<Rightarrow> Some None
             | Some (Some v) \<Rightarrow> Some (snd (CreateBlockedWatchedEventFromPolicyViolationEvent env now room (Some v))))
          else if IsValidatingAdmissionPolicyViolationAuditOnlyAllowEvent (ae_annotations e) then
            (case CreateValidatingAdmissionPolicyViolationAuditOnlyAllowEvent e of
               None \<Rightarrow> None
             | Some None \<Rightarrow> Some None
             | Some (Some v) \<Rightarrow> Some (CreateAuditOnlyAllowWatchedEventFromValidatingAdmissionPolicyViolation env room (Some v)))
          else Some None)"

text \<open>The audit log: blank lines are skipped; \<open>decode\<close> is the JSON decoder and \<open>rooms\<close> the state of the channel at each line.\<close>

fun processNewAuditLogEntries :: "watch_env \<Rightarrow> (string \<Rightarrow> AuditEvent option) \<Rightarrow> string list \<Rightarrow> (string \<times> go_time \<times> bool) list \<Rightarrow> WatchedEvent list option" where
  "processNewAuditLogEntries env decode cache [] = Some []"
| "processNewAuditLogEntries env decode cache ((line, now, room) # lines) =
     (let text = TrimSpace line in
      if text = '''' then processNewAuditLogEntries env decode cache lines
      else case processLogEvent env cache now room (decode text) of
        None \<Rightarrow> None
      | Some out \<Rightarrow> map_option (\<lambda>es. (case out of None \<Rightarrow> [] | Some w \<Rightarrow> [w]) @ es) (processNewAuditLogEntries env decode cache lines))"

section \<open>Events from Kubernetes events\<close>

record kubeRef =
  kr_kind :: string
  kr_namespace :: string
  kr_name :: string
  kr_uid :: string

record kubeEvent =
  kv_involvedObject :: kubeRef
  kv_related :: "kubeRef option"
  kv_reason :: string
  kv_action :: string
  kv_message :: string
  kv_uid :: string
  kv_eventTime :: go_time
  kv_creation :: go_time
  kv_shared :: "(string \<times> anyval) list" \<comment> \<open>annotations, labels and resource version\<close>
  kv_more :: "(string \<times> anyval) list" \<comment> \<open>related object, reporting instance, source and type\<close>

definition passedViolation :: "kubeEvent \<Rightarrow> bool" where
  "passedViolation e \<longleftrightarrow> kv_reason e = ''PolicyViolation'' \<and> kv_action e = ''Resource Passed''"

definition IsAuditOnlyClusterPolicyViolation :: "kubeEvent \<Rightarrow> bool" where
  "IsAuditOnlyClusterPolicyViolation e \<longleftrightarrow>
     (kr_kind (kv_involvedObject e) = ''ClusterPolicy'' \<or> kr_kind (kv_involvedObject e) = ''Policy'') \<and> passedViolation e"

definition IsAuditOnlyValidatingPolicyViolation :: "kubeEvent \<Rightarrow> bool" where
  "IsAuditOnlyValidatingPolicyViolation e \<longleftrightarrow> kr_kind (kv_involvedObject e) = ''ValidatingPolicy'' \<and> passedViolation e"

definition IsAuditOnlyNamespacedValidatingPolicyViolation :: "kubeEvent \<Rightarrow> bool" where
  "IsAuditOnlyNamespacedValidatingPolicyViolation e \<longleftrightarrow> kr_kind (kv_involvedObject e) = ''NamespacedValidatingPolicy'' \<and> passedViolation e"

definition IsAuditOnlyImageValidatingPolicyViolation :: "kubeEvent \<Rightarrow> bool" where
  "IsAuditOnlyImageValidatingPolicyViolation e \<longleftrightarrow> kr_kind (kv_involvedObject e) = ''ImageValidatingPolicy'' \<and> passedViolation e"

definition auditOnlyPrefix :: "kubeEvent \<Rightarrow> string option" where
  "auditOnlyPrefix e =
     (if IsAuditOnlyClusterPolicyViolation e then Some AuditOnlyClusterPolicyViolationPrefix
      else if IsAuditOnlyValidatingPolicyViolation e then Some AuditOnlyValidatingPolicyViolationPrefix
      else if IsAuditOnlyNamespacedValidatingPolicyViolation e then Some AuditOnlyNamespacedValidatingPolicyViolationPrefix
      else if IsAuditOnlyImageValidatingPolicyViolation e then Some AuditOnlyImageValidatingPolicyViolationPrefix
      else None)"

definition kubeEventKey :: "kubeEvent \<Rightarrow> string" where
  "kubeEventKey e = dashed (kr_namespace (kv_involvedObject e)) (kr_name (kv_involvedObject e)) (kr_kind (kv_involvedObject e)) (kv_uid e)"

definition kubeWatchedEvent :: "watch_env \<Rightarrow> string \<Rightarrow> kubeEvent \<Rightarrow> WatchedEvent" where
  "kubeWatchedEvent env pfx e =
     (let res = (case kv_related e of Some r \<Rightarrow> r | None \<Rightarrow> kv_involvedObject e);
          common = [(''policyName'', VStr (kr_name (kv_involvedObject e))), (''creationTimestamp'', VStr (wn_rfc3339 env (kv_creation e))),
            (''uid'', VStr (kv_uid e)), (''reason'', VStr (kv_reason e)), (''message'', VStr (kv_message e))] in
      \<lparr>we_eventVersion = 1, we_timestamp = unixSeconds (kv_eventTime e), we_eventTime = wn_rfc3339UTC env (kv_eventTime e),
       we_eventType = EventTypeAdded, we_kind = kr_kind res, we_namespace = kr_namespace res,
       we_name = dashed pfx (kr_kind res) (kr_name res) (kv_uid e), we_uid = kr_uid res,
       we_data = Some (common @ kv_shared e), we_metadata = Some (common @ kv_shared e @ kv_more e),
       we_eventSource = ''kubernetes_events'', we_success = False, we_blocked = False\<rparr>)"

text \<open>The events of one poll that are put into the channel (here the sender waits for room).\<close>

definition processKyvernoKubernetesEvents :: "watch_env \<Rightarrow> string list \<Rightarrow> string + kubeEvent list \<Rightarrow> string + WatchedEvent list" where
  "processKyvernoKubernetesEvents env cache listing =
     (case listing of
        Inl err \<Rightarrow> Inl (''failed to list latest kubernetes events: '' @ err)
      | Inr events \<Rightarrow> Inr (List.map_filter (\<lambda>e.
          case auditOnlyPrefix e of
            None \<Rightarrow> None
          | Some pfx \<Rightarrow>
              if IsPolicyViolationAlreadyProcessed cache (kubeEventKey e) then None else Some (kubeWatchedEvent env pfx e)) events))"

section \<open>Sending to Insights\<close>

text \<open>
  The state: the identifiers in the cache of what was sent, the violations that Insights accepted, and the counter. The
  rate limiter that the handlers pass on is not used by the code.
\<close>

record watch_state =
  wa_cache :: "string list"
  wa_sent :: "PolicyViolationEvent list"
  wa_tick :: nat

definition SendToInsights :: "watch_env \<Rightarrow> PolicyViolationEvent \<Rightarrow> watch_state \<Rightarrow> string option \<times> watch_state" where
  "SendToInsights env v s =
     (if pe_uid v \<in> set (wa_cache s) then (None, s)
      else let s1 = s\<lparr>wa_tick := Suc (wa_tick s)\<rparr> in
        case wn_answer env (wa_tick s) of
          MarshalError err \<Rightarrow> (Some (''failed to marshal violation event: '' @ err), s1)
        | RequestError err \<Rightarrow> (Some (''failed to create request: '' @ err), s1)
        | TransportError err \<Rightarrow> (Some (''failed to send request: '' @ err), s1)
        | HttpStatus code \<Rightarrow>
            if code \<noteq> 200 then (Some (''insights API returned status '' @ showInt code), s1)
            else (None, s1\<lparr>wa_sent := wa_sent s @ [v],
                           wa_cache := (if wn_cacheSet env (wa_tick s) then pe_uid v # wa_cache s else wa_cache s)\<rparr>))"

section \<open>Handlers\<close>

datatype handler =
    PolicyViolationHandler | ValidatingPolicyViolationHandler | NamespacedValidatingAdmissionPolicyViolationHandler
  | ImageValidatingPolicyViolationHandler | ValidatingAdmissionPolicyViolationHandler
  | AuditOnlyAllowedValidatingAdmissionPolicyHandler | ClusterPolicyAuditHandler | ValidatingPolicyAuditHandler
  | NamespacedValidatingPolicyAuditHandler | ImageValidatingPolicyAuditHandler | ConsoleHandler

text \<open>The message of an event, and the report made of it; some handlers leave the resource type empty.\<close>

definition dataMessage :: "WatchedEvent \<Rightarrow> string + string" where
  "dataMessage e =
     (case we_data e of
        None \<Rightarrow> Inl ''event data is nil''
      | Some d \<Rightarrow>
          (case map_of d ''message'' of
             Some (VStr m) \<Rightarrow> if m = '''' then Inl ''no message field in event or message is empty'' else Inr m
           | _ \<Rightarrow> Inl ''no message field in event or message is empty''))"

definition violationOf :: "WatchedEvent \<Rightarrow> string \<Rightarrow> policies \<Rightarrow> string \<Rightarrow> PolicyViolationEvent" where
  "violationOf e resourceType policies message =
     \<lparr>pe_eventType = we_eventType e, pe_resourceType = resourceType, pe_namespace = we_namespace e, pe_name = we_name e,
      pe_uid = we_uid e, pe_timestamp = we_timestamp e, pe_data = we_data e, pe_metadata = we_metadata e, pe_policies = policies,
      pe_message = message, pe_blocked = we_blocked e, pe_success = we_success e, pe_eventTime = we_eventTime e\<rparr>"

definition fromMessage :: "(string \<Rightarrow> policies option) \<Rightarrow> string \<Rightarrow> WatchedEvent \<Rightarrow> (string + PolicyViolationEvent) option" where
  "fromMessage extract resourceType e =
     (case dataMessage e of
        Inl err \<Rightarrow> Some (Inl err)
      | Inr message \<Rightarrow> map_option (\<lambda>policies. Inr (violationOf e resourceType policies message)) (extract message))"

definition extractPolicyViolation :: "watch_env \<Rightarrow> WatchedEvent \<Rightarrow> (string + PolicyViolationEvent) option" where
  "extractPolicyViolation env e = fromMessage (\<lambda>m. Some (ExtractPoliciesFromMessage (wn_yaml env) m)) '''' e"

definition extractValidatingPolicyViolation :: "WatchedEvent \<Rightarrow> (string + PolicyViolationEvent) option" where
  "extractValidatingPolicyViolation e = fromMessage ExtractValidatingPoliciesFromMessage (we_kind e) e"

definition extractNamespacedValidatingAdmissionPolicyViolation :: "WatchedEvent \<Rightarrow> (string + PolicyViolationEvent) option" where
  "extractNamespacedValidatingAdmissionPolicyViolation e = fromMessage ExtractNamespacedValidatingPoliciesFromMessage (we_kind e) e"

definition extractImageValidatingPolicyViolation :: "WatchedEvent \<Rightarrow> (string + PolicyViolationEvent) option" where
  "extractImageValidatingPolicyViolation e = fromMessage ExtractImageValidatingPoliciesFromMessage (we_kind e) e"

definition extractValidatingAdmissionPolicyViolation :: "WatchedEvent \<Rightarrow> (string + PolicyViolationEvent) option" where
  "extractValidatingAdmissionPolicyViolation e = fromMessage ExtractValidatingAdmissionPoliciesFromMessage '''' e"

definition extractAuditOnlyAllowedValidatingAdmissionPolicy :: "WatchedEvent \<Rightarrow> (string + PolicyViolationEvent) option" where
  "extractAuditOnlyAllowedValidatingAdmissionPolicy e =
     (case map_of (case we_data e of None \<Rightarrow> [] | Some d \<Rightarrow> d) ''annotations'' of
        Some (VStrMap annotations) \<Rightarrow>
          map_option (\<lambda>policies. Inr (violationOf e (we_kind e) policies (lookupStr annotations validationFailureKey)))
            (ExtractAuditOnlyAllowedValidatingAdmissionPoliciesFromMessage annotations)
      | _ \<Rightarrow> Some (Inl ''no annotations field in event or annotations is not a map''))"

text \<open>The result of handling an event is the error and the new state.\<close>

definition sendExtracted :: "watch_env \<Rightarrow> string \<Rightarrow> bool \<Rightarrow> (string + PolicyViolationEvent) option \<Rightarrow> watch_state \<Rightarrow>
    (string option \<times> watch_state) option" where
  "sendExtracted env what onlyBlocked extracted s =
     (case extracted of
        None \<Rightarrow> None
      | Some (Inl err) \<Rightarrow> Some (Some (''failed to extract '' @ what @ '': '' @ err), s)
      | Some (Inr v) \<Rightarrow> if onlyBlocked \<and> \<not> pe_blocked v then Some (None, s) else Some (SendToInsights env v s))"

definition auditHandle :: "watch_env \<Rightarrow> string \<Rightarrow> (string \<Rightarrow> string \<Rightarrow> policies option) \<Rightarrow> WatchedEvent \<Rightarrow> watch_state \<Rightarrow>
    (string option \<times> watch_state) option" where
  "auditHandle env what extract e s =
     (let metadata = (case we_metadata e of None \<Rightarrow> [] | Some m \<Rightarrow> m) in
      case map_of metadata ''message'' of
        None \<Rightarrow> Some (Some ''event metadata is nil or message is nil in event'', s)
      | Some VNil \<Rightarrow> Some (Some ''event metadata is nil or message is nil in event'', s)
      | Some (VStr message) \<Rightarrow>
          (case map_of metadata ''policyName'' of
             Some (VStr policyName) \<Rightarrow>
               (case extract policyName message of
                  None \<Rightarrow> None
                | Some policies \<Rightarrow>
                    (case SendToInsights env (violationOf e '''' policies message) s of
                       (err, s') \<Rightarrow> Some (map_option (\<lambda>m. ''failed to send '' @ what @ '' to Insights: '' @ m) err, s')))
           | _ \<Rightarrow> Some (Some ''policyName is not a string in event'', s))
      | Some _ \<Rightarrow> Some (Some ''message is not a string in event'', s))"

text \<open>
  The console handler prints, and extracts the violation only for printing; the type assertion on
  the policy result in the metadata panics when there is none.
\<close>

definition consoleExtract :: "watch_env \<Rightarrow> WatchedEvent \<Rightarrow> (string + PolicyViolationEvent) option" where
  "consoleExtract env e =
     (case dataMessage e of
        Inl err \<Rightarrow> Some (Inl err)
      | Inr message \<Rightarrow>
          (case map_of (case we_metadata e of None \<Rightarrow> [] | Some m \<Rightarrow> m) ''policyResult'' of
             Some (VStr result) \<Rightarrow>
               Some (Inr ((violationOf e '''' (ExtractPoliciesFromMessage (wn_yaml env) message) message)\<lparr>pe_blocked := (result = ''fail''), pe_success := False\<rparr>))
           | _ \<Rightarrow> None))"

definition PolicyViolationHandler_Handle :: "watch_env \<Rightarrow> WatchedEvent \<Rightarrow> watch_state \<Rightarrow> (string option \<times> watch_state) option" where
  "PolicyViolationHandler_Handle env e s = sendExtracted env ''policy violation'' True (extractPolicyViolation env e) s"

definition ValidatingPolicyViolationHandler_Handle :: "watch_env \<Rightarrow> WatchedEvent \<Rightarrow> watch_state \<Rightarrow> (string option \<times> watch_state) option" where
  "ValidatingPolicyViolationHandler_Handle env e s = sendExtracted env ''validating policy violation'' False (extractValidatingPolicyViolation e) s"

definition NamespacedValidatingAdmissionPolicyViolationHandler_Handle :: "watch_env \<Rightarrow> WatchedEvent \<Rightarrow> watch_state \<Rightarrow> (string option \<times> watch_state) option" where
  "NamespacedValidatingAdmissionPolicyViolationHandler_Handle env e s = sendExtracted env ''namespaced validating admission policy violation'' False (extractNamespacedValidatingAdmissionPolicyViolation e) s"

definition ImageValidatingPolicyViolationHandler_Handle :: "watch_env \<Rightarrow> WatchedEvent \<Rightarrow> watch_state \<Rightarrow> (string option \<times> watch_state) option" where
  "ImageValidatingPolicyViolationHandler_Handle env e s = sendExtracted env ''image validating policy violation'' False (extractImageValidatingPolicyViolation e) s"

definition ValidatingAdmissionPolicyViolationHandler_Handle :: "watch_env \<Rightarrow> WatchedEvent \<Rightarrow> watch_state \<Rightarrow> (string option \<times> watch_state) option" where
  "ValidatingAdmissionPolicyViolationHandler_Handle env e s = sendExtracted env ''validating admission policy violation'' False (extractValidatingAdmissionPolicyViolation e) s"

definition AuditOnlyAllowedValidatingAdmissionPolicyHandler_Handle :: "watch_env \<Rightarrow> WatchedEvent \<Rightarrow> watch_state \<Rightarrow> (string option \<times> watch_state) option" where
  "AuditOnlyAllowedValidatingAdmissionPolicyHandler_Handle env e s = sendExtracted env ''audit only allowed validating admission policy'' False (extractAuditOnlyAllowedValidatingAdmissionPolicy e) s"

definition ClusterPolicyAuditHandler_Handle :: "watch_env \<Rightarrow> WatchedEvent \<Rightarrow> watch_state \<Rightarrow> (string option \<times> watch_state) option" where
  "ClusterPolicyAuditHandler_Handle env e s = auditHandle env ''cluster policy audit'' ExtractAuditOnlyClusterPoliciesFromMessage e s"

definition ValidatingPolicyAuditHandler_Handle :: "watch_env \<Rightarrow> WatchedEvent \<Rightarrow> watch_state \<Rightarrow> (string option \<times> watch_state) option" where
  "ValidatingPolicyAuditHandler_Handle env e s = auditHandle env ''validating policy audit'' ExtractAuditOnlyValidatingPoliciesFromMessage e s"

definition NamespacedValidatingPolicyAuditHandler_Handle :: "watch_env \<Rightarrow> WatchedEvent \<Rightarrow> watch_state \<Rightarrow> (string option \<times> watch_state) option" where
  "NamespacedValidatingPolicyAuditHandler_Handle env e s = auditHandle env ''namespaced validating policy audit'' ExtractAuditOnlyNamespacedValidatingPoliciesFromMessage e s"

definition ImageValidatingPolicyAuditHandler_Handle :: "watch_env \<Rightarrow> WatchedEvent \<Rightarrow> watch_state \<Rightarrow> (string option \<times> watch_state) option" where
  "ImageValidatingPolicyAuditHandler_Handle env e s = auditHandle env ''image validating policy audit'' ExtractAuditOnlyImageValidatingPoliciesFromMessage e s"

definition ConsoleHandler_Handle :: "watch_env \<Rightarrow> WatchedEvent \<Rightarrow> watch_state \<Rightarrow> (string option \<times> watch_state) option" where
  "ConsoleHandler_Handle env e s = map_option (\<lambda>_. (None, s)) (consoleExtract env e)"

definition Handle :: "watch_env \<Rightarrow> handler \<Rightarrow> WatchedEvent \<Rightarrow> watch_state \<Rightarrow> (string option \<times> watch_state) option" where
  "Handle env h e s =
     (case h of
        PolicyViolationHandler \<Rightarrow> PolicyViolationHandler_Handle env e s
      | ValidatingPolicyViolationHandler \<Rightarrow> ValidatingPolicyViolationHandler_Handle env e s
      | NamespacedValidatingAdmissionPolicyViolationHandler \<Rightarrow> NamespacedValidatingAdmissionPolicyViolationHandler_Handle env e s
      | ImageValidatingPolicyViolationHandler \<Rightarrow> ImageValidatingPolicyViolationHandler_Handle env e s
      | ValidatingAdmissionPolicyViolationHandler \<Rightarrow> ValidatingAdmissionPolicyViolationHandler_Handle env e s
      | AuditOnlyAllowedValidatingAdmissionPolicyHandler \<Rightarrow> AuditOnlyAllowedValidatingAdmissionPolicyHandler_Handle env e s
      | ClusterPolicyAuditHandler \<Rightarrow> ClusterPolicyAuditHandler_Handle env e s
      | ValidatingPolicyAuditHandler \<Rightarrow> ValidatingPolicyAuditHandler_Handle env e s
      | NamespacedValidatingPolicyAuditHandler \<Rightarrow> NamespacedValidatingPolicyAuditHandler_Handle env e s
      | ImageValidatingPolicyAuditHandler \<Rightarrow> ImageValidatingPolicyAuditHandler_Handle env e s
      | ConsoleHandler \<Rightarrow> ConsoleHandler_Handle env e s)"

lemmas handler_defs = PolicyViolationHandler_Handle_def ValidatingPolicyViolationHandler_Handle_def NamespacedValidatingAdmissionPolicyViolationHandler_Handle_def ImageValidatingPolicyViolationHandler_Handle_def ValidatingAdmissionPolicyViolationHandler_Handle_def AuditOnlyAllowedValidatingAdmissionPolicyHandler_Handle_def ClusterPolicyAuditHandler_Handle_def ValidatingPolicyAuditHandler_Handle_def NamespacedValidatingPolicyAuditHandler_Handle_def ImageValidatingPolicyAuditHandler_Handle_def ConsoleHandler_Handle_def

section \<open>Choosing the handler\<close>

type_synonym handlers = "(string \<times> handler) list"

definition Register :: "string \<Rightarrow> handler \<Rightarrow> handlers \<Rightarrow> handlers" where
  "Register name h hs = (name, h) # filter (\<lambda>(n, _). n \<noteq> name) hs"

definition registerDefaultHandlers :: "bool \<Rightarrow> handlers \<Rightarrow> handlers" where
  "registerDefaultHandlers consoleMode hs =
     fold (\<lambda>(name, h). Register name (if consoleMode then ConsoleHandler else h))
       [(KyvernoPolicyViolationPrefix, PolicyViolationHandler),
        (ValidatingPolicyViolationPrefix, ValidatingPolicyViolationHandler),
        (NamespacedValidatingPolicyViolationPrefix, NamespacedValidatingAdmissionPolicyViolationHandler),
        (ImageValidatingPolicyViolationPrefix, ImageValidatingPolicyViolationHandler),
        (ValidatingAdmissionPolicyViolationPrefix, ValidatingAdmissionPolicyViolationHandler),
        (AuditOnlyAllowedValidatingAdmissionPolicyPrefix, AuditOnlyAllowedValidatingAdmissionPolicyHandler),
        (AuditOnlyClusterPolicyViolationPrefix, ClusterPolicyAuditHandler),
        (AuditOnlyValidatingPolicyViolationPrefix, ValidatingPolicyAuditHandler),
        (AuditOnlyNamespacedValidatingPolicyViolationPrefix, NamespacedValidatingPolicyAuditHandler),
        (AuditOnlyImageValidatingPolicyViolationPrefix, ImageValidatingPolicyAuditHandler)] hs"

text \<open>Go ranges over the map of handlers in any order, the list \<open>order\<close> of its keys.\<close>

definition getHandlerName :: "string list \<Rightarrow> WatchedEvent \<Rightarrow> string" where
  "getHandlerName order e = (case find (HasPrefix (we_name e)) order of Some n \<Rightarrow> n | None \<Rightarrow> '''')"

definition GetHandler :: "handlers \<Rightarrow> string list \<Rightarrow> WatchedEvent \<Rightarrow> handler option" where
  "GetHandler hs order e = map_of hs (getHandlerName order e)"

definition watch_ProcessEvent :: "watch_env \<Rightarrow> handlers \<Rightarrow> string list \<Rightarrow> WatchedEvent \<Rightarrow> watch_state \<Rightarrow> (string option \<times> watch_state) option" where
  "watch_ProcessEvent env hs order e s =
     (case GetHandler hs order e of None \<Rightarrow> Some (None, s) | Some h \<Rightarrow> Handle env h e s)"

section \<open>Metrics, the processing loop and health\<close>

text \<open>The counters; rates and times of the metrics are only logged.\<close>

record Metrics =
  mt_eventsProcessed :: int
  mt_eventsDropped :: int
  mt_eventsInChannel :: int
  mt_channelCapacity :: int
  mt_startTime :: go_time

definition NewMetrics :: "int \<Rightarrow> go_time \<Rightarrow> Metrics" where
  "NewMetrics channelCapacity now =
     \<lparr>mt_eventsProcessed = 0, mt_eventsDropped = 0, mt_eventsInChannel = 0, mt_channelCapacity = channelCapacity, mt_startTime = now\<rparr>"

definition RecordEventProcessed :: "Metrics \<Rightarrow> Metrics" where
  "RecordEventProcessed m = m\<lparr>mt_eventsProcessed := mt_eventsProcessed m + 1\<rparr>"

definition RecordEventDropped :: "Metrics \<Rightarrow> Metrics" where
  "RecordEventDropped m = m\<lparr>mt_eventsDropped := mt_eventsDropped m + 1\<rparr>"

definition RecordEventInChannel :: "Metrics \<Rightarrow> Metrics" where
  "RecordEventInChannel m = m\<lparr>mt_eventsInChannel := mt_eventsInChannel m + 1\<rparr>"

definition RecordEventOutChannel :: "Metrics \<Rightarrow> Metrics" where
  "RecordEventOutChannel m = (if 0 < mt_eventsInChannel m then m\<lparr>mt_eventsInChannel := mt_eventsInChannel m - 1\<rparr> else m)"

definition GetChannelUtilization :: "Metrics \<Rightarrow> rat" where
  "GetChannelUtilization m =
     (if mt_channelCapacity m = -1 then 0 else if mt_channelCapacity m = 0 then 0
      else of_int (mt_eventsInChannel m) / of_int (mt_channelCapacity m) * 100)"

text \<open>The events are taken from the channel one after the other; each comes with the map order of its lookup.\<close>

fun processEvents :: "watch_env \<Rightarrow> handlers \<Rightarrow> (WatchedEvent \<times> string list) list \<Rightarrow> watch_state \<times> Metrics \<Rightarrow> (watch_state \<times> Metrics) option" where
  "processEvents env hs [] sm = Some sm"
| "processEvents env hs ((e, order) # es) (s, m) =
     (case watch_ProcessEvent env hs order e s of
        None \<Rightarrow> None
      | Some (_, s') \<Rightarrow> processEvents env hs es (s', RecordEventProcessed (RecordEventOutChannel m)))"

definition CheckHealth :: "bool \<Rightarrow> duration \<Rightarrow> go_time \<Rightarrow> Metrics \<Rightarrow> string option" where
  "CheckHealth cancelled minUptime now m =
     (if cancelled then Some ''context canceled''
      else if timeSub now (mt_startTime m) < minUptime then Some ''watcher still starting up''
      else
        let processed = mt_eventsProcessed m; dropped = mt_eventsDropped m in
        if 0 < processed \<and> 50 < (of_int dropped / of_int (processed + dropped) * 100 :: rat) then Some ''high event drop rate''
        else if 90 < GetChannelUtilization m then Some ''high channel utilization''
        else None)"

section \<open>The choice of the handler\<close>

definition defaultPrefixes :: "string list" where
  "defaultPrefixes = map fst (registerDefaultHandlers False [])"

lemmas prefix_defs = KyvernoPolicyViolationPrefix_def ValidatingPolicyViolationPrefix_def NamespacedValidatingPolicyViolationPrefix_def
  ImageValidatingPolicyViolationPrefix_def ValidatingAdmissionPolicyViolationPrefix_def AuditOnlyAllowedValidatingAdmissionPolicyPrefix_def
  AuditOnlyClusterPolicyViolationPrefix_def AuditOnlyValidatingPolicyViolationPrefix_def AuditOnlyNamespacedValidatingPolicyViolationPrefix_def
  AuditOnlyImageValidatingPolicyViolationPrefix_def

lemma defaults: "map_of (registerDefaultHandlers False []) = [
    KyvernoPolicyViolationPrefix \<mapsto> PolicyViolationHandler,
    ValidatingPolicyViolationPrefix \<mapsto> ValidatingPolicyViolationHandler,
    NamespacedValidatingPolicyViolationPrefix \<mapsto> NamespacedValidatingAdmissionPolicyViolationHandler,
    ImageValidatingPolicyViolationPrefix \<mapsto> ImageValidatingPolicyViolationHandler,
    ValidatingAdmissionPolicyViolationPrefix \<mapsto> ValidatingAdmissionPolicyViolationHandler,
    AuditOnlyAllowedValidatingAdmissionPolicyPrefix \<mapsto> AuditOnlyAllowedValidatingAdmissionPolicyHandler,
    AuditOnlyClusterPolicyViolationPrefix \<mapsto> ClusterPolicyAuditHandler,
    AuditOnlyValidatingPolicyViolationPrefix \<mapsto> ValidatingPolicyAuditHandler,
    AuditOnlyNamespacedValidatingPolicyViolationPrefix \<mapsto> NamespacedValidatingPolicyAuditHandler,
    AuditOnlyImageValidatingPolicyViolationPrefix \<mapsto> ImageValidatingPolicyAuditHandler]"
  by (simp add: registerDefaultHandlers_def Register_def prefix_defs)

lemma default_handlers:
  "map_of (registerDefaultHandlers False []) KyvernoPolicyViolationPrefix = Some PolicyViolationHandler"
  "map_of (registerDefaultHandlers False []) ValidatingPolicyViolationPrefix = Some ValidatingPolicyViolationHandler"
  "map_of (registerDefaultHandlers False []) NamespacedValidatingPolicyViolationPrefix = Some NamespacedValidatingAdmissionPolicyViolationHandler"
  "map_of (registerDefaultHandlers False []) ImageValidatingPolicyViolationPrefix = Some ImageValidatingPolicyViolationHandler"
  "map_of (registerDefaultHandlers False []) ValidatingAdmissionPolicyViolationPrefix = Some ValidatingAdmissionPolicyViolationHandler"
  "map_of (registerDefaultHandlers False []) AuditOnlyAllowedValidatingAdmissionPolicyPrefix = Some AuditOnlyAllowedValidatingAdmissionPolicyHandler"
  "map_of (registerDefaultHandlers False []) AuditOnlyClusterPolicyViolationPrefix = Some ClusterPolicyAuditHandler"
  "map_of (registerDefaultHandlers False []) AuditOnlyValidatingPolicyViolationPrefix = Some ValidatingPolicyAuditHandler"
  "map_of (registerDefaultHandlers False []) AuditOnlyNamespacedValidatingPolicyViolationPrefix = Some NamespacedValidatingPolicyAuditHandler"
  "map_of (registerDefaultHandlers False []) AuditOnlyImageValidatingPolicyViolationPrefix = Some ImageValidatingPolicyAuditHandler"
  unfolding defaults by (simp_all add: prefix_defs)

text \<open>No prefix is the beginning of another one.\<close>

lemma prefixes_prefix_free:
  "list_all (\<lambda>p. list_all (\<lambda>q. HasPrefix p q \<longrightarrow> p = q) defaultPrefixes) defaultPrefixes"
  by code_simp

lemma HasPrefix_append_cases: "HasPrefix (p @ r) q \<Longrightarrow> HasPrefix p q \<or> HasPrefix q p"
  by (auto simp: HasPrefix_iff append_eq_append_conv2)

lemma routed:
  assumes "we_name e = dashed p a b c" and "p \<in> set defaultPrefixes" and "set order = set defaultPrefixes"
  shows "GetHandler (registerDefaultHandlers False []) order e = map_of (registerDefaultHandlers False []) p"
proof -
  have only: "q = p" if "q \<in> set order" "HasPrefix (we_name e) q" for q
  proof -
    have "HasPrefix p q \<or> HasPrefix q p" using that(2) HasPrefix_append_cases [of p "''-'' @ a @ ''-'' @ b @ ''-'' @ c" q] assms(1)
      by (simp add: dashed_def)
    then show ?thesis using prefixes_prefix_free that(1) assms(2,3) by (auto simp: list_all_iff)
  qed
  have "HasPrefix (we_name e) p" using assms(1) by (simp add: dashed_def)
  then have "find (HasPrefix (we_name e)) order \<noteq> None" using assms(2,3) by (auto simp: find_None_iff)
  then obtain q where "find (HasPrefix (we_name e)) order = Some q" by blast
  moreover from this have "q = p" using only by (auto simp: find_Some_iff)
  ultimately show ?thesis by (simp add: GetHandler_def getHandlerName_def)
qed

section \<open>Properties\<close>

lemma blocked_message_nonempty: "isBlockedViolation e \<Longrightarrow> ae_message e \<noteq> []"
  by (auto simp: isBlockedViolation_def IsKyvernoPolicyViolation_def IsValidatingPolicyViolation_def
      IsNamespacedValidatingPolicyViolation_def IsImageValidatingPolicyViolation_def IsValidatingAdmissionPolicyViolation_def)

text \<open>What reaches the channel for a blocked violation.\<close>

lemma processLogEvent_blocked:
  assumes "processLogEvent env cache now room (Some e) = Some (Some w)" and "isBlockedViolation e"
  obtains pfx pols resource namespace name where "blockedKind env e = Some (pfx, pols)"
    "we_name w = dashed pfx resource name (ae_auditID e)" "we_uid w = ae_auditID e" "we_blocked w"
    "dataMessage w = Inr (ae_message e)"
proof -
  obtain v where v: "CreateBlockedPolicyViolationEvent env e = Some (Some v)"
      "snd (CreateBlockedWatchedEventFromPolicyViolationEvent env now room (Some v)) = Some w"
    using assms by (auto simp: processLogEvent_def split: if_splits option.splits)
  have w: "w = blockedWatchedEvent env now v"
    using v(2) by (simp add: CreateBlockedWatchedEventFromPolicyViolationEvent_def split: if_splits)
  obtain resource namespace name pfx pols where k: "blockedKind env e = Some (pfx, pols)"
      "pv_name v = dashed pfx resource name (ae_auditID e)" "pv_auditID v = ae_auditID e" "pv_message v = ae_message e"
    using v(1) assms(2) by (auto simp: CreateBlockedPolicyViolationEvent_def split: option.splits)
  show thesis
    using k blocked_message_nonempty [OF assms(2)]
    by (intro that [of pfx pols resource name]) (simp_all add: w blockedWatchedEvent_def Let_def dataMessage_def)
qed

lemma blockedKind_prefix: "blockedKind env e = Some (pfx, pols) \<Longrightarrow> pfx \<in> set defaultPrefixes"
proof -
  have "set defaultPrefixes = dom (map_of (registerDefaultHandlers False []))"
    by (simp add: defaultPrefixes_def dom_map_of_conv_image_fst)
  then show "blockedKind env e = Some (pfx, pols) \<Longrightarrow> pfx \<in> set defaultPrefixes"
    unfolding defaults by (auto simp: blockedKind_def Let_def split: if_splits)
qed

text \<open>The handler that is registered for a kind of blocked violation extracts the same policies as the producer did.\<close>

lemma handler_sends_kind:
  assumes "blockedKind env e = Some (pfx, pols)" and "isBlockedViolation e"
    and "dataMessage w = Inr (ae_message e)" and "we_blocked w" and "we_uid w \<notin> set (wa_cache s)"
    and "wn_answer env (wa_tick s) = HttpStatus 200"
  shows "\<exists>h resourceType s'. map_of (registerDefaultHandlers False []) pfx = Some h \<and>
    Handle env h w s = Some (None, s') \<and> wa_sent s' = wa_sent s @ [violationOf w resourceType pols (ae_message e)]"
proof -
  have send: "\<exists>s'. SendToInsights env (violationOf w rt pols (ae_message e)) s = (None, s') \<and>
      wa_sent s' = wa_sent s @ [violationOf w rt pols (ae_message e)]" for rt
    using assms(5,6) by (simp add: SendToInsights_def violationOf_def Let_def)
  have blocked: "pe_blocked (violationOf w rt pols m)" for rt m using assms(4) by (simp add: violationOf_def)
  have handle: "\<exists>s'. sendExtracted env what b (fromMessage ex rt w) s = Some (None, s') \<and>
      wa_sent s' = wa_sent s @ [violationOf w rt pols (ae_message e)]" if "ex (ae_message e) = Some pols" for what b ex rt
    using that send [of rt] blocked assms(3) by (auto simp: sendExtracted_def fromMessage_def)
  note handlers = Handle_def handler_defs extractPolicyViolation_def extractValidatingPolicyViolation_def
        extractNamespacedValidatingAdmissionPolicyViolation_def extractImageValidatingPolicyViolation_def
        extractValidatingAdmissionPolicyViolation_def
  consider "pfx = KyvernoPolicyViolationPrefix" "Some (ExtractPoliciesFromMessage (wn_yaml env) (ae_message e)) = Some pols"
    | "pfx = ValidatingPolicyViolationPrefix" "ExtractValidatingPoliciesFromMessage (ae_message e) = Some pols"
    | "pfx = NamespacedValidatingPolicyViolationPrefix" "ExtractNamespacedValidatingPoliciesFromMessage (ae_message e) = Some pols"
    | "pfx = ImageValidatingPolicyViolationPrefix" "ExtractImageValidatingPoliciesFromMessage (ae_message e) = Some pols"
    | "pfx = ValidatingAdmissionPolicyViolationPrefix" "ExtractValidatingAdmissionPoliciesFromMessage (ae_message e) = Some pols"
    using assms(1) by (auto simp: blockedKind_def Let_def split: if_splits)
  then show ?thesis
  proof cases
    case 1
    show ?thesis using handle [of "\<lambda>m. Some (ExtractPoliciesFromMessage (wn_yaml env) m)", OF 1(2)] unfolding 1(1) default_handlers by (simp add: handlers) blast
  next
    case 2
    show ?thesis using handle [of ExtractValidatingPoliciesFromMessage, OF 2(2)] unfolding 2(1) default_handlers by (simp add: handlers) blast
  next
    case 3
    show ?thesis using handle [of ExtractNamespacedValidatingPoliciesFromMessage, OF 3(2)] unfolding 3(1) default_handlers by (simp add: handlers) blast
  next
    case 4
    show ?thesis using handle [of ExtractImageValidatingPoliciesFromMessage, OF 4(2)] unfolding 4(1) default_handlers by (simp add: handlers) blast
  next
    case 5
    show ?thesis using handle [of ExtractValidatingAdmissionPoliciesFromMessage, OF 5(2)] unfolding 5(1) default_handlers by (simp add: handlers) blast
  qed
qed

text \<open>
  C15: A blocked request reaches Insights. An audit event of a blocked violation that was put into the channel is handled, in whatever order
  the handlers are tried, by the one for its kind of policy; if Insights answers with status 200 and the audit
  event was not sent before, exactly one violation is sent, under the audit ID, marked as blocked, with the message of the response and the policies
  that the message names.
\<close>
theorem blocked_violation_reported:
  assumes "processLogEvent env cache now room (Some e) = Some (Some w)" and "isBlockedViolation e"
    and "set order = set defaultPrefixes" and "ae_auditID e \<notin> set (wa_cache s)" and "wn_answer env (wa_tick s) = HttpStatus 200"
  shows "\<exists>v s' pfx. watch_ProcessEvent env (registerDefaultHandlers False []) order w s = Some (None, s') \<and>
    wa_sent s' = wa_sent s @ [v] \<and> pe_uid v = ae_auditID e \<and> pe_blocked v \<and> pe_message v = ae_message e \<and>
    blockedKind env e = Some (pfx, pe_policies v)"
proof -
  obtain pfx pols resource name where w: "blockedKind env e = Some (pfx, pols)"
    "we_name w = dashed pfx resource name (ae_auditID e)" "we_uid w = ae_auditID e" "we_blocked w" "dataMessage w = Inr (ae_message e)"
    using processLogEvent_blocked [OF assms(1,2)] by metis
  have "GetHandler (registerDefaultHandlers False []) order w = map_of (registerDefaultHandlers False []) pfx"
    using routed [OF w(2) blockedKind_prefix [OF w(1)] assms(3)] .
  moreover obtain h rt s' where "map_of (registerDefaultHandlers False []) pfx = Some h" "Handle env h w s = Some (None, s')"
      "wa_sent s' = wa_sent s @ [violationOf w rt pols (ae_message e)]"
    using handler_sends_kind [OF w(1) assms(2) w(5,4), of s] assms(4,5) unfolding w(3) by auto
  ultimately show ?thesis using w by (auto simp: watch_ProcessEvent_def violationOf_def)
qed

text \<open>One step of the processing loop sends at most one violation, and only one whose identifier is not cached.\<close>

definition sendsFresh :: "watch_env \<Rightarrow> watch_state \<Rightarrow> watch_state \<Rightarrow> bool" where
  "sendsFresh env s s' \<longleftrightarrow> (wa_sent s' = wa_sent s \<and> wa_cache s' = wa_cache s) \<or>
     (\<exists>v. pe_uid v \<notin> set (wa_cache s) \<and> wa_sent s' = wa_sent s @ [v] \<and>
        wa_cache s' = (if wn_cacheSet env (wa_tick s) then pe_uid v # wa_cache s else wa_cache s))"

lemma sendsFresh_refl [simp]: "sendsFresh env s s"
  by (simp add: sendsFresh_def)






text \<open>
  Of the audit-only violations of one object only the first is reported. The producer asks the cache for a key made of the policy and
  the event, which nothing stores; the sender stores and asks for the identifier of the violating object. After one violation of
  an object was sent, the event of any other policy's violation of the same object is handled without an error and without
  being sent.
\<close>
theorem second_violation_of_object_suppressed:
  assumes "auditOnlyPrefix e = Some pfx" and "kv_related e = Some obj" and "kr_uid obj \<in> set (wa_cache s)"
    and "set order = set defaultPrefixes" and "bracketRule (kr_name (kv_involvedObject e)) (kv_message e) \<noteq> None"
  shows "watch_ProcessEvent env (registerDefaultHandlers False []) order (kubeWatchedEvent env pfx e) s = Some (None, s)"
proof -
  let ?w = "kubeWatchedEvent env pfx e"
  have w: "we_name ?w = dashed pfx (kr_kind obj) (kr_name obj) (kv_uid e)"
    using assms(2) by (simp add: kubeWatchedEvent_def Let_def)
  have audit: "auditHandle env what bracketRule (kubeWatchedEvent env p e) s = Some (None, s)" for what p
    using assms(2,3,5) by (auto simp: kubeWatchedEvent_def auditHandle_def SendToInsights_def violationOf_def Let_def split: option.splits)
  have pfx: "pfx = AuditOnlyClusterPolicyViolationPrefix \<or> pfx = AuditOnlyValidatingPolicyViolationPrefix \<or>
      pfx = AuditOnlyNamespacedValidatingPolicyViolationPrefix \<or> pfx = AuditOnlyImageValidatingPolicyViolationPrefix"
    using assms(1) by (auto simp: auditOnlyPrefix_def split: if_splits)
  then have "pfx \<in> dom (map_of (registerDefaultHandlers False []))" using default_handlers by auto
  then have "pfx \<in> set defaultPrefixes" by (simp add: defaultPrefixes_def dom_map_of_conv_image_fst)
  note route = routed [OF w this assms(4)]
  from pfx show ?thesis
    unfolding watch_ProcessEvent_def route
    by (elim disjE) (simp_all add: default_handlers Handle_def handler_defs audit ExtractAuditOnlyClusterPoliciesFromMessage_def
        ExtractAuditOnlyValidatingPoliciesFromMessage_def ExtractAuditOnlyNamespacedValidatingPoliciesFromMessage_def
        ExtractAuditOnlyImageValidatingPoliciesFromMessage_def)
qed

text \<open>
  The time of a blocked violation is lost exactly if it is known. A violation with a time is reported with the time of its processing,
  and one without keeps the zero time.
\<close>
theorem violation_time_replaced:
  "we_timestamp (blockedWatchedEvent env now v) =
     (if isZeroTime (pv_timestamp v) then unixSeconds (pv_timestamp v) else unixSeconds now)"
  by (simp add: blockedWatchedEvent_def Let_def)

text \<open>
  In console mode every blocked violation crashes the program: the events that the producers make have no policy result in their
  metadata, on which the console handler insists.
\<close>
theorem console_handler_panics:
  assumes "processLogEvent env cache now room (Some e) = Some (Some w)" and "isBlockedViolation e"
  shows "Handle env ConsoleHandler w s = None"
proof -
  obtain v where v: "CreateBlockedPolicyViolationEvent env e = Some (Some v)"
      "snd (CreateBlockedWatchedEventFromPolicyViolationEvent env now room (Some v)) = Some w"
    using assms by (auto simp: processLogEvent_def split: if_splits option.splits)
  then have w: "w = blockedWatchedEvent env now v"
    by (simp add: CreateBlockedWatchedEventFromPolicyViolationEvent_def split: if_splits)
  have "dataMessage w = Inr (ae_message e)" using processLogEvent_blocked [OF assms] by metis
  moreover have "map_of (the (we_metadata w)) ''policyResult'' = None" "we_metadata w \<noteq> None"
    by (simp_all add: w blockedWatchedEvent_def Let_def)
  ultimately show ?thesis by (auto simp: Handle_def handler_defs consoleExtract_def split: option.splits)
qed

text \<open>
  The health check cannot see lost events. After any run of the processing loop the check succeeds once the start-up time has passed,
  whatever was dropped and however full the channel is: no event that is dropped or put into the channel is ever counted.
\<close>
theorem health_check_blind:
  assumes "processEvents env hs es (s, NewMetrics capacity start) = Some (s', m)" and "minUptime \<le> timeSub now start"
  shows "CheckHealth False minUptime now m = None"
proof -
  have kept: "processEvents env hs es (s, m0) = Some (s', m) \<Longrightarrow> mt_eventsDropped m0 = 0 \<Longrightarrow> mt_eventsInChannel m0 = 0 \<Longrightarrow>
      mt_eventsDropped m = 0 \<and> mt_eventsInChannel m = 0 \<and> mt_startTime m = mt_startTime m0" for m0
  proof (induction es arbitrary: s m0)
    case (Cons eo es)
    then show ?case by (cases eo) (auto simp: RecordEventProcessed_def RecordEventOutChannel_def split: option.splits)
  qed simp
  have "mt_eventsDropped m = 0 \<and> mt_eventsInChannel m = 0 \<and> mt_startTime m = start"
    using kept [OF assms(1)] by (simp add: NewMetrics_def)
  then show ?thesis using assms(2) by (simp add: CheckHealth_def GetChannelUtilization_def)
qed

section \<open>Witnesses\<close>

definition demo_watch :: watch_env where
  "demo_watch = \<lparr>wn_yaml = (\<lambda>s. Some []), wn_rfc3339 = (\<lambda>t. ''t''), wn_rfc3339UTC = (\<lambda>t. ''t''), wn_answer = (\<lambda>n. HttpStatus 200), wn_cacheSet = (\<lambda>n. True)\<rparr>"

definition demo_audit :: AuditEvent where
  "demo_audit = \<lparr>ae_auditID = ''id1'', ae_username = ''u'',
     ae_objectRef = \<lparr>ob_resource = ''pods'', ob_namespace = ''prod'', ob_name = ''web'', ob_uid = ''x'', ob_apiGroup = '''', ob_apiVersion = ''v1''\<rparr>,
     ae_code = 400, ae_status = ''Failure'',
     ae_message = ''webhook '' @ dq @ ''vpol.validate.kyverno.svc'' @ dq @ '' denied the request: Policy labels failed: no label'',
     ae_annotations = [], ae_requestReceived = 5, ae_stageTimestamp = 6\<rparr>"

definition demo_watched :: WatchedEvent where
  "demo_watched = the (the (processLogEvent demo_watch [] 9 True (Some demo_audit)))"

definition demo_watch_state :: watch_state where
  "demo_watch_state = \<lparr>wa_cache = [], wa_sent = [], wa_tick = 0\<rparr>"

lemma demo_audit_facts:
  "processLogEvent demo_watch [] 9 True (Some demo_audit) = Some (Some demo_watched)" "isBlockedViolation demo_audit"
  "map_option snd (blockedKind demo_watch demo_audit) = Some (onePolicy ''labels'' (ae_message demo_audit))"
  by code_simp+

theorem blocked_violation_reported_witness:
  "\<exists>v s'. watch_ProcessEvent demo_watch (registerDefaultHandlers False []) defaultPrefixes demo_watched demo_watch_state = Some (None, s') \<and>
     wa_sent s' = [v] \<and> pe_uid v = ''id1'' \<and> pe_policies v = onePolicy ''labels'' (ae_message demo_audit)"
proof -
  have "\<exists>v s' pfx. watch_ProcessEvent demo_watch (registerDefaultHandlers False []) defaultPrefixes demo_watched demo_watch_state = Some (None, s') \<and>
    wa_sent s' = wa_sent demo_watch_state @ [v] \<and> pe_uid v = ae_auditID demo_audit \<and> pe_blocked v \<and> pe_message v = ae_message demo_audit \<and>
    blockedKind demo_watch demo_audit = Some (pfx, pe_policies v)"
    by (rule blocked_violation_reported [OF demo_audit_facts(1,2) refl]) (simp_all add: demo_watch_state_def demo_watch_def)
  then show ?thesis using demo_audit_facts(3) by (auto simp: demo_watch_state_def demo_audit_def)
qed


definition demo_kube_event :: "string \<Rightarrow> kubeEvent" where
  "demo_kube_event policy = \<lparr>kv_involvedObject = \<lparr>kr_kind = ''ClusterPolicy'', kr_namespace = '''', kr_name = policy, kr_uid = ''p''\<rparr>,
     kv_related = Some \<lparr>kr_kind = ''Pod'', kr_namespace = ''prod'', kr_name = ''web'', kr_uid = ''o1''\<rparr>, kv_reason = ''PolicyViolation'',
     kv_action = ''Resource Passed'', kv_message = ''Pod prod/web: [rule] fail'', kv_uid = policy, kv_eventTime = 1, kv_creation = 1, kv_shared = [], kv_more = []\<rparr>"

definition demo_after_first :: watch_state where
  "demo_after_first = snd (the (watch_ProcessEvent demo_watch (registerDefaultHandlers False []) defaultPrefixes
      (kubeWatchedEvent demo_watch AuditOnlyClusterPolicyViolationPrefix (demo_kube_event ''labels'')) demo_watch_state))"

theorem second_violation_of_object_suppressed_witness:
  "length (wa_sent demo_after_first) = 1 \<and>
   \<not> IsPolicyViolationAlreadyProcessed (wa_cache demo_after_first) (kubeEventKey (demo_kube_event ''limits'')) \<and>
   watch_ProcessEvent demo_watch (registerDefaultHandlers False []) defaultPrefixes
      (kubeWatchedEvent demo_watch AuditOnlyClusterPolicyViolationPrefix (demo_kube_event ''limits'')) demo_after_first = Some (None, demo_after_first)"
proof -
  have s1: "wa_cache demo_after_first = [''o1'']" "length (wa_sent demo_after_first) = 1" by code_simp+
  have "watch_ProcessEvent demo_watch (registerDefaultHandlers False []) defaultPrefixes
      (kubeWatchedEvent demo_watch AuditOnlyClusterPolicyViolationPrefix (demo_kube_event ''limits'')) demo_after_first = Some (None, demo_after_first)"
  proof (rule second_violation_of_object_suppressed [where obj = "\<lparr>kr_kind = ''Pod'', kr_namespace = ''prod'', kr_name = ''web'', kr_uid = ''o1''\<rparr>"])
    show "auditOnlyPrefix (demo_kube_event ''limits'') = Some AuditOnlyClusterPolicyViolationPrefix" by code_simp
    show "bracketRule (kr_name (kv_involvedObject (demo_kube_event ''limits''))) (kv_message (demo_kube_event ''limits'')) \<noteq> None" by code_simp
  qed (simp_all add: s1 demo_kube_event_def)
  moreover have "kubeEventKey (demo_kube_event ''limits'') \<noteq> ''o1''" by code_simp
  ultimately show ?thesis using s1 by (simp add: IsPolicyViolationAlreadyProcessed_def)
qed

theorem console_handler_panics_witness: "Handle demo_watch ConsoleHandler demo_watched demo_watch_state = None"
  by (rule console_handler_panics [OF demo_audit_facts(1,2)])

theorem health_check_blind_witness:
  "\<exists>s' m. processEvents demo_watch (registerDefaultHandlers False []) [(demo_watched, defaultPrefixes)] (demo_watch_state, NewMetrics 1 0) = Some (s', m) \<and>
     CheckHealth False 5 100 m = None"
proof -
  have "processEvents demo_watch (registerDefaultHandlers False []) [(demo_watched, defaultPrefixes)] (demo_watch_state, NewMetrics 1 0) \<noteq> None"
    by code_simp
  then obtain s' m where r: "processEvents demo_watch (registerDefaultHandlers False []) [(demo_watched, defaultPrefixes)] (demo_watch_state, NewMetrics 1 0) = Some (s', m)"
    by auto
  have "CheckHealth False 5 100 m = None" by (rule health_check_blind [OF r]) code_simp
  with r show ?thesis by blast
qed

end
