(* ===== verification/Watch_Sources.thy ===== *)
theory Watch_Sources
  imports Watch_Pipeline
begin

text \<open>
  The sources of the event-watcher: reading CloudWatch with its retries (\<^verbatim>\<open>pkg/producers/cloudwatch_handler.go\<close>), and the
  configuration, creation and management of the sources (\<^verbatim>\<open>pkg/watcher\<close>). The answers of CloudWatch are
  functions of the attempt; whether the context is cancelled while a retry waits is one of the answers.
\<close>

section \<open>Retries\<close>

definition isRetryableError :: "string \<Rightarrow> bool" where
  "isRetryableError errStr \<longleftrightarrow>
     list_ex (Contains errStr) [''timeout'', ''connection'', ''network'', ''dial''] \<or>
     list_ex (Contains errStr) [''ThrottlingException'', ''ServiceUnavailable'', ''InternalServerError'', ''TooManyRequestsException''] \<or>
     list_ex (Contains errStr) [''rate limit'', ''RateExceeded'']"

text \<open>
  The loop of both retrying functions: at most \<open>maxRetries\<close> calls, numbered from 1; between two calls the context may be
  cancelled. The second component counts the calls.
\<close>

function retryFrom :: "(nat \<Rightarrow> string + 'a) \<Rightarrow> (nat \<Rightarrow> string option) \<Rightarrow> string \<Rightarrow> nat \<Rightarrow> nat \<Rightarrow> (string + 'a) \<times> nat" where
  "retryFrom call cancelled what maxRetries attempt =
     (if maxRetries < attempt then (Inl (''failed to '' @ what @ '' after '' @ showNat maxRetries @ '' attempts''), 0)
      else case call attempt of
        Inr r \<Rightarrow> (Inr r, 1)
      | Inl err \<Rightarrow>
          if \<not> isRetryableError err then (Inl (''non-retryable error: '' @ err), 1)
          else if attempt < maxRetries then
            (case cancelled attempt of
               Some ctxErr \<Rightarrow> (Inl ctxErr, 1)
             | None \<Rightarrow> (case retryFrom call cancelled what maxRetries (Suc attempt) of (r, n) \<Rightarrow> (r, Suc n)))
          else (case retryFrom call cancelled what maxRetries (Suc attempt) of (r, n) \<Rightarrow> (r, Suc n)))"
  by auto
termination by (relation "measure (\<lambda>(_, _, _, mx, a). Suc mx - a)") auto

declare retryFrom.simps [simp del]

definition getLogStreamsWithRetry :: "(nat \<Rightarrow> string + 'a) \<Rightarrow> (nat \<Rightarrow> string option) \<Rightarrow> (string + 'a) \<times> nat" where
  "getLogStreamsWithRetry call cancelled = retryFrom call cancelled ''get log streams'' 3 1"

definition processLogStreamWithRetry :: "(nat \<Rightarrow> string + 'a) \<Rightarrow> (nat \<Rightarrow> string option) \<Rightarrow> (string + 'a) \<times> nat" where
  "processLogStreamWithRetry call cancelled = retryFrom call cancelled ''process log stream'' 2 1"

section \<open>Log streams\<close>

record logStream =
  ls_name :: string
  ls_lastIngestionTime :: "int option"

text \<open>
  The messages of a stream: those that match the filter in the whole log group when a filter is configured,
  and those of the stream otherwise. Each message is an audit event or not JSON, with the channel's state and the time.
\<close>

record cloudwatch =
  cw_filterPattern :: string
  cw_getLogEvents :: "logStream \<Rightarrow> nat \<Rightarrow> string + (AuditEvent option \<times> go_time \<times> bool) list"
  cw_filterLogEvents :: "nat \<Rightarrow> string + (AuditEvent option \<times> go_time \<times> bool) list"

fun processMessages :: "watch_env \<Rightarrow> string list \<Rightarrow> (AuditEvent option \<times> go_time \<times> bool) list \<Rightarrow> WatchedEvent list option" where
  "processMessages env cache [] = Some []"
| "processMessages env cache ((parsed, now, room) # ms) =
     (case processLogEvent env cache now room parsed of
        None \<Rightarrow> None
      | Some out \<Rightarrow> map_option (\<lambda>es. (case out of None \<Rightarrow> [] | Some w \<Rightarrow> [w]) @ es) (processMessages env cache ms))"

definition processLogStream :: "cloudwatch \<Rightarrow> watch_env \<Rightarrow> string list \<Rightarrow> logStream \<Rightarrow> nat \<Rightarrow> string + WatchedEvent list option" where
  "processLogStream cw env cache stream attempt =
     (if ls_lastIngestionTime stream = None then Inr (Some [])
      else if cw_filterPattern cw \<noteq> '''' then
        (case cw_filterLogEvents cw attempt of
           Inl err \<Rightarrow> Inl (''failed to filter log events: '' @ err)
         | Inr ms \<Rightarrow> Inr (processMessages env cache ms))
      else
        (case cw_getLogEvents cw stream attempt of
           Inl err \<Rightarrow> Inl (''failed to get log events: '' @ err)
         | Inr ms \<Rightarrow> Inr (processMessages env cache ms)))"

text \<open>One poll: a stream that fails for good is only logged; a panic ends the program.\<close>

fun processStreams :: "cloudwatch \<Rightarrow> watch_env \<Rightarrow> string list \<Rightarrow> (nat \<Rightarrow> string option) \<Rightarrow> logStream list \<Rightarrow> WatchedEvent list option" where
  "processStreams cw env cache cancelled [] = Some []"
| "processStreams cw env cache cancelled (st # sts) =
     (case fst (processLogStreamWithRetry (processLogStream cw env cache st) cancelled) of
        Inl err \<Rightarrow> processStreams cw env cache cancelled sts
      | Inr None \<Rightarrow> None
      | Inr (Some es) \<Rightarrow> map_option ((@) es) (processStreams cw env cache cancelled sts))"

definition processLogEvents :: "cloudwatch \<Rightarrow> watch_env \<Rightarrow> string list \<Rightarrow> (nat \<Rightarrow> string option) \<Rightarrow> (nat \<Rightarrow> string + logStream list) \<Rightarrow>
    (string + WatchedEvent list) option" where
  "processLogEvents cw env cache cancelled getLogStreams =
     (case fst (getLogStreamsWithRetry getLogStreams cancelled) of
        Inl err \<Rightarrow> Some (Inl (''failed to get log streams after retries: '' @ err))
      | Inr streams \<Rightarrow> map_option Inr (processStreams cw env cache cancelled streams))"

section \<open>Configuration of the sources\<close>

datatype EventSourceType = AuditLogSource | CloudWatchSource | KubernetesEventsSource

record EventSourceConfig =
  es_type :: EventSourceType
  es_hasKubeClient :: bool
  es_auditLogPath :: string
  es_cloudWatch :: "cloudwatch option"
  es_pollInterval :: string

record EventSource =
  so_name :: string
  so_enabled :: bool

text \<open>\<open>awsConfig\<close> is the error of loading the AWS configuration.\<close>

definition createAuditLogEventSource :: "EventSourceConfig \<Rightarrow> string + EventSource" where
  "createAuditLogEventSource c =
     (if es_auditLogPath c = '''' then Inl ''audit log path is required for audit log event source''
      else if \<not> es_hasKubeClient c then Inl ''kubernetes client is required for audit log event source''
      else Inr \<lparr>so_name = ''audit-log'', so_enabled = (es_auditLogPath c \<noteq> '''')\<rparr>)"

definition createCloudWatchEventSource :: "string option \<Rightarrow> EventSourceConfig \<Rightarrow> string + EventSource" where
  "createCloudWatchEventSource awsConfig c =
     (if es_cloudWatch c = None then Inl ''cloudwatch config is required for cloudwatch event source''
      else case awsConfig of
        Some err \<Rightarrow> Inl (''failed to create AWS config: '' @ err)
      | None \<Rightarrow> Inr \<lparr>so_name = ''cloudwatch'', so_enabled = True\<rparr>)"

definition createKubernetesEventSource :: "EventSourceConfig \<Rightarrow> string + EventSource" where
  "createKubernetesEventSource c =
     (if \<not> es_hasKubeClient c then Inl ''kubernetes client is required for kubernetes event source''
      else if es_pollInterval c = '''' then Inl ''event poll interval is required for kubernetes event source''
      else Inr \<lparr>so_name = ''kubernetes-events'', so_enabled = True\<rparr>)"

definition CreateEventSource :: "string option \<Rightarrow> EventSourceConfig \<Rightarrow> string + EventSource" where
  "CreateEventSource awsConfig c =
     (case es_type c of
        AuditLogSource \<Rightarrow> createAuditLogEventSource c
      | CloudWatchSource \<Rightarrow> createCloudWatchEventSource awsConfig c
      | KubernetesEventsSource \<Rightarrow> createKubernetesEventSource c)"

definition typeName :: "EventSourceType \<Rightarrow> string" where
  "typeName t = (case t of AuditLogSource \<Rightarrow> ''audit-log'' | CloudWatchSource \<Rightarrow> ''cloudwatch'' | KubernetesEventsSource \<Rightarrow> ''kubernetes-events'')"

text \<open>The sources that could be created and the errors of the others; any error makes the whole an error.\<close>

definition CreateEventSources :: "string option \<Rightarrow> EventSourceConfig list \<Rightarrow> EventSource list \<times> string list" where
  "CreateEventSources awsConfig configs =
     (List.map_filter (\<lambda>c. case CreateEventSource awsConfig c of Inr s \<Rightarrow> Some s | Inl _ \<Rightarrow> None) configs,
      List.map_filter (\<lambda>c. case CreateEventSource awsConfig c of
          Inl err \<Rightarrow> Some (''failed to create '' @ typeName (es_type c) @ '' event source: '' @ err) | Inr _ \<Rightarrow> None) configs)"

definition BuildEventSourceConfigs :: "bool \<Rightarrow> string \<Rightarrow> string \<Rightarrow> string \<Rightarrow> cloudwatch option \<Rightarrow> EventSourceConfig list" where
  "BuildEventSourceConfigs kubeClient logSource auditLogPath pollInterval cw =
     (let base = (\<lambda>t. \<lparr>es_type = t, es_hasKubeClient = kubeClient, es_auditLogPath = '''', es_cloudWatch = None, es_pollInterval = pollInterval\<rparr>) in
      (if auditLogPath \<noteq> '''' then [(base AuditLogSource)\<lparr>es_auditLogPath := auditLogPath\<rparr>] else []) @
      (if logSource = ''cloudwatch'' \<and> cw \<noteq> None then [(base CloudWatchSource)\<lparr>es_cloudWatch := cw\<rparr>] else []) @
      [base KubernetesEventsSource])"

text \<open>The sources of a new watcher, by name: the source at an index gets the type of the configuration at the same index.\<close>

definition watcherSources :: "string option \<Rightarrow> EventSourceConfig list \<Rightarrow> string list + (string \<times> EventSource) list" where
  "watcherSources awsConfig configs =
     (case CreateEventSources awsConfig configs of
        (sources, errors) \<Rightarrow>
          if errors \<noteq> [] then Inl errors else Inr (zip (map (typeName \<circ> es_type) configs) sources))"

definition StartAll :: "(string \<times> EventSource) list \<Rightarrow> string list" where
  "StartAll sources = map fst (filter (so_enabled \<circ> snd) sources)"

section \<open>Properties\<close>

lemma retryFrom_calls: "snd (retryFrom call cancelled what mx a) \<le> Suc mx - a"
proof (induction call cancelled what mx a rule: retryFrom.induct)
  case (1 call cancelled what mx a)
  show ?case
    using 1 by (subst retryFrom.simps) (auto split: sum.splits option.splits prod.splits)
qed

text \<open>
  CloudWatch is asked at most three times for the streams and twice for the events of a stream, and an attempt that succeeds or
  fails for another reason than a retryable one is the last.
\<close>
theorem retries_bounded:
  "snd (getLogStreamsWithRetry call cancelled) \<le> 3 \<and> snd (processLogStreamWithRetry call cancelled) \<le> 2 \<and>
   ((\<forall>err. call 1 = Inl err \<longrightarrow> \<not> isRetryableError err) \<longrightarrow> snd (getLogStreamsWithRetry call cancelled) = 1)"
  using retryFrom_calls [of call cancelled "''get log streams''" 3 1] retryFrom_calls [of call cancelled "''process log stream''" 2 1]
  by (auto simp: getLogStreamsWithRetry_def processLogStreamWithRetry_def retryFrom.simps [of call cancelled _ 3 "Suc 0"] split: sum.splits)

theorem retries_bounded_witness:
  "snd (getLogStreamsWithRetry (\<lambda>n. if n < 3 then Inl ''dial timeout'' else Inr n) (\<lambda>n. None)) \<le> 3 \<and>
   fst (getLogStreamsWithRetry (\<lambda>n. if n < 3 then Inl ''dial timeout'' else Inr n) (\<lambda>n. None)) = Inr 3"
proof -
  have "fst (getLogStreamsWithRetry (\<lambda>n. if n < 3 then Inl ''dial timeout'' else Inr n) (\<lambda>n. None)) = Inr (3 :: nat)"
    by (simp add: getLogStreamsWithRetry_def retryFrom.simps isRetryableError_def HasPrefix_def)
  then show ?thesis using retries_bounded [of "\<lambda>n. if n < 3 then Inl ''dial timeout'' else Inr n" "\<lambda>n. None"] by simp
qed

text \<open>
  The sources of a watcher are those that the options ask for. With a Kubernetes client, a poll interval and, for CloudWatch, a loadable AWS
  configuration, every configured source is created and started, under the name of its own kind: the audit log if a path is given,
  CloudWatch if it is the log source and configured, and always the Kubernetes events.
\<close>
theorem configured_sources_start:
  assumes "pollInterval \<noteq> ''''" and "logSource = ''cloudwatch'' \<and> cw \<noteq> None \<longrightarrow> awsConfig = None"
  shows "\<exists>sources. watcherSources awsConfig (BuildEventSourceConfigs True logSource auditLogPath pollInterval cw) = Inr sources \<and>
    list_all (\<lambda>(name, s). so_name s = name) sources \<and>
    StartAll sources = (if auditLogPath \<noteq> '''' then [''audit-log''] else []) @
      (if logSource = ''cloudwatch'' \<and> cw \<noteq> None then [''cloudwatch''] else []) @ [''kubernetes-events'']"
  using assms
  by (cases "auditLogPath = ''''"; cases "logSource = ''cloudwatch'' \<and> cw \<noteq> None")
    (auto simp: watcherSources_def CreateEventSources_def BuildEventSourceConfigs_def CreateEventSource_def StartAll_def typeName_def
      createAuditLogEventSource_def createCloudWatchEventSource_def createKubernetesEventSource_def map_filter_simps Let_def)

theorem configured_sources_start_witness:
  "\<exists>sources. watcherSources (Some ''no region'') (BuildEventSourceConfigs True ''local'' ''/var/log/audit.log'' ''15s'' None) = Inr sources \<and>
    StartAll sources = [''audit-log'', ''kubernetes-events'']"
  using configured_sources_start [of "''15s''" "''local''" None "Some ''no region''" "''/var/log/audit.log''"] by auto

end
