(* ===== verification/Prom_Queries.thy ===== *)
theory Prom_Queries
  imports Go_Float
begin

text \<open>
  What the prometheus plugin asks Prometheus (\<^verbatim>\<open>prometheus/pkg/data/prometheus.go\<close>): the texts of the queries, the
  treatment of the answers, the rescaling of the network counters, the GPU exporters and the labels of GKE's system metrics.

  A label set is a map from names to values, a missing label reads as the empty text. \<^verbatim>\<open>QueryRange\<close> is the argument \<open>api\<close>: what it
  answers to a query over the range of the run, an error or a value. Its warnings are only logged.
\<close>

section \<open>Samples\<close>

type_synonym metric = "string \<rightharpoonup> string"

record SamplePair =
  sa_timestamp :: int
  sa_value :: float64

record SampleStream =
  mx_metric :: metric
  mx_values :: "SamplePair list"

type_synonym matrix = "SampleStream list"

datatype query_value = Matrix matrix | OtherValue

type_synonym prom_api = "string \<Rightarrow> string + query_value"

definition label :: "SampleStream \<Rightarrow> string \<Rightarrow> string" where
  "label s k = getOr '''' (mx_metric s) k"

text \<open>The unchecked type assertion on an answer panics, \<^const>\<open>None\<close>, if it is no matrix.\<close>

definition matrixOf :: "string + query_value \<Rightarrow> (string + matrix) option" where
  "matrixOf answer =
     (case answer of
        Inl err \<Rightarrow> Some (Inl err)
      | Inr (Matrix m) \<Rightarrow> Some (Inr m)
      | Inr OtherValue \<Rightarrow> None)"

section \<open>The queries\<close>

definition clusterFilter :: "string \<Rightarrow> string" where
  \<open>clusterFilter clusterName = (if clusterName \<noteq> '''' then '', cluster="'' @ clusterName @ ''"'' else '''')\<close>

definition clusterCompleteFilter :: "string \<Rightarrow> string" where
  \<open>clusterCompleteFilter clusterName = (if clusterName \<noteq> '''' then ''{cluster="'' @ clusterName @ ''"}'' else '''')\<close>

definition getMemory :: "prom_api \<Rightarrow> string \<Rightarrow> (string + matrix) option" where
  \<open>getMemory api clusterName = matrixOf (api (''container_memory_usage_bytes{image!="", container!="POD", container!=""'' @ clusterFilter clusterName @ ''}''))\<close>

definition getMemoryRequests :: "prom_api \<Rightarrow> string \<Rightarrow> (string + matrix) option" where
  \<open>getMemoryRequests api clusterName = matrixOf (api (''kube_pod_container_resource_requests{container!="POD", container!="", unit="byte", resource="memory"'' @ clusterFilter clusterName @ ''}''))\<close>

definition getCPURequests :: "prom_api \<Rightarrow> string \<Rightarrow> (string + matrix) option" where
  \<open>getCPURequests api clusterName = matrixOf (api (''kube_pod_container_resource_requests{container!="POD", container!="", unit="core", resource="cpu"'' @ clusterFilter clusterName @ ''}''))\<close>

definition getMemoryLimits :: "prom_api \<Rightarrow> string \<Rightarrow> (string + matrix) option" where
  \<open>getMemoryLimits api clusterName = matrixOf (api (''kube_pod_container_resource_limits{container!="POD", container!="", unit="byte", resource="memory"'' @ clusterFilter clusterName @ ''}''))\<close>

definition getCPULimits :: "prom_api \<Rightarrow> string \<Rightarrow> (string + matrix) option" where
  \<open>getCPULimits api clusterName = matrixOf (api (''kube_pod_container_resource_limits{container!="POD", container!="", unit="core", resource="cpu"'' @ clusterFilter clusterName @ ''}''))\<close>

definition getCPU :: "prom_api \<Rightarrow> string \<Rightarrow> (string + matrix) option" where
  \<open>getCPU api clusterName = matrixOf (api (''rate(container_cpu_usage_seconds_total{image!="", container!="POD", container!=""'' @ clusterFilter clusterName @ ''}[2m])''))\<close>

definition gpuResourcePattern :: string where
  "gpuResourcePattern = ''nvidia_com_gpu|nvidia_com_gpu_shared|k8s_amazonaws_com_vgpu|amd_com_gpu|intel_com_gpu|habana_ai_gaudi|google_com_tpu''"

definition getGPURequests :: "prom_api \<Rightarrow> string \<Rightarrow> (string + matrix) option" where
  \<open>getGPURequests api clusterName = matrixOf (api (''kube_pod_container_resource_requests{container!="POD", container!="", resource=~"'' @ gpuResourcePattern @ ''"'' @ clusterFilter clusterName @ ''}''))\<close>

definition getGPULimits :: "prom_api \<Rightarrow> string \<Rightarrow> (string + matrix) option" where
  \<open>getGPULimits api clusterName = matrixOf (api (''kube_pod_container_resource_limits{container!="POD", container!="", resource=~"'' @ gpuResourcePattern @ ''"'' @ clusterFilter clusterName @ ''}''))\<close>

definition queryPrometheus :: "prom_api \<Rightarrow> string \<Rightarrow> (string + matrix) option" where
  "queryPrometheus api query = (if query = '''' then Some (Inl ''query cannot be empty'') else matrixOf (api query))"

text \<open>The increase over some minutes is brought to 30 seconds.\<close>

definition to30s :: "nat \<Rightarrow> SampleStream \<Rightarrow> SampleStream" where
  "to30s minutes s = s\<lparr>mx_values := map (\<lambda>v. v\<lparr>sa_value := fdiv (sa_value v) (of_nat (2 * minutes))\<rparr>) (mx_values s)\<rparr>"

definition get30sIncreaseMetric :: "prom_api \<Rightarrow> string \<Rightarrow> nat \<Rightarrow> string \<Rightarrow> (string + matrix) option" where
  \<open>get30sIncreaseMetric api name minutes clusterName =
     (case queryPrometheus api (''increase('' @ name @ ''{interface="eth0"'' @ clusterFilter clusterName @ ''}['' @ showNat minutes @ ''m])'') of
        None \<Rightarrow> None
      | Some (Inl err) \<Rightarrow> Some (Inl err)
      | Some (Inr values) \<Rightarrow> Some (Inr (map (to30s minutes) values)))\<close>

definition getNetworkReceiveBytesFor30s :: "prom_api \<Rightarrow> nat \<Rightarrow> string \<Rightarrow> (string + matrix) option" where
  "getNetworkReceiveBytesFor30s api minutes clusterName =
     get30sIncreaseMetric api ''container_network_receive_bytes_total'' minutes clusterName"

definition getNetworkTransmitBytesFor30s :: "prom_api \<Rightarrow> nat \<Rightarrow> string \<Rightarrow> (string + matrix) option" where
  "getNetworkTransmitBytesFor30s api minutes clusterName =
     get30sIncreaseMetric api ''container_network_transmit_bytes_total'' minutes clusterName"

definition getNodesIdleMemory :: "prom_api \<Rightarrow> string \<Rightarrow> (string + matrix) option" where
  \<open>getNodesIdleMemory api clusterName =
     queryPrometheus api (''100 * ((SUM(avg_over_time(node_memory_MemAvailable_bytes'' @ clusterCompleteFilter clusterName @ ''[60m])) / SUM(avg_over_time(node_memory_MemTotal_bytes'' @ clusterCompleteFilter clusterName @ ''[60m]))))'')\<close>

definition getNodesIdleCPU :: "prom_api \<Rightarrow> string \<Rightarrow> (string + matrix) option" where
  \<open>getNodesIdleCPU api clusterName =
     queryPrometheus api (''avg(rate(node_cpu_seconds_total{mode="idle", mode!="iowait", mode!="steal"'' @ clusterFilter clusterName @ ''}[5m])) * 100'')\<close>

definition getNodesOverheadCPU :: "prom_api \<Rightarrow> string \<Rightarrow> (string + matrix) option" where
  \<open>getNodesOverheadCPU api clusterName =
     queryPrometheus api (''
		100 * (
			(1 - avg(rate(node_cpu_seconds_total{mode="idle", mode!="iowait", mode!="steal"'' @ clusterFilter clusterName @ ''}[5m]))) * SUM(machine_cpu_cores'' @ clusterCompleteFilter clusterName @ '') 
			- SUM(rate(container_cpu_usage_seconds_total{image!="", container!="POD", container!=""'' @ clusterFilter clusterName @ ''}[10m]))
			) 
		/ SUM(machine_cpu_cores'' @ clusterCompleteFilter clusterName @ '')'')\<close>

definition getNodesOverheadMemory :: "prom_api \<Rightarrow> string \<Rightarrow> (string + matrix) option" where
  \<open>getNodesOverheadMemory api clusterName =
     queryPrometheus api (''
		100 * 
		(
			(1 - (SUM(avg_over_time(node_memory_MemAvailable_bytes'' @ clusterCompleteFilter clusterName @ ''[10m])) / SUM(avg_over_time(node_memory_MemTotal_bytes'' @ clusterCompleteFilter clusterName @ ''[10m])))) * SUM(machine_memory_bytes'' @ clusterCompleteFilter clusterName @ '')
			- SUM(container_memory_usage_bytes{image!="", container!="POD", container!=""'' @ clusterFilter clusterName @ ''})
		)
		/ SUM(machine_memory_bytes'' @ clusterCompleteFilter clusterName @ '')'')\<close>

section \<open>GPU exporters\<close>

text \<open>
  The templates have \<^verbatim>\<open>%s\<close> where the cluster filter goes, and \<^verbatim>\<open>strings.ReplaceAll\<close> puts it there at every place.
\<close>

fun replaceVerb :: "string \<Rightarrow> string \<Rightarrow> string" where
  "replaceVerb (x # y # s) by' = (if x = CHR ''%'' \<and> y = CHR ''s'' then by' @ replaceVerb s by' else x # replaceVerb (y # s) by')"
| "replaceVerb s by' = s"

definition gpuUtilizationQueries :: "(string \<times> string) list" where
  \<open>gpuUtilizationQueries =
    [(''nvidia'', ''(
  avg by (namespace, pod) (
    label_replace(
      label_replace(
        avg_over_time(DCGM_FI_DEV_GPU_UTIL{exported_namespace=~".+", exported_pod=~".+"%s}[2m]),
        "namespace", "$1", "exported_namespace", "(.+)"
      ),
      "pod", "$1", "exported_pod", "(.+)"
    )
  )
or
  avg by (namespace, pod) (
    avg_over_time(DCGM_FI_DEV_GPU_UTIL{namespace!="", pod!="", exported_namespace="", exported_pod=""%s}[2m])
  )
) / 100''),
     (''amd'', ''avg by (namespace, pod) (GPU_GFX_ACTIVITY{namespace!="", pod!=""%s}) / 100''),
     (''intel'', ''avg by (namespace, pod) (intel_gpu_engine_render_active{namespace!="", pod!=""%s})''),
     (''habana'', ''avg by (namespace, pod) (hl_utilization{namespace!="", pod!=""%s}) / 100'')]\<close>

text \<open>An exporter that answers with an error is passed over.\<close>

fun gpuUsageOf :: "prom_api \<Rightarrow> string \<Rightarrow> (string \<times> string) list \<Rightarrow> matrix option" where
  "gpuUsageOf api filter' [] = Some []"
| "gpuUsageOf api filter' ((vendor, template) # qs) =
     (case queryPrometheus api (replaceVerb template filter') of
        None \<Rightarrow> None
      | Some (Inl err) \<Rightarrow> gpuUsageOf api filter' qs
      | Some (Inr values) \<Rightarrow> map_option (\<lambda>rest. values @ rest) (gpuUsageOf api filter' qs))"

definition getGPUUsage :: "prom_api \<Rightarrow> string \<Rightarrow> (string + matrix) option" where
  "getGPUUsage api clusterName = map_option Inr (gpuUsageOf api (clusterFilter clusterName) gpuUtilizationQueries)"

section \<open>GKE system metrics\<close>

definition gkeSystemMetricsPrefix :: string where
  "gkeSystemMetricsPrefix = ''kubernetes_io:container_''"

definition validateClusterNameForPromQL :: "string \<Rightarrow> string option" where
  "validateClusterNameForPromQL clusterName =
     (if \<exists>c \<in> set clusterName. c \<in> {CHR 0x22, CHR 0x5C, CHR 0x0A, CHR 0x0D}
      then Some ''cluster name contains unsafe character for PromQL'' else None)"

definition queryGKEContainerMetric :: "prom_api \<Rightarrow> string \<Rightarrow> string \<Rightarrow> bool \<Rightarrow> string + matrix" where
  \<open>queryGKEContainerMetric api clusterName metricName sumByContainer =
     (if clusterName = '''' then Inl ''cluster name required for GKE system metrics query''
      else case validateClusterNameForPromQL clusterName of
        Some err \<Rightarrow> Inl err
      | None \<Rightarrow>
        let selector = gkeSystemMetricsPrefix @ metricName @ ''{monitored_resource="k8s_container", cluster_name="'' @ clusterName @ ''"}'';
            query = (if sumByContainer then ''sum by (namespace_name, pod_name, container_name) ('' @ selector @ '')'' else selector) in
        (case api query of
           Inl err \<Rightarrow> Inl err
         | Inr (Matrix m) \<Rightarrow> Inr m
         | Inr OtherValue \<Rightarrow> Inl ''expected Matrix from QueryRange''))\<close>

text \<open>The label with the suffix \<^verbatim>\<open>_name\<close> wins over the short one.\<close>

definition normLabel :: "string \<Rightarrow> metric \<Rightarrow> metric \<Rightarrow> metric" where
  "normLabel k m out =
     (case m (k @ ''_name'') of
        Some v \<Rightarrow> out(k \<mapsto> v)
      | None \<Rightarrow> (case m k of Some v \<Rightarrow> out(k \<mapsto> v) | None \<Rightarrow> out))"

definition normalizeGKEStream :: "SampleStream \<Rightarrow> SampleStream" where
  "normalizeGKEStream s =
     (let m = mx_metric s in
      s\<lparr>mx_metric := normLabel ''container'' m (normLabel ''pod'' m (normLabel ''namespace'' m m))\<rparr>)"

definition normalizeGKEContainerMatrix :: "matrix \<Rightarrow> matrix" where
  "normalizeGKEContainerMatrix m = map normalizeGKEStream m"

definition getMemoryRequestsGKE :: "prom_api \<Rightarrow> string \<Rightarrow> string + matrix" where
  "getMemoryRequestsGKE api clusterName =
     (case queryGKEContainerMetric api clusterName ''memory_request_bytes'' False of Inl err \<Rightarrow> Inl err | Inr m \<Rightarrow> Inr (normalizeGKEContainerMatrix m))"

definition getMemoryLimitsGKE :: "prom_api \<Rightarrow> string \<Rightarrow> string + matrix" where
  "getMemoryLimitsGKE api clusterName =
     (case queryGKEContainerMetric api clusterName ''memory_limit_bytes'' False of Inl err \<Rightarrow> Inl err | Inr m \<Rightarrow> Inr (normalizeGKEContainerMatrix m))"

definition getCPURequestsGKE :: "prom_api \<Rightarrow> string \<Rightarrow> string + matrix" where
  "getCPURequestsGKE api clusterName =
     (case queryGKEContainerMetric api clusterName ''cpu_request_cores'' False of Inl err \<Rightarrow> Inl err | Inr m \<Rightarrow> Inr (normalizeGKEContainerMatrix m))"

definition getCPULimitsGKE :: "prom_api \<Rightarrow> string \<Rightarrow> string + matrix" where
  "getCPULimitsGKE api clusterName =
     (case queryGKEContainerMetric api clusterName ''cpu_limit_cores'' False of Inl err \<Rightarrow> Inl err | Inr m \<Rightarrow> Inr (normalizeGKEContainerMatrix m))"

definition getGPURequestsGKE :: "prom_api \<Rightarrow> string \<Rightarrow> string + matrix" where
  "getGPURequestsGKE api clusterName =
     (case queryGKEContainerMetric api clusterName ''accelerator_request'' True of Inl err \<Rightarrow> Inl err | Inr m \<Rightarrow> Inr (normalizeGKEContainerMatrix m))"

definition getGPULimitsGKE :: "prom_api \<Rightarrow> string \<Rightarrow> string + matrix" where
  "getGPULimitsGKE api clusterName =
     (case queryGKEContainerMetric api clusterName ''accelerator_request'' True of Inl err \<Rightarrow> Inl err | Inr m \<Rightarrow> Inr (normalizeGKEContainerMatrix m))"

lemma normLabel_apply:
  "normLabel k m out x = (if x = k then (case m (k @ ''_name'') of Some v \<Rightarrow> Some v | None \<Rightarrow> (case m k of Some v \<Rightarrow> Some v | None \<Rightarrow> out x)) else out x)"
  by (simp add: normLabel_def split: option.splits)

lemma label_normalized:
  "label (normalizeGKEStream s) ''namespace'' = (case mx_metric s ''namespace_name'' of Some v \<Rightarrow> v | None \<Rightarrow> label s ''namespace'')"
  "label (normalizeGKEStream s) ''pod'' = (case mx_metric s ''pod_name'' of Some v \<Rightarrow> v | None \<Rightarrow> label s ''pod'')"
  "label (normalizeGKEStream s) ''container'' = (case mx_metric s ''container_name'' of Some v \<Rightarrow> v | None \<Rightarrow> label s ''container'')"
  by (auto simp: label_def normalizeGKEStream_def normLabel_apply getOr_def Let_def split: option.split)

end
