(* ===== verification/Prom_Storage.thy ===== *)
theory Prom_Storage
  imports Prom_Queries
begin

text \<open>
  The storage metrics of the prometheus plugin (\<^verbatim>\<open>prometheus/pkg/models/persistentvolumeclaim.go\<close>): the claims of the
  cluster, the pods that refer to them, and the samples made of their capacities.

  The code keeps pointers to claims and changes them in place; here the claim found by name is replaced in the list. What the cluster
  holds for a claim is what \<^verbatim>\<open>NestedString\<close> answers for its name and its capacity: an error, nothing, or a text.
  \<^verbatim>\<open>resource.ParseQuantity\<close> and \<^verbatim>\<open>AsInt64\<close> of the Kubernetes libraries are the argument \<open>parse\<close>.
\<close>

record persistentVolumeClaim =
  vc_name :: string
  vc_capacity :: int
  vc_refs :: "string list"

record StorageInfo =
  si_pvcs :: "persistentVolumeClaim list"
  si_totalCapacityPerPod :: "string \<rightharpoonup> int"

record unstructuredPVC =
  uv_name :: "string + string option"
  uv_capacity :: "string + string option"

type_synonym quantity_parser = "string \<Rightarrow> string + int option"

section \<open>Claims and references\<close>

definition numRefs :: "persistentVolumeClaim \<Rightarrow> nat" where
  "numRefs pvc = length (vc_refs pvc)"

definition capacityString2Int :: "quantity_parser \<Rightarrow> string \<Rightarrow> string + int" where
  "capacityString2Int parse capacityStr =
     (case parse capacityStr of
        Inl err \<Rightarrow> Inl (''unable to convert the capacity string '' @ capacityStr @ '' to a resource.Quantity: '' @ err)
      | Inr None \<Rightarrow> Inl (''unable to get the integer form of a capacity '' @ capacityStr)
      | Inr (Some n) \<Rightarrow> Inr n)"

definition claimOf :: "quantity_parser \<Rightarrow> unstructuredPVC \<Rightarrow> persistentVolumeClaim option" where
  "claimOf parse u =
     (case uv_name u of
        Inr (Some name) \<Rightarrow>
          if name = '''' then None
          else (case uv_capacity u of
             Inr (Some cap) \<Rightarrow>
               (case capacityString2Int parse cap of
                  Inl err \<Rightarrow> None
                | Inr n \<Rightarrow> Some \<lparr>vc_name = name, vc_capacity = n, vc_refs = []\<rparr>)
           | _ \<Rightarrow> None)
      | _ \<Rightarrow> None)"

definition NewStorageInfoFromUnstructuredPVCs :: "quantity_parser \<Rightarrow> unstructuredPVC list \<Rightarrow> StorageInfo" where
  "NewStorageInfoFromUnstructuredPVCs parse us =
     \<lparr>si_pvcs = List.map_filter (claimOf parse) us, si_totalCapacityPerPod = Map.empty\<rparr>"

definition NewStorageInfoFromCluster :: "quantity_parser \<Rightarrow> string + unstructuredPVC list \<Rightarrow> string + StorageInfo" where
  "NewStorageInfoFromCluster parse answer =
     (case answer of Inl err \<Rightarrow> Inl err | Inr us \<Rightarrow> Inr (NewStorageInfoFromUnstructuredPVCs parse us))"

definition NumPVCs :: "StorageInfo \<Rightarrow> nat" where
  "NumPVCs s = length (si_pvcs s)"

definition PVCByName :: "string \<Rightarrow> StorageInfo \<Rightarrow> persistentVolumeClaim option" where
  "PVCByName name s = find (\<lambda>p. vc_name p = name) (si_pvcs s)"

fun addRefTo :: "string \<Rightarrow> string \<Rightarrow> persistentVolumeClaim list \<Rightarrow> persistentVolumeClaim list" where
  "addRefTo name podKey [] = []"
| "addRefTo name podKey (p # ps) =
     (if vc_name p = name then p\<lparr>vc_refs := vc_refs p @ [podKey]\<rparr> # ps else p # addRefTo name podKey ps)"

definition AddPVCRef :: "string \<Rightarrow> string \<Rightarrow> StorageInfo \<Rightarrow> StorageInfo" where
  "AddPVCRef name podKey s =
     (if NumPVCs s = 0 then s
      else if name = '''' \<or> podKey = '''' then s
      else case PVCByName name s of
        None \<Rightarrow> s
      | Some p \<Rightarrow>
          s\<lparr>si_pvcs := addRefTo name podKey (si_pvcs s),
            si_totalCapacityPerPod := (si_totalCapacityPerPod s)
              (podKey \<mapsto> wrap64 (getOr 0 (si_totalCapacityPerPod s) podKey + vc_capacity p))\<rparr>)"

section \<open>Metrics\<close>

record prom_range =
  rg_start :: go_time
  rg_end :: go_time
  rg_step :: duration

text \<open>\<^verbatim>\<open>Duration.Seconds\<close> is the whole seconds plus the remaining nanoseconds, in floating point.\<close>

definition Seconds :: "duration \<Rightarrow> float64" where
  "Seconds d = fadd (fl (of_int (sgn d * (\<bar>d\<bar> div Second)))) (fdiv (fl (of_int (sgn d * (\<bar>d\<bar> mod Second)))) (of_int Second))"

definition fquot :: "float64 \<Rightarrow> float64 \<Rightarrow> float64" where
  "fquot a b = (case b of
        Finite r \<Rightarrow> fdiv a r
      | Infinite _ \<Rightarrow> (case a of Finite _ \<Rightarrow> Finite 0 | _ \<Rightarrow> NaN)
      | NaN \<Rightarrow> NaN)"

text \<open>\<^verbatim>\<open>UnixMilli\<close> rounds down to milliseconds.\<close>

definition UnixMilli :: "go_time \<Rightarrow> int" where
  "UnixMilli t = t div 1000000"

text \<open>A negative number of steps makes \<^verbatim>\<open>make\<close> panic.\<close>

definition useThisValueForEveryStepInRange :: "(float64 \<Rightarrow> int) \<Rightarrow> float64 \<Rightarrow> prom_range \<Rightarrow> SamplePair list option" where
  "useThisValueForEveryStepInRange other v r =
     (let n = int64_of other (fquot (Seconds (timeSub (rg_end r) (rg_start r))) (Seconds (rg_step r))) in
      if n < 0 then None
      else Some (map (\<lambda>i. \<lparr>sa_timestamp = UnixMilli (rg_start r + int i * rg_step r), sa_value = v\<rparr>) [0..<nat n]))"

fun storageSamples :: "(float64 \<Rightarrow> int) \<Rightarrow> prom_range \<Rightarrow> (string \<rightharpoonup> int) \<Rightarrow> string list \<Rightarrow> matrix option" where
  "storageSamples other r totals [] = Some []"
| "storageSamples other r totals (ref # refs) =
     (case splitByte (CHR ''/'') ref of
        namespace # pod # _ \<Rightarrow>
          (let refMetricValue = int64_of other (fl (of_int (getOr 0 totals ref))) in
           (case useThisValueForEveryStepInRange other (fl (of_int refMetricValue)) r of
              None \<Rightarrow> None
            | Some vs \<Rightarrow> map_option (\<lambda>rest. \<lparr>mx_metric = [''namespace'' \<mapsto> namespace, ''pod'' \<mapsto> pod], mx_values = vs\<rparr> # rest)
                (storageSamples other r totals refs)))
      | _ \<Rightarrow> storageSamples other r totals refs)"

definition ManufactureMetrics :: "(float64 \<Rightarrow> int) \<Rightarrow> prom_range \<Rightarrow> StorageInfo \<Rightarrow> matrix option" where
  "ManufactureMetrics other r s = storageSamples other r (si_totalCapacityPerPod s) (concat (map vc_refs (si_pvcs s)))"

section \<open>The totals\<close>

text \<open>What the references of a pod add up to.\<close>

definition capacityOf :: "string \<Rightarrow> persistentVolumeClaim list \<Rightarrow> int" where
  "capacityOf podKey ps = (\<Sum>p\<leftarrow>ps. vc_capacity p * int (count_list (vc_refs p) podKey))"

definition storage_ok :: "StorageInfo \<Rightarrow> bool" where
  "storage_ok s \<longleftrightarrow> (\<forall>podKey. getOr 0 (si_totalCapacityPerPod s) podKey = wrap64 (capacityOf podKey (si_pvcs s)))"

lemma wrap64_add: "wrap64 (wrap64 a + b) = wrap64 (a + b)"
  by (simp add: wrap64_def algebra_simps mod_simps)

lemma capacityOf_addRef:
  "capacityOf k (addRefTo name podKey ps) =
     capacityOf k ps + (if k = podKey then (case find (\<lambda>p. vc_name p = name) ps of None \<Rightarrow> 0 | Some p \<Rightarrow> vc_capacity p) else 0)"
  by (induction ps) (auto simp: capacityOf_def algebra_simps)

lemma AddPVCRef_ok:
  assumes "storage_ok s"
  shows "storage_ok (AddPVCRef name podKey s)"
proof (cases "NumPVCs s = 0 \<or> name = '''' \<or> podKey = '''' \<or> PVCByName name s = None")
  case False
  then obtain p where "PVCByName name s = Some p" by auto
  with False assms show ?thesis
    by (auto simp: AddPVCRef_def storage_ok_def capacityOf_addRef PVCByName_def getOr_def wrap64_add split: option.splits)
qed (use assms in \<open>auto simp: AddPVCRef_def\<close>)

lemma NewStorageInfo_ok: "storage_ok (NewStorageInfoFromUnstructuredPVCs parse us)"
proof -
  have "capacityOf k (List.map_filter (claimOf parse) us) = 0" for k
    by (induction us) (auto simp: capacityOf_def map_filter_simps claimOf_def split: option.splits sum.splits if_splits)
  then show ?thesis by (simp add: storage_ok_def NewStorageInfoFromUnstructuredPVCs_def getOr_def wrap64_def)
qed

lemma addPVCRefs_ok: "storage_ok s \<Longrightarrow> storage_ok (fold (\<lambda>(name, podKey). AddPVCRef name podKey) refs s)"
  by (induction refs arbitrary: s) (auto simp: AddPVCRef_ok)

lemma addRefTo_nth:
  "i < j \<Longrightarrow> j < length ps \<Longrightarrow> vc_name (ps ! i) = vc_name (ps ! j) \<Longrightarrow> addRefTo name podKey ps ! j = ps ! j"
proof (induction ps arbitrary: i j)
  case (Cons p ps)
  then obtain j' where j: "j = Suc j'" by (cases j) auto
  show ?case
  proof (cases "vc_name p = name")
    case False
    show ?thesis
    proof (cases i)
      case 0
      have "addRefTo name podKey ps ! j' = ps ! j'" if "vc_name (ps ! j') \<noteq> name" for j'
        using that by (induction ps arbitrary: j') (auto simp: nth_Cons split: nat.split)
      then show ?thesis using False Cons.prems 0 j by simp
    next
      case (Suc i')
      then show ?thesis using False Cons j by simp
    qed
  qed (simp add: j)
qed simp

lemma addRefTo_shape [simp]:
  "length (addRefTo name podKey ps) = length ps"
  "map vc_name (addRefTo name podKey ps) = map vc_name ps"
  "map vc_capacity (addRefTo name podKey ps) = map vc_capacity ps"
  by (induction ps) auto

text \<open>
  A pod's storage is the sum of its claims. After any references were added, the total of every pod is the sum of
  the capacities of the claims that list the pod, once per reference, as a 64-bit integer.
\<close>
theorem storage_totals:
  "storage_ok (fold (\<lambda>(name, podKey). AddPVCRef name podKey) refs (NewStorageInfoFromUnstructuredPVCs parse us))"
  by (rule addPVCRefs_ok [OF NewStorageInfo_ok])

text \<open>
  Claims are told apart by their names alone. If a claim of one namespace comes before a claim of the same name in another
  namespace, the second one never gets a reference, whatever references are added: its pods are given the capacity of the first.
\<close>
theorem same_name_claim_shadowed:
  assumes "i < j" "j < length (si_pvcs s)" "vc_name (si_pvcs s ! i) = vc_name (si_pvcs s ! j)"
  shows "si_pvcs (fold (\<lambda>(name, podKey). AddPVCRef name podKey) refs s) ! j = si_pvcs s ! j"
  using assms
proof (induction refs arbitrary: s)
  case (Cons ref refs)
  obtain name podKey where ref: "ref = (name, podKey)" by force
  let ?s = "AddPVCRef name podKey s"
  have names: "map vc_name (si_pvcs ?s) = map vc_name (si_pvcs s)" by (simp add: AddPVCRef_def split: option.splits)
  then have len: "length (si_pvcs ?s) = length (si_pvcs s)" by (metis length_map)
  have nm: "k < length (si_pvcs s) \<Longrightarrow> vc_name (si_pvcs ?s ! k) = vc_name (si_pvcs s ! k)" for k
    using names len by (metis nth_map)
  have "si_pvcs ?s ! j = si_pvcs s ! j"
    using Cons.prems addRefTo_nth [OF Cons.prems] by (simp add: AddPVCRef_def split: option.splits)
  then show ?case using Cons.IH [of ?s] Cons.prems len nm [of i] nm [of j] by (simp add: ref)
qed simp

theorem same_name_claim_shadowed_witness:
  "let s = fold (\<lambda>(name, podKey). AddPVCRef name podKey) [(''data'', ''b/db-0'')]
        \<lparr>si_pvcs = [\<lparr>vc_name = ''data'', vc_capacity = 10, vc_refs = []\<rparr>, \<lparr>vc_name = ''data'', vc_capacity = 99, vc_refs = []\<rparr>],
          si_totalCapacityPerPod = Map.empty\<rparr>
   in vc_refs (si_pvcs s ! 1) = [] \<and> si_totalCapacityPerPod s ''b/db-0'' = Some 10"
  using same_name_claim_shadowed [of 0 1 "\<lparr>si_pvcs = [\<lparr>vc_name = ''data'', vc_capacity = 10, vc_refs = []\<rparr>, \<lparr>vc_name = ''data'', vc_capacity = 99, vc_refs = []\<rparr>],
          si_totalCapacityPerPod = Map.empty\<rparr>" "[(''data'', ''b/db-0'')]"]
  by (simp add: AddPVCRef_def NumPVCs_def PVCByName_def getOr_def wrap64_def Let_def)

end
