(* ===== verification/Prom_Metrics.thy ===== *)
theory Prom_Metrics
  imports Prom_Storage
begin

text \<open>
  The prometheus plugin from the answers of Prometheus to its statistics (\<^verbatim>\<open>prometheus/pkg/data/data.go\<close>,
  \<^verbatim>\<open>calculate.go\<close>, \<^verbatim>\<open>types.go\<close>): metrics of pods are split among their containers, everything known of a container is
  combined under the key of its namespace, pod and name, its owner is found, and the samples become statistics.

  The environment is a record: the answers of Prometheus (those to the last queries of a run, for the GPU limits, apart, as one query is
  sent twice), of Kubernetes, of the clock, the parsing of URLs and of quantities, and the conversion of floats out of the range of
  \<^verbatim>\<open>int64\<close>. A map is iterated in an order that is an argument. A panic is \<^const>\<open>None\<close>.
\<close>

section \<open>Owners\<close>

record Owner =
  ow_Container :: string
  ow_PodName :: string
  ow_ControllerNamespace :: string
  ow_ControllerName :: string
  ow_ControllerKind :: string

text \<open>A pod with the claims of its volumes, a volume without a claim being \<^const>\<open>None\<close>; if the pod cannot be decoded there is no list.\<close>

record prom_pod =
  pq_namespace :: string
  pq_name :: string
  pq_volumes :: "string option list option"

text \<open>A workload: its top controller, its pods, the names of the containers in its pod template.\<close>

record prom_workload =
  wo_kind :: string
  wo_namespace :: string
  wo_name :: string
  wo_pods :: "prom_pod list"
  wo_containers :: "string list"

fun controllerLoop :: "prom_workload list \<Rightarrow> string \<Rightarrow> string \<Rightarrow> string \<times> string \<Rightarrow> nat \<Rightarrow> string \<times> string" where
  "controllerLoop [] podName namespace best prefixMatchLength = best"
| "controllerLoop (w # ws) podName namespace best prefixMatchLength =
     (if wo_namespace w \<noteq> namespace then controllerLoop ws podName namespace best prefixMatchLength
      else if \<exists>pod \<in> set (wo_pods w). pq_name pod = podName then (wo_name w, wo_kind w)
      else if HasPrefix podName (wo_name w) \<and> prefixMatchLength < length (wo_name w)
        then controllerLoop ws podName namespace (wo_name w, wo_kind w) (length (wo_name w))
      else controllerLoop ws podName namespace best prefixMatchLength)"

definition getController :: "prom_workload list \<Rightarrow> string \<Rightarrow> string \<Rightarrow> string \<times> string" where
  "getController workloads podName namespace = controllerLoop workloads podName namespace (podName, ''Pod'') 0"

definition getKey :: "SampleStream \<Rightarrow> string" where
  "getKey s = label s ''namespace'' @ ''/'' @ label s ''pod'' @ ''/'' @ label s ''container''"

definition getOwner :: "SampleStream \<Rightarrow> Owner" where
  "getOwner s = \<lparr>ow_Container = label s ''container'', ow_PodName = label s ''pod'', ow_ControllerNamespace = label s ''namespace'',
     ow_ControllerName = '''', ow_ControllerKind = ''''\<rparr>"

section \<open>Averages\<close>

definition averageSampleValues :: "SamplePair list \<Rightarrow> float64" where
  "averageSampleValues vs =
     (if vs = [] then Finite 0 else fdiv (fold (\<lambda>v sum. fadd sum (sa_value v)) vs (Finite 0)) (of_nat (length vs)))"

section \<open>Splitting a pod's metrics\<close>

text \<open>A value divided among \<open>n\<close> containers: the share of the first and that of every other one.\<close>

definition splitValue :: "nat \<Rightarrow> float64 \<Rightarrow> float64 \<times> float64" where
  "splitValue n v =
     (let remainder = fmod v (of_nat n); equalSplit = ffloor (fdiv v (of_nat n)) in
      (if fless (Finite 0) remainder then fadd equalSplit remainder else equalSplit, equalSplit))"

definition forContainer :: "string \<Rightarrow> SampleStream \<Rightarrow> SampleStream" where
  "forContainer c s = s\<lparr>mx_metric := (mx_metric s)(''container'' \<mapsto> c)\<rparr>"

definition splitSample :: "string list \<Rightarrow> SampleStream \<Rightarrow> matrix option" where
  "splitSample podContainers s =
     (case podContainers of
        [] \<Rightarrow> None
      | [c] \<Rightarrow> Some [forContainer c s]
      | c # cs \<Rightarrow>
          let n = length podContainers;
              share = (\<lambda>sel. map (\<lambda>v. v\<lparr>sa_value := sel (splitValue n (sa_value v))\<rparr>) (mx_values s)) in
          Some ((forContainer c s)\<lparr>mx_values := share fst\<rparr> #
            map (\<lambda>c'. (forContainer c' s)\<lparr>mx_values := share snd\<rparr>) cs))"

definition podKeyOf :: "SampleStream \<Rightarrow> string" where
  "podKeyOf s = label s ''namespace'' @ ''/'' @ label s ''pod''"

fun adjustMetricsForMultiContainerPods :: "matrix \<Rightarrow> (string \<rightharpoonup> prom_workload) \<Rightarrow> matrix option" where
  "adjustMetricsForMultiContainerPods [] workloadMap = Some []"
| "adjustMetricsForMultiContainerPods (s # ms) workloadMap =
     (case workloadMap (podKeyOf s) of
        None \<Rightarrow> adjustMetricsForMultiContainerPods ms workloadMap
      | Some w \<Rightarrow>
          (case splitSample (wo_containers w) s of
             None \<Rightarrow> None
           | Some new \<Rightarrow> map_option (\<lambda>rest. new @ rest) (adjustMetricsForMultiContainerPods ms workloadMap)))"

section \<open>Combining\<close>

record CombinedRequest =
  cq_owner :: Owner
  cq_cpu :: "SamplePair list"
  cq_memory :: "SamplePair list"
  cq_memoryRequest :: float64
  cq_cpuRequest :: float64
  cq_memoryLimit :: float64
  cq_cpuLimit :: float64
  cq_networkTransmit :: "SamplePair list"
  cq_networkReceive :: "SamplePair list"
  cq_storageCapacity :: "SamplePair list"
  cq_gpu :: "SamplePair list"
  cq_gpuRequest :: float64
  cq_gpuLimit :: float64

definition emptyOwner :: Owner where
  "emptyOwner = \<lparr>ow_Container = '''', ow_PodName = '''', ow_ControllerNamespace = '''', ow_ControllerName = '''', ow_ControllerKind = ''''\<rparr>"

definition emptyRequest :: CombinedRequest where
  "emptyRequest = \<lparr>cq_owner = emptyOwner, cq_cpu = [], cq_memory = [], cq_memoryRequest = Finite 0, cq_cpuRequest = Finite 0,
     cq_memoryLimit = Finite 0, cq_cpuLimit = Finite 0, cq_networkTransmit = [], cq_networkReceive = [], cq_storageCapacity = [],
     cq_gpu = [], cq_gpuRequest = Finite 0, cq_gpuLimit = Finite 0\<rparr>"

type_synonym combined = "string \<rightharpoonup> CombinedRequest"

text \<open>The loop over the streams of one kind: the request under the key of a stream gets what the stream says and its owner.\<close>

definition combineOne :: "(SampleStream \<Rightarrow> CombinedRequest \<Rightarrow> CombinedRequest) \<Rightarrow> SampleStream \<Rightarrow> combined \<Rightarrow> combined" where
  "combineOne f s m = m(getKey s \<mapsto> (f s (getOr emptyRequest m (getKey s)))\<lparr>cq_owner := getOwner s\<rparr>)"

definition combine :: "(SampleStream \<Rightarrow> CombinedRequest \<Rightarrow> CombinedRequest) \<Rightarrow> matrix \<Rightarrow> combined \<Rightarrow> combined" where
  "combine f ms m = fold (combineOne f) ms m"

text \<open>Streams of requests and limits without values are skipped; those of GPUs still give their container a request.\<close>

definition withValues :: "matrix \<Rightarrow> matrix" where
  "withValues ms = filter (\<lambda>s. mx_values s \<noteq> []) ms"

definition addCpu :: "SampleStream \<Rightarrow> CombinedRequest \<Rightarrow> CombinedRequest" where
  "addCpu s r = r\<lparr>cq_cpu := mx_values s\<rparr>"

definition addMemory :: "SampleStream \<Rightarrow> CombinedRequest \<Rightarrow> CombinedRequest" where
  "addMemory s r = r\<lparr>cq_memory := mx_values s\<rparr>"

definition addCpuRequest :: "SampleStream \<Rightarrow> CombinedRequest \<Rightarrow> CombinedRequest" where
  "addCpuRequest s r = r\<lparr>cq_cpuRequest := averageSampleValues (mx_values s)\<rparr>"

definition addMemoryRequest :: "SampleStream \<Rightarrow> CombinedRequest \<Rightarrow> CombinedRequest" where
  "addMemoryRequest s r = r\<lparr>cq_memoryRequest := averageSampleValues (mx_values s)\<rparr>"

definition addCpuLimit :: "SampleStream \<Rightarrow> CombinedRequest \<Rightarrow> CombinedRequest" where
  "addCpuLimit s r = r\<lparr>cq_cpuLimit := averageSampleValues (mx_values s)\<rparr>"

definition addMemoryLimit :: "SampleStream \<Rightarrow> CombinedRequest \<Rightarrow> CombinedRequest" where
  "addMemoryLimit s r = r\<lparr>cq_memoryLimit := averageSampleValues (mx_values s)\<rparr>"

definition addGpuRequest :: "SampleStream \<Rightarrow> CombinedRequest \<Rightarrow> CombinedRequest" where
  "addGpuRequest s r = (if mx_values s \<noteq> [] then r\<lparr>cq_gpuRequest := averageSampleValues (mx_values s)\<rparr> else r)"

definition addGpuLimit :: "SampleStream \<Rightarrow> CombinedRequest \<Rightarrow> CombinedRequest" where
  "addGpuLimit s r = (if mx_values s \<noteq> [] then r\<lparr>cq_gpuLimit := averageSampleValues (mx_values s)\<rparr> else r)"

definition addStorage :: "SampleStream \<Rightarrow> CombinedRequest \<Rightarrow> CombinedRequest" where
  "addStorage s r = r\<lparr>cq_storageCapacity := mx_values s\<rparr>"

definition addTransmit :: "SampleStream \<Rightarrow> CombinedRequest \<Rightarrow> CombinedRequest" where
  "addTransmit s r = r\<lparr>cq_networkTransmit := mx_values s\<rparr>"

definition addReceive :: "SampleStream \<Rightarrow> CombinedRequest \<Rightarrow> CombinedRequest" where
  "addReceive s r = r\<lparr>cq_networkReceive := mx_values s\<rparr>"

definition addGpu :: "SampleStream \<Rightarrow> CombinedRequest \<Rightarrow> CombinedRequest" where
  "addGpu s r = r\<lparr>cq_gpu := mx_values s\<rparr>"

section \<open>Fetching\<close>

record prom_env =
  pz_api :: prom_api
  pz_apiGPULimits :: prom_api
  pz_pvcs :: "string + unstructuredPVC list"
  pz_workloads :: "string + prom_workload list"
  pz_parseQuantity :: quantity_parser
  pz_int64 :: "float64 \<Rightarrow> int"
  pz_hostname :: "string \<Rightarrow> string option"
  pz_now1 :: go_time
  pz_now2 :: go_time

text \<open>\<^verbatim>\<open>Truncate\<close> rounds down to a multiple of a duration since the zero time.\<close>

definition timeTruncate :: "go_time \<Rightarrow> duration \<Rightarrow> go_time" where
  "timeTruncate t d = (if d \<le> 0 then t else t - (t - zeroTime) mod d)"

definition timestep :: duration where
  "timestep = 5 * Minute"

text \<open>The two ends of the range read the clock one after the other.\<close>

definition getRange :: "go_time \<Rightarrow> go_time \<Rightarrow> prom_range" where
  "getRange now1 now2 =
     \<lparr>rg_start = timeTruncate now1 timestep + timestep * (- 3), rg_end = timeTruncate now2 timestep, rg_step = 30 * Second\<rparr>"

definition IsGMP :: "(string \<Rightarrow> string option) \<Rightarrow> string \<Rightarrow> bool" where
  "IsGMP hostname prometheusAddress =
     (if prometheusAddress = '''' then False
      else let s = (if Contains prometheusAddress ''://'' then prometheusAddress else ''https://'' @ prometheusAddress) in
        hostname s = Some ''monitoring.googleapis.com'')"

text \<open>GKE's own metrics replace those of kube-state-metrics if these are empty and GKE has some.\<close>

definition orGKE :: "bool \<Rightarrow> string + matrix \<Rightarrow> matrix \<Rightarrow> matrix" where
  "orGKE useGKEFallback gke m =
     (if m = [] \<and> useGKEFallback then (case gke of Inr g \<Rightarrow> if g \<noteq> [] then g else m | Inl _ \<Rightarrow> m) else m)"

text \<open>A kind of metric on which the run insists: an error ends it, and so does an empty answer unless the check is skipped.\<close>

definition required :: "bool \<Rightarrow> string \<Rightarrow> (matrix \<Rightarrow> matrix) \<Rightarrow> (string + matrix) option \<Rightarrow> (matrix \<Rightarrow> (string + 'a) option) \<Rightarrow> (string + 'a) option" where
  "required skip msg fallback answer k =
     (case answer of
        None \<Rightarrow> None
      | Some (Inl err) \<Rightarrow> Some (Inl err)
      | Some (Inr m) \<Rightarrow> if \<not> skip \<and> fallback m = [] then Some (Inl msg) else k (fallback m))"

text \<open>An optional kind, whose errors leave it empty.\<close>

definition optional' :: "(matrix \<Rightarrow> matrix) \<Rightarrow> (string + matrix) option \<Rightarrow> (matrix \<Rightarrow> (string + 'a) option) \<Rightarrow> (string + 'a) option" where
  "optional' fallback answer k =
     (case answer of
        None \<Rightarrow> None
      | Some (Inl err) \<Rightarrow> k (fallback [])
      | Some (Inr m) \<Rightarrow> k (fallback m))"

record prom_data =
  pd_memory :: matrix
  pd_cpu :: matrix
  pd_memoryRequest :: matrix
  pd_cpuRequest :: matrix
  pd_memoryLimits :: matrix
  pd_cpuLimits :: matrix
  pd_networkTransmit :: matrix
  pd_networkReceive :: matrix
  pd_gpuUsage :: matrix
  pd_gpuRequests :: matrix
  pd_gpuLimits :: matrix

definition noMetrics :: "string \<Rightarrow> string \<Rightarrow> string" where
  "noMetrics kind advice = ''No '' @ kind @ '' metrics found. It is likely that the data is not being collected correctly. Verify '' @ advice"

definition cAdvisorAdvice :: string where
  "cAdvisorAdvice = ''Kubelet/cAdvisor metrics are being collected correctly''"

definition ksmAdvice :: string where
  "ksmAdvice = ''kube-state-metrics is running and the Prometheus configuration is correct''"

definition fetchMetrics :: "prom_env \<Rightarrow> string \<Rightarrow> string \<Rightarrow> bool \<Rightarrow> bool \<Rightarrow> (string + prom_data) option" where
  "fetchMetrics env clusterName prometheusAddress skipCAdvisor skipKSM =
     (let api = pz_api env; gke = orGKE (IsGMP (pz_hostname env) prometheusAddress \<and> clusterName \<noteq> '''') in
      required skipCAdvisor (noMetrics ''memory'' cAdvisorAdvice) id (getMemory api clusterName) (\<lambda>memory.
      required skipCAdvisor (noMetrics ''cpu'' cAdvisorAdvice) id (getCPU api clusterName) (\<lambda>cpu.
      required skipKSM (noMetrics ''memory request'' ksmAdvice) (gke (getMemoryRequestsGKE api clusterName)) (getMemoryRequests api clusterName) (\<lambda>memoryRequest.
      required skipKSM (noMetrics ''cpu request'' ksmAdvice) (gke (getCPURequestsGKE api clusterName)) (getCPURequests api clusterName) (\<lambda>cpuRequest.
      required skipKSM (noMetrics ''memory limit'' ksmAdvice) (gke (getMemoryLimitsGKE api clusterName)) (getMemoryLimits api clusterName) (\<lambda>memoryLimits.
      required skipKSM (noMetrics ''cpu limit'' ksmAdvice) (gke (getCPULimitsGKE api clusterName)) (getCPULimits api clusterName) (\<lambda>cpuLimits.
      required True '''' id (getNetworkTransmitBytesFor30s api 5 clusterName) (\<lambda>networkTransmit.
      required True '''' id (getNetworkReceiveBytesFor30s api 5 clusterName) (\<lambda>networkReceive.
      optional' id (getGPUUsage api clusterName) (\<lambda>gpuUsage.
      optional' (gke (getGPURequestsGKE api clusterName)) (getGPURequests api clusterName) (\<lambda>gpuRequests.
      optional' (gke (getGPULimitsGKE (pz_apiGPULimits env) clusterName)) (getGPULimits (pz_apiGPULimits env) clusterName) (\<lambda>gpuLimits.
        Some (Inr \<lparr>pd_memory = memory, pd_cpu = cpu, pd_memoryRequest = memoryRequest, pd_cpuRequest = cpuRequest,
          pd_memoryLimits = memoryLimits, pd_cpuLimits = cpuLimits, pd_networkTransmit = networkTransmit,
          pd_networkReceive = networkReceive, pd_gpuUsage = gpuUsage, pd_gpuRequests = gpuRequests, pd_gpuLimits = gpuLimits\<rparr>)))))))))))))"

definition combineContainers :: "prom_data \<Rightarrow> combined" where
  "combineContainers d =
     combine addGpuLimit (pd_gpuLimits d)
    (combine addGpuRequest (pd_gpuRequests d)
    (combine addMemoryLimit (withValues (pd_memoryLimits d))
    (combine addCpuLimit (withValues (pd_cpuLimits d))
    (combine addMemoryRequest (withValues (pd_memoryRequest d))
    (combine addCpuRequest (withValues (pd_cpuRequest d))
    (combine addMemory (pd_memory d)
    (combine addCpu (pd_cpu d) Map.empty)))))))"

section \<open>Pods and owners\<close>

definition addVolume :: "string \<Rightarrow> string option \<Rightarrow> StorageInfo \<Rightarrow> StorageInfo" where
  "addVolume podKey v st = (case v of Some claim \<Rightarrow> if 0 < NumPVCs st then AddPVCRef claim podKey st else st | None \<Rightarrow> st)"

definition registerPod :: "prom_workload \<Rightarrow> prom_pod \<Rightarrow> (string \<rightharpoonup> prom_workload) \<times> StorageInfo \<Rightarrow> (string \<rightharpoonup> prom_workload) \<times> StorageInfo" where
  "registerPod w pod ws =
     (let podKey = pq_namespace pod @ ''/'' @ pq_name pod in
      ((fst ws)(podKey \<mapsto> w),
       case pq_volumes pod of None \<Rightarrow> snd ws | Some vs \<Rightarrow> fold (addVolume podKey) vs (snd ws)))"

definition registerWorkloads :: "prom_workload list \<Rightarrow> StorageInfo \<Rightarrow> (string \<rightharpoonup> prom_workload) \<times> StorageInfo" where
  "registerWorkloads workloads st = fold (\<lambda>w. fold (registerPod w) (wo_pods w)) workloads (Map.empty, st)"

text \<open>The metrics of pods, each split among the containers before it is combined.\<close>

definition combinePods :: "(SampleStream \<Rightarrow> CombinedRequest \<Rightarrow> CombinedRequest) \<Rightarrow> (string \<rightharpoonup> prom_workload) \<Rightarrow> matrix \<Rightarrow> combined \<Rightarrow> combined option" where
  "combinePods f workloadMap ms m =
     (case adjustMetricsForMultiContainerPods ms workloadMap of None \<Rightarrow> None | Some new \<Rightarrow> Some (combine f new m))"

definition assignOwner :: "prom_workload list \<Rightarrow> (string \<rightharpoonup> prom_workload) \<Rightarrow> CombinedRequest \<Rightarrow> CombinedRequest" where
  "assignOwner workloads workloadMap val =
     (let o' = cq_owner val;
          (name, kind) = (case workloadMap (ow_ControllerNamespace o' @ ''/'' @ ow_PodName o') of
             Some w \<Rightarrow> (wo_name w, wo_kind w)
           | None \<Rightarrow> getController workloads (ow_PodName o') (ow_ControllerNamespace o')) in
      val\<lparr>cq_owner := o'\<lparr>ow_ControllerName := name, ow_ControllerKind := kind\<rparr>\<rparr>)"

definition gatherMetrics :: "prom_env \<Rightarrow> string \<Rightarrow> string \<Rightarrow> bool \<Rightarrow> bool \<Rightarrow>
    (string + prom_workload list \<times> (string \<rightharpoonup> prom_workload) \<times> combined) option" where
  "gatherMetrics env clusterName prometheusAddress skipCAdvisor skipKSM =
     (case fetchMetrics env clusterName prometheusAddress skipCAdvisor skipKSM of
        None \<Rightarrow> None
      | Some (Inl err) \<Rightarrow> Some (Inl err)
      | Some (Inr d) \<Rightarrow>
     (case NewStorageInfoFromCluster (pz_parseQuantity env) (pz_pvcs env) of
        Inl err \<Rightarrow> Some (Inl err)
      | Inr st0 \<Rightarrow>
     (case pz_workloads env of
        Inl err \<Rightarrow> Some (Inl err)
      | Inr workloads \<Rightarrow>
        let (workloadMap, st) = registerWorkloads workloads st0 in
        Option.bind (ManufactureMetrics (pz_int64 env) (getRange (pz_now1 env) (pz_now2 env)) st) (\<lambda>storageCapacity.
        Option.bind (combinePods addStorage workloadMap storageCapacity (combineContainers d)) (\<lambda>m1.
        Option.bind (combinePods addTransmit workloadMap (pd_networkTransmit d) m1) (\<lambda>m2.
        Option.bind (combinePods addReceive workloadMap (pd_networkReceive d) m2) (\<lambda>m3.
        Option.bind (combinePods addGpu workloadMap (pd_gpuUsage d) m3) (\<lambda>m4.
        Some (Inr (workloads, workloadMap, m4))))))))))"

text \<open>The final loop over the combined requests, in the order \<open>order\<close> of their keys.\<close>

definition GetMetrics :: "prom_env \<Rightarrow> string list \<Rightarrow> string \<Rightarrow> string \<Rightarrow> bool \<Rightarrow> bool \<Rightarrow> (string + CombinedRequest list) option" where
  "GetMetrics env order clusterName prometheusAddress skipCAdvisor skipKSM =
     (case gatherMetrics env clusterName prometheusAddress skipCAdvisor skipKSM of
        None \<Rightarrow> None
      | Some (Inl err) \<Rightarrow> Some (Inl err)
      | Some (Inr (workloads, workloadMap, m)) \<Rightarrow>
          Some (Inr (map (assignOwner workloads workloadMap) (List.map_filter m order))))"

text \<open>\<^verbatim>\<open>GetNodesMetrics\<close> takes the first value of the first stream of each answer.\<close>

record NodesMetrics =
  nm_IdleCPU :: float64
  nm_IdleMemory :: float64
  nm_OverheadCPU :: float64
  nm_OverheadMemory :: float64

definition firstValue :: "matrix \<Rightarrow> float64" where
  "firstValue m = (case m of s # _ \<Rightarrow> (case mx_values s of v # _ \<Rightarrow> sa_value v | [] \<Rightarrow> Finite 0) | [] \<Rightarrow> Finite 0)"

definition GetNodesMetrics :: "prom_api \<Rightarrow> string \<Rightarrow> (string + NodesMetrics) option" where
  "GetNodesMetrics api clusterName =
     required True '''' id (getNodesIdleCPU api clusterName) (\<lambda>idleCPU.
     required True '''' id (getNodesIdleMemory api clusterName) (\<lambda>idleMemory.
     required True '''' id (getNodesOverheadCPU api clusterName) (\<lambda>overheadCPU.
     required True '''' id (getNodesOverheadMemory api clusterName) (\<lambda>overheadMemory.
       Some (Inr \<lparr>nm_IdleCPU = firstValue idleCPU, nm_IdleMemory = firstValue idleMemory,
         nm_OverheadCPU = firstValue overheadCPU, nm_OverheadMemory = firstValue overheadMemory\<rparr>)))))"

section \<open>Statistics\<close>

datatype metric_kind = MetricCPU | MetricMemory | MetricGPU | MetricNetworkReceive | MetricNetworkTransmit | MetricStorageCapacity

record Statistics =
  sx_owner :: Owner
  sx_startTime :: go_time
  sx_metric :: metric_kind
  sx_value :: int
  sx_request :: int
  sx_limitValue :: int

text \<open>\<^verbatim>\<open>time.Unix(ms/1000, 0)\<close>, where Go's division truncates.\<close>

definition unixOfMilli :: "int \<Rightarrow> go_time" where
  "unixOfMilli ms = (if 0 \<le> ms then ms div 1000 else - ((- ms) div 1000)) * Second"

definition cpuValueOf :: "(float64 \<Rightarrow> int) \<Rightarrow> float64 \<Rightarrow> int" where
  "cpuValueOf other v = (if fless (Finite 0) v \<and> fless v (fl (1 / 1000)) then 1 else int64_of other (fmul v 1000))"

definition simpleStats :: "(float64 \<Rightarrow> int) \<Rightarrow> metric_kind \<Rightarrow> Owner \<Rightarrow> SamplePair list \<Rightarrow> Statistics list" where
  "simpleStats other kind own vs =
     map (\<lambda>v. \<lparr>sx_owner = own, sx_startTime = unixOfMilli (sa_timestamp v), sx_metric = kind,
       sx_value = int64_of other (sa_value v), sx_request = 0, sx_limitValue = 0\<rparr>) vs"

definition requestStats :: "(float64 \<Rightarrow> int) \<Rightarrow> go_time \<Rightarrow> CombinedRequest \<Rightarrow> Statistics list" where
  "requestStats other now r =
     (let own = cq_owner r; milli = (\<lambda>v. int64_of other (fmul v 1000)) in
      map (\<lambda>v. \<lparr>sx_owner = own, sx_startTime = unixOfMilli (sa_timestamp v), sx_metric = MetricMemory,
        sx_value = int64_of other (sa_value v), sx_request = int64_of other (cq_memoryRequest r),
        sx_limitValue = int64_of other (cq_memoryLimit r)\<rparr>) (cq_memory r) @
      map (\<lambda>v. \<lparr>sx_owner = own, sx_startTime = unixOfMilli (sa_timestamp v), sx_metric = MetricCPU,
        sx_value = cpuValueOf other (sa_value v), sx_request = milli (cq_cpuRequest r), sx_limitValue = milli (cq_cpuLimit r)\<rparr>) (cq_cpu r) @
      simpleStats other MetricNetworkTransmit own (cq_networkTransmit r) @
      simpleStats other MetricNetworkReceive own (cq_networkReceive r) @
      simpleStats other MetricStorageCapacity own (cq_storageCapacity r) @
      map (\<lambda>v. \<lparr>sx_owner = own, sx_startTime = unixOfMilli (sa_timestamp v), sx_metric = MetricGPU,
        sx_value = int64_of other (fmul (sa_value v) 100), sx_request = milli (cq_gpuRequest r), sx_limitValue = milli (cq_gpuLimit r)\<rparr>) (cq_gpu r) @
      (if cq_gpu r = [] \<and> (fless (Finite 0) (cq_gpuRequest r) \<or> fless (Finite 0) (cq_gpuLimit r)) then
         [\<lparr>sx_owner = own,
           sx_startTime = (case cq_cpu r of
              v # _ \<Rightarrow> unixOfMilli (sa_timestamp v)
            | [] \<Rightarrow> (case cq_memory r of v # _ \<Rightarrow> unixOfMilli (sa_timestamp v) | [] \<Rightarrow> timeTruncate now Minute)),
           sx_metric = MetricGPU, sx_value = 0, sx_request = milli (cq_gpuRequest r), sx_limitValue = milli (cq_gpuLimit r)\<rparr>]
       else []))"

definition CalculateStatistics :: "(float64 \<Rightarrow> int) \<Rightarrow> go_time \<Rightarrow> CombinedRequest list \<Rightarrow> Statistics list" where
  "CalculateStatistics other now values = concat (map (requestStats other now) values)"

section \<open>What the combination keeps\<close>

definition keyOfOwner :: "Owner \<Rightarrow> string" where
  "keyOfOwner own = ow_ControllerNamespace own @ ''/'' @ ow_PodName own @ ''/'' @ ow_Container own"

lemma keyOfOwner_getOwner [simp]: "keyOfOwner (getOwner s) = getKey s"
  by (simp add: keyOfOwner_def getOwner_def getKey_def)


lemma combine_simps [simp]: "combine f [] m = m" "combine f (s # ms) m = combine f ms (combineOne f s m)"
  by (simp_all add: combine_def)













lemma assignOwner_fields [simp]:
  "keyOfOwner (cq_owner (assignOwner ws wm q)) = keyOfOwner (cq_owner q)" "cq_cpu (assignOwner ws wm q) = cq_cpu q"
  "cq_cpuRequest (assignOwner ws wm q) = cq_cpuRequest q" "cq_cpuLimit (assignOwner ws wm q) = cq_cpuLimit q"
  by (simp_all add: assignOwner_def keyOfOwner_def Let_def split: prod.splits)


section \<open>What splitting keeps\<close>

lemma fmod_whole: "0 < n \<Longrightarrow> 0 \<le> v \<Longrightarrow> fmod (Finite (of_int v)) (of_nat n) = Finite (of_int (v mod int n))"
proof -
  assume n: "0 < n" "0 \<le> v"
  have "\<lfloor>of_int v / of_nat n :: rat\<rfloor> = v div int n" by (metis floor_divide_of_int_eq of_int_of_nat_eq)
  moreover have "v - int n * (v div int n) = v mod int n" by (simp add: minus_mult_div_eq_mod)
  then have "(of_int v :: rat) - of_nat n * of_int (v div int n) = of_int (v mod int n)"
    by (metis of_int_diff of_int_mult of_int_of_nat_eq)
  ultimately show ?thesis using n by (simp add: trunc_def)
qed

lemma ffloor_whole:
  assumes "0 \<le> v" "v < 2 ^ 53" "0 < n" "int n < 2 ^ 53"
  shows "ffloor (fdiv (Finite (of_int v)) (of_nat n)) = Finite (of_int (v div int n))"
proof -
  have q: "0 \<le> v div int n" using assms by (simp add: pos_imp_zdiv_nonneg_iff)
  then have "v div int n \<le> v div int n * int n" using assms(3) by (simp add: mult_le_cancel_left1)
  then have le: "v div int n \<le> v" using div_mult_mod_eq [of v "int n"] pos_mod_sign [of "int n" v] assms(3) by linarith
  note fl = floor_rnd_quotient [OF assms]
  have "rnd (of_int v / of_nat n) < of_int (v div int n) + 1" "of_int (v div int n) \<le> rnd (of_int v / of_nat n)"
    using fl by linarith+
  moreover have "(of_int (v div int n + 1) :: rat) \<le> of_int (2 ^ 53)" using le assms(2) by (simp only: of_int_le_iff)
  ultimately have "\<bar>rnd (of_int v / of_nat n)\<bar> < 2 ^ 53" using q by simp
  then have "\<bar>rnd (of_int v / of_nat n)\<bar> < 2 ^ 1024" by (rule order.strict_trans) simp
  then show ?thesis using assms(3) fl fl_finite by simp
qed

lemma splitValue_whole:
  assumes "0 \<le> v" "v < 2 ^ 53" "0 < n" "int n < 2 ^ 53"
  shows "splitValue n (Finite (of_int v)) = (Finite (of_int (v div int n + v mod int n)), Finite (of_int (v div int n)))"
proof -
  have r: "0 \<le> v div int n" "0 \<le> v mod int n" using assms by (simp_all add: pos_imp_zdiv_nonneg_iff)
  have "v div int n \<le> v div int n * int n" using r(1) assms(3) by (simp add: mult_le_cancel_left1)
  then have "v div int n + v mod int n \<le> v" using div_mult_mod_eq [of v "int n"] by linarith
  then have "fadd (Finite (of_int (v div int n))) (Finite (of_int (v mod int n))) = Finite (of_int (v div int n + v mod int n))"
    using fl_whole [of "v div int n + v mod int n"] r assms(2) by simp
  then show ?thesis
    using assms r pos_mod_sign [of "int n" v] by (auto simp: splitValue_def order.order_iff_strict Let_def fmod_whole ffloor_whole simp del: fadd.simps fdiv.simps ffloor.simps fmod.simps)
qed

lemma adjust_rest:
  assumes "adjustMetricsForMultiContainerPods ms wm = Some new" and "key \<notin> podKeyOf ` set ms"
  shows "filter (\<lambda>x. podKeyOf x = key) new = []"
  using assms
proof (induction ms arbitrary: new)
  case (Cons s ms)
  have "podKeyOf (forContainer c s) = podKeyOf s" "podKeyOf (x\<lparr>mx_values := vs\<rparr>) = podKeyOf x" for c x vs
    by (simp_all add: podKeyOf_def label_def forContainer_def getOr_def)
  then have "splitSample cs s = Some xs \<Longrightarrow> x \<in> set xs \<Longrightarrow> podKeyOf x = podKeyOf s" for cs xs x
    by (auto simp: splitSample_def Let_def split: list.splits)
  with Cons show ?case by (fastforce split: option.splits simp: filter_empty_conv)
qed simp

lemma splitSample_podKey:
  assumes "splitSample cs s = Some xs"
  shows "filter (\<lambda>x. podKeyOf x = podKeyOf s) xs = xs"
proof -
  have "podKeyOf (forContainer c s) = podKeyOf s" "podKeyOf (x\<lparr>mx_values := vs\<rparr>) = podKeyOf x" for c x vs
    by (simp_all add: podKeyOf_def label_def forContainer_def getOr_def)
  with assms show ?thesis by (auto simp: splitSample_def Let_def filter_id_conv split: list.splits)
qed

text \<open>The streams of a pod are the split ones, if the pod has one stream.\<close>

lemma adjust_own:
  assumes "adjustMetricsForMultiContainerPods ms wm = Some new" and "distinct (map podKeyOf ms)" and "s \<in> set ms"
    and "wm (podKeyOf s) = Some w"
  shows "splitSample (wo_containers w) s = Some (filter (\<lambda>x. podKeyOf x = podKeyOf s) new)"
  using assms(1-3)
proof (induction ms arbitrary: new)
  case (Cons t ms)
  show ?case
  proof (cases "s = t")
    case True
    then obtain xs rest where "splitSample (wo_containers w) s = Some xs" "adjustMetricsForMultiContainerPods ms wm = Some rest"
        "new = xs @ rest"
      using Cons.prems(1) assms(4) by (auto split: option.splits)
    moreover have "podKeyOf s \<notin> podKeyOf ` set ms" using Cons.prems(2) True by simp
    ultimately show ?thesis using adjust_rest splitSample_podKey by (metis append_Nil2 filter_append)
  next
    case False
    then have s: "s \<in> set ms" and ne: "podKeyOf t \<noteq> podKeyOf s" using Cons.prems(2,3) by auto
    show ?thesis
    proof (cases "wm (podKeyOf t)")
      case None
      then show ?thesis using Cons.IH s Cons.prems by simp
    next
      case (Some u)
      then obtain xs rest where xs: "splitSample (wo_containers u) t = Some xs" "adjustMetricsForMultiContainerPods ms wm = Some rest"
          "new = xs @ rest"
        using Cons.prems(1) by (auto split: option.splits)
      then have "filter (\<lambda>x. podKeyOf x = podKeyOf s) xs = []"
        using ne splitSample_podKey [OF xs(1)] by (metis (mono_tags, lifting) filter_False filter_id_conv)
      then show ?thesis using Cons.IH [OF xs(2)] s Cons.prems(2) xs(3) by simp
    qed
  qed
qed simp

fun numberOf :: "float64 \<Rightarrow> rat" where
  "numberOf (Finite r) = r"
| "numberOf _ = 0"

text \<open>
  Splitting keeps totals. A whole-number sample of a pod (bytes, up to \<open>2 ^ 53\<close>) is divided among exactly the containers of the
  pod's workload, in their order and at the same times: the first one gets the quotient and the remainder, the others the quotient, and the
  shares add up to the sample.
\<close>
theorem pod_metric_split:
  assumes "adjustMetricsForMultiContainerPods ms wm = Some new" and "distinct (map podKeyOf ms)" and "s \<in> set ms"
    and "wm (podKeyOf s) = Some w" and "n = length (wo_containers w)" "int n < 2 ^ 53"
    and "i < length (mx_values s)" "sa_value (mx_values s ! i) = Finite (of_int v)" "0 \<le> v" "v < 2 ^ 53"
  shows "let streams = filter (\<lambda>x. podKeyOf x = podKeyOf s) new; values = map (\<lambda>x. sa_value (mx_values x ! i)) streams in
    map (\<lambda>x. label x ''container'') streams = wo_containers w \<and>
    map (\<lambda>x. map sa_timestamp (mx_values x)) streams = replicate n (map sa_timestamp (mx_values s)) \<and>
    values = Finite (of_int (v div int n + v mod int n)) # replicate (n - 1) (Finite (of_int (v div int n))) \<and>
    sum_list (map numberOf values) = of_int v"
proof -
  let ?streams = "filter (\<lambda>x. podKeyOf x = podKeyOf s) new"
  obtain xs where xs: "?streams = xs" by blast
  have split: "splitSample (wo_containers w) s = Some xs" using adjust_own [OF assms(1-4)] xs by simp
  then obtain c cs where cs: "wo_containers w = c # cs" by (auto simp: splitSample_def split: list.splits)
  then have n: "n = Suc (length cs)" using assms(5) by simp
  have lab: "label (forContainer c' s) ''container'' = c'" "label (x\<lparr>mx_values := vs\<rparr>) k = label x k" for c' x vs k
    by (simp_all add: label_def forContainer_def getOr_def)
  have mx: "mx_values (forContainer c' s) = mx_values s" for c' by (simp add: forContainer_def)
  note whole = splitValue_whole [OF assms(9,10) _ assms(6)]
  have shape: "map (\<lambda>x. label x ''container'') xs = wo_containers w"
    "map (\<lambda>x. map sa_timestamp (mx_values x)) xs = replicate n (map sa_timestamp (mx_values s))"
    using split by (auto simp: splitSample_def cs n lab mx Let_def map_replicate_const o_def split: list.splits)
  have vals: "map (\<lambda>x. sa_value (mx_values x ! i)) xs = Finite (of_int (v div int n + v mod int n)) # replicate (n - 1) (Finite (of_int (v div int n)))"
  proof (cases cs)
    case Nil
    then show ?thesis using split assms(7,8) by (auto simp: splitSample_def cs n mx)
  next
    case (Cons c2 cs')
    have first: "splitValue n (sa_value (mx_values s ! i)) = (Finite (of_int (v div int n + v mod int n)), Finite (of_int (v div int n)))"
      unfolding assms(8) using whole n by simp
    have "n = length (c # c2 # cs')" using n Cons by simp
    then show ?thesis using split assms(7) first n
      by (auto simp: splitSample_def cs Cons mx Let_def map_replicate_const o_def simp del: of_int_add splitValue_def)
  qed
  have "of_int (v div int n + v mod int n) + of_nat (n - 1) * (of_int (v div int n) :: rat) = of_int v"
  proof -
    have "v div int n + v mod int n + int (n - 1) * (v div int n) = v"
      using n mult_div_mod_eq [of "int n" v] by (simp add: algebra_simps)
    then show ?thesis by (metis of_int_add of_int_mult of_int_of_nat_eq)
  qed
  then have "sum_list (map numberOf (map (\<lambda>x. sa_value (mx_values x ! i)) xs)) = of_int v"
    unfolding vals by (simp add: sum_list_replicate)
  with shape vals show ?thesis unfolding Let_def xs by blast
qed

definition demo_sample :: SampleStream where
  "demo_sample = \<lparr>mx_metric = [''namespace'' \<mapsto> ''prod'', ''pod'' \<mapsto> ''web''], mx_values = [\<lparr>sa_timestamp = 7, sa_value = Finite 10\<rparr>]\<rparr>"

definition demo_workload :: prom_workload where
  "demo_workload = \<lparr>wo_kind = ''Deployment'', wo_namespace = ''prod'', wo_name = ''web'', wo_pods = [], wo_containers = [''a'', ''b'', ''c'']\<rparr>"

theorem pod_metric_split_witness:
  "\<exists>new. adjustMetricsForMultiContainerPods [demo_sample] [''prod/web'' \<mapsto> demo_workload] = Some new \<and>
    map (\<lambda>x. sa_value (mx_values x ! 0)) (filter (\<lambda>x. podKeyOf x = podKeyOf demo_sample) new) = [Finite 4, Finite 3, Finite 3]"
proof -
  have k: "podKeyOf demo_sample = ''prod/web''" by code_simp
  have w: "([''prod/web'' \<mapsto> demo_workload]) (podKeyOf demo_sample) = Some demo_workload" by (simp add: k)
  have facts: "3 = length (wo_containers demo_workload)"
    "0 < length (mx_values demo_sample)" "sa_value (mx_values demo_sample ! 0) = Finite (of_int 10)"
    by (simp_all add: demo_workload_def demo_sample_def)
  have "adjustMetricsForMultiContainerPods [demo_sample] [''prod/web'' \<mapsto> demo_workload] \<noteq> None"
    by (simp add: k splitSample_def demo_workload_def Let_def)
  then obtain new where new: "adjustMetricsForMultiContainerPods [demo_sample] [''prod/web'' \<mapsto> demo_workload] = Some new" by blast
  have "map (\<lambda>x. sa_value (mx_values x ! 0)) (filter (\<lambda>x. podKeyOf x = podKeyOf demo_sample) new) =
      Finite (of_int (10 div int 3 + 10 mod int 3)) # replicate (3 - 1) (Finite (of_int (10 div int 3)))"
    using pod_metric_split [OF new _ _ w facts(1) _ facts(2,3)] by (simp only: Let_def) simp
  moreover have "replicate (3 - 1) (Finite (of_int (10 div int 3))) = [Finite 3, Finite 3]" by (simp add: numeral_2_eq_2)
  ultimately show ?thesis using new by (intro exI [of _ new]) simp
qed

text \<open>
  A fraction goes to the first container. A utilisation between 0 and 1 is not spread over the containers of a pod: the first of
  two or more gets all of it and the others get nothing.
\<close>
theorem fraction_to_first:
  assumes "0 \<le> v" "v < 1" "rnd v = v" "2 \<le> n"
  shows "splitValue n (Finite v) = (Finite v, Finite 0)"
proof -
  let ?q = "v / of_nat n"
  have n: "(2 :: rat) \<le> of_nat n" using assms(4) by (metis of_nat_le_iff of_nat_numeral)
  have "?q \<le> 1 / 2" using assms(1,2) n by (simp add: pos_divide_le_eq)
  moreover have "0 \<le> ?q" using assms(1) by simp
  ultimately have q: "0 \<le> ?q" "?q < 1" "0 \<le> rnd ?q" "rnd ?q < 1" using rnd_below_one [of ?q] by linarith+
  have one: "(1 :: rat) \<le> 2 ^ 1024" by simp
  have "\<bar>rnd ?q\<bar> < 2 ^ 1024" "\<bar>v\<bar> < 2 ^ 1024" using q(3,4) assms(1,2) one by linarith+
  moreover have "\<lfloor>rnd ?q\<rfloor> = 0" "\<lfloor>?q\<rfloor> = 0" using q by (simp_all add: floor_eq_iff)
  ultimately have "fmod (Finite v) (of_nat n) = Finite v" "ffloor (fdiv (Finite v) (of_nat n)) = Finite 0" "fl v = Finite v"
    using n q(1) assms(3) fl_finite [of ?q] fl_finite [of v] by (auto simp: trunc_def)
  then show ?thesis using assms(1)
    by (auto simp: splitValue_def Let_def order.order_iff_strict simp del: fdiv.simps ffloor.simps fmod.simps)
qed

theorem fraction_to_first_witness: "splitValue 3 (Finite (1/2)) = (Finite (1/2), Finite 0)"
proof (rule fraction_to_first)
  show "rnd (1/2) = 1/2" by code_simp
qed simp_all

text \<open>
  The percentage of a GPU is cut off after a rounded product. A GPU that Prometheus reports at 0.29, the double nearest to it, is reported
  at 28 percent.
\<close>
theorem gpu_percent_cut_off:
  "map sx_value (CalculateStatistics other now
     [emptyRequest\<lparr>cq_gpu := [\<lparr>sa_timestamp = t, sa_value = fl (29 / 100)\<rparr>]\<rparr>]) = [28]"
proof -
  have r: "rnd (29 / 100) = 5224175567749775 / 18014398509481984" "expo (5224175567749775 / 18014398509481984) = - 2"
    using rnd_nearest [of "- 2" "29 / 100" 5224175567749775] rnd_nearest(2) [of "- 2" "5224175567749775 / 18014398509481984" 5224175567749775]
    by (simp_all add: pow2_def)
  have p: "rnd (130604389193744375 / 4503599627370496) = 8162774324609023 / 281474976710656"
    "expo (8162774324609023 / 281474976710656) = 4"
    using rnd_nearest [of 4 "130604389193744375 / 4503599627370496" 8162774324609023]
      rnd_nearest(2) [of 4 "8162774324609023 / 281474976710656" 8162774324609023]
    by (simp_all add: pow2_def)
  have "fmul (fl (29 / 100)) 100 = Finite (8162774324609023 / 281474976710656)"
    by (simp add: fl_def r p Let_def)
  then have "int64_of other (fmul (fl (29 / 100)) 100) = 28"
    by (simp add: int64_of_def trunc_def minInt64_def maxInt64_def floor_eq_iff)
  then show ?thesis by (simp add: CalculateStatistics_def requestStats_def simpleStats_def emptyRequest_def Let_def)
qed

text \<open>What the loop looks for: the workloads of the namespace, those with the pod, those whose name is a longer beginning.\<close>

abbreviation inNamespace :: "string \<Rightarrow> prom_workload list \<Rightarrow> prom_workload list" where
  "inNamespace namespace \<equiv> filter (\<lambda>w. wo_namespace w = namespace)"

abbreviation hasPod :: "string \<Rightarrow> prom_workload \<Rightarrow> bool" where
  "hasPod podName \<equiv> \<lambda>w. podName \<in> pq_name ` set (wo_pods w)"

abbreviation longerPrefix :: "string \<Rightarrow> nat \<Rightarrow> prom_workload \<Rightarrow> bool" where
  "longerPrefix podName k \<equiv> \<lambda>w. HasPrefix podName (wo_name w) \<and> k < length (wo_name w)"

lemma controllerLoop_exact:
  "find (hasPod podName) (inNamespace namespace ws) = Some w \<Longrightarrow> controllerLoop ws podName namespace best k = (wo_name w, wo_kind w)"
  by (induction ws podName namespace best k rule: controllerLoop.induct) (auto split: if_splits)

lemma controllerLoop_best:
  "find (hasPod podName) (inNamespace namespace ws) = None \<Longrightarrow>
      (if filter (longerPrefix podName k) (inNamespace namespace ws) = [] then controllerLoop ws podName namespace best k = best
       else \<exists>w \<in> set (filter (longerPrefix podName k) (inNamespace namespace ws)). controllerLoop ws podName namespace best k = (wo_name w, wo_kind w) \<and>
         (\<forall>w' \<in> set (filter (longerPrefix podName k) (inNamespace namespace ws)). length (wo_name w') \<le> length (wo_name w)))"
proof (induction ws arbitrary: best k)
  case (Cons w ws)
  show ?case
  proof (cases "wo_namespace w = namespace \<and> longerPrefix podName k w")
    case True
    let ?c = "controllerLoop ws podName namespace (wo_name w, wo_kind w) (length (wo_name w))"
    let ?longer = "filter (longerPrefix podName (length (wo_name w))) (inNamespace namespace ws)"
    have step: "controllerLoop (w # ws) podName namespace best k = ?c" using True Cons.prems by (auto split: if_splits)
    have sub: "set ?longer \<subseteq> set (filter (longerPrefix podName k) (inNamespace namespace ws))" using True by auto
    have other: "x \<in> set (filter (longerPrefix podName k) (inNamespace namespace ws)) \<Longrightarrow> x \<notin> set ?longer \<Longrightarrow> length (wo_name x) \<le> length (wo_name w)" for x
      by auto
    have rest: "find (hasPod podName) (inNamespace namespace ws) = None" using Cons.prems True by (auto split: if_splits)
    have IH: "if ?longer = [] then ?c = (wo_name w, wo_kind w)
       else \<exists>w2 \<in> set ?longer. ?c = (wo_name w2, wo_kind w2) \<and> (\<forall>w' \<in> set ?longer. length (wo_name w') \<le> length (wo_name w2))"
      by (rule Cons.IH [OF rest])
    have "\<exists>w2 \<in> set (w # filter (longerPrefix podName k) (inNamespace namespace ws)). ?c = (wo_name w2, wo_kind w2) \<and>
        (\<forall>w' \<in> set (w # filter (longerPrefix podName k) (inNamespace namespace ws)). length (wo_name w') \<le> length (wo_name w2))"
    proof (cases "?longer = []")
      case True
      then show ?thesis using IH other by (intro bexI [of _ w]) auto
    next
      case False
      with IH obtain w2 where w2: "w2 \<in> set ?longer" "?c = (wo_name w2, wo_kind w2)"
          "\<forall>w' \<in> set ?longer. length (wo_name w') \<le> length (wo_name w2)"
        by (simp only: if_False) blast
      then have "length (wo_name w) \<le> length (wo_name w2)" by auto
      with w2 sub other show ?thesis by (intro bexI [of _ w2]) (auto dest: order.trans)
    qed
    then show ?thesis using True step by simp
  next
    case False
    then have rest: "find (hasPod podName) (inNamespace namespace ws) = None" and same: "filter (longerPrefix podName k) (inNamespace namespace (w # ws)) = filter (longerPrefix podName k) (inNamespace namespace ws)"
      using Cons.prems by (auto split: if_splits)
    have "controllerLoop (w # ws) podName namespace best k = controllerLoop ws podName namespace best k"
      using Cons.prems False by (auto split: if_splits)
    with Cons.IH [OF rest, of k best] same show ?thesis by (simp only:)
  qed
qed simp

text \<open>
  Without an owner from Kubernetes the name decides. A pod that belongs to a workload of its namespace is given the first such workload;
  otherwise the workload of the namespace with the longest name that begins the pod's name; if there is none, the pod itself.
\<close>
theorem getController_spec:
  "let ws = filter (\<lambda>w. wo_namespace w = namespace) workloads; has = (\<lambda>w. podName \<in> pq_name ` set (wo_pods w));
     named = filter (\<lambda>w. wo_name w \<noteq> '''' \<and> HasPrefix podName (wo_name w)) ws in
   case find has ws of
     Some w \<Rightarrow> getController workloads podName namespace = (wo_name w, wo_kind w)
   | None \<Rightarrow> if named = [] then getController workloads podName namespace = (podName, ''Pod'')
       else \<exists>w \<in> set named. getController workloads podName namespace = (wo_name w, wo_kind w) \<and>
         list_all (\<lambda>w'. length (wo_name w') \<le> length (wo_name w)) named"
proof -
  let ?ws = "filter (\<lambda>w. wo_namespace w = namespace)"
  let ?has = "\<lambda>w. podName \<in> pq_name ` set (wo_pods w)"
  let ?better = "\<lambda>k w. HasPrefix podName (wo_name w) \<and> k < length (wo_name w)"
  have "filter (?better 0) ws = filter (\<lambda>w. wo_name w \<noteq> '''' \<and> HasPrefix podName (wo_name w)) ws" for ws
    by (rule filter_cong) auto
  note best = controllerLoop_best [of podName namespace workloads 0 "(podName, ''Pod'')", unfolded this]
  show ?thesis
  proof (cases "find ?has (?ws workloads)")
    case None
    from best [OF None] show ?thesis unfolding Let_def getController_def list_all_iff None option.case .
  next
    case (Some w)
    from controllerLoop_exact [OF Some] show ?thesis unfolding Let_def getController_def Some option.case .
  qed
qed






section \<open>The program's switches\<close>

text \<open>
  The checks of cAdvisor's metrics run unless the environment says true; those of kube-state-metrics only if it says something
  else than true.
\<close>

definition skipNonZeroMetricsValidation :: "(string \<Rightarrow> string) \<Rightarrow> bool" where
  "skipNonZeroMetricsValidation getenv = (ToLower (getenv ''SKIP_NON_ZERO_METRICS_CHECK'') = ''true'')"

definition skipKSMNonZeroMetricsValidation :: "(string \<Rightarrow> string) \<Rightarrow> bool" where
  "skipKSMNonZeroMetricsValidation getenv =
     (ToLower (getenv ''SKIP_KSM_NON_ZERO_METRICS_CHECK'') = '''' \<or> ToLower (getenv ''SKIP_KSM_NON_ZERO_METRICS_CHECK'') = ''true'')"

text \<open>The body of the program between reading the environment and writing the file; a panic of the code is \<^const>\<open>None\<close>.\<close>

definition prom_main :: "(string \<Rightarrow> string) \<Rightarrow> prom_env \<Rightarrow> string list \<Rightarrow> go_time \<Rightarrow> (Statistics list \<times> NodesMetrics) option" where
  "prom_main getenv env order now =
     (let address = getenv ''PROMETHEUS_ADDRESS''; clusterName = getenv ''CLUSTER_NAME'' in
      if address = '''' then None
      else case GetMetrics env order clusterName address (skipNonZeroMetricsValidation getenv) (skipKSMNonZeroMetricsValidation getenv) of
        Some (Inr res) \<Rightarrow>
          (case GetNodesMetrics (pz_apiGPULimits env) clusterName of
             Some (Inr nodes) \<Rightarrow> Some (CalculateStatistics (pz_int64 env) now res, nodes)
           | _ \<Rightarrow> None)
      | _ \<Rightarrow> None)"

end
