(* ===== verification/Trivy_Report.thy ===== *)
theory Trivy_Report
  imports Go_Strings
begin

text \<open>
  The trivy plugin's data and its report: \<^verbatim>\<open>trivy/pkg/models/image.go\<close>, the choice of images to scan and the matching of
  the last report with the cluster (\<^verbatim>\<open>pkg/image/util.go\<close>), and the report whose vulnerability details are factored out
  (\<^verbatim>\<open>pkg/image/minimize.go\<close>).

  The map of vulnerability details is a partial function. A slice expression or an index out of range is a panic, \<^const>\<open>None\<close>.
  \<^verbatim>\<open>sort.Slice\<close> is an argument: the comparison of the code is no strict order when a scan time is missing, so all that is known of
  the result is that it is a permutation.
\<close>

section \<open>Models\<close>

record TrivyResource =
  tvr_Name :: string
  tvr_Kind :: string
  tvr_Namespace :: string
  tvr_Container :: string

record TrivyImage =
  tvi_Name :: string
  tvi_ID :: string
  tvi_PullRef :: string
  tvi_Owners :: "TrivyResource list"
  tvi_RecommendationOnly :: bool

record Vulnerability =
  vu_Title :: string
  vu_Description :: string
  vu_InstalledVersion :: string
  vu_FixedVersion :: string
  vu_PkgName :: string
  vu_Severity :: string
  vu_VulnerabilityID :: string
  vu_References :: "string list"

record VulnerabilityList =
  vl_Target :: string
  vl_Vulnerabilities :: "Vulnerability list"

record ImageReport =
  irp_ID :: string
  irp_Name :: string
  irp_OSArch :: string
  irp_PullRef :: string
  irp_Owners :: "TrivyResource list"
  irp_Reports :: "VulnerabilityList list"
  irp_RecommendationOnly :: bool
  irp_Error :: string

record VulnerabilityDetails =
  vd_Title :: string
  vd_Description :: string
  vd_Severity :: string
  vd_VulnerabilityID :: string
  vd_References :: "string list"

record VulnerabilityInstance =
  vn_InstalledVersion :: string
  vn_PkgName :: string
  vn_VulnerabilityID :: string
  vn_FixedVersion :: string

record VulnerabilityRefList =
  vf_Target :: string
  vf_Vulnerabilities :: "VulnerabilityInstance list"

record ImageDetailsWithRefs =
  idr_ID :: string
  idr_Name :: string
  idr_OSArch :: string
  idr_Owners :: "TrivyResource list"
  idr_OwnerName :: string
  idr_OwnerKind :: string
  idr_OwnerContainer :: "string option"
  idr_Namespace :: string
  idr_LastScan :: "go_time option"
  idr_Report :: "VulnerabilityRefList list"
  idr_RecommendationOnly :: bool
  idr_Error :: string

record MinimizedReport =
  mr_Images :: "ImageDetailsWithRefs list"
  mr_Vulnerabilities :: "string \<rightharpoonup> VulnerabilityDetails"

definition getShaFromID :: "string \<Rightarrow> string" where
  "getShaFromID i = (case splitByte (CHR ''@'') i of _ # sha # _ \<Rightarrow> sha | _ \<Rightarrow> i)"

definition getUniqueID :: "string \<Rightarrow> string \<Rightarrow> string" where
  "getUniqueID name i = (if i \<noteq> '''' then getShaFromID i else name @ ''@'')"

definition image_GetSha :: "TrivyImage \<Rightarrow> string" where
  "image_GetSha i = getShaFromID (tvi_ID i)"

definition report_GetSha :: "ImageReport \<Rightarrow> string" where
  "report_GetSha r = getShaFromID (irp_ID r)"

definition image_UniqueID :: "TrivyImage \<Rightarrow> string" where
  "image_UniqueID i = getUniqueID (tvi_Name i) (tvi_ID i)"

definition details_UniqueID :: "ImageDetailsWithRefs \<Rightarrow> string" where
  "details_UniqueID i = getUniqueID (idr_Name i) (idr_ID i)"

section \<open>The last report\<close>

definition DockerIOprefix :: string where "DockerIOprefix = ''docker.io/''"

definition hasDeprecatedOwnerFields :: "ImageDetailsWithRefs \<Rightarrow> bool" where
  "hasDeprecatedOwnerFields img \<longleftrightarrow> idr_OwnerName img \<noteq> '''' \<or> idr_OwnerKind img \<noteq> '''' \<or> idr_Namespace img \<noteq> ''''"

definition fixOwners :: "MinimizedReport \<Rightarrow> MinimizedReport" where
  "fixOwners report = report\<lparr>mr_Images := map (\<lambda>img.
     if hasDeprecatedOwnerFields img then
       img\<lparr>idr_Owners := [\<lparr>tvr_Name = idr_OwnerName img, tvr_Kind = idr_OwnerKind img, tvr_Namespace = idr_Namespace img,
         tvr_Container = (case idr_OwnerContainer img of None \<Rightarrow> '''' | Some c \<Rightarrow> c)\<rparr>]\<rparr>
     else img) (mr_Images report)\<rparr>"

definition normalizeDockerHubImages :: "MinimizedReport \<Rightarrow> MinimizedReport" where
  "normalizeDockerHubImages report = report\<lparr>mr_Images := map (\<lambda>img.
     img\<lparr>idr_Name := TrimPrefix (idr_Name img) DockerIOprefix, idr_ID := TrimPrefix (idr_ID img) DockerIOprefix\<rparr>) (mr_Images report)\<rparr>"

definition unmarshalAndFixReport :: "('body \<Rightarrow> string + MinimizedReport) \<Rightarrow> 'body \<Rightarrow> string + MinimizedReport" where
  "unmarshalAndFixReport unmarshal body =
     (case unmarshal body of Inl err \<Rightarrow> Inl err | Inr report \<Rightarrow> Inr (normalizeDockerHubImages (fixOwners report)))"

text \<open>The answer of Insights to the request for the last report: an error of the transport, or a status and a body.\<close>

definition FetchLastReport :: "('body \<Rightarrow> string + MinimizedReport) \<Rightarrow> string + int \<times> (string + 'body) \<Rightarrow> string + MinimizedReport" where
  "FetchLastReport unmarshal answer =
     (case answer of
        Inl err \<Rightarrow> Inl err
      | Inr (status, body) \<Rightarrow>
          if status = 404 then Inr \<lparr>mr_Images = [], mr_Vulnerabilities = Map.empty\<rparr>
          else if status \<noteq> 200 then Inl (''bad status code on get last report: '' @ showInt status)
          else (case body of Inl err \<Rightarrow> Inl err | Inr b \<Rightarrow> unmarshalAndFixReport unmarshal b))"

section \<open>Matching\<close>

definition knownPreReleases :: "string list" where
  "knownPreReleases = [''centos-7'', ''debian-8'', ''debian-9'', ''debian-10'', ''ol-7'', ''ubuntu'', ''amd64'', ''alpine'', ''bullseye'']"

definition GetSpecificToken :: "string \<Rightarrow> string" where
  "GetSpecificToken tag = (case find (\<lambda>v. Contains tag v) knownPreReleases of Some v \<Rightarrow> v | None \<Rightarrow> '''')"

definition GetRecommendationKey :: "string \<Rightarrow> string \<Rightarrow> string" where
  "GetRecommendationKey repoName specific = (if specific = '''' then repoName else repoName @ ''/'' @ specific)"

definition convertImagesToMap :: "TrivyImage list \<Rightarrow> string \<Rightarrow> bool" where
  "convertImagesToMap imgs k \<longleftrightarrow> k \<in> set (map image_UniqueID imgs)"

definition convertImagesWithRefsToMap :: "ImageDetailsWithRefs list \<Rightarrow> string \<Rightarrow> bool" where
  "convertImagesWithRefsToMap imgs k \<longleftrightarrow> k \<in> set (map details_UniqueID imgs)"

definition repositoryKey :: "TrivyImage \<Rightarrow> string option" where
  "repositoryKey img =
     (case splitByte (CHR '':'') (tvi_Name img) of
        [repo, tag] \<Rightarrow> Some (GetRecommendationKey repo (GetSpecificToken tag))
      | _ \<Rightarrow> None)"

definition imagesRepositoryMap :: "TrivyImage list \<Rightarrow> string \<Rightarrow> bool" where
  "imagesRepositoryMap imgs k \<longleftrightarrow> Some k \<in> set (map repositoryKey imgs)"

text \<open>Whether an image of the report stays; for recommendations the second part of its name is read, which may not be there.\<close>

definition keepsImage :: "(string \<Rightarrow> bool) \<Rightarrow> (string \<Rightarrow> bool) \<Rightarrow> bool \<Rightarrow> bool \<Rightarrow> ImageDetailsWithRefs \<Rightarrow> bool option" where
  "keepsImage isMatch isRepoMatch isRecommendation match im =
     (if \<not> isRecommendation then Some (idr_RecommendationOnly im \<or> isMatch (details_UniqueID im) = match)
      else case splitByte (CHR '':'') (idr_Name im) of
        repo # tag # _ \<Rightarrow>
          Some (\<not> idr_RecommendationOnly im \<or> isRepoMatch (GetRecommendationKey repo (GetSpecificToken tag)) = match)
      | _ \<Rightarrow> None)"

fun filterImages :: "(ImageDetailsWithRefs \<Rightarrow> bool option) \<Rightarrow> ImageDetailsWithRefs list \<Rightarrow> ImageDetailsWithRefs list option" where
  "filterImages keep [] = Some []"
| "filterImages keep (im # ims) =
     (case keep im of
        None \<Rightarrow> None
      | Some b \<Rightarrow> map_option (\<lambda>rest. if b then im # rest else rest) (filterImages keep ims))"

definition getImages :: "ImageDetailsWithRefs list \<Rightarrow> TrivyImage list \<Rightarrow> bool \<Rightarrow> bool \<Rightarrow> ImageDetailsWithRefs list option" where
  "getImages baseImages toMatch isRecommendation match =
     filterImages (keepsImage (convertImagesToMap toMatch) (imagesRepositoryMap toMatch) isRecommendation match) baseImages"

definition GetMatchingImages :: "ImageDetailsWithRefs list \<Rightarrow> TrivyImage list \<Rightarrow> bool \<Rightarrow> ImageDetailsWithRefs list option" where
  "GetMatchingImages baseImages toMatch isRecommendation = getImages baseImages toMatch isRecommendation True"

definition GetUnmatchingImages :: "ImageDetailsWithRefs list \<Rightarrow> TrivyImage list \<Rightarrow> bool \<Rightarrow> ImageDetailsWithRefs list option" where
  "GetUnmatchingImages baseImages toMatch isRecommendation = getImages baseImages toMatch isRecommendation False"

fun unscannedLoop :: "TrivyImage list \<Rightarrow> (string \<Rightarrow> bool) \<Rightarrow> string set \<Rightarrow> TrivyImage list" where
  "unscannedLoop [] alreadyScanned alreadyAdded = []"
| "unscannedLoop (img # imgs) alreadyScanned alreadyAdded =
     (if \<not> alreadyScanned (image_UniqueID img) \<and> image_UniqueID img \<notin> alreadyAdded
      then img # unscannedLoop imgs alreadyScanned (insert (image_UniqueID img) alreadyAdded)
      else unscannedLoop imgs alreadyScanned alreadyAdded)"

text \<open>The limit is a slice expression, which panics if it is negative.\<close>

definition GetUnscannedImagesToScan :: "TrivyImage list \<Rightarrow> ImageDetailsWithRefs list \<Rightarrow> int \<Rightarrow> TrivyImage list option" where
  "GetUnscannedImagesToScan imagesInCluster lastReportImages maxScans =
     (let imagesToScan = unscannedLoop imagesInCluster (convertImagesWithRefsToMap lastReportImages) {} in
      if maxScans < int (length imagesToScan)
      then (if maxScans < 0 then None else Some (take (nat maxScans) imagesToScan))
      else Some imagesToScan)"

definition lastScanLess :: "ImageDetailsWithRefs \<Rightarrow> ImageDetailsWithRefs \<Rightarrow> bool" where
  "lastScanLess a b =
     (case idr_LastScan a of
        None \<Rightarrow> True
      | Some ta \<Rightarrow> (case idr_LastScan b of None \<Rightarrow> False | Some tb \<Rightarrow> ta < tb))"

fun reScanLoop :: "ImageDetailsWithRefs list \<Rightarrow> TrivyImage list \<Rightarrow> TrivyImage list \<Rightarrow> int \<Rightarrow> TrivyImage list" where
  "reScanLoop [] imgs imagesToScan maxScans = imagesToScan"
| "reScanLoop (report # rs) imgs imagesToScan maxScans =
     (if idr_RecommendationOnly report then reScanLoop rs imgs imagesToScan maxScans
      else case find (\<lambda>img. idr_Name report = tvi_Name img \<and> details_UniqueID report = image_UniqueID img) imgs of
        None \<Rightarrow> reScanLoop rs imgs imagesToScan maxScans
      | Some img \<Rightarrow>
          if int (length imagesToScan) < maxScans then reScanLoop rs imgs (imagesToScan @ [img]) maxScans
          else imagesToScan)"

text \<open>The images of the last report are sorted in place, so that the caller's report is changed too.\<close>

definition GetImagesToReScan :: "(ImageDetailsWithRefs list \<Rightarrow> ImageDetailsWithRefs list) \<Rightarrow> TrivyImage list \<Rightarrow> MinimizedReport \<Rightarrow>
    TrivyImage list \<Rightarrow> int \<Rightarrow> TrivyImage list \<times> MinimizedReport" where
  "GetImagesToReScan sortSlice imgs lastReport imagesToScan maxScans =
     (let sorted' = sortSlice (mr_Images lastReport) in
      (reScanLoop sorted' imgs imagesToScan maxScans, lastReport\<lparr>mr_Images := sorted'\<rparr>))"

definition UpdateOwnersReferenceOnMatchingImages :: "ImageDetailsWithRefs list \<Rightarrow> TrivyImage list \<Rightarrow> ImageDetailsWithRefs list" where
  "UpdateOwnersReferenceOnMatchingImages baseImages clusterImages =
     (let owners = fold (\<lambda>i m. m(image_UniqueID i \<mapsto> tvi_Owners i)) clusterImages Map.empty in
      map (\<lambda>img. case owners (details_UniqueID img) of Some os \<Rightarrow> img\<lparr>idr_Owners := os\<rparr> | None \<Rightarrow> img) baseImages)"

section \<open>Minimising\<close>

definition detailsOf :: "Vulnerability \<Rightarrow> VulnerabilityDetails" where
  "detailsOf v = \<lparr>vd_Title = vu_Title v, vd_Description = vu_Description v, vd_Severity = vu_Severity v,
     vd_VulnerabilityID = vu_VulnerabilityID v, vd_References = vu_References v\<rparr>"

definition instanceOf :: "Vulnerability \<Rightarrow> VulnerabilityInstance" where
  "instanceOf v = \<lparr>vn_InstalledVersion = vu_InstalledVersion v, vn_PkgName = vu_PkgName v,
     vn_VulnerabilityID = vu_VulnerabilityID v, vn_FixedVersion = vu_FixedVersion v\<rparr>"

definition refListOf :: "VulnerabilityList \<Rightarrow> VulnerabilityRefList" where
  "refListOf l = \<lparr>vf_Target = vl_Target l, vf_Vulnerabilities = map instanceOf (vl_Vulnerabilities l)\<rparr>"

definition withRefs :: "go_time \<Rightarrow> ImageReport \<Rightarrow> ImageDetailsWithRefs" where
  "withRefs timestamp r = \<lparr>idr_ID = irp_ID r, idr_Name = irp_Name r, idr_OSArch = irp_OSArch r, idr_Owners = irp_Owners r,
     idr_OwnerName = '''', idr_OwnerKind = '''', idr_OwnerContainer = None, idr_Namespace = '''', idr_LastScan = Some timestamp,
     idr_Report = map refListOf (irp_Reports r), idr_RecommendationOnly = irp_RecommendationOnly r, idr_Error = irp_Error r\<rparr>"

definition reportedVulns :: "ImageReport list \<Rightarrow> Vulnerability list" where
  "reportedVulns rs = concat (map (\<lambda>r. concat (map vl_Vulnerabilities (irp_Reports r))) rs)"

text \<open>
  The set of identifiers that exist is filled from the images kept of the last report and from the new ones; details of others are deleted.
  The decoded last report is taken to have its map, as Insights sends it; a nil map could not be written to.
\<close>

definition idsOf :: "ImageDetailsWithRefs list \<Rightarrow> string list" where
  "idsOf imgs = concat (map (\<lambda>img. concat (map (\<lambda>l. map vn_VulnerabilityID (vf_Vulnerabilities l)) (idr_Report img))) imgs)"

definition Minimize :: "go_time \<Rightarrow> ImageReport list \<Rightarrow> MinimizedReport \<Rightarrow> MinimizedReport" where
  "Minimize timestamp imgs lastReport =
     (let vulns = reportedVulns imgs;
          existing = idsOf (mr_Images lastReport) @ map vu_VulnerabilityID vulns;
          details = fold (\<lambda>v m. m(vu_VulnerabilityID v \<mapsto> detailsOf v)) vulns (mr_Vulnerabilities lastReport) in
      \<lparr>mr_Images = mr_Images lastReport @ map (withRefs timestamp) imgs,
       mr_Vulnerabilities = (\<lambda>k. if k \<in> set existing then details k else None)\<rparr>)"

end
