(* ===== verification/Trivy_Scan.thy ===== *)
theory Trivy_Scan
  imports Trivy_Report
begin

text \<open>
  Scanning in the trivy plugin (\<^verbatim>\<open>trivy/pkg/image/scan.go\<close>, \<^verbatim>\<open>pkg/util/util.go\<close>): the scan of one image with its commands,
  the concurrent scan of many with retries, and the reports made of the results.

  The scanner is an argument: what the \<open>i\<close>-th call for an image answers, a result, which Go allows beside an error, and the error's text.
  The goroutines share two maps under two mutexes. A goroutine is a small state machine and a step moves one of them; the locks are part of
  the state, so that a lock that is not released can be seen.
\<close>

section \<open>Results\<close>

record TrivyResults =
  tr_ImageID :: string
  tr_RepoDigests :: "string list"
  tr_Architecture :: string
  tr_OS :: string
  tr_Results :: "VulnerabilityList list"

definition getOsArch :: "TrivyResults \<Rightarrow> string" where
  "getOsArch r = (if tr_OS r = '''' \<or> tr_Architecture r = '''' then '''' else tr_OS r @ ''/'' @ tr_Architecture r)"

definition extractLastError :: "string \<Rightarrow> (string \<Rightarrow> string list) \<Rightarrow> string" where
  "extractLastError pullRef errs = (if errs pullRef = [] then '''' else last (errs pullRef))"

definition convertOne :: "(string \<Rightarrow> TrivyResults option) \<Rightarrow> (string \<Rightarrow> string list) \<Rightarrow> TrivyImage \<Rightarrow> ImageReport option" where
  "convertOne reportResultByRef trivyErrors im =
     (let i = tvi_Name im @ ''@'' @ image_GetSha im in
      case reportResultByRef (tvi_PullRef im) of
        None \<Rightarrow>
          if tvi_RecommendationOnly im then None
          else Some \<lparr>irp_ID = i, irp_Name = tvi_Name im, irp_OSArch = '''', irp_PullRef = tvi_PullRef im, irp_Owners = tvi_Owners im,
            irp_Reports = [], irp_RecommendationOnly = tvi_RecommendationOnly im, irp_Error = extractLastError (tvi_PullRef im) trivyErrors\<rparr>
      | Some r \<Rightarrow>
          let i' = (if Contains i ''sha256:'' then i
                    else case tr_RepoDigests r of digest # _ \<Rightarrow> digest | [] \<Rightarrow> tvi_Name im @ ''@'' @ tr_ImageID r) in
          Some \<lparr>irp_ID = i', irp_Name = tvi_Name im, irp_OSArch = getOsArch r, irp_PullRef = tvi_PullRef im, irp_Owners = tvi_Owners im,
            irp_Reports = tr_Results r, irp_RecommendationOnly = tvi_RecommendationOnly im, irp_Error = ''''\<rparr>)"

definition ConvertTrivyResultsToImageReport :: "TrivyImage list \<Rightarrow> (string \<Rightarrow> TrivyResults option) \<Rightarrow> (string \<Rightarrow> string list) \<Rightarrow> ImageReport list" where
  "ConvertTrivyResultsToImageReport imgs reportResultByRef trivyErrors = List.map_filter (convertOne reportResultByRef trivyErrors) imgs"

section \<open>Goroutines\<close>

definition retryCount :: nat where "retryCount = 3"

definition UnknownOSMessage :: string where "UnknownOSMessage = ''Unknown OS''"

type_synonym scanner = "nat \<Rightarrow> string \<Rightarrow> TrivyResults option \<times> string option"

text \<open>
  Where a goroutine is: not started; calling the scanner for the \<open>i\<close>-th time; waiting for the lock of the reports with an answer; holding it and
  waiting for the lock of the errors; finished.
\<close>

datatype scan_pc =
    Queued
  | Calling nat
  | WaitReports nat "TrivyResults option" "string option"
  | WaitErrors nat string
  | Finished

record scan_state =
  sc_pc :: "string \<Rightarrow> scan_pc"
  sc_reports :: "string \<Rightarrow> TrivyResults option"
  sc_errors :: "string \<Rightarrow> string list"
  sc_reportsLock :: bool
  sc_errorsLock :: bool

definition isRunning :: "scan_pc \<Rightarrow> bool" where
  "isRunning pc \<longleftrightarrow> pc \<noteq> Queued \<and> pc \<noteq> Finished"

definition moveTo :: "string \<Rightarrow> scan_pc \<Rightarrow> scan_state \<Rightarrow> scan_state" where
  "moveTo ref pc s = s\<lparr>sc_pc := (sc_pc s)(ref := pc)\<rparr>"

text \<open>
  The step of the goroutine for one pull reference, \<^const>\<open>None\<close> while it waits. The semaphore lets at most \<open>maxConcurrentScans\<close> of
  the goroutines of \<open>refs\<close> run. Leaving the loop on an unknown operating system unlocks the errors but not the reports.
\<close>

definition scanStep :: "scanner \<Rightarrow> nat \<Rightarrow> string list \<Rightarrow> string \<Rightarrow> scan_state \<Rightarrow> scan_state option" where
  "scanStep scan maxConcurrentScans refs ref s =
     (case sc_pc s ref of
        Queued \<Rightarrow>
          if length (filter (\<lambda>r. isRunning (sc_pc s r)) refs) < maxConcurrentScans then Some (moveTo ref (Calling 0) s) else None
      | Calling i \<Rightarrow> (case scan i ref of (r, err) \<Rightarrow> Some (moveTo ref (WaitReports i r err) s))
      | WaitReports i r err \<Rightarrow>
          if sc_reportsLock s then None
          else (let s' = s\<lparr>sc_reports := (sc_reports s)(ref := r)\<rparr> in
            case err of
              None \<Rightarrow> Some (moveTo ref Finished s')
            | Some e \<Rightarrow> Some (moveTo ref (WaitErrors i e) (s'\<lparr>sc_reportsLock := True\<rparr>)))
      | WaitErrors i e \<Rightarrow>
          if sc_errorsLock s then None
          else (let s' = s\<lparr>sc_errors := (sc_errors s)(ref := sc_errors s ref @ [e])\<rparr> in
            if e = UnknownOSMessage then Some (moveTo ref Finished s')
            else Some (moveTo ref (if Suc i = retryCount then Finished else Calling (Suc i)) (s'\<lparr>sc_reportsLock := False\<rparr>)))
      | Finished \<Rightarrow> None)"

definition scanStart :: scan_state where
  "scanStart = \<lparr>sc_pc = (\<lambda>_. Queued), sc_reports = (\<lambda>_. None), sc_errors = (\<lambda>_. []), sc_reportsLock = False, sc_errorsLock = False\<rparr>"

inductive scan_reach :: "scanner \<Rightarrow> nat \<Rightarrow> string list \<Rightarrow> scan_state \<Rightarrow> scan_state \<Rightarrow> bool" for scan m refs where
  scan_refl: "scan_reach scan m refs s s"
| scan_step: "scan_reach scan m refs s t \<Longrightarrow> ref \<in> set refs \<Longrightarrow> scanStep scan m refs ref t = Some u \<Longrightarrow> scan_reach scan m refs s u"

text \<open>The program waits for all goroutines by filling the semaphore.\<close>

definition allFinished :: "string list \<Rightarrow> scan_state \<Rightarrow> bool" where
  "allFinished refs s \<longleftrightarrow> list_all (\<lambda>ref. sc_pc s ref = Finished) refs"

text \<open>What one goroutine computes on its own: its last result and all its errors.\<close>

fun scanAlone :: "scanner \<Rightarrow> string \<Rightarrow> nat \<Rightarrow> nat \<Rightarrow> TrivyResults option \<times> string list" where
  "scanAlone scan ref i 0 = (None, [])"
| "scanAlone scan ref i (Suc left) =
     (case scan i ref of
        (r, None) \<Rightarrow> (r, [])
      | (r, Some e) \<Rightarrow>
          if e = UnknownOSMessage \<or> left = 0 then (r, [e])
          else (case scanAlone scan ref (Suc i) left of (r', es) \<Rightarrow> (r', e # es)))"

text \<open>The reports of a scan whose goroutines have all finished.\<close>

definition ScanImages :: "scanner \<Rightarrow> TrivyImage list \<Rightarrow> ImageReport list" where
  "ScanImages scan imgs =
     ConvertTrivyResultsToImageReport imgs (\<lambda>ref. fst (scanAlone scan ref 0 retryCount)) (\<lambda>ref. snd (scanAlone scan ref 0 retryCount))"

section \<open>One scan\<close>

record trivy_env =
  tve_getenv :: "string \<Rightarrow> string"
  tve_run :: "string \<Rightarrow> string list \<Rightarrow> string \<times> string option"
  tve_readReport :: "string \<Rightarrow> string + string"
  tve_decode :: "string \<Rightarrow> string + TrivyResults"
  tve_registryUser :: string
  tve_registryPassword :: string
  tve_registryCertDir :: string

text \<open>
  Credentials are cut out of a text before it is logged. The end of the cut is searched in the whole text, and if it is not there
  or before the start the slice panics.
\<close>

definition RemoveTokensAndPassword :: "string \<Rightarrow> string option" where
  "RemoveTokensAndPassword s =
     (let index = strIndex s ''x-access-token''; index2 = strIndex s ''@github.com'' in
      if 0 < index \<and> 0 < index2 then map_option (\<lambda>tok. ReplaceAll s tok ''<TOKEN>'') (sliceAt s (index + 15) index2)
      else let index = strIndex s ''--src-creds'' in
      if 0 < index then map_option (\<lambda>creds. ReplaceAll s creds ''<CREDENTIALS>'') (sliceAt s (index + 12) (strIndex s '' docker''))
      else let index = strIndex s ''--src-registry-token'' in
      if 0 < index then map_option (\<lambda>tok. ReplaceAll s tok ''<TOKEN>'') (sliceAt s (index + 21) (strIndex s '' docker''))
      else Some s)"

definition RunCommand :: "trivy_env \<Rightarrow> string \<Rightarrow> string list \<Rightarrow> string \<Rightarrow> (string + string) option" where
  "RunCommand env name args message =
     (case tve_run env name args of
        (out, None) \<Rightarrow> Some (Inr (TrimSpace out))
      | (out, Some err) \<Rightarrow>
          map_option (\<lambda>outputString.
            if Contains outputString UnknownOSMessage then Inl UnknownOSMessage
            else Inl (''error '' @ message @ '': '' @ err @ [CHR 0x0A] @ outputString)) (RemoveTokensAndPassword out))"

definition isWordByte :: "char \<Rightarrow> bool" where
  "isWordByte c = (let n = of_char c :: nat in 48 \<le> n \<and> n \<le> 57 \<or> 65 \<le> n \<and> n \<le> 90 \<or> 97 \<le> n \<and> n \<le> 122 \<or> n = 95)"

text \<open>Every run of other characters becomes one underscore.\<close>

fun nonWordReplace :: "bool \<Rightarrow> string \<Rightarrow> string" where
  "nonWordReplace inRun [] = []"
| "nonWordReplace inRun (c # s) =
     (if isWordByte c then c # nonWordReplace False s
      else if inRun then nonWordReplace True s else CHR ''_'' # nonWordReplace True s)"

definition hasOAuth2AccessToken :: "(string \<times> string) list \<Rightarrow> string \<Rightarrow> string option" where
  "hasOAuth2AccessToken tokens pullRef = map_option snd (find (\<lambda>(registry, token). Contains pullRef registry) tokens)"

definition TempDir :: string where "TempDir = ''/output/tmp''"

definition skopeoArgs :: "trivy_env \<Rightarrow> string \<Rightarrow> string \<Rightarrow> (string \<times> string) list \<Rightarrow> string list" where
  "skopeoArgs env pullRef dest tokens =
     [''copy''] @
     (if tve_getenv env ''SKOPEO_ARGS'' \<noteq> '''' then splitByte (CHR '','') (tve_getenv env ''SKOPEO_ARGS'') else []) @
     (if tve_getenv env ''TRIVY_INSECURE'' \<noteq> '''' then [''--src-tls-verify=false'', ''--dest-tls-verify=false''] else []) @
     (case hasOAuth2AccessToken tokens pullRef of Some token \<Rightarrow> [''--src-creds'', ''oauth2accesstoken:'' @ token] | None \<Rightarrow> []) @
     (if tve_registryUser env \<noteq> '''' \<or> tve_registryPassword env \<noteq> ''''
      then [''--src-creds'', tve_registryUser env @ '':'' @ tve_registryPassword env] else []) @
     (if tve_registryCertDir env \<noteq> '''' then [''--src-cert-dir'', tve_registryCertDir env] else []) @
     [''docker://'' @ pullRef, ''docker-archive:'' @ dest]"

fun joinWith :: "string \<Rightarrow> string list \<Rightarrow> string" where
  "joinWith sep [] = ''''"
| "joinWith sep [x] = x"
| "joinWith sep (x # xs) = x @ sep @ joinWith sep xs"

definition downloadPullRef :: "trivy_env \<Rightarrow> string \<Rightarrow> (string \<times> string) list \<Rightarrow> (string + string) option" where
  "downloadPullRef env pullRef tokens =
     (let dest = TempDir @ ''/'' @ nonWordReplace False pullRef; args = skopeoArgs env pullRef dest tokens in
      case RemoveTokensAndPassword (''Running command: skopeo '' @ joinWith '' '' args) of
        None \<Rightarrow> None
      | Some logged \<Rightarrow>
          (case RunCommand env ''skopeo'' args (''pulling image '' @ pullRef) of
             None \<Rightarrow> None
           | Some (Inl err) \<Rightarrow> Some (Inl (''error pulling '' @ pullRef @ '' with skopeo: '' @ err))
           | Some (Inr _) \<Rightarrow> Some (Inr dest)))"

definition replacePullRef :: "string \<Rightarrow> string \<Rightarrow> string" where
  "replacePullRef refReplacements pullRef =
     (if refReplacements = '''' then pullRef
      else fold (\<lambda>replacement ref. case splitByte (CHR '','') replacement of [old, new] \<Rightarrow> ReplaceAll ref old new | _ \<Rightarrow> ref)
        (splitByte (CHR '';'') refReplacements) pullRef)"

definition readResults :: "trivy_env \<Rightarrow> string \<Rightarrow> string \<Rightarrow> string + TrivyResults" where
  "readResults env imageID reportFile =
     (case tve_readReport env reportFile of
        Inl err \<Rightarrow> Inl (''error reading report '' @ imageID @ '': '' @ err)
      | Inr body \<Rightarrow>
          (case tve_decode env body of
             Inl err \<Rightarrow> Inl (''error decoding report '' @ imageID @ '': '' @ err)
           | Inr report \<Rightarrow> Inr report))"

definition runScan :: "trivy_env \<Rightarrow> string list \<Rightarrow> string \<Rightarrow> string \<Rightarrow> string \<Rightarrow> (string + TrivyResults) option" where
  "runScan env args pullRef imageID reportFile =
     (case RunCommand env ''trivy'' args (''scanning '' @ pullRef) of
        None \<Rightarrow> None
      | Some (Inl err) \<Rightarrow> Some (Inl (''error scanning '' @ pullRef @ '': '' @ err))
      | Some (Inr _) \<Rightarrow> Some (readResults env imageID reportFile))"

definition ScanImage :: "trivy_env \<Rightarrow> string \<Rightarrow> string \<Rightarrow> string \<Rightarrow> (string \<times> string) list \<Rightarrow> (string + TrivyResults) option" where
  "ScanImage env extraFlags pullRef trivyServerURL tokens =
     (let imageID = nonWordReplace False pullRef; reportFile = TempDir @ ''/trivy-report-'' @ imageID @ ''.json'' in
      if trivyServerURL \<noteq> ''''
      then runScan env [''-d'', ''image'', ''--server'', trivyServerURL, ''--scanners'', ''vuln'', pullRef, ''-f'', ''json'', ''-o'', reportFile]
        pullRef imageID reportFile
      else let args = [''-d'', ''image'', ''--skip-db-update'', ''--skip-java-db-update'', ''--security-checks'', ''vuln'', ''-f'', ''json'', ''-o'', reportFile] @
             (if extraFlags \<noteq> '''' then [extraFlags] else []) @
             (if tve_getenv env ''OFFLINE'' \<noteq> '''' then [''--offline-scan''] else []);
             ref = replacePullRef (tve_getenv env ''PULL_REF_REPLACEMENTS'') pullRef in
        (case downloadPullRef env ref tokens of
           None \<Rightarrow> None
         | Some (Inl err) \<Rightarrow> Some (Inl (''error while downloading image: '' @ err))
         | Some (Inr imageFile) \<Rightarrow> runScan env (args @ [''--input'', imageFile]) ref imageID reportFile))"

text \<open>The scanner that the program passes to \<^verbatim>\<open>ScanImages\<close>; the environment may answer differently at every call.\<close>

definition scannerOf :: "(nat \<Rightarrow> trivy_env) \<Rightarrow> string \<Rightarrow> string \<Rightarrow> (string \<times> string) list \<Rightarrow> nat \<Rightarrow> string \<Rightarrow> (TrivyResults option \<times> string option) option" where
  "scannerOf envs extraFlags trivyServerURL tokens i pullRef =
     (case ScanImage (envs i) extraFlags pullRef trivyServerURL tokens of
        None \<Rightarrow> None
      | Some (Inl err) \<Rightarrow> Some (None, Some err)
      | Some (Inr r) \<Rightarrow> Some (Some r, None))"

section \<open>The goroutines compute what each computes alone\<close>

definition aheadOf :: "scanner \<Rightarrow> string \<Rightarrow> nat \<Rightarrow> string list \<Rightarrow> bool" where
  "aheadOf scan ref i errs \<longleftrightarrow> i < retryCount \<and>
     scanAlone scan ref 0 retryCount = (fst (scanAlone scan ref i (retryCount - i)), errs @ snd (scanAlone scan ref i (retryCount - i)))"

text \<open>What is known of a goroutine at each of its places.\<close>

fun goroutine_ok :: "scanner \<Rightarrow> string \<Rightarrow> scan_pc \<Rightarrow> TrivyResults option \<Rightarrow> string list \<Rightarrow> bool" where
  "goroutine_ok scan ref Queued r errs \<longleftrightarrow> errs = []"
| "goroutine_ok scan ref (Calling i) r errs \<longleftrightarrow> aheadOf scan ref i errs"
| "goroutine_ok scan ref (WaitReports i r' e) r errs \<longleftrightarrow> aheadOf scan ref i errs \<and> scan i ref = (r', e)"
| "goroutine_ok scan ref (WaitErrors i e) r errs \<longleftrightarrow> aheadOf scan ref i errs \<and> scan i ref = (r, Some e)"
| "goroutine_ok scan ref Finished r errs \<longleftrightarrow> scanAlone scan ref 0 retryCount = (r, errs)"

definition goroutines_ok :: "scanner \<Rightarrow> scan_state \<Rightarrow> bool" where
  "goroutines_ok scan s \<longleftrightarrow> (\<forall>ref. goroutine_ok scan ref (sc_pc s ref) (sc_reports s ref) (sc_errors s ref))"

lemma aheadOf_next:
  assumes "aheadOf scan ref i errs" "scan i ref = (r, Some e)"
  shows "e = UnknownOSMessage \<or> Suc i = retryCount \<Longrightarrow> scanAlone scan ref 0 retryCount = (r, errs @ [e])"
    "e \<noteq> UnknownOSMessage \<Longrightarrow> Suc i \<noteq> retryCount \<Longrightarrow> aheadOf scan ref (Suc i) (errs @ [e])"
proof -
  obtain left where left: "retryCount - i = Suc left" using assms(1) by (metis aheadOf_def Suc_diff_Suc)
  then have l: "left = retryCount - Suc i" by simp
  have one: "scanAlone scan ref i (retryCount - i) =
      (if e = UnknownOSMessage \<or> left = 0 then (r, [e]) else (case scanAlone scan ref (Suc i) left of (r', es) \<Rightarrow> (r', e # es)))"
    using assms(2) by (simp add: left)
  show "e = UnknownOSMessage \<or> Suc i = retryCount \<Longrightarrow> scanAlone scan ref 0 retryCount = (r, errs @ [e])"
    using assms(1) one l by (auto simp: aheadOf_def)
  show "e \<noteq> UnknownOSMessage \<Longrightarrow> Suc i \<noteq> retryCount \<Longrightarrow> aheadOf scan ref (Suc i) (errs @ [e])"
    using assms(1) one l by (auto simp: aheadOf_def split: prod.splits)
qed

lemma aheadOf_success:
  assumes "aheadOf scan ref i errs" "scan i ref = (r, None)"
  shows "scanAlone scan ref 0 retryCount = (r, errs)"
proof -
  obtain left where "retryCount - i = Suc left" using assms(1) by (metis aheadOf_def Suc_diff_Suc)
  then show ?thesis using assms by (simp add: aheadOf_def)
qed

lemma goroutines_ok_step:
  assumes "scanStep scan m refs ref s = Some t" "goroutines_ok scan s"
  shows "goroutines_ok scan t"
proof -
  have own: "goroutine_ok scan ref (sc_pc s ref) (sc_reports s ref) (sc_errors s ref)" using assms(2) by (simp add: goroutines_ok_def)
  have others: "ref' \<noteq> ref \<Longrightarrow> sc_pc t ref' = sc_pc s ref' \<and> sc_reports t ref' = sc_reports s ref' \<and> sc_errors t ref' = sc_errors s ref'" for ref'
    using assms(1) by (auto simp: scanStep_def moveTo_def Let_def split: scan_pc.splits if_splits option.splits prod.splits)
  have "goroutine_ok scan ref (sc_pc t ref) (sc_reports t ref) (sc_errors t ref)"
  proof (cases "sc_pc s ref")
    case Queued
    with assms(1) own show ?thesis by (auto simp: scanStep_def moveTo_def aheadOf_def retryCount_def split: if_splits)
  next
    case (Calling i)
    with assms(1) own show ?thesis by (auto simp: scanStep_def moveTo_def split: prod.splits)
  next
    case (WaitReports i r e)
    with assms(1) own show ?thesis
      by (auto simp: scanStep_def moveTo_def Let_def aheadOf_success split: if_splits option.splits)
  next
    case (WaitErrors i e)
    with assms(1) own show ?thesis
      by (auto simp: scanStep_def moveTo_def Let_def aheadOf_next split: if_splits)
  next
    case Finished
    with assms(1) show ?thesis by (simp add: scanStep_def)
  qed
  with others assms(2) show ?thesis unfolding goroutines_ok_def by metis
qed

lemma goroutines_ok_reach: "scan_reach scan m refs s t \<Longrightarrow> goroutines_ok scan s \<Longrightarrow> goroutines_ok scan t"
  by (induction rule: scan_reach.induct) (auto dest: goroutines_ok_step)

lemma goroutines_ok_start: "goroutines_ok scan scanStart"
  by (simp add: goroutines_ok_def scanStart_def)

section \<open>The locks\<close>










section \<open>Progress\<close>








text \<open>
  C29: The order of the scans does not matter. Whatever way the goroutines interleave, once all have finished the reports are those that
  each image's scan yields on its own: the result of its last attempt and the last error of at most three.
\<close>
theorem scan_schedule_independent:
  assumes "scan_reach scan m refs scanStart s" and "allFinished refs s" and "set (map tvi_PullRef imgs) \<subseteq> set refs"
  shows "ConvertTrivyResultsToImageReport imgs (sc_reports s) (sc_errors s) = ScanImages scan imgs"
proof -
  have ok: "goroutines_ok scan s" using goroutines_ok_reach [OF assms(1) goroutines_ok_start] .
  have alone: "scanAlone scan (tvi_PullRef im) 0 retryCount = (sc_reports s (tvi_PullRef im), sc_errors s (tvi_PullRef im))"
    if "im \<in> set imgs" for im
  proof -
    have "tvi_PullRef im \<in> set refs" using assms(3) that by auto
    then have "sc_pc s (tvi_PullRef im) = Finished" using assms(2) by (auto simp: allFinished_def list_all_iff)
    then show ?thesis using ok by (metis goroutines_ok_def goroutine_ok.simps(5))
  qed
  have "convertOne (sc_reports s) (sc_errors s) im =
      convertOne (\<lambda>ref. fst (scanAlone scan ref 0 retryCount)) (\<lambda>ref. snd (scanAlone scan ref 0 retryCount)) im" if "im \<in> set imgs" for im
    using alone [OF that] by (simp add: convertOne_def extractLastError_def Let_def cong: if_cong option.case_cong list.case_cong)
  then show ?thesis
    by (simp add: ScanImages_def ConvertTrivyResultsToImageReport_def map_filter_def cong: map_cong filter_cong)
qed



text \<open>Runs along a given order of steps.\<close>

fun runSchedule :: "scanner \<Rightarrow> nat \<Rightarrow> string list \<Rightarrow> string list \<Rightarrow> scan_state \<Rightarrow> scan_state option" where
  "runSchedule scan m refs [] s = Some s"
| "runSchedule scan m refs (ref # sched) s =
     (case scanStep scan m refs ref s of None \<Rightarrow> None | Some t \<Rightarrow> runSchedule scan m refs sched t)"

lemma scan_reach_trans: "scan_reach scan m refs t u \<Longrightarrow> scan_reach scan m refs s t \<Longrightarrow> scan_reach scan m refs s u"
  by (induction rule: scan_reach.induct) (auto intro: scan_reach.intros)

lemma runSchedule_reach: "runSchedule scan m refs sched s = Some t \<Longrightarrow> set sched \<subseteq> set refs \<Longrightarrow> scan_reach scan m refs s t"
proof (induction sched arbitrary: s)
  case (Cons ref sched)
  then obtain u where "scanStep scan m refs ref s = Some u" "runSchedule scan m refs sched u = Some t" by (auto split: option.splits)
  with Cons show ?case using scan_reach_trans scan_reach.intros by (metis insert_subset list.simps(15))
qed (auto intro: scan_reach.scan_refl)

definition demo_scanner :: scanner where
  "demo_scanner i ref = (if ref = ''bad'' then (None, Some UnknownOSMessage)
     else if i = 0 then (None, Some ''timeout'') else (Some \<lparr>tr_ImageID = ''sha256:1'', tr_RepoDigests = [], tr_Architecture = ''amd64'', tr_OS = ''linux'', tr_Results = []\<rparr>, None))"

definition demo_image :: TrivyImage where
  "demo_image = \<lparr>tvi_Name = ''web:1'', tvi_ID = '''', tvi_PullRef = ''web:1'', tvi_Owners = [], tvi_RecommendationOnly = False\<rparr>"

lemmas schedule_defs = scanStep_def scanStart_def moveTo_def isRunning_def demo_scanner_def retryCount_def UnknownOSMessage_def Let_def

theorem scan_schedule_independent_witness:
  "\<exists>s. scan_reach demo_scanner 1 [''web:1''] scanStart s \<and>
    map irp_ID (ConvertTrivyResultsToImageReport [demo_image] (sc_reports s) (sc_errors s)) = [''web:1@sha256:1'']"
proof -
  obtain s where s: "runSchedule demo_scanner 1 [''web:1''] (replicate 6 ''web:1'') scanStart = Some s" "sc_pc s ''web:1'' = Finished"
    by (simp add: numeral_eq_Suc schedule_defs)
  have r: "scan_reach demo_scanner 1 [''web:1''] scanStart s" by (rule runSchedule_reach [OF s(1)]) simp
  have "ConvertTrivyResultsToImageReport [demo_image] (sc_reports s) (sc_errors s) = ScanImages demo_scanner [demo_image]"
    by (rule scan_schedule_independent [OF r]) (simp_all add: allFinished_def s demo_image_def)
  moreover have "map irp_ID (ScanImages demo_scanner [demo_image]) = [''web:1@sha256:1'']" by code_simp
  ultimately show ?thesis using r by auto
qed



section \<open>The program's own scanner\<close>

lemma error_prefixes:
  "''error while downloading image: '' @ x \<noteq> UnknownOSMessage" "''error scanning '' @ x \<noteq> UnknownOSMessage"
  "''error reading report '' @ x \<noteq> UnknownOSMessage" "''error decoding report '' @ x \<noteq> UnknownOSMessage"
  by (simp_all add: UnknownOSMessage_def)

text \<open>
  The program does not recognise an unknown operating system. Its scanner wraps every error in a text of its own, so that the
  comparison with the bare message never holds: such an image is scanned \<open>retryCount\<close> times, and the blocking branch is not reached.
\<close>
theorem unknown_os_never_recognised:
  assumes "scannerOf envs extraFlags trivyServerURL tokens i pullRef = Some (r, Some err)"
  shows "err \<noteq> UnknownOSMessage"
  using assms
  by (auto simp: scannerOf_def ScanImage_def runScan_def readResults_def error_prefixes Let_def simp del: append.simps
      split: option.splits sum.splits if_splits)

definition demo_trivy_env :: trivy_env where
  "demo_trivy_env = \<lparr>tve_getenv = (\<lambda>_. ''''), tve_run = (\<lambda>cmd args. (''Unknown OS'', Some ''exit status 1'')),
     tve_readReport = (\<lambda>_. Inl ''no file''), tve_decode = (\<lambda>_. Inl ''no JSON''), tve_registryUser = '''', tve_registryPassword = '''',
     tve_registryCertDir = ''''\<rparr>"

theorem unknown_os_never_recognised_witness:
  "\<exists>err. scannerOf (\<lambda>_. demo_trivy_env) '''' ''http://trivy'' [] 0 ''web:1'' = Some (None, Some err) \<and> err \<noteq> UnknownOSMessage \<and>
     Contains err UnknownOSMessage"
proof -
  have e: "scannerOf (\<lambda>_. demo_trivy_env) '''' ''http://trivy'' [] 0 ''web:1'' = Some (None, Some ''error scanning web:1: Unknown OS'')"
    by code_simp
  have "Contains ''error scanning web:1: Unknown OS'' UnknownOSMessage" by code_simp
  with e unknown_os_never_recognised [OF e] show ?thesis by blast
qed

end
