(* ===== verification/Trivy_Main.thy ===== *)
theory Trivy_Main
  imports Trivy_Scan
begin

text \<open>
  The program of the trivy plugin (\<^verbatim>\<open>trivy/cmd/trivy/main.go\<close>) with its configuration (\<^verbatim>\<open>pkg/config\<close>), the images of the
  cluster (\<^verbatim>\<open>pkg/image/getimages.go\<close>) and the newer versions of images (\<^verbatim>\<open>pkg/image/newest_images.go\<close>).

  Parameters: the answers of Insights, of Kubernetes and of the registry, the semantic versions of the library \<^verbatim>\<open>semver\<close>, the two
  runs of the scanner, the clock. Where Go ranges over a map or receives from goroutines the order is a parameter too. A panic, or a program
  that waits for ever, is \<^const>\<open>None\<close>.
\<close>

section \<open>Configuration\<close>

record trivy_config =
  tcf_Offline :: bool
  tcf_MaxConcurrentScans :: int
  tcf_MaxImagesToScan :: int
  tcf_ExtraFlags :: string
  tcf_NamespaceBlocklist :: "string list"
  tcf_NamespaceAllowlist :: "string list"
  tcf_HasGKESAAnnotation :: bool
  tcf_ImagesToScan :: "string list"
  tcf_TrivyServerURL :: string

definition ParseBool :: "string \<Rightarrow> bool option" where
  "ParseBool s =
     (if s \<in> {''1'', ''t'', ''T'', ''true'', ''TRUE'', ''True''} then Some True
      else if s \<in> {''0'', ''f'', ''F'', ''false'', ''FALSE'', ''False''} then Some False
      else None)"

definition intSetting :: "int \<Rightarrow> string \<Rightarrow> string + int" where
  "intSetting dflt s = (if s = '''' then Inr dflt else case Atoi s of Inl _ \<Rightarrow> Inl ''invalid number'' | Inr n \<Rightarrow> Inr n)"

definition listSetting :: "string \<Rightarrow> string list" where
  "listSetting s = (if s \<noteq> '''' then splitByte (CHR '','') s else [])"

text \<open>\<open>annotations\<close> decodes the JSON of the service account's annotations to their keys.\<close>

definition trivy_LoadFromEnvironment :: "(string \<Rightarrow> string) \<Rightarrow> (string \<Rightarrow> string + string list) \<Rightarrow> string + trivy_config" where
  "trivy_LoadFromEnvironment getenv annotations =
     (case intSetting 5 (getenv ''MAX_CONCURRENT_SCANS'') of
        Inl err \<Rightarrow> Inl err
      | Inr maxConcurrentScans \<Rightarrow>
     (case intSetting 10 (getenv ''MAX_SCANS'') of
        Inl err \<Rightarrow> Inl err
      | Inr maxImagesToScan \<Rightarrow>
     (case (if getenv ''IGNORE_UNFIXED'' = '''' then Some False else ParseBool (getenv ''IGNORE_UNFIXED'')) of
        None \<Rightarrow> Inl ''invalid boolean''
      | Some ignoreUnfixed \<Rightarrow>
     (case (if getenv ''SERVICE_ACCOUNT_ANNOTATIONS'' = '''' then Inr [] else annotations (getenv ''SERVICE_ACCOUNT_ANNOTATIONS'')) of
        Inl err \<Rightarrow> Inl err
      | Inr keys \<Rightarrow>
        Inr \<lparr>tcf_Offline = getenv ''OFFLINE'' \<noteq> '''',
          tcf_MaxConcurrentScans = maxConcurrentScans, tcf_MaxImagesToScan = maxImagesToScan,
          tcf_ExtraFlags = (if ignoreUnfixed then ''--ignore-unfixed'' else ''''),
          tcf_NamespaceBlocklist = (if getenv ''NAMESPACE_BLOCKLIST'' \<noteq> '''' then listSetting (getenv ''NAMESPACE_BLOCKLIST'')
            else listSetting (getenv ''NAMESPACE_BLACKLIST'')),
          tcf_NamespaceAllowlist = listSetting (getenv ''NAMESPACE_ALLOWLIST''),
          tcf_HasGKESAAnnotation = ''iam.gke.io/gcp-service-account'' \<in> set keys,
          tcf_ImagesToScan = listSetting (getenv ''IMAGES_TO_SCAN''),
          tcf_TrivyServerURL = getenv ''TRIVY_SERVER_URL''\<rparr>))))"

definition requiredEnvVars :: "string list" where
  "requiredEnvVars = [''FAIRWINDS_INSIGHTS_HOST'', ''FAIRWINDS_ORG'', ''FAIRWINDS_CLUSTER'', ''FAIRWINDS_TOKEN'']"

definition CheckRequiredEnvironmentVariables :: "(string \<Rightarrow> string) \<Rightarrow> string option" where
  "CheckRequiredEnvironmentVariables getenv =
     map_option (\<lambda>v. ''missing required environment variable: '' @ v) (find (\<lambda>v. getenv v = '''') requiredEnvVars)"

definition FilterImagesByName :: "TrivyImage list \<Rightarrow> string list \<Rightarrow> TrivyImage list" where
  "FilterImagesByName inClusterImages imagesToMatch = filter (\<lambda>i. tvi_Name i \<in> set imagesToMatch) inClusterImages"

section \<open>The cluster's images\<close>

record trivy_status =
  tst_Name :: string
  tst_Image :: string
  tst_ImageID :: string

record trivy_controller =
  tct_namespace :: string
  tct_kind :: string
  tct_name :: string
  tct_pods :: "trivy_status list list"

definition trivy_namespaceIsBlocked :: "string \<Rightarrow> string list \<Rightarrow> string list \<Rightarrow> bool" where
  "trivy_namespaceIsBlocked ns namespaceBlocklist namespaceAllowlist =
     (if list_ex (\<lambda>n. ns = TrimSpace (ToLower n)) namespaceBlocklist then True
      else if namespaceAllowlist = [] then False
      else \<not> list_ex (\<lambda>n. ns = TrimSpace (ToLower n)) namespaceAllowlist)"

definition statusImage :: "trivy_status \<Rightarrow> string \<times> TrivyImage" where
  "statusImage cs =
     (let imageID = TrimPrefix (tst_ImageID cs) ''docker-pullable://'';
          imageName = (if HasPrefix (tst_Image cs) ''sha256'' then imageID else tst_Image cs);
          imagePullRef = (if imageID = '''' \<or> HasPrefix imageID ''sha256:'' then imageName else imageID) in
      (imageName @ ''/'' @ imageID,
       \<lparr>tvi_Name = TrimPrefix imageName DockerIOprefix, tvi_ID = TrimPrefix imageID DockerIOprefix, tvi_PullRef = imagePullRef,
        tvi_Owners = [], tvi_RecommendationOnly = False\<rparr>))"

text \<open>The map from keys to images with their owners, in the order of insertion.\<close>

type_synonym found_images = "(string \<times> TrivyImage) list"

fun recordStatus :: "TrivyResource \<Rightarrow> trivy_status \<Rightarrow> found_images \<Rightarrow> found_images" where
  "recordStatus owner cs [] = (let (k, im) = statusImage cs in [(k, im\<lparr>tvi_Owners := [owner\<lparr>tvr_Container := tst_Name cs\<rparr>]\<rparr>)])"
| "recordStatus owner cs ((k, im) # found) =
     (let own = owner\<lparr>tvr_Container := tst_Name cs\<rparr> in
      if fst (statusImage cs) = k
      then (k, if own \<in> set (tvi_Owners im) then im else im\<lparr>tvi_Owners := tvi_Owners im @ [own]\<rparr>) # found
      else (k, im) # recordStatus owner cs found)"

definition recordTrivyController :: "string list \<Rightarrow> string list \<Rightarrow> trivy_controller \<Rightarrow> found_images \<Rightarrow> found_images" where
  "recordTrivyController namespaceBlocklist namespaceAllowlist c found =
     (if trivy_namespaceIsBlocked (tct_namespace c) namespaceBlocklist namespaceAllowlist then found
      else fold (recordStatus \<lparr>tvr_Name = tct_name c, tvr_Kind = tct_kind c, tvr_Namespace = tct_namespace c, tvr_Container = ''''\<rparr>)
        (concat (tct_pods c)) found)"

definition GetImages :: "string + trivy_controller list \<Rightarrow> string list \<Rightarrow> string list \<Rightarrow> string + TrivyImage list" where
  "GetImages answer namespaceBlocklist namespaceAllowlist =
     (case answer of
        Inl err \<Rightarrow> Inl (''could not retrieve top controllers with pods: '' @ err)
      | Inr controllers \<Rightarrow> Inr (map snd (fold (recordTrivyController namespaceBlocklist namespaceAllowlist) controllers [])))"

section \<open>Newer versions\<close>

text \<open>The library's versions: parsing, the pre-release, the original text, the constraint of a text, sorting.\<close>

record 'v semver =
  sv_parse :: "string \<Rightarrow> 'v option"
  sv_prerelease :: "'v \<Rightarrow> string"
  sv_original :: "'v \<Rightarrow> string"
  sv_constraint :: "string \<Rightarrow> string + ('v \<Rightarrow> bool)"
  sv_sort :: "'v list \<Rightarrow> 'v list"

definition isShortShaTag :: "string \<Rightarrow> bool" where
  "isShortShaTag tag = (case Atoi tag of Inl _ \<Rightarrow> False | Inr n \<Rightarrow> n > 1000)"

definition acceptTag :: "'v semver \<Rightarrow> 'v \<Rightarrow> ('v \<Rightarrow> bool) \<Rightarrow> string \<Rightarrow> 'v option" where
  "acceptTag sv curVersion check tag =
     (if isShortShaTag tag then None
      else case sv_parse sv tag of
        None \<Rightarrow> None
      | Some v \<Rightarrow>
          let cPre = sv_prerelease sv curVersion; vPre = sv_prerelease sv v in
          if cPre \<noteq> '''' \<and> vPre \<noteq> '''' \<and> cPre \<noteq> vPre then None
          else if check v then Some v else None)"

definition filterAndSort :: "'v semver \<Rightarrow> string list \<Rightarrow> string \<Rightarrow> string + string list" where
  "filterAndSort sv suggestedTags curTagStr =
     (case sv_parse sv curTagStr of
        None \<Rightarrow> Inr []
      | Some curVersion \<Rightarrow>
          (case sv_constraint sv (''>'' @ curTagStr) of
             Inl err \<Rightarrow> Inl err
           | Inr check \<Rightarrow> Inr (map (sv_original sv) (sv_sort sv (List.map_filter (acceptTag sv curVersion check) suggestedTags)))))"

definition MaxNewestVersionsToScan :: nat where "MaxNewestVersionsToScan = 1"

definition GetNewestVersions :: "'v semver \<Rightarrow> (string \<Rightarrow> string + string list) \<Rightarrow> string \<Rightarrow> string \<Rightarrow> string + string list" where
  "GetNewestVersions sv fetchTags repo tag =
     (case fetchTags repo of
        Inl err \<Rightarrow> Inl (''error fetching tags for '' @ repo @ '':'' @ tag @ '': '' @ err)
      | Inr tags \<Rightarrow>
          (case filterAndSort sv tags tag of
             Inl err \<Rightarrow> Inl err
           | Inr newest \<Rightarrow> Inr (if length newest \<le> MaxNewestVersionsToScan then newest
               else drop (length newest - MaxNewestVersionsToScan) newest)))"

record NewestVersions =
  nv_repo :: string
  nv_versions :: "string list"
  nv_err :: "string option"

definition getNewestVersions :: "'v semver \<Rightarrow> (string \<Rightarrow> string + string list) \<Rightarrow> ImageReport \<Rightarrow> NewestVersions" where
  "getNewestVersions sv fetchTags img =
     (case splitByte (CHR '':'') (irp_Name img) of
        [repo, tag] \<Rightarrow>
          if Contains (ToLower (irp_Name img)) ''@sha256:''
          then \<lparr>nv_repo = hd (splitByte (CHR ''@'') repo), nv_versions = [], nv_err = None\<rparr>
          else (case GetNewestVersions sv fetchTags repo tag of
             Inl err \<Rightarrow> \<lparr>nv_repo = repo, nv_versions = [], nv_err = Some err\<rparr>
           | Inr versions \<Rightarrow> \<lparr>nv_repo = repo, nv_versions = versions, nv_err = None\<rparr>)
      | _ \<Rightarrow> \<lparr>nv_repo = '''', nv_versions = [], nv_err = Some (''cannot find tag while getting newest version for image '' @ irp_Name img)\<rparr>)"

definition imagesWithVulns :: "ImageReport list \<Rightarrow> TrivyImage list \<Rightarrow> ImageReport list" where
  "imagesWithVulns allReports imagesToScan =
     concat (map (\<lambda>img. filter (\<lambda>r. irp_Name r = tvi_Name img \<and> report_GetSha r = image_GetSha img \<and> irp_Reports r \<noteq> []) allReports) imagesToScan)"

definition recommendation :: "string \<Rightarrow> string \<Rightarrow> TrivyImage" where
  "recommendation repo v = (let ref = repo @ '':'' @ v in
     \<lparr>tvi_Name = ref, tvi_ID = ref, tvi_PullRef = ref, tvi_Owners = [], tvi_RecommendationOnly = True\<rparr>)"

text \<open>\<open>arrive\<close> is the order in which the goroutines' answers come in.\<close>

definition GetNewestVersionsToScan :: "'v semver \<Rightarrow> (string \<Rightarrow> string + string list) \<Rightarrow> (NewestVersions list \<Rightarrow> NewestVersions list) \<Rightarrow>
    ImageReport list \<Rightarrow> TrivyImage list \<Rightarrow> TrivyImage list" where
  "GetNewestVersionsToScan sv fetchTags arrive allReports imagesToScan =
     concat (map (\<lambda>vc. map (recommendation (nv_repo vc)) (nv_versions vc))
       (arrive (map (getNewestVersions sv fetchTags) (imagesWithVulns allReports imagesToScan))))"

section \<open>The program\<close>

text \<open>
  The semaphore has room for \<open>maxConcurrentScans\<close> scans: a negative number makes its creation panic, and with zero the first
  scan waits for ever.
\<close>

definition scanAll :: "int \<Rightarrow> scanner \<Rightarrow> TrivyImage list \<Rightarrow> ImageReport list option" where
  "scanAll maxConcurrentScans scan imgs =
     (if maxConcurrentScans < 0 \<or> (maxConcurrentScans = 0 \<and> imgs \<noteq> []) then None else Some (ScanImages scan imgs))"

definition imagesInScope :: "trivy_config \<Rightarrow> TrivyImage list \<Rightarrow> TrivyImage list" where
  "imagesInScope cfg imgs = (if tcf_ImagesToScan cfg \<noteq> [] then FilterImagesByName imgs (tcf_ImagesToScan cfg) else imgs)"

text \<open>Which images are scanned, and the last report as it is left by that.\<close>

definition chooseImages :: "(ImageDetailsWithRefs list \<Rightarrow> ImageDetailsWithRefs list) \<Rightarrow> TrivyImage list \<Rightarrow> MinimizedReport \<Rightarrow> int \<Rightarrow>
    (TrivyImage list \<times> MinimizedReport) option" where
  "chooseImages sortSlice inClusterImages lastReport maxScans =
     map_option (\<lambda>unscanned. GetImagesToReScan sortSlice inClusterImages lastReport unscanned maxScans)
       (GetUnscannedImagesToScan inClusterImages (mr_Images lastReport) maxScans)"

text \<open>What is left of the last report's images.\<close>

definition keptImages :: "TrivyImage list \<Rightarrow> TrivyImage list \<Rightarrow> ImageDetailsWithRefs list \<Rightarrow> ImageDetailsWithRefs list option" where
  "keptImages inClusterImages imagesToScan imgs =
     Option.bind (GetMatchingImages (UpdateOwnersReferenceOnMatchingImages imgs inClusterImages) inClusterImages False) (\<lambda>a.
     Option.bind (GetUnmatchingImages a imagesToScan False) (\<lambda>b.
     GetMatchingImages b inClusterImages True))"

record 'v trivy_run =
  trn_sortSlice :: "ImageDetailsWithRefs list \<Rightarrow> ImageDetailsWithRefs list"
  trn_scan :: scanner
  trn_scanNewest :: scanner
  trn_semver :: "'v semver"
  trn_fetchTags :: "string \<Rightarrow> string + string list"
  trn_arrive :: "NewestVersions list \<Rightarrow> NewestVersions list"
  trn_noRecommendations :: bool
  trn_now :: go_time

definition trivy_report :: "'v trivy_run \<Rightarrow> trivy_config \<Rightarrow> TrivyImage list \<Rightarrow> MinimizedReport \<Rightarrow> MinimizedReport option" where
  "trivy_report env cfg inClusterImages lastReport =
     Option.bind (chooseImages (trn_sortSlice env) inClusterImages lastReport (tcf_MaxImagesToScan cfg)) (\<lambda>(imagesToScan, lastReport').
     Option.bind (keptImages inClusterImages imagesToScan (mr_Images lastReport')) (\<lambda>kept.
     Option.bind (scanAll (tcf_MaxConcurrentScans cfg) (trn_scan env) imagesToScan) (\<lambda>reports.
     if trn_noRecommendations env
     then Some (Minimize (trn_now env) reports (lastReport'\<lparr>mr_Images := kept\<rparr>))
     else let recommendations = GetNewestVersionsToScan (trn_semver env) (trn_fetchTags env) (trn_arrive env) reports imagesToScan in
       Option.bind (GetUnmatchingImages kept recommendations True) (\<lambda>kept'.
       Option.bind (scanAll (tcf_MaxConcurrentScans cfg) (trn_scanNewest env) recommendations) (\<lambda>more.
       Some (Minimize (trn_now env) (reports @ more) (lastReport'\<lparr>mr_Images := kept'\<rparr>)))))))"

definition updateTrivyDatabases :: "trivy_env \<Rightarrow> string option option" where
  "updateTrivyDatabases env =
     (case RunCommand env ''trivy'' [''image'', ''--download-db-only'', ''--db-repository'',
         ''ghcr.io/aquasecurity/trivy-db:2,public.ecr.aws/aquasecurity/trivy-db:2,docker.io/aquasec/trivy-db:2''] ''downloading trivy database'' of
        None \<Rightarrow> None
      | Some (Inl err) \<Rightarrow> Some (Some (''downloading trivy database: '' @ err))
      | Some (Inr _) \<Rightarrow>
     (case RunCommand env ''trivy'' [''image'', ''--download-java-db-only'', ''--java-db-repository'',
         ''ghcr.io/aquasecurity/trivy-java-db:1,public.ecr.aws/aquasecurity/trivy-java-db:1,docker.io/aquasec/trivy-java-db:1'']
         ''downloading trivy java database'' of
        None \<Rightarrow> None
      | Some (Inl err) \<Rightarrow> Some (Some (''downloading trivy java database: '' @ err))
      | Some (Inr _) \<Rightarrow> Some None))"

text \<open>The token for Google's registries is only asked for with the annotation of a service account.\<close>

definition gcloudToken :: "trivy_env \<Rightarrow> trivy_config \<Rightarrow> (string + (string \<times> string) list) option" where
  "gcloudToken env cfg =
     (if tcf_HasGKESAAnnotation cfg
      then (case RunCommand env ''gcloud'' [''auth'', ''print-access-token''] ''getting gcloud access token'' of
              None \<Rightarrow> None
            | Some (Inl err) \<Rightarrow> Some (Inl (''could not get gcloud access token: '' @ err))
            | Some (Inr oauth2AccessToken) \<Rightarrow> Some (Inr [(''gcr.io'', oauth2AccessToken), (''docker.pkg.dev'', oauth2AccessToken)]))
      else Some (Inr []))"

text \<open>
  The whole program up to writing the file; ending with an error is \<^const>\<open>Inl\<close>, a panic \<^const>\<open>None\<close>. \<open>shuffle\<close> is the
  order of the images of the cluster, and \<open>run\<close> gives the answers of the rest of the run for the tokens of the registries.
\<close>

definition trivy_main :: "(string \<Rightarrow> string) \<Rightarrow> trivy_env \<Rightarrow> (string \<Rightarrow> string + string list) \<Rightarrow> ('body \<Rightarrow> string + MinimizedReport) \<Rightarrow>
    string + int \<times> (string + 'body) \<Rightarrow> string + trivy_controller list \<Rightarrow> (TrivyImage list \<Rightarrow> TrivyImage list) \<Rightarrow>
    ((string \<times> string) list \<Rightarrow> 'v trivy_run) \<Rightarrow> (string + MinimizedReport) option" where
  "trivy_main getenv env annotations unmarshal insights cluster shuffle run =
     (case trivy_LoadFromEnvironment getenv annotations of
        Inl err \<Rightarrow> Some (Inl (''could not set environment variables: '' @ err))
      | Inr cfg \<Rightarrow>
     (case CheckRequiredEnvironmentVariables getenv of
        Some err \<Rightarrow> Some (Inl (''error checking environment variables: '' @ err))
      | None \<Rightarrow>
     Option.bind (if \<not> tcf_Offline cfg \<and> tcf_TrivyServerURL cfg = '''' then updateTrivyDatabases env else Some None) (\<lambda>updated.
     case updated of
        Some err \<Rightarrow> Some (Inl (''could not update trivy database: '' @ err))
      | None \<Rightarrow>
     (case FetchLastReport unmarshal insights of
        Inl err \<Rightarrow> Some (Inl err)
      | Inr lastReport \<Rightarrow>
     (case GetImages cluster (tcf_NamespaceBlocklist cfg) (tcf_NamespaceAllowlist cfg) of
        Inl err \<Rightarrow> Some (Inl err)
      | Inr imgs \<Rightarrow>
        let inCluster = imagesInScope cfg (shuffle imgs) in
        Option.bind (chooseImages (trn_sortSlice (run [])) inCluster lastReport (tcf_MaxImagesToScan cfg)) (\<lambda>(imagesToScan, lastReport').
        Option.bind (keptImages inCluster imagesToScan (mr_Images lastReport')) (\<lambda>_.
        Option.bind (gcloudToken env cfg) (\<lambda>answer.
        case answer of
          Inl err \<Rightarrow> Some (Inl err)
        | Inr tokens \<Rightarrow>
            map_option Inr (trivy_report ((run tokens)\<lparr>trn_noRecommendations := getenv ''NO_RECOMMENDATIONS'' \<noteq> '''',
              trn_sortSlice := trn_sortSlice (run [])\<rparr>) cfg inCluster lastReport)))))))))"

section \<open>What is scanned and what stays\<close>

lemma filterImages_eq:
  "filterImages keep imgs = Some kept \<Longrightarrow> kept = filter (\<lambda>im. keep im = Some True) imgs \<and> (\<forall>im \<in> set imgs. keep im \<noteq> None)"
  by (induction imgs arbitrary: kept) (auto split: option.splits if_splits)

lemma unscannedLoop_set: "set (unscannedLoop imgs sc added) \<subseteq> set imgs"
  by (induction imgs arbitrary: added) auto

lemma unscannedLoop_fresh: "c \<in> set (unscannedLoop imgs sc added) \<Longrightarrow> \<not> sc (image_UniqueID c) \<and> image_UniqueID c \<notin> added"
  by (induction imgs arbitrary: added) (auto split: if_splits)

lemma unscannedLoop_distinct: "distinct (map image_UniqueID (unscannedLoop imgs sc added))"
  by (induction imgs arbitrary: added) (auto dest: unscannedLoop_fresh)


text \<open>What rescanning may add to the images chosen so far.\<close>

definition addedTo :: "ImageDetailsWithRefs list \<Rightarrow> TrivyImage list \<Rightarrow> int \<Rightarrow> TrivyImage list \<Rightarrow> TrivyImage list \<Rightarrow> bool" where
  "addedTo rs imgs m chosen extra \<longleftrightarrow> set extra \<subseteq> set imgs \<and> int (length extra) \<le> max 0 (m - int (length chosen)) \<and>
     (\<forall>c \<in> set extra. \<exists>r \<in> set rs. \<not> idr_RecommendationOnly r \<and> details_UniqueID r = image_UniqueID c)"

lemma addedTo_Nil: "addedTo rs imgs m chosen []"
  by (simp add: addedTo_def)

lemma addedTo_later: "addedTo rs imgs m chosen extra \<Longrightarrow> addedTo (r # rs) imgs m chosen extra"
  by (auto simp: addedTo_def)

lemma addedTo_Cons:
  assumes "addedTo rs imgs m (chosen @ [img]) extra" "img \<in> set imgs" "details_UniqueID r = image_UniqueID img"
    and "\<not> idr_RecommendationOnly r" "int (length chosen) < m"
  shows "addedTo (r # rs) imgs m chosen (img # extra)"
  using assms by (auto simp: addedTo_def)

lemma reScanLoop_shape: "\<exists>extra. reScanLoop rs imgs chosen m = chosen @ extra \<and> addedTo rs imgs m chosen extra"
proof (induction rs arbitrary: chosen)
  case (Cons r rs)
  show ?case
  proof (cases "find (\<lambda>img. idr_Name r = tvi_Name img \<and> details_UniqueID r = image_UniqueID img) imgs")
    case None
    then show ?thesis using Cons [of chosen] addedTo_later by fastforce
  next
    case (Some img)
    then have img: "img \<in> set imgs" "details_UniqueID r = image_UniqueID img" by (auto simp: find_Some_iff)
    obtain extra where "reScanLoop rs imgs (chosen @ [img]) m = (chosen @ [img]) @ extra" "addedTo rs imgs m (chosen @ [img]) extra"
      using Cons by blast
    then show ?thesis using Cons [of chosen] Some addedTo_later [of rs imgs m chosen] addedTo_Cons [OF _ img] addedTo_Nil
      by (cases "idr_RecommendationOnly r"; cases "int (length chosen) < m") fastforce+
  qed
qed (simp add: addedTo_Nil)

text \<open>The choice: the images never scanned come first, the rest are images of the last report, and there are at most as many as allowed.\<close>

lemma chooseImages_shape:
  assumes "chooseImages sortSlice cl lastReport m = Some (sched, last')"
  obtains extra where "0 \<le> m \<or> unscannedLoop cl (convertImagesWithRefsToMap (mr_Images lastReport)) {} = []"
    and "sched = take (nat m) (unscannedLoop cl (convertImagesWithRefsToMap (mr_Images lastReport)) {}) @ extra"
    and "set extra \<subseteq> set cl" "int (length sched) \<le> max 0 m"
    and "\<forall>c \<in> set extra. \<exists>r \<in> set (sortSlice (mr_Images lastReport)). \<not> idr_RecommendationOnly r \<and> details_UniqueID r = image_UniqueID c"
    and "last' = lastReport\<lparr>mr_Images := sortSlice (mr_Images lastReport)\<rparr>"
proof -
  let ?u = "unscannedLoop cl (convertImagesWithRefsToMap (mr_Images lastReport)) {}"
  obtain un where un: "GetUnscannedImagesToScan cl (mr_Images lastReport) m = Some un"
      "GetImagesToReScan sortSlice cl lastReport un m = (sched, last')"
    using assms by (auto simp: chooseImages_def)
  have m: "0 \<le> m \<or> ?u = []" using un(1) by (auto simp: GetUnscannedImagesToScan_def Let_def split: if_splits)
  then have t: "un = take (nat m) ?u" using un(1) by (auto simp: GetUnscannedImagesToScan_def Let_def split: if_splits)
  obtain extra where extra: "sched = un @ extra" "set extra \<subseteq> set cl" "int (length extra) \<le> max 0 (m - int (length un))"
      "\<forall>c \<in> set extra. \<exists>r \<in> set (sortSlice (mr_Images lastReport)). \<not> idr_RecommendationOnly r \<and> details_UniqueID r = image_UniqueID c"
      "last' = lastReport\<lparr>mr_Images := sortSlice (mr_Images lastReport)\<rparr>"
    using reScanLoop_shape [of "sortSlice (mr_Images lastReport)" cl un m] un(2) unfolding addedTo_def
    by (auto simp: GetImagesToReScan_def Let_def)
  have "int (length sched) \<le> max 0 m" using extra(1,3) t m by auto
  with m t extra show thesis using that by blast
qed

text \<open>
  The budget of a run. At most as many images are scanned as configured, all of them are in the cluster, those never scanned come
  first and are told apart, and the others are in the last report.
\<close>
theorem scan_budget:
  assumes "chooseImages sortSlice cl lastReport m = Some (sched, last')" and "0 \<le> m" and "\<And>xs. set (sortSlice xs) = set xs"
  shows "int (length sched) \<le> m \<and> set sched \<subseteq> set cl \<and>
    (\<exists>new old. sched = new @ old \<and> distinct (map image_UniqueID new) \<and>
      image_UniqueID ` set new \<inter> details_UniqueID ` set (mr_Images lastReport) = {} \<and>
      image_UniqueID ` set old \<subseteq> details_UniqueID ` set (mr_Images lastReport))"
proof -
  let ?u = "unscannedLoop cl (convertImagesWithRefsToMap (mr_Images lastReport)) {}"
  obtain extra where extra: "sched = take (nat m) ?u @ extra" "set extra \<subseteq> set cl" "int (length sched) \<le> max 0 m"
      "\<forall>c \<in> set extra. \<exists>r \<in> set (sortSlice (mr_Images lastReport)). \<not> idr_RecommendationOnly r \<and> details_UniqueID r = image_UniqueID c"
    using chooseImages_shape [OF assms(1)] by metis
  have "set sched \<subseteq> set cl" using extra(1,2) unscannedLoop_set [of cl] set_take_subset [of "nat m" ?u] by fastforce
  moreover have "distinct (map image_UniqueID (take (nat m) ?u))" using unscannedLoop_distinct by (simp add: distinct_take flip: take_map)
  moreover have "image_UniqueID ` set (take (nat m) ?u) \<inter> details_UniqueID ` set (mr_Images lastReport) = {}"
    using unscannedLoop_fresh [of _ cl] set_take_subset [of "nat m" ?u] by (fastforce simp: convertImagesWithRefsToMap_def)
  moreover have "image_UniqueID ` set extra \<subseteq> details_UniqueID ` set (mr_Images lastReport)"
    using extra(4) unfolding assms(3) by (metis image_eqI image_subsetI)
  ultimately show ?thesis using extra(1,3) assms(2) by auto
qed

definition withClusterOwners :: "TrivyImage list \<Rightarrow> ImageDetailsWithRefs \<Rightarrow> ImageDetailsWithRefs" where
  "withClusterOwners cl img =
     (case fold (\<lambda>i m. m(image_UniqueID i \<mapsto> tvi_Owners i)) cl Map.empty (details_UniqueID img) of
        Some os \<Rightarrow> img\<lparr>idr_Owners := os\<rparr> | None \<Rightarrow> img)"

lemma UpdateOwners_map: "UpdateOwnersReferenceOnMatchingImages imgs cl = map (withClusterOwners cl) imgs"
  by (simp add: UpdateOwnersReferenceOnMatchingImages_def withClusterOwners_def Let_def)

lemma withClusterOwners_fields [simp]:
  "details_UniqueID (withClusterOwners cl im) = details_UniqueID im" "idr_Report (withClusterOwners cl im) = idr_Report im"
  "idr_RecommendationOnly (withClusterOwners cl im) = idr_RecommendationOnly im" "idr_Name (withClusterOwners cl im) = idr_Name im"
  "idr_LastScan (withClusterOwners cl im) = idr_LastScan im"
  by (simp_all add: withClusterOwners_def details_UniqueID_def split: option.splits)




lemma keptImages_set:
  assumes "keptImages cl sched imgs = Some kept"
  shows "\<not> idr_RecommendationOnly im \<Longrightarrow> im \<in> set imgs \<Longrightarrow> details_UniqueID im \<in> image_UniqueID ` set cl \<Longrightarrow>
      details_UniqueID im \<notin> image_UniqueID ` set sched \<Longrightarrow> withClusterOwners cl im \<in> set kept"
    and "set kept \<subseteq> withClusterOwners cl ` set imgs"
    and "e \<in> set kept \<Longrightarrow> \<not> idr_RecommendationOnly e \<Longrightarrow> details_UniqueID e \<in> image_UniqueID ` set cl \<and> details_UniqueID e \<notin> image_UniqueID ` set sched"
proof -
  obtain a b where ab: "GetMatchingImages (UpdateOwnersReferenceOnMatchingImages imgs cl) cl False = Some a"
      "GetUnmatchingImages a sched False = Some b" "GetMatchingImages b cl True = Some kept"
    using assms by (auto simp: keptImages_def bind_eq_Some_conv)
  have a: "a = filter (\<lambda>im. idr_RecommendationOnly im \<or> details_UniqueID im \<in> image_UniqueID ` set cl) (map (withClusterOwners cl) imgs)"
    using filterImages_eq [OF ab(1) [unfolded GetMatchingImages_def getImages_def]]
    by (simp add: keepsImage_def convertImagesToMap_def UpdateOwners_map)
  have b: "b = filter (\<lambda>im. idr_RecommendationOnly im \<or> details_UniqueID im \<notin> image_UniqueID ` set sched) a"
    using filterImages_eq [OF ab(2) [unfolded GetUnmatchingImages_def getImages_def]]
    by (simp add: keepsImage_def convertImagesToMap_def)
  let ?keep = "keepsImage (convertImagesToMap cl) (imagesRepositoryMap cl) True True"
  have k: "kept = filter (\<lambda>im. ?keep im = Some True) b" "\<forall>im \<in> set b. ?keep im \<noteq> None"
    using filterImages_eq [OF ab(3) [unfolded GetMatchingImages_def getImages_def]] by auto
  have keep: "im \<in> set b \<Longrightarrow> \<not> idr_RecommendationOnly im \<Longrightarrow> ?keep im = Some True" for im
    using k(2) by (auto simp: keepsImage_def split: list.splits)
  show "\<not> idr_RecommendationOnly im \<Longrightarrow> im \<in> set imgs \<Longrightarrow> details_UniqueID im \<in> image_UniqueID ` set cl \<Longrightarrow>
      details_UniqueID im \<notin> image_UniqueID ` set sched \<Longrightarrow> withClusterOwners cl im \<in> set kept"
    using keep [of "withClusterOwners cl im"] by (simp add: k(1) b a)
  show "set kept \<subseteq> withClusterOwners cl ` set imgs" by (auto simp: k(1) b a)
  show "e \<in> set kept \<Longrightarrow> \<not> idr_RecommendationOnly e \<Longrightarrow> details_UniqueID e \<in> image_UniqueID ` set cl \<and> details_UniqueID e \<notin> image_UniqueID ` set sched"
    by (auto simp: k(1) b a)
qed

text \<open>The report of a run: what was kept, then what was scanned, then what was scanned as recommendations.\<close>

lemma trivy_report_images:
  assumes "trivy_report env cfg cl lastReport = Some report"
    and "chooseImages (trn_sortSlice env) cl lastReport (tcf_MaxImagesToScan cfg) = Some (sched, last')"
  obtains kept kept' recs where "keptImages cl sched (mr_Images last') = Some kept"
    and "set kept' \<subseteq> set kept" "\<And>e. e \<in> set kept \<Longrightarrow> \<not> idr_RecommendationOnly e \<Longrightarrow> e \<in> set kept'"
    and "report = Minimize (trn_now env) (ScanImages (trn_scan env) sched @ recs) (last'\<lparr>mr_Images := kept'\<rparr>)"
proof -
  obtain kept where kept: "keptImages cl sched (mr_Images last') = Some kept"
      "(if trn_noRecommendations env
        then Some (Minimize (trn_now env) (ScanImages (trn_scan env) sched) (last'\<lparr>mr_Images := kept\<rparr>))
        else let recommendations = GetNewestVersionsToScan (trn_semver env) (trn_fetchTags env) (trn_arrive env) (ScanImages (trn_scan env) sched) sched in
          Option.bind (GetUnmatchingImages kept recommendations True) (\<lambda>kept'.
          Option.bind (scanAll (tcf_MaxConcurrentScans cfg) (trn_scanNewest env) recommendations) (\<lambda>more.
          Some (Minimize (trn_now env) (ScanImages (trn_scan env) sched @ more) (last'\<lparr>mr_Images := kept'\<rparr>))))) = Some report"
    using assms by (auto simp: trivy_report_def scanAll_def Let_def bind_eq_Some_conv split: if_splits)
  show thesis
  proof (cases "trn_noRecommendations env")
    case True
    then show thesis using kept that [of kept kept "[]"] by simp
  next
    case False
    then obtain recommendations kept' recs where k: "GetUnmatchingImages kept recommendations True = Some kept'"
        "report = Minimize (trn_now env) (ScanImages (trn_scan env) sched @ recs) (last'\<lparr>mr_Images := kept'\<rparr>)"
      using kept(2) by (auto simp: Let_def bind_eq_Some_conv)
    let ?keep = "keepsImage (convertImagesToMap recommendations) (imagesRepositoryMap recommendations) True False"
    have f: "kept' = filter (\<lambda>im. ?keep im = Some True) kept" "\<forall>im \<in> set kept. ?keep im \<noteq> None"
      using filterImages_eq [OF k(1) [unfolded GetUnmatchingImages_def getImages_def]] by auto
    have "e \<in> set kept'" if "e \<in> set kept" "\<not> idr_RecommendationOnly e" for e
      using f that by (auto simp: keepsImage_def split: list.splits)
    then show thesis using that [OF kept(1) _ _ k(2)] f(1) by auto
  qed
qed




lemma fold_details_dom:
  "dom (fold (\<lambda>v m. m(vu_VulnerabilityID v \<mapsto> detailsOf v)) vs m) = dom m \<union> set (map vu_VulnerabilityID vs)"
  by (induction vs arbitrary: m) auto

lemma idsOf_set: "set (idsOf imgs) = (\<Union>img \<in> set imgs. \<Union>l \<in> set (idr_Report img). vn_VulnerabilityID ` set (vf_Vulnerabilities l))"
  by (auto simp: idsOf_def)

lemma idsOf_append: "set (idsOf (xs @ ys)) = set (idsOf xs) \<union> set (idsOf ys)"
  by (simp add: idsOf_def)

lemma idsOf_withRefs: "set (idsOf (map (withRefs now) rs)) = set (map vu_VulnerabilityID (reportedVulns rs))"
  by (force simp: idsOf_set reportedVulns_def withRefs_def refListOf_def instanceOf_def image_image)

lemma Minimize_dom:
  assumes "set (idsOf (mr_Images lastReport)) \<subseteq> dom (mr_Vulnerabilities lastReport)"
  shows "dom (mr_Vulnerabilities (Minimize now rs lastReport)) = set (idsOf (mr_Images (Minimize now rs lastReport)))"
proof -
  have restrict: "dom (\<lambda>k. if k \<in> S then m k else None) = S \<inter> dom m" for S and m :: "string \<rightharpoonup> VulnerabilityDetails"
    by (auto simp: dom_def)
  have "dom (mr_Vulnerabilities (Minimize now rs lastReport)) =
      (set (idsOf (mr_Images lastReport)) \<union> set (map vu_VulnerabilityID (reportedVulns rs))) \<inter>
      (dom (mr_Vulnerabilities lastReport) \<union> set (map vu_VulnerabilityID (reportedVulns rs)))"
    unfolding Minimize_def Let_def MinimizedReport.simps idsOf_append set_append idsOf_withRefs restrict fold_details_dom ..
  then show ?thesis using assms by (auto simp: Minimize_def Let_def idsOf_append idsOf_withRefs)
qed

lemma idsOf_mono: "set xs \<subseteq> set ys \<Longrightarrow> set (idsOf xs) \<subseteq> set (idsOf ys)"
  by (auto simp: idsOf_set)

text \<open>
  C28: The report is closed and has nothing to spare. If the last report has the details of every vulnerability that its images refer to, then
  the new report has the details of exactly those that its images refer to.
\<close>
theorem details_exactly_referenced:
  assumes "trivy_report env cfg cl lastReport = Some report" and "\<And>xs. set (trn_sortSlice env xs) = set xs"
    and "set (idsOf (mr_Images lastReport)) \<subseteq> dom (mr_Vulnerabilities lastReport)"
  shows "dom (mr_Vulnerabilities report) = set (idsOf (mr_Images report))"
proof -
  obtain sched last' where choice: "chooseImages (trn_sortSlice env) cl lastReport (tcf_MaxImagesToScan cfg) = Some (sched, last')"
    using assms(1) by (auto simp: trivy_report_def bind_eq_Some_conv)
  obtain kept kept' recs where k: "keptImages cl sched (mr_Images last') = Some kept" "set kept' \<subseteq> set kept"
      "report = Minimize (trn_now env) (ScanImages (trn_scan env) sched @ recs) (last'\<lparr>mr_Images := kept'\<rparr>)"
    using trivy_report_images [OF assms(1) choice] by metis
  have last: "last' = lastReport\<lparr>mr_Images := trn_sortSlice env (mr_Images lastReport)\<rparr>"
    using chooseImages_shape [OF choice] by metis
  have "set (idsOf (map (withClusterOwners cl) imgs)) = set (idsOf imgs)" for imgs by (simp add: idsOf_set)
  moreover have "set kept' \<subseteq> set (map (withClusterOwners cl) (trn_sortSlice env (mr_Images lastReport)))"
    using k(2) keptImages_set(2) [OF k(1)] by (auto simp: last)
  ultimately have "set (idsOf kept') \<subseteq> set (idsOf (mr_Images lastReport))"
    using idsOf_mono idsOf_mono [of "trn_sortSlice env (mr_Images lastReport)" "mr_Images lastReport"] assms(2) by (metis order_refl order_trans)
  then have "set (idsOf (mr_Images (last'\<lparr>mr_Images := kept'\<rparr>))) \<subseteq> dom (mr_Vulnerabilities (last'\<lparr>mr_Images := kept'\<rparr>))"
    using assms(3) by (auto simp: last)
  from Minimize_dom [OF this] show ?thesis unfolding k(3) .
qed

text \<open>
  An image that was scanned as a recommendation is not scanned when it is deployed. If all entries of the last report under an image's identifier
  are recommendations, the image is not chosen for a scan, however large the budget, and every entry kept under its identifier is still
  a recommendation.
\<close>
theorem adopted_recommendation_not_scanned:
  assumes "chooseImages sortSlice cl lastReport m = Some (sched, last')" and "keptImages cl sched (mr_Images last') = Some kept"
    and "\<And>xs. set (sortSlice xs) = set xs"
    and "im \<in> set (mr_Images lastReport)" "details_UniqueID im = image_UniqueID c"
    and "list_all (\<lambda>e. details_UniqueID e = image_UniqueID c \<longrightarrow> idr_RecommendationOnly e) (mr_Images lastReport)"
  shows "image_UniqueID c \<notin> image_UniqueID ` set sched \<and>
    list_all (\<lambda>e. details_UniqueID e = image_UniqueID c \<longrightarrow> idr_RecommendationOnly e) kept"
proof -
  obtain extra where shape: "sched = take (nat m) (unscannedLoop cl (convertImagesWithRefsToMap (mr_Images lastReport)) {}) @ extra"
      "\<forall>c \<in> set extra. \<exists>r \<in> set (sortSlice (mr_Images lastReport)). \<not> idr_RecommendationOnly r \<and> details_UniqueID r = image_UniqueID c"
      "last' = lastReport\<lparr>mr_Images := sortSlice (mr_Images lastReport)\<rparr>"
    using chooseImages_shape [OF assms(1)] by metis
  have "image_UniqueID d \<noteq> image_UniqueID c" if "d \<in> set (unscannedLoop cl (convertImagesWithRefsToMap (mr_Images lastReport)) {})" for d
    using unscannedLoop_fresh [OF that] assms(4,5) unfolding convertImagesWithRefsToMap_def by (metis image_eqI set_map)
  moreover have "image_UniqueID d \<noteq> image_UniqueID c" if d: "d \<in> set extra" for d
  proof -
    obtain r where "r \<in> set (mr_Images lastReport)" "\<not> idr_RecommendationOnly r" "details_UniqueID r = image_UniqueID d"
      using shape(2) d assms(3) by metis
    then show ?thesis using assms(6) by (auto simp: list_all_iff)
  qed
  ultimately have "image_UniqueID c \<notin> image_UniqueID ` set sched" unfolding shape(1) by (auto simp del: set_take_subset dest!: in_set_takeD) metis+
  moreover have "list_all (\<lambda>e. details_UniqueID e = image_UniqueID c \<longrightarrow> idr_RecommendationOnly e) kept"
    using keptImages_set(2) [OF assms(2)] assms(3,6) by (fastforce simp: list_all_iff shape(3))
  ultimately show ?thesis by blast
qed

lemma splitByte_no: "x \<in> set (splitByte c s) \<Longrightarrow> c \<notin> set x"
  by (induction s arbitrary: x) (auto split: if_splits list.splits)

lemma getShaFromID_no_at: "CHR ''@'' \<notin> set (getShaFromID i)"
proof -
  have ne: "splitByte (CHR ''@'') s \<noteq> []" for s by (induction s) (auto split: list.splits)
  have "splitByte (CHR ''@'') i = [x] \<Longrightarrow> x = i" for x
    by (induction i arbitrary: x) (auto simp: ne split: if_splits list.splits)
  with ne [of i] show ?thesis using splitByte_no [of _ "CHR ''@''" i]
    by (auto simp: getShaFromID_def split: list.splits)
qed

text \<open>
  An image without an identifier is scanned in every run. The entry that its scan leaves in the report, whether the scan failed or not, has another
  identifier than the image, so that the next run takes the image for one that was never scanned.
\<close>
theorem image_without_id_rescanned:
  assumes "tvi_ID c = ''''" and "convertOne results errs c = Some r" and "irp_ID r \<noteq> ''''"
  shows "GetUnscannedImagesToScan [c] [withRefs now r] 1 = Some [c]"
proof -
  have "details_UniqueID (withRefs now r) = getShaFromID (irp_ID r)" using assms(3) by (simp add: details_UniqueID_def withRefs_def getUniqueID_def)
  moreover have "image_UniqueID c = tvi_Name c @ ''@''" using assms(1) by (simp add: image_UniqueID_def getUniqueID_def)
  ultimately have "image_UniqueID c \<noteq> details_UniqueID (withRefs now r)" using getShaFromID_no_at [of "irp_ID r"] by (metis in_set_conv_decomp)
  then show ?thesis by (simp add: GetUnscannedImagesToScan_def convertImagesWithRefsToMap_def Let_def)
qed

section \<open>A run\<close>

definition demo_vuln :: Vulnerability where
  "demo_vuln = \<lparr>vu_Title = ''t'', vu_Description = ''d'', vu_InstalledVersion = ''1'', vu_FixedVersion = ''2'', vu_PkgName = ''ssl'',
     vu_Severity = ''HIGH'', vu_VulnerabilityID = ''CVE-1'', vu_References = []\<rparr>"

definition demo_cluster_image :: "string \<Rightarrow> string \<Rightarrow> TrivyImage" where
  "demo_cluster_image name sha = \<lparr>tvi_Name = name, tvi_ID = name @ ''@sha256:'' @ sha, tvi_PullRef = name, tvi_Owners = [], tvi_RecommendationOnly = False\<rparr>"

definition demo_entry :: "string \<Rightarrow> string \<Rightarrow> bool \<Rightarrow> ImageDetailsWithRefs" where
  "demo_entry name sha rec = \<lparr>idr_ID = name @ ''@sha256:'' @ sha, idr_Name = name, idr_OSArch = '''', idr_Owners = [], idr_OwnerName = '''',
     idr_OwnerKind = '''', idr_OwnerContainer = None, idr_Namespace = '''', idr_LastScan = Some 5,
     idr_Report = [], idr_RecommendationOnly = rec, idr_Error = ''''\<rparr>"

definition demo_run :: "nat trivy_run" where
  "demo_run = \<lparr>trn_sortSlice = (\<lambda>xs. xs),
     trn_scan = (\<lambda>i ref. (Some \<lparr>tr_ImageID = '''', tr_RepoDigests = [], tr_Architecture = '''', tr_OS = '''',
       tr_Results = [\<lparr>vl_Target = ''os'', vl_Vulnerabilities = [demo_vuln]\<rparr>]\<rparr>, None)),
     trn_scanNewest = (\<lambda>i ref. (None, None)),
     trn_semver = \<lparr>sv_parse = (\<lambda>s. Some 0), sv_prerelease = (\<lambda>_. ''''), sv_original = (\<lambda>_. ''''), sv_constraint = (\<lambda>_. Inr (\<lambda>_. False)), sv_sort = id\<rparr>,
     trn_fetchTags = (\<lambda>_. Inr []), trn_arrive = id, trn_noRecommendations = True, trn_now = 9\<rparr>"

definition demo_config :: trivy_config where
  "demo_config = \<lparr>tcf_Offline = True, tcf_MaxConcurrentScans = 2, tcf_MaxImagesToScan = 3, tcf_ExtraFlags = '''', tcf_NamespaceBlocklist = [],
     tcf_NamespaceAllowlist = [], tcf_HasGKESAAnnotation = False, tcf_ImagesToScan = [], tcf_TrivyServerURL = ''''\<rparr>"

definition demo_last :: MinimizedReport where
  "demo_last = \<lparr>mr_Images = [demo_entry ''db:1'' ''b'' False], mr_Vulnerabilities = Map.empty\<rparr>"

definition demo_cluster :: "TrivyImage list" where
  "demo_cluster = [demo_cluster_image ''web:1'' ''a'', demo_cluster_image ''db:1'' ''b'']"

lemma demo_choice:
  "chooseImages (trn_sortSlice demo_run) demo_cluster demo_last 3 = Some (demo_cluster, demo_last)"
  by (simp add: chooseImages_def GetUnscannedImagesToScan_def GetImagesToReScan_def demo_run_def demo_cluster_def demo_last_def Let_def
    convertImagesWithRefsToMap_def demo_entry_def demo_cluster_image_def image_UniqueID_def details_UniqueID_def getUniqueID_def getShaFromID_def)

lemma demo_report: "trivy_report demo_run demo_config demo_cluster demo_last \<noteq> None"
  by (simp add: trivy_report_def demo_config_def demo_choice) (simp add: keptImages_def GetMatchingImages_def GetUnmatchingImages_def getImages_def
    UpdateOwners_map withClusterOwners_def demo_cluster_def demo_last_def demo_entry_def demo_cluster_image_def keepsImage_def scanAll_def
    demo_run_def Let_def convertImagesToMap_def image_UniqueID_def details_UniqueID_def getUniqueID_def getShaFromID_def split: option.splits)


theorem scan_budget_witness: "length demo_cluster \<le> 3 \<and> set demo_cluster \<subseteq> set demo_cluster"
  using scan_budget [OF demo_choice] by (simp add: demo_run_def)

theorem details_exactly_referenced_witness:
  "\<exists>report. trivy_report demo_run demo_config demo_cluster demo_last = Some report \<and>
     dom (mr_Vulnerabilities report) = set (idsOf (mr_Images report))"
proof -
  obtain report where r: "trivy_report demo_run demo_config demo_cluster demo_last = Some report" using demo_report by blast
  have "set (idsOf (mr_Images demo_last)) \<subseteq> dom (mr_Vulnerabilities demo_last)"
    by (simp add: demo_last_def idsOf_def demo_entry_def)
  with details_exactly_referenced [OF r] r show ?thesis by (auto simp: demo_run_def)
qed

definition demo_recommended :: MinimizedReport where
  "demo_recommended = \<lparr>mr_Images = [demo_entry ''web:2'' ''c'' True], mr_Vulnerabilities = Map.empty\<rparr>"

lemma demo_recommended_choice:
  "chooseImages id [demo_cluster_image ''web:2'' ''c''] demo_recommended 9 = Some ([], demo_recommended)"
  by (simp add: chooseImages_def GetUnscannedImagesToScan_def GetImagesToReScan_def demo_recommended_def Let_def
    convertImagesWithRefsToMap_def demo_entry_def demo_cluster_image_def image_UniqueID_def details_UniqueID_def getUniqueID_def getShaFromID_def)

lemma demo_recommended_kept:
  "keptImages [demo_cluster_image ''web:2'' ''c''] [] (mr_Images demo_recommended) \<noteq> None"
  by (simp add: keptImages_def GetMatchingImages_def GetUnmatchingImages_def getImages_def demo_recommended_def
    UpdateOwners_map withClusterOwners_def demo_entry_def demo_cluster_image_def keepsImage_def
    Let_def convertImagesToMap_def image_UniqueID_def details_UniqueID_def getUniqueID_def getShaFromID_def imagesRepositoryMap_def split: option.splits)

theorem adopted_recommendation_not_scanned_witness:
  "chooseImages id [demo_cluster_image ''web:2'' ''c''] demo_recommended 9 = Some ([], demo_recommended) \<and>
   image_UniqueID (demo_cluster_image ''web:2'' ''c'') \<notin> image_UniqueID ` set []"
proof -
  obtain kept where k: "keptImages [demo_cluster_image ''web:2'' ''c''] [] (mr_Images demo_recommended) = Some kept"
    using demo_recommended_kept by blast
  show ?thesis
    using adopted_recommendation_not_scanned [OF demo_recommended_choice k, of "demo_entry ''web:2'' ''c'' True" "demo_cluster_image ''web:2'' ''c''"]
      demo_recommended_choice
    by (simp add: demo_recommended_def demo_entry_def demo_cluster_image_def image_UniqueID_def details_UniqueID_def getUniqueID_def getShaFromID_def)
qed

definition demo_unidentified :: TrivyImage where
  "demo_unidentified = (demo_cluster_image ''web:1'' ''a'')\<lparr>tvi_ID := ''''\<rparr>"

lemma demo_unidentified_failed:
  "convertOne (\<lambda>_. None) (\<lambda>_. []) demo_unidentified = Some \<lparr>irp_ID = ''web:1@'', irp_Name = ''web:1'', irp_OSArch = '''', irp_PullRef = ''web:1'',
     irp_Owners = [], irp_Reports = [], irp_RecommendationOnly = False, irp_Error = ''''\<rparr>"
  by (simp add: convertOne_def demo_unidentified_def demo_cluster_image_def extractLastError_def image_GetSha_def getShaFromID_def)

theorem image_without_id_rescanned_witness:
  "GetUnscannedImagesToScan [demo_unidentified]
     [withRefs 7 \<lparr>irp_ID = ''web:1@'', irp_Name = ''web:1'', irp_OSArch = '''', irp_PullRef = ''web:1'',
        irp_Owners = [], irp_Reports = [], irp_RecommendationOnly = False, irp_Error = ''''\<rparr>] 1 = Some [demo_unidentified]"
  by (rule image_without_id_rescanned [OF _ demo_unidentified_failed]) (simp_all add: demo_unidentified_def)

end
