(* ===== verification/Json_Value.thy ===== *)
theory Json_Value
  imports Go_Float Prelude
begin

text \<open>
  Decoded JSON and YAML, Go's \<^verbatim>\<open>any\<close> as \<^verbatim>\<open>encoding/json\<close> fills it: maps, slices, strings, numbers, booleans and nil.
  Numbers are kept as their text, \<^verbatim>\<open>json.Number\<close>. The entries of an object stand in the order in which the map is iterated.
\<close>

section \<open>Values\<close>

datatype json =
    JNull
  | JBool bool
  | JNumber string
  | JString string
  | JArray "json list"
  | JObject "(string \<times> json) list"

type_synonym json_object = "(string \<times> json) list"

text \<open>\<^verbatim>\<open>m[key]\<close>, nil for a missing key, and the type assertions with two results.\<close>

definition jget :: "json_object \<Rightarrow> string \<Rightarrow> json" where
  "jget m key = (case map_of m key of Some v \<Rightarrow> v | None \<Rightarrow> JNull)"

fun asString :: "json \<Rightarrow> string option" where
  "asString (JString s) = Some s"
| "asString _ = None"

fun asObject :: "json \<Rightarrow> json_object option" where
  "asObject (JObject m) = Some m"
| "asObject _ = None"

fun asArray :: "json \<Rightarrow> json list option" where
  "asArray (JArray xs) = Some xs"
| "asArray _ = None"

fun asBool :: "json \<Rightarrow> bool option" where
  "asBool (JBool b) = Some b"
| "asBool _ = None"

text \<open>A string below nested maps, empty if there is none: \<^verbatim>\<open>GetName\<close> and its like on an unstructured object.\<close>

fun nestedString :: "string list \<Rightarrow> json_object \<Rightarrow> string" where
  "nestedString [] m = ''''"
| "nestedString [key] m = (case jget m key of JString s \<Rightarrow> s | _ \<Rightarrow> '''')"
| "nestedString (key # keys) m = (case jget m key of JObject m' \<Rightarrow> nestedString keys m' | _ \<Rightarrow> '''')"

lemma jget_Cons [simp]: "jget ((k, v) # m) key = (if key = k then v else jget m key)"
  by (simp add: jget_def)

lemma jget_Nil [simp]: "jget [] key = JNull"
  by (simp add: jget_def)

section \<open>Numbers\<close>

text \<open>
  \<^verbatim>\<open>strconv.ParseFloat(s, 64)\<close> on the numbers of JSON; the hexadecimal and special values that it also accepts are not numbers of
  JSON.
\<close>

definition expValue :: "string \<Rightarrow> int option" where
  "expValue s =
     (let (neg, ds) = (case s of c # t \<Rightarrow> if c = CHR ''-'' then (True, t) else if c = CHR ''+'' then (False, t) else (False, s) | [] \<Rightarrow> (False, []))
      in if ds = [] \<or> \<not> list_all isDigit ds then None
         else Some (if neg then - int (digitsVal 0 ds) else int (digitsVal 0 ds)))"

definition decimal :: "string \<Rightarrow> rat option" where
  "decimal s =
     (let whole = takeWhile isDigit s; s' = dropWhile isDigit s;
          (frac, s'') = (case s' of c # t \<Rightarrow> if c = CHR ''.'' then (takeWhile isDigit t, dropWhile isDigit t) else ([], s') | [] \<Rightarrow> ([], []))
      in if whole = [] \<and> frac = [] then None
         else map_option (\<lambda>e. of_nat (digitsVal 0 (whole @ frac)) * 10 powi (e - int (length frac)))
           (case s'' of [] \<Rightarrow> Some 0 | c # t \<Rightarrow> if c = CHR ''e'' \<or> c = CHR ''E'' then expValue t else None))"

definition numberFloat64 :: "string \<Rightarrow> num_error + float64" where
  "numberFloat64 s =
     (let (neg, t) = (case s of c # t \<Rightarrow> if c = CHR ''-'' then (True, t) else (False, s) | [] \<Rightarrow> (False, [])) in
      case decimal t of
        None \<Rightarrow> Inl ErrSyntax
      | Some r \<Rightarrow> (case fl (if neg then - r else r) of Infinite _ \<Rightarrow> Inl ErrRange | f \<Rightarrow> Inr f))"

end
