(* ===== verification/Opa_Checks.thy ===== *)
theory Opa_Checks
  imports Json_Value "HOL-Library.AList"
begin

text \<open>
  The OPA plugin: custom checks from Insights are run with the Rego library against the objects of the cluster, and their results
  become action items. The same functions serve the admission controller and the CI scanner. The Rego library, the
  cluster and Insights are arguments.
\<close>

section \<open>Data\<close>

record ActionItem =
  ai_ResourceNamespace :: string
  ai_ResourceKind :: string
  ai_ResourceName :: string
  ai_Title :: string
  ai_Description :: string
  ai_Remediation :: string
  ai_EventType :: string
  ai_Severity :: float64
  ai_Category :: string

record KubeTarget =
  kt_APIGroups :: "string list"
  kt_Kinds :: "string list"

record KubeResourceTarget =
  krt_APIGroups :: "string list"
  krt_Resources :: "string list"

record OutputFormat =
  of_Title :: "string option"
  of_Severity :: "float64 option"
  of_Remediation :: "string option"
  of_Category :: "string option"
  of_Description :: "string option"

definition noOutput :: OutputFormat where
  "noOutput = \<lparr>of_Title = None, of_Severity = None, of_Remediation = None, of_Category = None, of_Description = None\<rparr>"

fun orElse :: "'a option \<Rightarrow> 'a option \<Rightarrow> 'a option" where
  "orElse None b = b"
| "orElse (Some a) b = Some a"

definition fillFrom :: "OutputFormat \<Rightarrow> OutputFormat \<Rightarrow> OutputFormat" where
  "fillFrom other d =
     \<lparr>of_Title = orElse (of_Title d) (of_Title other), of_Severity = orElse (of_Severity d) (of_Severity other),
      of_Remediation = orElse (of_Remediation d) (of_Remediation other), of_Category = orElse (of_Category d) (of_Category other),
      of_Description = orElse (of_Description d) (of_Description other)\<rparr>"

definition SetDefaults :: "OutputFormat \<Rightarrow> OutputFormat list \<Rightarrow> OutputFormat" where
  "SetDefaults d others = fold fillFrom others d"

record OPACustomCheck =
  cc_Name :: string
  cc_Rego :: string
  cc_Title :: "string option"
  cc_Severity :: "float64 option"
  cc_Remediation :: "string option"
  cc_Category :: "string option"
  cc_AdditionalKubernetesData :: "string list"
  cc_IsLibrary :: bool
  cc_RegoVersion :: "string option"

definition GetOutputFormat :: "OPACustomCheck \<Rightarrow> OutputFormat" where
  "GetOutputFormat c = \<lparr>of_Title = cc_Title c, of_Severity = cc_Severity c, of_Remediation = cc_Remediation c,
     of_Category = cc_Category c, of_Description = None\<rparr>"

record CheckSetting =
  cs_CheckName :: string
  cs_Targets :: "string list"
  cs_ClusterNames :: "string list"
  cs_Name :: string
  cs_Output :: OutputFormat
  cs_Parameters :: json_object

record CustomCheckInstance =
  ci_Name :: string
  ci_Parameters :: json_object
  ci_Targets :: "KubeTarget list"
  ci_Output :: OutputFormat
  ci_CustomCheckName :: string

record clusterCheckModel =
  cm_Checks :: "OPACustomCheck list"
  cm_Instances :: "CheckSetting list"

text \<open>A target without a slash has no second part, and reading it panics.\<close>

definition kubeTargetOf :: "string \<Rightarrow> KubeTarget option" where
  "kubeTargetOf s = (case splitByte (CHR ''/'') s of
     g # k # _ \<Rightarrow> Some \<lparr>kt_APIGroups = [g], kt_Kinds = [k]\<rparr> | _ \<Rightarrow> None)"

definition GetCustomCheckInstance :: "CheckSetting \<Rightarrow> CustomCheckInstance option" where
  "GetCustomCheckInstance s =
     map_option (\<lambda>targets. \<lparr>ci_Name = cs_Name s, ci_Parameters = cs_Parameters s, ci_Targets = targets, ci_Output = cs_Output s,
       ci_CustomCheckName = cs_CheckName s\<rparr>) (those (map kubeTargetOf (cs_Targets s)))"

definition MatchesTarget :: "CustomCheckInstance \<Rightarrow> string \<Rightarrow> string \<Rightarrow> bool" where
  "MatchesTarget inst apiGroup kind =
     list_ex (\<lambda>t. list_ex (\<lambda>g. list_ex (\<lambda>k. apiGroup = g \<and> k = kind) (kt_Kinds t)) (kt_APIGroups t)) (ci_Targets inst)"

definition getGroupKinds :: "KubeTarget list \<Rightarrow> (string \<times> string) list" where
  "getGroupKinds targets = concat (map (\<lambda>t. concat (map (\<lambda>g. map (\<lambda>k. (g, k)) (kt_Kinds t)) (kt_APIGroups t))) targets)"

definition getGroupResources :: "KubeResourceTarget list \<Rightarrow> (string \<times> string) list" where
  "getGroupResources targets = concat (map (\<lambda>t. concat (map (\<lambda>g. map (\<lambda>r. (g, r)) (krt_Resources t)) (krt_APIGroups t))) targets)"

definition resourceTargetOf :: "string \<Rightarrow> KubeResourceTarget option" where
  "resourceTargetOf s = (case splitByte (CHR ''/'') s of
     gs # rs # _ \<Rightarrow> Some \<lparr>krt_APIGroups = splitByte (CHR '','') gs, krt_Resources = splitByte (CHR '','') rs\<rparr> | _ \<Rightarrow> None)"

text \<open>The outer \<^const>\<open>None\<close> is a panic, the inner one the nil pointer.\<close>

definition ProcessCLIKubeResourceTargets :: "string list option \<Rightarrow> KubeResourceTarget list option option" where
  "ProcessCLIKubeResourceTargets inputs =
     (case inputs of
        None \<Rightarrow> Some None
      | Some is \<Rightarrow> map_option (\<lambda>ts. Some (filter (\<lambda>t. krt_APIGroups t \<noteq> [] \<or> krt_Resources t \<noteq> []) ts)) (those (map resourceTargetOf is)))"

section \<open>Libraries\<close>

record OPACustomLibrary =
  lib_Name :: string
  lib_Rego :: string

definition isV1 :: "string option \<Rightarrow> bool" where
  "isV1 regoVersion \<longleftrightarrow> regoVersion = Some ''v1''"

definition toLibrary :: "OPACustomCheck \<Rightarrow> OPACustomLibrary" where
  "toLibrary c = \<lparr>lib_Name = cc_Name c, lib_Rego = cc_Rego c\<rparr>"

definition GetOPACustomChecksAndLibraries :: "OPACustomCheck list \<Rightarrow> OPACustomCheck list \<times> OPACustomLibrary list \<times> OPACustomLibrary list" where
  "GetOPACustomChecksAndLibraries customChecks =
     (filter (\<lambda>c. \<not> cc_IsLibrary c) customChecks,
      map toLibrary (filter (\<lambda>c. cc_IsLibrary c \<and> \<not> isV1 (cc_RegoVersion c)) customChecks),
      map toLibrary (filter (\<lambda>c. cc_IsLibrary c \<and> isV1 (cc_RegoVersion c)) customChecks))"

definition toOPACustomLibsMap :: "OPACustomLibrary list \<Rightarrow> (string \<times> string) list" where
  "toOPACustomLibsMap libs = fold (\<lambda>l m. AList.update (lib_Name l) (lib_Rego l) m) libs []"

section \<open>Running Rego\<close>

text \<open>
  The Rego library: a query made of modules and two functions is prepared and then evaluated on an input; values are converted
  to terms; a string term prints in quotes.
\<close>

record rego_query =
  rq_v1 :: bool
  rq_modules :: "(string \<times> string) list"
  rq_kubernetes :: "json \<Rightarrow> json \<Rightarrow> string + json"
  rq_insightsinfo :: "json \<Rightarrow> string + json"

record rego_lib =
  rl_prepare :: "rego_query \<Rightarrow> string + (json \<Rightarrow> string + json_object list)"
  rl_toValue :: "json \<Rightarrow> string + json"
  rl_quote :: "string \<Rightarrow> string"

record InsightsInfo =
  ii_InsightsContext :: string
  ii_Cluster :: string
  ii_Repository :: string
  ii_AdmissionRequest :: "json option"

definition getStringFromAST :: "rego_lib \<Rightarrow> json \<Rightarrow> string + string" where
  "getStringFromAST lib t = (case t of JString s \<Rightarrow> Inr (TrimBytes (rl_quote lib s) [CHR 0x22]) | _ \<Rightarrow> Inl ''Expected a string'')"

definition getDataFunction :: "rego_lib \<Rightarrow> (string \<Rightarrow> string \<Rightarrow> string + json list) \<Rightarrow> json \<Rightarrow> json \<Rightarrow> string + json" where
  "getDataFunction lib fn groupAST kindAST =
     (case (getStringFromAST lib groupAST, getStringFromAST lib kindAST) of
        (Inr grp, Inr kind) \<Rightarrow>
          (case fn grp kind of
             Inl err \<Rightarrow> Inl (''Error while getting data for '' @ grp @ ''/'' @ kind @ '': '' @ err)
           | Inr items \<Rightarrow>
               (case rl_toValue lib (JArray items) of
                  Inl err \<Rightarrow> Inl (''Error while converting data for '' @ grp @ ''/'' @ kind @ '': '' @ err)
                | Inr v \<Rightarrow> Inr v))
      | _ \<Rightarrow> Inl ''the kubernetes function should be passed a group and kind as strings'')"

definition GetInsightsInfoFunction :: "rego_lib \<Rightarrow> InsightsInfo \<Rightarrow> json \<Rightarrow> string + json" where
  "GetInsightsInfoFunction lib info term =
     (case getStringFromAST lib term of
        Inl err \<Rightarrow> Inl (''unable to convert requested InsightsInfo to string: '' @ err)
      | Inr reqInfo \<Rightarrow>
          (case (if ToLower reqInfo = ''context'' then Some (JString (ii_InsightsContext info))
                 else if ToLower reqInfo = ''cluster'' then Some (JString (ii_Cluster info))
                 else if ToLower reqInfo = ''admissionrequest''
                 then Some (case ii_AdmissionRequest info of None \<Rightarrow> JNull | Some r \<Rightarrow> r)
                 else None) of
             None \<Rightarrow> Inl (''cannot return unknown Insights Info '' @ rl_quote lib reqInfo)
           | Some retInfo \<Rightarrow>
               (case rl_toValue lib retInfo of
                  Inl err \<Rightarrow> Inl (''unable to convert information to ast value: '' @ err)
                | Inr v \<Rightarrow> Inr v)))"

definition GetRegoQuery :: "rego_lib \<Rightarrow> string \<Rightarrow> string option \<Rightarrow> (string \<Rightarrow> string \<Rightarrow> string + json list) \<Rightarrow> (string \<times> string) list \<Rightarrow>
    InsightsInfo \<Rightarrow> rego_query" where
  "GetRegoQuery lib body regoVersion dataFn opaCustomLibs info =
     \<lparr>rq_v1 = isV1 regoVersion, rq_modules = (''fairwinds'', body) # opaCustomLibs,
      rq_kubernetes = getDataFunction lib dataFn, rq_insightsinfo = GetInsightsInfoFunction lib info\<rparr>"

text \<open>Only arrays directly below the package of the check count, in all rules of the package.\<close>

definition packageOutput :: "json \<Rightarrow> json list" where
  "packageOutput pack = (case asObject pack of
     None \<Rightarrow> [] | Some packMap \<Rightarrow> concat (map (\<lambda>(rule, v). case asArray v of None \<Rightarrow> [] | Some xs \<Rightarrow> xs) packMap))"

definition getOutputArray :: "json_object list \<Rightarrow> json list" where
  "getOutputArray results =
     concat (map (\<lambda>result. case asObject (jget result ''results'') of
         None \<Rightarrow> []
       | Some bindings \<Rightarrow> concat (map (\<lambda>(pkgName, pack). if pkgName \<noteq> ''fairwinds'' then [] else packageOutput pack) bindings)) results)"

definition RunRegoForItem :: "rego_lib \<Rightarrow> string \<Rightarrow> string option \<Rightarrow> json_object \<Rightarrow> json_object \<Rightarrow> (string \<Rightarrow> string \<Rightarrow> string + json list) \<Rightarrow>
    InsightsInfo \<Rightarrow> string + json list" where
  "RunRegoForItem lib regoStr regoVersion params obj dataFn info =
     (case rl_prepare lib (GetRegoQuery lib regoStr regoVersion dataFn [] info) of
        Inl err \<Rightarrow> Inl err
      | Inr query \<Rightarrow>
          (case query (JObject (AList.update ''parameters'' (JObject params) obj)) of
             Inl err \<Rightarrow> Inl err
           | Inr rs \<Rightarrow> Inr (getOutputArray rs)))"

definition RunRegoForItemV2 :: "rego_lib \<Rightarrow> string \<Rightarrow> string option \<Rightarrow> json_object \<Rightarrow> (string \<Rightarrow> string \<Rightarrow> string + json list) \<Rightarrow>
    (string \<times> string) list \<Rightarrow> (string \<times> string) list \<Rightarrow> InsightsInfo \<Rightarrow> string + json list" where
  "RunRegoForItemV2 lib regoStr regoVersion obj dataFn libsV0 libsV1 info =
     (case rl_prepare lib (GetRegoQuery lib regoStr regoVersion dataFn (if isV1 regoVersion then libsV1 else libsV0) info) of
        Inl err \<Rightarrow> Inl (''Error while preparing rego query for evaluation: '' @ err)
      | Inr query \<Rightarrow>
          (case query (JObject obj) of
             Inl err \<Rightarrow> Inl (''Error while evaluating query: '' @ err)
           | Inr rs \<Rightarrow> Inr (getOutputArray rs)))"

section \<open>Results\<close>

definition maybeGetStringField :: "json_object \<Rightarrow> string \<Rightarrow> string + string option" where
  "maybeGetStringField m key =
     (case jget m key of JNull \<Rightarrow> Inr None | JString s \<Rightarrow> Inr (Some s) | _ \<Rightarrow> Inl (key @ '' was not a string''))"

definition maybeGetFloatField :: "json_object \<Rightarrow> string \<Rightarrow> string + float64 option" where
  "maybeGetFloatField m key =
     (case jget m key of
        JNull \<Rightarrow> Inr None
      | JNumber n \<Rightarrow> (case numberFloat64 n of Inl _ \<Rightarrow> Inl (''parsing number '' @ n) | Inr f \<Rightarrow> Inr (Some f))
      | _ \<Rightarrow> Inl (key @ '' was not a float''))"

definition getDetailsFromMap :: "json_object \<Rightarrow> string + OutputFormat" where
  "getDetailsFromMap m =
     (case maybeGetStringField m ''description'' of Inl err \<Rightarrow> Inl err | Inr description \<Rightarrow>
     (case maybeGetStringField m ''title'' of Inl err \<Rightarrow> Inl err | Inr title \<Rightarrow>
     (case maybeGetStringField m ''category'' of Inl err \<Rightarrow> Inl err | Inr category \<Rightarrow>
     (case maybeGetStringField m ''remediation'' of Inl err \<Rightarrow> Inl err | Inr remediation \<Rightarrow>
     (case maybeGetFloatField m ''severity'' of Inl err \<Rightarrow> Inl err | Inr severity \<Rightarrow>
        Inr \<lparr>of_Title = title, of_Severity = severity, of_Remediation = remediation, of_Category = category, of_Description = description\<rparr>)))))"

text \<open>\<open>show\<close> prints a value that is neither a text nor a map for the error message.\<close>

definition outputDetails :: "(json \<Rightarrow> string) \<Rightarrow> json \<Rightarrow> string + OutputFormat" where
  "outputDetails show output =
     (case output of
        JString s \<Rightarrow> Inr (noOutput\<lparr>of_Description := Some s\<rparr>)
      | JObject m \<Rightarrow> getDetailsFromMap m
      | _ \<Rightarrow> Inl (''could not decipher output format of '' @ show output))"

definition builtinDefaults :: OutputFormat where
  "builtinDefaults = \<lparr>of_Title = Some ''Unknown title'', of_Severity = Some (Finite (1 / 2)), of_Remediation = Some '''',
     of_Category = Some ''Security'', of_Description = Some ''''\<rparr>"

text \<open>The built-in defaults leave no field empty, so that the pointers can be read.\<close>

definition actionItemOf :: "string \<Rightarrow> string \<Rightarrow> string \<Rightarrow> string \<Rightarrow> OutputFormat \<Rightarrow> ActionItem" where
  "actionItemOf resourceName resourceKind resourceNamespace eventType d =
     \<lparr>ai_ResourceNamespace = resourceNamespace, ai_ResourceKind = resourceKind, ai_ResourceName = resourceName,
      ai_Title = the (of_Title d), ai_Description = the (of_Description d), ai_Remediation = the (of_Remediation d),
      ai_EventType = eventType, ai_Severity = the (of_Severity d), ai_Category = the (of_Category d)\<rparr>"

fun processResults :: "(json \<Rightarrow> string) \<Rightarrow> string \<Rightarrow> string \<Rightarrow> string \<Rightarrow> json list \<Rightarrow> string \<Rightarrow> OutputFormat \<Rightarrow> string + ActionItem list" where
  "processResults show n k ns [] eventType details = Inr []"
| "processResults show n k ns (output # results) eventType details =
     (case outputDetails show output of
        Inl err \<Rightarrow> Inl err
      | Inr d \<Rightarrow>
          (case processResults show n k ns results eventType details of
             Inl err \<Rightarrow> Inl err
           | Inr items \<Rightarrow> Inr (actionItemOf n k ns eventType (SetDefaults d [details, builtinDefaults]) # items)))"

section \<open>Checks\<close>

text \<open>
  The cluster as the plugin sees it, with the texts that a list of errors is given: \<open>oc_prefixed\<close> is
  \<^verbatim>\<open>multierror.Prefix\<close> of a list that prints with a given formatter.
\<close>

record opa_client =
  oc_resourceFor :: "string \<times> string \<Rightarrow> string + string"
  oc_list :: "string \<Rightarrow> string + json_object list"
  oc_mapping :: "string \<Rightarrow> string \<Rightarrow> string + string"
  oc_rego :: rego_lib
  oc_show :: "json \<Rightarrow> string"
  oc_groupText :: "string \<times> string \<Rightarrow> string"
  oc_prefixed :: "(string list \<Rightarrow> string) \<Rightarrow> string list \<Rightarrow> string"

definition GetData :: "opa_client \<Rightarrow> string \<Rightarrow> string \<Rightarrow> string + json list" where
  "GetData client grp kind =
     (case oc_mapping client grp kind of
        Inl err \<Rightarrow> Inl err
      | Inr gvr \<Rightarrow> (case oc_list client gvr of Inl err \<Rightarrow> Inl err | Inr items \<Rightarrow> Inr (map JObject items)))"

definition runRegoForItemV2 :: "opa_client \<Rightarrow> string \<Rightarrow> string option \<Rightarrow> json_object \<Rightarrow> OPACustomLibrary list \<Rightarrow> OPACustomLibrary list \<Rightarrow>
    InsightsInfo \<Rightarrow> string + json list" where
  "runRegoForItemV2 client body regoVersion obj libsV0 libsV1 info =
     RunRegoForItemV2 (oc_rego client) body regoVersion obj (GetData client) (toOPACustomLibsMap libsV0) (toOPACustomLibsMap libsV1) info"

definition ProcessCheckForItemV2 :: "opa_client \<Rightarrow> OPACustomCheck \<Rightarrow> json_object \<Rightarrow> string \<Rightarrow> string \<Rightarrow> string \<Rightarrow> OPACustomLibrary list \<Rightarrow>
    OPACustomLibrary list \<Rightarrow> InsightsInfo \<Rightarrow> string + ActionItem list" where
  "ProcessCheckForItemV2 client check obj resourceName resourceKind resourceNamespace libsV0 libsV1 info =
     (case runRegoForItemV2 client (cc_Rego check) (cc_RegoVersion check) obj libsV0 libsV1 info of
        Inl err \<Rightarrow> Inl (''error while running rego for check '' @ cc_Name check @ '' on item '' @ resourceKind @ ''/'' @ resourceNamespace @ ''/'' @
          resourceName @ '': '' @ err)
      | Inr results \<Rightarrow> processResults (oc_show client) resourceName resourceKind resourceNamespace results (cc_Name check)
          (SetDefaults noOutput [GetOutputFormat check]))"

definition agentInfo :: "string \<Rightarrow> InsightsInfo" where
  "agentInfo cluster = \<lparr>ii_InsightsContext = ''Agent'', ii_Cluster = cluster, ii_Repository = '''', ii_AdmissionRequest = None\<rparr>"

text \<open>The first object on which a check fails ends the target, and the action items of the objects before it are lost.\<close>

fun processObjects :: "(json_object \<Rightarrow> string + ActionItem list) \<Rightarrow> json_object list \<Rightarrow> string + ActionItem list" where
  "processObjects run [] = Inr []"
| "processObjects run (obj # objs) =
     (case run obj of
        Inl err \<Rightarrow> Inl err
      | Inr items \<Rightarrow> (case processObjects run objs of Inl err \<Rightarrow> Inl err | Inr rest \<Rightarrow> Inr (items @ rest)))"

definition processOnObject :: "opa_client \<Rightarrow> string \<Rightarrow> OPACustomCheck \<Rightarrow> OPACustomLibrary list \<Rightarrow> OPACustomLibrary list \<Rightarrow> json_object \<Rightarrow>
    string + ActionItem list" where
  "processOnObject client cluster check libsV0 libsV1 obj =
     ProcessCheckForItemV2 client check obj (nestedString [''metadata'', ''name''] obj) (nestedString [''kind''] obj)
       (nestedString [''metadata'', ''namespace''] obj) libsV0 libsV1 (agentInfo cluster)"

definition processCheckTargetV2 :: "opa_client \<Rightarrow> string \<Rightarrow> OPACustomCheck \<Rightarrow> string \<times> string \<Rightarrow> OPACustomLibrary list \<Rightarrow> OPACustomLibrary list \<Rightarrow>
    string + ActionItem list" where
  "processCheckTargetV2 client cluster check gr libsV0 libsV1 =
     (case oc_resourceFor client gr of
        Inl err \<Rightarrow> Inl (''error getting GroupVersionResource from GroupResource '' @ rl_quote (oc_rego client) (oc_groupText client gr) @ '': '' @ err)
      | Inr gvr \<Rightarrow>
          (case oc_list client gvr of
             Inl err \<Rightarrow> Inl (''error listing '' @ rl_quote (oc_rego client) gvr @ '' for check '' @ cc_Name check @ '' and target '' @
               oc_groupText client gr @ '': '' @ err)
           | Inr objs \<Rightarrow> processObjects (processOnObject client cluster check libsV0 libsV1) objs))"

text \<open>Action items with the errors on the way, oldest first.\<close>

type_synonym items_errors = "ActionItem list \<times> string list"

definition collectTarget :: "string + ActionItem list \<Rightarrow> items_errors \<Rightarrow> items_errors" where
  "collectTarget answer acc = (case (answer, acc) of
     (Inl err, (items, errs)) \<Rightarrow> (items, errs @ [err]) | (Inr new, (items, errs)) \<Rightarrow> (items @ new, errs))"

definition processCheckV2 :: "opa_client \<Rightarrow> string \<Rightarrow> KubeResourceTarget list \<Rightarrow> OPACustomCheck \<Rightarrow> OPACustomLibrary list \<Rightarrow>
    OPACustomLibrary list \<Rightarrow> items_errors" where
  "processCheckV2 client cluster targets check libsV0 libsV1 =
     fold (\<lambda>gr. collectTarget (processCheckTargetV2 client cluster check gr libsV0 libsV1)) (getGroupResources targets) ([], [])"

definition maxMultiErrorsToShow :: nat where "maxMultiErrorsToShow = 3"

fun joinStrings :: "string \<Rightarrow> string list \<Rightarrow> string" where
  "joinStrings sep [] = ''''"
| "joinStrings sep [x] = x"
| "joinStrings sep (x # xs) = x @ sep @ joinStrings sep xs"

definition multierrorListFormatLimiterFunc :: "bool \<Rightarrow> string list \<Rightarrow> string" where
  "multierrorListFormatLimiterFunc debug es =
     (let nl = [CHR 0x0A]; tab = [CHR 0x09] in
      case es of
        [e] \<Rightarrow> ''1 error occurred:'' @ nl @ tab @ ''* '' @ e @ nl @ nl
      | _ \<Rightarrow>
        let limited = length es > maxMultiErrorsToShow \<and> \<not> debug;
            numToShow = (if limited then maxMultiErrorsToShow else length es);
            extraHeader = (if limited then '' (only '' @ showNat numToShow @ '' are shown for brevity)'' else '''')
        in showNat (length es) @ '' errors occurred'' @ extraHeader @ '':'' @ nl @ tab @
           joinStrings (nl @ tab) (map (\<lambda>e. ''* '' @ e) (take numToShow es)) @ nl @ nl)"

definition processAllChecks :: "opa_client \<Rightarrow> bool \<Rightarrow> string \<Rightarrow> KubeResourceTarget list \<Rightarrow> OPACustomCheck list \<Rightarrow> items_errors" where
  "processAllChecks client debug cluster targets checksAndLibs =
     (case GetOPACustomChecksAndLibraries checksAndLibs of
        (checks, libsV0, libsV1) \<Rightarrow>
          fold (\<lambda>check (items, errs). case processCheckV2 client cluster targets check libsV0 libsV1 of
              (new, es) \<Rightarrow> (items @ new, if es = [] then errs
                else errs @ [''error while processing check '' @ cc_Name check @ '': '' @
                  oc_prefixed client (multierrorListFormatLimiterFunc debug) es]))
            checks ([], []))"

section \<open>The program\<close>

definition getInsightsChecks :: "('body \<Rightarrow> string + clusterCheckModel) \<Rightarrow> string + int \<times> (string + 'body) \<Rightarrow> string + clusterCheckModel" where
  "getInsightsChecks unmarshal answer =
     (case answer of
        Inl err \<Rightarrow> Inl err
      | Inr (status, body) \<Rightarrow>
          if status \<noteq> 200 then Inl (''failed to retrieve updated checks with a status code of : '' @ showInt status)
          else (case body of Inl err \<Rightarrow> Inl err | Inr b \<Rightarrow> unmarshal b))"

text \<open>With any error there are no action items at all: the nil slice.\<close>

definition opa_Run :: "opa_client \<Rightarrow> bool \<Rightarrow> string \<Rightarrow> KubeResourceTarget list \<Rightarrow> string + clusterCheckModel \<Rightarrow>
    ActionItem list option \<times> string list" where
  "opa_Run client debug cluster targets answer =
     (case answer of
        Inl err \<Rightarrow> (None, [err])
      | Inr m \<Rightarrow> (case processAllChecks client debug cluster targets (cm_Checks m) of
          (items, errs) \<Rightarrow> if errs = [] then (Some items, []) else (None, errs)))"

text \<open>Without targets the nil pointer is read as soon as there is a check.\<close>

definition hasChecks :: "string + clusterCheckModel \<Rightarrow> bool" where
  "hasChecks answer = (case answer of Inl _ \<Rightarrow> False | Inr m \<Rightarrow> fst (GetOPACustomChecksAndLibraries (cm_Checks m)) \<noteq> [])"

text \<open>
  What is written to the output file and the exit status; \<open>writeError\<close> is the failure of writing or renaming the file, which
  panics.
\<close>

definition startOPAReporter :: "opa_client \<Rightarrow> bool \<Rightarrow> string \<Rightarrow> string list option \<Rightarrow> string + clusterCheckModel \<Rightarrow> bool \<Rightarrow>
    (ActionItem list option \<times> int) option" where
  "startOPAReporter client debug cluster targetResources answer writeError =
     Option.bind (ProcessCLIKubeResourceTargets targetResources) (\<lambda>targets.
     if targets = None \<and> hasChecks answer then None
     else case opa_Run client debug cluster (case targets of Some ts \<Rightarrow> ts | None \<Rightarrow> []) answer of
       (items, errs) \<Rightarrow>
         if items \<noteq> None \<and> writeError then None
         else Some (items, if errs \<noteq> [] then 1 else 0))"

section \<open>Properties\<close>

lemma GetOPA_split: "GetOPACustomChecksAndLibraries cs = (checks, v0, v1) \<Longrightarrow> checks = filter (\<lambda>c. \<not> cc_IsLibrary c) cs"
  by (simp add: GetOPACustomChecksAndLibraries_def)

lemma processObjects_Inr:
  "processObjects run objs = Inr items \<longleftrightarrow>
   (\<forall>obj \<in> set objs. \<exists>its. run obj = Inr its) \<and> items = concat (map (\<lambda>obj. projr (run obj)) objs)"
proof
  show "processObjects run objs = Inr items \<Longrightarrow>
      (\<forall>obj \<in> set objs. \<exists>its. run obj = Inr its) \<and> items = concat (map (\<lambda>obj. projr (run obj)) objs)"
    by (induction objs arbitrary: items) (auto split: sum.splits)
  have "\<forall>obj \<in> set objs. \<exists>its. run obj = Inr its \<Longrightarrow> processObjects run objs = Inr (concat (map (\<lambda>obj. projr (run obj)) objs))"
    by (induction objs) auto
  then show "(\<forall>obj \<in> set objs. \<exists>its. run obj = Inr its) \<and> items = concat (map (\<lambda>obj. projr (run obj)) objs) \<Longrightarrow>
      processObjects run objs = Inr items" by simp
qed

lemma not_Inl: "(\<forall>y. x \<noteq> Inl y) \<longleftrightarrow> (\<exists>z. x = Inr z)"
  by (cases x) auto

lemma collectTarget_fold:
  "fold (\<lambda>gr. collectTarget (f gr)) grs (items, errs) =
     (items @ concat (map (\<lambda>gr. case f gr of Inr its \<Rightarrow> its | Inl _ \<Rightarrow> []) grs),
      errs @ List.map_filter (\<lambda>gr. case f gr of Inl err \<Rightarrow> Some err | Inr _ \<Rightarrow> None) grs)"
  by (induction grs arbitrary: items errs) (simp_all add: collectTarget_def map_filter_simps split: sum.splits)

lemma collectChecks_fold:
  "fold (\<lambda>check (items, errs). case f check of (new, es) \<Rightarrow> (items @ new, if es = [] then errs else errs @ [g check es])) checks (items, errs) =
     (items @ concat (map (\<lambda>check. fst (f check)) checks),
      errs @ List.map_filter (\<lambda>check. if snd (f check) = [] then None else Some (g check (snd (f check)))) checks)"
  by (induction checks arbitrary: items errs) (auto simp: map_filter_simps split: prod.splits)

lemma map_filter_Nil: "List.map_filter f xs = [] \<longleftrightarrow> (\<forall>x \<in> set xs. f x = None)"
  by (induction xs) (auto simp: map_filter_simps split: option.splits)

text \<open>All targets of all checks succeed, and then everything is reported.\<close>

definition targetOk :: "opa_client \<Rightarrow> string \<Rightarrow> OPACustomCheck list \<Rightarrow> OPACustomCheck \<Rightarrow> string \<times> string \<Rightarrow> bool" where
  "targetOk client cluster cs check gr =
     (case GetOPACustomChecksAndLibraries cs of (_, v0, v1) \<Rightarrow> (case processCheckTargetV2 client cluster check gr v0 v1 of Inl _ \<Rightarrow> False | Inr _ \<Rightarrow> True))"

lemma opa_Run_ok:
  assumes "GetOPACustomChecksAndLibraries (cm_Checks m) = (checks, v0, v1)"
  shows "opa_Run client debug cluster targets (Inr m) = (Some items, errs) \<longleftrightarrow>
    errs = [] \<and> (\<forall>check \<in> set checks. \<forall>gr \<in> set (getGroupResources targets). \<exists>its. processCheckTargetV2 client cluster check gr v0 v1 = Inr its) \<and>
    items = concat (map (\<lambda>check. concat (map (\<lambda>gr. projr (processCheckTargetV2 client cluster check gr v0 v1)) (getGroupResources targets))) checks)"
proof -
  let ?f = "\<lambda>check. processCheckV2 client cluster targets check v0 v1"
  let ?t = "\<lambda>check gr. processCheckTargetV2 client cluster check gr v0 v1"
  have none: "snd (?f check) = [] \<longleftrightarrow> (\<forall>gr \<in> set (getGroupResources targets). \<exists>its. ?t check gr = Inr its)" for check
    by (auto simp: processCheckV2_def collectTarget_fold map_filter_Nil not_Inl split: sum.splits)
  have some: "fst (?f check) = concat (map (\<lambda>gr. projr (?t check gr)) (getGroupResources targets))"
    if "\<forall>gr \<in> set (getGroupResources targets). \<exists>its. ?t check gr = Inr its" for check
    using that by (force simp: processCheckV2_def collectTarget_fold intro!: arg_cong [where f = concat] map_cong)
  have "opa_Run client debug cluster targets (Inr m) = (Some items, errs) \<longleftrightarrow>
      errs = [] \<and> (\<forall>check \<in> set checks. snd (?f check) = []) \<and> items = concat (map (\<lambda>check. fst (?f check)) checks)"
    by (auto simp: opa_Run_def processAllChecks_def assms collectChecks_fold map_filter_Nil)
  then show ?thesis unfolding none using some by (auto cong: map_cong)
qed


text \<open>
  C36: One failure loses the whole report. If one check fails on one object, whatever the other checks and objects
  gave, the run has no action items, nothing is written, and the plugin exits with status 1.
\<close>
theorem one_failure_loses_report:
  assumes "check \<in> set (cm_Checks m)" "\<not> cc_IsLibrary check" "gr \<in> set (getGroupResources targets)"
    and "oc_resourceFor client gr = Inr gvr" "oc_list client gvr = Inr objs" "obj \<in> set objs"
    and "GetOPACustomChecksAndLibraries (cm_Checks m) = (checks, v0, v1)"
    and "processOnObject client cluster check v0 v1 obj = Inl err"
    and "ProcessCLIKubeResourceTargets inputs = Some (Some targets)"
  shows "startOPAReporter client debug cluster inputs (Inr m) writeError = Some (None, 1)"
proof -
  have "check \<in> set checks" using assms(1,2) GetOPA_split [OF assms(7)] by simp
  moreover have "processCheckTargetV2 client cluster check gr v0 v1 \<noteq> Inr its" for its
    using assms(4-6,8) by (simp add: processCheckTargetV2_def processObjects_Inr) force
  ultimately have no: "opa_Run client debug cluster targets (Inr m) \<noteq> (Some items, errs)" for items errs
    using opa_Run_ok [OF assms(7)] assms(3) by metis
  obtain items errs where all: "processAllChecks client debug cluster targets (cm_Checks m) = (items, errs)" by fastforce
  then have "errs \<noteq> []" using no [of items "[]"] by (auto simp: opa_Run_def)
  then have "opa_Run client debug cluster targets (Inr m) = (None, errs)" by (simp add: opa_Run_def all)
  then show ?thesis using assms(9) \<open>errs \<noteq> []\<close> by (simp add: startOPAReporter_def)
qed

definition firstOf :: "'a option \<Rightarrow> 'a option \<Rightarrow> 'a \<Rightarrow> 'a" where
  "firstOf a b c = (case a of Some x \<Rightarrow> x | None \<Rightarrow> (case b of Some x \<Rightarrow> x | None \<Rightarrow> c))"

lemma the_orElse: "the (orElse (orElse a b) (Some c)) = firstOf a b c"
  by (cases a; cases b) (simp_all add: firstOf_def)

lemma SetDefaults_two: "SetDefaults d [e, f] = fillFrom f (fillFrom e d)"
  by (simp add: SetDefaults_def)

text \<open>
  Where the fields of an action item come from. Every result of a check becomes one action item, for the object and the check it came from, and
  each of its fields is the result's own, or else the check's, or else the built-in one.
\<close>
theorem action_item_fields:
  assumes "processResults show n k ns results eventType details = Inr items"
  shows "list_all2 (\<lambda>output item. ai_ResourceName item = n \<and> ai_ResourceKind item = k \<and> ai_ResourceNamespace item = ns \<and> ai_EventType item = eventType \<and>
      (\<exists>d. outputDetails show output = Inr d \<and>
        ai_Title item = firstOf (of_Title d) (of_Title details) ''Unknown title'' \<and>
        ai_Description item = firstOf (of_Description d) (of_Description details) '''' \<and>
        ai_Remediation item = firstOf (of_Remediation d) (of_Remediation details) '''' \<and>
        ai_Category item = firstOf (of_Category d) (of_Category details) ''Security'' \<and>
        ai_Severity item = firstOf (of_Severity d) (of_Severity details) (Finite (1 / 2)))) results items"
  using assms
proof (induction results arbitrary: items)
  case (Cons out results)
  then obtain d rest where "outputDetails show out = Inr d" "processResults show n k ns results eventType details = Inr rest"
      "items = actionItemOf n k ns eventType (SetDefaults d [details, builtinDefaults]) # rest"
    by (auto split: sum.splits)
  with Cons.IH show ?case
    by (simp add: actionItemOf_def SetDefaults_two fillFrom_def builtinDefaults_def the_orElse)
qed simp

section \<open>A run\<close>

text \<open>A library whose check gives one text, and fails on an object that is called "bad".\<close>

definition demo_rego :: rego_lib where
  "demo_rego = \<lparr>rl_prepare = (\<lambda>q. Inr (\<lambda>input. case input of
       JObject m \<Rightarrow> if nestedString [''metadata'', ''name''] m = ''bad'' then Inl ''conflict''
         else Inr [[(''results'', JObject [(''fairwinds'', JObject [(''rule'', JArray [JString ''missing label''])]),
                                           (''lib'', JObject [(''rule'', JArray [JString ''not reported''])])])]]
     | _ \<Rightarrow> Inl ''no object'')),
     rl_toValue = Inr, rl_quote = (\<lambda>s. [CHR 0x22] @ s @ [CHR 0x22])\<rparr>"

definition demo_object :: "string \<Rightarrow> json_object" where
  "demo_object name = [(''kind'', JString ''Deployment''), (''metadata'', JObject [(''name'', JString name)])]"

definition demo_client :: "json_object list \<Rightarrow> opa_client" where
  "demo_client objs = \<lparr>oc_resourceFor = (\<lambda>gr. Inr ''deployments''), oc_list = (\<lambda>gvr. Inr objs), oc_mapping = (\<lambda>g k. Inr ''deployments''),
     oc_rego = demo_rego, oc_show = (\<lambda>_. ''?''), oc_groupText = snd, oc_prefixed = (\<lambda>f es. f es)\<rparr>"

definition demo_check :: OPACustomCheck where
  "demo_check = \<lparr>cc_Name = ''labels'', cc_Rego = ''package fairwinds'', cc_Title = Some ''Label'', cc_Severity = None, cc_Remediation = None,
     cc_Category = None, cc_AdditionalKubernetesData = [], cc_IsLibrary = False, cc_RegoVersion = None\<rparr>"

definition demo_checks :: clusterCheckModel where
  "demo_checks = \<lparr>cm_Checks = [demo_check], cm_Instances = []\<rparr>"

definition demo_targets :: "KubeResourceTarget list" where
  "demo_targets = [\<lparr>krt_APIGroups = [''apps''], krt_Resources = [''Deployments'']\<rparr>]"

definition demo_item :: ActionItem where
  "demo_item = \<lparr>ai_ResourceNamespace = '''', ai_ResourceKind = ''Deployment'', ai_ResourceName = ''web'', ai_Title = ''Label'',
     ai_Description = ''missing label'', ai_Remediation = '''', ai_EventType = ''labels'', ai_Severity = Finite (1 / 2), ai_Category = ''Security''\<rparr>"

lemmas demo_opa_defs = demo_rego_def demo_object_def demo_client_def demo_check_def demo_checks_def demo_targets_def demo_item_def

lemma demo_libraries: "GetOPACustomChecksAndLibraries (cm_Checks demo_checks) = ([demo_check], [], [])"
  by (simp add: GetOPACustomChecksAndLibraries_def demo_opa_defs)


lemma demo_bad: "\<exists>err. processOnObject (demo_client objs) c demo_check [] [] (demo_object ''bad'') = Inl err"
  by (simp add: processOnObject_def ProcessCheckForItemV2_def runRegoForItemV2_def RunRegoForItemV2_def demo_opa_defs)



theorem one_failure_loses_report_witness:
  "startOPAReporter (demo_client [demo_object ''web'', demo_object ''bad'']) False ''c'' (Some [''apps/Deployments'']) (Inr demo_checks) False = Some (None, 1)"
proof -
  obtain err where e: "processOnObject (demo_client [demo_object ''web'', demo_object ''bad'']) ''c'' demo_check [] [] (demo_object ''bad'') = Inl err"
    using demo_bad by blast
  show ?thesis
    by (rule one_failure_loses_report [OF _ _ _ _ _ _ demo_libraries e, where gr = "(''apps'', ''Deployments'')" and gvr = "''deployments''" and objs = "[demo_object ''web'', demo_object ''bad'']" and targets = demo_targets])
      (simp add: demo_checks_def demo_check_def demo_targets_def getGroupResources_def demo_client_def ProcessCLIKubeResourceTargets_def resourceTargetOf_def)+
qed

theorem action_item_fields_witness:
  "processResults (\<lambda>_. ''?'') ''web'' ''Deployment'' '''' [JString ''missing label''] ''labels'' (GetOutputFormat demo_check) = Inr [demo_item] \<and>
   ai_Title demo_item = firstOf (None :: string option) (Some ''Label'') ''Unknown title''"
proof -
  have r: "processResults (\<lambda>_. ''?'') ''web'' ''Deployment'' '''' [JString ''missing label''] ''labels'' (GetOutputFormat demo_check) = Inr [demo_item]"
    by (simp add: outputDetails_def actionItemOf_def SetDefaults_def fillFrom_def builtinDefaults_def noOutput_def GetOutputFormat_def demo_opa_defs)
  from action_item_fields [OF r] show ?thesis using r
    by (auto simp: outputDetails_def noOutput_def GetOutputFormat_def demo_check_def)
qed

end
