(* ===== verification/Admission_Webhook.thy ===== *)
theory Admission_Webhook
  imports Opa_Checks
begin

text \<open>
  The admission controller: the validating webhook collects the reports of Polaris, OPA and Pluto on an object, asks Insights for a verdict
  and answers the API server; the mutating webhook answers with patches; both get their configuration from Insights.
  Kubernetes, Insights, Polaris, Pluto and the encoders are arguments; a panic is \<^const>\<open>None\<close>.
\<close>

section \<open>Data\<close>

datatype webhookFailurePolicy = FailurePolicyIgnore | FailurePolicyFail

record ReportInfo =
  ri_Report :: string
  ri_Version :: string
  ri_Contents :: string

record adm_configuration =
  ac_Polaris_enabled :: bool
  ac_Pluto_enabled :: bool
  ac_OPA_enabled :: bool
  ac_CustomChecks :: "OPACustomCheck list"
  ac_CustomCheckInstances :: "CheckSetting list"
  ac_Polaris :: "string option"

record InsightsConfig =
  ic_Hostname :: string
  ic_Organization :: string
  ic_Cluster :: string
  ic_Token :: string
  ic_IgnoreUsernames :: "string list"

record adm_request =
  ar_Username :: string
  ar_Operation :: string
  ar_Object :: string
  ar_OldObject :: string
  ar_Namespace :: string
  ar_Name :: string
  ar_RequestKind :: "(string \<times> string) option"
  ar_Value :: json

record Validator =
  va_iConfig :: InsightsConfig
  va_config :: "adm_configuration option"
  va_policy :: webhookFailurePolicy

definition NewValidator :: "InsightsConfig \<Rightarrow> Validator" where
  "NewValidator iConfig = \<lparr>va_iConfig = iConfig, va_config = None, va_policy = FailurePolicyIgnore\<rparr>"

definition SetWebhookFailurePolicy :: "string \<Rightarrow> Validator \<Rightarrow> bool \<times> Validator" where
  "SetWebhookFailurePolicy s v =
     (if ToLower s = '''' \<or> ToLower s = ''ignore'' then (True, v\<lparr>va_policy := FailurePolicyIgnore\<rparr>)
      else if ToLower s = ''fail'' then (True, v\<lparr>va_policy := FailurePolicyFail\<rparr>)
      else (False, v))"

definition InjectConfig :: "adm_configuration \<Rightarrow> Validator \<Rightarrow> Validator" where
  "InjectConfig c v = v\<lparr>va_config := Some c\<rparr>"

text \<open>
  What the webhook asks. \<open>ae_send\<close> is the answer of Insights to the reports: a transport error, or the status with the body or the error of
  reading it.
\<close>

record adm_env =
  ae_getenv :: "string \<Rightarrow> string"
  ae_unmarshal :: "string \<Rightarrow> string + json_object"
  ae_marshal :: "json \<Rightarrow> string + string"
  ae_marshalItems :: "ActionItem list \<Rightarrow> string + string"
  ae_getObject :: "string \<Rightarrow> string \<Rightarrow> string \<Rightarrow> string \<Rightarrow> string + json_object"
  ae_controllerMatches :: "json_object \<Rightarrow> json_object \<Rightarrow> string option"
  ae_namespaceOf :: "string \<Rightarrow> string + json_object"
  ae_requestReport :: "adm_request \<Rightarrow> json_object option \<Rightarrow> string + string"
  ae_genericResource :: "string \<Rightarrow> string + json"
  ae_schemaChecks :: "string \<Rightarrow> json \<Rightarrow> string + json"
  ae_polarisVersion :: string
  ae_opaVersion :: string
  ae_opa :: opa_client
  ae_plutoDefaults :: "string + (string list \<times> (string \<times> string) list)"
  ae_plutoOutput :: "(string \<times> string) list \<Rightarrow> string list \<Rightarrow> string \<Rightarrow> string + string"
  ae_csv :: "string \<Rightarrow> string + string list"
  ae_semverValid :: "string \<Rightarrow> bool"
  ae_send :: "ReportInfo list \<Rightarrow> string + int \<times> (string + string)"

text \<open>What a handler returns before the response is made: allowed, warnings, errors, and the error.\<close>

type_synonym verdict = "bool \<times> string list \<times> string list \<times> string option"

definition failedWith :: "string \<Rightarrow> verdict" where
  "failedWith err = (False, [], [], Some err)"

section \<open>Insights' verdict\<close>

text \<open>Failure and title of an action item of the answer; the type assertions panic.\<close>

definition itemFailure :: "json \<Rightarrow> bool option" where
  "itemFailure ai = Option.bind (asObject ai) (\<lambda>m. asBool (jget m ''Failure''))"

definition itemTitle :: "json \<Rightarrow> string option" where
  "itemTitle ai = Option.bind (asObject ai) (\<lambda>m. asString (jget m ''Title''))"

definition titlesOf :: "bool \<Rightarrow> json list \<Rightarrow> string list option" where
  "titlesOf failure items =
     Option.bind (those (map itemFailure items)) (\<lambda>_.
       those (map itemTitle (filter (\<lambda>ai. itemFailure ai = Some failure) items)))"

definition verdictOf :: "json_object \<Rightarrow> verdict option" where
  "verdictOf resultMap =
     Option.bind (asBool (jget resultMap ''Success'')) (\<lambda>passed.
     Option.bind (case jget resultMap ''ActionItems'' of
         JNull \<Rightarrow> Some ([], [])
       | ai \<Rightarrow> Option.bind (asArray ai) (\<lambda>items.
           Option.bind (titlesOf False items) (\<lambda>warnings. map_option (\<lambda>errors. (warnings, errors)) (titlesOf True items))))
       (\<lambda>(warnings, errors).
         Some (passed, warnings @ (case jget resultMap ''Message'' of JString s \<Rightarrow> if s \<noteq> '''' then [s] else [] | _ \<Rightarrow> []), errors, None)))"

definition sendResults :: "adm_env \<Rightarrow> ReportInfo list \<Rightarrow> verdict option" where
  "sendResults env reports =
     (case ae_send env reports of
        Inl err \<Rightarrow> Some (failedWith err)
      | Inr (_, Inl err) \<Rightarrow> Some (failedWith err)
      | Inr (status, Inr body) \<Rightarrow>
          if status \<noteq> 200 then Some (failedWith (''invalid status code: '' @ showInt status @ '' - '' @ body))
          else (case ae_unmarshal env body of Inl err \<Rightarrow> Some (failedWith err) | Inr resultMap \<Rightarrow> verdictOf resultMap))"

section \<open>The reports\<close>

definition getRequestReport :: "adm_env \<Rightarrow> adm_request \<Rightarrow> json_object option \<Rightarrow> string + ReportInfo" where
  "getRequestReport env req namespaceMetadata =
     (case ae_requestReport env (if ar_Operation req = ''DELETE'' then req\<lparr>ar_Object := ar_OldObject req\<rparr> else req) namespaceMetadata of
        Inl err \<Rightarrow> Inl err
      | Inr contents \<Rightarrow> Inr \<lparr>ri_Report = ''metadata'', ri_Version = ''0.2.0'', ri_Contents = contents\<rparr>)"

definition GetPolarisReport :: "adm_env \<Rightarrow> string \<Rightarrow> string \<Rightarrow> string + ReportInfo" where
  "GetPolarisReport env config manifest =
     (case ae_genericResource env manifest of
        Inl err \<Rightarrow> Inl err
      | Inr controller \<Rightarrow>
     (case ae_schemaChecks env config controller of
        Inl err \<Rightarrow> Inl err
      | Inr result \<Rightarrow>
     (case ae_marshal env (JObject [(''PolarisOutputVersion'', JString (ae_polarisVersion env)), (''Results'', JArray [result])]) of
        Inl err \<Rightarrow> Inl err
      | Inr contents \<Rightarrow> Inr \<lparr>ri_Report = ''polaris'', ri_Version = ae_polarisVersion env, ri_Contents = contents\<rparr>)))"

text \<open>All checks run, and then any of their errors is the error of the report. The kind is read for every check.\<close>

definition ProcessOPAV2 :: "adm_env \<Rightarrow> json_object \<Rightarrow> string \<Rightarrow> string \<Rightarrow> string \<Rightarrow> OPACustomCheck \<Rightarrow> OPACustomLibrary list \<Rightarrow>
    OPACustomLibrary list \<Rightarrow> InsightsInfo \<Rightarrow> string + ActionItem list" where
  "ProcessOPAV2 env obj resourceName resourceKind resourceNamespace check libsV0 libsV1 info =
     ProcessCheckForItemV2 (ae_opa env) check obj resourceName resourceKind resourceNamespace libsV0 libsV1 info"

definition admissionInfo :: "InsightsConfig \<Rightarrow> adm_request \<Rightarrow> InsightsInfo" where
  "admissionInfo iConfig req = \<lparr>ii_InsightsContext = ''AdmissionController'', ii_Cluster = ic_Cluster iConfig, ii_Repository = '''',
     ii_AdmissionRequest = Some (ar_Value req)\<rparr>"

definition opaAnswers :: "adm_env \<Rightarrow> json_object \<Rightarrow> adm_request \<Rightarrow> adm_configuration \<Rightarrow> InsightsConfig \<Rightarrow> (string + ActionItem list) list option" where
  "opaAnswers env obj req config iConfig =
     (case GetOPACustomChecksAndLibraries (ac_CustomChecks config) of
        (checks, libsV0, libsV1) \<Rightarrow>
          those (map (\<lambda>check. map_option (\<lambda>(_, kind). ProcessOPAV2 env obj (ar_Name req) kind (ar_Namespace req) check libsV0 libsV1 (admissionInfo iConfig req))
            (ar_RequestKind req)) checks))"

definition goodItems :: "(string + ActionItem list) list \<Rightarrow> ActionItem list" where
  "goodItems answers = concat (map (\<lambda>a. case a of Inl _ \<Rightarrow> [] | Inr items \<Rightarrow> items) answers)"

definition errorsIn :: "(string + ActionItem list) list \<Rightarrow> string list" where
  "errorsIn answers = List.map_filter (\<lambda>a. case a of Inl err \<Rightarrow> Some err | Inr _ \<Rightarrow> None) answers"

definition adm_ProcessOPA :: "adm_env \<Rightarrow> json_object \<Rightarrow> adm_request \<Rightarrow> adm_configuration \<Rightarrow> InsightsConfig \<Rightarrow> (string + ReportInfo) option" where
  "adm_ProcessOPA env obj req config iConfig =
     map_option (\<lambda>answers.
       case ae_marshalItems env (goodItems answers) of
         Inl err \<Rightarrow> Inl err
       | Inr contents \<Rightarrow>
           if errorsIn answers \<noteq> [] then Inl (oc_prefixed (ae_opa env) (joinStrings [CHR 0x0A]) (errorsIn answers))
           else Inr \<lparr>ri_Report = ''opa'', ri_Version = ae_opaVersion env, ri_Contents = contents\<rparr>)
       (opaAnswers env obj req config iConfig)"

definition plutoVersion :: string where "plutoVersion = ''5.23.6''"

definition ProcessPluto :: "adm_env \<Rightarrow> string \<Rightarrow> (string \<times> string) list option \<Rightarrow> string + ReportInfo" where
  "ProcessPluto env input userTargetVersions =
     (case ae_plutoDefaults env of
        Inl err \<Rightarrow> Inl err
      | Inr (versionComponents, targetVersions) \<Rightarrow>
          (let target = (case userTargetVersions of None \<Rightarrow> targetVersions
                 | Some user \<Rightarrow> fold (\<lambda>(k, v) m. AList.update k v m) user targetVersions);
               componentList = rev (fold (\<lambda>c cs. if c \<in> set cs then cs else c # cs) versionComponents []) in
           case ae_plutoOutput env target componentList input of
             Inl err \<Rightarrow> Inl err
           | Inr contents \<Rightarrow> Inr \<lparr>ri_Report = ''pluto'', ri_Version = plutoVersion, ri_Contents = contents\<rparr>))"

fun plutoPairs :: "string list \<Rightarrow> (string \<times> string) list \<Rightarrow> string + (string \<times> string) list" where
  "plutoPairs [] vm = Inr vm"
| "plutoPairs (pair # ss) vm =
     (case CutByte pair (CHR ''='') of
        None \<Rightarrow> Inl (''please format '' @ pair @ '' as key=value'')
      | Some (k, v) \<Rightarrow> plutoPairs ss (AList.update k v vm))"

definition ParsePlutoTargetVersions :: "(string \<Rightarrow> string + string list) \<Rightarrow> (string \<Rightarrow> bool) \<Rightarrow> string \<Rightarrow> string + (string \<times> string) list option" where
  "ParsePlutoTargetVersions csv semverValid vs =
     (if vs = '''' then Inr None
      else let n = length (filter (\<lambda>c. c = CHR ''='') vs) in
      case (if n = 0 then Inl (''please format '' @ vs @ '' as key=value'')
            else if n = 1 then Inr [TrimBytes vs [CHR 0x22]]
            else (case csv vs of Inl err \<Rightarrow> Inl (''while parsing '' @ vs @ '': '' @ err) | Inr ss \<Rightarrow> Inr ss)) of
        Inl err \<Rightarrow> Inl err
      | Inr ss \<Rightarrow>
          (case plutoPairs ss [] of
             Inl err \<Rightarrow> Inl err
           | Inr vm \<Rightarrow>
               if list_all (\<lambda>(k, v). semverValid v) vm then Inr (Some vm)
               else Inl (''specified target versions do not have valid semver with a leading v: '' @ vs)))"

section \<open>The validating webhook\<close>

text \<open>A report that is switched on is appended to the reports, and its error ends the request.\<close>

definition addReport :: "bool \<Rightarrow> (string + ReportInfo) option \<Rightarrow> ReportInfo list \<Rightarrow> (string + ReportInfo list) option" where
  "addReport enabled answer reports =
     (if \<not> enabled then Some (Inr reports)
      else map_option (\<lambda>a. case a of Inl err \<Rightarrow> Inl err | Inr r \<Rightarrow> Inr (reports @ [r])) answer)"

definition andThen :: "(string + 'a) option \<Rightarrow> ('a \<Rightarrow> (string + 'b) option) \<Rightarrow> (string + 'b) option" where
  "andThen a f = (case a of None \<Rightarrow> None | Some (Inl err) \<Rightarrow> Some (Inl err) | Some (Inr x) \<Rightarrow> f x)"

definition plutoReport :: "adm_env \<Rightarrow> adm_request \<Rightarrow> string + ReportInfo" where
  "plutoReport env req =
     (case ParsePlutoTargetVersions (ae_csv env) (ae_semverValid env) (ae_getenv env ''PLUTO_TARGET_VERSIONS'') of
        Inl err \<Rightarrow> Inl err | Inr userTargetVersions \<Rightarrow> ProcessPluto env (ar_Object req) userTargetVersions)"

definition collectReports :: "adm_env \<Rightarrow> InsightsConfig \<Rightarrow> adm_configuration \<Rightarrow> json_object \<Rightarrow> adm_request \<Rightarrow> json_object option \<Rightarrow>
    (string + ReportInfo list) option" where
  "collectReports env iConfig config decoded req namespaceMetadata =
     (case getRequestReport env req namespaceMetadata of
        Inl err \<Rightarrow> Some (Inl err)
      | Inr metadataReport \<Rightarrow>
          andThen (addReport (ac_Polaris_enabled config \<and> ar_Object req \<noteq> '''' \<and> ac_Polaris config \<noteq> None)
            (Some (GetPolarisReport env (the (ac_Polaris config)) (ar_Object req))) [metadataReport]) (\<lambda>reports.
          andThen (addReport (ac_OPA_enabled config) (adm_ProcessOPA env decoded req config iConfig) reports) (\<lambda>reports.
          addReport (ac_Pluto_enabled config \<and> ar_Object req \<noteq> '''') (Some (plutoReport env req)) reports)))"

definition processInputYAML :: "adm_env \<Rightarrow> InsightsConfig \<Rightarrow> adm_configuration \<Rightarrow> json_object \<Rightarrow> adm_request \<Rightarrow> json_object option \<Rightarrow>
    verdict option" where
  "processInputYAML env iConfig config decoded req namespaceMetadata =
     (case collectReports env iConfig config decoded req namespaceMetadata of
        None \<Rightarrow> None
      | Some (Inl err) \<Rightarrow> Some (failedWith err)
      | Some (Inr reports) \<Rightarrow> sendResults env reports)"

text \<open>Every owner must exist and match; the first that does not ends the search.\<close>

fun ownersValid :: "adm_env \<Rightarrow> string \<Rightarrow> json_object \<Rightarrow> json list \<Rightarrow> bool option" where
  "ownersValid env ns decoded [] = Some True"
| "ownersValid env ns decoded (r # refs) =
     Option.bind (asObject r) (\<lambda>m.
     Option.bind (asString (jget m ''kind'')) (\<lambda>kind.
     Option.bind (asString (jget m ''apiVersion'')) (\<lambda>apiVersion.
     Option.bind (asString (jget m ''name'')) (\<lambda>name.
       case ae_getObject env ns kind apiVersion name of
         Inl err \<Rightarrow> Some False
       | Inr ctrl \<Rightarrow> if ae_controllerMatches env decoded ctrl \<noteq> None then Some False else ownersValid env ns decoded refs))))"

definition skippedByOwner :: "adm_env \<Rightarrow> string \<Rightarrow> json_object \<Rightarrow> json_object \<Rightarrow> bool option" where
  "skippedByOwner env ns decoded metadata =
     (case jget metadata ''ownerReferences'' of
        JArray refs \<Rightarrow> if refs = [] then Some False else ownersValid env ns decoded refs
      | _ \<Rightarrow> Some False)"

definition handleDecoded :: "adm_env \<Rightarrow> InsightsConfig \<Rightarrow> adm_configuration \<Rightarrow> adm_request \<Rightarrow> json_object \<Rightarrow> verdict option" where
  "handleDecoded env iConfig config req decoded =
     Option.bind (asObject (jget decoded ''metadata'')) (\<lambda>metadata.
     Option.bind (skippedByOwner env (ar_Namespace req) decoded metadata) (\<lambda>skipped.
       if skipped then Some (True, [], [], None)
       else (case jget metadata ''namespace'' of
           JString ns \<Rightarrow>
             if ns = '''' then processInputYAML env iConfig config decoded req None
             else (case ae_namespaceOf env ns of
                 Inl err \<Rightarrow> Some (failedWith err)
               | Inr namespaceMetadata \<Rightarrow> processInputYAML env iConfig config decoded req (Some namespaceMetadata))
         | _ \<Rightarrow> processInputYAML env iConfig config decoded req None)))"

definition handleInternal :: "adm_env \<Rightarrow> Validator \<Rightarrow> adm_request \<Rightarrow> verdict option" where
  "handleInternal env v req =
     (if ar_Username req \<in> set (ic_IgnoreUsernames (va_iConfig v))
      then Some (True, [''Insights admission controller is ignoring service account '' @ ar_Username req @ ''.''], [], None)
      else case va_config v of
        None \<Rightarrow> Some (True, [], [], None)
      | Some config \<Rightarrow>
          (case ae_unmarshal env (if ar_Operation req = ''DELETE'' then ar_OldObject req else ar_Object req) of
             Inl err \<Rightarrow> Some (failedWith err)
           | Inr decoded \<Rightarrow> handleDecoded env (va_iConfig v) config req decoded))"

text \<open>The response; without an explicit code it has the one that the library derives from the decision.\<close>

record adm_response =
  rs_Allowed :: bool
  rs_Message :: string
  rs_Code :: "int option"
  rs_Warnings :: "string list"

definition makeResponse :: "bool \<Rightarrow> string list \<Rightarrow> string list \<Rightarrow> adm_response" where
  "makeResponse allowed warnings errors =
     \<lparr>rs_Allowed = allowed, rs_Message = joinStrings '', '' errors, rs_Code = (if warnings \<noteq> [] then Some 299 else None),
      rs_Warnings = map (\<lambda>w. ''[Fairwinds Insights] '' @ w) warnings @ map (\<lambda>e. ''[Fairwinds Insights] [Blocked] '' @ e) errors\<rparr>"

definition Validator_Handle :: "adm_env \<Rightarrow> Validator \<Rightarrow> adm_request \<Rightarrow> adm_response option" where
  "Validator_Handle env v req =
     map_option (\<lambda>(allowed, warnings, errors, err).
       case err of
         None \<Rightarrow> makeResponse allowed warnings errors
       | Some e \<Rightarrow>
           if va_policy v \<noteq> FailurePolicyIgnore then \<lparr>rs_Allowed = False, rs_Message = e, rs_Code = Some 400, rs_Warnings = []\<rparr>
           else makeResponse True warnings errors) (handleInternal env v req)"

section \<open>The mutating webhook\<close>

text \<open>
  Polaris' part of a mutation: the results for an object with its JSON, the patches of the results, their application to YAML,
  and the difference of two JSON texts as a list of operations.
\<close>

record mutation_lib =
  mu_validated :: "adm_request \<Rightarrow> string \<Rightarrow> string + json list option \<times> string"
  mu_mutations :: "json list \<Rightarrow> json list"
  mu_toYAML :: "string \<Rightarrow> string + string"
  mu_apply :: "string \<Rightarrow> json list \<Rightarrow> string + string"
  mu_toJSON :: "string \<Rightarrow> string + string"
  mu_diff :: "string \<Rightarrow> string \<Rightarrow> string + json list"

definition mutate :: "mutation_lib \<Rightarrow> adm_configuration option \<Rightarrow> adm_request \<Rightarrow> string + json list" where
  "mutate lib config req =
     (case Option.bind config ac_Polaris of
        None \<Rightarrow> Inr []
      | Some polarisConfig \<Rightarrow>
     (case mu_validated lib req polarisConfig of
        Inl err \<Rightarrow> Inl err
      | Inr (None, _) \<Rightarrow> Inr []
      | Inr (Some results, original) \<Rightarrow>
          if results = [] \<or> mu_mutations lib results = [] then Inr []
          else
     (case mu_toYAML lib original of Inl err \<Rightarrow> Inl err | Inr originalYaml \<Rightarrow>
     (case mu_apply lib originalYaml (mu_mutations lib results) of Inl err \<Rightarrow> Inl err | Inr mutatedYaml \<Rightarrow>
     (case mu_toJSON lib mutatedYaml of Inl err \<Rightarrow> Inl err | Inr mutatedJson \<Rightarrow>
        mu_diff lib original mutatedJson)))))"

datatype mutation_response = MutationAllowed | MutationErrored string | MutationPatched "json list"

definition Mutator_Handle :: "mutation_lib \<Rightarrow> adm_configuration option \<Rightarrow> adm_request \<Rightarrow> mutation_response" where
  "Mutator_Handle lib config req =
     (if ar_RequestKind req = None then MutationAllowed
      else case mutate lib config req of
        Inl err \<Rightarrow> MutationErrored err
      | Inr patches \<Rightarrow> if patches = [] then MutationAllowed else MutationPatched patches)"

section \<open>The configuration\<close>

text \<open>\<open>localPolaris\<close> is the configuration merged from the mounted file, if there is one, and the defaults.\<close>

definition fetchConfig :: "('body \<Rightarrow> string + adm_configuration) \<Rightarrow> string + string \<Rightarrow> string + int \<times> (string + 'body) \<Rightarrow> string + adm_configuration" where
  "fetchConfig unmarshal localPolaris answer =
     (case answer of
        Inl err \<Rightarrow> Inl err
      | Inr (_, Inl err) \<Rightarrow> Inl err
      | Inr (status, Inr body) \<Rightarrow>
          if status \<noteq> 200 then Inl (''invalid status code: '' @ showInt status)
          else (case unmarshal body of
              Inl err \<Rightarrow> Inl err
            | Inr tempConfig \<Rightarrow>
                if ac_Polaris tempConfig \<noteq> None then Inr tempConfig
                else (case localPolaris of Inl err \<Rightarrow> Inl err | Inr p \<Rightarrow> Inr (tempConfig\<lparr>ac_Polaris := Some p\<rparr>))))"

text \<open>The two handlers of the program.\<close>

type_synonym handlers = "Validator \<times> adm_configuration option"

definition refreshConfig :: "string + adm_configuration \<Rightarrow> handlers \<Rightarrow> string option \<times> handlers" where
  "refreshConfig fetched h =
     (case fetched of
        Inl err \<Rightarrow> (Some err, h)
      | Inr config \<Rightarrow> (None, (InjectConfig config (fst h), Some config)))"

text \<open>
  The first refresh must succeed, or else the program exits, \<^const>\<open>None\<close>; later errors are only logged. The list has what each tick
  fetches.
\<close>

definition keepConfigurationRefreshed :: "(string + adm_configuration) list \<Rightarrow> handlers \<Rightarrow> handlers option" where
  "keepConfigurationRefreshed fetches h =
     (case fetches of
        [] \<Rightarrow> Some h
      | f # fs \<Rightarrow> (case refreshConfig f h of
            (Some err, _) \<Rightarrow> None
          | (None, h') \<Rightarrow> Some (fold (\<lambda>f h. snd (refreshConfig f h)) fs h')))"

definition getIntervalOrDefault :: "(string \<Rightarrow> string) \<Rightarrow> int \<Rightarrow> string + int" where
  "getIntervalOrDefault getenv fallback =
     (if getenv ''CONFIGURATION_INTERVAL'' = '''' then Inr fallback
      else case Atoi (getenv ''CONFIGURATION_INTERVAL'') of
        Inl _ \<Rightarrow> Inl ''CONFIGURATION_INTERVAL is not an integer'' | Inr n \<Rightarrow> Inr n)"

definition mustGetInsightsConfigFromEnvVars :: "(string \<Rightarrow> string) \<Rightarrow> string + InsightsConfig" where
  "mustGetInsightsConfigFromEnvVars getenv =
     (if getenv ''FAIRWINDS_HOSTNAME'' = '''' then Inl ''FAIRWINDS_HOSTNAME environment variable not set''
      else if getenv ''FAIRWINDS_ORGANIZATION'' = '''' then Inl ''FAIRWINDS_ORGANIZATION environment variable not set''
      else if getenv ''FAIRWINDS_CLUSTER'' = '''' then Inl ''FAIRWINDS_CLUSTER environment variable not set''
      else if TrimSpace (getenv ''FAIRWINDS_TOKEN'') = '''' then Inl ''FAIRWINDS_TOKEN environment variable not set''
      else Inr \<lparr>ic_Hostname = getenv ''FAIRWINDS_HOSTNAME'', ic_Organization = getenv ''FAIRWINDS_ORGANIZATION'',
        ic_Cluster = getenv ''FAIRWINDS_CLUSTER'', ic_Token = TrimSpace (getenv ''FAIRWINDS_TOKEN''),
        ic_IgnoreUsernames = map TrimSpace (splitByte (CHR '','') (getenv ''FAIRWINDS_IGNORE_USERNAMES''))\<rparr>)"

text \<open>
  What the start of the program computes from the environment: the interval, the port, the handlers. The exit with an error and the panic
  on a bad failure policy are both \<^const>\<open>Inl\<close>.
\<close>

definition admission_main :: "(string \<Rightarrow> string) \<Rightarrow> string + int \<times> int \<times> handlers" where
  "admission_main getenv =
     (case getIntervalOrDefault getenv 1 of Inl err \<Rightarrow> Inl (''could not get interval: '' @ err) | Inr interval \<Rightarrow>
     (case mustGetInsightsConfigFromEnvVars getenv of Inl err \<Rightarrow> Inl err | Inr iConfig \<Rightarrow>
     (case (if TrimSpace (getenv ''WEBHOOK_PORT'') = '''' then (8443, None) else ParseInt (TrimSpace (getenv ''WEBHOOK_PORT''))) of
        (_, Some err) \<Rightarrow> Inl ''could not parse WEBHOOK_PORT to int''
      | (webhookPort, None) \<Rightarrow>
          (case SetWebhookFailurePolicy (getenv ''WEBHOOK_FAILURE_POLICY'') (NewValidator iConfig) of
             (False, _) \<Rightarrow> Inl (''cannot parse invalid webhook failure policy '' @ getenv ''WEBHOOK_FAILURE_POLICY'')
           | (True, v) \<Rightarrow> Inr (interval, webhookPort, (v, None))))))"

section \<open>Properties\<close>


lemma andThen_Inr: "andThen a f = Some (Inr y) \<longleftrightarrow> (\<exists>x. a = Some (Inr x) \<and> f x = Some (Inr y))"
  by (auto simp: andThen_def split: option.splits sum.splits)

lemma addReport_Inr:
  "addReport enabled answer reports = Some (Inr rs) \<longleftrightarrow>
   (if enabled then \<exists>r. answer = Some (Inr r) \<and> rs = reports @ [r] else rs = reports)"
proof (cases answer)
  case (Some a)
  then show ?thesis by (cases a) (auto simp: addReport_def)
qed (auto simp: addReport_def)


lemma adm_ProcessOPA_Inr:
  "adm_ProcessOPA env obj req config ic = Some (Inr r) \<Longrightarrow>
   ri_Report r = ''opa'' \<and> (\<exists>answers. opaAnswers env obj req config ic = Some answers \<and> errorsIn answers = [])"
proof (cases "opaAnswers env obj req config ic")
  case (Some answers)
  moreover assume "adm_ProcessOPA env obj req config ic = Some (Inr r)"
  ultimately show ?thesis
    by (cases "ae_marshalItems env (goodItems answers)") (auto simp: adm_ProcessOPA_def split: if_splits)
qed (simp add: adm_ProcessOPA_def)



lemma collectReports_opa:
  assumes "collectReports env ic config decoded req ns = Some (Inr reports)" "ac_OPA_enabled config"
  obtains answers where "opaAnswers env decoded req config ic = Some answers" "errorsIn answers = []"
proof -
  obtain m where "getRequestReport env req ns = Inr m" using assms by (auto simp: collectReports_def split: sum.splits)
  with assms obtain r where "adm_ProcessOPA env decoded req config ic = Some (Inr r)"
    by (auto simp: collectReports_def andThen_Inr addReport_Inr)
  then show thesis using that adm_ProcessOPA_Inr by metis
qed


lemma asBool_Some [simp]: "asBool j = Some b \<longleftrightarrow> j = JBool b"
  by (cases j) auto




definition rawObject :: "adm_request \<Rightarrow> string" where
  "rawObject req = (if ar_Operation req = ''DELETE'' then ar_OldObject req else ar_Object req)"



lemma errorsIn_Nil: "errorsIn answers = [] \<longleftrightarrow> (\<forall>a \<in> set answers. \<exists>items. a = Inr items)"
  by (auto simp: errorsIn_def map_filter_Nil split: sum.splits) (metis not_Inl)

lemma those_map_Some: "those (map (\<lambda>x. Some (f x)) xs) = Some (map f xs)"
  by (induction xs) auto

lemma opaAnswers_broken:
  assumes "ar_RequestKind req = Some (g, kind)" "GetOPACustomChecksAndLibraries (ac_CustomChecks config) = (checks, v0, v1)"
    and "check \<in> set checks" "ProcessOPAV2 env decoded (ar_Name req) kind (ar_Namespace req) check v0 v1 (admissionInfo ic req) = Inl err"
  shows "\<exists>answers. opaAnswers env decoded req config ic = Some answers \<and> errorsIn answers \<noteq> []"
  using assms by (force simp: opaAnswers_def those_map_Some errorsIn_Nil)

lemma collectReports_broken:
  assumes "opaAnswers env decoded req config ic = Some answers" "errorsIn answers \<noteq> []" "ac_OPA_enabled config"
  shows "\<exists>e. collectReports env ic config decoded req ns = Some (Inl e)"
proof -
  have "\<exists>e. adm_ProcessOPA env decoded req config ic = Some (Inl e)"
    using assms(1,2) by (auto simp: adm_ProcessOPA_def split: sum.splits)
  then show ?thesis using assms(3)
    by (auto simp: collectReports_def andThen_def addReport_def split: sum.splits)
qed

text \<open>
  C35: A broken check admits everything. Under the failure policy Ignore, which is the default, an object without valid owners on which one custom
  check fails to run is admitted without a warning, whatever the other reports hold, and whatever Insights would answer: it is not asked.
\<close>
theorem broken_check_admits:
  assumes "va_policy v = FailurePolicyIgnore" and "va_config v = Some config" and "ac_OPA_enabled config"
    and "ar_Username req \<notin> set (ic_IgnoreUsernames (va_iConfig v))"
    and "ae_unmarshal env (rawObject req) = Inr decoded" and "jget decoded ''metadata'' = JObject metadata"
    and "skippedByOwner env (ar_Namespace req) decoded metadata = Some False"
    and "ar_RequestKind req = Some (g, kind)" and "GetOPACustomChecksAndLibraries (ac_CustomChecks config) = (checks, v0, v1)"
    and "check \<in> set checks"
    and "ProcessOPAV2 env decoded (ar_Name req) kind (ar_Namespace req) check v0 v1 (admissionInfo (va_iConfig v) req) = Inl err"
  shows "Validator_Handle env v req = Some (makeResponse True [] [])"
proof -
  have broken: "\<exists>e. collectReports env (va_iConfig v) config decoded req ns = Some (Inl e)" for ns
    using opaAnswers_broken [OF assms(8-11)] collectReports_broken [OF _ _ assms(3)] by metis
  then have "\<exists>e. processInputYAML env (va_iConfig v) config decoded req ns = Some (failedWith e)" for ns
    unfolding processInputYAML_def by (metis option.simps(5) sum.simps(5))
  then have "\<exists>e. handleDecoded env (va_iConfig v) config req decoded = Some (failedWith e)"
    using assms(6,7) by (auto simp: handleDecoded_def split: json.split sum.split)
  then obtain e where "handleInternal env v req = Some (failedWith e)"
    using assms(2,4,5) by (auto simp: handleInternal_def rawObject_def)
  then show ?thesis using assms(1) by (simp add: Validator_Handle_def failedWith_def)
qed

lemma refreshConfig_agree:
  assumes "va_config (fst h) = snd h" "snd (refreshConfig f h) = h'"
  shows "va_config (fst h') = snd h' \<and> va_iConfig (fst h') = va_iConfig (fst h) \<and> va_policy (fst h') = va_policy (fst h) \<and>
    snd h' = (case f of Inl _ \<Rightarrow> snd h | Inr c \<Rightarrow> Some c)"
  using assms by (auto simp: refreshConfig_def InjectConfig_def split: sum.splits)

definition latestConfig :: "(string + adm_configuration) list \<Rightarrow> adm_configuration option \<Rightarrow> adm_configuration option" where
  "latestConfig fetches c = fold (\<lambda>f c. case f of Inl _ \<Rightarrow> c | Inr c' \<Rightarrow> Some c') fetches c"

lemma refreshes_agree:
  "va_config (fst h) = snd h \<Longrightarrow> fold (\<lambda>f h. snd (refreshConfig f h)) fetches h = h' \<Longrightarrow>
   va_config (fst h') = snd h' \<and> va_iConfig (fst h') = va_iConfig (fst h) \<and> va_policy (fst h') = va_policy (fst h) \<and>
   snd h' = latestConfig fetches (snd h)"
proof (induction fetches arbitrary: h)
  case (Cons f fetches)
  show ?case using refreshConfig_agree [OF Cons.prems(1) refl, of f] Cons.IH [of "snd (refreshConfig f h)"] Cons.prems(2)
    by (simp add: latestConfig_def)
qed (simp add: latestConfig_def)

lemma fetchConfig_polaris: "fetchConfig unmarshal localPolaris a = Inr c \<Longrightarrow> ac_Polaris c \<noteq> None"
  by (auto simp: fetchConfig_def split: sum.splits prod.splits if_splits)

lemma latestConfig_some:
  "latestConfig fetches c = Some c' \<Longrightarrow> c = Some c' \<or> Inr c' \<in> set fetches"
  by (induction fetches arbitrary: c) (fastforce simp: latestConfig_def split: sum.splits)+

lemma latestConfig_keeps: "c \<noteq> None \<Longrightarrow> latestConfig fetches c \<noteq> None"
  by (induction fetches arbitrary: c) (auto simp: latestConfig_def split: sum.splits)

text \<open>
  C21: The handlers agree. After the first refresh and any later ones, failed or not, the validating and the mutating webhook have the same configuration,
  the one fetched last with success, it has a Polaris configuration, and the failure policy and Insights' settings are those of the start.
\<close>
theorem handlers_agree:
  assumes "keepConfigurationRefreshed (map (fetchConfig unmarshal localPolaris) (a # answers)) (v, None) = Some h"
    and "va_config v = None"
  shows "va_config (fst h) = snd h \<and> snd h = latestConfig (map (fetchConfig unmarshal localPolaris) (a # answers)) None \<and>
    (\<exists>config. snd h = Some config \<and> ac_Polaris config \<noteq> None) \<and>
    va_policy (fst h) = va_policy v \<and> va_iConfig (fst h) = va_iConfig v"
proof -
  let ?fs = "map (fetchConfig unmarshal localPolaris) answers"
  obtain c where c: "fetchConfig unmarshal localPolaris a = Inr c"
      "fold (\<lambda>f h. snd (refreshConfig f h)) ?fs (InjectConfig c v, Some c) = h"
    using assms by (auto simp: keepConfigurationRefreshed_def refreshConfig_def split: sum.splits)
  have agree: "va_config (fst h) = snd h" "va_iConfig (fst h) = va_iConfig v" "va_policy (fst h) = va_policy v" "snd h = latestConfig ?fs (Some c)"
    using refreshes_agree [OF _ c(2)] by (auto simp: InjectConfig_def)
  obtain config where config: "snd h = Some config" using latestConfig_keeps [of "Some c" ?fs] agree(4) by auto
  then have "config = c \<or> Inr config \<in> set ?fs" using latestConfig_some agree(4) by fastforce
  then have "ac_Polaris config \<noteq> None" using c(1) fetchConfig_polaris by fastforce
  moreover have "latestConfig (map (fetchConfig unmarshal localPolaris) (a # answers)) None = latestConfig ?fs (Some c)"
    by (simp add: latestConfig_def c(1))
  ultimately have "snd h = latestConfig (map (fetchConfig unmarshal localPolaris) (a # answers)) None"
      "\<exists>config. snd h = Some config \<and> ac_Polaris config \<noteq> None"
    using agree(4) config by metis+
  then show ?thesis using agree(1-3) by blast
qed

section \<open>Two requests\<close>

definition demo_adm_env :: "string \<Rightarrow> adm_env" where
  "demo_adm_env name = \<lparr>ae_getenv = (\<lambda>_. ''''),
     ae_unmarshal = (\<lambda>s. if s = ''answer'' then Inr [(''Success'', JBool True)] else Inr (demo_object name)),
     ae_marshal = (\<lambda>_. Inr ''''), ae_marshalItems = (\<lambda>_. Inr ''''), ae_getObject = (\<lambda>_ _ _ _. Inl ''not found''),
     ae_controllerMatches = (\<lambda>_ _. None), ae_namespaceOf = (\<lambda>_. Inr []), ae_requestReport = (\<lambda>_ _. Inr ''''),
     ae_genericResource = (\<lambda>_. Inr JNull), ae_schemaChecks = (\<lambda>_ _. Inr JNull), ae_polarisVersion = ''1'', ae_opaVersion = ''2'',
     ae_opa = demo_client [], ae_plutoDefaults = Inr ([], []), ae_plutoOutput = (\<lambda>_ _ _. Inr ''''), ae_csv = (\<lambda>_. Inr []),
     ae_semverValid = (\<lambda>_. True), ae_send = (\<lambda>_. Inr (200, Inr ''answer''))\<rparr>"

definition demo_adm_config :: adm_configuration where
  "demo_adm_config = \<lparr>ac_Polaris_enabled = False, ac_Pluto_enabled = False, ac_OPA_enabled = True, ac_CustomChecks = [demo_check],
     ac_CustomCheckInstances = [], ac_Polaris = Some ''default''\<rparr>"

definition demo_validator :: "webhookFailurePolicy \<Rightarrow> Validator" where
  "demo_validator policy = \<lparr>va_iConfig = \<lparr>ic_Hostname = '''', ic_Organization = '''', ic_Cluster = ''c'', ic_Token = '''', ic_IgnoreUsernames = []\<rparr>,
     va_config = Some demo_adm_config, va_policy = policy\<rparr>"

definition demo_request :: adm_request where
  "demo_request = \<lparr>ar_Username = ''alice'', ar_Operation = ''CREATE'', ar_Object = ''object'', ar_OldObject = '''', ar_Namespace = '''',
     ar_Name = ''web'', ar_RequestKind = Some (''apps'', ''Deployment''), ar_Value = JNull\<rparr>"

lemma demo_adm_env_fields [simp]:
  "ae_unmarshal (demo_adm_env name) s = (if s = ''answer'' then Inr [(''Success'', JBool True)] else Inr (demo_object name))"
  "ae_marshalItems (demo_adm_env name) items = Inr ''''" "ae_requestReport (demo_adm_env name) q m = Inr ''''"
  "ae_opaVersion (demo_adm_env name) = ''2''" "ae_send (demo_adm_env name) rs = Inr (200, Inr ''answer'')"
  by (simp_all add: demo_adm_env_def)

lemmas demo_adm_defs = demo_adm_env_def demo_adm_config_def demo_validator_def demo_request_def

lemma demo_adm_libraries: "GetOPACustomChecksAndLibraries (ac_CustomChecks demo_adm_config) = ([demo_check], [], [])"
  by (simp add: GetOPACustomChecksAndLibraries_def demo_adm_defs demo_check_def)

lemma demo_adm_answer:
  "ProcessOPAV2 (demo_adm_env name) (demo_object name) ''web'' ''Deployment'' '''' demo_check [] [] info =
   (if name = ''bad'' then Inl (''error while running rego for check labels on item Deployment//web: Error while evaluating query: conflict'')
    else Inr [demo_item])"
  by (simp add: ProcessOPAV2_def ProcessCheckForItemV2_def runRegoForItemV2_def RunRegoForItemV2_def demo_adm_env_def demo_opa_defs getOutputArray_def
    packageOutput_def outputDetails_def actionItemOf_def SetDefaults_def fillFrom_def builtinDefaults_def noOutput_def GetOutputFormat_def)




theorem broken_check_admits_witness:
  "Validator_Handle (demo_adm_env ''bad'') (demo_validator FailurePolicyIgnore) demo_request = Some (makeResponse True [] [])"
proof -
  have "ProcessOPAV2 (demo_adm_env ''bad'') (demo_object ''bad'') (ar_Name demo_request) ''Deployment'' (ar_Namespace demo_request) demo_check [] []
      (admissionInfo (va_iConfig (demo_validator FailurePolicyIgnore)) demo_request) =
      Inl (''error while running rego for check labels on item Deployment//web: Error while evaluating query: conflict'')"
    by (simp add: demo_request_def demo_adm_answer)
  from broken_check_admits [OF _ _ _ _ _ _ _ _ demo_adm_libraries _ this] show ?thesis
    by (simp add: demo_validator_def demo_adm_config_def demo_request_def demo_object_def skippedByOwner_def rawObject_def)
qed

theorem handlers_agree_witness:
  "\<exists>h. keepConfigurationRefreshed (map (fetchConfig (\<lambda>_. Inr demo_adm_config) (Inl '''')) [Inr (200, Inr ''body''), Inl ''timeout''])
      (NewValidator (va_iConfig (demo_validator FailurePolicyFail)), None) = Some h \<and> va_config (fst h) = snd h"
proof -
  let ?v = "NewValidator (va_iConfig (demo_validator FailurePolicyFail))"
  obtain h where h: "keepConfigurationRefreshed (map (fetchConfig (\<lambda>_. Inr demo_adm_config) (Inl '''')) (Inr (200, Inr ''body'') # [Inl ''timeout''])) (?v, None) = Some h"
    by (simp add: keepConfigurationRefreshed_def fetchConfig_def refreshConfig_def demo_adm_config_def)
  from handlers_agree [OF h] h show ?thesis by (auto simp: NewValidator_def)
qed

end
