(* ===== verification/Go_Path.thy ===== *)
theory Go_Path
  imports Go_Strings
begin

text \<open>The functions of \<^verbatim>\<open>path/filepath\<close> on paths with slashes, and \<^verbatim>\<open>strings.Join\<close>.\<close>

section \<open>Joining\<close>

fun joinSep :: "string \<Rightarrow> string list \<Rightarrow> string" where
  "joinSep sep [] = ''''"
| "joinSep sep [x] = x"
| "joinSep sep (x # xs) = x @ sep @ joinSep sep xs"

section \<open>Clean paths\<close>

text \<open>
  The components of a clean path, innermost first: empty and dot components vanish, and a double dot removes the component before it, if
  there is one to remove; at the root it vanishes, else it stays.
\<close>

definition pushComponent :: "bool \<Rightarrow> string \<Rightarrow> string list \<Rightarrow> string list" where
  "pushComponent rooted c stack =
     (if c = '''' \<or> c = ''.'' then stack
      else if c = ''..'' then
        (case stack of
           inner # rest \<Rightarrow> if inner \<noteq> ''..'' then rest else c # stack
         | [] \<Rightarrow> if rooted then [] else [c])
      else c # stack)"

definition isRooted :: "string \<Rightarrow> bool" where
  "isRooted p \<longleftrightarrow> HasPrefix p ''/''"

definition components :: "string \<Rightarrow> string list" where
  "components p = rev (fold (pushComponent (isRooted p)) (splitByte (CHR ''/'') p) [])"

definition cleanPath :: "string \<Rightarrow> string" where
  "cleanPath p =
     (let body = joinSep ''/'' (components p) in
      if isRooted p then CHR ''/'' # body else if body = '''' then ''.'' else body)"

definition pathJoin :: "string list \<Rightarrow> string" where
  "pathJoin elems = (let es = dropWhile (\<lambda>e. e = '''') elems in if es = [] then '''' else cleanPath (joinSep ''/'' es))"

definition pathExt :: "string \<Rightarrow> string" where
  "pathExt p =
     (let name = takeWhile (\<lambda>c. c \<noteq> CHR ''/'') (rev p) in
      if CHR ''.'' \<in> set name then rev (takeWhile (\<lambda>c. c \<noteq> CHR ''.'') name @ ''.'') else '''')"

text \<open>The part up to the last slash and what follows it.\<close>

definition pathSplit :: "string \<Rightarrow> string \<times> string" where
  "pathSplit p =
     (rev (dropWhile (\<lambda>c. c \<noteq> CHR ''/'') (rev p)), rev (takeWhile (\<lambda>c. c \<noteq> CHR ''/'') (rev p)))"

definition pathDir :: "string \<Rightarrow> string" where
  "pathDir p = cleanPath (fst (pathSplit p))"

fun dropCommon :: "string list \<Rightarrow> string list \<Rightarrow> string list \<times> string list" where
  "dropCommon (b # bs) (t # ts) = (if b = t then dropCommon bs ts else (b # bs, t # ts))"
| "dropCommon bs ts = (bs, ts)"

definition pathRel :: "string \<Rightarrow> string \<Rightarrow> string + string" where
  "pathRel basepath targpath =
     (if cleanPath targpath = cleanPath basepath then Inr ''.''
      else if isRooted basepath \<noteq> isRooted targpath
      then Inl (''Rel: can't make '' @ targpath @ '' relative to '' @ basepath)
      else (case dropCommon (components basepath) (components targpath) of
          (bs, ts) \<Rightarrow>
            if bs \<noteq> [] \<and> hd bs = ''..'' then Inl (''Rel: can't make '' @ targpath @ '' relative to '' @ basepath)
            else Inr (joinSep ''/'' (replicate (length bs) ''..'' @ ts))))"

section \<open>Facts\<close>

lemma splitByte_nonempty [simp]: "splitByte c s \<noteq> []"
  by (induction s) (auto split: list.splits)

lemma splitByte_append: "splitByte c (s @ c # t) = splitByte c s @ splitByte c t"
  by (induction s) (auto split: list.splits)

lemma splitByte_single: "c \<notin> set s \<Longrightarrow> splitByte c s = [s]"
  by (induction s) auto

lemma splitByte_free: "x \<in> set (splitByte c s) \<Longrightarrow> c \<notin> set x"
  by (induction s arbitrary: x) (auto split: if_splits list.splits)

lemma splitByte_joinSep:
  "xs \<noteq> [] \<Longrightarrow> list_all (\<lambda>x. c \<notin> set x) xs \<Longrightarrow> splitByte c (joinSep [c] xs) = xs"
  by (induction "[c]" xs rule: joinSep.induct) (auto simp: splitByte_single splitByte_append)

text \<open>A component that stands for itself.\<close>

definition plain :: "string \<Rightarrow> bool" where
  "plain c \<longleftrightarrow> c \<noteq> '''' \<and> c \<noteq> ''.'' \<and> c \<noteq> ''..'' \<and> CHR ''/'' \<notin> set c"

lemma pushComponent_plain: "plain c \<Longrightarrow> pushComponent rooted c stack = c # stack"
  by (simp add: pushComponent_def plain_def)

lemma push_plains: "list_all plain cs \<Longrightarrow> fold (pushComponent rooted) cs stack = rev cs @ stack"
  by (induction cs arbitrary: stack) (auto simp: pushComponent_plain)

lemma joinSep_Nil: "joinSep sep xs = '''' \<Longrightarrow> list_all plain xs \<Longrightarrow> xs = []"
  by (induction sep xs rule: joinSep.induct) (auto simp: plain_def)

text \<open>A path of plain components below the root is clean and has these components.\<close>

lemma components_rooted:
  assumes "list_all plain cs"
  shows "components (CHR ''/'' # joinSep ''/'' cs) = cs" "cleanPath (CHR ''/'' # joinSep ''/'' cs) = CHR ''/'' # joinSep ''/'' cs"
proof -
  have free: "list_all (\<lambda>x. CHR ''/'' \<notin> set x) cs" using assms by (simp add: list_all_iff plain_def)
  show c: "components (CHR ''/'' # joinSep ''/'' cs) = cs"
  proof (cases "cs = []")
    case False
    then have "splitByte (CHR ''/'') (joinSep ''/'' cs) = cs" using splitByte_joinSep free by blast
    then show ?thesis using push_plains [OF assms] by (simp add: components_def pushComponent_def)
  qed (simp add: components_def pushComponent_def)
  show "cleanPath (CHR ''/'' # joinSep ''/'' cs) = CHR ''/'' # joinSep ''/'' cs"
    by (simp add: cleanPath_def c Let_def) (simp add: isRooted_def HasPrefix_def)
qed

end
