(* ===== verification/Ci_Config.thy ===== *)
theory Ci_Config
  imports Json_Value Go_Path
begin

text \<open>
  The CI scanner: its configuration with defaults, registry credentials, the items of the scan-errors report, and what git tells about the
  repository. Files, the environment, git and JSON are arguments.
\<close>

section \<open>Configuration\<close>

record HelmConfig =
  hc_Name :: string
  hc_Path :: string
  hc_Repo :: string
  hc_Chart :: string
  hc_FluxFile :: string
  hc_Version :: string
  hc_ValuesFile :: string
  hc_ValuesFiles :: "string list"
  hc_Values :: json_object

definition IsRemote :: "HelmConfig \<Rightarrow> bool" where "IsRemote hc \<longleftrightarrow> hc_Repo hc \<noteq> ''''"
definition IsLocal :: "HelmConfig \<Rightarrow> bool" where "IsLocal hc \<longleftrightarrow> hc_Path hc \<noteq> ''''"
definition IsFluxFile :: "HelmConfig \<Rightarrow> bool" where "IsFluxFile hc \<longleftrightarrow> hc_FluxFile hc \<noteq> ''''"

record ManifestConfig =
  mc_YamlPaths :: "string list"
  mc_Helm :: "HelmConfig list"

text \<open>The switches of the reports; \<^const>\<open>None\<close> is the nil pointer.\<close>

record reportsConfig =
  rc_Polaris :: "bool option"
  rc_Pluto :: "bool option"
  rc_TFSec :: "bool option"
  rc_Trivy :: "bool option"
  rc_TrivySkipManifests :: "bool option"
  rc_OPA :: "bool option"
  rc_PrometheusMetrics :: "bool option"
  rc_Goldilocks :: "bool option"

record RegistryCredential =
  cr_Domain :: string
  cr_Username :: string
  cr_Password :: string

record optionConfig =
  op_SetExitCode :: bool
  op_BaseBranch :: string
  op_NewActionItemThreshold :: int
  op_SeverityThreshold :: string
  op_TempFolder :: string
  op_Hostname :: string
  op_Organization :: string
  op_JUnitOutput :: string
  op_RepositoryName :: string
  op_RegistryCredentials :: "RegistryCredential list"
  op_CIRunner :: string

record imageConfig =
  im_FolderName :: string
  im_Docker :: "string list"

record ci_configuration =
  cf_Images :: imageConfig
  cf_Manifests :: ManifestConfig
  cf_TerraformPaths :: "string list"
  cf_Options :: optionConfig
  cf_Reports :: reportsConfig

definition ci_Validate :: "RegistryCredential list \<Rightarrow> string option" where
  "ci_Validate rcs =
     (if length rcs > card (cr_Domain ` set rcs) then Some ''duplicated domains found in registry credentials list'' else None)"

definition registryDomain :: "string \<Rightarrow> string" where
  "registryDomain imageName = (case splitByte (CHR ''/'') imageName of [domain, _, _] \<Rightarrow> domain | _ \<Rightarrow> ''docker.io'')"

definition FindCredentialForImage :: "RegistryCredential list \<Rightarrow> string \<Rightarrow> RegistryCredential option" where
  "FindCredentialForImage rcs imageName = find (\<lambda>rc. cr_Domain rc = registryDomain imageName) rcs"

definition maybeAddSlash :: "string \<Rightarrow> string" where
  "maybeAddSlash s = (if HasSuffix s ''/'' then s else s @ ''/'')"

definition setFolders :: "string \<Rightarrow> string \<Rightarrow> ci_configuration \<Rightarrow> ci_configuration" where
  "setFolders temp imgs c =
     c\<lparr>cf_Options := (cf_Options c)\<lparr>op_TempFolder := temp\<rparr>, cf_Images := (cf_Images c)\<lparr>im_FolderName := imgs\<rparr>\<rparr>"

text \<open>\<open>mkdir\<close> gives the error of creating a directory.\<close>

definition SetMountedPathDefaults :: "(string \<Rightarrow> string option) \<Rightarrow> string \<Rightarrow> ci_configuration \<Rightarrow> string + ci_configuration" where
  "SetMountedPathDefaults mkdir basePath c =
     (let temp = pathJoin [basePath, ''tmp/_insightsTemp'']; imgs = pathJoin [basePath, ''tmp/_insightsTempImages''] in
      case mkdir temp of
        Some err \<Rightarrow> Inl (''SetMountedPathDefaults: '' @ err)
      | None \<Rightarrow>
          (case mkdir imgs of
             Some err \<Rightarrow> Inl (''SetMountedPathDefaults: '' @ err)
           | None \<Rightarrow> Inr (setFolders (maybeAddSlash temp) (maybeAddSlash imgs) c)))"

definition SetPathDefaults :: "ci_configuration \<Rightarrow> ci_configuration" where
  "SetPathDefaults c =
     (let temp = op_TempFolder (cf_Options c); imgs = im_FolderName (cf_Images c) in
      setFolders (maybeAddSlash (if temp = '''' then ''/tmp/_insightsTemp/'' else temp))
        (maybeAddSlash (if imgs = '''' then ''./_insightsTempImages/'' else imgs)) c)"

definition orDefault :: "string \<Rightarrow> string \<Rightarrow> string" where
  "orDefault s dflt = (if s = '''' then dflt else s)"

definition orEnabled :: "bool \<Rightarrow> bool option \<Rightarrow> bool option" where
  "orEnabled dflt b = (case b of None \<Rightarrow> Some dflt | Some x \<Rightarrow> Some x)"

definition defaultOptions :: "(string \<Rightarrow> string) \<Rightarrow> optionConfig \<Rightarrow> optionConfig" where
  "defaultOptions getenv op = op\<lparr>
     op_CIRunner := TrimSpace (getenv ''CI_RUNNER''),
     op_BaseBranch := orDefault (op_BaseBranch op) (orDefault (TrimSpace (getenv ''BASE_BRANCH'')) ''master''),
     op_Organization := orDefault (op_Organization op) (TrimSpace (getenv ''ORG_NAME'')),
     op_RepositoryName := orDefault (op_RepositoryName op) (TrimSpace (getenv ''REPOSITORY_NAME'')),
     op_Hostname := orDefault (op_Hostname op) (orDefault (TrimSpace (getenv ''HOSTNAME'')) ''https://insights.fairwinds.com''),
     op_SeverityThreshold := orDefault (op_SeverityThreshold op) ''danger'',
     op_NewActionItemThreshold := (if op_NewActionItemThreshold op = 0 then -1 else op_NewActionItemThreshold op)\<rparr>"

definition defaultReports :: "reportsConfig \<Rightarrow> reportsConfig" where
  "defaultReports rc = \<lparr>rc_Polaris = orEnabled True (rc_Polaris rc), rc_Pluto = orEnabled True (rc_Pluto rc), rc_TFSec = orEnabled False (rc_TFSec rc),
     rc_Trivy = orEnabled True (rc_Trivy rc), rc_TrivySkipManifests = orEnabled False (rc_TrivySkipManifests rc), rc_OPA = orEnabled True (rc_OPA rc),
     rc_PrometheusMetrics = orEnabled True (rc_PrometheusMetrics rc), rc_Goldilocks = orEnabled True (rc_Goldilocks rc)\<rparr>"

text \<open>\<open>decode\<close> reads credentials from JSON.\<close>

definition ci_SetDefaults :: "(string \<Rightarrow> string) \<Rightarrow> (string \<Rightarrow> string + RegistryCredential list) \<Rightarrow> ci_configuration \<Rightarrow> string + ci_configuration" where
  "ci_SetDefaults getenv decode c =
     (let c' = c\<lparr>cf_Options := defaultOptions getenv (cf_Options c), cf_Reports := defaultReports (cf_Reports c)\<rparr>;
          json = TrimSpace (getenv ''REGISTRY_CREDENTIALS'') in
      if json = '''' then Inr c'
      else case decode json of
        Inl err \<Rightarrow> Inl (''could not parse registry credentials: '' @ err)
      | Inr rcs \<Rightarrow>
          (case ci_Validate rcs of
             Some err \<Rightarrow> Inl (''registryCredentials is not valid: '' @ err)
           | None \<Rightarrow> Inr (c'\<lparr>cf_Options := (cf_Options c')\<lparr>op_RegistryCredentials := rcs\<rparr>\<rparr>)))"

definition CheckForErrors :: "ci_configuration \<Rightarrow> string option" where
  "CheckForErrors c = (if op_Organization (cf_Options c) = '''' then Some ''options.organization not set'' else None)"

text \<open>The reports that auto-discovery switches on or off; a mentioned report without a value is nil again.\<close>

definition overrideReportsEnabled :: "(string \<times> bool option) list \<Rightarrow> reportsConfig \<Rightarrow> reportsConfig" where
  "overrideReportsEnabled autoScan rc =
     (let over = (\<lambda>name old. case map_of autoScan name of Some e \<Rightarrow> e | None \<Rightarrow> old) in
      rc\<lparr>rc_OPA := over ''opa'' (rc_OPA rc), rc_Polaris := over ''polaris'' (rc_Polaris rc), rc_Pluto := over ''pluto'' (rc_Pluto rc),
         rc_Trivy := over ''trivy'' (rc_Trivy rc), rc_TFSec := over ''tfsec'' (rc_TFSec rc)\<rparr>)"

section \<open>Setting up\<close>

datatype config_file = ConfigMissing string | ConfigUnreadable string | ConfigText string

record setup_env =
  su_getenv :: "string \<Rightarrow> string"
  su_open :: "string \<Rightarrow> config_file"
  su_parse :: "string \<Rightarrow> string + ci_configuration"
  su_autoDetect :: "string \<Rightarrow> string + ci_configuration"
  su_write :: "string \<Rightarrow> ci_configuration \<Rightarrow> string option"
  su_credentials :: "string \<Rightarrow> string + RegistryCredential list"
  su_reportsConfig :: "string \<Rightarrow> string + (string \<times> bool option) list"
  su_mkdir :: "string \<Rightarrow> string option"
  su_removeAll :: "string \<Rightarrow> string option"
  su_execIn :: "string \<Rightarrow> string list \<Rightarrow> string + string"

definition configFileName :: string where "configFileName = ''fairwinds-insights.yaml''"

text \<open>Only a missing file leaves room for detection; the right side of the answer is \<^const>\<open>None\<close> then.\<close>

definition readConfigurationFromFile :: "setup_env \<Rightarrow> string \<Rightarrow> string + ci_configuration option" where
  "readConfigurationFromFile env p =
     (case su_open env p of
        ConfigMissing err \<Rightarrow> Inr None
      | ConfigUnreadable err \<Rightarrow> Inl (''Could not open fairwinds-insights.yaml: '' @ err)
      | ConfigText contents \<Rightarrow>
          (case su_parse env contents of
             Inl err \<Rightarrow> Inl (''Could not parse fairwinds-insights.yaml: '' @ err)
           | Inr c \<Rightarrow> Inr (Some c)))"

definition unmarshalAndOverrideConfig :: "setup_env \<Rightarrow> ci_configuration \<Rightarrow> string + ci_configuration" where
  "unmarshalAndOverrideConfig env c =
     (case su_reportsConfig env (su_getenv env ''REPORTS_CONFIG'') of
        Inl err \<Rightarrow> Inl (''unable to parse auto-scan reports config: '' @ err)
      | Inr autoScan \<Rightarrow> Inr (c\<lparr>cf_Reports := overrideReportsEnabled autoScan (cf_Reports c)\<rparr>))"

text \<open>The configuration of the file, or else a detected one that is written next to the manifests.\<close>

definition readOrDetect :: "setup_env \<Rightarrow> string \<Rightarrow> string \<Rightarrow> bool \<Rightarrow> string + ci_configuration" where
  "readOrDetect env configFilePath folder override =
     (case readConfigurationFromFile env configFilePath of
        Inl err \<Rightarrow> Inl err
      | Inr (Some c) \<Rightarrow> Inr c
      | Inr None \<Rightarrow>
     (case su_autoDetect env folder of
        Inl err \<Rightarrow> Inl err
      | Inr detected \<Rightarrow>
     (case (if override \<and> TrimSpace (su_getenv env ''REPORTS_CONFIG'') \<noteq> '''' then unmarshalAndOverrideConfig env detected else Inr detected) of
        Inl err \<Rightarrow> Inl err
      | Inr c \<Rightarrow> (case su_write env (pathJoin [folder, configFileName]) c of Some err \<Rightarrow> Inl err | None \<Rightarrow> Inr c))))"

text \<open>Base folder, folder of the repository, configuration.\<close>

definition getDefaultConfiguration :: "setup_env \<Rightarrow> string + string \<times> string \<times> ci_configuration" where
  "getDefaultConfiguration env =
     (case readOrDetect env (''./'' @ configFileName) '''' False of
        Inl err \<Rightarrow> Inl err
      | Inr c0 \<Rightarrow>
     (case ci_SetDefaults (su_getenv env) (su_credentials env) c0 of
        Inl err \<Rightarrow> Inl err
      | Inr c1 \<Rightarrow>
          let c = SetPathDefaults c1 in
          (case CheckForErrors c of
             Some err \<Rightarrow> Inl (''Error parsing fairwinds-insights.yaml: '' @ err)
           | None \<Rightarrow> Inr (pathBase '''', pathBase '''', c))))"

definition GetRepoDetails :: "string \<Rightarrow> string \<times> string" where
  "GetRepoDetails repositoryName = (case splitByte (CHR ''/'') repositoryName of [o1, r] \<Rightarrow> (o1, r) | _ \<Rightarrow> ('''', repositoryName))"

definition cloneURL :: "string \<Rightarrow> string \<Rightarrow> string" where
  "cloneURL accessToken repoFullName =
     (if accessToken \<noteq> '''' then ''https://x-access-token:'' @ accessToken @ ''@github.com/'' @ repoFullName
      else ''https://@github.com/'' @ repoFullName)"

definition clonedConfiguration :: "setup_env \<Rightarrow> string \<Rightarrow> string \<Rightarrow> string + string \<times> string \<times> ci_configuration" where
  "clonedConfiguration env basePath baseRepoPath =
     (case readOrDetect env (pathJoin [baseRepoPath, configFileName]) baseRepoPath True of
        Inl err \<Rightarrow> Inl err
      | Inr c0 \<Rightarrow>
     (case ci_SetDefaults (su_getenv env) (su_credentials env) c0 of
        Inl err \<Rightarrow> Inl err
      | Inr c1 \<Rightarrow>
     (case SetMountedPathDefaults (su_mkdir env) basePath c1 of
        Inl err \<Rightarrow> Inl (''Could not set set path defaults correctly: '' @ err)
      | Inr c2 \<Rightarrow>
     (case CheckForErrors c2 of
        Some err \<Rightarrow> Inl (''Error parsing fairwinds-insights.yaml: '' @ err)
      | None \<Rightarrow>
          let c = c2\<lparr>cf_Options := (cf_Options c2)\<lparr>op_SetExitCode := False\<rparr>\<rparr>; branch = op_BaseBranch (cf_Options c) in
          (case su_execIn env baseRepoPath [''git'', ''update-ref'', ''refs/heads/'' @ branch, ''refs/remotes/origin/'' @ branch] of
             Inl err \<Rightarrow> Inl (''unable to update ref for branch '' @ branch @ '': '' @ err)
           | Inr _ \<Rightarrow> Inr (pathJoin [baseRepoPath, ''../''], baseRepoPath, c))))))"

definition getConfigurationForCloneRepo :: "setup_env \<Rightarrow> string + string \<times> string \<times> ci_configuration" where
  "getConfigurationForCloneRepo env =
     (let get = (\<lambda>k. TrimSpace (su_getenv env k)); repoFullName = get ''REPOSITORY_NAME''; branch = get ''BRANCH_NAME'' in
      if repoFullName = '''' then Inl ''REPOSITORY_NAME environment variable not set''
      else if branch = '''' then Inl ''BRANCH environment variable not set''
      else if get ''IMAGE_VERSION'' = '''' then Inl ''IMAGE_VERSION environment variable not set''
      else
        let basePath = (if su_getenv env ''CI_BASE_PATH'' \<noteq> '''' then su_getenv env ''CI_BASE_PATH'' else ''/app/repository'');
            baseRepoPath = pathJoin [basePath, snd (GetRepoDetails repoFullName)] in
        (case su_removeAll env baseRepoPath of
           Some err \<Rightarrow> Inl (''unable to delete existing directory: '' @ err)
         | None \<Rightarrow>
             (case su_execIn env basePath [''git'', ''clone'', ''--branch'', branch, cloneURL (get ''GITHUB_ACCESS_TOKEN'') repoFullName] of
                Inl err \<Rightarrow> Inl (''unable to clone repository: '' @ err)
              | Inr _ \<Rightarrow> clonedConfiguration env basePath baseRepoPath)))"

definition setupConfiguration :: "bool \<Rightarrow> setup_env \<Rightarrow> string + string \<times> string \<times> ci_configuration" where
  "setupConfiguration cloneRepo env = (if cloneRepo then getConfigurationForCloneRepo env else getDefaultConfiguration env)"

end
