(* ===== verification/Ci_Report.thy ===== *)
theory Ci_Report
  imports Ci_Config
begin

text \<open>
  The CI scanner's report of its own errors, the details of the repository that git and the environment give, and the titles of action items.
\<close>

section \<open>Scan errors\<close>

record ScanErrorsReportResult =
  se_Kind :: string
  se_ResourceName :: string
  se_ErrorMessage :: string
  se_ErrorContext :: string
  se_Filename :: string
  se_Remediation :: string
  se_Severity :: float64
  se_Category :: string

definition scanError :: "string \<Rightarrow> ScanErrorsReportResult" where
  "scanError msg = \<lparr>se_Kind = '''', se_ResourceName = '''', se_ErrorMessage = msg, se_ErrorContext = '''', se_Filename = '''', se_Remediation = '''',
     se_Severity = Finite 0, se_Category = ''''\<rparr>"

text \<open>An error of the scanner: a plain one, one with its context, or several.\<close>

datatype ci_error = PlainError string | ResultError ScanErrorsReportResult | MultiError "ci_error list"

definition FillUnsetFields :: "ScanErrorsReportResult \<Rightarrow> ScanErrorsReportResult \<Rightarrow> ScanErrorsReportResult" where
  "FillUnsetFields f r = r\<lparr>
     se_Kind := orDefault (se_Kind r) (se_Kind f), se_ResourceName := orDefault (se_ResourceName r) (se_ResourceName f),
     se_ErrorContext := orDefault (se_ErrorContext r) (se_ErrorContext f), se_Filename := orDefault (se_Filename r) (se_Filename f),
     se_Remediation := orDefault (se_Remediation r) (se_Remediation f),
     se_Severity := (if se_Severity r = Finite 0 then se_Severity f else se_Severity r),
     se_Category := orDefault (se_Category r) (se_Category f)\<rparr>"

definition FillUnsetRequiredFieldsWithDefaults :: "ScanErrorsReportResult \<Rightarrow> ScanErrorsReportResult" where
  "FillUnsetRequiredFieldsWithDefaults r = r\<lparr>
     se_Kind := orDefault (se_Kind r) ''CIErrorWithoutContext'',
     se_ResourceName := orDefault (se_ResourceName r) ''unknown'',
     se_ErrorContext := orDefault (se_ErrorContext r) ''performing an action in CI''\<rparr>"

definition reportItem :: "ScanErrorsReportResult list \<Rightarrow> ScanErrorsReportResult \<Rightarrow> ScanErrorsReportResult" where
  "reportItem fills r = FillUnsetRequiredFieldsWithDefaults (fold FillUnsetFields fills r)"

fun AddScanErrorsReportResultFromError :: "ci_error \<Rightarrow> ScanErrorsReportResult list \<Rightarrow> ScanErrorsReportResult list \<Rightarrow> ScanErrorsReportResult list" where
  "AddScanErrorsReportResultFromError (PlainError msg) fills items = items @ [reportItem fills (scanError msg)]"
| "AddScanErrorsReportResultFromError (ResultError r) fills items = items @ [reportItem fills r]"
| "AddScanErrorsReportResultFromError (MultiError []) fills items = items"
| "AddScanErrorsReportResultFromError (MultiError (e # es)) fills items =
     AddScanErrorsReportResultFromError (MultiError es) fills (AddScanErrorsReportResultFromError e fills items)"

definition createErrorItemMessage :: "ScanErrorsReportResult \<Rightarrow> string" where
  "createErrorItemMessage r =
     (let head = (if se_ErrorContext r \<noteq> '''' then se_ErrorContext r @ ''/'' else '''') @ (if se_Kind r \<noteq> '''' then se_Kind r @ ''/'' else '''') @ se_ResourceName r in
      head @ (if head \<noteq> '''' then '' - '' else '''') @ se_ErrorMessage r @ (if se_Filename r \<noteq> '''' then '' ('' @ se_Filename r @ '')'' else ''''))"

section \<open>Titles\<close>

record ci_action_item =
  ca_Remediation :: string
  ca_Severity :: float64
  ca_Title :: string
  ca_Description :: string
  ca_Notes :: string
  ca_Namespace :: string
  ca_Name :: string
  ca_Kind :: string
  ca_Filename :: string

record ScanResults =
  sr_NewActionItems :: "ci_action_item list"
  sr_FixedActionItems :: "ci_action_item list"
  sr_Pass :: bool

definition GetReadableTitle :: "ci_action_item \<Rightarrow> string" where
  "GetReadableTitle ai =
     (if ca_Filename ai \<noteq> '''' then ca_Filename ai @ '': '' else '''') @
     (if ca_Namespace ai = '''' then ca_Kind ai @ ''/'' @ ca_Name ai else ca_Namespace ai @ ''/'' @ ca_Kind ai @ ''/'' @ ca_Name ai) @
     '' - '' @ ca_Title ai"

text \<open>The first lines of a text as they are printed.\<close>

definition maxLinesForPrint :: nat where "maxLinesForPrint = 8"

definition printMultilineString :: "string \<Rightarrow> string \<Rightarrow> string list" where
  "printMultilineString title str =
     (let ls = splitByte (CHR 0x0A) (if str = '''' then ''Unspecified'' else str) in
      [''  '' @ title @ '':''] @ map (\<lambda>l. ''    '' @ l) (take (Suc maxLinesForPrint) ls) @
      (if length ls > maxLinesForPrint then [''    [truncated]''] else []))"

definition printActionItems :: "ci_action_item list \<Rightarrow> string list" where
  "printActionItems ais =
     concat (map (\<lambda>ai. [GetReadableTitle ai] @ printMultilineString ''Description'' (ca_Description ai) @
       printMultilineString ''Remediation'' (ca_Remediation ai) @ ['''']) ais)"

text \<open>A test case of the JUnit file: its name, and for a new action item the failure's message and text.\<close>

definition junitCases :: "ScanResults \<Rightarrow> (string \<times> (string \<times> string) option) list" where
  "junitCases results =
     map (\<lambda>ai. (GetReadableTitle ai, Some (ca_Remediation ai, ''File: '' @ ca_Notes ai @ [CHR 0x0A] @ ''Description: '' @ ca_Description ai)))
       (sr_NewActionItems results) @
     map (\<lambda>ai. (GetReadableTitle ai, None)) (sr_FixedActionItems results)"

section \<open>Git\<close>

record gitInfo =
  gi_origin :: string
  gi_branch :: string
  gi_masterHash :: string
  gi_currentHash :: string
  gi_commitMessage :: string
  gi_repoName :: string
  gi_filesModified :: "string list"

text \<open>\<open>git\<close> runs a command in the repository; a value of the environment comes first.\<close>

type_synonym git = "string list \<Rightarrow> string + string"

definition orGit :: "(string \<Rightarrow> string) \<Rightarrow> git \<Rightarrow> string \<Rightarrow> string list \<Rightarrow> string + string" where
  "orGit getenv git var cmd = (if getenv var \<noteq> '''' then Inr (getenv var) else git cmd)"

text \<open>The output that is left when an error is only logged.\<close>

definition outputOf :: "string + string \<Rightarrow> string" where
  "outputOf a = (case a of Inl _ \<Rightarrow> '''' | Inr s \<Rightarrow> s)"

definition branchStrategies :: "string \<Rightarrow> string list" where
  "branchStrategies baseBranch =
     (let b = TrimPrefix baseBranch ''origin/'' in [b, ''origin/'' @ b, ''remotes/origin/'' @ b])"

text \<open>The merge base with the first branch that has one; else the last answer, which is empty.\<close>

fun firstMergeBase :: "git \<Rightarrow> string list \<Rightarrow> string" where
  "firstMergeBase git [] = ''''"
| "firstMergeBase git (b # bs) = (case git [''merge-base'', ''HEAD'', b] of Inr h \<Rightarrow> h | Inl _ \<Rightarrow> firstMergeBase git bs)"

text \<open>Split at a two-byte separator, as \<^verbatim>\<open>strings.Split\<close> does at the double slash; only the last piece is used.\<close>

fun afterLastSlashes :: "string \<Rightarrow> string \<Rightarrow> string" where
  "afterLastSlashes piece [] = piece"
| "afterLastSlashes piece [c] = piece @ [c]"
| "afterLastSlashes piece (c # d # s) =
     (if c = CHR ''/'' \<and> d = CHR ''/'' then afterLastSlashes '''' s else afterLastSlashes (piece @ [c]) (d # s))"

definition extractRepoNameFromOrigin :: "string \<Rightarrow> string" where
  "extractRepoNameFromOrigin origin =
     (let r1 = (if CHR ''@'' \<in> set origin then last (splitByte (CHR ''@'') origin)
                else if Contains origin ''//'' then afterLastSlashes '''' origin else origin);
          r2 = (if CHR '':'' \<in> set r1 then last (splitByte (CHR '':'') r1) else r1)
      in TrimSuffix r2 (pathExt r2))"

definition modifiedFiles :: "string \<Rightarrow> string list" where
  "modifiedFiles out = filter (\<lambda>f. f \<noteq> '''') (map TrimSpace (splitByte (CHR 0x0A) out))"

definition getGitInfo :: "(string \<Rightarrow> string) \<Rightarrow> git \<Rightarrow> string \<Rightarrow> string \<Rightarrow> string + gitInfo" where
  "getGitInfo getenv git repoName baseBranch =
     (case git [''config'', ''--global'', ''--add'', ''safe.directory'', ''/insights''] of
        Inl err \<Rightarrow> Inl err
      | Inr _ \<Rightarrow>
     (case orGit getenv git ''CURRENT_HASH'' [''rev-parse'', ''HEAD''] of
        Inl err \<Rightarrow> Inl err
      | Inr currentHash \<Rightarrow>
          let masterHash = TrimSpace (if getenv ''MASTER_HASH'' \<noteq> '''' then getenv ''MASTER_HASH''
                else firstMergeBase git (branchStrategies baseBranch));
              commitMessage = outputOf (orGit getenv git ''COMMIT_MESSAGE'' [''log'', ''--pretty=format:%s'', ''-1'']);
              branch = outputOf (orGit getenv git ''BRANCH_NAME'' [''rev-parse'', ''--abbrev-ref'', ''HEAD'']);
              files = outputOf (git [''diff'', ''--name-only'', ''HEAD'', masterHash]);
              origin = TrimSpace (outputOf (orGit getenv git ''ORIGIN_URL'' [''remote'', ''get-url'', ''origin'']))
          in Inr \<lparr>gi_origin = origin, gi_branch = TrimSpace branch, gi_masterHash = masterHash, gi_currentHash = TrimSpace currentHash,
               gi_commitMessage = TrimSpace (take 100 commitMessage),
               gi_repoName = (if TrimSpace repoName = '''' then extractRepoNameFromOrigin origin else TrimSpace repoName),
               gi_filesModified = modifiedFiles files\<rparr>))"

end
