(* ===== verification/Ci_Scan.thy ===== *)
theory Ci_Scan
  imports Ci_Report Trivy_Report Opa_Checks
begin

text \<open>
  The CI scanner's view of the manifests: the resources and images in the YAML files of the configuration folder, and the custom checks run on them.
  The files stand as they are walked and decoded.
\<close>

section \<open>Manifests\<close>

text \<open>
  A file with the error of opening it, or its documents, each with the error of decoding it into a map, and the error that ends the file in place of
  its end.
\<close>

record yaml_file =
  yf_path :: string
  yf_openError :: "string option"
  yf_docs :: "(string + json_object) list"
  yf_endError :: "string option"

definition isYaml :: "yaml_file \<Rightarrow> bool" where
  "isYaml f \<longleftrightarrow> HasSuffix (pathBase (yf_path f)) ''.yaml'' \<or> HasSuffix (pathBase (yf_path f)) ''.yml''"

record ci_metadata =
  md_apiVersion :: string
  md_kind :: string
  md_name :: string
  md_namespace :: string
  md_labels :: "(string \<times> string) list"
  md_annotations :: "(string \<times> string) list"

definition stringOr :: "json \<Rightarrow> string" where
  "stringOr j = (case asString j of Some s \<Rightarrow> s | None \<Rightarrow> '''')"

definition labelEntries :: "json \<Rightarrow> (string \<times> string) list" where
  "labelEntries j = (case asObject j of
     None \<Rightarrow> [] | Some m \<Rightarrow> List.map_filter (\<lambda>(k, v). map_option (\<lambda>s. (k, s)) (asString v)) m)"

definition ExtractMetadata :: "json_object \<Rightarrow> ci_metadata" where
  "ExtractMetadata obj =
     (let m = (case asObject (jget obj ''metadata'') of Some m \<Rightarrow> m | None \<Rightarrow> []) in
      \<lparr>md_apiVersion = stringOr (jget obj ''apiVersion''), md_kind = stringOr (jget obj ''kind''), md_name = stringOr (jget m ''name''),
       md_namespace = stringOr (jget m ''namespace''), md_labels = labelEntries (jget m ''labels''),
       md_annotations = labelEntries (jget m ''annotations'')\<rparr>)"

section \<open>Containers\<close>

record ci_container =
  cn_Image :: string
  cn_Name :: string

definition podSpecFields :: "string list" where "podSpecFields = [''jobTemplate'', ''spec'', ''template'']"
definition containerSpecFields :: "string list" where "containerSpecFields = [''containers'', ''initContainers'']"

text \<open>The child under the first field that is there, also if it is there without a value.\<close>

fun firstChild :: "string list \<Rightarrow> json_object \<Rightarrow> json option" where
  "firstChild [] m = None"
| "firstChild (k # ks) m = (case map_of m k of Some c \<Rightarrow> Some c | None \<Rightarrow> firstChild ks m)"

lemma firstChild_in: "firstChild ks m = Some c \<Longrightarrow> \<exists>k. (k, c) \<in> set m"
  by (induction ks) (auto split: option.splits dest: map_of_SomeD)

lemma firstChild_size: "firstChild ks m = Some c \<Longrightarrow> size c < size (JObject m)"
proof -
  assume "firstChild ks m = Some c"
  then obtain k where "(k, c) \<in> set m" using firstChild_in by blast
  then have "size_prod (\<lambda>_. 0) size (k, c) \<le> size_list (size_prod (\<lambda>_. 0) size) m" by (rule size_list_estimation') simp
  then show ?thesis by simp
qed

text \<open>Anything but a map on the way panics.\<close>

function getPodSpec :: "json \<Rightarrow> json_object option" where
  "getPodSpec yaml =
     (case yaml of
        JObject m \<Rightarrow> (case firstChild podSpecFields m of Some c \<Rightarrow> getPodSpec c | None \<Rightarrow> Some m)
      | _ \<Rightarrow> None)"
  by pat_completeness auto
termination
  by (relation "measure size") (auto dest: firstChild_size)

declare getPodSpec.simps [simp del]

definition containerOf :: "json \<Rightarrow> ci_container option" where
  "containerOf j = map_option (\<lambda>m. \<lparr>cn_Image = stringOr (jget m ''image''), cn_Name = stringOr (jget m ''name'')\<rparr>) (asObject j)"

definition containersUnder :: "json_object \<Rightarrow> string \<Rightarrow> ci_container list option" where
  "containersUnder podSpec k = (case asArray (jget podSpec k) of None \<Rightarrow> Some [] | Some cs \<Rightarrow> those (map containerOf cs))"

definition ci_getImages :: "json_object \<Rightarrow> ci_container list option" where
  "ci_getImages podSpec = map_option concat (those (map (containersUnder podSpec) containerSpecFields))"

definition processYamlNode :: "json_object \<Rightarrow> (TrivyImage list \<times> ci_container list) option" where
  "processYamlNode yamlNode =
     (let md = ExtractMetadata yamlNode in
      if md_kind md = '''' \<or> md_name md = '''' then Some ([], [])
      else Option.bind (getPodSpec (JObject yamlNode)) (\<lambda>podSpec.
        map_option (\<lambda>cs. (map (\<lambda>c. \<lparr>tvi_Name = cn_Image c, tvi_ID = '''', tvi_PullRef = '''',
            tvi_Owners = [\<lparr>tvr_Name = md_name md, tvr_Kind = md_kind md, tvr_Namespace = md_namespace md, tvr_Container = cn_Name c\<rparr>],
            tvi_RecommendationOnly = False\<rparr>) cs, cs)) (ci_getImages podSpec)))"

section \<open>Resources\<close>

record ci_resource =
  cy_Kind :: string
  cy_Name :: string
  cy_Filename :: string
  cy_Namespace :: string
  cy_HelmName :: string
  cy_Labels :: "(string \<times> string) list"
  cy_Containers :: "string list"
  cy_Annotations :: "(string \<times> string) list"

definition relocate :: "HelmConfig \<Rightarrow> string \<Rightarrow> string" where
  "relocate helm displayFilename =
     (let rest = joinSep ''/'' (drop 2 (splitByte (CHR ''/'') displayFilename)) in
      if IsLocal helm then pathJoin [hc_Path helm, rest]
      else if IsRemote helm then pathJoin [if IsFluxFile helm then hc_FluxFile helm else hc_Chart helm, rest]
      else rest)"

definition getDisplayFilenameAndHelmName :: "string \<Rightarrow> HelmConfig list \<Rightarrow> string \<Rightarrow> string + string \<times> string" where
  "getDisplayFilenameAndHelmName configFolder helms p =
     (case pathRel configFolder p of
        Inl err \<Rightarrow> Inl (''cannot be made relative to basepath: '' @ err)
      | Inr rel \<Rightarrow> Inr (fold (\<lambda>helm (display, helmName).
          if HasPrefix display (hc_Name helm @ ''/'') then (relocate helm display, hc_Name helm) else (display, helmName)) helms (rel, '''')))"

type_synonym found = "TrivyImage list \<times> ci_resource list"

definition scanObject :: "string \<Rightarrow> string \<Rightarrow> json_object \<Rightarrow> found option" where
  "scanObject display helmName obj =
     (let md = ExtractMetadata obj in
      if md_kind md = '''' \<or> md_name md = '''' then Some ([], [])
      else map_option (\<lambda>(images, containers). (images, [\<lparr>cy_Kind = md_kind md, cy_Name = md_name md, cy_Filename = display, cy_Namespace = md_namespace md,
          cy_HelmName = helmName, cy_Labels = md_labels md, cy_Containers = map cn_Name containers, cy_Annotations = md_annotations md\<rparr>]))
        (processYamlNode obj))"

definition both :: "found \<Rightarrow> found \<Rightarrow> found" where
  "both a b = (fst a @ fst b, snd a @ snd b)"

fun scanAllObjects :: "string \<Rightarrow> string \<Rightarrow> json list \<Rightarrow> found option" where
  "scanAllObjects display helmName [] = Some ([], [])"
| "scanAllObjects display helmName (node # nodes) =
     Option.bind (scanObject display helmName (case asObject node of Some m \<Rightarrow> m | None \<Rightarrow> [])) (\<lambda>a.
       map_option (both a) (scanAllObjects display helmName nodes))"

definition scanDocument :: "string \<Rightarrow> string \<Rightarrow> json_object \<Rightarrow> found option" where
  "scanDocument display helmName doc =
     (case asString (jget doc ''kind'') of
        None \<Rightarrow> Some ([], [])
      | Some kind \<Rightarrow>
          if kind = ''list'' then Option.bind (asArray (jget doc ''items'')) (scanAllObjects display helmName)
          else scanObject display helmName doc)"

fun scanDocuments :: "string \<Rightarrow> string \<Rightarrow> string \<Rightarrow> (string + json_object) list \<Rightarrow> string option \<Rightarrow> (found \<times> string list) option" where
  "scanDocuments p display helmName [] endError =
     Some (([], []), case endError of None \<Rightarrow> [] | Some err \<Rightarrow> [''error decoding file '' @ p @ '': '' @ err])"
| "scanDocuments p display helmName (Inl err # docs) endError = Some (([], []), [''error decoding document '' @ p @ '': '' @ err])"
| "scanDocuments p display helmName (Inr doc # docs) endError =
     Option.bind (scanDocument display helmName doc) (\<lambda>a.
       map_option (\<lambda>(b, errs). (both a b, errs)) (scanDocuments p display helmName docs endError))"

definition scanFile :: "string \<Rightarrow> HelmConfig list \<Rightarrow> yaml_file \<Rightarrow> (found \<times> string list) option" where
  "scanFile configFolder helms f =
     (if \<not> isYaml f then Some (([], []), [])
      else case getDisplayFilenameAndHelmName configFolder helms (yf_path f) of
        Inl err \<Rightarrow> Some (([], []), [''error getting displayFilename and helmName for file '' @ yf_path f @ '': '' @ err])
      | Inr (display, helmName) \<Rightarrow>
          (case yf_openError f of
             Some err \<Rightarrow> Some (([], []), [''error opening file '' @ yf_path f @ '': '' @ err])
           | None \<Rightarrow> scanDocuments (yf_path f) display helmName (yf_docs f) (yf_endError f)))"

fun scanFiles :: "string \<Rightarrow> HelmConfig list \<Rightarrow> yaml_file list \<Rightarrow> (found \<times> string list) option" where
  "scanFiles configFolder helms [] = Some (([], []), [])"
| "scanFiles configFolder helms (f # fs) =
     Option.bind (scanFile configFolder helms f) (\<lambda>(a, errs).
       map_option (\<lambda>(b, errs'). (both a b, errs @ errs')) (scanFiles configFolder helms fs))"

text \<open>Images of the same name become one, the last of them with the owners of all; the map gives them in any order.\<close>

definition ownersOf :: "string \<Rightarrow> TrivyImage list \<Rightarrow> TrivyResource list" where
  "ownersOf name images = concat (map tvi_Owners (filter (\<lambda>i. tvi_Name i = name) images))"

fun lastNamed :: "TrivyImage list \<Rightarrow> TrivyImage list" where
  "lastNamed [] = []"
| "lastNamed (i # is) = (if \<exists>j \<in> set is. tvi_Name j = tvi_Name i then lastNamed is else i # lastNamed is)"

definition dedupImages :: "(TrivyImage list \<Rightarrow> TrivyImage list) \<Rightarrow> TrivyImage list \<Rightarrow> TrivyImage list" where
  "dedupImages shuffle images = shuffle (map (\<lambda>i. i\<lparr>tvi_Owners := ownersOf (tvi_Name i) images\<rparr>) (lastNamed images))"

definition getAllResources :: "(TrivyImage list \<Rightarrow> TrivyImage list) \<Rightarrow> string \<Rightarrow> HelmConfig list \<Rightarrow> yaml_file list \<Rightarrow>
    (TrivyImage list \<times> ci_resource list \<times> string list) option" where
  "getAllResources shuffle configFolder helms files =
     map_option (\<lambda>((images, resources), errs). (dedupImages shuffle images, resources, errs)) (scanFiles configFolder helms files)"

section \<open>Custom checks\<close>

text \<open>
  The objects of a document and the name of its file. A list has many objects and one name, so that names and objects no longer
  correspond by their position.
\<close>

definition objectsOf :: "json_object \<Rightarrow> json_object list option" where
  "objectsOf doc =
     (case map_of doc ''kind'' of
        None \<Rightarrow> Some []
      | Some k \<Rightarrow> Option.bind (asString k) (\<lambda>kind.
          if kind = ''list'' then Option.bind (asArray (jget doc ''items'')) (\<lambda>nodes. those (map asObject nodes)) else Some [doc]))"

definition displayName :: "string \<Rightarrow> string \<Rightarrow> string" where
  "displayName configFolder p = TrimPrefix p (cleanPath configFolder @ ''/'')"

fun opaDocs :: "string \<Rightarrow> (string + json_object) list \<Rightarrow> (string + json_object list \<times> string list) option" where
  "opaDocs name [] = Some (Inr ([], []))"
| "opaDocs name (Inl err # docs) = Some (Inl err)"
| "opaDocs name (Inr doc # docs) =
     Option.bind (objectsOf doc) (\<lambda>objs.
     map_option (\<lambda>rest. case rest of Inl err \<Rightarrow> Inl err
         | Inr (fs, ns) \<Rightarrow> Inr (objs @ fs, (if map_of doc ''kind'' = None then ns else name # ns))) (opaDocs name docs))"

fun opaFiles :: "string \<Rightarrow> yaml_file list \<Rightarrow> (string + json_object list \<times> string list) option" where
  "opaFiles configFolder [] = Some (Inr ([], []))"
| "opaFiles configFolder (f # fs) =
     (if \<not> isYaml f then opaFiles configFolder fs
      else case yf_openError f of
        Some err \<Rightarrow> Some (Inl err)
      | None \<Rightarrow>
          (case opaDocs (displayName configFolder (yf_path f)) (yf_docs f) of
             None \<Rightarrow> None
           | Some (Inl err) \<Rightarrow> Some (Inl err)
           | Some (Inr (objs, names)) \<Rightarrow>
               (case yf_endError f of
                  Some err \<Rightarrow> Some (Inl err)
                | None \<Rightarrow> map_option (\<lambda>rest. case rest of Inl err \<Rightarrow> Inl err | Inr (os, ns) \<Rightarrow> Inr (objs @ os, names @ ns))
                    (opaFiles configFolder fs))))"

text \<open>All checks on one object: the action items, and the text of each error.\<close>

definition ciInfo :: InsightsInfo where
  "ciInfo = \<lparr>ii_InsightsContext = ''CI/CD'', ii_Cluster = '''', ii_Repository = '''', ii_AdmissionRequest = None\<rparr>"

definition processObject :: "opa_client \<Rightarrow> OPACustomCheck list \<Rightarrow> OPACustomLibrary list \<Rightarrow> OPACustomLibrary list \<Rightarrow> json_object \<Rightarrow> items_errors" where
  "processObject client checks libsV0 libsV1 obj =
     (let md = ExtractMetadata obj in
      fold (\<lambda>check acc. collectTarget
          (case ProcessCheckForItemV2 client check obj (md_name md) (md_kind md) (md_namespace md) libsV0 libsV1 ciInfo of
             Inl err \<Rightarrow> Inl (''error while processing check '' @ cc_Name check @ '': '' @ err) | Inr items \<Rightarrow> Inr items) acc)
        checks ([], []))"

text \<open>The error of the object at a position is reported under the name at that position; \<open>text\<close> prints several errors.\<close>

definition opaScanError :: "(string list \<Rightarrow> string) \<Rightarrow> string \<Rightarrow> string list \<Rightarrow> ScanErrorsReportResult" where
  "opaScanError text filename errs = (scanError (text errs))\<lparr>se_ErrorContext := ''processing OPA checks'', se_Filename := filename\<rparr>"

fun processFiles :: "opa_client \<Rightarrow> (string list \<Rightarrow> string) \<Rightarrow> OPACustomCheck list \<Rightarrow> OPACustomLibrary list \<Rightarrow> OPACustomLibrary list \<Rightarrow> nat \<Rightarrow>
    json_object list \<Rightarrow> string list \<Rightarrow> (ActionItem list \<times> ci_error list) option" where
  "processFiles client text checks v0 v1 n [] names = Some ([], [])"
| "processFiles client text checks v0 v1 n (obj # objs) names =
     (case processObject client checks v0 v1 obj of
        (items, errs) \<Rightarrow>
          if errs \<noteq> [] \<and> length names \<le> n then None
          else map_option (\<lambda>(items', errs'). (items @ items', (if errs = [] then [] else [ResultError (opaScanError text (names ! n) errs)]) @ errs'))
            (processFiles client text checks v0 v1 (Suc n) objs names))"

definition refreshChecks :: "(string \<Rightarrow> string + clusterCheckModel) \<Rightarrow> string + int \<times> (string + string) \<Rightarrow> string + clusterCheckModel" where
  "refreshChecks unmarshal answer =
     (case answer of
        Inl err \<Rightarrow> Inl err
      | Inr (_, Inl err) \<Rightarrow> Inl err
      | Inr (status, Inr body) \<Rightarrow>
          if status \<noteq> 200 then Inl (''Insights returned unexpected HTTP status code: '' @ showInt status @ '' - '' @ body) else unmarshal body)"

text \<open>\<open>client\<close> is the static client that is made of the objects, \<open>writeError\<close> the error of writing the report.\<close>

definition ci_ProcessOPA :: "(json_object list \<Rightarrow> opa_client option) \<Rightarrow> (string list \<Rightarrow> string) \<Rightarrow> string + clusterCheckModel \<Rightarrow> string \<Rightarrow> yaml_file list \<Rightarrow>
    string option \<Rightarrow> (ActionItem list option \<times> ci_error list) option" where
  "ci_ProcessOPA client text answer configFolder files writeError =
     (case answer of
        Inl err \<Rightarrow> Some (None, [PlainError err])
      | Inr m \<Rightarrow>
     (case opaFiles configFolder files of
        None \<Rightarrow> None
      | Some (Inl err) \<Rightarrow> Some (None, [PlainError err])
      | Some (Inr (objs, names)) \<Rightarrow>
     (case GetOPACustomChecksAndLibraries (cm_Checks m) of (checks, v0, v1) \<Rightarrow>
        Option.bind (client objs) (\<lambda>cl.
        map_option (\<lambda>(items, errs). case writeError of
            Some err \<Rightarrow> (None, errs @ [PlainError err]) | None \<Rightarrow> (Some items, errs))
          (processFiles cl text checks v0 v1 0 objs names)))))"

end
