(* ===== verification/Ci_Trivy.thy ===== *)
theory Ci_Trivy
  imports Ci_Scan Trivy_Scan
begin

text \<open>
  The CI scanner's image scans: archives that are there are found by their tags, missing images are downloaded, all archives are
  matched with the manifests and scanned one after the other. Processes, archives and JSON are arguments; a panic is \<^const>\<open>None\<close>.
\<close>

section \<open>Archives\<close>

text \<open>An archive: its file name and its entries in order, with the error that ends reading it in place of its end.\<close>

record archive =
  ar_filename :: string
  ar_entries :: "(string \<times> string) list"
  ar_readError :: "string option"

definition configOf :: "json \<Rightarrow> (string \<times> string list) option" where
  "configOf imageDef =
     Option.bind (asObject imageDef) (\<lambda>m.
       case asString (jget m ''Config'') of
         None \<Rightarrow> Some ('''', [])
       | Some config \<Rightarrow>
           (case asArray (jget m ''RepoTags'') of
              None \<Rightarrow> Some (config, [])
            | Some tags \<Rightarrow> map_option (\<lambda>ts. (config, ts)) (those (map asString tags))))"

fun entryNamed :: "string \<Rightarrow> (string \<times> string) list \<Rightarrow> string option \<Rightarrow> string + (string \<times> (string \<times> string) list) option" where
  "entryNamed name [] err = (case err of None \<Rightarrow> Inr None | Some e \<Rightarrow> Inl e)"
| "entryNamed name ((n, body) # es) err = (if n = name then Inr (Some (body, es)) else entryNamed name es err)"

text \<open>The sha is that of the first configuration with an image; reading goes on after one without.\<close>

fun shaLoop :: "(string \<Rightarrow> string + json) \<Rightarrow> string \<Rightarrow> (string \<times> string) list \<Rightarrow> string option \<Rightarrow> (string + string) option" where
  "shaLoop unmarshal name [] err = Some (case err of None \<Rightarrow> Inr '''' | Some e \<Rightarrow> Inl e)"
| "shaLoop unmarshal name ((n, body) # es) err =
     (if n \<noteq> name then shaLoop unmarshal name es err
      else case unmarshal body of
        Inl e \<Rightarrow> Some (Inl e)
      | Inr j \<Rightarrow>
          Option.bind (asObject j) (\<lambda>m.
          Option.bind (asObject (jget m ''config'')) (\<lambda>config.
            case jget config ''Image'' of
              JNull \<Rightarrow> shaLoop unmarshal name es err
            | JString sha \<Rightarrow> Some (Inr sha)
            | _ \<Rightarrow> Some (Inr ''''))))"

definition getImageSha :: "(string \<Rightarrow> string + json) \<Rightarrow> archive \<Rightarrow> string \<Rightarrow> (string + string) option" where
  "getImageSha unmarshal a cfgName = shaLoop unmarshal cfgName (ar_entries a) (ar_readError a)"

definition getShaAndRepoTags :: "(string \<Rightarrow> string + json) \<Rightarrow> archive \<Rightarrow> (string + string \<times> string list) option" where
  "getShaAndRepoTags unmarshal a =
     (case entryNamed ''manifest.json'' (ar_entries a) (ar_readError a) of
        Inl err \<Rightarrow> Some (Inl err)
      | Inr None \<Rightarrow> Some (Inr ('''', []))
      | Inr (Some (body, _)) \<Rightarrow>
          (case unmarshal body of
             Inl err \<Rightarrow> Some (Inl err)
           | Inr (JArray defs) \<Rightarrow>
               Option.bind (those (map configOf defs)) (\<lambda>configs.
               map_option (\<lambda>answer. case answer of Inl err \<Rightarrow> Inl err | Inr sha \<Rightarrow> Inr (sha, concat (map snd configs)))
                 (getImageSha unmarshal a (if configs = [] then '''' else fst (last configs))))
           | Inr JNull \<Rightarrow> map_option (\<lambda>answer. case answer of Inl err \<Rightarrow> Inl err | Inr sha \<Rightarrow> Inr (sha, [])) (getImageSha unmarshal a '''')
           | Inr _ \<Rightarrow> Some (Inl ''json: cannot unmarshal into Go value of type []interface {}'')))"

text \<open>An archive with what it says about itself; a failure ends the walk.\<close>

type_synonym seen = "string \<times> string \<times> string list"

fun walkImages :: "(string \<Rightarrow> string + json) \<Rightarrow> archive list \<Rightarrow> (seen list \<times> string option) option" where
  "walkImages unmarshal [] = Some ([], None)"
| "walkImages unmarshal (a # as) =
     (case getShaAndRepoTags unmarshal a of
        None \<Rightarrow> None
      | Some (Inl err) \<Rightarrow> Some ([], Some err)
      | Some (Inr (sha, tags)) \<Rightarrow> map_option (\<lambda>(xs, e). ((ar_filename a, sha, tags) # xs, e)) (walkImages unmarshal as))"

section \<open>Downloads\<close>

record DockerImage =
  di_Name :: string
  di_PullRef :: string

text \<open>The last archive with the tag gives the reference.\<close>

definition pullRefFor :: "seen list \<Rightarrow> string \<Rightarrow> string \<Rightarrow> string" where
  "pullRefFor walked name old = fold (\<lambda>(filename, sha, tags) ref. if name \<in> set tags then filename else ref) walked old"

definition updatePullRef :: "seen list \<times> string option \<Rightarrow> DockerImage list \<Rightarrow> TrivyImage list \<Rightarrow> string + DockerImage list \<times> TrivyImage list" where
  "updatePullRef walked dockerImages manifestImages =
     (case snd walked of
        Some err \<Rightarrow> Inl err
      | None \<Rightarrow> Inr (map (\<lambda>i. i\<lparr>di_PullRef := pullRefFor (fst walked) (di_Name i) (di_PullRef i)\<rparr>) dockerImages,
          map (\<lambda>i. i\<lparr>tvi_PullRef := pullRefFor (fst walked) (tvi_Name i) (tvi_PullRef i)\<rparr>) manifestImages))"

definition isImageFileByte :: "char \<Rightarrow> bool" where
  "isImageFileByte c = (let n = of_char c :: nat in 48 \<le> n \<and> n \<le> 57 \<or> 65 \<le> n \<and> n \<le> 90 \<or> 97 \<le> n \<and> n \<le> 122 \<or> n = 32)"

fun clearRuns :: "bool \<Rightarrow> string \<Rightarrow> string" where
  "clearRuns inRun [] = []"
| "clearRuns inRun (c # s) =
     (if isImageFileByte c then c # clearRuns False s else if inRun then clearRuns True s else CHR ''_'' # clearRuns True s)"

definition clearString :: "string \<Rightarrow> string" where "clearString s = clearRuns False s"

definition credentialArgs :: "RegistryCredential option \<Rightarrow> string list" where
  "credentialArgs rc =
     (case rc of
        None \<Rightarrow> []
      | Some c \<Rightarrow>
          if cr_Username c = ''<token>'' then [''--src-registry-token'', cr_Password c]
          else [''--src-creds'', cr_Username c @ (if cr_Password c \<noteq> '''' then '':'' @ cr_Password c else '''')])"

text \<open>\<open>exec\<close> runs a command and gives its output with the error.\<close>

definition downloadArgs :: "(string \<Rightarrow> string) \<Rightarrow> string \<Rightarrow> string \<Rightarrow> RegistryCredential option \<Rightarrow> string list" where
  "downloadArgs getenv folderPath imageName rc =
     [''copy''] @ credentialArgs rc @ (if getenv ''SKOPEO_ARGS'' \<noteq> '''' then splitByte (CHR '','') (getenv ''SKOPEO_ARGS'') else []) @
     [''docker://'' @ imageName, ''docker-archive:'' @ folderPath @ clearString imageName]"

definition downloadImageViaSkopeo :: "(string \<Rightarrow> string) \<Rightarrow> (string \<Rightarrow> string list \<Rightarrow> string \<times> string option) \<Rightarrow> string \<Rightarrow> string \<Rightarrow>
    RegistryCredential option \<Rightarrow> string \<times> string option" where
  "downloadImageViaSkopeo getenv exec folderPath imageName rc = exec ''skopeo'' (downloadArgs getenv folderPath imageName rc)"

text \<open>Names with their references: those found, those downloaded before under the same name, and the rest downloaded now.\<close>

type_synonym downloads = "(string \<times> string) list \<times> string list"

definition downloadOne :: "(string \<Rightarrow> string \<times> string option) \<Rightarrow> string \<Rightarrow> string \<Rightarrow> downloads \<Rightarrow> string \<times> downloads" where
  "downloadOne download name ref st =
     (if ref \<noteq> '''' then (ref, st)
      else case map_of (fst st) name of
        Some r \<Rightarrow> (r, st)
      | None \<Rightarrow>
          (case download name of
             (out, Some err) \<Rightarrow> ('''', (fst st, snd st @ [err @ '': '' @ out]))
           | (out, None) \<Rightarrow> (clearString name, (fst st @ [(name, clearString name)], snd st))))"

fun downloadAll :: "(string \<Rightarrow> string \<times> string option) \<Rightarrow> (string \<times> string) list \<Rightarrow> downloads \<Rightarrow> string list \<times> downloads" where
  "downloadAll download [] st = ([], st)"
| "downloadAll download ((name, ref) # is) st =
     (let (r, st1) = downloadOne download name ref st; (rs, st2) = downloadAll download is st1 in (r # rs, st2))"

text \<open>The reversed lookup: of names with the same file, any may win; the order of the map is the order of the list.\<close>

definition ReverseMap :: "(string \<times> string) list \<Rightarrow> string \<rightharpoonup> string" where
  "ReverseMap m = fold (\<lambda>(k, v) r. r(v \<mapsto> k)) m Map.empty"

definition downloadErrors :: "(string list \<Rightarrow> string) \<Rightarrow> string \<Rightarrow> string list \<Rightarrow> ci_error option" where
  "downloadErrors text folderPath errs =
     (if errs = [] then None
      else Some (ResultError ((scanError (text errs))\<lparr>se_ErrorContext := ''downloading missing images to be scanned by trivy'',
        se_Kind := ''InternalOperation'', se_ResourceName := ''DownloadMissingImages'', se_Filename := cleanPath folderPath,
        se_Remediation := ''Please inspect the action item description for signs of why downloading images may have failed.''\<rparr>)))"

definition downloadMissingImages :: "(string list \<Rightarrow> string) \<Rightarrow> (string \<Rightarrow> RegistryCredential option \<Rightarrow> string \<times> string option) \<Rightarrow>
    ((string \<times> string) list \<Rightarrow> (string \<times> string) list) \<Rightarrow> string \<Rightarrow> RegistryCredential list \<Rightarrow> DockerImage list \<Rightarrow> TrivyImage list \<Rightarrow>
    (string \<rightharpoonup> string) \<times> DockerImage list \<times> TrivyImage list \<times> ci_error option" where
  "downloadMissingImages text download shuffle folderPath credentials dockerImages manifestImages =
     (let dl = (\<lambda>name. download name (FindCredentialForImage credentials name));
          (mrefs, st1) = downloadAll dl (map (\<lambda>i. (tvi_Name i, tvi_PullRef i)) manifestImages) ([], []);
          (drefs, st2) = downloadAll dl (map (\<lambda>i. (di_Name i, di_PullRef i)) dockerImages) st1 in
      (ReverseMap (shuffle (fst st2)),
       map2 (\<lambda>i r. i\<lparr>di_PullRef := r\<rparr>) dockerImages drefs, map2 (\<lambda>i r. i\<lparr>tvi_PullRef := r\<rparr>) manifestImages mrefs,
       downloadErrors text folderPath (snd st2)))"

section \<open>Merging\<close>

definition determineOwnerName :: "string \<Rightarrow> DockerImage list \<Rightarrow> string" where
  "determineOwnerName n dockerImages =
     (if list_ex (\<lambda>di. di_Name di = n) dockerImages then configFileName
      else case splitByte (CHR '':'') n of repo # _ # _ \<Rightarrow> repo | _ \<Rightarrow> '''')"

definition imageOf :: "DockerImage list \<Rightarrow> TrivyImage list \<Rightarrow> (string \<rightharpoonup> string) \<Rightarrow> string \<Rightarrow> TrivyImage" where
  "imageOf dockerImages manifestImages filenameToImageName filename =
     (case find (\<lambda>im. tvi_PullRef im = filename) manifestImages of
        Some im \<Rightarrow> im
      | None \<Rightarrow>
          let (name, ownerName) = (case filenameToImageName filename of Some n \<Rightarrow> (n, determineOwnerName n dockerImages) | None \<Rightarrow> ('''', '''')) in
          \<lparr>tvi_Name = name, tvi_ID = '''', tvi_PullRef = filename,
           tvi_Owners = [\<lparr>tvr_Name = ownerName, tvr_Kind = ''Image'', tvr_Namespace = '''', tvr_Container = ''''\<rparr>], tvi_RecommendationOnly = False\<rparr>)"

definition repoOf :: "string \<Rightarrow> string" where
  "repoOf repoAndTag = hd (splitByte (CHR '':'') repoAndTag)"

text \<open>With a tag the first owner gets the name of the repository, whoever it was; an image without owners panics.\<close>

definition identify :: "string \<Rightarrow> string list \<Rightarrow> TrivyImage \<Rightarrow> TrivyImage option" where
  "identify sha repoTags im =
     (case repoTags of
        [] \<Rightarrow> let name = repoOf (tvi_Name im) in Some (im\<lparr>tvi_ID := (if name \<noteq> '''' then name @ ''@'' @ sha else sha)\<rparr>)
      | repoAndTag # _ \<Rightarrow>
          (case tvi_Owners im of
             [] \<Rightarrow> None
           | o1 # os \<Rightarrow> Some (im\<lparr>tvi_ID := repoOf repoAndTag @ ''@'' @ sha, tvi_Name := repoAndTag,
               tvi_Owners := o1\<lparr>tvr_Name := repoOf repoAndTag\<rparr> # os\<rparr>)))"

definition mergeImages :: "seen list \<Rightarrow> DockerImage list \<Rightarrow> TrivyImage list \<Rightarrow> (string \<rightharpoonup> string) \<Rightarrow> TrivyImage list option" where
  "mergeImages walked dockerImages manifestImages filenameToImageName =
     those (map (\<lambda>(filename, sha, tags). identify sha tags (imageOf dockerImages manifestImages filenameToImageName filename)) walked)"

section \<open>Scans\<close>

definition ScanImageFile :: "trivy_env \<Rightarrow> string \<Rightarrow> string \<Rightarrow> string \<Rightarrow> string \<Rightarrow> (string + TrivyResults) option" where
  "ScanImageFile env imagePath imageID tempDir extraFlags =
     (let reportFile = tempDir @ ''/trivy-report-'' @ imageID @ ''.json'' in
      case RunCommand env ''trivy'' ([''-d'', ''image'', ''--skip-db-update'', ''--skip-java-db-update''] @
          (if extraFlags \<noteq> '''' then [extraFlags] else []) @ [''-f'', ''json'', ''-o'', reportFile, ''--input'', imagePath]) (''scanning '' @ imageID) of
        None \<Rightarrow> None
      | Some (Inl err) \<Rightarrow> Some (Inl err)
      | Some (Inr _) \<Rightarrow>
          (case tve_readReport env reportFile of
             Inl err \<Rightarrow> Some (Inl err) | Inr body \<Rightarrow> Some (tve_decode env body)))"

definition imageScanError :: "string \<Rightarrow> TrivyImage \<Rightarrow> ScanErrorsReportResult" where
  "imageScanError err im = (scanError err)\<lparr>se_ErrorContext := ''running trivy to scan image'', se_Kind := ''Image'',
     se_ResourceName := tvi_Name im, se_Filename := tvi_PullRef im\<rparr>"

record scanned =
  sd_reports :: "string \<rightharpoonup> TrivyResults option"
  sd_errors :: "string \<Rightarrow> string list"
  sd_all :: "ci_error list"

fun scanLoop :: "(TrivyImage \<Rightarrow> (string + TrivyResults) option) \<Rightarrow> TrivyImage list \<Rightarrow> scanned \<Rightarrow> scanned option" where
  "scanLoop scan [] st = Some st"
| "scanLoop scan (im # is) st =
     (if sd_reports st (tvi_PullRef im) \<noteq> None then scanLoop scan is st
      else case scan im of
        None \<Rightarrow> None
      | Some (Inr r) \<Rightarrow> scanLoop scan is (st\<lparr>sd_reports := (sd_reports st)(tvi_PullRef im \<mapsto> Some r)\<rparr>)
      | Some (Inl err) \<Rightarrow> scanLoop scan is (st\<lparr>sd_reports := (sd_reports st)(tvi_PullRef im \<mapsto> None),
          sd_errors := (sd_errors st)(tvi_PullRef im := sd_errors st (tvi_PullRef im) @ [err]),
          sd_all := sd_all st @ [ResultError (imageScanError err im)]\<rparr>))"

definition emptyReport :: MinimizedReport where
  "emptyReport = \<lparr>mr_Images = [], mr_Vulnerabilities = Map.empty\<rparr>"

definition reportOf :: "scanned \<Rightarrow> TrivyImage list \<Rightarrow> go_time \<Rightarrow> MinimizedReport" where
  "reportOf st images now =
     Minimize now (ConvertTrivyResultsToImageReport images (\<lambda>ref. Option.bind (sd_reports st ref) id) (sd_errors st)) emptyReport"

text \<open>The third word of the first line of the version; what is not there panics. \<open>exec\<close> is that of the whole scanner.\<close>

definition versionWord :: "string \<Rightarrow> string option" where
  "versionWord out = (case splitByte (CHR '' '') (hd (splitByte (CHR 0x0A) out)) of _ # v # _ \<Rightarrow> Some v | _ \<Rightarrow> None)"

definition downloadDatabases :: "(string \<Rightarrow> string list \<Rightarrow> string \<times> string option) \<Rightarrow> string option" where
  "downloadDatabases exec =
     (case exec ''trivy'' [''image'', ''--download-db-only'', ''--db-repository'',
         ''ghcr.io/aquasecurity/trivy-db:2,public.ecr.aws/aquasecurity/trivy-db:2,docker.io/aquasec/trivy-db:2''] of
        (out, Some err) \<Rightarrow> Some (''unable to download trivy database, '' @ err @ '': '' @ out)
      | (_, None) \<Rightarrow>
     (case exec ''trivy'' [''image'', ''--download-java-db-only'', ''--java-db-repository'',
         ''ghcr.io/aquasecurity/trivy-java-db:1,public.ecr.aws/aquasecurity/trivy-java-db:1,docker.io/aquasec/trivy-java-db:1''] of
        (out, Some err) \<Rightarrow> Some (''unable to download trivy java database, '' @ err @ '': '' @ out)
      | (_, None) \<Rightarrow> None))"

text \<open>The report if there is one, and the errors, which may come with it.\<close>

definition scanImagesWithTrivy :: "(string \<Rightarrow> string list \<Rightarrow> string \<times> string option) \<Rightarrow> trivy_env \<Rightarrow> ci_configuration \<Rightarrow> go_time \<Rightarrow> TrivyImage list \<Rightarrow>
    ((MinimizedReport \<times> string) option \<times> ci_error list) option" where
  "scanImagesWithTrivy exec env cfg now images =
     (case exec ''trivy'' [''--version''] of
        (_, Some err) \<Rightarrow> Some (None, [PlainError (''unable to get trivy version: '' @ err)])
      | (out, None) \<Rightarrow>
          Option.bind (versionWord out) (\<lambda>version.
          case downloadDatabases exec of
            Some err \<Rightarrow> Some (None, [PlainError err])
          | None \<Rightarrow>
              map_option (\<lambda>st. (Some (reportOf st images now, version), sd_all st))
                (scanLoop (\<lambda>im. ScanImageFile env (im_FolderName (cf_Images cfg) @ tvi_PullRef im) (tvi_PullRef im) (op_TempFolder (cf_Options cfg)) '''')
                  images \<lparr>sd_reports = Map.empty, sd_errors = (\<lambda>_. []), sd_all = []\<rparr>)))"

section \<open>The report\<close>

text \<open>
  The image folder is walked twice, before and after the downloads. Any error of the scan, also that of one image, gives up the
  report.
\<close>

record ci_trivy =
  ct_getenv :: "string \<Rightarrow> string"
  ct_exec :: "string \<Rightarrow> string list \<Rightarrow> string \<times> string option"
  ct_scan :: trivy_env
  ct_unmarshal :: "string \<Rightarrow> string + json"
  ct_before :: "archive list"
  ct_after :: "archive list"
  ct_text :: "string list \<Rightarrow> string"
  ct_errorText :: "ci_error list \<Rightarrow> string"
  ct_shuffle :: "(string \<times> string) list \<Rightarrow> (string \<times> string) list"
  ct_now :: go_time
  ct_write :: "string \<Rightarrow> string option"

definition finishTrivy :: "ci_trivy \<Rightarrow> ci_configuration \<Rightarrow> ci_error list \<Rightarrow> (MinimizedReport \<times> string) option \<times> ci_error list \<Rightarrow>
    (MinimizedReport \<times> string) option \<times> ci_error list" where
  "finishTrivy env cfg allErrs result =
     (case result of
        (report, errs) \<Rightarrow>
          if errs \<noteq> [] then (None, allErrs @ errs @ [ResultError ((scanError (ct_errorText env errs))\<lparr>se_ErrorContext := ''running trivy'', se_ResourceName := ''unknown''\<rparr>)])
          else (case report of
              None \<Rightarrow> (None, allErrs)
            | Some r \<Rightarrow>
                (case ct_write env (pathJoin [op_TempFolder (cf_Options cfg), ''trivy.json'']) of
                   Some err \<Rightarrow> (None, allErrs @ [PlainError err]) | None \<Rightarrow> (Some r, allErrs))))"

definition GetTrivyReport :: "ci_trivy \<Rightarrow> ci_configuration \<Rightarrow> DockerImage list \<Rightarrow> TrivyImage list \<Rightarrow>
    ((MinimizedReport \<times> string) option \<times> ci_error list) option" where
  "GetTrivyReport env cfg dockerImages manifestImages =
     Option.bind (walkImages (ct_unmarshal env) (ct_before env)) (\<lambda>before.
     case updatePullRef before dockerImages manifestImages of
       Inl err \<Rightarrow> Some (None, [PlainError err])
     | Inr (docker, manifest) \<Rightarrow>
         (case downloadMissingImages (ct_text env) (downloadImageViaSkopeo (ct_getenv env) (ct_exec env) (im_FolderName (cf_Images cfg)))
             (ct_shuffle env) (im_FolderName (cf_Images cfg)) (op_RegistryCredentials (cf_Options cfg)) docker manifest of
            (names, docker', manifest', downloadErr) \<Rightarrow>
              Option.bind (walkImages (ct_unmarshal env) (ct_after env)) (\<lambda>(after, walkErr).
              Option.bind (mergeImages after docker' manifest' names) (\<lambda>images.
                let allErrs = (case downloadErr of None \<Rightarrow> [] | Some e \<Rightarrow> [e]) @ (case walkErr of None \<Rightarrow> [] | Some e \<Rightarrow> [PlainError e]) in
                map_option (finishTrivy env cfg allErrs) (scanImagesWithTrivy (ct_exec env) (ct_scan env) cfg (ct_now env) images)))))"

end
