(* ===== verification/Ci_Helm.thy ===== *)
theory Ci_Helm
  imports Ci_Scan
begin

text \<open>
  How the CI scanner gets its manifests: the detection of manifests and charts in a repository without configuration, the rendering of Helm
  charts, and the copying of YAML files. Commands and written files are kept as a list of effects.
\<close>

section \<open>Detection\<close>

text \<open>A file tree by names; a folder with the error of listing it.\<close>

datatype fs_node = FileNode string | FolderNode string "string option" "fs_node list"

fun nodeName :: "fs_node \<Rightarrow> string" where
  "nodeName (FileNode name) = name"
| "nodeName (FolderNode name err nodes) = name"

text \<open>What is read below a path: contents of files, whether something is there, and the two YAML decodings.\<close>

record file_env =
  fe_lstat :: "string \<Rightarrow> string + fs_node"
  fe_read :: "string \<Rightarrow> string option"
  fe_exists :: "string \<Rightarrow> bool"
  fe_manifest :: "string \<Rightarrow> (string option \<times> string option) option"
  fe_map :: "string \<Rightarrow> json_object option"

definition supportedKubeExtensions :: "string list" where "supportedKubeExtensions = [''yaml'', ''yml'', ''json'']"
definition supportedExtensions :: "string list" where "supportedExtensions = [''yaml'', ''yml'', ''json'', ''tf'']"

definition getPossibleKubernetesManifest :: "file_env \<Rightarrow> string \<Rightarrow> (string \<times> string) option" where
  "getPossibleKubernetesManifest env p =
     Option.bind (fe_read env p) (\<lambda>content.
       case fe_manifest env content of Some (Some apiVersion, Some kind) \<Rightarrow> Some (apiVersion, kind) | _ \<Rightarrow> None)"

definition isFluxManifest :: "file_env \<Rightarrow> string \<Rightarrow> bool" where
  "isFluxManifest env p =
     (case getPossibleKubernetesManifest env p of None \<Rightarrow> False | Some (apiVersion, _) \<Rightarrow> Contains apiVersion ''toolkit.fluxcd.io'')"

definition isKubernetesManifest :: "file_env \<Rightarrow> string \<Rightarrow> bool" where
  "isKubernetesManifest env p \<longleftrightarrow> getPossibleKubernetesManifest env p \<noteq> None"

definition isHelmBaseFolder :: "fs_node list \<Rightarrow> bool" where
  "isHelmBaseFolder nodes \<longleftrightarrow> list_ex (\<lambda>n. list_ex (\<lambda>ext. nodeName n = ''Chart.'' @ ext) supportedKubeExtensions) nodes"

definition isManifestFile :: "file_env \<Rightarrow> string \<Rightarrow> bool" where
  "isManifestFile env p \<longleftrightarrow> pathExt p \<noteq> '''' \<and> tl (pathExt p) \<in> set supportedExtensions \<and> \<not> isFluxManifest env p \<and> isKubernetesManifest env p"

text \<open>Manifests and chart folders below a path, relative to the base; hidden folders and charts are not entered.\<close>

type_synonym detected = "string list \<times> string list"

fun detectNode :: "file_env \<Rightarrow> string \<Rightarrow> string \<Rightarrow> fs_node \<Rightarrow> string + detected"
  and detectNodes :: "file_env \<Rightarrow> string \<Rightarrow> string \<Rightarrow> fs_node list \<Rightarrow> string + detected" where
  "detectNode env base p (FileNode name) =
     (if \<not> isManifestFile env p then Inr ([], [])
      else case pathRel base p of Inl err \<Rightarrow> Inl err | Inr rel \<Rightarrow> Inr ([rel], []))"
| "detectNode env base p (FolderNode name (Some err) nodes) = Inl (''Could not walk into dir: '' @ err)"
| "detectNode env base p (FolderNode name None nodes) =
     (if HasPrefix name ''.'' then Inr ([], [])
      else if isHelmBaseFolder nodes then (case pathRel base p of Inl err \<Rightarrow> Inl err | Inr rel \<Rightarrow> Inr ([], [rel]))
      else detectNodes env base p nodes)"
| "detectNodes env base p [] = Inr ([], [])"
| "detectNodes env base p (n # ns) =
     (case detectNode env base (pathJoin [p, nodeName n]) n of
        Inl err \<Rightarrow> Inl err
      | Inr (ms, hs) \<Rightarrow>
          (case detectNodes env base p ns of Inl err \<Rightarrow> Inl err | Inr (ms', hs') \<Rightarrow> Inr (ms @ ms', hs @ hs')))"

fun tryFetchNameFromChartFile :: "file_env \<Rightarrow> string list \<Rightarrow> string \<Rightarrow> string \<Rightarrow> string" where
  "tryFetchNameFromChartFile env [] baseFolder chart = chart"
| "tryFetchNameFromChartFile env (ext # exts) baseFolder chart =
     (case Option.bind (fe_read env (pathJoin [baseFolder, chart, ''Chart.'' @ ext])) (\<lambda>content.
        Option.bind (fe_map env content) (\<lambda>m. asString (jget m ''name''))) of
        Some name \<Rightarrow> name
      | None \<Rightarrow> tryFetchNameFromChartFile env exts baseFolder chart)"

fun tryDiscoverValuesFile :: "file_env \<Rightarrow> string list \<Rightarrow> string \<Rightarrow> string \<Rightarrow> string" where
  "tryDiscoverValuesFile env [] baseFolder p = ''''"
| "tryDiscoverValuesFile env (ext # exts) baseFolder p =
     (let possible = pathJoin [baseFolder, p, ''values.'' @ ext] in
      if \<not> fe_exists env possible then tryDiscoverValuesFile env exts baseFolder p
      else case pathRel baseFolder possible of Inl _ \<Rightarrow> '''' | Inr rel \<Rightarrow> rel)"

definition toHelmConfig :: "file_env \<Rightarrow> string \<Rightarrow> string \<Rightarrow> HelmConfig" where
  "toHelmConfig env baseFolder p =
     \<lparr>hc_Name = tryFetchNameFromChartFile env supportedKubeExtensions baseFolder p, hc_Path = p, hc_Repo = '''', hc_Chart = '''', hc_FluxFile = '''',
      hc_Version = '''', hc_ValuesFile = tryDiscoverValuesFile env supportedKubeExtensions baseFolder p, hc_ValuesFiles = [], hc_Values = []\<rparr>"

definition toHelmConfigs :: "file_env \<Rightarrow> string \<Rightarrow> string list \<Rightarrow> HelmConfig list" where
  "toHelmConfigs env baseFolder helmPaths = map (toHelmConfig env baseFolder) helmPaths"

definition zeroOptions :: optionConfig where
  "zeroOptions = \<lparr>op_SetExitCode = False, op_BaseBranch = '''', op_NewActionItemThreshold = 0, op_SeverityThreshold = '''', op_TempFolder = '''',
     op_Hostname = '''', op_Organization = '''', op_JUnitOutput = '''', op_RepositoryName = '''', op_RegistryCredentials = [], op_CIRunner = ''''\<rparr>"

definition zeroConfiguration :: ci_configuration where
  "zeroConfiguration = \<lparr>cf_Images = \<lparr>im_FolderName = '''', im_Docker = []\<rparr>, cf_Manifests = \<lparr>mc_YamlPaths = [], mc_Helm = []\<rparr>,
     cf_TerraformPaths = [], cf_Options = zeroOptions,
     cf_Reports = \<lparr>rc_Polaris = None, rc_Pluto = None, rc_TFSec = None, rc_Trivy = None, rc_TrivySkipManifests = None, rc_OPA = None,
       rc_PrometheusMetrics = None, rc_Goldilocks = None\<rparr>\<rparr>"

definition ConfigFileAutoDetection :: "file_env \<Rightarrow> string \<Rightarrow> string + ci_configuration" where
  "ConfigFileAutoDetection env basePath =
     (case fe_lstat env basePath of
        Inl err \<Rightarrow> Inl (''Could not walk into dir: '' @ err)
      | Inr rootNode \<Rightarrow>
          (case detectNode env basePath basePath rootNode of
             Inl err \<Rightarrow> Inl err
           | Inr (manifests, charts) \<Rightarrow>
               Inr (zeroConfiguration\<lparr>cf_Manifests := \<lparr>mc_YamlPaths = manifests, mc_Helm = toHelmConfigs env basePath charts\<rparr>\<rparr>)))"

section \<open>Rendering charts\<close>

datatype ci_effect = Ran string "string list" | Wrote string json_object

text \<open>The effects so far with the error that stopped them.\<close>

type_synonym rendering = "ci_effect list \<times> ci_error option"

record flux_release =
  fr_chart :: string
  fr_version :: string
  fr_values :: json_object

record helm_env =
  hx_exec :: "string \<Rightarrow> string list \<Rightarrow> string \<times> string option"
  hx_open :: "string \<Rightarrow> string + (string + string)"
  hx_release :: "string \<Rightarrow> string + flux_release"
  hx_write :: "string \<Rightarrow> json_object \<Rightarrow> string option"

text \<open>What \<^verbatim>\<open>strconv.Quote\<close> does with ASCII.\<close>

definition hexDigit :: "nat \<Rightarrow> char" where
  "hexDigit n = ''0123456789abcdef'' ! n"

definition quoteByte :: "char \<Rightarrow> string" where
  "quoteByte c =
     (let n = of_char c :: nat in
      if n = 34 \<or> n = 92 then [CHR 0x5C, c]
      else if 7 \<le> n \<and> n \<le> 13 then [CHR 0x5C, ''abtnvfr'' ! (n - 7)]
      else if n < 32 \<or> n = 127 then [CHR 0x5C, CHR ''x'', hexDigit (n div 16), hexDigit (n mod 16)]
      else [c])"

definition goQuote :: "string \<Rightarrow> string" where
  "goQuote s = CHR 0x22 # concat (map quoteByte s) @ [CHR 0x22]"

definition quoteName :: "string \<Rightarrow> string" where
  "quoteName s = CHR 0x27 # s @ [CHR 0x27]"

definition chartError :: "HelmConfig \<Rightarrow> string \<Rightarrow> string \<Rightarrow> string \<Rightarrow> string \<Rightarrow> ci_error" where
  "chartError helm filename remediation errorContext msg = ResultError ((scanError msg)\<lparr>se_ErrorContext := errorContext, se_Kind := ''HelmChart'',
     se_ResourceName := hc_Name helm, se_Filename := filename, se_Remediation := remediation\<rparr>)"

definition andThen :: "rendering \<Rightarrow> rendering \<Rightarrow> rendering" where
  "andThen a b = (case a of (t, None) \<Rightarrow> (t @ fst b, snd b) | (t, Some err) \<Rightarrow> (t, Some err))"

definition runHelm :: "helm_env \<Rightarrow> (string \<Rightarrow> ci_error) \<Rightarrow> string list \<Rightarrow> rendering" where
  "runHelm env mkErr args =
     (case hx_exec env ''helm'' args of
        (out, None) \<Rightarrow> ([Ran ''helm'' args], None)
      | (out, Some err) \<Rightarrow> ([Ran ''helm'' args], Some (mkErr (err @ '': '' @ out))))"

text \<open>A values file, and whether it was made of values that the definition has inline.\<close>

record helmValuesFile =
  hv_path :: string
  hv_tmp :: bool

definition writeValues :: "helm_env \<Rightarrow> string \<Rightarrow> json_object \<Rightarrow> ci_effect list \<times> (string + helmValuesFile list)" where
  "writeValues env p values =
     (if values = [] then ([], Inr [])
      else case hx_write env p values of
        Some err \<Rightarrow> ([], Inl err)
      | None \<Rightarrow> ([Wrote p values], Inr [\<lparr>hv_path = p, hv_tmp = True\<rparr>]))"

definition listedValuesFiles :: "HelmConfig \<Rightarrow> helmValuesFile list" where
  "listedValuesFiles helm =
     map (\<lambda>p. \<lparr>hv_path = p, hv_tmp = False\<rparr>) ((if hc_ValuesFile helm \<noteq> '''' then [hc_ValuesFile helm] else []) @ hc_ValuesFiles helm)"

definition processHelmValues :: "helm_env \<Rightarrow> HelmConfig \<Rightarrow> json_object \<Rightarrow> string \<Rightarrow> ci_effect list \<times> (string + helmValuesFile list)" where
  "processHelmValues env helm fluxValues tempFolder =
     (case writeValues env (pathJoin [tempFolder, ''flux-helm-values.yaml'']) fluxValues of
        (t1, Inl err) \<Rightarrow> (t1, Inl err)
      | (t1, Inr flux) \<Rightarrow>
          (case writeValues env (pathJoin [tempFolder, ''fairwinds-insights-helm-values.yaml'']) (hc_Values helm) of
             (t2, Inl err) \<Rightarrow> (t1 @ t2, Inl err)
           | (t2, Inr inline) \<Rightarrow> (t1 @ t2, Inr (flux @ listedValuesFiles helm @ inline))))"

definition valuesArgs :: "string \<Rightarrow> helmValuesFile list \<Rightarrow> string list" where
  "valuesArgs repoPath vfs = concat (map (\<lambda>vf. [''-f'', if hv_tmp vf then hv_path vf else pathJoin [repoPath, hv_path vf]]) vfs)"

definition doHandleLocalHelmChart :: "helm_env \<Rightarrow> HelmConfig \<Rightarrow> string \<Rightarrow> string \<Rightarrow> helmValuesFile list \<Rightarrow> string \<Rightarrow> rendering" where
  "doHandleLocalHelmChart env helm repoPath helmPath vfs configFolder =
     (let fullHelmPath = pathJoin [repoPath, helmPath]; clean = cleanPath helmPath in
      andThen
        (runHelm env (chartError helm clean
            ''Examine the Chart.yaml file for errors in the dependency specification, or invalid dependencies. See also, https://helm.sh/docs/helm/helm_dependency/''
            (''updating dependencies for helm chart '' @ hc_Name helm))
          [''dependency'', ''update'', fullHelmPath])
        (runHelm env (chartError helm clean
            ''Examine the Helm template, values files, and any inline values that may be specified in fairwinds-insights.yaml, for syntax errors that cause the `helm template` command to fail.''
            (''templating helm chart '' @ hc_Name helm))
          ([''template'', hc_Name helm, fullHelmPath, ''--output-dir'', configFolder @ hc_Name helm] @ valuesArgs repoPath vfs)))"

text \<open>The values are processed, then the chart in the given folder is rendered with them.\<close>

definition renderWithValues :: "helm_env \<Rightarrow> HelmConfig \<Rightarrow> json_object \<Rightarrow> string \<Rightarrow> string \<Rightarrow> string \<Rightarrow> string \<Rightarrow> rendering" where
  "renderWithValues env helm fluxValues repoPath helmPath tempFolder configFolder =
     (case processHelmValues env helm fluxValues tempFolder of
        (t, Inl err) \<Rightarrow> (t, Some (chartError helm (hc_Name helm) '''' ''processing helm values files'' err))
      | (t, Inr vfs) \<Rightarrow> andThen (t, None) (doHandleLocalHelmChart env helm repoPath helmPath vfs configFolder))"

definition handleLocalHelmChart :: "helm_env \<Rightarrow> HelmConfig \<Rightarrow> string \<Rightarrow> string \<Rightarrow> string \<Rightarrow> rendering" where
  "handleLocalHelmChart env helm baseRepoFolder tempFolder configFolder =
     (if hc_Name helm = '''' \<or> hc_Path helm = '''' then ([], Some (PlainError (''Parameters '' @ quoteName ''name'' @ '' and '' @ quoteName ''path'' @ '' are required in helm definition'')))
      else renderWithValues env helm [] baseRepoFolder (hc_Path helm) tempFolder configFolder)"

text \<open>A remote chart is fetched below the temporary folder.\<close>

definition helmRepoName :: "HelmConfig \<Rightarrow> string \<Rightarrow> string" where
  "helmRepoName helm chartName = hc_Name helm @ ''-'' @ chartName @ ''-repo''"

definition repoDownloadPath :: "string \<Rightarrow> string \<Rightarrow> string" where
  "repoDownloadPath tempFolder repoName = tempFolder @ ''/downloaded-charts/'' @ repoName @ ''/''"

definition doHandleRemoteHelmChart :: "helm_env \<Rightarrow> HelmConfig \<Rightarrow> string \<Rightarrow> string \<Rightarrow> json_object \<Rightarrow> string \<Rightarrow> string \<Rightarrow> rendering" where
  "doHandleRemoteHelmChart env helm chartName chartVersion fluxValues tempFolder configFolder =
     (let repoName = helmRepoName helm chartName; download = repoDownloadPath tempFolder repoName;
          versionDisplay = (if chartVersion \<noteq> '''' then ''version '' @ chartVersion else ''the latest version'') in
      andThen
        (runHelm env (chartError helm (hc_Name helm) ''Verify that the helm repository is valid.'' (''adding helm repository '' @ goQuote (hc_Repo helm)))
          [''repo'', ''add'', repoName, hc_Repo helm])
        (andThen
          (runHelm env (chartError helm (hc_Name helm) ''Verify that this version of the helm chart is available in the helm repository.''
              (''fetching '' @ versionDisplay @ '' of the helm chart '' @ chartName @ '' from '' @ repoName))
            ([''fetch'', repoName @ ''/'' @ chartName, ''--untar'', ''--destination'', download] @
             (if chartVersion \<noteq> '''' then [''--version'', chartVersion] else [])))
          (renderWithValues env helm fluxValues '''' (download @ chartName) tempFolder configFolder)))"

definition handleRemoteHelmChart :: "helm_env \<Rightarrow> HelmConfig \<Rightarrow> string \<Rightarrow> string \<Rightarrow> rendering" where
  "handleRemoteHelmChart env helm tempFolder configFolder =
     (if hc_Name helm = '''' \<or> hc_Chart helm = '''' \<or> hc_Repo helm = ''''
      then ([], Some (PlainError (''Parameters '' @ quoteName ''name'' @ '', '' @ quoteName ''repo'' @ '' and '' @ quoteName ''chart'' @
        '' are required in helm definition'')))
      else doHandleRemoteHelmChart env helm (hc_Chart helm) (hc_Version helm) [] tempFolder configFolder)"

definition handleFluxHelmChart :: "helm_env \<Rightarrow> HelmConfig \<Rightarrow> string \<Rightarrow> string \<Rightarrow> string \<Rightarrow> rendering" where
  "handleFluxHelmChart env helm baseRepoFolder tempFolder configFolder =
     (if hc_Name helm = '''' \<or> hc_Repo helm = ''''
      then ([], Some (PlainError (''Parameters '' @ quoteName ''name'' @ '', '' @ quoteName ''repo'' @ '' are required when using fluxFile'')))
      else case hx_open env (pathJoin [baseRepoFolder, hc_FluxFile helm]) of
        Inl err \<Rightarrow> ([], Some (PlainError (''Unable to open file '' @ hc_FluxFile helm @ '': '' @ err)))
      | Inr (Inl err) \<Rightarrow> ([], Some (PlainError (''Unable to read file '' @ hc_FluxFile helm @ '': '' @ err)))
      | Inr (Inr content) \<Rightarrow>
          (case hx_release env content of
             Inl err \<Rightarrow> ([], Some (PlainError (''Unable to unmarshal file '' @ hc_FluxFile helm @ '': '' @ err)))
           | Inr release \<Rightarrow>
               if fr_chart release = ''''
               then ([], Some (PlainError (''Could not find required spec.chart.spec.chart in fluxFile '' @ hc_FluxFile helm)))
               else doHandleRemoteHelmChart env helm (fr_chart release) (fr_version release) (fr_values release) tempFolder configFolder))"

definition handleChart :: "helm_env \<Rightarrow> string \<Rightarrow> string \<Rightarrow> string \<Rightarrow> HelmConfig \<Rightarrow> rendering" where
  "handleChart env baseRepoFolder tempFolder configFolder helm =
     (if IsLocal helm then handleLocalHelmChart env helm baseRepoFolder tempFolder configFolder
      else if IsRemote helm then
        (if IsFluxFile helm then handleFluxHelmChart env helm baseRepoFolder tempFolder configFolder
         else handleRemoteHelmChart env helm tempFolder configFolder)
      else ([], Some (PlainError (''Could not determine the type of helm config.: '' @ hc_Name helm))))"

text \<open>A chart with a path and a repository is an error, and rendered from its path all the same.\<close>

definition processChart :: "helm_env \<Rightarrow> string \<Rightarrow> string \<Rightarrow> string \<Rightarrow> HelmConfig \<Rightarrow> ci_effect list \<times> ci_error list" where
  "processChart env baseRepoFolder tempFolder configFolder helm =
     (case handleChart env baseRepoFolder tempFolder configFolder helm of
        (t, err) \<Rightarrow> (t,
          (if IsLocal helm \<and> IsRemote helm then [PlainError (''Error in helm definition '' @ hc_Name helm @
             '' - It is not possible to use both '' @ quoteName ''path'' @ '' and '' @ quoteName ''repo'' @ '' simultaneously'')] else []) @
          (case err of None \<Rightarrow> [] | Some e \<Rightarrow> [e])))"

definition ProcessHelmTemplates :: "helm_env \<Rightarrow> ci_configuration \<Rightarrow> string \<Rightarrow> string \<Rightarrow> ci_effect list \<times> ci_error list" where
  "ProcessHelmTemplates env cfg repoBaseFolder configFolder =
     (let rs = map (processChart env repoBaseFolder (op_TempFolder (cf_Options cfg)) configFolder) (mc_Helm (cf_Manifests cfg)) in
      (concat (map fst rs), concat (map snd rs)))"

section \<open>Copying\<close>

text \<open>The folder is created and the path copied, whatever became of the creation; each of the two failures counts.\<close>

definition copyTarget :: "string \<Rightarrow> string \<Rightarrow> string" where
  "copyTarget configFolder yamlPath = pathJoin [configFolder, fst (pathSplit yamlPath)]"

definition copyCommands :: "string \<Rightarrow> string \<Rightarrow> string \<Rightarrow> (string \<times> string list) list" where
  "copyCommands repoBaseFolder configFolder yamlPath =
     [(''mkdir'', [''-p'', copyTarget configFolder yamlPath]),
      (''cp'', [''-r'', pathJoin [repoBaseFolder, yamlPath], copyTarget configFolder yamlPath])]"

definition CopyYaml :: "helm_env \<Rightarrow> ci_configuration \<Rightarrow> string \<Rightarrow> string \<Rightarrow> ci_effect list \<times> string option" where
  "CopyYaml env cfg repoBaseFolder configFolder =
     (let paths = mc_YamlPaths (cf_Manifests cfg); cmds = concat (map (copyCommands repoBaseFolder configFolder) paths);
          numFailures = length (filter (\<lambda>(c, args). snd (hx_exec env c args) \<noteq> None) cmds) in
      (map (\<lambda>(c, args). Ran c args) cmds,
       if numFailures = 0 then None
       else Some (showInt (int numFailures) @ '' of '' @ showInt (int (length paths)) @
         '' yaml files failed to be copied to the config directory, see logs for the individual error messages'')))"

end
