(* ===== verification/Ci_Main.thy ===== *)
theory Ci_Main
  imports Ci_Trivy Ci_Helm
begin

text \<open>
  The run of the CI scanner: the reports of one repository with the report of its own errors, what is sent to Insights, and the exit status.
  A panic is \<^const>\<open>None\<close>.
\<close>

section \<open>Reports\<close>

record ci_ReportInfo =
  ri_Report :: string
  ri_Filename :: string
  ri_Version :: string

record CIScan =
  ci_autoScan :: bool
  ci_token :: string
  ci_baseFolder :: string
  ci_repoBaseFolder :: string
  ci_configFolder :: string
  ci_config :: ci_configuration

text \<open>Creating a scan looks at every switch of a report, to log it.\<close>

definition switches :: "reportsConfig \<Rightarrow> bool option list" where
  "switches rc = [rc_OPA rc, rc_Polaris rc, rc_Pluto rc, rc_Trivy rc, rc_TFSec rc]"

definition NewCIScan :: "setup_env \<Rightarrow> bool \<Rightarrow> string \<Rightarrow> (string + CIScan) option" where
  "NewCIScan env cloneRepo token =
     (case setupConfiguration cloneRepo env of
        Inl err \<Rightarrow> Some (Inl (''could not get configuration: '' @ err))
      | Inr (baseFolder, repoBaseFolder, cfg) \<Rightarrow>
          let folder = op_TempFolder (cf_Options cfg) @ ''/configuration/'' in
          (case su_mkdir env folder of
             Some err \<Rightarrow> Some (Inl (''Could not make directory '' @ folder @ '': '' @ err))
           | None \<Rightarrow>
               if None \<in> set (switches (cf_Reports cfg)) then None
               else Some (Inr \<lparr>ci_autoScan = cloneRepo, ci_token = token, ci_baseFolder = baseFolder, ci_repoBaseFolder = repoBaseFolder,
                 ci_configFolder = folder, ci_config = cfg\<rparr>)))"

text \<open>What a scan meets: charts and commands, the manifests that the effects leave, Trivy, the custom checks, and errors of writing reports.\<close>

record ci_run =
  cr_getenv :: "string \<Rightarrow> string"
  cr_helm :: helm_env
  cr_manifests :: "ci_effect list \<Rightarrow> yaml_file list"
  cr_shuffle :: "TrivyImage list \<Rightarrow> TrivyImage list"
  cr_trivy :: ci_trivy
  cr_checks :: "string + int \<times> (string + string)"
  cr_checksOf :: "string \<Rightarrow> string + clusterCheckModel"
  cr_opaClient :: "json_object list \<Rightarrow> opa_client option"
  cr_text :: "string list \<Rightarrow> string"
  cr_write :: "string \<Rightarrow> string option"

definition tempFile :: "CIScan \<Rightarrow> string \<Rightarrow> string" where
  "tempFile ci name = pathJoin [op_TempFolder (cf_Options (ci_config ci)), name]"

definition run_exec :: "ci_run \<Rightarrow> string \<Rightarrow> string list \<Rightarrow> string \<times> string option" where
  "run_exec env = hx_exec (cr_helm env)"

definition ci_GetPolarisReport :: "ci_run \<Rightarrow> CIScan \<Rightarrow> (string + ci_ReportInfo) option" where
  "ci_GetPolarisReport env ci =
     (case run_exec env ''polaris'' [''version''] of
        (_, Some err) \<Rightarrow> Some (Inl (''unable to get polaris version: '' @ err @ '': ''))
      | (out, None) \<Rightarrow>
          (case splitByte (CHR '':'') out of
             _ # version # _ \<Rightarrow>
               (case run_exec env ''polaris'' [''audit'', ''--audit-path'', ci_configFolder ci, ''--output-file'', tempFile ci ''polaris.json''] of
                  (out', Some err) \<Rightarrow> Some (Inl (err @ '': '' @ out'))
                | (_, None) \<Rightarrow> Some (Inr \<lparr>ri_Report = ''polaris'', ri_Filename = ''polaris.json'', ri_Version = version\<rparr>))
           | _ \<Rightarrow> None))"

definition GetPlutoReport :: "ci_run \<Rightarrow> CIScan \<Rightarrow> string + ci_ReportInfo" where
  "GetPlutoReport env ci =
     (case run_exec env ''pluto'' [''detect-files'', ''-d'', ci_configFolder ci, ''-o'', ''json'', ''--ignore-deprecations'', ''--ignore-removals''] of
        (_, Some err) \<Rightarrow> Inl err
      | (out, None) \<Rightarrow>
          (case cr_write env (tempFile ci ''pluto.json'') of
             Some err \<Rightarrow> Inl err
           | None \<Rightarrow> Inr \<lparr>ri_Report = ''pluto'', ri_Filename = ''pluto.json'', ri_Version = cr_getenv env ''plutoVersion''\<rparr>))"

definition GetWorkloadReport :: "ci_run \<Rightarrow> CIScan \<Rightarrow> ci_resource list \<Rightarrow> string + ci_ReportInfo" where
  "GetWorkloadReport env ci resources =
     (case cr_write env (tempFile ci ''scan-workloads.json'') of
        Some err \<Rightarrow> Inl err
      | None \<Rightarrow> Inr \<lparr>ri_Report = ''scan-workloads'', ri_Filename = ''scan-workloads.json'', ri_Version = ''0.2.0''\<rparr>)"

definition hasEnvVar :: "string \<Rightarrow> bool" where "hasEnvVar s \<longleftrightarrow> Contains s ''$''"

definition getDockerImages :: "string list \<Rightarrow> DockerImage list" where
  "getDockerImages names = map (\<lambda>n. \<lparr>di_Name = n, di_PullRef = ''''\<rparr>) (filter (\<lambda>n. \<not> hasEnvVar n) names)"

section \<open>Processing\<close>

text \<open>A step gives reports and items of the report of errors; a switch without a value panics.\<close>

type_synonym step_result = "ci_ReportInfo list \<times> ScanErrorsReportResult list"

definition ifEnabled :: "bool option \<Rightarrow> step_result option \<Rightarrow> step_result option" where
  "ifEnabled sw body = (case sw of None \<Rightarrow> None | Some b \<Rightarrow> if b then body else Some ([], []))"

definition internalError :: "string \<Rightarrow> string \<Rightarrow> string \<Rightarrow> ScanErrorsReportResult" where
  "internalError operation ctx msg = (scanError msg)\<lparr>se_ErrorContext := ctx, se_Kind := ''InternalOperation'', se_ResourceName := operation\<rparr>"

definition itemsOfError :: "ci_error \<Rightarrow> ScanErrorsReportResult list \<Rightarrow> ScanErrorsReportResult list" where
  "itemsOfError err fills = AddScanErrorsReportResultFromError err fills []"

definition reportStep :: "ci_error option \<Rightarrow> ScanErrorsReportResult list \<Rightarrow> ci_ReportInfo option \<Rightarrow> step_result" where
  "reportStep err fills report =
     ((case report of None \<Rightarrow> [] | Some r \<Rightarrow> [r]), (case err of None \<Rightarrow> [] | Some e \<Rightarrow> itemsOfError e fills))"

definition polarisStep :: "ci_run \<Rightarrow> CIScan \<Rightarrow> step_result option" where
  "polarisStep env ci = map_option (\<lambda>r. case r of
       Inl err \<Rightarrow> reportStep (Some (ResultError (internalError ''GetPolarisReport'' ''running polaris'' err))) [] None
     | Inr report \<Rightarrow> reportStep None [] (Some report)) (ci_GetPolarisReport env ci)"

definition trivyStep :: "ci_run \<Rightarrow> CIScan \<Rightarrow> TrivyImage list \<Rightarrow> step_result option" where
  "trivyStep env ci manifestImages =
     (case rc_TrivySkipManifests (cf_Reports (ci_config ci)) of
        None \<Rightarrow> None
      | Some skip \<Rightarrow> map_option (\<lambda>(report, errs).
          reportStep (Some (MultiError errs)) [internalError ''GetTrivyReport'' ''downloading images and running trivy'' '''']
            (map_option (\<lambda>(body, version). \<lparr>ri_Report = ''trivy'', ri_Filename = ''trivy.json'', ri_Version = version\<rparr>) report))
          (GetTrivyReport (cr_trivy env) (ci_config ci) (getDockerImages (im_Docker (cf_Images (ci_config ci)))) (if skip then [] else manifestImages)))"

definition opaStep :: "ci_run \<Rightarrow> CIScan \<Rightarrow> yaml_file list \<Rightarrow> step_result option" where
  "opaStep env ci files = map_option (\<lambda>(items, errs).
       reportStep (Some (MultiError errs)) [internalError ''ProcessOPA'' ''processing OPA policies'' '''']
         (map_option (\<lambda>_. \<lparr>ri_Report = ''opa'', ri_Filename = ''opa.json'', ri_Version = ''3.1.35''\<rparr>) items))
     (ci_ProcessOPA (cr_opaClient env) (cr_text env) (refreshChecks (cr_checksOf env) (cr_checks env)) (ci_configFolder ci) files
       (cr_write env (tempFile ci ''opa.json'')))"

definition plutoStep :: "ci_run \<Rightarrow> CIScan \<Rightarrow> step_result option" where
  "plutoStep env ci = Some (case GetPlutoReport env ci of
       Inl err \<Rightarrow> reportStep (Some (PlainError err)) [internalError ''GetPlutoReport'' ''running pluto'' ''''] None
     | Inr report \<Rightarrow> reportStep None [] (Some report))"

fun collectSteps :: "step_result option list \<Rightarrow> step_result option" where
  "collectSteps [] = Some ([], [])"
| "collectSteps (s # ss) =
     (case s of None \<Rightarrow> None | Some (reports, items) \<Rightarrow>
        map_option (\<lambda>(reports', items'). (reports @ reports', items @ items')) (collectSteps ss))"

definition processScanErrorsReportProperties :: "ci_run \<Rightarrow> CIScan \<Rightarrow> ScanErrorsReportResult list \<Rightarrow> string + ci_ReportInfo" where
  "processScanErrorsReportProperties env ci items =
     (case cr_write env (tempFile ci ''scan-errors.json'') of
        Some err \<Rightarrow> Inl (''while writing report output: '' @ err)
      | None \<Rightarrow> Inr \<lparr>ri_Report = ''scan-errors'', ri_Filename = ''scan-errors.json'', ri_Version = ''0.0.1''\<rparr>)"

definition copyRemediation :: string where
  "copyRemediation = ''Examine the CI logs to determine why yaml files failed to copy to the configuration directory. Perhaps memory or disk space is low.''"

text \<open>The manifests are rendered, copied and read; their errors become items.\<close>

definition gatherManifests :: "ci_run \<Rightarrow> CIScan \<Rightarrow> (yaml_file list \<times> TrivyImage list \<times> ci_resource list \<times> ScanErrorsReportResult list) option" where
  "gatherManifests env ci =
     (case ProcessHelmTemplates (cr_helm env) (ci_config ci) (ci_repoBaseFolder ci) (ci_configFolder ci) of
        (t1, helmErrs) \<Rightarrow>
     (case CopyYaml (cr_helm env) (ci_config ci) (ci_repoBaseFolder ci) (ci_configFolder ci) of
        (t2, copyErr) \<Rightarrow>
          let files = cr_manifests env (t1 @ t2) in
          map_option (\<lambda>(images, resources, errs). (files, images, resources,
              itemsOfError (MultiError helmErrs) [] @
              (case copyErr of None \<Rightarrow> [] | Some err \<Rightarrow> itemsOfError (ResultError ((internalError ''CopyYaml''
                 ''copying yaml files to configuration directory'' err)\<lparr>se_Remediation := copyRemediation\<rparr>)) []) @
              (if errs = [] then [] else itemsOfError (ResultError (internalError ''GetAllResources''
                 ''getting all resources from manifest files'' (cr_text env errs))) [])))
            (getAllResources (cr_shuffle env) (ci_configFolder ci) (mc_Helm (cf_Manifests (ci_config ci))) files)))"

text \<open>The reports after the workloads are optional; the report of errors comes last, if there are any.\<close>

definition finishReports :: "ci_run \<Rightarrow> CIScan \<Rightarrow> ci_ReportInfo list \<Rightarrow> ScanErrorsReportResult list \<Rightarrow> string + ci_ReportInfo list" where
  "finishReports env ci reports items =
     (if items = [] then Inr reports
      else case processScanErrorsReportProperties env ci items of
        Inl err \<Rightarrow> Inl (''unable to process scan errors report items: '' @ err)
      | Inr r \<Rightarrow> Inr (reports @ [r]))"

definition lateSteps :: "ci_run \<Rightarrow> CIScan \<Rightarrow> TrivyImage list \<Rightarrow> yaml_file list \<Rightarrow> step_result option" where
  "lateSteps env ci images files =
     (let rc = cf_Reports (ci_config ci) in
      collectSteps [ifEnabled (rc_Trivy rc) (trivyStep env ci images), ifEnabled (rc_OPA rc) (opaStep env ci files),
        ifEnabled (rc_Pluto rc) (plutoStep env ci), ifEnabled (rc_TFSec rc) (Some ([], []))])"

definition ProcessRepository :: "ci_run \<Rightarrow> CIScan \<Rightarrow> (ScanErrorsReportResult list \<times> (string + ci_ReportInfo list)) option" where
  "ProcessRepository env ci =
     Option.bind (gatherManifests env ci) (\<lambda>(files, images, resources, items0).
     Option.bind (ifEnabled (rc_Polaris (cf_Reports (ci_config ci))) (polarisStep env ci)) (\<lambda>(reports1, items1).
     case GetWorkloadReport env ci resources of
       Inl err \<Rightarrow> Some (items0 @ items1, Inl (''unable to get workloads report, which is depended on by other reports: '' @ err))
     | Inr workloads \<Rightarrow>
         map_option (\<lambda>(reports2, items2). (items0 @ items1 @ items2,
             finishReports env ci (reports1 @ [workloads] @ reports2) (items0 @ items1 @ items2)))
           (lateSteps env ci images files)))"

section \<open>Sending\<close>

text \<open>A part of the form: field, file name, contents.\<close>

type_synonym form_part = "string \<times> string \<times> string"

record ci_request =
  cq_url :: string
  cq_headers :: "(string \<times> string) list"
  cq_parts :: "form_part list"

record send_env =
  sn_getenv :: "string \<Rightarrow> string"
  sn_open :: "string \<Rightarrow> string + (string + string)"
  sn_git :: git
  sn_post :: "ci_request \<Rightarrow> string + int \<times> (string + string)"
  sn_results :: "string \<Rightarrow> string + ScanResults"
  sn_mkdir :: "string \<Rightarrow> string option"
  sn_junit :: "(string \<times> (string \<times> string) option) list \<Rightarrow> string option"
  sn_write :: "string \<Rightarrow> string option"

text \<open>The process may exit in the middle, with a message.\<close>

datatype 'a halting = Fatal string | Went 'a

definition formFiles :: "CIScan \<Rightarrow> ci_ReportInfo list \<Rightarrow> (string \<times> string \<times> string) list" where
  "formFiles ci reports = (''fairwinds-insights'', configFileName, pathJoin [ci_repoBaseFolder ci, configFileName]) #
     map (\<lambda>r. (ri_Report r, ri_Filename r, tempFile ci (ri_Filename r))) reports"

fun readForms :: "send_env \<Rightarrow> (string \<times> string \<times> string) list \<Rightarrow> form_part list halting" where
  "readForms env [] = Went []"
| "readForms env ((field, filename, location) # fs) =
     (case sn_open env location of
        Inl err \<Rightarrow> Fatal (''Unable to open file for '' @ field @ '': '' @ err)
      | Inr (Inl err) \<Rightarrow> Fatal (''Unable to write contents for '' @ field @ '': '' @ err)
      | Inr (Inr contents) \<Rightarrow>
          (case readForms env fs of Fatal err \<Rightarrow> Fatal err | Went parts \<Rightarrow> Went ((field, filename, contents) # parts)))"

definition resultHeaders :: "send_env \<Rightarrow> CIScan \<Rightarrow> gitInfo \<Rightarrow> ci_ReportInfo list \<Rightarrow> (string \<times> string) list" where
  "resultHeaders env ci info reports =
     (let op = cf_Options (ci_config ci) in
      [(''Authorization'', ''Bearer '' @ ci_token ci), (''X-Commit-Hash'', gi_currentHash info), (''X-Commit-Message'', gi_commitMessage info),
       (''X-Branch-Name'', gi_branch info), (''X-Master-Hash'', gi_masterHash info), (''X-Base-Branch'', op_BaseBranch op),
       (''X-Origin'', gi_origin info), (''X-Repository-Name'', gi_repoName info),
       (''X-New-AI-Threshold'', showInt (op_NewActionItemThreshold op)), (''X-Severity-Threshold'', op_SeverityThreshold op),
       (''X-Script-Version'', sn_getenv env ''SCRIPT_VERSION''), (''X-Image-Version'', sn_getenv env ''IMAGE_VERSION''),
       (''X-CI-Runner'', op_CIRunner op)] @
      map (\<lambda>r. (''X-Fairwinds-Report-Version-'' @ ri_Report r, TrimSuffix (ri_Version r) [CHR 0x0A])) reports)"

definition postResults :: "send_env \<Rightarrow> ci_request \<Rightarrow> string + ScanResults" where
  "postResults env req =
     (case sn_post env req of
        Inl err \<Rightarrow> Inl err
      | Inr (_, Inl err) \<Rightarrow> Inl err
      | Inr (status, Inr body) \<Rightarrow>
          if status \<noteq> 200 then Inl (''Invalid status code: '' @ showInt status @ '' - '' @ body) else sn_results env body)"

definition ci_sendResults :: "send_env \<Rightarrow> CIScan \<Rightarrow> ci_ReportInfo list \<Rightarrow> (string + ScanResults) halting" where
  "ci_sendResults env ci reports =
     (case readForms env (formFiles ci reports) of
        Fatal err \<Rightarrow> Fatal err
      | Went parts \<Rightarrow>
          let op = cf_Options (ci_config ci) in
          (case getGitInfo (sn_getenv env) (sn_git env) (op_RepositoryName op) (op_BaseBranch op) of
             Inl err \<Rightarrow> Fatal (''Unable to get git details: '' @ err)
           | Inr info \<Rightarrow>
               Went (postResults env
                 \<lparr>cq_url = op_Hostname op @ ''/v0/organizations/'' @ op_Organization op @ ''/ci/scan-results'',
                  cq_headers = resultHeaders env ci info reports,
                  cq_parts = parts @ (if gi_filesModified info = [] then []
                    else [(''files_modified'', ''files_modified'', joinSep [CHR 0x0A] (gi_filesModified info))])\<rparr>)))"

definition JUnitEnabled :: "CIScan \<Rightarrow> bool" where
  "JUnitEnabled ci \<longleftrightarrow> op_JUnitOutput (cf_Options (ci_config ci)) \<noteq> ''''"

definition SaveJUnitFile :: "send_env \<Rightarrow> CIScan \<Rightarrow> ScanResults \<Rightarrow> string option" where
  "SaveJUnitFile env ci results =
     (let out = pathJoin [ci_baseFolder ci, op_JUnitOutput (cf_Options (ci_config ci))] in
      case sn_mkdir env (pathDir out) of
        Some err \<Rightarrow> Some (''could not create dir: '' @ err)
      | None \<Rightarrow>
          (case sn_junit env (junitCases results) of
             Some err \<Rightarrow> Some err
           | None \<Rightarrow> map_option (\<lambda>err. ''could not save file: '' @ err) (sn_write env out)))"

datatype send_error = ErrExitCode | SendError string

definition judge :: "CIScan \<Rightarrow> ScanResults \<Rightarrow> send_error option" where
  "judge ci results = (if \<not> sr_Pass results \<and> op_SetExitCode (cf_Options (ci_config ci)) then Some ErrExitCode else None)"

definition SendAndPrintResults :: "send_env \<Rightarrow> CIScan \<Rightarrow> ci_ReportInfo list \<Rightarrow> send_error option halting" where
  "SendAndPrintResults env ci reports =
     (case ci_sendResults env ci reports of
        Fatal err \<Rightarrow> Fatal err
      | Went (Inl err) \<Rightarrow> Went (Some (SendError (''Error while sending results back to '' @ op_Hostname (cf_Options (ci_config ci)) @ '': '' @ err)))
      | Went (Inr results) \<Rightarrow>
          (case (if JUnitEnabled ci then SaveJUnitFile env ci results else None) of
             Some err \<Rightarrow> Went (Some (SendError (''Could not save jUnit results: '' @ err)))
           | None \<Rightarrow> Went (judge ci results)))"

section \<open>The program\<close>

text \<open>The exit status, and whether the temporary folders are deleted before it.\<close>

record ci_exit =
  ce_status :: int
  ce_closed :: bool

definition failing :: "bool \<Rightarrow> ci_exit" where "failing cleaned = \<lparr>ce_status = 1, ce_closed = cleaned\<rparr>"

definition afterSending :: "send_error option halting \<Rightarrow> ci_exit" where
  "afterSending r =
     (case r of
        Fatal _ \<Rightarrow> failing False
      | Went None \<Rightarrow> \<lparr>ce_status = 0, ce_closed = True\<rparr>
      | Went (Some ErrExitCode) \<Rightarrow> failing False
      | Went (Some (SendError _)) \<Rightarrow> failing True)"

definition ci_main :: "setup_env \<Rightarrow> ci_run \<Rightarrow> send_env \<Rightarrow> (string \<Rightarrow> bool) \<Rightarrow> ci_exit option" where
  "ci_main env run sending validLevel =
     (let getenv = su_getenv env; token = TrimSpace (getenv ''FAIRWINDS_TOKEN'') in
      if getenv ''LOGRUS_LEVEL'' \<noteq> '''' \<and> \<not> validLevel (getenv ''LOGRUS_LEVEL'') then None
      else if token = '''' then Some (failing False)
      else case NewCIScan env (ToLower (TrimSpace (getenv ''CLONE_REPO'')) = ''true'') token of
        None \<Rightarrow> None
      | Some (Inl err) \<Rightarrow> Some (failing False)
      | Some (Inr ci) \<Rightarrow>
          (case ProcessRepository run ci of
             None \<Rightarrow> None
           | Some (_, Inl err) \<Rightarrow> Some (failing True)
           | Some (_, Inr reports) \<Rightarrow> Some (afterSending (SendAndPrintResults sending ci reports))))"

section \<open>Properties\<close>

text \<open>Defaults leave no switch without a value, so that no look at one panics.\<close>

lemma defaultReports_set: "None \<notin> set (switches (defaultReports rc)) \<and> rc_TrivySkipManifests (defaultReports rc) \<noteq> None"
  by (auto simp: switches_def defaultReports_def orEnabled_def split: option.splits)

lemma ci_SetDefaults_reports: "ci_SetDefaults getenv decode c = Inr c' \<Longrightarrow> cf_Reports c' = defaultReports (cf_Reports c)"
  by (auto simp: ci_SetDefaults_def Let_def split: if_splits sum.splits option.splits)

lemma SetPathDefaults_reports [simp]:
  "cf_Reports (SetPathDefaults c) = cf_Reports c" "op_SetExitCode (cf_Options (SetPathDefaults c)) = op_SetExitCode (cf_Options c)"
  by (simp_all add: SetPathDefaults_def setFolders_def Let_def)

lemma SetMountedPathDefaults_reports: "SetMountedPathDefaults mkdir b c = Inr c' \<Longrightarrow> cf_Reports c' = cf_Reports c"
  by (auto simp: SetMountedPathDefaults_def setFolders_def Let_def split: option.splits)

definition configured :: "ci_configuration \<Rightarrow> bool" where
  "configured c \<longleftrightarrow> None \<notin> set (switches (cf_Reports c)) \<and> rc_TrivySkipManifests (cf_Reports c) \<noteq> None \<and> op_Organization (cf_Options c) \<noteq> ''''"

lemma default_configured: "getDefaultConfiguration env = Inr (b, r, c) \<Longrightarrow> configured c"
  using defaultReports_set
  by (auto simp: getDefaultConfiguration_def configured_def Let_def CheckForErrors_def dest!: ci_SetDefaults_reports
      split: sum.splits option.splits if_splits)

lemma cloned_configured: "clonedConfiguration env base p = Inr (b, r, c) \<Longrightarrow> configured c \<and> \<not> op_SetExitCode (cf_Options c)"
  using defaultReports_set
  by (auto simp: clonedConfiguration_def configured_def Let_def CheckForErrors_def
      dest!: ci_SetDefaults_reports SetMountedPathDefaults_reports split: sum.splits option.splits if_splits)

lemma clone_repo_configured: "getConfigurationForCloneRepo env = Inr (b, r, c) \<Longrightarrow> configured c \<and> \<not> op_SetExitCode (cf_Options c)"
  unfolding getConfigurationForCloneRepo_def Let_def
  using cloned_configured by (fastforce split: if_splits sum.splits option.splits)

lemma setup_configured: "setupConfiguration cloneRepo env = Inr (b, r, c) \<Longrightarrow> configured c \<and> (cloneRepo \<longrightarrow> \<not> op_SetExitCode (cf_Options c))"
  using default_configured clone_repo_configured by (fastforce simp: setupConfiguration_def split: if_splits)

lemma NewCIScan_no_panic: "NewCIScan env cloneRepo token \<noteq> None"
  using setup_configured [of cloneRepo env]
  by (auto simp: NewCIScan_def Let_def configured_def split: sum.splits option.splits)

lemma NewCIScan_configured:
  "NewCIScan env cloneRepo token = Some (Inr ci) \<Longrightarrow>
     configured (ci_config ci) \<and> (cloneRepo \<longrightarrow> \<not> op_SetExitCode (cf_Options (ci_config ci))) \<and> ci_token ci = token"
  using setup_configured [of cloneRepo env]
  by (auto simp: NewCIScan_def Let_def split: sum.splits option.splits if_splits)

end
