(* ===== verification/Ci_Correct.thy ===== *)
theory Ci_Correct
  imports Ci_Main "HOL-Library.Multiset"
begin

text \<open>What holds of the CI scanner: the report of errors, the images, the exit status, and behaviour that looks unintended.\<close>

section \<open>The report of errors\<close>

definition completeItem :: "ScanErrorsReportResult \<Rightarrow> bool" where
  "completeItem r \<longleftrightarrow> se_Kind r \<noteq> '''' \<and> se_ResourceName r \<noteq> '''' \<and> se_ErrorContext r \<noteq> ''''"

lemma reportItem_complete [simp]: "completeItem (reportItem fills r)"
  by (simp add: completeItem_def reportItem_def FillUnsetRequiredFieldsWithDefaults_def orDefault_def)

lemma AddScan_complete:
  "\<forall>i \<in> set items. completeItem i \<Longrightarrow> \<forall>i \<in> set (AddScanErrorsReportResultFromError err fills items). completeItem i"
  by (induction err fills items rule: AddScanErrorsReportResultFromError.induct) auto

lemma itemsOfError_complete: "i \<in> set (itemsOfError err fills) \<Longrightarrow> completeItem i"
  using AddScan_complete [of "[]"] by (auto simp: itemsOfError_def)

definition completeStep :: "step_result option \<Rightarrow> bool" where
  "completeStep s \<longleftrightarrow> (\<forall>reports items i. s = Some (reports, items) \<longrightarrow> i \<in> set items \<longrightarrow> completeItem i)"

lemma reportStep_complete: "reportStep err fills report = (reports, items) \<Longrightarrow> i \<in> set items \<Longrightarrow> completeItem i"
  by (auto simp: reportStep_def itemsOfError_complete split: option.splits)

lemma reportStep_completeStep: "completeStep (Some (reportStep err fills report))"
  by (auto simp: completeStep_def dest: reportStep_complete)

lemma completeStep_map: "(\<And>x. completeStep (Some (f x))) \<Longrightarrow> completeStep (map_option f s)"
  by (cases s) (auto simp: completeStep_def)

lemma step_complete [simp]:
  "completeStep (polarisStep env ci)" "completeStep (trivyStep env ci images)" "completeStep (opaStep env ci files)" "completeStep (plutoStep env ci)"
  by (auto simp: polarisStep_def trivyStep_def opaStep_def plutoStep_def reportStep_completeStep completeStep_def [of None]
      intro!: completeStep_map split: sum.split option.split prod.split)

lemma ifEnabled_complete [simp]: "completeStep s \<Longrightarrow> completeStep (ifEnabled sw s)"
  by (auto simp: completeStep_def ifEnabled_def split: option.splits)

lemma collectSteps_complete: "\<forall>s \<in> set ss. completeStep s \<Longrightarrow> completeStep (collectSteps ss)"
proof (induction ss)
  case (Cons s ss)
  then have "completeStep s" "completeStep (collectSteps ss)" by simp_all
  then show ?case by (fastforce simp: completeStep_def split: option.splits)
qed (simp add: completeStep_def)

lemma lateSteps_complete: "completeStep (lateSteps env ci images files)"
  unfolding lateSteps_def Let_def by (rule collectSteps_complete) (simp add: completeStep_def [of "Some ([], [])"])

lemma gatherManifests_complete:
  "gatherManifests env ci = Some (files, images, resources, items) \<Longrightarrow> i \<in> set items \<Longrightarrow> completeItem i"
  by (auto simp: gatherManifests_def Let_def itemsOfError_complete split: prod.splits option.splits if_splits)

lemma finishReports_cases:
  "finishReports env ci reports items = Inr out \<Longrightarrow>
     (items = [] \<and> out = reports) \<or>
     (items \<noteq> [] \<and> out = reports @ [\<lparr>ri_Report = ''scan-errors'', ri_Filename = ''scan-errors.json'', ri_Version = ''0.0.1''\<rparr>])"
  by (auto simp: finishReports_def processScanErrorsReportProperties_def split: if_splits sum.splits option.splits)

lemma finishReports_shape:
  assumes "finishReports env ci all items = Inr out" "\<forall>x \<in> set all. ri_Report x \<noteq> ''scan-errors''" "\<exists>x \<in> set all. ri_Report x = ''scan-workloads''"
  shows "(\<exists>r \<in> set out. ri_Report r = ''scan-workloads'') \<and>
      (items \<noteq> [] \<longleftrightarrow> ri_Report (last out) = ''scan-errors'') \<and> (\<forall>r \<in> set (butlast out). ri_Report r \<noteq> ''scan-errors'')"
proof -
  have "all \<noteq> []" using assms(3) by auto
  then have "last all \<in> set all" by simp
  then show ?thesis using finishReports_cases [OF assms(1)] assms(2,3) by (auto dest: in_set_butlastD)
qed

definition workloadsReport :: ci_ReportInfo where
  "workloadsReport = \<lparr>ri_Report = ''scan-workloads'', ri_Filename = ''scan-workloads.json'', ri_Version = ''0.2.0''\<rparr>"

lemma GetWorkloadReport_Inr: "GetWorkloadReport env ci resources = Inr r \<Longrightarrow> r = workloadsReport"
  by (auto simp: GetWorkloadReport_def workloadsReport_def split: option.splits)

text \<open>No report of another step has the name of the report of errors.\<close>

definition ordinary :: "step_result option \<Rightarrow> bool" where
  "ordinary s \<longleftrightarrow> (\<forall>reports items r. s = Some (reports, items) \<longrightarrow> r \<in> set reports \<longrightarrow> ri_Report r \<noteq> ''scan-errors'')"

lemma ordinary_map: "(\<And>x. s = Some x \<Longrightarrow> ordinary (Some (f x))) \<Longrightarrow> ordinary (map_option f s)"
  by (cases s) (auto simp: ordinary_def)

lemma ordinary_report: "ordinary (Some (reportStep err fills report)) \<longleftrightarrow> (\<forall>r. report = Some r \<longrightarrow> ri_Report r \<noteq> ''scan-errors'')"
  by (auto simp: ordinary_def reportStep_def split: option.splits)

lemma polaris_report_name: "ci_GetPolarisReport env ci = Some (Inr r) \<Longrightarrow> ri_Report r = ''polaris''"
  by (auto simp: ci_GetPolarisReport_def split: prod.splits option.splits list.splits)

lemma pluto_report_name: "GetPlutoReport env ci = Inr r \<Longrightarrow> ri_Report r = ''pluto''"
  by (auto simp: GetPlutoReport_def split: prod.splits option.splits)

lemma step_ordinary [simp]:
  "ordinary (polarisStep env ci)" "ordinary (trivyStep env ci images)" "ordinary (opaStep env ci files)" "ordinary (plutoStep env ci)"
  by (auto simp: polarisStep_def trivyStep_def opaStep_def plutoStep_def ordinary_report ordinary_def [of None]
      dest!: polaris_report_name pluto_report_name intro!: ordinary_map split: sum.split option.split prod.split)

lemma ifEnabled_ordinary [simp]: "ordinary s \<Longrightarrow> ordinary (ifEnabled sw s)"
  by (auto simp: ordinary_def ifEnabled_def split: option.splits)

lemma collectSteps_ordinary: "\<forall>s \<in> set ss. ordinary s \<Longrightarrow> ordinary (collectSteps ss)"
proof (induction ss)
  case (Cons s ss)
  then have "ordinary s" "ordinary (collectSteps ss)" by simp_all
  then show ?case by (fastforce simp: ordinary_def split: option.splits)
qed (simp add: ordinary_def)

lemma lateSteps_ordinary: "ordinary (lateSteps env ci images files)"
  unfolding lateSteps_def Let_def by (rule collectSteps_ordinary) (simp add: ordinary_def [of "Some ([], [])"])

lemma ProcessRepository_cases:
  assumes "ProcessRepository env ci = Some (items, out)"
  obtains files images resources items0 reports1 items1 where
    "gatherManifests env ci = Some (files, images, resources, items0)"
    "ifEnabled (rc_Polaris (cf_Reports (ci_config ci))) (polarisStep env ci) = Some (reports1, items1)"
    "(\<exists>err. items = items0 @ items1 \<and> out = Inl err) \<or>
     (\<exists>reports2 items2. lateSteps env ci images files = Some (reports2, items2) \<and> items = items0 @ items1 @ items2 \<and>
        out = finishReports env ci (reports1 @ [workloadsReport] @ reports2) items)"
proof -
  obtain files images resources items0 where g: "gatherManifests env ci = Some (files, images, resources, items0)"
    using assms by (auto simp: ProcessRepository_def bind_eq_Some_conv)
  obtain reports1 items1 where p: "ifEnabled (rc_Polaris (cf_Reports (ci_config ci))) (polarisStep env ci) = Some (reports1, items1)"
    using assms by (auto simp: ProcessRepository_def bind_eq_Some_conv)
  show thesis
  proof (cases "GetWorkloadReport env ci resources")
    case (Inl err)
    then show thesis using assms g p by (intro that [OF g p]) (auto simp: ProcessRepository_def)
  next
    case (Inr w)
    then show thesis using assms g p GetWorkloadReport_Inr [OF Inr] by (intro that [OF g p]) (auto simp: ProcessRepository_def)
  qed
qed

lemma ProcessRepository_items:
  assumes "ProcessRepository env ci = Some (items, out)"
  shows "\<forall>i \<in> set items. se_Kind i \<noteq> '''' \<and> se_ResourceName i \<noteq> '''' \<and> se_ErrorContext i \<noteq> ''''"
    and "out = Inr reports \<Longrightarrow> (\<exists>r \<in> set reports. ri_Report r = ''scan-workloads'') \<and>
      (items \<noteq> [] \<longleftrightarrow> ri_Report (last reports) = ''scan-errors'') \<and> (\<forall>r \<in> set (butlast reports). ri_Report r \<noteq> ''scan-errors'')"
proof -
  obtain files images resources items0 reports1 items1 where
    g: "gatherManifests env ci = Some (files, images, resources, items0)" and
    p: "ifEnabled (rc_Polaris (cf_Reports (ci_config ci))) (polarisStep env ci) = Some (reports1, items1)" and
    r: "(\<exists>err. items = items0 @ items1 \<and> out = Inl err) \<or>
     (\<exists>reports2 items2. lateSteps env ci images files = Some (reports2, items2) \<and> items = items0 @ items1 @ items2 \<and>
        out = finishReports env ci (reports1 @ [workloadsReport] @ reports2) items)"
    using ProcessRepository_cases [OF assms] .
  have c1: "\<forall>i \<in> set items1. completeItem i" using ifEnabled_complete [OF step_complete(1)] p by (fastforce simp: completeStep_def)
  have o1: "\<forall>x \<in> set reports1. ri_Report x \<noteq> ''scan-errors''" using ifEnabled_ordinary [OF step_ordinary(1)] p by (fastforce simp: ordinary_def)
  have c0: "\<forall>i \<in> set items0. completeItem i" using gatherManifests_complete [OF g] by blast
  have "\<forall>i \<in> set items. completeItem i"
    using r c0 c1 lateSteps_complete [of env ci images files] by (fastforce simp: completeStep_def)
  then show "\<forall>i \<in> set items. se_Kind i \<noteq> '''' \<and> se_ResourceName i \<noteq> '''' \<and> se_ErrorContext i \<noteq> ''''" by (simp add: completeItem_def)
  assume "out = Inr reports"
  then obtain reports2 items2 where l: "lateSteps env ci images files = Some (reports2, items2)" and
    f: "finishReports env ci (reports1 @ [workloadsReport] @ reports2) items = Inr reports" using r by auto
  let ?all = "reports1 @ [workloadsReport] @ reports2"
  have "\<forall>x \<in> set ?all. ri_Report x \<noteq> ''scan-errors''"
    using o1 l lateSteps_ordinary [of env ci images files] by (auto simp: ordinary_def workloadsReport_def)
  moreover have "\<exists>x \<in> set ?all. ri_Report x = ''scan-workloads''" by (simp add: workloadsReport_def)
  ultimately show "(\<exists>r \<in> set reports. ri_Report r = ''scan-workloads'') \<and>
      (items \<noteq> [] \<longleftrightarrow> ri_Report (last reports) = ''scan-errors'') \<and> (\<forall>r \<in> set (butlast reports). ri_Report r \<noteq> ''scan-errors'')"
    using finishReports_shape [OF f] by blast
qed

text \<open>
  C19: Every item of the scanner's report of its own errors has a kind, a resource and a context, whatever failed. If the reports are sent, the
  workloads are among them, and the report of errors is if and only if there is an item, once and last.
\<close>
theorem scan_error_items_complete:
  assumes "ProcessRepository env ci = Some (items, out)"
  shows "(\<forall>i \<in> set items. se_Kind i \<noteq> '''' \<and> se_ResourceName i \<noteq> '''' \<and> se_ErrorContext i \<noteq> '''') \<and>
    (\<forall>reports. out = Inr reports \<longrightarrow> (\<exists>r \<in> set reports. ri_Report r = ''scan-workloads'') \<and>
      (items \<noteq> [] \<longleftrightarrow> ri_Report (last reports) = ''scan-errors'') \<and> (\<forall>r \<in> set (butlast reports). ri_Report r \<noteq> ''scan-errors''))"
  using ProcessRepository_items [OF assms] by blast

text \<open>A run with one chart that is neither local nor remote, and every optional report switched off.\<close>

definition demo_helm :: helm_env where
  "demo_helm = \<lparr>hx_exec = (\<lambda>_ _. ('''', None)), hx_open = (\<lambda>_. Inl ''no file''), hx_release = (\<lambda>_. Inl ''no YAML''), hx_write = (\<lambda>_ _. None)\<rparr>"

definition demo_chart :: HelmConfig where
  "demo_chart = \<lparr>hc_Name = ''shop'', hc_Path = '''', hc_Repo = '''', hc_Chart = '''', hc_FluxFile = '''', hc_Version = '''', hc_ValuesFile = '''',
     hc_ValuesFiles = [], hc_Values = []\<rparr>"

definition demo_ci_config :: ci_configuration where
  "demo_ci_config = zeroConfiguration\<lparr>cf_Manifests := \<lparr>mc_YamlPaths = [], mc_Helm = [demo_chart]\<rparr>,
     cf_Options := zeroOptions\<lparr>op_TempFolder := ''/tmp/scan/''\<rparr>,
     cf_Reports := \<lparr>rc_Polaris = Some False, rc_Pluto = Some False, rc_TFSec = Some False, rc_Trivy = Some False,
       rc_TrivySkipManifests = Some False, rc_OPA = Some False, rc_PrometheusMetrics = Some True, rc_Goldilocks = Some True\<rparr>\<rparr>"

definition demo_scan :: CIScan where
  "demo_scan = \<lparr>ci_autoScan = False, ci_token = ''token'', ci_baseFolder = ''.'', ci_repoBaseFolder = ''.'',
     ci_configFolder = ''/tmp/scan//configuration/'', ci_config = demo_ci_config\<rparr>"

definition demo_ci_trivy :: "archive list \<Rightarrow> ci_trivy" where
  "demo_ci_trivy archives = \<lparr>ct_getenv = (\<lambda>_. ''''), ct_exec = (\<lambda>_ _. (''Version: 0.50'', None)),
     ct_scan = \<lparr>tve_getenv = (\<lambda>_. ''''), tve_run = (\<lambda>_ _. ('''', None)), tve_readReport = (\<lambda>_. Inl ''no report''), tve_decode = (\<lambda>_. Inl ''no JSON''),
       tve_registryUser = '''', tve_registryPassword = '''', tve_registryCertDir = ''''\<rparr>,
     ct_unmarshal = (\<lambda>_. Inr JNull), ct_before = archives, ct_after = archives, ct_text = concat, ct_errorText = (\<lambda>_. ''failed''),
     ct_shuffle = id, ct_now = 0, ct_write = (\<lambda>_. None)\<rparr>"

definition demo_run :: "archive list \<Rightarrow> ci_run" where
  "demo_run archives = \<lparr>cr_getenv = (\<lambda>_. ''''), cr_helm = demo_helm, cr_manifests = (\<lambda>_. []), cr_shuffle = id, cr_trivy = demo_ci_trivy archives,
     cr_checks = Inl ''no network'', cr_checksOf = (\<lambda>_. Inl ''no JSON''), cr_opaClient = (\<lambda>_. None), cr_text = concat, cr_write = (\<lambda>_. None)\<rparr>"

definition demo_error_item :: ScanErrorsReportResult where
  "demo_error_item = \<lparr>se_Kind = ''CIErrorWithoutContext'', se_ResourceName = ''unknown'',
     se_ErrorMessage = ''Could not determine the type of helm config.: shop'', se_ErrorContext = ''performing an action in CI'', se_Filename = '''',
     se_Remediation = '''', se_Severity = Finite 0, se_Category = ''''\<rparr>"

lemmas demo_run_defs = demo_helm_def demo_chart_def demo_ci_config_def demo_scan_def demo_run_def zeroOptions_def zeroConfiguration_def

lemma demo_gather: "gatherManifests (demo_run archives) demo_scan = Some ([], [], [], [demo_error_item])"
  by (simp add: gatherManifests_def demo_run_defs ProcessHelmTemplates_def processChart_def handleChart_def IsLocal_def IsRemote_def CopyYaml_def
      getAllResources_def dedupImages_def itemsOfError_def reportItem_def FillUnsetRequiredFieldsWithDefaults_def orDefault_def scanError_def demo_error_item_def)

lemma demo_process: "ProcessRepository (demo_run archives) demo_scan =
    Some ([demo_error_item], Inr [workloadsReport, \<lparr>ri_Report = ''scan-errors'', ri_Filename = ''scan-errors.json'', ri_Version = ''0.0.1''\<rparr>])"
  by (simp add: ProcessRepository_def demo_gather)
    (simp add: demo_run_defs ifEnabled_def lateSteps_def GetWorkloadReport_def finishReports_def processScanErrorsReportProperties_def workloadsReport_def)

theorem scan_error_items_complete_witness:
  "ProcessRepository (demo_run []) demo_scan =
     Some ([demo_error_item], Inr [workloadsReport, \<lparr>ri_Report = ''scan-errors'', ri_Filename = ''scan-errors.json'', ri_Version = ''0.0.1''\<rparr>]) \<and>
   se_Kind demo_error_item \<noteq> ''''"
  using scan_error_items_complete [OF demo_process [of "[]"]] demo_process [of "[]"] by simp

section \<open>Images\<close>


lemma lastNamed_subset: "set (lastNamed xs) \<subseteq> set xs"
  by (induction xs) auto






section \<open>Image scans\<close>

lemma identify_pullRef: "identify sha tags im = Some im' \<Longrightarrow> tvi_PullRef im' = tvi_PullRef im"
  by (auto simp: identify_def Let_def split: list.splits)

lemma imageOf_pullRef [simp]: "tvi_PullRef (imageOf d m f filename) = filename"
  by (auto simp: imageOf_def Let_def find_Some_iff split: option.splits prod.splits)

lemma mergeImages_pullRefs: "mergeImages walked d m f = Some images \<Longrightarrow> map tvi_PullRef images = map fst walked"
  unfolding mergeImages_def
proof (induction walked arbitrary: images)
  case (Cons w walked)
  then show ?case by (cases w) (auto dest: identify_pullRef split: option.splits)
qed simp

lemma scanLoop_errors_stay: "scanLoop scan is st = Some st' \<Longrightarrow> sd_all st \<noteq> [] \<Longrightarrow> sd_all st' \<noteq> []"
  by (induction scan "is" st rule: scanLoop.induct) (auto split: if_splits option.splits sum.splits)

text \<open>A file whose scan fails leaves an error, if it is among the images.\<close>

lemma scanLoop_failure:
  "\<forall>im. tvi_PullRef im = f \<longrightarrow> scan im = Some (Inl err) \<Longrightarrow> scanLoop scan is st = Some st' \<Longrightarrow> f \<in> tvi_PullRef ` set is \<Longrightarrow> sd_reports st f = None \<Longrightarrow> sd_all st' \<noteq> []"
proof (induction scan "is" st rule: scanLoop.induct)
  case (2 scan im "is" st)
  show ?case
  proof (cases "tvi_PullRef im = f")
    case True
    then show ?thesis using 2 by (auto dest: scanLoop_errors_stay)
  next
    case False
    then show ?thesis using 2 by (auto split: if_splits option.splits sum.splits)
  qed
qed simp

lemma scanImages_failure:
  assumes "scanImagesWithTrivy exec env cfg now images = Some (report, errs)" and "f \<in> tvi_PullRef ` set images"
    and "ScanImageFile env (im_FolderName (cf_Images cfg) @ f) f (op_TempFolder (cf_Options cfg)) '''' = Some (Inl err)"
  shows "errs \<noteq> []"
proof -
  let ?scan = "\<lambda>im. ScanImageFile env (im_FolderName (cf_Images cfg) @ tvi_PullRef im) (tvi_PullRef im) (op_TempFolder (cf_Options cfg)) ''''"
  let ?st = "\<lparr>sd_reports = Map.empty, sd_errors = (\<lambda>_. []), sd_all = []\<rparr>"
  have "scanLoop ?scan images ?st = Some st \<Longrightarrow> sd_all st \<noteq> []" for st
    using assms(2,3) scanLoop_failure [of f ?scan err images ?st st] by simp
  then show ?thesis using assms(1) by (auto simp: scanImagesWithTrivy_def bind_eq_Some_conv split: prod.splits option.splits)
qed

lemma finishTrivy_failure: "errs \<noteq> [] \<Longrightarrow> finishTrivy env cfg allErrs (report, errs) = (r, out) \<Longrightarrow> r = None \<and> (\<exists>e. ResultError e \<in> set out)"
  by (auto simp: finishTrivy_def)

definition anError :: "ci_error list \<Rightarrow> bool" where
  "anError errs \<longleftrightarrow> (\<exists>e \<in> set errs. \<nexists>es. e = MultiError es)"

lemma GetTrivyReport_failure:
  assumes "GetTrivyReport env cfg d m = Some (r, errs)" and "walkImages (ct_unmarshal env) (ct_after env) = Some (after, walkErr)"
    and "filename \<in> fst ` set after"
    and "ScanImageFile (ct_scan env) (im_FolderName (cf_Images cfg) @ filename) filename (op_TempFolder (cf_Options cfg)) '''' = Some (Inl err)"
  shows "r = None \<and> anError errs"
proof -
  obtain before where b: "walkImages (ct_unmarshal env) (ct_before env) = Some before"
    using assms(1) by (auto simp: GetTrivyReport_def bind_eq_Some_conv)
  show ?thesis
  proof (cases "updatePullRef before d m")
    case (Inl e)
    then show ?thesis using assms(1) b by (auto simp: GetTrivyReport_def anError_def)
  next
    case (Inr dm)
    obtain docker manifest where dm: "dm = (docker, manifest)" by (cases dm)
    obtain names docker' manifest' downloadErr where dl: "downloadMissingImages (ct_text env)
        (downloadImageViaSkopeo (ct_getenv env) (ct_exec env) (im_FolderName (cf_Images cfg))) (ct_shuffle env) (im_FolderName (cf_Images cfg))
        (op_RegistryCredentials (cf_Options cfg)) docker manifest = (names, docker', manifest', downloadErr)"
      by (cases "downloadMissingImages (ct_text env)
        (downloadImageViaSkopeo (ct_getenv env) (ct_exec env) (im_FolderName (cf_Images cfg))) (ct_shuffle env) (im_FolderName (cf_Images cfg))
        (op_RegistryCredentials (cf_Options cfg)) docker manifest")
    obtain images report scanErrs allErrs where i: "mergeImages after docker' manifest' names = Some images"
      and s: "scanImagesWithTrivy (ct_exec env) (ct_scan env) cfg (ct_now env) images = Some (report, scanErrs)"
      and f: "finishTrivy env cfg allErrs (report, scanErrs) = (r, errs)"
      using assms(1,2) b Inr dm dl by (auto simp: GetTrivyReport_def bind_eq_Some_conv Let_def)
    have "filename \<in> tvi_PullRef ` set images" using assms(3) mergeImages_pullRefs [OF i] by (metis list.set_map)
    then have "scanErrs \<noteq> []" using scanImages_failure [OF s _ assms(4)] by blast
    then show ?thesis using finishTrivy_failure [OF _ f] by (auto simp: anError_def)
  qed
qed

lemma AddScan_keeps: "set items \<subseteq> set (AddScanErrorsReportResultFromError err fills items)"
  by (induction err fills items rule: AddScanErrorsReportResultFromError.induct) auto

lemma AddScan_error: "anError errs \<Longrightarrow> AddScanErrorsReportResultFromError (MultiError errs) fills items \<noteq> []"
proof (induction errs arbitrary: items)
  case (Cons e es)
  show ?case
  proof (cases "\<exists>xs. e = MultiError xs")
    case True
    then have "anError es" using Cons.prems by (auto simp: anError_def)
    then show ?thesis using Cons.IH by simp
  next
    case False
    then have "AddScanErrorsReportResultFromError e fills items \<noteq> []" by (cases e) auto
    then show ?thesis using AddScan_keeps [of "AddScanErrorsReportResultFromError e fills items" "MultiError es" fills] by auto
  qed
qed (simp add: anError_def)

text \<open>
  C37: If the scan of one image file fails, the scanner sends no Trivy report at all, although the results of the other images are there; the
  failure is only an item of the report of errors.
\<close>
theorem one_failed_image_loses_report:
  assumes "trivyStep env ci manifestImages = Some (reports, items)"
    and "walkImages (ct_unmarshal (cr_trivy env)) (ct_after (cr_trivy env)) = Some (after, walkErr)" and "(filename, sha, tags) \<in> set after"
    and "ScanImageFile (ct_scan (cr_trivy env)) (im_FolderName (cf_Images (ci_config ci)) @ filename) filename
      (op_TempFolder (cf_Options (ci_config ci))) '''' = Some (Inl err)"
  shows "reports = [] \<and> items \<noteq> []"
proof -
  obtain skip r errs where g: "GetTrivyReport (cr_trivy env) (ci_config ci) (getDockerImages (im_Docker (cf_Images (ci_config ci))))
      (if skip then [] else manifestImages) = Some (r, errs)" and
    s: "(reports, items) = reportStep (Some (MultiError errs)) [internalError ''GetTrivyReport'' ''downloading images and running trivy'' '''']
      (map_option (\<lambda>(body, version). \<lparr>ri_Report = ''trivy'', ri_Filename = ''trivy.json'', ri_Version = version\<rparr>) r)"
    using assms(1) by (auto simp: trivyStep_def split: option.splits)
  have "filename \<in> fst ` set after" using assms(3) by force
  then have "r = None \<and> anError errs" using GetTrivyReport_failure [OF g assms(2) _ assms(4)] by blast
  then show ?thesis using s AddScan_error by (auto simp: reportStep_def itemsOfError_def)
qed

definition demo_archive :: archive where
  "demo_archive = \<lparr>ar_filename = ''web_1'', ar_entries = [], ar_readError = None\<rparr>"

lemma demo_walk: "walkImages unmarshal [demo_archive] = Some ([(''web_1'', '''', [])], None)"
  by (simp add: demo_archive_def getShaAndRepoTags_def)

lemma demo_after: "ct_after (demo_ci_trivy a) = a" "ct_before (demo_ci_trivy a) = a" "ct_exec (demo_ci_trivy a) = (\<lambda>_ _. (''Version: 0.50'', None))"
  by (simp_all add: demo_ci_trivy_def)

lemma demo_scan_fails: "ScanImageFile (ct_scan (demo_ci_trivy archives)) p i t '''' = Some (Inl ''no report'')"
  by (simp add: ScanImageFile_def RunCommand_def demo_ci_trivy_def Let_def)

lemma demo_images: "scanImagesWithTrivy (\<lambda>_ _. (''Version: 0.50'', None)) (ct_scan (demo_ci_trivy archives)) cfg now images \<noteq> None"
proof -
  have "scanLoop (\<lambda>im. Some (Inl err)) images st \<noteq> None" for err st
    by (induction "\<lambda>im::TrivyImage. Some (Inl err :: string + TrivyResults)" images st rule: scanLoop.induct) auto
  then show ?thesis by (auto simp: scanImagesWithTrivy_def versionWord_def downloadDatabases_def demo_scan_fails)
qed

lemma demo_trivy_runs: "trivyStep (demo_run [demo_archive]) demo_scan [] \<noteq> None"
proof -
  have m: "mergeImages [(''web_1'', '''', [])] [] [] names \<noteq> None" for names
    by (simp add: mergeImages_def identify_def imageOf_def Let_def split: option.split prod.split)
  have "GetTrivyReport (demo_ci_trivy [demo_archive]) cfg [] [] \<noteq> None" for cfg
  proof -
    obtain images where i: "mergeImages [(''web_1'', '''', [])] [] [] (ReverseMap (ct_shuffle (demo_ci_trivy [demo_archive]) [])) = Some images"
      using m by blast
    obtain out where s: "scanImagesWithTrivy (\<lambda>_ _. (''Version: 0.50'', None)) (ct_scan (demo_ci_trivy [demo_archive])) cfg
        (ct_now (demo_ci_trivy [demo_archive])) images = Some out" using demo_images by blast
    show ?thesis unfolding GetTrivyReport_def demo_after demo_walk by (simp add: updatePullRef_def downloadMissingImages_def i s)
  qed
  then show ?thesis
    by (simp add: trivyStep_def demo_run_def demo_scan_def demo_ci_config_def zeroConfiguration_def getDockerImages_def)
qed

theorem one_failed_image_loses_report_witness:
  "\<exists>items. trivyStep (demo_run [demo_archive]) demo_scan [] = Some ([], items) \<and> items \<noteq> []"
proof -
  obtain reports items where s: "trivyStep (demo_run [demo_archive]) demo_scan [] = Some (reports, items)" using demo_trivy_runs by auto
  have t: "cr_trivy (demo_run [demo_archive]) = demo_ci_trivy [demo_archive]" by (simp add: demo_run_def)
  have "reports = [] \<and> items \<noteq> []"
    by (rule one_failed_image_loses_report [OF s, of "[(''web_1'', '''', [])]" None "''web_1''" "''''" "[]"])
      (simp_all only: t demo_scan_fails demo_after demo_walk, simp_all)
  then show ?thesis using s by simp
qed

section \<open>Credentials\<close>

text \<open>
  C38: Images of another registry whose name has two parts, such as quay.io/app, are downloaded with the credentials of Docker Hub, which
  skopeo then sends to that registry; credentials for the registry itself are not found.
\<close>
theorem docker_hub_credentials_sent_elsewhere:
  assumes "CHR ''/'' \<notin> set host" and "CHR ''/'' \<notin> set app" and "find (\<lambda>c. cr_Domain c = ''docker.io'') rcs = Some rc" and "cr_Username rc \<noteq> ''<token>''"
  shows "FindCredentialForImage rcs (host @ ''/'' @ app) = Some rc \<and>
    (\<exists>options. downloadArgs getenv folder (host @ ''/'' @ app) (FindCredentialForImage rcs (host @ ''/'' @ app)) =
       [''copy'', ''--src-creds'', cr_Username rc @ (if cr_Password rc \<noteq> '''' then '':'' @ cr_Password rc else '''')] @ options @
       [''docker://'' @ host @ ''/'' @ app, ''docker-archive:'' @ folder @ clearString (host @ ''/'' @ app)])"
proof -
  have "splitByte (CHR ''/'') (host @ CHR ''/'' # app) = [host, app]" using assms(1,2) by (simp add: splitByte_append splitByte_single)
  then have f: "FindCredentialForImage rcs (host @ ''/'' @ app) = Some rc" using assms(3) by (simp add: FindCredentialForImage_def registryDomain_def)
  then show ?thesis using assms(4) by (simp add: downloadArgs_def credentialArgs_def)
qed

definition demo_credentials :: "RegistryCredential list" where
  "demo_credentials = [\<lparr>cr_Domain = ''quay.io'', cr_Username = ''robot'', cr_Password = ''q''\<rparr>,
     \<lparr>cr_Domain = ''docker.io'', cr_Username = ''hub'', cr_Password = ''secret''\<rparr>]"

theorem docker_hub_credentials_sent_elsewhere_witness:
  "map_option cr_Username (FindCredentialForImage demo_credentials (''quay.io'' @ ''/'' @ ''app'')) = Some ''hub''"
  using docker_hub_credentials_sent_elsewhere [of "''quay.io''" "''app''" demo_credentials "demo_credentials ! 1"]
  by (simp add: demo_credentials_def)

section \<open>Lists\<close>

lemma processFiles_panics:
  "i < length objs \<Longrightarrow> length names \<le> n + i \<Longrightarrow> snd (processObject cl checks v0 v1 (objs ! i)) \<noteq> [] \<Longrightarrow>
     processFiles cl text checks v0 v1 n objs names = None"
proof (induction objs arbitrary: i n)
  case (Cons obj objs)
  then show ?case by (cases i) (auto split: prod.splits)
qed simp

text \<open>
  A list in a manifest gives its objects but one name. An object whose place is past the last name crashes the scanner as soon as a check
  fails on it, instead of leaving an item in the report of errors.
\<close>
theorem check_error_in_list_crashes:
  assumes "opaFiles (ci_configFolder ci) files = Some (Inr (objs, names))" and "i < length objs" and "length names \<le> i"
    and "refreshChecks (cr_checksOf env) (cr_checks env) = Inr m" and "GetOPACustomChecksAndLibraries (cm_Checks m) = (checks, v0, v1)"
    and "cr_opaClient env objs = Some client" and "snd (processObject client checks v0 v1 (objs ! i)) \<noteq> []"
  shows "opaStep env ci files = None"
  using assms processFiles_panics [of i objs names 0 client checks v0 v1 "cr_text env"]
  by (simp add: opaStep_def ci_ProcessOPA_def)

definition demo_list :: yaml_file where
  "demo_list = \<lparr>yf_path = ''/tmp/scan/configuration/all.yaml'', yf_openError = None,
     yf_docs = [Inr [(''kind'', JString ''list''), (''items'', JArray [JObject (demo_object ''web''), JObject (demo_object ''bad'')])]], yf_endError = None\<rparr>"

definition demo_opa_run :: ci_run where
  "demo_opa_run = (demo_run [])\<lparr>cr_checks := Inr (200, Inr ''checks''), cr_checksOf := (\<lambda>_. Inr demo_checks),
     cr_opaClient := (\<lambda>objs. Some (demo_client objs))\<rparr>"

lemma demo_list_objects:
  "\<exists>name. opaFiles ''/tmp/scan//configuration/'' [demo_list] = Some (Inr ([demo_object ''web'', demo_object ''bad''], [name]))"
proof -
  have "isYaml demo_list" by (simp add: isYaml_def demo_list_def pathBase_def HasSuffix_def HasPrefix_def)
  then show ?thesis by (simp add: demo_list_def objectsOf_def)
qed

lemma demo_list_failure: "snd (processObject (demo_client objs) [demo_check] [] [] (demo_object ''bad'')) \<noteq> []"
  by (simp add: processObject_def ProcessCheckForItemV2_def runRegoForItemV2_def RunRegoForItemV2_def demo_opa_defs collectTarget_def Let_def)

theorem check_error_in_list_crashes_witness: "opaStep demo_opa_run demo_scan [demo_list] = None"
proof -
  obtain name where f: "opaFiles (ci_configFolder demo_scan) [demo_list] = Some (Inr ([demo_object ''web'', demo_object ''bad''], [name]))"
    using demo_list_objects by (auto simp: demo_scan_def)
  show ?thesis
    by (rule check_error_in_list_crashes [OF f, of 1 demo_opa_run demo_checks])
      (use demo_libraries demo_list_failure in \<open>simp_all add: demo_opa_run_def demo_run_def refreshChecks_def\<close>)
qed

section \<open>Detection\<close>

text \<open>Without a clone the base path is empty, and nothing is there to be walked: a missing configuration is not detected but an error.\<close>

lemma no_detection_without_clone:
  assumes "su_autoDetect env = ConfigFileAutoDetection files" "fe_lstat files '''' = Inl err" "su_open env (''./'' @ configFileName) = ConfigMissing e"
  shows "setupConfiguration False env = Inl (''Could not walk into dir: '' @ err)"
  using assms by (simp add: setupConfiguration_def getDefaultConfiguration_def readOrDetect_def readConfigurationFromFile_def ConfigFileAutoDetection_def)

section \<open>The exit status\<close>

lemma afterSending_zero:
  "ce_status (afterSending (SendAndPrintResults sending ci reports)) = 0 \<longleftrightarrow>
     (\<exists>results. ci_sendResults sending ci reports = Went (Inr results) \<and> (JUnitEnabled ci \<longrightarrow> SaveJUnitFile sending ci results = None) \<and>
        (sr_Pass results \<or> \<not> op_SetExitCode (cf_Options (ci_config ci))))"
  by (auto simp: afterSending_def SendAndPrintResults_def failing_def judge_def split: halting.splits sum.splits option.splits send_error.splits if_splits)

text \<open>
  C18: The scanner exits with status zero exactly if it was configured, the repository was processed, Insights took the results, the JUnit file was
  written if it is wanted, and Insights lets the repository pass or the exit code is not to be set. On a cloned repository it never is.
\<close>
theorem exit_status:
  assumes "ci_main env run sending validLevel = Some e"
  shows "ce_status e = 0 \<longleftrightarrow> TrimSpace (su_getenv env ''FAIRWINDS_TOKEN'') \<noteq> '''' \<and>
     (\<exists>ci items reports results.
        NewCIScan env (ToLower (TrimSpace (su_getenv env ''CLONE_REPO'')) = ''true'') (TrimSpace (su_getenv env ''FAIRWINDS_TOKEN'')) = Some (Inr ci) \<and>
        ProcessRepository run ci = Some (items, Inr reports) \<and> ci_sendResults sending ci reports = Went (Inr results) \<and>
        (JUnitEnabled ci \<longrightarrow> SaveJUnitFile sending ci results = None) \<and>
        (sr_Pass results \<or> \<not> op_SetExitCode (cf_Options (ci_config ci)) \<or> ToLower (TrimSpace (su_getenv env ''CLONE_REPO'')) = ''true''))"
proof -
  let ?token = "TrimSpace (su_getenv env ''FAIRWINDS_TOKEN'')" and ?clone = "ToLower (TrimSpace (su_getenv env ''CLONE_REPO'')) = ''true''"
  show ?thesis
  proof (cases "?token = '''' \<or> (\<nexists>ci. NewCIScan env ?clone ?token = Some (Inr ci))")
    case True
    then show ?thesis using assms by (auto simp: ci_main_def Let_def failing_def split: if_splits option.splits sum.splits)
  next
    case False
    then obtain ci where ci: "?token \<noteq> ''''" "NewCIScan env ?clone ?token = Some (Inr ci)" by blast
    have c: "?clone \<Longrightarrow> \<not> op_SetExitCode (cf_Options (ci_config ci))" using NewCIScan_configured [OF ci(2)] by blast
    obtain items out where p: "ProcessRepository run ci = Some (items, out)"
      using assms ci by (auto simp: ci_main_def Let_def split: if_splits option.splits)
    show ?thesis
    proof (cases out)
      case (Inl err)
      then show ?thesis using assms ci p by (auto simp: ci_main_def Let_def failing_def split: if_splits)
    next
      case (Inr reports)
      then have "e = afterSending (SendAndPrintResults sending ci reports)" using assms ci p by (auto simp: ci_main_def Let_def split: if_splits)
      then show ?thesis using afterSending_zero [of sending ci reports] ci p Inr c by auto
    qed
  qed
qed

text \<open>A configuration with every report switched off, sent to an Insights that lets it pass.\<close>

definition demo_setup :: setup_env where
  "demo_setup = \<lparr>su_getenv = (\<lambda>k. if k = ''FAIRWINDS_TOKEN'' then ''t'' else ''''), su_open = (\<lambda>_. ConfigText ''cfg''),
     su_parse = (\<lambda>_. Inr (demo_ci_config\<lparr>cf_Manifests := \<lparr>mc_YamlPaths = [], mc_Helm = []\<rparr>, cf_Options := zeroOptions\<lparr>op_Organization := ''acme''\<rparr>\<rparr>)),
     su_autoDetect = (\<lambda>_. Inl ''''), su_write = (\<lambda>_ _. None), su_credentials = (\<lambda>_. Inl ''''), su_reportsConfig = (\<lambda>_. Inl ''''),
     su_mkdir = (\<lambda>_. None), su_removeAll = (\<lambda>_. None), su_execIn = (\<lambda>_ _. Inl '''')\<rparr>"

definition demo_sending :: send_env where
  "demo_sending = \<lparr>sn_getenv = (\<lambda>_. ''''), sn_open = (\<lambda>_. Inr (Inr ''contents'')), sn_git = (\<lambda>_. Inr ''''),
     sn_post = (\<lambda>_. Inr (200, Inr ''body'')), sn_results = (\<lambda>_. Inr \<lparr>sr_NewActionItems = [], sr_FixedActionItems = [], sr_Pass = True\<rparr>),
     sn_mkdir = (\<lambda>_. None), sn_junit = (\<lambda>_. None), sn_write = (\<lambda>_. None)\<rparr>"

lemma demo_exit: "ci_main demo_setup (demo_run []) demo_sending (\<lambda>_. True) = Some \<lparr>ce_status = 0, ce_closed = True\<rparr>"
  by code_simp

theorem exit_status_witness:
  "\<exists>ci items reports results. ProcessRepository (demo_run []) ci = Some (items, Inr reports) \<and>
     ci_sendResults demo_sending ci reports = Went (Inr results)"
  using exit_status [OF demo_exit] by auto

end
