(* ===== verification/Work_Resources.thy ===== *)
theory Work_Resources
  imports Go_Float "HOL-Library.List_Lexorder" "HOL-Library.Char_ord" "HOL-Library.Product_Lexorder"
begin

text \<open>
  The workloads report: quantities, the resources of containers, what running pods have of them, and the allocation of nodes.
  A resource list is an association list with distinct names; the quantity printer is an argument.
\<close>

section \<open>Quantities\<close>

record k8s_quantity =
  qt_value :: rat
  qt_format :: string

text \<open>The missing quantity is zero; a zero takes the format of what is added to it.\<close>

definition zeroQuantity :: k8s_quantity where "zeroQuantity = \<lparr>qt_value = 0, qt_format = ''''\<rparr>"

definition addQuantity :: "k8s_quantity \<Rightarrow> k8s_quantity \<Rightarrow> k8s_quantity" where
  "addQuantity q y = \<lparr>qt_value = qt_value q + qt_value y, qt_format = (if qt_value q = 0 then qt_format y else qt_format q)\<rparr>"

definition IsZero :: "k8s_quantity \<Rightarrow> bool" where "IsZero q \<longleftrightarrow> qt_value q = 0"
definition Value :: "k8s_quantity \<Rightarrow> int" where "Value q = \<lceil>qt_value q\<rceil>"
definition MilliValue :: "k8s_quantity \<Rightarrow> int" where "MilliValue q = \<lceil>qt_value q * 1000\<rceil>"

type_synonym resource_list = "(string \<times> k8s_quantity) list"
type_synonym printer = "k8s_quantity \<Rightarrow> string"

definition quantityOf :: "resource_list \<Rightarrow> string \<Rightarrow> k8s_quantity" where
  "quantityOf rl name = (case map_of rl name of Some q \<Rightarrow> q | None \<Rightarrow> zeroQuantity)"

record k8s_resources =
  rq_Requests :: resource_list
  rq_Limits :: resource_list

section \<open>GPU resources\<close>

definition gpuClassResourceNameSet :: "string list" where
  "gpuClassResourceNameSet = [''nvidia.com/gpu'', ''nvidia.com/gpu.shared'', ''k8s.amazonaws.com/vgpu'', ''amd.com/gpu'', ''intel.com/gpu'',
     ''habana.ai/gaudi'', ''google.com/tpu'']"

definition isGPUClassResourceName :: "string \<Rightarrow> bool" where
  "isGPUClassResourceName name \<longleftrightarrow> name \<in> set gpuClassResourceNameSet"

definition gpuNamesOf :: "k8s_resources \<Rightarrow> string list" where
  "gpuNamesOf r = filter isGPUClassResourceName (map fst (rq_Requests r) @ map fst (rq_Limits r))"

definition gpuClassResourceNamesInUnion :: "k8s_resources option \<Rightarrow> k8s_resources option \<Rightarrow> string list" where
  "gpuClassResourceNamesInUnion spec status =
     sort (remdups ((case spec of None \<Rightarrow> [] | Some r \<Rightarrow> gpuNamesOf r) @ (case status of None \<Rightarrow> [] | Some r \<Rightarrow> gpuNamesOf r)))"

definition gpuClassResourceNamesInRequirements :: "k8s_resources option \<Rightarrow> string list" where
  "gpuClassResourceNamesInRequirements req = (if req = None then [] else gpuClassResourceNamesInUnion req None)"

definition resourceQuantityString :: "printer \<Rightarrow> resource_list \<Rightarrow> string \<Rightarrow> string" where
  "resourceQuantityString show rl name = (case map_of rl name of Some q \<Rightarrow> show q | None \<Rightarrow> '''')"

text \<open>The request of a GPU without one is its limit. An empty map and no map are the same.\<close>

definition gpuRequestString :: "printer \<Rightarrow> k8s_resources \<Rightarrow> string \<Rightarrow> string" where
  "gpuRequestString show req n =
     (let r = resourceQuantityString show (rq_Requests req) n; l = resourceQuantityString show (rq_Limits req) n in if r = '''' then l else r)"

definition extendedGPUMapsFromResourceRequirements :: "printer \<Rightarrow> k8s_resources option \<Rightarrow> (string \<times> string) list \<times> (string \<times> string) list" where
  "extendedGPUMapsFromResourceRequirements show req =
     (case req of
        None \<Rightarrow> ([], [])
      | Some r \<Rightarrow>
          let names = gpuClassResourceNamesInRequirements req in
          (filter (\<lambda>(_, s). s \<noteq> '''') (map (\<lambda>n. (n, gpuRequestString show r n)) names),
           filter (\<lambda>(_, s). s \<noteq> '''') (map (\<lambda>n. (n, resourceQuantityString show (rq_Limits r) n)) names)))"

section \<open>Pods\<close>

record k8s_container =
  kc_Name :: string
  kc_Image :: string
  kc_Resources :: k8s_resources

record k8s_container_status =
  ks_Name :: string
  ks_Image :: string
  ks_ImageID :: string
  ks_Resources :: "k8s_resources option"

record k8s_owner =
  ko_Kind :: string
  ko_Name :: string
  ko_UID :: string
  ko_Controller :: "bool option"

record k8s_meta =
  km_Namespace :: string
  km_Name :: string
  km_UID :: string
  km_Labels :: "(string \<times> string) list"
  km_Annotations :: "(string \<times> string) list"
  km_Owners :: "k8s_owner list"

text \<open>A volume with the claim that it uses, if any.\<close>

record k8s_volume =
  kv_Name :: string
  kv_ClaimName :: "string option"

record k8s_pod =
  kp_meta :: k8s_meta
  kp_NodeName :: string
  kp_Phase :: string
  kp_Conditions :: "(string \<times> string) list"
  kp_Containers :: "k8s_container list"
  kp_InitContainers :: "k8s_container list"
  kp_EphemeralContainers :: "k8s_container list"
  kp_Statuses :: "k8s_container_status list"
  kp_InitStatuses :: "k8s_container_status list"
  kp_EphemeralStatuses :: "k8s_container_status list"
  kp_Volumes :: "k8s_volume list"

section \<open>Applied resources\<close>

record ResourcesInfo =
  rs_Memory :: string
  rs_CPU :: string

record AppliedResources =
  ap_Requests :: ResourcesInfo
  ap_Limits :: ResourcesInfo
  ap_ExtendedRequests :: "(string \<times> string) list"
  ap_ExtendedLimits :: "(string \<times> string) list"

record SpecAppliedSkewPod =
  sk_Namespace :: string
  sk_Name :: string
  sk_UID :: string
  sk_Applied :: AppliedResources

record SpecAppliedStats =
  st_ConvergedCount :: nat
  st_SkewPods :: "SpecAppliedSkewPod list"

definition qtyListEqual :: "resource_list \<Rightarrow> resource_list \<Rightarrow> string \<Rightarrow> bool" where
  "qtyListEqual a b name \<longleftrightarrow> qt_value (quantityOf a name) = qt_value (quantityOf b name)"

definition resourceRequirementsCPUAndMemoryEqual :: "k8s_resources \<Rightarrow> k8s_resources \<Rightarrow> bool" where
  "resourceRequirementsCPUAndMemoryEqual spec status \<longleftrightarrow>
     qtyListEqual (rq_Requests spec) (rq_Requests status) ''cpu'' \<and> qtyListEqual (rq_Requests spec) (rq_Requests status) ''memory'' \<and>
     qtyListEqual (rq_Limits spec) (rq_Limits status) ''cpu'' \<and> qtyListEqual (rq_Limits spec) (rq_Limits status) ''memory''"

definition resourceRequirementsSpecMatchesApplied :: "k8s_resources \<Rightarrow> k8s_resources \<Rightarrow> bool" where
  "resourceRequirementsSpecMatchesApplied spec status \<longleftrightarrow>
     resourceRequirementsCPUAndMemoryEqual spec status \<and>
     list_all (\<lambda>n. qtyListEqual (rq_Requests spec) (rq_Requests status) n \<and> qtyListEqual (rq_Limits spec) (rq_Limits status) n)
       (gpuClassResourceNamesInUnion (Some spec) (Some status))"

definition podReady :: "k8s_pod \<Rightarrow> bool" where
  "podReady pod \<longleftrightarrow> list_ex (\<lambda>c. c = (''Ready'', ''True'')) (kp_Conditions pod)"

definition resourceRequirementsPopulated :: "k8s_resources option \<Rightarrow> bool" where
  "resourceRequirementsPopulated req \<longleftrightarrow> (case req of None \<Rightarrow> False | Some r \<Rightarrow> rq_Requests r \<noteq> [] \<or> rq_Limits r \<noteq> [])"

text \<open>A zero request shows the limit, if there is one.\<close>

definition requestInfo :: "printer \<Rightarrow> k8s_resources \<Rightarrow> string \<Rightarrow> string \<Rightarrow> string \<Rightarrow> string" where
  "requestInfo show r name req lmt =
     (if IsZero (quantityOf (rq_Requests r) name) \<and> \<not> IsZero (quantityOf (rq_Limits r) name) then lmt else req)"

definition appliedResourcesFromRequirements :: "printer \<Rightarrow> k8s_resources option \<Rightarrow> AppliedResources option" where
  "appliedResourcesFromRequirements show req =
     (case req of
        None \<Rightarrow> None
      | Some r \<Rightarrow>
          if \<not> resourceRequirementsPopulated req then None
          else let text = (\<lambda>rl name. resourceQuantityString show rl name);
                   lmt = \<lparr>rs_Memory = text (rq_Limits r) ''memory'', rs_CPU = text (rq_Limits r) ''cpu''\<rparr> in
            Some \<lparr>ap_Requests = \<lparr>rs_Memory = requestInfo show r ''memory'' (text (rq_Requests r) ''memory'') (rs_Memory lmt),
                rs_CPU = requestInfo show r ''cpu'' (text (rq_Requests r) ''cpu'') (rs_CPU lmt)\<rparr>, ap_Limits = lmt,
              ap_ExtendedRequests = fst (extendedGPUMapsFromResourceRequirements show req),
              ap_ExtendedLimits = snd (extendedGPUMapsFromResourceRequirements show req)\<rparr>)"

text \<open>What a pod says of a container: nothing, that it has converged, or how it is off.\<close>

datatype applied_state = NotReported | Converged | Skewed SpecAppliedSkewPod

definition statusResources :: "string \<Rightarrow> k8s_pod \<Rightarrow> k8s_resources option" where
  "statusResources name pod =
     (if find (\<lambda>c. kc_Name c = name) (kp_Containers pod) = None then None
      else Option.bind (find (\<lambda>s. ks_Name s = name) (kp_Statuses pod)) ks_Resources)"

definition appliedState :: "printer \<Rightarrow> string \<Rightarrow> k8s_resources \<Rightarrow> k8s_pod \<Rightarrow> applied_state" where
  "appliedState show name template pod =
     (if kp_Phase pod \<noteq> ''Running'' \<or> \<not> podReady pod then NotReported
      else let applied = statusResources name pod in
        if \<not> resourceRequirementsPopulated applied then NotReported
        else if resourceRequirementsSpecMatchesApplied template (the applied) then Converged
        else (case appliedResourcesFromRequirements show applied of
            None \<Rightarrow> NotReported
          | Some a \<Rightarrow> Skewed \<lparr>sk_Namespace = km_Namespace (kp_meta pod), sk_Name = km_Name (kp_meta pod), sk_UID = km_UID (kp_meta pod), sk_Applied = a\<rparr>))"

definition computeSpecAppliedStats :: "printer \<Rightarrow> string \<Rightarrow> k8s_resources \<Rightarrow> k8s_pod option list \<Rightarrow> SpecAppliedStats" where
  "computeSpecAppliedStats show name template pods =
     (let states = map (appliedState show name template) (List.map_filter id pods) in
      \<lparr>st_ConvergedCount = length (filter (\<lambda>s. s = Converged) states),
       st_SkewPods = sort_key (\<lambda>p. (sk_Namespace p, sk_Name p)) (List.map_filter (\<lambda>s. case s of Skewed p \<Rightarrow> Some p | _ \<Rightarrow> None) states)\<rparr>)"

section \<open>Node allocation\<close>

type_synonym resource_map = "string \<rightharpoonup> k8s_quantity"

record NodeAllocatedResources =
  na_Requests :: resource_map
  na_Limits :: resource_map

record NodeUtilization =
  nu_CPURequestsFraction :: float64
  nu_CPULimitsFraction :: float64
  nu_MemoryRequestsFraction :: float64
  nu_MemoryLimitsFraction :: float64
  nu_GPURequestsFraction :: float64
  nu_GPULimitsFraction :: float64

definition addTo :: "string \<Rightarrow> k8s_quantity \<Rightarrow> resource_map \<Rightarrow> resource_map" where
  "addTo name q m = m(name \<mapsto> (case m name of None \<Rightarrow> q | Some v \<Rightarrow> addQuantity v q))"

definition maxTo :: "string \<Rightarrow> k8s_quantity \<Rightarrow> resource_map \<Rightarrow> resource_map" where
  "maxTo name q m = m(name \<mapsto> (case m name of None \<Rightarrow> q | Some v \<Rightarrow> if qt_value q > qt_value v then q else v))"

definition addResourceList :: "resource_list \<Rightarrow> resource_map \<Rightarrow> resource_map" where
  "addResourceList new m = fold (\<lambda>(n, q). addTo n q) new m"

definition maxResourceList :: "resource_list \<Rightarrow> resource_map \<Rightarrow> resource_map" where
  "maxResourceList new m = fold (\<lambda>(n, q). maxTo n q) new m"

text \<open>The sum of the containers, and for every resource no less than any init container.\<close>

definition podTotal :: "(k8s_resources \<Rightarrow> resource_list) \<Rightarrow> k8s_pod \<Rightarrow> resource_map" where
  "podTotal sel pod =
     fold (\<lambda>c. maxResourceList (sel (kc_Resources c))) (kp_InitContainers pod)
       (fold (\<lambda>c. addResourceList (sel (kc_Resources c))) (kp_Containers pod) Map.empty)"

definition PodRequestsAndLimits :: "k8s_pod \<Rightarrow> resource_map \<times> resource_map" where
  "PodRequestsAndLimits pod = (podTotal rq_Requests pod, podTotal rq_Limits pod)"

definition podsScheduledOnNode :: "k8s_pod list \<Rightarrow> string \<Rightarrow> k8s_pod list" where
  "podsScheduledOnNode pods nodeName =
     filter (\<lambda>p. kp_NodeName p = nodeName \<and> kp_Phase p \<noteq> ''Succeeded'' \<and> kp_Phase p \<noteq> ''Failed'') pods"

text \<open>The server's field selector: the pods of a node that are neither succeeded nor failed.\<close>

definition getNodePods :: "(string \<Rightarrow> string + k8s_pod list) \<Rightarrow> string \<Rightarrow> string + k8s_pod list" where
  "getNodePods list nodeName = list (''spec.nodeName='' @ nodeName @ '',status.phase!=Succeeded,status.phase!=Failed'')"

definition addMaps :: "resource_map \<Rightarrow> resource_map \<Rightarrow> resource_map" where
  "addMaps m new = (\<lambda>n. case new n of None \<Rightarrow> m n | Some q \<Rightarrow> addTo n q m n)"

definition podCount :: "k8s_pod list \<Rightarrow> k8s_quantity" where
  "podCount pods = \<lparr>qt_value = of_nat (length pods), qt_format = ''''\<rparr>"

definition nodeTotal :: "(k8s_pod \<Rightarrow> resource_map) \<Rightarrow> k8s_pod list \<Rightarrow> resource_map" where
  "nodeTotal sel pods = (fold (\<lambda>p m. addMaps m (sel p)) pods Map.empty)(''pods'' \<mapsto> podCount pods)"

definition orZero :: "k8s_quantity option \<Rightarrow> k8s_quantity" where
  "orZero q = (case q of None \<Rightarrow> zeroQuantity | Some x \<Rightarrow> x)"

text \<open>A fraction of a capacity, zero without one.\<close>

definition fractionOf :: "float64 \<Rightarrow> float64 \<Rightarrow> float64" where
  "fractionOf x capacity = (case capacity of Finite c \<Rightarrow> if c > 0 then fdiv x c else Finite 0 | _ \<Rightarrow> Finite 0)"

definition intFloat :: "int \<Rightarrow> float64" where "intFloat n = fl (of_int n)"

definition milliFraction :: "resource_map \<Rightarrow> resource_list \<Rightarrow> string \<Rightarrow> float64" where
  "milliFraction m capacity name =
     fractionOf (intFloat (MilliValue (orZero (m name)))) (intFloat (MilliValue (quantityOf capacity name)))"

definition gpuResourceNames :: "string list" where
  "gpuResourceNames = sort gpuClassResourceNameSet"

definition gpuOnNode :: "resource_list \<Rightarrow> string list" where
  "gpuOnNode capacity = filter (\<lambda>n. \<not> IsZero (quantityOf capacity n)) gpuResourceNames"

definition gpuTotal :: "(string \<Rightarrow> k8s_quantity option) \<Rightarrow> string list \<Rightarrow> float64" where
  "gpuTotal m names = fold (\<lambda>n acc. case m n of None \<Rightarrow> acc | Some q \<Rightarrow> fadd acc (intFloat (Value q))) names (Finite 0)"

definition gpuFraction :: "resource_map \<Rightarrow> resource_list \<Rightarrow> float64" where
  "gpuFraction m capacity = fractionOf (gpuTotal m (gpuOnNode capacity)) (gpuTotal (\<lambda>n. Some (quantityOf capacity n)) (gpuOnNode capacity))"

definition getNodeAllocatedResources :: "resource_list \<Rightarrow> k8s_pod list \<Rightarrow> NodeAllocatedResources \<times> NodeUtilization" where
  "getNodeAllocatedResources capacity pods =
     (let reqs = nodeTotal (\<lambda>p. fst (PodRequestsAndLimits p)) pods; limits = nodeTotal (\<lambda>p. snd (PodRequestsAndLimits p)) pods in
      (\<lparr>na_Requests = reqs, na_Limits = limits\<rparr>,
       \<lparr>nu_CPURequestsFraction = milliFraction reqs capacity ''cpu'', nu_CPULimitsFraction = milliFraction limits capacity ''cpu'',
        nu_MemoryRequestsFraction = milliFraction reqs capacity ''memory'', nu_MemoryLimitsFraction = milliFraction limits capacity ''memory'',
        nu_GPURequestsFraction = gpuFraction reqs capacity, nu_GPULimitsFraction = gpuFraction limits capacity\<rparr>))"

definition GetNodeAllocatedResource :: "(string \<Rightarrow> string + k8s_pod list) \<Rightarrow> string \<Rightarrow> resource_list \<Rightarrow> string + NodeAllocatedResources \<times> NodeUtilization" where
  "GetNodeAllocatedResource list nodeName capacity =
     (case getNodePods list nodeName of Inl err \<Rightarrow> Inl err | Inr pods \<Rightarrow> Inr (getNodeAllocatedResources capacity pods))"

end
