(* ===== verification/Work_Format.thy ===== *)
theory Work_Format
  imports Work_Resources Prelude
begin

text \<open>
  The workloads report: the entries of controllers, nodes, ingresses, services and volume claims, made of the objects of Kubernetes. A nil slice and an
  empty one are the same in the report.
\<close>

section \<open>Controllers\<close>

record VolumeClaimRef =
  vc_Name :: string
  vc_ClaimName :: string

record ResourceResult =
  rr_Requests :: ResourcesInfo
  rr_Limits :: ResourcesInfo
  rr_GPURequests :: "(string \<times> string) list"
  rr_GPULimits :: "(string \<times> string) list"
  rr_SpecApplied :: SpecAppliedStats

record ContainerResult =
  cr_Name :: string
  cr_Image :: string
  cr_ImageID :: string
  cr_CreationTime :: go_time
  cr_Resource :: ResourceResult

record ControllerResult =
  ct_Kind :: string
  ct_meta :: k8s_meta
  ct_PodLabels :: "(string \<times> string) list"
  ct_PodAnnotations :: "(string \<times> string) list"
  ct_ParentUID :: string
  ct_PodCount :: nat
  ct_Containers :: "ContainerResult list"
  ct_VolumeClaims :: "VolumeClaimRef list"
  ct_NodeNames :: "string list"

definition getOwnerUID :: "k8s_owner list \<Rightarrow> string" where
  "getOwnerUID owners = (case owners of [] \<Rightarrow> '''' | o1 # _ \<Rightarrow> ko_UID o1)"

definition formatControllers :: "string \<Rightarrow> k8s_meta \<Rightarrow> ContainerResult list \<Rightarrow> (string \<times> string) list \<Rightarrow> (string \<times> string) list \<Rightarrow> ControllerResult" where
  "formatControllers kind m containers podLabels podAnnotations =
     \<lparr>ct_Kind = kind, ct_meta = m, ct_PodLabels = podLabels, ct_PodAnnotations = podAnnotations, ct_ParentUID = getOwnerUID (km_Owners m),
      ct_PodCount = (if kind = ''Pod'' then 1 else 0), ct_Containers = containers, ct_VolumeClaims = [], ct_NodeNames = []\<rparr>"

text \<open>Every pair of volume and claim once, by the text of the pair.\<close>

definition claimKey :: "string \<Rightarrow> string \<Rightarrow> string" where
  "claimKey volume claim = volume @ ''/'' @ claim"

fun claimsLoop :: "k8s_volume list \<Rightarrow> string set \<Rightarrow> VolumeClaimRef list" where
  "claimsLoop [] seen = []"
| "claimsLoop (v # vs) seen =
     (case kv_ClaimName v of
        None \<Rightarrow> claimsLoop vs seen
      | Some c \<Rightarrow>
          if c = '''' \<or> claimKey (kv_Name v) c \<in> seen then claimsLoop vs seen
          else \<lparr>vc_Name = kv_Name v, vc_ClaimName = c\<rparr> # claimsLoop vs (insert (claimKey (kv_Name v) c) seen))"

definition formatVolumeClaimsFromVolumes :: "k8s_volume list \<Rightarrow> VolumeClaimRef list" where
  "formatVolumeClaimsFromVolumes vs = claimsLoop vs {}"

text \<open>A live pod as it is converted, and the volumes of its spec as they are extracted; either may fail.\<close>

record live_pod =
  lp_pod :: "k8s_pod option"
  lp_volumes :: "k8s_volume list option"

record pod_template =
  pt_Containers :: "k8s_container list"
  pt_Volumes :: "k8s_volume list"

definition collectControllerVolumeClaims :: "pod_template option \<Rightarrow> live_pod list \<Rightarrow> VolumeClaimRef list" where
  "collectControllerVolumeClaims podSpec pods =
     formatVolumeClaimsFromVolumes
       ((case podSpec of None \<Rightarrow> [] | Some t \<Rightarrow> pt_Volumes t) @ concat (List.map_filter lp_volumes pods))"

definition collectControllerNodeNames :: "live_pod list \<Rightarrow> string list" where
  "collectControllerNodeNames pods =
     sort (remdups (map kp_NodeName (filter (\<lambda>p. kp_Phase p = ''Running'' \<and> kp_NodeName p \<noteq> '''') (List.map_filter lp_pod pods))))"

definition resourcesFromContainerSpec :: "printer \<Rightarrow> k8s_container \<Rightarrow> SpecAppliedStats \<Rightarrow> ResourceResult" where
  "resourcesFromContainerSpec show c stats =
     (let r = kc_Resources c; text = (\<lambda>rl name. show (quantityOf rl name));
          lmt = \<lparr>rs_Memory = text (rq_Limits r) ''memory'', rs_CPU = text (rq_Limits r) ''cpu''\<rparr> in
      \<lparr>rr_Requests = \<lparr>rs_Memory = requestInfo show r ''memory'' (text (rq_Requests r) ''memory'') (rs_Memory lmt),
         rs_CPU = requestInfo show r ''cpu'' (text (rq_Requests r) ''cpu'') (rs_CPU lmt)\<rparr>, rr_Limits = lmt,
       rr_GPURequests = fst (extendedGPUMapsFromResourceRequirements show (Some r)),
       rr_GPULimits = snd (extendedGPUMapsFromResourceRequirements show (Some r)), rr_SpecApplied = stats\<rparr>)"

definition formatContainer :: "printer \<Rightarrow> k8s_container \<Rightarrow> string \<Rightarrow> go_time \<Rightarrow> SpecAppliedStats \<Rightarrow> ContainerResult" where
  "formatContainer show c imageID created stats =
     \<lparr>cr_Name = kc_Name c, cr_Image = kc_Image c, cr_ImageID = imageID, cr_CreationTime = created, cr_Resource = resourcesFromContainerSpec show c stats\<rparr>"

text \<open>A top controller with its pods, as the library of controllers finds them.\<close>

record k8s_workload =
  kw_Kind :: string
  kw_meta :: k8s_meta
  kw_Created :: go_time
  kw_PodSpec :: "pod_template option"
  kw_PodMetadata :: "((string \<times> string) list \<times> (string \<times> string) list) option"
  kw_Pods :: "live_pod list"
  kw_RunningPodCount :: nat

definition controllerOf :: "printer \<Rightarrow> k8s_workload \<Rightarrow> ControllerResult" where
  "controllerOf show w =
     (let containers = (case kw_PodSpec w of None \<Rightarrow> [] | Some t \<Rightarrow>
            map (\<lambda>c. formatContainer show c '''' (kw_Created w) (computeSpecAppliedStats show (kc_Name c) (kc_Resources c) (map lp_pod (kw_Pods w))))
              (pt_Containers t));
          (labels, annotations) = (case kw_PodMetadata w of None \<Rightarrow> ([], []) | Some m \<Rightarrow> m) in
      (formatControllers (kw_Kind w) (kw_meta w) containers labels annotations)
        \<lparr>ct_PodCount := kw_RunningPodCount w, ct_VolumeClaims := collectControllerVolumeClaims (kw_PodSpec w) (kw_Pods w),
         ct_NodeNames := collectControllerNodeNames (kw_Pods w)\<rparr>)"

section \<open>Nodes\<close>

record NodeConditionSummary =
  nc_Type :: string
  nc_Status :: string
  nc_Reason :: string
  nc_Message :: string
  nc_LastTransitionTime :: go_time

record NodeInfoSummary =
  ni_Architecture :: string
  ni_OperatingSystem :: string
  ni_OSImage :: string
  ni_ContainerRuntimeVersion :: string
  ni_KernelVersion :: string
  ni_KubeletVersion :: string

record k8s_node_info = NodeInfoSummary +
  ki_MachineID :: string
  ki_BootID :: string
  ki_KubeProxyVersion :: string

text \<open>Taints have key, value, effect and the time they were added; addresses type and address.\<close>

record k8s_node =
  kn_meta :: k8s_meta
  kn_Created :: go_time
  kn_Capacity :: resource_list
  kn_Allocatable :: resource_list
  kn_Info :: k8s_node_info
  kn_Conditions :: "(NodeConditionSummary \<times> go_time) list"
  kn_Taints :: "(string \<times> string \<times> string \<times> go_time option) list"
  kn_Unschedulable :: bool
  kn_Addresses :: "(string \<times> string) list"
  kn_ProviderID :: string

record NodeSummary =
  ns_meta :: k8s_meta
  ns_CreationTimestamp :: go_time
  ns_Capacity :: resource_list
  ns_Allocatable :: resource_list
  ns_Allocated :: NodeAllocatedResources
  ns_Utilization :: NodeUtilization
  ns_KubeletVersion :: string
  ns_KubeProxyVersion :: string
  ns_IsControlPlaneNode :: bool
  ns_Conditions :: "NodeConditionSummary list"
  ns_Taints :: "(string \<times> string \<times> string) list"
  ns_Unschedulable :: bool
  ns_Addresses :: "(string \<times> string) list"
  ns_ProviderID :: string
  ns_NodeInfo :: NodeInfoSummary

text \<open>A condition also has the time of its last heartbeat, which is left out.\<close>

definition formatNodeConditions :: "(NodeConditionSummary \<times> go_time) list \<Rightarrow> NodeConditionSummary list" where
  "formatNodeConditions conditions = map fst conditions"

definition formatNodeTaints :: "(string \<times> string \<times> string \<times> go_time option) list \<Rightarrow> (string \<times> string \<times> string) list" where
  "formatNodeTaints taints = map (\<lambda>(key, value, effect, _). (key, value, effect)) taints"

definition formatNodeInfo :: "k8s_node_info \<Rightarrow> NodeInfoSummary" where
  "formatNodeInfo info = \<lparr>ni_Architecture = ni_Architecture info, ni_OperatingSystem = ni_OperatingSystem info, ni_OSImage = ni_OSImage info,
     ni_ContainerRuntimeVersion = ni_ContainerRuntimeVersion info, ni_KernelVersion = ni_KernelVersion info, ni_KubeletVersion = ni_KubeletVersion info\<rparr>"

definition checkIfNodeIsControlPlane :: "(string \<times> string) list \<Rightarrow> bool" where
  "checkIfNodeIsControlPlane labels \<longleftrightarrow>
     ''node-role.kubernetes.io/control-plane'' \<in> set (map fst labels) \<or> ''node-role.kubernetes.io/master'' \<in> set (map fst labels)"

definition nodeOf :: "k8s_pod list \<Rightarrow> k8s_node \<Rightarrow> NodeSummary" where
  "nodeOf allPods n =
     (let (allocated, utilization) = getNodeAllocatedResources (kn_Capacity n) (podsScheduledOnNode allPods (km_Name (kn_meta n))) in
      \<lparr>ns_meta = kn_meta n, ns_CreationTimestamp = kn_Created n, ns_Capacity = kn_Capacity n, ns_Allocatable = kn_Allocatable n,
       ns_Allocated = allocated, ns_Utilization = utilization, ns_KubeletVersion = ni_KubeletVersion (kn_Info n),
       ns_KubeProxyVersion = ki_KubeProxyVersion (kn_Info n), ns_IsControlPlaneNode = checkIfNodeIsControlPlane (km_Labels (kn_meta n)),
       ns_Conditions = formatNodeConditions (kn_Conditions n), ns_Taints = formatNodeTaints (kn_Taints n), ns_Unschedulable = kn_Unschedulable n,
       ns_Addresses = kn_Addresses n, ns_ProviderID = kn_ProviderID n, ns_NodeInfo = formatNodeInfo (kn_Info n)\<rparr>)"

section \<open>Ingresses\<close>

record IngressBackendSummary =
  ib_ServiceName :: string
  ib_ServicePort :: string
  ib_API :: string
  ib_Kind :: string
  ib_Name :: string

text \<open>A backend is a service with the name or number of its port, a resource with group, kind and name, both or none.\<close>

record k8s_backend =
  kb_Service :: "(string \<times> string \<times> int) option"
  kb_Resource :: "(string option \<times> string \<times> string) option"

record IngressPathSummary =
  ip_Path :: string
  ip_PathType :: string
  ip_Backend :: IngressBackendSummary

record k8s_ingress_path =
  kh_Path :: string
  kh_PathType :: "string option"
  kh_Backend :: k8s_backend

record IngressRuleSummary =
  ir_Host :: string
  ir_Paths :: "IngressPathSummary list"

record k8s_ingress_rule =
  kr_Host :: string
  kr_HTTP :: "k8s_ingress_path list option"

record IngressLoadBalancerEntry =
  il_IP :: string
  il_Hostname :: string

record k8s_load_balancer = IngressLoadBalancerEntry +
  kl_IPMode :: "string option"

record k8s_ingress =
  kg_meta :: k8s_meta
  kg_APIVersion :: string
  kg_IngressClassName :: "string option"
  kg_Rules :: "k8s_ingress_rule list"
  kg_TLS :: "(string list \<times> string) list"
  kg_DefaultBackend :: "k8s_backend option"
  kg_LoadBalancer :: "k8s_load_balancer list"

record Ingress =
  in_meta :: k8s_meta
  in_APIVersion :: string
  in_IngressClassName :: "string option"
  in_Rules :: "IngressRuleSummary list"
  in_TLS :: "(string list \<times> string) list"
  in_DefaultBackend :: "IngressBackendSummary option"
  in_LoadBalancer :: "IngressLoadBalancerEntry list"

definition serviceBackendPortString :: "string \<Rightarrow> int \<Rightarrow> string" where
  "serviceBackendPortString name number = (if name \<noteq> '''' then name else if number \<noteq> 0 then showInt number else '''')"

definition formatIngressBackend :: "k8s_backend \<Rightarrow> IngressBackendSummary" where
  "formatIngressBackend b =
     (let (service, port) = (case kb_Service b of None \<Rightarrow> ('''', '''') | Some (s, name, number) \<Rightarrow> (s, serviceBackendPortString name number));
          (api, kind, name) = (case kb_Resource b of None \<Rightarrow> ('''', '''', '''')
            | Some (g, k, n) \<Rightarrow> (case g of None \<Rightarrow> '''' | Some x \<Rightarrow> x, k, n)) in
      \<lparr>ib_ServiceName = service, ib_ServicePort = port, ib_API = api, ib_Kind = kind, ib_Name = name\<rparr>)"

definition formatIngressPath :: "k8s_ingress_path \<Rightarrow> IngressPathSummary" where
  "formatIngressPath p = \<lparr>ip_Path = kh_Path p, ip_PathType = (case kh_PathType p of None \<Rightarrow> '''' | Some t \<Rightarrow> t),
     ip_Backend = formatIngressBackend (kh_Backend p)\<rparr>"

definition formatIngressRules :: "k8s_ingress_rule list \<Rightarrow> IngressRuleSummary list" where
  "formatIngressRules rules =
     map (\<lambda>r. \<lparr>ir_Host = kr_Host r, ir_Paths = (case kr_HTTP r of None \<Rightarrow> [] | Some ps \<Rightarrow> map formatIngressPath ps)\<rparr>) rules"

definition formatLoadBalancer :: "k8s_load_balancer list \<Rightarrow> IngressLoadBalancerEntry list" where
  "formatLoadBalancer entries = map (\<lambda>e. \<lparr>il_IP = il_IP e, il_Hostname = il_Hostname e\<rparr>) entries"

definition resolveIngressAPIVersion :: "k8s_ingress \<Rightarrow> string" where
  "resolveIngressAPIVersion i = (if kg_APIVersion i \<noteq> '''' then kg_APIVersion i else ''networking.k8s.io/v1'')"

definition formatIngress :: "k8s_ingress \<Rightarrow> Ingress" where
  "formatIngress i = \<lparr>in_meta = kg_meta i, in_APIVersion = resolveIngressAPIVersion i, in_IngressClassName = kg_IngressClassName i,
     in_Rules = formatIngressRules (kg_Rules i), in_TLS = kg_TLS i, in_DefaultBackend = map_option formatIngressBackend (kg_DefaultBackend i),
     in_LoadBalancer = formatLoadBalancer (kg_LoadBalancer i)\<rparr>"

section \<open>Services\<close>

datatype int_or_string = IntVal int | StrVal string

record ServicePortSummary =
  sp_Name :: string
  sp_Protocol :: string
  sp_Port :: int
  sp_TargetPort :: string
  sp_NodePort :: int

record k8s_service_port =
  kq_Name :: string
  kq_Protocol :: string
  kq_Port :: int
  kq_TargetPort :: int_or_string
  kq_NodePort :: int

record k8s_service_spec =
  kz_Type :: string
  kz_ClusterIP :: string
  kz_ClusterIPs :: "string list"
  kz_ExternalName :: string
  kz_ExternalIPs :: "string list"
  kz_Selector :: "(string \<times> string) list"

record k8s_service =
  kx_meta :: k8s_meta
  kx_APIVersion :: string
  kx_Spec :: k8s_service_spec
  kx_Ports :: "k8s_service_port list"
  kx_LoadBalancer :: "k8s_load_balancer list"

record wk_Service =
  sv_meta :: k8s_meta
  sv_APIVersion :: string
  sv_Spec :: k8s_service_spec
  sv_Ports :: "ServicePortSummary list"
  sv_LoadBalancer :: "IngressLoadBalancerEntry list"

definition resolveCoreAPIVersion :: "string \<Rightarrow> string" where
  "resolveCoreAPIVersion apiVersion = (if apiVersion \<noteq> '''' then apiVersion else ''v1'')"

definition intOrStringString :: "int_or_string \<Rightarrow> string" where
  "intOrStringString v = (case v of StrVal s \<Rightarrow> s | IntVal n \<Rightarrow> if n = 0 then '''' else showInt n)"

definition formatServicePorts :: "k8s_service_port list \<Rightarrow> ServicePortSummary list" where
  "formatServicePorts ports = map (\<lambda>p. \<lparr>sp_Name = kq_Name p, sp_Protocol = kq_Protocol p, sp_Port = kq_Port p,
     sp_TargetPort = intOrStringString (kq_TargetPort p), sp_NodePort = kq_NodePort p\<rparr>) ports"

definition formatService :: "k8s_service \<Rightarrow> wk_Service" where
  "formatService s = \<lparr>sv_meta = kx_meta s, sv_APIVersion = resolveCoreAPIVersion (kx_APIVersion s), sv_Spec = kx_Spec s,
     sv_Ports = formatServicePorts (kx_Ports s), sv_LoadBalancer = formatLoadBalancer (kx_LoadBalancer s)\<rparr>"

section \<open>Volume claims\<close>

record k8s_claim =
  ky_meta :: k8s_meta
  ky_APIVersion :: string
  ky_StorageClassName :: "string option"
  ky_AccessModes :: "string list"
  ky_VolumeMode :: "string option"
  ky_VolumeName :: string
  ky_Requests :: resource_list
  ky_Capacity :: resource_list
  ky_Phase :: string

record PersistentVolumeClaim =
  pc_meta :: k8s_meta
  pc_APIVersion :: string
  pc_StorageClassName :: "string option"
  pc_AccessModes :: "string list"
  pc_VolumeMode :: string
  pc_VolumeName :: string
  pc_RequestStorage :: string
  pc_CapacityStorage :: string
  pc_Phase :: string

definition formatPersistentVolumeClaim :: "printer \<Rightarrow> k8s_claim \<Rightarrow> PersistentVolumeClaim" where
  "formatPersistentVolumeClaim show c = \<lparr>pc_meta = ky_meta c, pc_APIVersion = resolveCoreAPIVersion (ky_APIVersion c),
     pc_StorageClassName = ky_StorageClassName c, pc_AccessModes = ky_AccessModes c, pc_VolumeMode = (case ky_VolumeMode c of None \<Rightarrow> '''' | Some m \<Rightarrow> m),
     pc_VolumeName = ky_VolumeName c, pc_RequestStorage = resourceQuantityString show (ky_Requests c) ''storage'',
     pc_CapacityStorage = resourceQuantityString show (ky_Capacity c) ''storage'', pc_Phase = ky_Phase c\<rparr>"

section \<open>Namespaces\<close>

record NamespaceCounts =
  nn_Name :: string
  nn_ResourceQuotaCount :: nat
  nn_LimitRangeCount :: nat
  nn_NetworkPolicyCount :: nat
  nn_PodCount :: nat
  nn_ServiceCount :: nat
  nn_IngressCount :: nat

definition countIn :: "string list \<Rightarrow> string \<Rightarrow> nat" where
  "countIn namespaces ns = length (filter (\<lambda>n. n = ns) namespaces)"

text \<open>A list that cannot be read leaves its counter at zero.\<close>

definition countListed :: "string + string list \<Rightarrow> string \<Rightarrow> nat" where
  "countListed answer ns = (case answer of Inl _ \<Rightarrow> 0 | Inr namespaces \<Rightarrow> countIn namespaces ns)"

definition collectNamespaceCounts :: "string + string list \<Rightarrow> string + string list \<Rightarrow> string + string list \<Rightarrow> string list \<Rightarrow> k8s_pod list \<Rightarrow>
    wk_Service list \<Rightarrow> Ingress list \<Rightarrow> NamespaceCounts list" where
  "collectNamespaceCounts quotas limitRanges policies namespaces pods services ingresses =
     map (\<lambda>ns. \<lparr>nn_Name = ns, nn_ResourceQuotaCount = countListed quotas ns, nn_LimitRangeCount = countListed limitRanges ns,
         nn_NetworkPolicyCount = countListed policies ns, nn_PodCount = countIn (map (\<lambda>p. km_Namespace (kp_meta p)) pods) ns,
         nn_ServiceCount = countIn (map (\<lambda>s. km_Namespace (sv_meta s)) services) ns,
         nn_IngressCount = countIn (map (\<lambda>i. km_Namespace (in_meta i)) ingresses) ns\<rparr>) namespaces"

end
