(* ===== verification/Work_Images.thy ===== *)
theory Work_Images
  imports Work_Format "HOL-Library.AList" "HOL-Library.Multiset"
begin

text \<open>
  The workloads report: the images of the cluster with their owners, from the pods of controllers, from pods without a controller and from the pods of
  jobs. The cluster's lists are arguments; the images stand in maps by key, the order of which the final sorting removes.
\<close>

section \<open>Images and owners\<close>

record OwnerResult =
  ow_Namespace :: string
  ow_Kind :: string
  ow_Name :: string
  ow_Container :: string
  ow_Labels :: "(string \<times> string) list"
  ow_Annotations :: "(string \<times> string) list"
  ow_PodLabels :: "(string \<times> string) list"
  ow_PodAnnotations :: "(string \<times> string) list"

record ImageResult =
  iw_Name :: string
  iw_ID :: string
  iw_PullRef :: string
  iw_Owners :: "OwnerResult list"

definition ownerRef :: "string \<Rightarrow> string \<Rightarrow> string \<Rightarrow> OwnerResult" where
  "ownerRef ns kind name = \<lparr>ow_Namespace = ns, ow_Kind = kind, ow_Name = name, ow_Container = '''', ow_Labels = [], ow_Annotations = [],
     ow_PodLabels = [], ow_PodAnnotations = []\<rparr>"

definition podPhaseContributesImages :: "string \<Rightarrow> string \<Rightarrow> bool" where
  "podPhaseContributesImages phase ownerKind \<longleftrightarrow> phase = ''Running'' \<or> ownerKind = ''CronJob'' \<or> ownerKind = ''Job''"

definition ownerFromController :: "k8s_workload \<Rightarrow> OwnerResult" where
  "ownerFromController w = ownerRef (km_Namespace (kw_meta w)) (kw_Kind w) (km_Name (kw_meta w))"

definition ownerKey :: "OwnerResult \<Rightarrow> string" where
  "ownerKey o1 = ow_Namespace o1 @ ''/'' @ ow_Kind o1 @ ''/'' @ ow_Name o1 @ ''/'' @ ow_Container o1"

definition wk_podKey :: "string \<Rightarrow> string \<Rightarrow> string" where
  "wk_podKey ns name = ns @ ''/'' @ name"

definition keyOfPod :: "k8s_pod \<Rightarrow> string" where
  "keyOfPod pod = wk_podKey (km_Namespace (kp_meta pod)) (km_Name (kp_meta pod))"

text \<open>What has been found so far: the pods that were looked at, the images by key and their owners by key.\<close>

record found_images =
  fi_seen :: "string set"
  fi_images :: "(string \<times> ImageResult) list"
  fi_owners :: "string \<Rightarrow> (string \<times> OwnerResult) list"

definition noImages :: found_images where
  "noImages = \<lparr>fi_seen = {}, fi_images = [], fi_owners = (\<lambda>_. [])\<rparr>"

section \<open>Containers\<close>

definition wk_containerStatusesFromPod :: "k8s_pod \<Rightarrow> k8s_container_status list" where
  "wk_containerStatusesFromPod pod = kp_Statuses pod @ kp_InitStatuses pod @ kp_EphemeralStatuses pod"

definition containerSpecImage :: "k8s_pod \<Rightarrow> string \<Rightarrow> string" where
  "containerSpecImage pod name =
     (case find (\<lambda>c. kc_Name c = name) (kp_Containers pod @ kp_InitContainers pod @ kp_EphemeralContainers pod) of
        None \<Rightarrow> '''' | Some c \<Rightarrow> kc_Image c)"

definition statusWithPreferredImage :: "k8s_pod \<Rightarrow> k8s_container_status \<Rightarrow> k8s_container_status" where
  "statusWithPreferredImage pod s =
     (let img = containerSpecImage pod (ks_Name s) in if img \<noteq> '''' then s\<lparr>ks_Image := img\<rparr> else s)"

definition wk_dockerIOPrefix :: string where "wk_dockerIOPrefix = ''index.docker.io/''"

text \<open>Name, identifier and pull reference of the image of a container.\<close>

definition wk_imageOfStatus :: "k8s_container_status \<Rightarrow> string \<times> string \<times> string" where
  "wk_imageOfStatus s =
     (let imageID = TrimPrefix (ks_ImageID s) ''docker-pullable://'';
          imageName = (if HasPrefix (ks_Image s) ''sha256'' then imageID else ks_Image s);
          pullRef = (if imageID = '''' \<or> HasPrefix imageID ''sha256:'' then imageName else imageID) in
      (TrimPrefix imageName wk_dockerIOPrefix, TrimPrefix imageID wk_dockerIOPrefix, pullRef))"

definition wk_recordContainerImage :: "OwnerResult \<Rightarrow> k8s_container_status \<Rightarrow> found_images \<Rightarrow> found_images" where
  "wk_recordContainerImage owner s f =
     (case wk_imageOfStatus s of
        (imageName, imageID, pullRef) \<Rightarrow>
          if imageID = '''' then f
          else let key = imageName @ ''/'' @ imageID; o1 = owner\<lparr>ow_Container := ks_Name s\<rparr> in
            f\<lparr>fi_owners := (fi_owners f)(key := AList.update (ownerKey o1) o1 (fi_owners f key)),
              fi_images := (if map_of (fi_images f) key \<noteq> None then fi_images f
                else fi_images f @ [(key, \<lparr>iw_Name = imageName, iw_ID = imageID, iw_PullRef = pullRef, iw_Owners = []\<rparr>)])\<rparr>)"

definition wk_recordPod :: "OwnerResult \<Rightarrow> k8s_pod \<Rightarrow> found_images \<Rightarrow> found_images" where
  "wk_recordPod owner pod f =
     fold (\<lambda>s. wk_recordContainerImage owner (statusWithPreferredImage pod s)) (wk_containerStatusesFromPod pod)
       (f\<lparr>fi_seen := insert (keyOfPod pod) (fi_seen f)\<rparr>)"

section \<open>Pods\<close>

definition recordLivePod :: "OwnerResult \<Rightarrow> live_pod \<Rightarrow> found_images \<Rightarrow> found_images" where
  "recordLivePod owner lp f =
     (case lp_pod lp of
        None \<Rightarrow> f
      | Some pod \<Rightarrow> if podPhaseContributesImages (kp_Phase pod) (ow_Kind owner) then wk_recordPod owner pod f else f)"

definition recordControllerPods :: "k8s_workload list \<Rightarrow> found_images" where
  "recordControllerPods controllers = fold (\<lambda>w. fold (recordLivePod (ownerFromController w)) (kw_Pods w)) controllers noImages"

definition wk_hasControllerOwner :: "k8s_owner list \<Rightarrow> bool" where
  "wk_hasControllerOwner owners \<longleftrightarrow> list_ex (\<lambda>o1. ko_Controller o1 = Some True) owners"

definition ownerFromPod :: "k8s_pod \<Rightarrow> OwnerResult" where
  "ownerFromPod pod = (let m = kp_meta pod in
     (ownerRef (km_Namespace m) ''Pod'' (km_Name m))\<lparr>ow_Labels := km_Labels m, ow_Annotations := km_Annotations m, ow_PodLabels := km_Labels m,
       ow_PodAnnotations := km_Annotations m\<rparr>)"

definition wk_recordOrphan :: "k8s_pod \<Rightarrow> found_images \<Rightarrow> found_images" where
  "wk_recordOrphan pod f =
     (if keyOfPod pod \<in> fi_seen f \<or> wk_hasControllerOwner (km_Owners (kp_meta pod)) then f else wk_recordPod (ownerFromPod pod) pod f)"

text \<open>\<open>running\<close> lists the running pods of a namespace. A failed list ends the search.\<close>

fun wk_recordOrphanPods :: "(string \<Rightarrow> string + k8s_pod list) \<Rightarrow> string list \<Rightarrow> found_images \<Rightarrow> string + found_images" where
  "wk_recordOrphanPods running [] f = Inr f"
| "wk_recordOrphanPods running (ns # nss) f =
     (case running ns of
        Inl err \<Rightarrow> Inl (''listing pods in namespace '' @ ns @ '': '' @ err)
      | Inr pods \<Rightarrow> wk_recordOrphanPods running nss (fold wk_recordOrphan pods f))"

text \<open>A job with its selector as text, if it has a valid one, and the labels and annotations of its template.\<close>

record k8s_job =
  kj_meta :: k8s_meta
  kj_Selector :: "string option"
  kj_PodLabels :: "(string \<times> string) list"
  kj_PodAnnotations :: "(string \<times> string) list"

definition cronJobOwnerRef :: "k8s_owner list \<Rightarrow> k8s_owner option" where
  "cronJobOwnerRef owners = find (\<lambda>o1. ko_Kind o1 = ''CronJob'') owners"

definition ownerFromJob :: "k8s_job \<Rightarrow> OwnerResult" where
  "ownerFromJob job =
     (let m = kj_meta job in
      case cronJobOwnerRef (km_Owners m) of
        Some ref \<Rightarrow> ownerRef (km_Namespace m) ''CronJob'' (ko_Name ref)
      | None \<Rightarrow> (ownerRef (km_Namespace m) ''Job'' (km_Name m))\<lparr>ow_Labels := km_Labels m, ow_Annotations := km_Annotations m,
          ow_PodLabels := kj_PodLabels job, ow_PodAnnotations := kj_PodAnnotations job\<rparr>)"

definition recordJobPod :: "OwnerResult \<Rightarrow> k8s_pod \<Rightarrow> found_images \<Rightarrow> found_images" where
  "recordJobPod owner pod f =
     (if \<not> podPhaseContributesImages (kp_Phase pod) (ow_Kind owner) \<or> keyOfPod pod \<in> fi_seen f then f else wk_recordPod owner pod f)"

fun wk_recordJobs :: "(string \<Rightarrow> string + k8s_pod list) \<Rightarrow> string \<Rightarrow> k8s_job list \<Rightarrow> found_images \<Rightarrow> string + found_images" where
  "wk_recordJobs selected ns [] f = Inr f"
| "wk_recordJobs selected ns (job # jobs) f =
     (case kj_Selector job of
        None \<Rightarrow> wk_recordJobs selected ns jobs f
      | Some selector \<Rightarrow>
          (case selected selector of
             Inl err \<Rightarrow> Inl (''listing job pods in namespace '' @ ns @ '': '' @ err)
           | Inr pods \<Rightarrow> wk_recordJobs selected ns jobs (fold (recordJobPod (ownerFromJob job)) pods f)))"

fun wk_recordJobPods :: "(string \<Rightarrow> string + k8s_job list) \<Rightarrow> (string \<Rightarrow> string \<Rightarrow> string + k8s_pod list) \<Rightarrow> string list \<Rightarrow> found_images \<Rightarrow>
    string + found_images" where
  "wk_recordJobPods jobsIn selected [] f = Inr f"
| "wk_recordJobPods jobsIn selected (ns # nss) f =
     (case jobsIn ns of
        Inl err \<Rightarrow> Inl (''listing jobs in namespace '' @ ns @ '': '' @ err)
      | Inr jobs \<Rightarrow>
          (case wk_recordJobs (selected ns) ns jobs f of
             Inl err \<Rightarrow> Inl err | Inr f' \<Rightarrow> wk_recordJobPods jobsIn selected nss f'))"

section \<open>The list\<close>

definition sortedOwners :: "(string \<times> OwnerResult) list \<Rightarrow> OwnerResult list" where
  "sortedOwners owners = sort_key (\<lambda>o1. (ow_Namespace o1, ow_Kind o1, ow_Name o1, ow_Container o1)) (map snd owners)"

definition finalizeImages :: "found_images \<Rightarrow> ImageResult list" where
  "finalizeImages f =
     sort_key (\<lambda>i. (iw_Name i, iw_ID i)) (map (\<lambda>(key, i). i\<lparr>iw_Owners := sortedOwners (fi_owners f key)\<rparr>) (fi_images f))"

record image_cluster =
  ic_Namespaces :: "string + string list"
  ic_Running :: "string \<Rightarrow> string + k8s_pod list"
  ic_Jobs :: "string \<Rightarrow> string + k8s_job list"
  ic_Selected :: "string \<Rightarrow> string \<Rightarrow> string + k8s_pod list"

definition wk_ListImages :: "image_cluster option \<Rightarrow> k8s_workload list \<Rightarrow> string + ImageResult list" where
  "wk_ListImages client controllers =
     (case client of
        None \<Rightarrow> Inl ''kubernetes client is required''
      | Some cl \<Rightarrow>
          let f0 = recordControllerPods controllers in
          (case ic_Namespaces cl of
             Inl err \<Rightarrow> Inl (''listing namespaces: '' @ err)
           | Inr namespaces \<Rightarrow>
          (case wk_recordOrphanPods (ic_Running cl) namespaces f0 of
             Inl err \<Rightarrow> Inl err
           | Inr f1 \<Rightarrow>
          (case wk_recordJobPods (ic_Jobs cl) (ic_Selected cl) namespaces f1 of
             Inl err \<Rightarrow> Inl err
           | Inr f2 \<Rightarrow> Inr (finalizeImages f2)))))"

section \<open>What is found\<close>

text \<open>Every image stands under its own key and has an owner, every owner under its own key.\<close>

definition wk_imageKey :: "ImageResult \<Rightarrow> string" where
  "wk_imageKey i = iw_Name i @ ''/'' @ iw_ID i"

definition images_ok :: "found_images \<Rightarrow> bool" where
  "images_ok f \<longleftrightarrow> distinct (map fst (fi_images f)) \<and>
     (\<forall>(key, i) \<in> set (fi_images f). key = wk_imageKey i \<and> iw_ID i \<noteq> '''' \<and> fi_owners f key \<noteq> []) \<and>
     (\<forall>key. distinct (map fst (fi_owners f key)) \<and> (\<forall>(k, o1) \<in> set (fi_owners f key). k = ownerKey o1))"

definition listed :: "found_images \<Rightarrow> string \<Rightarrow> string \<Rightarrow> bool" where
  "listed f key owner \<longleftrightarrow> map_of (fi_images f) key \<noteq> None \<and> map_of (fi_owners f key) owner \<noteq> None"

definition keeps :: "(found_images \<Rightarrow> found_images) \<Rightarrow> bool" where
  "keeps g \<longleftrightarrow> (\<forall>f. images_ok f \<longrightarrow> images_ok (g f) \<and> (\<forall>key owner. listed f key owner \<longrightarrow> listed (g f) key owner))"

lemma keepsD: "keeps g \<Longrightarrow> images_ok f \<Longrightarrow> images_ok (g f)" "keeps g \<Longrightarrow> images_ok f \<Longrightarrow> listed f key owner \<Longrightarrow> listed (g f) key owner"
  by (simp_all add: keeps_def)

lemma keeps_comp: "keeps g \<Longrightarrow> keeps h \<Longrightarrow> keeps (\<lambda>f. g (h f))"
  by (simp add: keeps_def)

lemma keeps_fold: "(\<And>x. x \<in> set xs \<Longrightarrow> keeps (h x)) \<Longrightarrow> keeps (fold h xs)"
  by (induction xs) (auto simp: keeps_def)

lemma noImages_ok [simp]: "images_ok noImages"
  by (simp add: images_ok_def noImages_def)

lemma update_owner_keys: "\<forall>(k, o1) \<in> set os. k = ownerKey o1 \<Longrightarrow> (k, o1) \<in> set (AList.update (ownerKey o2) o2 os) \<Longrightarrow> k = ownerKey o1"
  by (induction os) (auto split: if_splits)

lemma update_not_Nil [simp]: "AList.update k v os \<noteq> []"
  by (cases os) auto

lemma owners_update_ok:
  assumes "distinct (map fst os)" "\<forall>(k, o1) \<in> set os. k = ownerKey o1"
  shows "distinct (map fst (AList.update (ownerKey o2) o2 os))" "\<forall>(k, o1) \<in> set (AList.update (ownerKey o2) o2 os). k = ownerKey o1"
proof -
  show "distinct (map fst (AList.update (ownerKey o2) o2 os))" using assms(1) by (rule distinct_update)
  show "\<forall>(k, o1) \<in> set (AList.update (ownerKey o2) o2 os). k = ownerKey o1" using update_owner_keys [OF assms(2)] by blast
qed

lemma images_ok_add:
  assumes "images_ok f" "imageID \<noteq> ''''" "key = imageName @ ''/'' @ imageID"
  shows "images_ok (f\<lparr>fi_owners := (fi_owners f)(key := AList.update (ownerKey o2) o2 (fi_owners f key)),
    fi_images := (if map_of (fi_images f) key \<noteq> None then fi_images f
      else fi_images f @ [(key, \<lparr>iw_Name = imageName, iw_ID = imageID, iw_PullRef = pullRef, iw_Owners = []\<rparr>)])\<rparr>)" (is "images_ok ?g")
proof -
  have old: "distinct (map fst (fi_images f))" "\<forall>(k, i) \<in> set (fi_images f). k = wk_imageKey i \<and> iw_ID i \<noteq> '''' \<and> fi_owners f k \<noteq> []"
    "\<And>k. distinct (map fst (fi_owners f k))" "\<And>k. \<forall>(ok, o1) \<in> set (fi_owners f k). ok = ownerKey o1"
    using assms(1) by (simp_all add: images_ok_def)
  have owners: "distinct (map fst (fi_owners ?g k)) \<and> (\<forall>(ok, o1) \<in> set (fi_owners ?g k). ok = ownerKey o1)" for k
    using old(3,4) owners_update_ok [OF old(3,4)] by (cases "k = key") simp_all
  have some: "fi_owners f k \<noteq> [] \<Longrightarrow> fi_owners ?g k \<noteq> []" "fi_owners ?g key \<noteq> []" for k by simp_all
  have "\<forall>(k, i) \<in> set (fi_images ?g). k = wk_imageKey i \<and> iw_ID i \<noteq> '''' \<and> fi_owners ?g k \<noteq> []"
  proof (cases "map_of (fi_images f) key = None")
    case True
    then have "set (fi_images ?g) = insert (key, \<lparr>iw_Name = imageName, iw_ID = imageID, iw_PullRef = pullRef, iw_Owners = []\<rparr>) (set (fi_images f))" by auto
    then show ?thesis using old(2) some assms(2,3) by (auto simp del: fun_upd_apply simp: wk_imageKey_def)
  next
    case False
    then have "fi_images ?g = fi_images f" by simp
    then show ?thesis using old(2) some by (auto simp del: fun_upd_apply)
  qed
  moreover have "distinct (map fst (fi_images ?g))" using old(1) by (simp add: map_of_eq_None_iff)
  ultimately show ?thesis unfolding images_ok_def using owners by blast
qed

lemma wk_recordContainerImage_ok:
  assumes "images_ok f"
  shows "images_ok (wk_recordContainerImage owner s f)"
proof -
  obtain imageName imageID pullRef where "wk_imageOfStatus s = (imageName, imageID, pullRef)" by (cases "wk_imageOfStatus s")
  then show ?thesis using assms images_ok_add by (simp add: wk_recordContainerImage_def Let_def del: append_Cons)
qed

lemma recordContainerImage_keeps [simp]: "keeps (wk_recordContainerImage owner s)"
  using wk_recordContainerImage_ok
  by (auto simp: keeps_def listed_def wk_recordContainerImage_def Let_def map_add_def update_conv' simp del: append_Cons split: prod.splits option.splits)

lemma recordContainerImage_listed:
  "wk_imageOfStatus s = (imageName, imageID, pullRef) \<Longrightarrow> imageID \<noteq> '''' \<Longrightarrow>
     listed (wk_recordContainerImage owner s f) (imageName @ ''/'' @ imageID) (ownerKey (owner\<lparr>ow_Container := ks_Name s\<rparr>))"
  by (auto simp: listed_def wk_recordContainerImage_def Let_def map_add_def update_conv' simp del: append_Cons split: option.splits)

lemma recordPod_keeps [simp]: "keeps (wk_recordPod owner pod)"
proof -
  have "keeps (\<lambda>f. f\<lparr>fi_seen := insert (keyOfPod pod) (fi_seen f)\<rparr>)" by (simp add: keeps_def images_ok_def listed_def)
  moreover have "keeps (fold (\<lambda>s. wk_recordContainerImage owner (statusWithPreferredImage pod s)) (wk_containerStatusesFromPod pod))"
    by (rule keeps_fold) simp
  ultimately show ?thesis by (auto simp: keeps_def wk_recordPod_def)
qed

lemma recordPod_listed:
  assumes "images_ok f" "s \<in> set (wk_containerStatusesFromPod pod)"
    and "wk_imageOfStatus (statusWithPreferredImage pod s) = (imageName, imageID, pullRef)" "imageID \<noteq> ''''"
  shows "listed (wk_recordPod owner pod f) (imageName @ ''/'' @ imageID) (ownerKey (owner\<lparr>ow_Container := ks_Name s\<rparr>))"
proof -
  let ?step = "\<lambda>s. wk_recordContainerImage owner (statusWithPreferredImage pod s)" and ?f = "f\<lparr>fi_seen := insert (keyOfPod pod) (fi_seen f)\<rparr>"
  obtain before after where split: "wk_containerStatusesFromPod pod = before @ s # after" using assms(2) split_list by metis
  have "images_ok ?f" using assms(1) by (simp add: images_ok_def)
  moreover have "keeps (fold ?step before)" by (rule keeps_fold) simp
  ultimately have ok: "images_ok (fold ?step before ?f)" by (rule keepsD(1) [rotated])
  have name: "ks_Name (statusWithPreferredImage pod s) = ks_Name s" by (simp add: statusWithPreferredImage_def Let_def)
  have l: "listed (?step s (fold ?step before ?f)) (imageName @ ''/'' @ imageID) (ownerKey (owner\<lparr>ow_Container := ks_Name s\<rparr>))"
    using recordContainerImage_listed [OF assms(3,4)] by (simp only: name)
  have k: "keeps (fold ?step after)" by (rule keeps_fold) simp
  have "wk_recordPod owner pod f = fold ?step after (?step s (fold ?step before ?f))" by (simp add: wk_recordPod_def split)
  then show ?thesis using keepsD(2) [OF k wk_recordContainerImage_ok [OF ok] l] by (simp only:)
qed

lemma keeps_if [simp]: "keeps g \<Longrightarrow> keeps (\<lambda>f. if P f then f else g f)" "keeps g \<Longrightarrow> keeps (\<lambda>f. if P f then g f else f)"
  by (simp_all add: keeps_def)

lemma record_one_keeps [simp]:
  "keeps (recordLivePod owner lp)" "keeps (wk_recordOrphan pod)" "keeps (recordJobPod owner pod)"
proof -
  have e: "wk_recordOrphan pod = (\<lambda>f. if keyOfPod pod \<in> fi_seen f \<or> wk_hasControllerOwner (km_Owners (kp_meta pod)) then f else wk_recordPod (ownerFromPod pod) pod f)"
    "recordJobPod owner pod = (\<lambda>f. if \<not> podPhaseContributesImages (kp_Phase pod) (ow_Kind owner) \<or> keyOfPod pod \<in> fi_seen f then f else wk_recordPod owner pod f)"
    by (auto simp: wk_recordOrphan_def recordJobPod_def)
  show "keeps (wk_recordOrphan pod)" "keeps (recordJobPod owner pod)" unfolding e by simp_all
  show "keeps (recordLivePod owner lp)" using recordPod_keeps unfolding keeps_def recordLivePod_def by (auto split: option.splits)
qed

lemma recordOrphanPods_keeps: "wk_recordOrphanPods running nss f = Inr f' \<Longrightarrow> images_ok f \<Longrightarrow> images_ok f' \<and> (\<forall>k o1. listed f k o1 \<longrightarrow> listed f' k o1)"
proof (induction running nss f rule: wk_recordOrphanPods.induct)
  case (2 running ns nss f)
  then obtain pods where p: "running ns = Inr pods" by (auto split: sum.splits)
  have "keeps (fold wk_recordOrphan pods)" by (rule keeps_fold) simp
  then show ?case using 2 p by (simp add: keeps_def)
qed simp

lemma recordJobs_keeps: "wk_recordJobs selected ns jobs f = Inr f' \<Longrightarrow> images_ok f \<Longrightarrow> images_ok f' \<and> (\<forall>k o1. listed f k o1 \<longrightarrow> listed f' k o1)"
proof (induction selected ns jobs f rule: wk_recordJobs.induct)
  case (2 selected ns job jobs f)
  have "keeps (fold (recordJobPod (ownerFromJob job)) pods)" for pods by (rule keeps_fold) simp
  then show ?case using 2 by (auto simp: keeps_def split: option.splits sum.splits)
qed simp

lemma recordJobPods_keeps: "wk_recordJobPods jobsIn selected nss f = Inr f' \<Longrightarrow> images_ok f \<Longrightarrow> images_ok f' \<and> (\<forall>k o1. listed f k o1 \<longrightarrow> listed f' k o1)"
proof (induction jobsIn selected nss f rule: wk_recordJobPods.induct)
  case (2 jobsIn selected ns nss f)
  then obtain jobs f1 where j: "jobsIn ns = Inr jobs" and f1: "wk_recordJobs (selected ns) ns jobs f = Inr f1" by (auto split: sum.splits)
  show ?case using 2 j f1 recordJobs_keeps [OF f1] by simp
qed simp

lemma recordController_keeps: "keeps (fold (\<lambda>w. fold (recordLivePod (ownerFromController w)) (kw_Pods w)) controllers)"
  by (intro keeps_fold) simp

text \<open>A container of a controller's pod is listed after the controllers, if its phase contributes.\<close>

lemma recordControllerPods_listed:
  assumes "w \<in> set controllers" "lp \<in> set (kw_Pods w)" "lp_pod lp = Some pod" "podPhaseContributesImages (kp_Phase pod) (kw_Kind w)"
    and "s \<in> set (wk_containerStatusesFromPod pod)" "wk_imageOfStatus (statusWithPreferredImage pod s) = (imageName, imageID, pullRef)" "imageID \<noteq> ''''"
  shows "listed (recordControllerPods controllers) (imageName @ ''/'' @ imageID) (ownerKey ((ownerFromController w)\<lparr>ow_Container := ks_Name s\<rparr>))"
proof -
  let ?all = "fold (\<lambda>w. fold (recordLivePod (ownerFromController w)) (kw_Pods w))" and ?pods = "fold (recordLivePod (ownerFromController w))"
  obtain ws ws' where w: "controllers = ws @ w # ws'" using assms(1) split_list by metis
  obtain ps ps' where p: "kw_Pods w = ps @ lp # ps'" using assms(2) split_list by metis
  have ok: "images_ok (?pods ps (?all ws noImages))"
    by (rule keepsD(1) [OF keeps_fold keepsD(1) [OF recordController_keeps noImages_ok]]) simp
  have "recordLivePod (ownerFromController w) lp f = wk_recordPod (ownerFromController w) pod f" for f
    using assms(3,4) by (simp add: recordLivePod_def ownerFromController_def ownerRef_def)
  then have l: "listed (recordLivePod (ownerFromController w) lp (?pods ps (?all ws noImages))) (imageName @ ''/'' @ imageID)
      (ownerKey ((ownerFromController w)\<lparr>ow_Container := ks_Name s\<rparr>))"
    using recordPod_listed [OF ok assms(5-7)] by (simp only:)
  have k: "keeps (\<lambda>f. ?all ws' (?pods ps' f))"
    by (rule keeps_comp [OF recordController_keeps]) (rule keeps_fold, simp)
  have "recordControllerPods controllers = ?all ws' (?pods ps' (recordLivePod (ownerFromController w) lp (?pods ps (?all ws noImages))))"
    by (simp add: recordControllerPods_def w p)
  then show ?thesis using keepsD(2) [OF k keepsD(1) [OF record_one_keeps(1) ok] l] by (simp only:)
qed

lemma mset_map_sort_key: "mset (map g (sort_key k xs)) = mset (map g xs)"
  by simp

lemma finalizeImages_in:
  "i \<in> set (finalizeImages f) \<longleftrightarrow> (\<exists>(key, j) \<in> set (fi_images f). i = j\<lparr>iw_Owners := sortedOwners (fi_owners f key)\<rparr>)"
  by (auto simp: finalizeImages_def)

lemma finalizeImages_keys:
  assumes "images_ok f"
  shows "distinct (map wk_imageKey (finalizeImages f))"
proof -
  have "map (\<lambda>(key, i). wk_imageKey (i\<lparr>iw_Owners := sortedOwners (fi_owners f key)\<rparr>)) (fi_images f) = map fst (fi_images f)"
    using assms by (auto simp: images_ok_def wk_imageKey_def)
  then have "mset (map wk_imageKey (finalizeImages f)) = mset (map fst (fi_images f))"
    unfolding finalizeImages_def mset_map_sort_key map_map comp_def case_prod_unfold by (rule arg_cong)
  then show ?thesis using assms by (metis images_ok_def mset_eq_imp_distinct_iff)
qed

lemma sortedOwners_keys:
  assumes "distinct (map fst os)" "\<forall>(k, o1) \<in> set os. k = ownerKey o1"
  shows "distinct (map ownerKey (sortedOwners os))"
proof -
  have "map ownerKey (map snd os) = map fst os" using assms(2) by auto
  then have "mset (map ownerKey (sortedOwners os)) = mset (map fst os)"
    unfolding sortedOwners_def mset_map_sort_key by (rule arg_cong)
  then show ?thesis using assms(1) by (metis mset_eq_imp_distinct_iff)
qed

lemma finalizeImages_ok:
  assumes "images_ok f" "i \<in> set (finalizeImages f)"
  shows "iw_ID i \<noteq> '''' \<and> iw_Owners i \<noteq> [] \<and> distinct (map ownerKey (iw_Owners i))"
proof -
  obtain key j where j: "(key, j) \<in> set (fi_images f)" "i = j\<lparr>iw_Owners := sortedOwners (fi_owners f key)\<rparr>"
    using assms(2) by (auto simp: finalizeImages_in)
  have "iw_ID j \<noteq> ''''" "fi_owners f key \<noteq> []" using assms(1) j(1) by (auto simp: images_ok_def)
  moreover have "distinct (map ownerKey (sortedOwners (fi_owners f key)))" by (rule sortedOwners_keys) (use assms(1) in \<open>simp_all add: images_ok_def\<close>)
  moreover have "length (sortedOwners (fi_owners f key)) = length (fi_owners f key)" by (simp add: sortedOwners_def)
  ultimately show ?thesis using j(2) by (cases "sortedOwners (fi_owners f key)") auto
qed

lemma finalizeImages_listed:
  assumes "images_ok f" "listed f key owner"
  shows "\<exists>i \<in> set (finalizeImages f). wk_imageKey i = key \<and> (\<exists>o1 \<in> set (iw_Owners i). ownerKey o1 = owner)"
proof -
  obtain j where j: "(key, j) \<in> set (fi_images f)" using assms(2) by (auto simp: listed_def dest: map_of_SomeD)
  obtain o1 where o1: "(owner, o1) \<in> set (fi_owners f key)" using assms(2) by (auto simp: listed_def dest: map_of_SomeD)
  have "wk_imageKey j = key" "ownerKey o1 = owner" using assms(1) j o1 by (auto simp: images_ok_def)
  then show ?thesis using j o1 by (intro bexI [of _ "j\<lparr>iw_Owners := sortedOwners (fi_owners f key)\<rparr>"])
    (auto simp: finalizeImages_in wk_imageKey_def sortedOwners_def image_iff intro!: bexI [of _ "(owner, o1)"])
qed

text \<open>
  C23: The list of images is sorted and has every image once, each with an identifier and with owners that are all different. Every container of every
  running pod of a controller, and of every pod of its jobs, whose image has an identifier is an owner of that image.
\<close>
theorem image_inventory:
  assumes "wk_ListImages (Some cluster) controllers = Inr images"
  shows "sorted (map (\<lambda>i. (iw_Name i, iw_ID i)) images) \<and> distinct (map wk_imageKey images) \<and>
    (\<forall>i \<in> set images. iw_ID i \<noteq> '''' \<and> iw_Owners i \<noteq> [] \<and> distinct (map ownerKey (iw_Owners i))) \<and>
    (\<forall>w \<in> set controllers. \<forall>lp \<in> set (kw_Pods w). \<forall>pod s imageName imageID pullRef.
       lp_pod lp = Some pod \<longrightarrow> podPhaseContributesImages (kp_Phase pod) (kw_Kind w) \<longrightarrow> s \<in> set (wk_containerStatusesFromPod pod) \<longrightarrow>
       wk_imageOfStatus (statusWithPreferredImage pod s) = (imageName, imageID, pullRef) \<longrightarrow> imageID \<noteq> '''' \<longrightarrow>
       (\<exists>i \<in> set images. wk_imageKey i = imageName @ ''/'' @ imageID \<and>
          (\<exists>o1 \<in> set (iw_Owners i). ownerKey o1 = ownerKey ((ownerFromController w)\<lparr>ow_Container := ks_Name s\<rparr>))))"
proof -
  obtain namespaces f1 f2 where o1: "wk_recordOrphanPods (ic_Running cluster) namespaces (recordControllerPods controllers) = Inr f1"
    and j: "wk_recordJobPods (ic_Jobs cluster) (ic_Selected cluster) namespaces f1 = Inr f2" and i: "images = finalizeImages f2"
    using assms by (auto simp: wk_ListImages_def split: sum.splits)
  have ok0: "images_ok (recordControllerPods controllers)"
    unfolding recordControllerPods_def by (rule keepsD(1) [OF recordController_keeps noImages_ok])
  then have ok2: "images_ok f2" and l2: "\<And>k ow. listed (recordControllerPods controllers) k ow \<Longrightarrow> listed f2 k ow"
    using recordOrphanPods_keeps [OF o1] recordJobPods_keeps [OF j] by blast+
  have "sorted (map (\<lambda>i. (iw_Name i, iw_ID i)) images)" by (simp add: i finalizeImages_def)
  moreover have "distinct (map wk_imageKey images)" using finalizeImages_keys [OF ok2] by (simp add: i)
  moreover have "\<forall>i \<in> set images. iw_ID i \<noteq> '''' \<and> iw_Owners i \<noteq> [] \<and> distinct (map ownerKey (iw_Owners i))"
    using finalizeImages_ok [OF ok2] by (simp add: i)
  moreover have "\<exists>i \<in> set images. wk_imageKey i = imageName @ ''/'' @ imageID \<and>
      (\<exists>o1 \<in> set (iw_Owners i). ownerKey o1 = ownerKey ((ownerFromController w)\<lparr>ow_Container := ks_Name s\<rparr>))"
    if "w \<in> set controllers" "lp \<in> set (kw_Pods w)" "lp_pod lp = Some pod" "podPhaseContributesImages (kp_Phase pod) (kw_Kind w)"
      "s \<in> set (wk_containerStatusesFromPod pod)" "wk_imageOfStatus (statusWithPreferredImage pod s) = (imageName, imageID, pullRef)" "imageID \<noteq> ''''"
    for w lp pod s imageName imageID pullRef
    unfolding i by (rule finalizeImages_listed [OF ok2 l2 [OF recordControllerPods_listed [OF that]]])
  ultimately show ?thesis by blast
qed

text \<open>A deployment with one running pod, whose container has a tag cut off in its status.\<close>

definition demo_meta :: "string \<Rightarrow> k8s_meta" where
  "demo_meta name = \<lparr>km_Namespace = ''shop'', km_Name = name, km_UID = name, km_Labels = [], km_Annotations = [], km_Owners = []\<rparr>"

definition demo_status :: k8s_container_status where
  "demo_status = \<lparr>ks_Name = ''main'', ks_Image = ''web:2'', ks_ImageID = ''docker-pullable://web@sha256:1'', ks_Resources = None\<rparr>"

definition demo_running :: k8s_pod where
  "demo_running = \<lparr>kp_meta = demo_meta ''web-1'', kp_NodeName = ''n1'', kp_Phase = ''Running'', kp_Conditions = [(''Ready'', ''True'')],
     kp_Containers = [\<lparr>kc_Name = ''main'', kc_Image = ''web:2.10'', kc_Resources = \<lparr>rq_Requests = [], rq_Limits = []\<rparr>\<rparr>],
     kp_InitContainers = [], kp_EphemeralContainers = [], kp_Statuses = [demo_status], kp_InitStatuses = [], kp_EphemeralStatuses = [], kp_Volumes = []\<rparr>"

definition demo_workload :: k8s_workload where
  "demo_workload = \<lparr>kw_Kind = ''Deployment'', kw_meta = demo_meta ''web'', kw_Created = 0, kw_PodSpec = None, kw_PodMetadata = None,
     kw_Pods = [\<lparr>lp_pod = Some demo_running, lp_volumes = None\<rparr>], kw_RunningPodCount = 1\<rparr>"

definition demo_images :: image_cluster where
  "demo_images = \<lparr>ic_Namespaces = Inr [''shop''], ic_Running = (\<lambda>_. Inr [demo_running]), ic_Jobs = (\<lambda>_. Inr []), ic_Selected = (\<lambda>_ _. Inr [])\<rparr>"

lemmas demo_images_defs = demo_images_def demo_workload_def demo_running_def demo_status_def demo_meta_def

lemma demo_inventory: "\<exists>images. wk_ListImages (Some demo_images) [demo_workload] = Inr images"
  by (simp add: wk_ListImages_def demo_images_def)

theorem image_inventory_witness:
  "\<exists>images. wk_ListImages (Some demo_images) [demo_workload] = Inr images \<and> (\<exists>i \<in> set images. wk_imageKey i = ''web:2.10/web@sha256:1'')"
proof -
  obtain images where l: "wk_ListImages (Some demo_images) [demo_workload] = Inr images" using demo_inventory by blast
  have s: "wk_imageOfStatus (statusWithPreferredImage demo_running demo_status) = (''web:2.10'', ''web@sha256:1'', ''web@sha256:1'')" by code_simp
  have "demo_status \<in> set (wk_containerStatusesFromPod demo_running)" by (simp add: wk_containerStatusesFromPod_def demo_images_defs)
  moreover have "\<lparr>lp_pod = Some demo_running, lp_volumes = None\<rparr> \<in> set (kw_Pods demo_workload)" by (simp add: demo_workload_def)
  moreover have "podPhaseContributesImages (kp_Phase demo_running) (kw_Kind demo_workload)" by (simp add: podPhaseContributesImages_def demo_images_defs)
  ultimately have "\<exists>i \<in> set images. wk_imageKey i = ''web:2.10'' @ ''/'' @ ''web@sha256:1''"
    using image_inventory [OF l] s by (metis (no_types, lifting) list.set_intros(1) live_pod.select_convs(1) list.distinct(1))
  then show ?thesis using l by simp
qed

end
