(* ===== verification/Work_Crds.thy ===== *)
theory Work_Crds
  imports Work_Resources Json_Value Go_Path
begin

text \<open>
  The workloads report: the optional inventories of Karpenter and of the Gateway API, read page by page as unstructured objects. An absent map, an absent
  slice and an empty one are the same in the report; a number stands for the text that Go prints for it, and one without a point or an exponent is an
  \<^verbatim>\<open>int64\<close> or a float of the same value.
\<close>

section \<open>Nested fields\<close>

fun nestedField :: "json_object \<Rightarrow> string list \<Rightarrow> json option" where
  "nestedField obj [] = Some (JObject obj)"
| "nestedField obj [key] = map_of obj key"
| "nestedField obj (key # keys) = (case map_of obj key of Some (JObject m) \<Rightarrow> nestedField m keys | _ \<Rightarrow> None)"

definition nestedMap :: "json_object \<Rightarrow> string list \<Rightarrow> json_object" where
  "nestedMap obj keys = (case nestedField obj keys of Some (JObject m) \<Rightarrow> m | _ \<Rightarrow> [])"

definition nestedSlice :: "json_object \<Rightarrow> string list \<Rightarrow> json list" where
  "nestedSlice obj keys = (case nestedField obj keys of Some (JArray xs) \<Rightarrow> xs | _ \<Rightarrow> [])"

definition nestedText :: "json_object \<Rightarrow> string list \<Rightarrow> string" where
  "nestedText obj keys = (case nestedField obj keys of Some (JString s) \<Rightarrow> s | _ \<Rightarrow> '''')"

text \<open>\<^verbatim>\<open>fmt.Sprint\<close>: the keys of a map are sorted.\<close>

fun joinSpace :: "string list \<Rightarrow> string" where
  "joinSpace [] = ''''"
| "joinSpace [s] = s"
| "joinSpace (s # ss) = s @ '' '' @ joinSpace ss"

fun sprint :: "json \<Rightarrow> string" where
  "sprint JNull = ''<nil>''"
| "sprint (JBool b) = (if b then ''true'' else ''false'')"
| "sprint (JNumber s) = s"
| "sprint (JString s) = s"
| "sprint (JArray xs) = ''['' @ joinSpace (map sprint xs) @ '']''"
| "sprint (JObject m) = ''map['' @ joinSpace (map (\<lambda>(k, s). k @ '':'' @ s) (sort_key fst (map (\<lambda>(k, v). (k, sprint v)) m))) @ '']''"

definition textOf :: "json \<Rightarrow> string" where
  "textOf v = (if v = JNull then '''' else sprint v)"

definition asStringMap :: "json \<Rightarrow> (string \<times> string) list" where
  "asStringMap v = (case v of JObject m \<Rightarrow> filter (\<lambda>(_, s). s \<noteq> '''') (map (\<lambda>(k, x). (k, textOf x)) m) | _ \<Rightarrow> [])"

definition nestedStringMapTolerant :: "json_object \<Rightarrow> string list \<Rightarrow> (string \<times> string) list" where
  "nestedStringMapTolerant obj keys = asStringMap (JObject (nestedMap obj keys))"

definition asStringSlice :: "json \<Rightarrow> string list" where
  "asStringSlice v = (case v of JArray xs \<Rightarrow> filter (\<lambda>s. s \<noteq> '''') (map textOf xs) | _ \<Rightarrow> [])"

text \<open>The entries of a slice that are maps; the others are skipped.\<close>

definition wk_objectsOf :: "json list \<Rightarrow> json_object list" where
  "wk_objectsOf raw = List.map_filter asObject raw"

section \<open>Numbers of 32 bits\<close>

type_synonym int32 = "32 word"

definition digitOf :: "char \<Rightarrow> nat" where
  "digitOf c = (let n = of_char c :: nat in
     if 48 \<le> n \<and> n \<le> 57 then n - 48 else if 97 \<le> n \<and> n \<le> 102 then n - 87 else if 65 \<le> n \<and> n \<le> 70 then n - 55 else 99)"

definition baseVal :: "nat \<Rightarrow> string \<Rightarrow> nat" where
  "baseVal base ds = foldl (\<lambda>n c. n * base + digitOf c) 0 ds"

text \<open>Underscores stand between digits, or after the prefix of a base.\<close>

fun underscoresOK :: "bool \<Rightarrow> string \<Rightarrow> bool" where
  "underscoresOK digit [] \<longleftrightarrow> True"
| "underscoresOK digit (c # cs) \<longleftrightarrow> (if c = CHR ''_'' then digit \<and> cs \<noteq> [] \<and> underscoresOK False cs else underscoresOK True cs)"

text \<open>\<^verbatim>\<open>fmt.Sscan\<close> of a 32-bit integer; the number stays zero when it fails.\<close>

definition scanDigits :: "nat \<Rightarrow> bool \<Rightarrow> string \<Rightarrow> nat option" where
  "scanDigits base digit s =
     (let tok = takeWhile (\<lambda>c. c = CHR ''_'' \<or> digitOf c < base) s in
      if underscoresOK digit tok then Some (baseVal base (filter (\<lambda>c. c \<noteq> CHR ''_'') tok)) else None)"

definition scanMagnitude :: "string \<Rightarrow> nat option" where
  "scanMagnitude s =
     (case s of
        [] \<Rightarrow> None
      | c # t \<Rightarrow>
          if c \<noteq> CHR ''0'' then (if c = CHR ''_'' \<or> digitOf c < 10 then scanDigits 10 False s else None)
          else (case t of
              [] \<Rightarrow> Some 0
            | d # u \<Rightarrow>
                let base = (if d \<in> {CHR ''b'', CHR ''B''} then 2 else if d \<in> {CHR ''o'', CHR ''O''} then 8 else if d \<in> {CHR ''x'', CHR ''X''} then 16 else 0) in
                if base = 0 then scanDigits 8 True t
                else if \<not> (case u of [] \<Rightarrow> False | e # _ \<Rightarrow> e = CHR ''_'' \<or> digitOf e < base) then None else scanDigits base True u))"

definition scanInt32 :: "string \<Rightarrow> int32" where
  "scanInt32 s =
     (let t = trimLeftOf spaceRunes s;
          (neg, u) = (case t of c # r \<Rightarrow> if c = CHR ''-'' then (True, r) else if c = CHR ''+'' then (False, r) else (False, t) | [] \<Rightarrow> (False, [])) in
      case scanMagnitude u of
        None \<Rightarrow> 0
      | Some n \<Rightarrow> let i = (if neg then - int n else int n) in if - (2 ^ 31) \<le> i \<and> i < 2 ^ 31 then of_int i else 0)"

text \<open>
  An integer wraps around; a float is cut off, and the conversion of one that does not fit is up to the machine, the argument \<^verbatim>\<open>wide\<close>.
\<close>

type_synonym float_conversion = "rat \<Rightarrow> int32"

definition signedDecimal :: "string \<Rightarrow> rat option" where
  "signedDecimal s = (case s of c # t \<Rightarrow> if c = CHR ''-'' then map_option uminus (decimal t) else decimal s | [] \<Rightarrow> None)"

definition truncateRat :: "rat \<Rightarrow> int" where
  "truncateRat r = (if r < 0 then \<lceil>r\<rceil> else \<lfloor>r\<rfloor>)"

definition isIntegral :: "string \<Rightarrow> bool" where
  "isIntegral s \<longleftrightarrow> (let ds = (case s of c # t \<Rightarrow> if c = CHR ''-'' then t else s | [] \<Rightarrow> []) in ds \<noteq> [] \<and> list_all isDigit ds)"

definition numberInt32 :: "float_conversion \<Rightarrow> string \<Rightarrow> int32" where
  "numberInt32 wide s =
     (case signedDecimal s of
        None \<Rightarrow> 0
      | Some r \<Rightarrow> let i = truncateRat r in if isIntegral s \<or> (- (2 ^ 31) \<le> i \<and> i < 2 ^ 31) then of_int i else wide r)"

definition asInt32 :: "float_conversion \<Rightarrow> json \<Rightarrow> int32" where
  "asInt32 wide v = (case v of JNull \<Rightarrow> 0 | JNumber s \<Rightarrow> numberInt32 wide s | _ \<Rightarrow> scanInt32 (textOf v))"

definition asInt32Ptr :: "float_conversion \<Rightarrow> json \<Rightarrow> int32 option" where
  "asInt32Ptr wide v =
     (if v = JNull then None
      else let n = asInt32 wide v in
        if n = 0 \<and> (textOf v = '''' \<or> textOf v = ''0'') \<and> \<not> (case v of JNumber _ \<Rightarrow> True | _ \<Rightarrow> False) then None else Some n)"

section \<open>Objects\<close>

text \<open>The metadata that \<^verbatim>\<open>unstructured\<close> reads; labels and annotations that are not all text are none.\<close>

record crd_meta =
  cm_Kind :: string
  cm_Name :: string
  cm_UID :: string
  cm_APIVersion :: string
  cm_Labels :: "(string \<times> string) list"
  cm_Annotations :: "(string \<times> string) list"

definition stringMap :: "json_object \<Rightarrow> (string \<times> string) list" where
  "stringMap m = (if list_all (\<lambda>(_, v). asString v \<noteq> None) m then map (\<lambda>(k, v). (k, textOf v)) m else [])"

definition crdMeta :: "string \<Rightarrow> string \<Rightarrow> json_object \<Rightarrow> crd_meta" where
  "crdMeta kind apiVersion item =
     \<lparr>cm_Kind = kind, cm_Name = nestedText item [''metadata'', ''name''],
      cm_UID = nestedText item [''metadata'', ''uid''],
      cm_APIVersion = (if nestedText item [''apiVersion''] = '''' then apiVersion else nestedText item [''apiVersion'']),
      cm_Labels = stringMap (nestedMap item [''metadata'', ''labels'']), cm_Annotations = stringMap (nestedMap item [''metadata'', ''annotations''])\<rparr>"

record crd_condition =
  co_Type :: string
  co_Status :: string
  co_Reason :: string
  co_Message :: string
  co_LastTransitionTime :: string

definition conditionsOf :: "json list \<Rightarrow> crd_condition list" where
  "conditionsOf raw =
     map (\<lambda>m. \<lparr>co_Type = textOf (jget m ''type''), co_Status = textOf (jget m ''status''), co_Reason = textOf (jget m ''reason''),
         co_Message = textOf (jget m ''message''), co_LastTransitionTime = textOf (jget m ''lastTransitionTime'')\<rparr>) (wk_objectsOf raw)"

section \<open>Listing\<close>

text \<open>
  The dynamic client: a list of a resource from a continue token gives an error or a page and the next token; what \<^verbatim>\<open>apierrors.IsNotFound\<close> and
  \<^verbatim>\<open>meta.IsNoMatchError\<close> say of an error.
\<close>

type_synonym page_source = "string \<Rightarrow> string + json_object list \<times> string"

record crd_client =
  cl_List :: "string \<Rightarrow> page_source"
  cl_IsNotFound :: "string \<Rightarrow> bool"
  cl_IsNoMatchError :: "string \<Rightarrow> bool"
  cl_wide :: float_conversion

text \<open>The loop need not end: \<^const>\<open>None\<close> is a list that never returns.\<close>

partial_function (option) listPages :: "page_source \<Rightarrow> string \<Rightarrow> json_object list \<Rightarrow> (string + json_object list) option" where
  "listPages source token items =
     (case source token of
        Inl err \<Rightarrow> Some (Inl err)
      | Inr (page, next) \<Rightarrow> if next = '''' then Some (Inr (items @ page)) else listPages source next (items @ page))"

definition listClusterUnstructured :: "crd_client \<Rightarrow> string \<Rightarrow> (string + json_object list) option" where
  "listClusterUnstructured c resource =
     (case listPages (cl_List c resource) '''' [] of
        None \<Rightarrow> None | Some (Inl err) \<Rightarrow> Some (Inl (''list '' @ resource @ '': '' @ err)) | Some (Inr items) \<Rightarrow> Some (Inr items))"

definition listNamespacedUnstructured :: "crd_client \<Rightarrow> string \<Rightarrow> (string + json_object list) option" where
  "listNamespacedUnstructured c resource =
     (case listPages (cl_List c resource) '''' [] of
        None \<Rightarrow> None | Some (Inl err) \<Rightarrow> Some (Inl (''list '' @ resource @ '': '' @ err)) | Some (Inr items) \<Rightarrow> Some (Inr items))"

definition formatAll :: "(json_object \<Rightarrow> 'a) \<Rightarrow> (string + json_object list) option \<Rightarrow> (string + 'a list) option" where
  "formatAll format answer = (case answer of None \<Rightarrow> None | Some (Inl err) \<Rightarrow> Some (Inl err) | Some (Inr items) \<Rightarrow> Some (Inr (map format items)))"

fun orEmpty :: "string + 'a list \<Rightarrow> 'a list" where
  "orEmpty (Inl _) = []"
| "orEmpty (Inr xs) = xs"

definition absentBy :: "(string \<Rightarrow> bool) \<Rightarrow> string + 'a list \<Rightarrow> bool" where
  "absentBy absent answer = (case answer of Inl err \<Rightarrow> absent err | Inr _ \<Rightarrow> False)"

section \<open>Karpenter\<close>

record KarpenterNodeClassRef =
  kc_Group :: string
  kc_Kind :: string
  kc_RefName :: string

record KarpenterRequirement =
  kq_Key :: string
  kq_Operator :: string
  kq_Values :: "string list"

record KarpenterDisruptionBudget =
  kb_Nodes :: string
  kb_Schedule :: string
  kb_Duration :: string

record KarpenterDisruption =
  kd_ConsolidationPolicy :: string
  kd_ConsolidateAfter :: string
  kd_Budgets :: "KarpenterDisruptionBudget list"

record KarpenterSelectorTerm =
  kt_ID :: string
  kt_Name :: string
  kt_Alias :: string
  kt_Owner :: string
  kt_Tags :: "(string \<times> string) list"

record NodePool =
  np_meta :: crd_meta
  np_Weight :: "int32 option"
  np_Limits :: "(string \<times> string) list"
  np_NodeClassRef :: "KarpenterNodeClassRef option"
  np_Requirements :: "KarpenterRequirement list"
  np_Disruption :: "KarpenterDisruption option"
  np_Conditions :: "crd_condition list"

record NodeClaim =
  nm_meta :: crd_meta
  nm_NodePool :: string
  nm_NodeClassRef :: "KarpenterNodeClassRef option"
  nm_Requirements :: "KarpenterRequirement list"
  nm_ProviderID :: string
  nm_NodeName :: string
  nm_Conditions :: "crd_condition list"

record EC2NodeClass =
  e2_meta :: crd_meta
  e2_Role :: string
  e2_InstanceProfile :: string
  e2_AMIFamily :: string
  e2_Tags :: "(string \<times> string) list"
  e2_SubnetSelectorTerms :: "KarpenterSelectorTerm list"
  e2_SecurityGroupSelectorTerms :: "KarpenterSelectorTerm list"
  e2_AMISelectorTerms :: "KarpenterSelectorTerm list"
  e2_Conditions :: "crd_condition list"

record Karpenter =
  kn_NodePools :: "NodePool list"
  kn_NodeClaims :: "NodeClaim list"
  kn_EC2NodeClasses :: "EC2NodeClass list"

definition formatNodeClassRef :: "json_object \<Rightarrow> KarpenterNodeClassRef option" where
  "formatNodeClassRef raw =
     (let ref = \<lparr>kc_Group = textOf (jget raw ''group''), kc_Kind = textOf (jget raw ''kind''), kc_RefName = textOf (jget raw ''name'')\<rparr> in
      if kc_Group ref = '''' \<and> kc_Kind ref = '''' \<and> kc_RefName ref = '''' then None else Some ref)"

definition formatRequirements :: "json list \<Rightarrow> KarpenterRequirement list" where
  "formatRequirements raw =
     filter (\<lambda>r. kq_Key r \<noteq> '''' \<or> kq_Operator r \<noteq> '''' \<or> kq_Values r \<noteq> [])
       (map (\<lambda>m. \<lparr>kq_Key = textOf (jget m ''key''), kq_Operator = textOf (jget m ''operator''), kq_Values = asStringSlice (jget m ''values'')\<rparr>)
         (wk_objectsOf raw))"

definition formatBudgets :: "json \<Rightarrow> KarpenterDisruptionBudget list" where
  "formatBudgets v =
     (case v of
        JArray xs \<Rightarrow> map (\<lambda>m. \<lparr>kb_Nodes = textOf (jget m ''nodes''), kb_Schedule = textOf (jget m ''schedule''),
            kb_Duration = textOf (jget m ''duration'')\<rparr>) (wk_objectsOf xs)
      | _ \<Rightarrow> [])"

definition formatDisruption :: "json_object \<Rightarrow> KarpenterDisruption option" where
  "formatDisruption raw =
     (let d = \<lparr>kd_ConsolidationPolicy = textOf (jget raw ''consolidationPolicy''), kd_ConsolidateAfter = textOf (jget raw ''consolidateAfter''),
            kd_Budgets = formatBudgets (jget raw ''budgets'')\<rparr> in
      if kd_ConsolidationPolicy d = '''' \<and> kd_ConsolidateAfter d = '''' \<and> kd_Budgets d = [] then None else Some d)"

definition formatSelectorTerms :: "json list \<Rightarrow> KarpenterSelectorTerm list" where
  "formatSelectorTerms raw =
     filter (\<lambda>t. kt_ID t \<noteq> '''' \<or> kt_Name t \<noteq> '''' \<or> kt_Alias t \<noteq> '''' \<or> kt_Owner t \<noteq> '''' \<or> kt_Tags t \<noteq> [])
       (map (\<lambda>m. \<lparr>kt_ID = textOf (jget m ''id''), kt_Name = textOf (jget m ''name''), kt_Alias = textOf (jget m ''alias''),
           kt_Owner = textOf (jget m ''owner''), kt_Tags = asStringMap (jget m ''tags'')\<rparr>) (wk_objectsOf raw))"

definition formatKarpenterConditions :: "json list \<Rightarrow> crd_condition list" where
  "formatKarpenterConditions raw = conditionsOf raw"

definition nestedInt64 :: "json_object \<Rightarrow> string list \<Rightarrow> int32 option" where
  "nestedInt64 obj keys =
     (case nestedField obj keys of Some (JNumber s) \<Rightarrow> if isIntegral s then Some (numberInt32 (\<lambda>_. 0) s) else None | _ \<Rightarrow> None)"

definition formatNodePool :: "json_object \<Rightarrow> NodePool" where
  "formatNodePool item =
     \<lparr>np_meta = crdMeta ''NodePool'' ''karpenter.sh/v1'' item, np_Weight = nestedInt64 item [''spec'', ''weight''],
      np_Limits = nestedStringMapTolerant item [''spec'', ''limits''],
      np_NodeClassRef = formatNodeClassRef (nestedMap item [''spec'', ''template'', ''spec'', ''nodeClassRef'']),
      np_Requirements = formatRequirements (nestedSlice item [''spec'', ''template'', ''spec'', ''requirements'']),
      np_Disruption = formatDisruption (nestedMap item [''spec'', ''disruption'']),
      np_Conditions = formatKarpenterConditions (nestedSlice item [''status'', ''conditions''])\<rparr>"

definition formatNodeClaim :: "json_object \<Rightarrow> NodeClaim" where
  "formatNodeClaim item =
     \<lparr>nm_meta = crdMeta ''NodeClaim'' ''karpenter.sh/v1'' item,
      nm_NodePool = (case map_of (stringMap (nestedMap item [''metadata'', ''labels''])) ''karpenter.sh/nodepool'' of None \<Rightarrow> '''' | Some s \<Rightarrow> s),
      nm_NodeClassRef = formatNodeClassRef (nestedMap item [''spec'', ''nodeClassRef'']),
      nm_Requirements = formatRequirements (nestedSlice item [''spec'', ''requirements'']),
      nm_ProviderID = nestedText item [''status'', ''providerID''], nm_NodeName = nestedText item [''status'', ''nodeName''],
      nm_Conditions = formatKarpenterConditions (nestedSlice item [''status'', ''conditions''])\<rparr>"

definition formatEC2NodeClass :: "json_object \<Rightarrow> EC2NodeClass" where
  "formatEC2NodeClass item =
     \<lparr>e2_meta = crdMeta ''EC2NodeClass'' ''karpenter.k8s.aws/v1'' item, e2_Role = nestedText item [''spec'', ''role''],
      e2_InstanceProfile = nestedText item [''spec'', ''instanceProfile''], e2_AMIFamily = nestedText item [''spec'', ''amiFamily''],
      e2_Tags = nestedStringMapTolerant item [''spec'', ''tags''],
      e2_SubnetSelectorTerms = formatSelectorTerms (nestedSlice item [''spec'', ''subnetSelectorTerms'']),
      e2_SecurityGroupSelectorTerms = formatSelectorTerms (nestedSlice item [''spec'', ''securityGroupSelectorTerms'']),
      e2_AMISelectorTerms = formatSelectorTerms (nestedSlice item [''spec'', ''amiSelectorTerms'']),
      e2_Conditions = formatKarpenterConditions (nestedSlice item [''status'', ''conditions''])\<rparr>"

definition isKarpenterAbsent :: "crd_client \<Rightarrow> string \<Rightarrow> bool" where
  "isKarpenterAbsent c err \<longleftrightarrow> cl_IsNotFound c err \<or> cl_IsNoMatchError c err"

definition listKarpenterNodePools :: "crd_client \<Rightarrow> (string + NodePool list) option" where
  "listKarpenterNodePools c = formatAll formatNodePool (listClusterUnstructured c ''nodepools'')"

definition listKarpenterNodeClaims :: "crd_client \<Rightarrow> (string + NodeClaim list) option" where
  "listKarpenterNodeClaims c = formatAll formatNodeClaim (listClusterUnstructured c ''nodeclaims'')"

definition listEC2NodeClasses :: "crd_client \<Rightarrow> (string + EC2NodeClass list) option" where
  "listEC2NodeClasses c = formatAll formatEC2NodeClass (listClusterUnstructured c ''ec2nodeclasses'')"

text \<open>Karpenter is left out when both of its own lists are absent; a list that is there and cannot be read is empty.\<close>

definition listKarpenterInventory :: "crd_client \<Rightarrow> Karpenter option option" where
  "listKarpenterInventory c =
     Option.bind (listKarpenterNodePools c) (\<lambda>pools.
     Option.bind (listKarpenterNodeClaims c) (\<lambda>claims.
       if absentBy (isKarpenterAbsent c) pools \<and> absentBy (isKarpenterAbsent c) claims then Some None
       else Option.bind (listEC2NodeClasses c) (\<lambda>classes.
         Some (Some \<lparr>kn_NodePools = orEmpty pools, kn_NodeClaims = orEmpty claims, kn_EC2NodeClasses = orEmpty classes\<rparr>))))"

section \<open>Gateway API\<close>

record GatewayObjectRef =
  go_Group :: string
  go_Kind :: string
  go_Name :: string
  go_Namespace :: string
  go_SectionName :: string
  go_Port :: "int32 option"
  go_Weight :: "int32 option"

record GatewayListener =
  gl_Name :: string
  gl_Protocol :: string
  gl_Port :: int32
  gl_Hostname :: string
  gl_TLSMode :: string
  gl_CertificateRefs :: "GatewayObjectRef list"

record GatewayAddress =
  ga_Type :: string
  ga_Value :: string

record Gateway =
  gw_meta :: crd_meta
  gw_Namespace :: string
  gw_GatewayClassName :: string
  gw_Listeners :: "GatewayListener list"
  gw_Addresses :: "GatewayAddress list"
  gw_Conditions :: "crd_condition list"

record HTTPRouteMatch =
  hm_PathType :: string
  hm_Path :: string

record HTTPRouteRule =
  hu_Matches :: "HTTPRouteMatch list"
  hu_BackendRefs :: "GatewayObjectRef list"

record HTTPRoute =
  hr_meta :: crd_meta
  hr_Namespace :: string
  hr_Hostnames :: "string list"
  hr_ParentRefs :: "GatewayObjectRef list"
  hr_Rules :: "HTTPRouteRule list"

record GatewayAPI =
  gy_Gateways :: "Gateway list"
  gy_HTTPRoutes :: "HTTPRoute list"

definition noRef :: GatewayObjectRef where
  "noRef = \<lparr>go_Group = '''', go_Kind = '''', go_Name = '''', go_Namespace = '''', go_SectionName = '''', go_Port = None, go_Weight = None\<rparr>"

definition formatGatewayObjectRefs :: "float_conversion \<Rightarrow> json list \<Rightarrow> GatewayObjectRef list" where
  "formatGatewayObjectRefs wide raw =
     filter (\<lambda>r. r \<noteq> noRef)
       (map (\<lambda>m. \<lparr>go_Group = textOf (jget m ''group''), go_Kind = textOf (jget m ''kind''), go_Name = textOf (jget m ''name''),
           go_Namespace = textOf (jget m ''namespace''), go_SectionName = textOf (jget m ''sectionName''),
           go_Port = asInt32Ptr wide (jget m ''port''), go_Weight = asInt32Ptr wide (jget m ''weight'')\<rparr>) (wk_objectsOf raw))"

definition formatGatewayListeners :: "float_conversion \<Rightarrow> json list \<Rightarrow> GatewayListener list" where
  "formatGatewayListeners wide raw =
     map (\<lambda>m. let tls = (case jget m ''tls'' of JObject t \<Rightarrow> t | _ \<Rightarrow> []) in
         \<lparr>gl_Name = textOf (jget m ''name''), gl_Protocol = textOf (jget m ''protocol''), gl_Port = asInt32 wide (jget m ''port''),
          gl_Hostname = textOf (jget m ''hostname''), gl_TLSMode = textOf (jget tls ''mode''),
          gl_CertificateRefs = (case jget tls ''certificateRefs'' of JArray refs \<Rightarrow> formatGatewayObjectRefs wide refs | _ \<Rightarrow> [])\<rparr>) (wk_objectsOf raw)"

definition formatGatewayAddresses :: "json list \<Rightarrow> GatewayAddress list" where
  "formatGatewayAddresses raw =
     filter (\<lambda>a. ga_Type a \<noteq> '''' \<or> ga_Value a \<noteq> '''')
       (map (\<lambda>m. \<lparr>ga_Type = textOf (jget m ''type''), ga_Value = textOf (jget m ''value'')\<rparr>) (wk_objectsOf raw))"

definition formatGatewayConditions :: "json list \<Rightarrow> crd_condition list" where
  "formatGatewayConditions raw = conditionsOf raw"

definition formatHTTPRouteMatches :: "json list \<Rightarrow> HTTPRouteMatch list" where
  "formatHTTPRouteMatches raw =
     filter (\<lambda>h. hm_PathType h \<noteq> '''' \<or> hm_Path h \<noteq> '''')
       (map (\<lambda>m. let p = (case jget m ''path'' of JObject q \<Rightarrow> q | _ \<Rightarrow> []) in
           \<lparr>hm_PathType = textOf (jget p ''type''), hm_Path = textOf (jget p ''value'')\<rparr>) (wk_objectsOf raw))"

definition formatHTTPRouteRules :: "float_conversion \<Rightarrow> json list \<Rightarrow> HTTPRouteRule list" where
  "formatHTTPRouteRules wide raw =
     map (\<lambda>m. \<lparr>hu_Matches = (case jget m ''matches'' of JArray xs \<Rightarrow> formatHTTPRouteMatches xs | _ \<Rightarrow> []),
         hu_BackendRefs = (case jget m ''backendRefs'' of JArray xs \<Rightarrow> formatGatewayObjectRefs wide xs | _ \<Rightarrow> [])\<rparr>) (wk_objectsOf raw)"

definition formatGateway :: "float_conversion \<Rightarrow> json_object \<Rightarrow> Gateway" where
  "formatGateway wide item =
     \<lparr>gw_meta = crdMeta ''Gateway'' ''gateway.networking.k8s.io/v1'' item, gw_Namespace = nestedText item [''metadata'', ''namespace''],
      gw_GatewayClassName = nestedText item [''spec'', ''gatewayClassName''],
      gw_Listeners = formatGatewayListeners wide (nestedSlice item [''spec'', ''listeners'']),
      gw_Addresses = formatGatewayAddresses (nestedSlice item [''status'', ''addresses'']),
      gw_Conditions = formatGatewayConditions (nestedSlice item [''status'', ''conditions''])\<rparr>"

text \<open>The host names, none if one of them is not text.\<close>

definition nestedStringSlice :: "json_object \<Rightarrow> string list \<Rightarrow> string list" where
  "nestedStringSlice obj keys =
     (let xs = nestedSlice obj keys in if list_all (\<lambda>x. asString x \<noteq> None) xs then List.map_filter asString xs else [])"

definition formatHTTPRoute :: "float_conversion \<Rightarrow> json_object \<Rightarrow> HTTPRoute" where
  "formatHTTPRoute wide item =
     \<lparr>hr_meta = crdMeta ''HTTPRoute'' ''gateway.networking.k8s.io/v1'' item, hr_Namespace = nestedText item [''metadata'', ''namespace''],
      hr_Hostnames = nestedStringSlice item [''spec'', ''hostnames''],
      hr_ParentRefs = formatGatewayObjectRefs wide (nestedSlice item [''spec'', ''parentRefs'']),
      hr_Rules = formatHTTPRouteRules wide (nestedSlice item [''spec'', ''rules''])\<rparr>"

definition isGatewayAPIAbsent :: "crd_client \<Rightarrow> string \<Rightarrow> bool" where
  "isGatewayAPIAbsent c err \<longleftrightarrow> cl_IsNotFound c err \<or> cl_IsNoMatchError c err"

definition listGateways :: "crd_client \<Rightarrow> (string + Gateway list) option" where
  "listGateways c = formatAll (formatGateway (cl_wide c)) (listNamespacedUnstructured c ''gateways'')"

definition listHTTPRoutes :: "crd_client \<Rightarrow> (string + HTTPRoute list) option" where
  "listHTTPRoutes c = formatAll (formatHTTPRoute (cl_wide c)) (listNamespacedUnstructured c ''httproutes'')"

definition listGatewayAPIInventory :: "crd_client \<Rightarrow> GatewayAPI option option" where
  "listGatewayAPIInventory c =
     Option.bind (listGateways c) (\<lambda>gateways.
     Option.bind (listHTTPRoutes c) (\<lambda>routes.
       if absentBy (isGatewayAPIAbsent c) gateways \<and> absentBy (isGatewayAPIAbsent c) routes then Some None
       else Some (Some \<lparr>gy_Gateways = orEmpty gateways, gy_HTTPRoutes = orEmpty routes\<rparr>)))"

section \<open>Every page is listed\<close>

text \<open>The pages that a source gives from a token on, up to the one without a next token.\<close>

inductive pagesFrom :: "page_source \<Rightarrow> string \<Rightarrow> json_object list list \<Rightarrow> bool" for source where
  last_page: "source token = Inr (page, '''') \<Longrightarrow> pagesFrom source token [page]"
| next_page: "source token = Inr (page, next) \<Longrightarrow> next \<noteq> '''' \<Longrightarrow> pagesFrom source next pages \<Longrightarrow> pagesFrom source token (page # pages)"

text \<open>A chain of pages that ends in an error.\<close>

inductive failsFrom :: "page_source \<Rightarrow> string \<Rightarrow> string \<Rightarrow> bool" for source where
  fails_now: "source token = Inl err \<Longrightarrow> failsFrom source token err"
| fails_later: "source token = Inr (page, next) \<Longrightarrow> next \<noteq> '''' \<Longrightarrow> failsFrom source next err \<Longrightarrow> failsFrom source token err"

lemma listPages_all: "pagesFrom source token pages \<Longrightarrow> listPages source token items = Some (Inr (items @ concat pages))"
  by (induction arbitrary: items rule: pagesFrom.induct) (subst listPages.simps, simp)+

lemma listPages_fails: "failsFrom source token err \<Longrightarrow> listPages source token items = Some (Inl err)"
  by (induction arbitrary: items rule: failsFrom.induct) (subst listPages.simps, simp)+

lemma listPages_returns:
  "listPages source token items = Some answer \<Longrightarrow>
     (\<exists>err. failsFrom source token err \<and> answer = Inl err) \<or> (\<exists>pages. pagesFrom source token pages \<and> answer = Inr (items @ concat pages))"
proof (induction rule: listPages.raw_induct [rotated, consumes 1, case_names step])
  case (step rec src tok its y)
  show ?case
  proof (cases "src tok")
    case (Inl err)
    then show ?thesis using step(2) fails_now [of src tok err] by auto
  next
    case (Inr p)
    obtain page nxt where p: "p = (page, nxt)" by (cases p)
    show ?thesis
    proof (cases "nxt = ''''")
      case True
      then show ?thesis using step(2) Inr p last_page [of src tok page] by fastforce
    next
      case False
      then have "rec src nxt (its @ page) = Some y" using step(2) Inr p by simp
      from step(1) [OF this] show ?thesis
        using Inr p False next_page [of src tok page nxt] fails_later [of src tok page nxt] by fastforce
    qed
  qed
qed

text \<open>A source hangs when every token that it reaches is followed by another one.\<close>

definition hangs :: "page_source \<Rightarrow> bool" where
  "hangs source \<longleftrightarrow> (\<exists>T. '''' \<in> T \<and> (\<forall>t \<in> T. \<exists>page next. source t = Inr (page, next) \<and> next \<noteq> '''' \<and> next \<in> T))"

lemma pagesFrom_leaves: "pagesFrom source token pages \<Longrightarrow> \<forall>t \<in> T. \<exists>page next. source t = Inr (page, next) \<and> next \<noteq> '''' \<and> next \<in> T \<Longrightarrow> token \<notin> T"
  by (induction rule: pagesFrom.induct) fastforce+

lemma failsFrom_leaves: "failsFrom source token err \<Longrightarrow> \<forall>t \<in> T. \<exists>page next. source t = Inr (page, next) \<and> next \<noteq> '''' \<and> next \<in> T \<Longrightarrow> token \<notin> T"
  by (induction rule: failsFrom.induct) fastforce+

lemma hangs_iff: "hangs source \<longleftrightarrow> \<not> (\<exists>pages. pagesFrom source '''' pages) \<and> \<not> (\<exists>err. failsFrom source '''' err)"
proof
  assume "hangs source"
  then show "\<not> (\<exists>pages. pagesFrom source '''' pages) \<and> \<not> (\<exists>err. failsFrom source '''' err)"
    unfolding hangs_def using pagesFrom_leaves failsFrom_leaves by metis
next
  let ?T = "{t. \<not> (\<exists>pages. pagesFrom source t pages) \<and> \<not> (\<exists>err. failsFrom source t err)}"
  assume no: "\<not> (\<exists>pages. pagesFrom source '''' pages) \<and> \<not> (\<exists>err. failsFrom source '''' err)"
  have "\<exists>page next. source t = Inr (page, next) \<and> next \<noteq> '''' \<and> next \<in> ?T" if t: "t \<in> ?T" for t
  proof (cases "source t")
    case (Inl err)
    then show ?thesis using t fails_now by fastforce
  next
    case (Inr p)
    then obtain page nxt where s: "source t = Inr (page, nxt)" by (cases p) simp
    then have n: "nxt \<noteq> ''''" using t last_page by fastforce
    have "nxt \<in> ?T" using t pagesFrom.next_page [of source t page nxt] failsFrom.fails_later [of source t page nxt] s n by blast
    then show ?thesis using s n by blast
  qed
  then show "hangs source" unfolding hangs_def using no by (intro exI [of _ ?T]) blast
qed

lemma source_cases:
  obtains (pages) pages where "pagesFrom source '''' pages" | (fails) err where "failsFrom source '''' err" | (hangs) "hangs source"
  using hangs_iff by blast

lemma listPages_hangs:
  assumes "hangs source"
  shows "listPages source '''' items = None"
proof (cases "listPages source '''' items")
  case (Some answer)
  then show ?thesis using listPages_returns [OF Some] assms by (auto simp: hangs_iff)
qed

lemma listing_pages: "pagesFrom (cl_List c r) '''' pages \<Longrightarrow> listClusterUnstructured c r = Some (Inr (concat pages))"
  by (simp add: listClusterUnstructured_def listPages_all)

lemma listing_fails: "failsFrom (cl_List c r) '''' err \<Longrightarrow> listClusterUnstructured c r = Some (Inl (''list '' @ r @ '': '' @ err))"
  by (simp add: listClusterUnstructured_def listPages_fails)

lemma listing_hangs: "hangs (cl_List c r) \<Longrightarrow> listClusterUnstructured c r = None"
  by (simp add: listClusterUnstructured_def listPages_hangs)

lemmas listing_outcomes = listing_pages listing_fails listing_hangs

text \<open>A source answers in one way only.\<close>

lemma pagesFrom_unique: "pagesFrom source token pages \<Longrightarrow> pagesFrom source token pages' \<Longrightarrow> concat pages = concat pages'"
  using listPages_all [of source token pages "[]"] listPages_all [of source token pages' "[]"] by simp

lemma pages_or_fails: "pagesFrom source token pages \<Longrightarrow> \<not> failsFrom source token err"
  using listPages_all [of source token pages "[]"] listPages_fails [of source token err "[]"] by auto

lemma failsFrom_unique: "failsFrom source token err \<Longrightarrow> failsFrom source token err' \<longleftrightarrow> err' = err"
  using listPages_fails [of source token err "[]"] listPages_fails [of source token err' "[]"] by auto

definition karpenterGone :: "crd_client \<Rightarrow> string \<Rightarrow> bool" where
  "karpenterGone c r \<longleftrightarrow> (\<exists>err. failsFrom (cl_List c r) '''' err \<and> isKarpenterAbsent c (''list '' @ r @ '': '' @ err))"

lemma listing_none: "listClusterUnstructured c r = None \<longleftrightarrow> hangs (cl_List c r)"
  by (cases rule: source_cases [of "cl_List c r"]) (auto simp: listing_outcomes hangs_iff)

lemma listing_gone: "listClusterUnstructured c r = Some answer \<Longrightarrow> absentBy (isKarpenterAbsent c) answer \<longleftrightarrow> karpenterGone c r"
  by (cases rule: source_cases [of "cl_List c r"])
    (auto simp: listing_outcomes absentBy_def karpenterGone_def failsFrom_unique dest: pages_or_fails)

lemma gone_listed: "karpenterGone c r \<Longrightarrow> \<exists>answer. listClusterUnstructured c r = Some answer"
  by (auto simp: karpenterGone_def listing_fails)

lemma formatAll_Some: "formatAll g (Some answer) = Some (map_sum id (map g) answer)"
  by (cases answer) (auto simp: formatAll_def)

lemma formatAll_None [simp]: "formatAll g None = None"
  by (simp add: formatAll_def)

lemma absentBy_map [simp]: "absentBy A (map_sum id g answer) = absentBy A answer"
  by (cases answer) (auto simp: absentBy_def)

lemma orEmpty_map [simp]: "orEmpty (map_sum id (map g) answer) = map g (orEmpty answer)"
  by (cases answer) auto

lemma listed_pages: "listClusterUnstructured c r = Some answer \<Longrightarrow> pagesFrom (cl_List c r) '''' pages \<Longrightarrow> orEmpty answer = concat pages"
  by (auto simp: listing_pages)

lemma listed_fails: "listClusterUnstructured c r = Some answer \<Longrightarrow> failsFrom (cl_List c r) '''' err \<Longrightarrow> orEmpty answer = []"
  by (auto simp: listing_fails)

lemmas karpenter_lists = listKarpenterInventory_def listKarpenterNodePools_def listKarpenterNodeClaims_def listEC2NodeClasses_def formatAll_Some

text \<open>
  C25: The inventory of Karpenter never comes to an end exactly if the pages of one of its lists never do; otherwise it is left out exactly if node pools
  and node claims are both absent, and else it has every node pool of every page, and none if the list of them cannot be read.
\<close>
theorem karpenter_inventory:
  "(listKarpenterInventory c = None \<longleftrightarrow>
      hangs (cl_List c ''nodepools'') \<or> hangs (cl_List c ''nodeclaims'') \<or>
      \<not> (karpenterGone c ''nodepools'' \<and> karpenterGone c ''nodeclaims'') \<and> hangs (cl_List c ''ec2nodeclasses'')) \<and>
   (listKarpenterInventory c = Some None \<longleftrightarrow> karpenterGone c ''nodepools'' \<and> karpenterGone c ''nodeclaims'') \<and>
   (\<forall>k. listKarpenterInventory c = Some (Some k) \<longrightarrow>
      (\<forall>pages. pagesFrom (cl_List c ''nodepools'') '''' pages \<longrightarrow> kn_NodePools k = map formatNodePool (concat pages)) \<and>
      (\<forall>err. failsFrom (cl_List c ''nodepools'') '''' err \<longrightarrow> kn_NodePools k = []))"
  (is "?hang \<and> ?absent \<and> ?pools")
proof (intro conjI)
  let ?pools = "listClusterUnstructured c ''nodepools''" and ?claims = "listClusterUnstructured c ''nodeclaims''"
  show ?hang unfolding karpenter_lists listing_none [symmetric]
    by (cases ?pools; cases ?claims; cases "listClusterUnstructured c ''ec2nodeclasses''") (auto simp: formatAll_Some listing_gone dest: gone_listed)
  show ?absent unfolding karpenter_lists
    by (cases ?pools; cases ?claims; cases "listClusterUnstructured c ''ec2nodeclasses''")
      (auto simp: formatAll_Some listing_gone dest: gone_listed)
  show "\<forall>k. listKarpenterInventory c = Some (Some k) \<longrightarrow>
      (\<forall>pages. pagesFrom (cl_List c ''nodepools'') '''' pages \<longrightarrow> kn_NodePools k = map formatNodePool (concat pages)) \<and>
      (\<forall>err. failsFrom (cl_List c ''nodepools'') '''' err \<longrightarrow> kn_NodePools k = [])"
    unfolding karpenter_lists
    by (cases ?pools; cases ?claims; cases "listClusterUnstructured c ''ec2nodeclasses''")
      (auto simp: formatAll_Some listed_pages listed_fails split: if_splits)
qed

text \<open>Node pools on two pages, and no other list.\<close>

definition demo_pool :: "string \<Rightarrow> json_object" where
  "demo_pool name = [(''metadata'', JObject [(''name'', JString name)]), (''spec'', JObject [(''limits'', JObject [(''cpu'', JNumber ''10'')])])]"

definition demo_crds :: crd_client where
  "demo_crds = \<lparr>cl_List = (\<lambda>resource token.
        if resource \<noteq> ''nodepools'' then Inl ''not found''
        else if token = '''' then Inr ([demo_pool ''general''], ''p2'') else Inr ([demo_pool ''gpu''], '''')),
     cl_IsNotFound = (\<lambda>err. HasSuffix err ''not found''), cl_IsNoMatchError = (\<lambda>_. False), cl_wide = (\<lambda>_. 0)\<rparr>"

lemma demo_pages: "pagesFrom (cl_List demo_crds ''nodepools'') '''' [[demo_pool ''general''], [demo_pool ''gpu'']]"
proof (rule next_page)
  show "pagesFrom (cl_List demo_crds ''nodepools'') ''p2'' [[demo_pool ''gpu'']]" by (rule last_page) (simp add: demo_crds_def)
qed (simp_all add: demo_crds_def)

lemma demo_absent: "resource \<noteq> ''nodepools'' \<Longrightarrow> failsFrom (cl_List demo_crds resource) '''' ''not found''"
  by (rule fails_now) (simp add: demo_crds_def)

lemma demo_formatted: "map (\<lambda>p. (cm_Name (np_meta p), np_Limits p)) (map formatNodePool (concat [[demo_pool ''general''], [demo_pool ''gpu'']])) =
    [(''general'', [(''cpu'', ''10'')]), (''gpu'', [(''cpu'', ''10'')])]"
  by code_simp

theorem karpenter_inventory_witness:
  "\<exists>k. listKarpenterInventory demo_crds = Some (Some k) \<and>
     map (\<lambda>p. (cm_Name (np_meta p), np_Limits p)) (kn_NodePools k) = [(''general'', [(''cpu'', ''10'')]), (''gpu'', [(''cpu'', ''10'')])]"
proof -
  note inv = karpenter_inventory [of demo_crds]
  have h: "\<not> hangs (cl_List demo_crds r)" for r
    using demo_pages demo_absent [of r] by (cases "r = ''nodepools''") (auto simp: hangs_iff)
  have "\<not> karpenterGone demo_crds ''nodepools''" using demo_pages pages_or_fails unfolding karpenterGone_def by blast
  then have "listKarpenterInventory demo_crds \<noteq> None" "listKarpenterInventory demo_crds \<noteq> Some None" using inv h by blast+
  then obtain k where k: "listKarpenterInventory demo_crds = Some (Some k)" by (metis not_None_eq)
  then have "kn_NodePools k = map formatNodePool (concat [[demo_pool ''general''], [demo_pool ''gpu'']])" using inv demo_pages by blast
  then show ?thesis using k demo_formatted by metis
qed

end
