(* ===== verification/Work_Report.thy ===== *)
theory Work_Report
  imports Work_Format Work_Images Work_Crds
begin

text \<open>
  The workloads report: one pass over the cluster, and the program around it. What a node is said to have allocated is the sum over the pods on it.
\<close>

section \<open>The report\<close>

record ClusterWorkloadReport =
  cw_ServerVersion :: string
  cw_SourceType :: string
  cw_SourceName :: string
  cw_CreationTime :: go_time
  cw_Nodes :: "NodeSummary list"
  cw_Namespaces :: "k8s_meta list"
  cw_NamespaceCounts :: "NamespaceCounts list"
  cw_Controllers :: "ControllerResult list"
  cw_Ingresses :: "Ingress list"
  cw_Services :: "wk_Service list"
  cw_PersistentVolumeClaims :: "PersistentVolumeClaim list"
  cw_Images :: "ImageResult list"
  cw_Karpenter :: "Karpenter option"
  cw_GatewayAPI :: "GatewayAPI option"

text \<open>What the servers answer: the two parts of the version, the top controllers with their pods, and lists across all namespaces.\<close>

record work_cluster =
  wc_ServerVersion :: "string + string \<times> string"
  wc_Controllers :: "string + k8s_workload list"
  wc_Nodes :: "string + k8s_node list"
  wc_Pods :: "string + k8s_pod list"
  wc_Namespaces :: "string + k8s_meta list"
  wc_Ingresses :: "string + k8s_ingress list"
  wc_Services :: "string + k8s_service list"
  wc_Claims :: "string + k8s_claim list"
  wc_Quotas :: "string + string list"
  wc_LimitRanges :: "string + string list"
  wc_Policies :: "string + string list"
  wc_Images :: "image_cluster option"
  wc_Crds :: crd_client
  wc_Now :: go_time

text \<open>An error of a required list, with what was being fetched.\<close>

definition wk_required :: "string \<Rightarrow> string + 'a \<Rightarrow> ('a \<Rightarrow> string + 'b) \<Rightarrow> string + 'b" where
  "wk_required what answer k = (case answer of Inl err \<Rightarrow> Inl (what @ '': '' @ err) | Inr x \<Rightarrow> k x)"

definition imagesOrNone :: "image_cluster option \<Rightarrow> k8s_workload list \<Rightarrow> ImageResult list" where
  "imagesOrNone client workloads = (case wk_ListImages client workloads of Inl _ \<Rightarrow> [] | Inr images \<Rightarrow> images)"

text \<open>All of the report but the inventories of custom resources.\<close>

definition requiredParts :: "printer \<Rightarrow> work_cluster \<Rightarrow> string \<Rightarrow> string + ClusterWorkloadReport" where
  "requiredParts show cl clusterName =
     wk_required ''error fetching Cluster API version'' (wc_ServerVersion cl) (\<lambda>(major, minor).
     wk_required ''error while getting all TopControllers'' (wc_Controllers cl) (\<lambda>workloads.
     wk_required ''error fetching Nodes'' (wc_Nodes cl) (\<lambda>nodes.
     wk_required ''error fetching Pods'' (wc_Pods cl) (\<lambda>pods.
     wk_required ''error fetching Namespaces'' (wc_Namespaces cl) (\<lambda>namespaces.
     wk_required ''error fetching ingresses'' (map_sum id (map formatIngress) (wc_Ingresses cl)) (\<lambda>ingresses.
     wk_required ''error fetching services'' (map_sum id (map formatService) (wc_Services cl)) (\<lambda>services.
     wk_required ''error fetching persistentvolumeclaims'' (map_sum id (map (formatPersistentVolumeClaim show)) (wc_Claims cl)) (\<lambda>claims.
       Inr \<lparr>cw_ServerVersion = major @ ''.'' @ minor, cw_SourceType = ''Cluster'', cw_SourceName = clusterName, cw_CreationTime = wc_Now cl,
         cw_Nodes = map (nodeOf pods) nodes, cw_Namespaces = namespaces,
         cw_NamespaceCounts = collectNamespaceCounts (wc_Quotas cl) (wc_LimitRanges cl) (wc_Policies cl) (map km_Name namespaces) pods services ingresses,
         cw_Controllers = map (controllerOf show) workloads, cw_Ingresses = ingresses, cw_Services = services, cw_PersistentVolumeClaims = claims,
         cw_Images = imagesOrNone (wc_Images cl) workloads, cw_Karpenter = None, cw_GatewayAPI = None\<rparr>))))))))"

text \<open>\<^const>\<open>None\<close> if an inventory of custom resources never comes to an end.\<close>

definition CreateResourceProviderFromAPI :: "printer \<Rightarrow> work_cluster \<Rightarrow> string \<Rightarrow> (string + ClusterWorkloadReport) option" where
  "CreateResourceProviderFromAPI show cl clusterName =
     (case requiredParts show cl clusterName of
        Inl err \<Rightarrow> Some (Inl err)
      | Inr report \<Rightarrow>
          Option.bind (listKarpenterInventory (wc_Crds cl)) (\<lambda>karpenter.
          Option.bind (listGatewayAPIInventory (wc_Crds cl)) (\<lambda>gatewayAPI.
            Some (Inr (report\<lparr>cw_Karpenter := karpenter, cw_GatewayAPI := gatewayAPI\<rparr>)))))"

text \<open>
  The program: a fatal error, or nothing more to do, or the report in the output file. The client with the name of the cluster, the marshaller and the two
  steps of writing are arguments; a step gives its error, if any.
\<close>

definition work_main :: "printer \<Rightarrow> (string + work_cluster \<times> string) \<Rightarrow> (ClusterWorkloadReport \<Rightarrow> string + string) \<Rightarrow> string option \<Rightarrow> string option \<Rightarrow>
    string \<Rightarrow> (string + (string \<times> string) option) option" where
  "work_main show client marshal writeErr renameErr outputFile =
     (case client of
        Inl err \<Rightarrow> Some (Inl (''error fetching Kubernetes client: '' @ err))
      | Inr (cl, clusterName) \<Rightarrow>
          Option.bind (CreateResourceProviderFromAPI show cl clusterName) (\<lambda>resources. Some
            (case resources of
               Inl err \<Rightarrow> Inl (''error fetching Kubernetes resources: '' @ err)
             | Inr report \<Rightarrow>
                 (case marshal report of
                    Inl err \<Rightarrow> Inl (''error marshalling audit: '' @ err)
                  | Inr bytes \<Rightarrow>
                      if outputFile = '''' then Inr None
                      else (case writeErr of
                          Some err \<Rightarrow> Inl (''error writing output to file: '' @ err)
                        | None \<Rightarrow>
                            (case renameErr of
                               Some err \<Rightarrow> Inl (''error renaming output file: '' @ err)
                             | None \<Rightarrow> Inr (Some (outputFile, bytes))))))))"

section \<open>Allocation is the sum over the pods\<close>

definition valueAt :: "resource_map \<Rightarrow> string \<Rightarrow> rat" where
  "valueAt m n = (case m n of None \<Rightarrow> 0 | Some q \<Rightarrow> qt_value q)"

definition entriesOf :: "resource_list \<Rightarrow> string \<Rightarrow> rat list" where
  "entriesOf rl n = map (\<lambda>(_, q). qt_value q) (filter (\<lambda>(k, _). k = n) rl)"


lemma valueAt_empty [simp]: "valueAt Map.empty n = 0"
  by (simp add: valueAt_def)

lemma valueAt_addTo [simp]: "valueAt (addTo k q m) n = valueAt m n + (if n = k then qt_value q else 0)"
  by (auto simp: valueAt_def addTo_def addQuantity_def split: option.split)

lemma valueAt_maxTo [simp]: "0 \<le> qt_value q \<Longrightarrow> valueAt (maxTo k q m) n = (if n = k then max (valueAt m n) (qt_value q) else valueAt m n)"
  by (auto simp: valueAt_def maxTo_def max_def split: option.split)

lemma valueAt_addMaps [simp]: "valueAt (addMaps m new) n = valueAt m n + valueAt new n"
  by (auto simp: valueAt_def addMaps_def addTo_def addQuantity_def split: option.split)

lemma entriesOf_Cons [simp]: "entriesOf ((k, q) # rl) n = (if k = n then [qt_value q] else []) @ entriesOf rl n"
  by (simp add: entriesOf_def)







lemma nodeOf_meta [simp]: "ns_meta (nodeOf pods n) = kn_meta n"
  by (simp add: nodeOf_def case_prod_unfold Let_def)

lemma nodeOf_allocated [simp]:
  "ns_Allocated (nodeOf pods n) = \<lparr>na_Requests = nodeTotal (podTotal rq_Requests) (podsScheduledOnNode pods (km_Name (kn_meta n))),
     na_Limits = nodeTotal (podTotal rq_Limits) (podsScheduledOnNode pods (km_Name (kn_meta n)))\<rparr>"
  by (simp add: nodeOf_def case_prod_unfold Let_def getNodeAllocatedResources_def PodRequestsAndLimits_def)













end
