(* ===== verification/Kyverno_Plugin.thy ===== *)
theory Kyverno_Plugin
  imports Json_Value Go_Strings "HOL-Library.List_Lexorder" "HOL-Library.Char_ord"
begin

text \<open>
  The Kyverno plugin: the violations of the policy reports with the titles of their policies, the reports of validating admission policies, the policies
  themselves and the version of Kyverno. \<^const>\<open>None\<close> is a failed type assertion, which ends the program.
\<close>

section \<open>Objects\<close>

text \<open>
  The results of a report are whatever was decoded, or the slice of maps that this program puts in their place; the type assertions tell them apart.
  The other fields of an object are kept as they are.
\<close>

datatype report_results = Decoded json | Replaced "json_object list"

record kyverno_object =
  ko_name :: string
  ko_metadata :: json
  ko_results :: report_results
  ko_rest :: json_object

type_synonym titles = "(string \<times> string \<times> string) list"

definition setField :: "string \<Rightarrow> json \<Rightarrow> json_object \<Rightarrow> json_object" where
  "setField key v m = (if key \<in> set (map fst m) then map (\<lambda>(k, x). (k, if k = key then v else x)) m else m @ [(key, v)])"

definition deleteField :: "string \<Rightarrow> json_object \<Rightarrow> json_object" where
  "deleteField key m = filter (\<lambda>(k, _). k \<noteq> key) m"

fun withoutManaged :: "json \<Rightarrow> json option" where
  "withoutManaged (JObject m) = Some (JObject (deleteField ''managedFields'' m))"
| "withoutManaged _ = None"

section \<open>Violations\<close>

text \<open>A result gets title and description of its policy, if they are known.\<close>

definition titled :: "titles \<Rightarrow> string \<Rightarrow> json_object \<Rightarrow> json_object" where
  "titled titles policy result =
     (case map_of titles policy of
        None \<Rightarrow> result
      | Some (t, d) \<Rightarrow> setField ''policyDescription'' (JString d) (setField ''policyTitle'' (JString t) result))"

definition isViolation :: "json_object \<Rightarrow> bool" where
  "isViolation result \<longleftrightarrow> jget result ''result'' = JString ''fail'' \<or> jget result ''result'' = JString ''warn''"

fun resultViolations :: "titles \<Rightarrow> json list \<Rightarrow> json_object list option" where
  "resultViolations titles [] = Some []"
| "resultViolations titles (JObject result # rs) =
     (case asString (jget result ''result'') of
        None \<Rightarrow> None
      | Some s \<Rightarrow>
          if s \<noteq> ''fail'' \<and> s \<noteq> ''warn'' then resultViolations titles rs
          else (case asString (jget result ''policy'') of
              None \<Rightarrow> None
            | Some policy \<Rightarrow> map_option ((#) (titled titles policy result)) (resultViolations titles rs)))"
| "resultViolations titles (_ # rs) = None"

text \<open>The object is changed in place: its managed fields go, and its results are replaced by the violations, if there are any.\<close>

definition reportViolations :: "titles \<Rightarrow> kyverno_object \<Rightarrow> kyverno_object option" where
  "reportViolations titles p =
     (case withoutManaged (ko_metadata p) of
        None \<Rightarrow> None
      | Some m \<Rightarrow>
          (case ko_results p of
             Decoded (JArray rs) \<Rightarrow>
               (case resultViolations titles rs of
                  None \<Rightarrow> None
                | Some vs \<Rightarrow> Some (if vs = [] then p\<lparr>ko_metadata := m\<rparr> else p\<lparr>ko_metadata := m, ko_results := Replaced vs\<rparr>))
           | _ \<Rightarrow> None))"

definition replaced :: "kyverno_object \<Rightarrow> bool" where
  "replaced p \<longleftrightarrow> (case ko_results p of Replaced _ \<Rightarrow> True | Decoded _ \<Rightarrow> False)"

text \<open>The objects with violations, and all of them as they are afterwards.\<close>

fun traverse :: "('a \<Rightarrow> 'b option) \<Rightarrow> 'a list \<Rightarrow> 'b list option" where
  "traverse f [] = Some []"
| "traverse f (x # xs) = (case f x of None \<Rightarrow> None | Some y \<Rightarrow> map_option ((#) y) (traverse f xs))"

definition filterViolations :: "kyverno_object list \<Rightarrow> titles \<Rightarrow> (kyverno_object list \<times> kyverno_object list) option" where
  "filterViolations policies titles = map_option (\<lambda>ps. (filter replaced ps, ps)) (traverse (reportViolations titles) policies)"

section \<open>Validating admission policies\<close>

definition ofAdmissionPolicy :: "json_object \<Rightarrow> bool" where
  "ofAdmissionPolicy result \<longleftrightarrow> jget result ''result'' \<noteq> JNull \<and> jget result ''source'' = JString ''ValidatingAdmissionPolicy''"

definition admissionReport :: "kyverno_object \<Rightarrow> kyverno_object option option" where
  "admissionReport p =
     (case withoutManaged (ko_metadata p) of
        None \<Rightarrow> None
      | Some m \<Rightarrow>
          (case ko_results p of
             Decoded (JArray rs) \<Rightarrow>
               map_option (\<lambda>objs. let vs = filter ofAdmissionPolicy objs in
                   if vs = [] then None else Some (p\<lparr>ko_metadata := m, ko_results := Replaced vs\<rparr>)) (traverse asObject rs)
           | Replaced _ \<Rightarrow> Some None
           | Decoded _ \<Rightarrow> None))"

definition filterValidationAdmissionPolicyReports :: "kyverno_object list \<Rightarrow> kyverno_object list option" where
  "filterValidationAdmissionPolicyReports policies = map_option (List.map_filter id) (traverse admissionReport policies)"

definition removeManagedFields :: "kyverno_object list \<Rightarrow> kyverno_object list" where
  "removeManagedFields policies =
     map (\<lambda>p. case withoutManaged (ko_metadata p) of None \<Rightarrow> p | Some m \<Rightarrow> p\<lparr>ko_metadata := m\<rparr>) policies"

section \<open>Titles\<close>

definition optionalText :: "json_object \<Rightarrow> string \<Rightarrow> string option" where
  "optionalText m key = (if jget m key = JNull then Some '''' else asString (jget m key))"

fun titlesOf :: "kyverno_object list \<Rightarrow> titles \<Rightarrow> titles option" where
  "titlesOf [] titles = Some titles"
| "titlesOf (p # ps) titles =
     (case ko_metadata p of
        JObject m \<Rightarrow>
          (case map_of m ''annotations'' of
             None \<Rightarrow> titlesOf ps titles
           | Some (JObject a) \<Rightarrow>
               (case (optionalText a ''policies.kyverno.io/title'', optionalText a ''policies.kyverno.io/description'') of
                  (Some t, Some d) \<Rightarrow> titlesOf ps ((ko_name p, t, d) # titles)
                | _ \<Rightarrow> None)
           | Some _ \<Rightarrow> None)
      | _ \<Rightarrow> None)"

text \<open>
  The servers: the resource that a kind is mapped to, and the answers to the lists, numbered in the order in which they are asked for.
\<close>

record kyverno_client =
  kl_ResourceFor :: "string \<Rightarrow> string + string"
  kl_List :: "nat \<Rightarrow> string \<Rightarrow> string + kyverno_object list"

definition ListResources :: "kyverno_client \<Rightarrow> nat \<Rightarrow> string \<Rightarrow> string + kyverno_object list" where
  "ListResources c tick resourceType =
     (case kl_ResourceFor c resourceType of Inl err \<Rightarrow> Inl err | Inr gvr \<Rightarrow> kl_List c tick gvr)"

definition createPoliciesTitleAndDescriptionMap :: "kyverno_client \<Rightarrow> nat \<Rightarrow> string \<Rightarrow> (string + titles) option" where
  "createPoliciesTitleAndDescriptionMap c tick resourceType =
     (case ListResources c tick resourceType of Inl err \<Rightarrow> Some (Inl err) | Inr ps \<Rightarrow> map_option Inr (titlesOf ps []))"

section \<open>The version\<close>

definition imageRefWithoutDigest :: "string \<Rightarrow> string" where
  "imageRefWithoutDigest ref =
     (let s = TrimSpace ref in case IndexByte s (CHR ''@'') of Some i \<Rightarrow> take i s | None \<Rightarrow> s)"

definition extractVersionFromImage :: "string \<Rightarrow> string" where
  "extractVersionFromImage ref =
     (let s = imageRefWithoutDigest ref in
      if s = '''' then ''''
      else (case LastIndexByte s (CHR '':'') of
          None \<Rightarrow> ''''
        | Some i \<Rightarrow> if i + 1 \<ge> length s then '''' else TrimSpace (drop (i + 1) s)))"

definition firstNonEmpty :: "string list \<Rightarrow> string" where
  "firstNonEmpty ss = (case filter (\<lambda>s. s \<noteq> '''') ss of [] \<Rightarrow> '''' | s # _ \<Rightarrow> s)"

text \<open>Containers are pairs of name and image, deployments pairs of name and containers.\<close>

definition kyvernoVersionFromContainers :: "(string \<times> string) list \<Rightarrow> string" where
  "kyvernoVersionFromContainers containers =
     firstNonEmpty
       (map (\<lambda>(_, ref). extractVersionFromImage ref) (filter (\<lambda>(name, _). name = ''kyverno'') containers) @
        map (\<lambda>(_, ref). extractVersionFromImage ref)
          (filter (\<lambda>(_, ref). Contains (ToLower (imageRefWithoutDigest ref)) ''kyverno/kyverno'') containers))"

type_synonym deployment_lister = "string \<Rightarrow> string + (string \<times> (string \<times> string) list) list"

definition detectKyvernoVersionInNamespace :: "deployment_lister \<Rightarrow> string \<Rightarrow> string" where
  "detectKyvernoVersionInNamespace deployments namespace =
     (case deployments namespace of
        Inl _ \<Rightarrow> ''''
      | Inr items \<Rightarrow> firstNonEmpty (map (\<lambda>(_, containers). kyvernoVersionFromContainers containers) (sort_key fst items)))"

definition detectKyvernoVersion :: "deployment_lister \<Rightarrow> string" where
  "detectKyvernoVersion deployments = firstNonEmpty (map (detectKyvernoVersionInNamespace deployments) [''kyverno'', ''kyverno-system''])"

section \<open>The program\<close>

record kyverno_output =
  kv_kyvernoVersion :: string
  kv_policyReports :: "kyverno_object list"
  kv_clusterPolicyReports :: "kyverno_object list"
  kv_validatingAdmissionPolicyReports :: "kyverno_object list"
  kv_validatingAdmissionPolicies :: "kyverno_object list"
  kv_clusterPolicies :: "kyverno_object list"

text \<open>A step of the program: its error is fatal, with what was being done.\<close>

definition orFatal :: "string \<Rightarrow> (string + 'a) option \<Rightarrow> ('a \<Rightarrow> (string + 'b) option) \<Rightarrow> (string + 'b) option" where
  "orFatal what x k = (case x of None \<Rightarrow> None | Some (Inl err) \<Rightarrow> Some (Inl (what @ err)) | Some (Inr y) \<Rightarrow> k y)"

definition kyverno_main :: "deployment_lister \<Rightarrow> (string + kyverno_client) \<Rightarrow> (string + kyverno_output) option" where
  "kyverno_main deployments client =
     orFatal ''Error getting kube client: '' (Some client) (\<lambda>c.
     orFatal ''Error creating policies title and description map: '' (createPoliciesTitleAndDescriptionMap c 0 ''ClusterPolicy'') (\<lambda>clusterTitles.
     orFatal ''Error listing policy reports: '' (Some (ListResources c 1 ''PolicyReport'')) (\<lambda>policyReports.
     orFatal ''Error creating policies title and description map: '' (createPoliciesTitleAndDescriptionMap c 2 ''PolicyReport'') (\<lambda>reportTitles.
     orFatal ''Error listing cluster policy reports: '' (Some (ListResources c 3 ''ClusterPolicyReport'')) (\<lambda>clusterPolicyReports.
     orFatal '''' (map_option Inr (filterViolations policyReports reportTitles)) (\<lambda>(violations, changedReports).
     orFatal '''' (map_option Inr (filterViolations clusterPolicyReports clusterTitles)) (\<lambda>(clusterViolations, _).
     orFatal '''' (map_option Inr (filterValidationAdmissionPolicyReports changedReports)) (\<lambda>admissionReports.
     orFatal ''Error listing validating admission policies: '' (Some (ListResources c 4 ''ValidatingAdmissionPolicy'')) (\<lambda>admissionPolicies.
     orFatal ''Error listing cluster policies: '' (Some (ListResources c 5 ''ClusterPolicy'')) (\<lambda>clusterPolicies.
       Some (Inr \<lparr>kv_kyvernoVersion = detectKyvernoVersion deployments, kv_policyReports = violations, kv_clusterPolicyReports = clusterViolations,
         kv_validatingAdmissionPolicyReports = admissionReports, kv_validatingAdmissionPolicies = removeManagedFields admissionPolicies,
         kv_clusterPolicies = removeManagedFields clusterPolicies\<rparr>)))))))))))"

section \<open>What is reported\<close>

definition resultsOf :: "kyverno_object \<Rightarrow> json_object list" where
  "resultsOf p = (case ko_results p of Decoded (JArray rs) \<Rightarrow> List.map_filter asObject rs | _ \<Rightarrow> [])"

definition hasViolation :: "kyverno_object \<Rightarrow> bool" where
  "hasViolation p \<longleftrightarrow> list_ex isViolation (resultsOf p)"

definition hasAdmission :: "kyverno_object \<Rightarrow> bool" where
  "hasAdmission p \<longleftrightarrow> list_ex ofAdmissionPolicy (resultsOf p)"

lemma traverse_Some: "traverse f xs = Some ys \<longleftrightarrow> list_all2 (\<lambda>x y. f x = Some y) xs ys"
proof (induction xs arbitrary: ys)
  case (Cons x xs)
  then show ?case by (cases ys) (auto split: option.splits)
qed auto

lemma traverse_objects: "traverse asObject rs = Some objs \<Longrightarrow> objs = List.map_filter asObject rs"
  by (induction rs arbitrary: objs) (auto simp: List.map_filter_simps split: option.splits)

lemma resultViolations_empty:
  "resultViolations titles rs = Some vs \<Longrightarrow> vs = [] \<longleftrightarrow> \<not> list_ex isViolation (List.map_filter asObject rs)"
proof (induction titles rs arbitrary: vs rule: resultViolations.induct)
  case (2 titles result rs)
  then show ?case
    by (cases "jget result ''result''"; cases "jget result ''policy''") (auto simp: List.map_filter_simps isViolation_def split: if_splits)
qed (auto simp: List.map_filter_simps)

lemma reportViolations_result:
  assumes "reportViolations titles p = Some q"
  shows "ko_name q = ko_name p" "replaced q \<longleftrightarrow> hasViolation p" "\<not> replaced q \<Longrightarrow> resultsOf q = resultsOf p"
  using assms
  by (auto simp: reportViolations_def replaced_def hasViolation_def resultsOf_def resultViolations_empty
      split: option.splits report_results.splits json.splits if_splits)

lemma admissionReport_result:
  assumes "admissionReport q = Some r"
  shows "map_option ko_name r = (if \<not> replaced q \<and> hasAdmission q then Some (ko_name q) else None)"
  using assms
  by (auto simp: admissionReport_def replaced_def hasAdmission_def resultsOf_def Let_def list_ex_iff filter_empty_conv dest!: traverse_objects
      split: option.splits report_results.splits json.splits if_splits)

lemma violations_named:
  assumes "list_all2 (\<lambda>p q. reportViolations titles p = Some q) ps qs"
  shows "map ko_name (filter replaced qs) = map ko_name (filter hasViolation ps)"
  using assms by induction (auto simp: reportViolations_result)

lemma admission_named:
  assumes "list_all2 (\<lambda>p q. reportViolations titles p = Some q) ps qs" "list_all2 (\<lambda>q r. admissionReport q = Some r) qs rs"
  shows "map ko_name (List.map_filter id rs) = map ko_name (filter (\<lambda>p. \<not> hasViolation p \<and> hasAdmission p) ps)"
  using assms
proof (induction arbitrary: rs rule: list_all2_induct)
  case (Cons p ps q qs)
  then obtain r rs' where rs: "rs = r # rs'" and r: "admissionReport q = Some r" and rest: "list_all2 (\<lambda>q r. admissionReport q = Some r) qs rs'"
    by (auto simp: list_all2_Cons1)
  have n: "map_option ko_name r = (if \<not> hasViolation p \<and> hasAdmission p then Some (ko_name p) else None)"
    using admissionReport_result [OF r] reportViolations_result [OF Cons.hyps(1)] by (auto simp: hasAdmission_def)
  show ?case using Cons.IH [OF rest] n by (cases r) (auto simp: rs List.map_filter_simps split: if_splits)
qed (simp add: List.map_filter_simps)

lemma orFatal_Some: "orFatal what x k = Some (Inr y) \<longleftrightarrow> (\<exists>z. x = Some (Inr z) \<and> k z = Some (Inr y))"
  by (auto simp: orFatal_def split: option.split sum.split)

text \<open>
  C0: The plugin reports exactly the policy reports with a failed or warned result as violations. Because it has then replaced their results, the reports of
  validating admission policies are only the ones without any such result: one that has found something is left out of them.
\<close>
theorem admission_violations_left_out:
  assumes "kyverno_main deployments (Inr c) = Some (Inr out)" "ListResources c 1 ''PolicyReport'' = Inr reports"
  shows "map ko_name (kv_policyReports out) = map ko_name (filter hasViolation reports) \<and>
    map ko_name (kv_validatingAdmissionPolicyReports out) = map ko_name (filter (\<lambda>p. \<not> hasViolation p \<and> hasAdmission p) reports)"
proof -
  obtain titles vs changed adm where v: "filterViolations reports titles = Some (vs, changed)"
    and a: "filterValidationAdmissionPolicyReports changed = Some adm"
    and out: "kv_policyReports out = vs" "kv_validatingAdmissionPolicyReports out = adm"
    using assms by (fastforce simp: kyverno_main_def orFatal_Some)
  have ps: "list_all2 (\<lambda>p q. reportViolations titles p = Some q) reports changed" and vs: "vs = filter replaced changed"
    using v by (auto simp: filterViolations_def traverse_Some)
  obtain rs where rs: "list_all2 (\<lambda>q r. admissionReport q = Some r) changed rs" and adm: "adm = List.map_filter id rs"
    using a by (auto simp: filterValidationAdmissionPolicyReports_def traverse_Some)
  show ?thesis unfolding out vs adm using violations_named [OF ps] admission_named [OF ps rs] by simp
qed

text \<open>Two reports of one admission policy, of which one has failed.\<close>

definition demo_report :: "string \<Rightarrow> string \<Rightarrow> kyverno_object" where
  "demo_report name outcome = \<lparr>ko_name = name, ko_metadata = JObject [(''name'', JString name)],
     ko_results = Decoded (JArray [JObject [(''result'', JString outcome), (''policy'', JString ''p''), (''source'', JString ''ValidatingAdmissionPolicy'')]]),
     ko_rest = []\<rparr>"

definition demo_kyverno :: kyverno_client where
  "demo_kyverno = \<lparr>kl_ResourceFor = Inr, kl_List = (\<lambda>tick gvr. Inr (if gvr = ''PolicyReport'' then [demo_report ''a'' ''fail'', demo_report ''b'' ''pass''] else []))\<rparr>"

definition demo_out :: kyverno_output where
  "demo_out = (case kyverno_main (\<lambda>_. Inr []) (Inr demo_kyverno) of Some (Inr out) \<Rightarrow> out)"

lemma demo_kyverno_runs: "kyverno_main (\<lambda>_. Inr []) (Inr demo_kyverno) = Some (Inr demo_out)"
  unfolding demo_out_def by code_simp

theorem admission_violations_left_out_witness:
  "map ko_name (kv_policyReports demo_out) = [''a''] \<and> map ko_name (kv_validatingAdmissionPolicyReports demo_out) = [''b'']"
proof -
  have l: "ListResources demo_kyverno 1 ''PolicyReport'' = Inr [demo_report ''a'' ''fail'', demo_report ''b'' ''pass'']"
    by (simp add: ListResources_def demo_kyverno_def)
  show ?thesis using admission_violations_left_out [OF demo_kyverno_runs l]
    by (simp add: hasViolation_def hasAdmission_def resultsOf_def demo_report_def isViolation_def ofAdmissionPolicy_def List.map_filter_simps)
qed

text \<open>The port of a registry passes for the version of an image without a tag.\<close>

theorem registry_port_is_no_version: "kyvernoVersionFromContainers [(''kyverno'', ''mirror:5000/kyverno'')] = ''5000/kyverno''"
  by code_simp

end
