(* ===== verification/Falco_Agent.thy ===== *)
theory Falco_Agent
  imports Json_Value Go_Path
begin

text \<open>
  The Falco agent: events come in over HTTP, get their controller and container, and are written to one file each; the report collects the files of the
  last day and deletes older ones. JSON, Kubernetes and the lookup of controllers are arguments.
\<close>

section \<open>Files\<close>

record falco_file =
  ff_content :: string
  ff_modTime :: go_time
  ff_isDir :: bool

type_synonym falco_fs = "string \<rightharpoonup> falco_file"

text \<open>\<^verbatim>\<open>strings.SplitN(s, sep, 2)\<close> at a one-byte separator.\<close>

definition splitTwo :: "char \<Rightarrow> string \<Rightarrow> string \<times> string option" where
  "splitTwo c s = (case IndexByte s c of None \<Rightarrow> (s, None) | Some i \<Rightarrow> (take i s, Some (drop (i + 1) s)))"

definition incrementString :: "string \<Rightarrow> int \<Rightarrow> string" where
  "incrementString str first =
     (if str = '''' then ''''
      else let (name, ext) = splitTwo (CHR ''.'') str;
               extension = (case ext of None \<Rightarrow> '''' | Some e \<Rightarrow> CHR ''.'' # e);
               n = (if first \<le> 0 then 1 else first) in
        (case splitTwo (CHR ''_'') name of
           (stem, None) \<Rightarrow> stem @ ''_'' @ showInt n @ extension
         | (stem, Some num) \<Rightarrow>
             (case Atoi num of Inl _ \<Rightarrow> '''' | Inr i \<Rightarrow> stem @ ''_'' @ showInt (wrap64 (i + n)) @ extension)))"

text \<open>The loop ends with the first name that no file has; \<^const>\<open>None\<close> if there is none.\<close>

partial_function (option) uniqueFrom :: "(string \<Rightarrow> bool) \<Rightarrow> string \<Rightarrow> int \<Rightarrow> string option" where
  "uniqueFrom exists_file name i = (if exists_file name then uniqueFrom exists_file (incrementString name i) (i + 1) else Some name)"

definition UniqueFilename :: "(string \<Rightarrow> bool) \<Rightarrow> string \<Rightarrow> string option" where
  "UniqueFilename exists_file f = (if f = '''' then Some f else uniqueFrom exists_file f 0)"

section \<open>Events\<close>

record falco_event =
  fe_PodName :: string
  fe_Container :: string
  fe_ControllerNamespace :: string
  fe_ControllerName :: string
  fe_ControllerKind :: string
  fe_UUID :: string
  fe_Output :: string
  fe_Priority :: string
  fe_Rule :: string
  fe_Time :: go_time
  fe_OutputFields :: json_object

text \<open>
  What the handler asks of its surroundings: the body, its decoding, a pod of a namespace, the top controller of a pod with name and kind, the containers
  of a pod with name and image, encoding, the error of writing a file, the time.
\<close>

record 'pod falco_env =
  fv_unmarshal :: "string \<Rightarrow> string + falco_event"
  fv_GetPodByPodName :: "string \<Rightarrow> string \<Rightarrow> string + 'pod"
  fv_GetTopController :: "'pod \<Rightarrow> string + string \<times> string"
  fv_containers :: "'pod \<Rightarrow> string + (string \<times> string) list"
  fv_marshal :: "falco_event \<Rightarrow> string + string"
  fv_WriteFile :: "string \<Rightarrow> string option"
  fv_now :: go_time

text \<open>The answer of a handler: a status with the body.\<close>

type_synonym http_answer = "nat \<times> string"

text \<open>\<^verbatim>\<open>fields[key].(string)\<close> if it is there; another type makes the handler panic.\<close>

definition fieldText :: "json_object \<Rightarrow> string \<Rightarrow> string option" where
  "fieldText m key = (if jget m key = JNull then Some '''' else asString (jget m key))"

definition lastContainer :: "string \<Rightarrow> (string \<times> string) list \<Rightarrow> string \<Rightarrow> string" where
  "lastContainer repository containers none =
     foldl (\<lambda>acc (name, ref). if HasPrefix ref repository then name else acc) none containers"

definition failed :: "string \<Rightarrow> http_answer" where "failed err = (500, err)"

text \<open>The last part, from the enriched event on: the name is chosen among the files of the working directory.\<close>

definition storeEvent :: "'pod falco_env \<Rightarrow> falco_fs \<Rightarrow> falco_event \<Rightarrow> (http_answer \<times> falco_fs) option" where
  "storeEvent env fs e =
     (case fv_marshal env e of
        Inl err \<Rightarrow> Some (failed err, fs)
      | Inr payload \<Rightarrow>
          map_option (\<lambda>filename.
              let outputFile = pathJoin [''/output'', filename] in
              (case fv_WriteFile env outputFile of
                 Some err \<Rightarrow> (failed err, fs)
               | None \<Rightarrow> ((200, ''{\"status\": \"ok\"}''),
                   fs(outputFile \<mapsto> \<lparr>ff_content = payload, ff_modTime = fv_now env, ff_isDir = False\<rparr>))))
            (UniqueFilename (\<lambda>f. fs f \<noteq> None) (showInt (fv_now env) @ ''.json'')))"

definition enrichFalco :: "falco_event \<Rightarrow> string \<Rightarrow> string \<Rightarrow> string \<times> string \<Rightarrow> (string \<times> string) list \<Rightarrow> string \<Rightarrow> falco_event" where
  "enrichFalco e namespace podName controller containers repository =
     e\<lparr>fe_ControllerName := fst controller, fe_ControllerKind := snd controller, fe_ControllerNamespace := namespace, fe_PodName := podName,
       fe_Container := lastContainer repository containers (fe_Container e)\<rparr>"

definition inputDataHandler :: "'pod falco_env \<Rightarrow> string + string \<Rightarrow> falco_fs \<Rightarrow> (http_answer \<times> falco_fs) option" where
  "inputDataHandler env body fs =
     (case body of
        Inl err \<Rightarrow> Some (failed err, fs)
      | Inr bytes \<Rightarrow>
     (case fv_unmarshal env bytes of
        Inl err \<Rightarrow> Some (failed err, fs)
      | Inr e \<Rightarrow>
     (case (fieldText (fe_OutputFields e) ''k8s.ns.name'', fieldText (fe_OutputFields e) ''k8s.pod.name'',
            fieldText (fe_OutputFields e) ''container.image.repository'') of
        (Some namespace, Some podName, Some repository) \<Rightarrow>
          if namespace = '''' \<or> podName = '''' then Some (failed ''Failed to get namespace or podName'', fs)
          else
            (case fv_GetPodByPodName env namespace podName of
               Inl err \<Rightarrow> Some (failed err, fs)
             | Inr pod \<Rightarrow>
            (case fv_GetTopController env pod of
               Inl err \<Rightarrow> Some (failed err, fs)
             | Inr controller \<Rightarrow>
            (case fv_containers env pod of
               Inl err \<Rightarrow> Some (failed err, fs)
             | Inr containers \<Rightarrow> storeEvent env fs (enrichFalco e namespace podName controller containers repository))))
      | _ \<Rightarrow> None)))"

section \<open>The report\<close>

definition isLessThan24hrs :: "go_time \<Rightarrow> go_time \<Rightarrow> bool" where
  "isLessThan24hrs now t \<longleftrightarrow> timeSub now t < 24 * 60 * 60 * 1000000000"

text \<open>Reading a directory as a file fails. Removing may fail, for instance for a directory that is not empty.\<close>

definition readDataFromFile :: "(string \<Rightarrow> string + falco_event) \<Rightarrow> falco_file \<Rightarrow> string + falco_event" where
  "readDataFromFile unmarshal f = (if ff_isDir f then Inl ''is a directory'' else unmarshal (ff_content f))"

record falco_disk =
  fd_fs :: falco_fs
  fd_removeErr :: "string \<Rightarrow> string option"

text \<open>
  The loop over the entries of the directory, with its named result \<^verbatim>\<open>err\<close>: it stays set after a file that cannot be read, until the next
  entry is looked at. Every entry passes the test for regular files, since the permission bits of its type are empty.
\<close>

fun aggregateLoop :: "(string \<Rightarrow> string + falco_event) \<Rightarrow> go_time \<Rightarrow> (string \<Rightarrow> string option) \<Rightarrow> string list \<Rightarrow> falco_fs \<Rightarrow> string option \<Rightarrow>
    falco_event list \<Rightarrow> string option \<times> falco_event list \<times> falco_fs" where
  "aggregateLoop unmarshal now removeErr [] fs err acc = (err, acc, fs)"
| "aggregateLoop unmarshal now removeErr (filename # rest) fs err acc =
     (case fs filename of
        None \<Rightarrow> (Some ''file does not exist'', acc, fs)
      | Some f \<Rightarrow>
          if isLessThan24hrs now (ff_modTime f)
          then (case readDataFromFile unmarshal f of
              Inl e \<Rightarrow> aggregateLoop unmarshal now removeErr rest fs (Some e) acc
            | Inr out \<Rightarrow> aggregateLoop unmarshal now removeErr rest fs None (acc @ [out]))
          else (case removeErr filename of
              Some e \<Rightarrow> (Some e, acc, fs)
            | None \<Rightarrow> aggregateLoop unmarshal now removeErr rest (fs(filename := None)) None acc))"

definition Aggregate24hrsData :: "(string \<Rightarrow> string + falco_event) \<Rightarrow> go_time \<Rightarrow> falco_disk \<Rightarrow> string + string list \<Rightarrow> string \<Rightarrow>
    string option \<times> falco_event list \<times> falco_fs" where
  "Aggregate24hrsData unmarshal now disk entries dir =
     (case entries of
        Inl err \<Rightarrow> (Some err, [], fd_fs disk)
      | Inr names \<Rightarrow> aggregateLoop unmarshal now (fd_removeErr disk) (map (\<lambda>n. pathJoin [dir, n]) names) (fd_fs disk) None [])"

definition outputDataHandler :: "(string \<Rightarrow> string + falco_event) \<Rightarrow> (falco_event list \<Rightarrow> string + string) \<Rightarrow> go_time \<Rightarrow> falco_disk \<Rightarrow> string + string list \<Rightarrow>
    http_answer \<times> falco_fs" where
  "outputDataHandler unmarshal marshal now disk entries =
     (case Aggregate24hrsData unmarshal now disk entries ''/output'' of
        (Some err, _, fs) \<Rightarrow> (failed err, fs)
      | (None, payload, fs) \<Rightarrow> (case marshal payload of Inl err \<Rightarrow> (failed err, fs) | Inr data \<Rightarrow> ((200, data), fs)))"

section \<open>Numbers are read as they are printed\<close>

lemma digitsVal_append: "digitsVal acc (s @ [c]) = digitsVal acc s * 10 + (of_char c - 48)"
  by (induction s arbitrary: acc) auto

lemma digitChar_digit: "d < 10 \<Longrightarrow> isDigit (digitChar d) \<and> of_char (digitChar d) = (48 + d :: nat)"
  by (simp add: isDigit_def digitChar_def)

lemma showNat_digits: "list_all isDigit (showNat n) \<and> digitsVal 0 (showNat n) = n \<and> showNat n \<noteq> []"
proof (induction n rule: showNat.induct)
  case (1 n)
  show ?case
  proof (cases "n < 10")
    case True
    then show ?thesis using digitChar_digit [OF True] by (simp add: showNat.simps [of n])
  next
    case False
    have d: "isDigit (digitChar (n mod 10)) \<and> of_char (digitChar (n mod 10)) = (48 + n mod 10 :: nat)" by (rule digitChar_digit) simp
    show ?thesis unfolding showNat.simps [of n] using False 1 [OF False] d by (simp add: digitsVal_append)
  qed
qed

lemma digit_not: "isDigit c \<Longrightarrow> c \<noteq> CHR ''-'' \<and> c \<noteq> CHR ''+'' \<and> c \<noteq> CHR ''.'' \<and> c \<noteq> CHR ''_''"
  by (auto simp: isDigit_def)

lemma Atoi_showNat:
  assumes "n < 2 ^ 63"
  shows "Atoi (showNat n) = Inr (int n)"
proof -
  have s: "list_all isDigit (showNat n)" "digitsVal 0 (showNat n) = n" "showNat n \<noteq> []" using showNat_digits by auto
  then have "hd (showNat n) \<noteq> CHR ''-''" "hd (showNat n) \<noteq> CHR ''+''" using digit_not [of "hd (showNat n)"] by (auto simp: list_all_iff)
  moreover have "parseUintLoop (showNat n) 0 = Inr n" using parseUintLoop_digits [OF s(1), of 0] s(2) assms by simp
  ultimately show ?thesis using s(3) assms by (simp add: Atoi_def ParseInt_def)
qed

section \<open>A free name is found\<close>

definition numbered :: "string \<Rightarrow> nat \<Rightarrow> string" where
  "numbered stem k = stem @ ''_'' @ showNat k @ ''.json''"

lemma showNat_avoids: "CHR ''.'' \<notin> set (showNat n)" "CHR ''_'' \<notin> set (showNat n)"
  using showNat_digits [of n] digit_not by (auto simp: list_all_iff)

lemma numbered_inj: "numbered stem k = numbered stem k' \<longleftrightarrow> k = k'"
proof
  assume "numbered stem k = numbered stem k'"
  then have "digitsVal 0 (showNat k) = digitsVal 0 (showNat k')" by (simp add: numbered_def)
  then show "k = k'" using showNat_digits by simp
qed simp

lemma splitTwo_append: "c \<notin> set s \<Longrightarrow> splitTwo c (s @ c # t) = (s, Some t)"
  by (simp add: splitTwo_def IndexByte_append)

lemma splitTwo_none: "c \<notin> set s \<Longrightarrow> splitTwo c s = (s, None)"
  using IndexByte_None_iff [of s c] by (simp add: splitTwo_def)

lemma increment_plain:
  assumes "stem \<noteq> ''''" "CHR ''.'' \<notin> set stem" "CHR ''_'' \<notin> set stem"
  shows "incrementString (stem @ ''.json'') 0 = numbered stem 1"
  using assms by (simp add: incrementString_def splitTwo_append splitTwo_none numbered_def showInt_def)

lemma increment_numbered:
  assumes "CHR ''.'' \<notin> set stem" "CHR ''_'' \<notin> set stem" "k + i < 2 ^ 63" "0 < i"
  shows "incrementString (numbered stem k) (int i) = numbered stem (k + i)"
proof -
  have dot: "CHR ''.'' \<notin> set (stem @ ''_'' @ showNat k)" using assms(1) showNat_avoids by simp
  have n: "numbered stem k = (stem @ ''_'' @ showNat k) @ CHR ''.'' # ''json''" by (simp add: numbered_def)
  have w: "wrap64 (int k + int i) = int (k + i)" using assms(3) by (subst wrap64_id) (auto simp: minInt64_def maxInt64_def)
  have u: "splitTwo (CHR ''_'') (stem @ ''_'' @ showNat k) = (stem, Some (showNat k))" using splitTwo_append [OF assms(2), of "showNat k"] by simp
  show ?thesis unfolding incrementString_def n splitTwo_append [OF dot]
    using assms(3,4) u w Atoi_showNat [of k] by (simp add: numbered_def showInt_def nat_add_distrib)
qed

text \<open>From a number on, the loop ends at a number that no file has: the files that are left to pass become fewer.\<close>

lemma uniqueFrom_numbered:
  assumes "CHR ''.'' \<notin> set stem" "CHR ''_'' \<notin> set stem" "finite S" "\<And>f. exists_file f \<longleftrightarrow> f \<in> S"
    and "0 < i" "k \<le> i * i" "i + card {f \<in> S. \<exists>j \<ge> k. f = numbered stem j} < 2 ^ 31"
  shows "\<exists>j \<ge> k. uniqueFrom exists_file (numbered stem k) (int i) = Some (numbered stem j) \<and> \<not> exists_file (numbered stem j)"
  using assms(5-7)
proof (induction "card {f \<in> S. \<exists>j \<ge> k. f = numbered stem j}" arbitrary: i k rule: less_induct)
  case less
  show ?case
  proof (cases "exists_file (numbered stem k)")
    case False
    then show ?thesis by (subst uniqueFrom.simps) auto
  next
    case True
    have i: "i < 2 ^ 31" using less.prems(3) by simp
    then have "i * i < 2 ^ 31 * 2 ^ 31" by (intro mult_strict_mono) auto
    then have small: "k + i < 2 ^ 63" using less.prems(2) i by simp
    have sub: "{f \<in> S. \<exists>j \<ge> k + i. f = numbered stem j} \<subset> {f \<in> S. \<exists>j \<ge> k. f = numbered stem j}"
    proof (rule psubsetI)
      show "{f \<in> S. \<exists>j \<ge> k + i. f = numbered stem j} \<subseteq> {f \<in> S. \<exists>j \<ge> k. f = numbered stem j}" by (blast intro: add_leD1)
      have "numbered stem k \<in> {f \<in> S. \<exists>j \<ge> k. f = numbered stem j}" using True assms(4) by blast
      moreover have "numbered stem k \<notin> {f \<in> S. \<exists>j \<ge> k + i. f = numbered stem j}" using less.prems(1) by (auto simp: numbered_inj)
      ultimately show "{f \<in> S. \<exists>j \<ge> k + i. f = numbered stem j} \<noteq> {f \<in> S. \<exists>j \<ge> k. f = numbered stem j}" by blast
    qed
    then have fewer: "card {f \<in> S. \<exists>j \<ge> k + i. f = numbered stem j} < card {f \<in> S. \<exists>j \<ge> k. f = numbered stem j}"
      using assms(3) by (intro psubset_card_mono) auto
    have "k + i \<le> (i + 1) * (i + 1)" using less.prems(2) by simp
    then obtain j where j: "j \<ge> k + i" "uniqueFrom exists_file (numbered stem (k + i)) (int (i + 1)) = Some (numbered stem j)" "\<not> exists_file (numbered stem j)"
      using less.hyps [OF fewer, of "i + 1"] fewer less.prems(3) by auto
    have "uniqueFrom exists_file (numbered stem k) (int i) = uniqueFrom exists_file (numbered stem (k + i)) (int (i + 1))"
      using True increment_numbered [OF assms(1,2) small less.prems(1)] by (subst uniqueFrom.simps) (simp add: add.commute)
    then show ?thesis using j by (intro exI [of _ j]) auto
  qed
qed

lemma unique_free:
  assumes "finite (dom fs)" "card (dom fs) < 2 ^ 30"
  shows "\<exists>name. UniqueFilename (\<lambda>f. fs f \<noteq> None) (showNat n @ ''.json'') = Some name \<and> fs name = None"
proof (cases "fs (showNat n @ ''.json'')")
  case None
  then show ?thesis by (simp add: UniqueFilename_def uniqueFrom.simps)
next
  case (Some f)
  let ?ex = "\<lambda>f. fs f \<noteq> None" and ?s = "showNat n"
  have "card {f \<in> dom fs. \<exists>j \<ge> 1. f = numbered ?s j} \<le> card (dom fs)" using assms(1) by (intro card_mono) auto
  then have c: "1 + card {f \<in> dom fs. \<exists>j \<ge> 1. f = numbered ?s j} < 2 ^ 31" using assms(2) by simp
  have d: "fs f \<noteq> None \<longleftrightarrow> f \<in> dom fs" for f by (simp add: dom_def)
  obtain j where j: "uniqueFrom ?ex (numbered ?s 1) (int 1) = Some (numbered ?s j)" "fs (numbered ?s j) = None"
    using uniqueFrom_numbered [OF showNat_avoids assms(1) d _ _ c] by auto
  have "uniqueFrom ?ex (?s @ ''.json'') 0 = uniqueFrom ?ex (numbered ?s 1) (int 1)"
    using Some increment_plain [of ?s] showNat_digits [of n] showNat_avoids by (subst uniqueFrom.simps) simp
  then show ?thesis using j by (auto simp: UniqueFilename_def)
qed

definition storedFile :: "'pod falco_env \<Rightarrow> string \<Rightarrow> falco_file" where
  "storedFile env payload = \<lparr>ff_content = payload, ff_modTime = fv_now env, ff_isDir = False\<rparr>"

text \<open>
  C0: Storing an event always ends: it finds a name that no file of the working directory has and writes the event under this name in the output directory.
  A file that is there already under this name is overwritten, and that is looked for in the wrong directory: if the working directory has no file named
  after the time, the event of the same time is lost.
\<close>
theorem event_stored:
  assumes "fv_marshal env e = Inr payload" "\<forall>p. fv_WriteFile env p = None" "0 \<le> fv_now env" "finite (dom fs)" "card (dom fs) < 2 ^ 30"
  shows "\<exists>name. fs name = None \<and>
    map_option snd (storeEvent env fs e) = Some (fs(pathJoin [''/output'', name] \<mapsto> storedFile env payload)) \<and>
    (fs (showInt (fv_now env) @ ''.json'') = None \<longrightarrow> name = showInt (fv_now env) @ ''.json'')"
proof -
  have s: "showInt (fv_now env) = showNat (nat (fv_now env))" using assms(3) by (simp add: showInt_def)
  obtain name where name: "UniqueFilename (\<lambda>f. fs f \<noteq> None) (showInt (fv_now env) @ ''.json'') = Some name" "fs name = None"
    using unique_free [OF assms(4,5)] unfolding s by blast
  have "name = showInt (fv_now env) @ ''.json''" if "fs (showInt (fv_now env) @ ''.json'') = None"
    using name(1) that by (simp add: UniqueFilename_def uniqueFrom.simps)
  then show ?thesis using assms(1,2) name by (intro exI [of _ name]) (simp add: storeEvent_def storedFile_def)
qed

text \<open>An event at the time of one that is stored already.\<close>

definition demo_falco_event :: falco_event where
  "demo_falco_event = \<lparr>fe_PodName = '''', fe_Container = '''', fe_ControllerNamespace = '''', fe_ControllerName = '''', fe_ControllerKind = '''', fe_UUID = '''',
     fe_Output = ''shell'', fe_Priority = '''', fe_Rule = '''', fe_Time = 0, fe_OutputFields = []\<rparr>"

definition demo_falco :: "string falco_env" where
  "demo_falco = \<lparr>fv_unmarshal = (\<lambda>s. if s = ''{'' then Inl ''EOF'' else Inr demo_falco_event), fv_GetPodByPodName = (\<lambda>_ _. Inr ''pod''),
     fv_GetTopController = (\<lambda>_. Inr (''web'', ''Deployment'')), fv_containers = (\<lambda>_. Inr []), fv_marshal = (\<lambda>e. Inr (fe_Output e)),
     fv_WriteFile = (\<lambda>_. None), fv_now = 7\<rparr>"

definition demo_falco_fs :: falco_fs where
  "demo_falco_fs = [''/output/7.json'' \<mapsto> storedFile demo_falco ''first'']"

theorem event_stored_witness:
  "\<exists>fs'. map_option snd (storeEvent demo_falco demo_falco_fs demo_falco_event) = Some fs' \<and>
     map_option ff_content (demo_falco_fs ''/output/7.json'') = Some ''first'' \<and> map_option ff_content (fs' ''/output/7.json'') = Some ''shell''"
proof -
  have n: "showInt (fv_now demo_falco) @ ''.json'' = ''7.json''" by (simp add: demo_falco_def) code_simp
  have p: "pathJoin [''/output'', ''7.json''] = ''/output/7.json''" by code_simp
  have "fv_marshal demo_falco demo_falco_event = Inr ''shell''" "\<forall>p. fv_WriteFile demo_falco p = None" "0 \<le> fv_now demo_falco"
    and "finite (dom demo_falco_fs)" "card (dom demo_falco_fs) < 2 ^ 30"
    by (simp_all add: demo_falco_def demo_falco_event_def demo_falco_fs_def)
  from event_stored [OF this] show ?thesis unfolding n
    by (auto simp: p demo_falco_fs_def storedFile_def)
qed

section \<open>What a report has\<close>

definition recentFile :: "go_time \<Rightarrow> falco_fs \<Rightarrow> string \<Rightarrow> falco_file option" where
  "recentFile now fs p = (case fs p of None \<Rightarrow> None | Some f \<Rightarrow> if isLessThan24hrs now (ff_modTime f) then Some f else None)"

definition readable :: "(string \<Rightarrow> string + falco_event) \<Rightarrow> go_time \<Rightarrow> falco_fs \<Rightarrow> string \<Rightarrow> falco_event option" where
  "readable unmarshal now fs p =
     (case recentFile now fs p of None \<Rightarrow> None | Some f \<Rightarrow> (case readDataFromFile unmarshal f of Inl _ \<Rightarrow> None | Inr e \<Rightarrow> Some e))"

definition readError :: "(string \<Rightarrow> string + falco_event) \<Rightarrow> go_time \<Rightarrow> falco_fs \<Rightarrow> string \<Rightarrow> string option" where
  "readError unmarshal now fs p =
     (case recentFile now fs p of None \<Rightarrow> None | Some f \<Rightarrow> (case readDataFromFile unmarshal f of Inl err \<Rightarrow> Some err | Inr _ \<Rightarrow> None))"

lemma read_other [simp]:
  "p \<noteq> q \<Longrightarrow> readable unmarshal now (fs(q := x)) p = readable unmarshal now fs p"
  "p \<noteq> q \<Longrightarrow> readError unmarshal now (fs(q := x)) p = readError unmarshal now fs p"
  "p \<noteq> q \<Longrightarrow> recentFile now (fs(q := x)) p = recentFile now fs p"
  by (simp_all add: readable_def readError_def recentFile_def)

lemma map_filter_cong': "(\<And>x. x \<in> set xs \<Longrightarrow> f x = g x) \<Longrightarrow> List.map_filter f xs = List.map_filter g xs"
  by (induction xs) (auto simp: List.map_filter_simps split: option.split)

lemma aggregateLoop_result:
  assumes "distinct ps" "\<forall>p \<in> set ps. fs p \<noteq> None" "\<forall>p \<in> set ps. recentFile now fs p = None \<longrightarrow> removeErr p = None"
  shows "aggregateLoop unmarshal now removeErr ps fs err acc =
    (if ps = [] then err else readError unmarshal now fs (last ps), acc @ List.map_filter (readable unmarshal now fs) ps,
     \<lambda>p. if p \<in> set ps \<and> recentFile now fs p = None then None else fs p)"
  using assms
proof (induction ps arbitrary: fs err acc)
  case (Cons p ps)
  then obtain f where f: "fs p = Some f" by auto
  show ?case
  proof (cases "isLessThan24hrs now (ff_modTime f)")
    case True
    then show ?thesis using Cons.prems f
      by (auto simp: Cons.IH recentFile_def readable_def readError_def List.map_filter_simps fun_eq_iff split: sum.split)
  next
    case False
    let ?fs = "fs(p := None)"
    have o: "recentFile now fs p = None" using False f by (simp add: recentFile_def)
    have keep: "\<forall>q \<in> set ps. ?fs q \<noteq> None" "\<forall>q \<in> set ps. recentFile now ?fs q = None \<longrightarrow> removeErr q = None"
      using Cons.prems by (auto simp: recentFile_def)
    have m: "List.map_filter (readable unmarshal now ?fs) ps = List.map_filter (readable unmarshal now fs) ps"
      by (rule map_filter_cong', rule read_other(1)) (use Cons.prems(1) in auto)
    have l: "ps \<noteq> [] \<Longrightarrow> readError unmarshal now ?fs (last ps) = readError unmarshal now fs (last ps)"
      using Cons.prems(1) by (cases ps rule: rev_cases) auto
    have e: "readable unmarshal now fs p = None" "readError unmarshal now fs p = None" using o by (simp_all add: readable_def readError_def)
    have fin: "(\<lambda>q. if q \<in> set ps \<and> recentFile now ?fs q = None then None else ?fs q) =
        (\<lambda>q. if q \<in> set (p # ps) \<and> recentFile now fs q = None then None else fs q)"
      using Cons.prems(1) o by (auto simp: fun_eq_iff recentFile_def)
    have "removeErr p = None" using Cons.prems(3) o by simp
    then have step: "aggregateLoop unmarshal now removeErr (p # ps) fs err acc = aggregateLoop unmarshal now removeErr ps ?fs None acc"
      using f False by simp
    have rest: "aggregateLoop unmarshal now removeErr ps ?fs None acc =
        (if ps = [] then None else readError unmarshal now ?fs (last ps), acc @ List.map_filter (readable unmarshal now ?fs) ps,
         \<lambda>q. if q \<in> set ps \<and> recentFile now ?fs q = None then None else ?fs q)"
      by (rule Cons.IH [OF _ keep]) (use Cons.prems(1) in simp)
    show ?thesis unfolding step rest fin m using l e by (cases "ps = []") (simp_all add: List.map_filter_simps)
  qed
qed (simp add: List.map_filter_simps)

text \<open>
  C0: A report has the event of every readable file of the last day, in order, and the older files are deleted. A file that cannot be read is skipped, as
  it should be, except if it is the last one: then the whole report is lost with status 500, although older files are still deleted.
\<close>
theorem malformed_last_file_loses_report:
  assumes "paths = map (\<lambda>n. pathJoin [''/output'', n]) names" "distinct paths" "\<forall>p \<in> set paths. fd_fs disk p \<noteq> None"
    and "\<forall>p \<in> set paths. recentFile now (fd_fs disk) p = None \<longrightarrow> fd_removeErr disk p = None"
  shows "outputDataHandler unmarshal marshal now disk (Inr names) =
    (case if paths = [] then None else readError unmarshal now (fd_fs disk) (last paths) of
       Some err \<Rightarrow> (500, err)
     | None \<Rightarrow> (case marshal (List.map_filter (readable unmarshal now (fd_fs disk)) paths) of Inl err \<Rightarrow> (500, err) | Inr data \<Rightarrow> (200, data)),
     \<lambda>p. if p \<in> set paths \<and> recentFile now (fd_fs disk) p = None then None else fd_fs disk p)"
  using aggregateLoop_result [OF assms(2-4), of unmarshal None "[]"]
  by (simp add: outputDataHandler_def Aggregate24hrsData_def assms(1) failed_def split: option.split sum.split)

definition demo_disk :: falco_disk where
  "demo_disk = \<lparr>fd_fs = [''/output/1.json'' \<mapsto> storedFile demo_falco ''a'', ''/output/2.json'' \<mapsto> storedFile demo_falco ''{''], fd_removeErr = (\<lambda>_. None)\<rparr>"

theorem malformed_last_file_loses_report_witness:
  "fst (outputDataHandler (fv_unmarshal demo_falco) (\<lambda>_. Inr ''[]'') 8 demo_disk (Inr [''1.json'', ''2.json''])) = (500, ''EOF'') \<and>
   fst (outputDataHandler (fv_unmarshal demo_falco) (\<lambda>_. Inr ''[]'') 8 demo_disk (Inr [''2.json'', ''1.json''])) = (200, ''[]'')"
proof -
  have p: "pathJoin [''/output'', ''1.json''] = ''/output/1.json''" "pathJoin [''/output'', ''2.json''] = ''/output/2.json''" by code_simp+
  have t: "isLessThan24hrs 8 7" by code_simp
  have r: "recentFile 8 (fd_fs demo_disk) q = fd_fs demo_disk q" for q
    using t by (simp add: recentFile_def demo_disk_def storedFile_def demo_falco_def)
  show ?thesis
    using malformed_last_file_loses_report [OF refl, of "[''1.json'', ''2.json'']" demo_disk 8 "fv_unmarshal demo_falco" "\<lambda>_. Inr ''[]''"]
      malformed_last_file_loses_report [OF refl, of "[''2.json'', ''1.json'']" demo_disk 8 "fv_unmarshal demo_falco" "\<lambda>_. Inr ''[]''"]
    by (simp add: p r readError_def) (simp add: demo_disk_def storedFile_def readDataFromFile_def demo_falco_def)
qed

text \<open>A directory counts as a file: one that is not older than a day cannot be read, an older one is deleted.\<close>

theorem falco_directory_counts_as_file:
  assumes "fs p = Some f" "ff_isDir f"
  shows "aggregateLoop unmarshal now removeErr [p] fs None [] =
    (if isLessThan24hrs now (ff_modTime f) then (Some ''is a directory'', [], fs)
     else case removeErr p of Some err \<Rightarrow> (Some err, [], fs) | None \<Rightarrow> (None, [], fs(p := None)))"
  using assms by (simp add: readDataFromFile_def split: option.split)

text \<open>Of the containers whose image begins with the repository the last one is blamed, and any container if the event names no repository.\<close>

theorem last_container_blamed: "lastContainer '''' (containers @ [(name, ref)]) none = name"
  by (simp add: lastContainer_def HasPrefix_def)

end
