(* ===== verification/Job_Runner.thy ===== *)
theory Job_Runner
  imports Prelude "HOL-Library.Multiset"
begin

text \<open>
  The runner of on-demand jobs: it claims jobs from Insights, makes a Kubernetes job of the cron job of every report type, waits for it and tells Insights
  how it ended. The goroutines that run the jobs are a step relation; Kubernetes, HTTP, the clock and the order of map iterations are arguments.
\<close>

section \<open>Jobs of Insights\<close>

record OnDemandJob =
  oj_ID :: int
  oj_ReportType :: string
  oj_Options :: "(string \<times> string) list"

datatype OnDemandJobStatus = JobStatusPending | JobStatusRunning | JobStatusCompleted | JobStatusFailed

definition isLower :: "char \<Rightarrow> bool" where
  "isLower c \<longleftrightarrow> 97 \<le> (of_char c :: nat) \<and> (of_char c :: nat) \<le> 122"

definition isUpper :: "char \<Rightarrow> bool" where
  "isUpper c \<longleftrightarrow> 65 \<le> (of_char c :: nat) \<and> (of_char c :: nat) \<le> 90"

text \<open>The two replacements: an underscore between a small letter or digit and a capital, and before the last capital of a run that a small letter follows.\<close>

fun splitWords :: "string \<Rightarrow> string" where
  "splitWords (c # d # s) = (if (isLower c \<or> isDigit c) \<and> isUpper d then c # CHR ''_'' # splitWords (d # s) else c # splitWords (d # s))"
| "splitWords s = s"

fun splitAcronyms :: "string \<Rightarrow> string" where
  "splitAcronyms (c # d # e # s) =
     (if isUpper c \<and> isUpper d \<and> isLower e then c # CHR ''_'' # splitAcronyms (d # e # s) else c # splitAcronyms (d # e # s))"
| "splitAcronyms s = s"

definition ToEnvVarFormat :: "string \<Rightarrow> string" where
  "ToEnvVarFormat input = ToUpper (splitAcronyms (splitWords input))"

text \<open>A variable has a name and a value, or a source that its value is taken from.\<close>

record env_var =
  ev_Name :: string
  ev_Value :: string
  ev_From :: "string option"

definition OptionsToEnvVars :: "OnDemandJob \<Rightarrow> env_var list" where
  "OptionsToEnvVars job = map (\<lambda>(key, value). \<lparr>ev_Name = ToEnvVarFormat key, ev_Value = value, ev_From = None\<rparr>) (oj_Options job)"

section \<open>The client\<close>

text \<open>A request gives an error or the status and the body of the answer.\<close>

type_synonym http_result = "string + nat \<times> string"

definition claimURL :: "string \<Rightarrow> string \<Rightarrow> int \<Rightarrow> string" where
  "claimURL organization cluster limit =
     ''/v0/organizations/'' @ organization @ ''/clusters/'' @ cluster @ ''/reports/on-demand-jobs/claim?limit='' @ showInt limit"

definition statusURL :: "string \<Rightarrow> string \<Rightarrow> int \<Rightarrow> string" where
  "statusURL organization cluster jobID =
     ''/v0/organizations/'' @ organization @ ''/clusters/'' @ cluster @ ''/reports/on-demand-jobs/'' @ showInt jobID @ ''/status''"

definition isErrorState :: "nat \<Rightarrow> bool" where "isErrorState status \<longleftrightarrow> status \<ge> 400"

definition ClaimOnDemandJobs :: "(string \<Rightarrow> http_result) \<Rightarrow> (string \<Rightarrow> string + OnDemandJob list) \<Rightarrow> string \<Rightarrow> string \<Rightarrow> int \<Rightarrow> string + OnDemandJob list" where
  "ClaimOnDemandJobs post unmarshal organization cluster limit =
     (case post (claimURL organization cluster limit) of
        Inl err \<Rightarrow> Inl (''failed to query on-demand jobs: '' @ err)
      | Inr (status, body) \<Rightarrow>
          if isErrorState status then Inl (''error querying on-demand jobs: status '' @ showNat status @ '', body '' @ body)
          else (case unmarshal body of Inl err \<Rightarrow> Inl (''failed to unmarshal on-demand jobs response: '' @ err) | Inr jobs \<Rightarrow> Inr jobs))"

fun statusText :: "OnDemandJobStatus \<Rightarrow> string" where
  "statusText JobStatusPending = ''pending''"
| "statusText JobStatusRunning = ''running''"
| "statusText JobStatusCompleted = ''completed''"
| "statusText JobStatusFailed = ''failed''"

text \<open>The payload is a map with one entry.\<close>

definition UpdateOnDemandJobStatus :: "(string \<Rightarrow> (string \<times> string) list \<Rightarrow> http_result) \<Rightarrow> string \<Rightarrow> string \<Rightarrow> int \<Rightarrow> OnDemandJobStatus \<Rightarrow> string option" where
  "UpdateOnDemandJobStatus patch organization cluster jobID status =
     (case patch (statusURL organization cluster jobID) [(''status'', statusText status)] of
        Inl err \<Rightarrow> Some (''failed to update on-demand job status: '' @ err)
      | Inr (code, body) \<Rightarrow>
          if isErrorState code then Some (''error updating on-demand job status: status '' @ showNat code @ '', body '' @ body) else None)"

section \<open>Kubernetes\<close>

record job_container =
  jc_Name :: string
  jc_Env :: "env_var list"

record job_spec =
  js_TTLSecondsAfterFinished :: "int option"
  js_BackoffLimit :: "int option"
  js_Containers :: "job_container list"

record kube_job =
  kj_Name :: string
  kj_Namespace :: string
  kj_Spec :: job_spec

type_synonym map_order = "string list \<Rightarrow> string list"

text \<open>The later entry of a name counts; the result comes in the order of a map.\<close>

definition envMap :: "env_var list \<Rightarrow> string \<rightharpoonup> env_var" where
  "envMap envs = fold (\<lambda>e m. m(ev_Name e \<mapsto> e)) envs Map.empty"

definition mergeEnvs :: "map_order \<Rightarrow> env_var list \<Rightarrow> env_var list \<Rightarrow> env_var list" where
  "mergeEnvs order existing overrides =
     List.map_filter (envMap (existing @ overrides)) (order (remdups (map ev_Name (existing @ overrides))))"

definition GenerateJobName :: "string \<Rightarrow> string \<Rightarrow> int \<Rightarrow> string" where
  "GenerateJobName uuid cronJobName jobID = take 63 (ToLower (cronJobName @ ''-'' @ showInt jobID @ ''-'' @ take 8 uuid))"

text \<open>The cluster: the template of a cron job, the creation of a job, and at every poll the time and the conditions of the job.\<close>

record job_cluster =
  jk_CronJob :: "string \<Rightarrow> string \<Rightarrow> string + job_spec"
  jk_Create :: "kube_job \<Rightarrow> string + kube_job"
  jk_clock :: "nat \<Rightarrow> go_time"
  jk_Conditions :: "nat \<Rightarrow> string + (string \<times> string \<times> string) list"
  jk_order :: map_order
  jk_uuid :: string

definition CreateJobFromCronJob :: "job_cluster \<Rightarrow> string \<Rightarrow> string \<Rightarrow> string \<Rightarrow> env_var list \<Rightarrow> int option \<Rightarrow> string + kube_job" where
  "CreateJobFromCronJob k namespace cronJobName newJobName extraEnv backoffLimit =
     (case jk_CronJob k namespace cronJobName of
        Inl err \<Rightarrow> Inl (''failed to get CronJob '' @ cronJobName @ '' in namespace '' @ namespace @ '': '' @ err)
      | Inr spec \<Rightarrow>
          jk_Create k \<lparr>kj_Name = newJobName, kj_Namespace = namespace,
            kj_Spec = spec\<lparr>js_TTLSecondsAfterFinished := Some (10 * 60), js_BackoffLimit := backoffLimit,
              js_Containers := map (\<lambda>c. c\<lparr>jc_Env := mergeEnvs (jk_order k) (jc_Env c) extraEnv\<rparr>) (js_Containers spec)\<rparr>\<rparr>)"

text \<open>The first condition that decides; a triple of type, status and reason.\<close>

fun decided :: "(string \<times> string \<times> string) list \<Rightarrow> (string + unit) option" where
  "decided [] = None"
| "decided ((type, status, reason) # cs) =
     (if type = ''Complete'' \<and> status = ''True'' then Some (Inr ())
      else if type = ''Failed'' \<and> status = ''True'' then Some (Inl (''job failed: '' @ reason))
      else decided cs)"

text \<open>The polls from the \<open>n\<close>-th on; the result with the number of polls, \<^const>\<open>None\<close> if they never end.\<close>

partial_function (option) pollFrom :: "job_cluster \<Rightarrow> go_time \<Rightarrow> string \<Rightarrow> nat \<Rightarrow> ((string + unit) \<times> nat) option" where
  "pollFrom k deadline jobName n =
     (if jk_clock k (n + 1) > deadline then Some (Inl (''timeout waiting for job '' @ jobName @ '' to complete''), n)
      else (case jk_Conditions k n of
          Inl err \<Rightarrow> Some (Inl (''error getting job: '' @ err), n + 1)
        | Inr conditions \<Rightarrow> (case decided conditions of Some r \<Rightarrow> Some (r, n + 1) | None \<Rightarrow> pollFrom k deadline jobName (n + 1))))"

definition WaitForJobCompletion :: "job_cluster \<Rightarrow> string \<Rightarrow> int \<Rightarrow> ((string + unit) \<times> nat) option" where
  "WaitForJobCompletion k jobName timeout = pollFrom k (jk_clock k 0 + timeout) jobName 0"

text \<open>The namespace of the service account; a missing file is told from another error.\<close>

datatype read_result = FileMissing | ReadFailed string | FileData string

definition GetCurrentNamespace :: "read_result \<Rightarrow> string \<Rightarrow> string + string" where
  "GetCurrentNamespace file env =
     (case file of
        FileMissing \<Rightarrow> if env \<noteq> '''' then Inr env else Inl ''namespace file not found and NAMESPACE env variable is not set''
      | ReadFailed err \<Rightarrow> Inl (''failed to read namespace file: '' @ err)
      | FileData data \<Rightarrow> Inr (TrimSpace data))"

section \<open>One job\<close>

record JobConfig =
  jo_cronJobName :: string
  jo_timeout :: int
  jo_backoffLimit :: "int option"

definition minutes :: "int \<Rightarrow> int" where "minutes n = n * 60 * 1000000000"

definition reportTypeJobConfigMap :: "(string \<times> JobConfig) list" where
  "reportTypeJobConfigMap =
     map (\<lambda>(name, m, b). (name, \<lparr>jo_cronJobName = name, jo_timeout = minutes m, jo_backoffLimit = b\<rparr>))
       [(''trivy'', 20, None), (''image-trust'', 20, None), (''cloudcosts'', 5, None), (''falco'', 5, None), (''nova'', 5, None), (''pluto'', 5, None),
        (''polaris'', 5, None), (''prometheus-metrics'', 5, None), (''goldilocks'', 5, None), (''rbac-reporter'', 5, None), (''right-sizer'', 5, None),
        (''workloads'', 5, None), (''kube-hunter'', 5, None), (''kube-bench'', 5, None), (''kyverno'', 5, None), (''kyverno-policy-sync'', 10, Some 0),
        (''gonogo'', 5, None)]"

definition processOnDemandJob :: "job_cluster \<Rightarrow> string + string \<Rightarrow> OnDemandJob \<Rightarrow> (string + unit) option" where
  "processOnDemandJob k namespace job =
     (case namespace of
        Inl err \<Rightarrow> Some (Inl (''failed to get current namespace: '' @ err))
      | Inr ns \<Rightarrow>
     (case map_of reportTypeJobConfigMap (oj_ReportType job) of
        None \<Rightarrow> Some (Inl (''unknown report type '' @ oj_ReportType job @ '' for on-demand job '' @ showInt (oj_ID job)))
      | Some cfg \<Rightarrow>
     (case CreateJobFromCronJob k ns (jo_cronJobName cfg) (GenerateJobName (jk_uuid k) (jo_cronJobName cfg) (oj_ID job)) (OptionsToEnvVars job)
            (jo_backoffLimit cfg) of
        Inl err \<Rightarrow> Some (Inl (''failed to create job from cron job '' @ jo_cronJobName cfg @ '': '' @ err))
      | Inr created \<Rightarrow>
          map_option (\<lambda>(r, _). case r of
              Inl err \<Rightarrow> Inl (''job '' @ kj_Namespace created @ ''/'' @ kj_Name created @ '' did not complete within '' @ showInt (jo_timeout cfg div minutes 1) @ ''m0s: '' @ err)
            | Inr u \<Rightarrow> Inr u) (WaitForJobCompletion k (kj_Name created) (jo_timeout cfg)))))"

section \<open>All jobs at once\<close>

text \<open>The jobs that wait for the semaphore, those that run, and the updates that were sent.\<close>

record runner =
  rn_queue :: "OnDemandJob list"
  rn_running :: "OnDemandJob list"
  rn_updates :: "(int \<times> OnDemandJobStatus) list"

type_synonym job_process = "OnDemandJob \<Rightarrow> string + unit"

definition outcomeOf :: "job_process \<Rightarrow> OnDemandJob \<Rightarrow> int \<times> OnDemandJobStatus" where
  "outcomeOf process job = (oj_ID job, case process job of Inl _ \<Rightarrow> JobStatusFailed | Inr _ \<Rightarrow> JobStatusCompleted)"

text \<open>The loop starts a goroutine when the semaphore has room; a goroutine processes its job and updates its status, whether or not that works.\<close>

inductive run_step :: "nat \<Rightarrow> job_process \<Rightarrow> runner \<Rightarrow> runner \<Rightarrow> bool" for maxJobs process where
  start_job: "rn_queue st = job # rest \<Longrightarrow> length (rn_running st) < maxJobs \<Longrightarrow>
    run_step maxJobs process st (st\<lparr>rn_queue := rest, rn_running := rn_running st @ [job]\<rparr>)"
| end_job: "rn_running st = before @ job # after \<Longrightarrow>
    run_step maxJobs process st (st\<lparr>rn_running := before @ after, rn_updates := rn_updates st @ [outcomeOf process job]\<rparr>)"

definition startRunner :: "OnDemandJob list \<Rightarrow> runner" where
  "startRunner jobs = \<lparr>rn_queue = jobs, rn_running = [], rn_updates = []\<rparr>"

text \<open>
  A pass: an error of claiming, nothing to do, or a run of all jobs; a negative limit makes the creation of the semaphore panic.
\<close>

datatype pass_result = ClaimFailed string | NothingToDo | SemaphorePanic | Running runner

definition FetchAndProcessOnDemandJobs :: "(int \<Rightarrow> string + OnDemandJob list) \<Rightarrow> int \<Rightarrow> pass_result" where
  "FetchAndProcessOnDemandJobs claim maxJobs =
     (case claim maxJobs of
        Inl err \<Rightarrow> ClaimFailed (''failed to fetch on-demand jobs: '' @ err)
      | Inr jobs \<Rightarrow> if jobs = [] then NothingToDo else if maxJobs < 0 then SemaphorePanic else Running (startRunner jobs))"

definition ended :: "runner \<Rightarrow> bool" where
  "ended st \<longleftrightarrow> rn_queue st = [] \<and> rn_running st = []"

definition workLeft :: "runner \<Rightarrow> nat" where
  "workLeft st = 2 * length (rn_queue st) + length (rn_running st)"

lemma step_less: "run_step maxJobs process st st' \<Longrightarrow> workLeft st' < workLeft st"
  by (induction rule: run_step.induct) (auto simp: workLeft_def)

lemma step_exists:
  assumes "0 < maxJobs" "\<not> ended st"
  shows "\<exists>st'. run_step maxJobs process st st'"
proof (cases "rn_running st")
  case Nil
  then obtain job rest where "rn_queue st = job # rest" using assms(2) by (cases "rn_queue st") (auto simp: ended_def)
  then show ?thesis using start_job [of st job rest maxJobs process] Nil assms(1) by auto
next
  case (Cons job after)
  then show ?thesis using end_job [of st "[]" job after] by auto
qed

text \<open>Every job waits, runs or has its update.\<close>

definition accounted :: "job_process \<Rightarrow> OnDemandJob list \<Rightarrow> runner \<Rightarrow> bool" where
  "accounted process jobs st \<longleftrightarrow>
     mset (map (outcomeOf process) (rn_queue st)) + mset (map (outcomeOf process) (rn_running st)) + mset (rn_updates st) =
       mset (map (outcomeOf process) jobs)"

lemma step_accounted: "run_step maxJobs process st st' \<Longrightarrow> accounted process jobs st \<Longrightarrow> accounted process jobs st'"
  by (induction rule: run_step.induct) (auto simp: accounted_def)

lemma step_limit: "run_step maxJobs process st st' \<Longrightarrow> length (rn_running st) \<le> maxJobs \<Longrightarrow> length (rn_running st') \<le> maxJobs"
  by (induction rule: run_step.induct) auto

lemma reachable_runner:
  assumes "(run_step maxJobs process)\<^sup>*\<^sup>* (startRunner jobs) st"
  shows "accounted process jobs st" "length (rn_running st) \<le> maxJobs"
proof -
  from assms have "accounted process jobs st \<and> length (rn_running st) \<le> maxJobs"
  proof (induction rule: rtranclp_induct)
    case (step y z)
    then show ?case using step_accounted step_limit by blast
  qed (simp add: accounted_def startRunner_def)
  then show "accounted process jobs st" "length (rn_running st) \<le> maxJobs" by blast+
qed

text \<open>
  C0: With a positive limit, whatever the order in which the jobs end: no more run at once than the limit, the pass can always go on until it has ended, every
  step brings it nearer to its end, and when it has ended every claimed job has had exactly one update, completed or failed as its processing was.
\<close>
theorem on_demand_jobs_reported:
  assumes "0 < maxJobs" "FetchAndProcessOnDemandJobs claim (int maxJobs) = Running st0" "claim (int maxJobs) = Inr jobs"
    and "(run_step maxJobs process)\<^sup>*\<^sup>* st0 st"
  shows "length (rn_running st) \<le> maxJobs \<and>
    (\<not> ended st \<longrightarrow> (\<exists>st'. run_step maxJobs process st st' \<and> workLeft st' < workLeft st)) \<and>
    (ended st \<longrightarrow> mset (rn_updates st) = mset (map (outcomeOf process) jobs))"
proof -
  have "st0 = startRunner jobs" using assms(2,3) by (auto simp: FetchAndProcessOnDemandJobs_def split: if_splits)
  then have r: "accounted process jobs st" "length (rn_running st) \<le> maxJobs" using reachable_runner assms(4) by blast+
  have "\<exists>st'. run_step maxJobs process st st' \<and> workLeft st' < workLeft st" if "\<not> ended st"
    using step_exists [OF assms(1) that] step_less by blast
  moreover have "mset (rn_updates st) = mset (map (outcomeOf process) jobs)" if "ended st" using r(1) that by (simp add: accounted_def ended_def)
  ultimately show ?thesis using r(2) by blast
qed

definition demo_job :: "int \<Rightarrow> OnDemandJob" where
  "demo_job n = \<lparr>oj_ID = n, oj_ReportType = ''trivy'', oj_Options = [(''imagesToScan'', ''web:1'')]\<rparr>"

definition demo_process :: job_process where
  "demo_process job = (if oj_ID job = 1 then Inl ''timeout'' else Inr ())"

theorem on_demand_jobs_reported_witness:
  "\<exists>st. (run_step 1 demo_process)\<^sup>*\<^sup>* (startRunner [demo_job 1, demo_job 2]) st \<and> ended st \<and>
     mset (rn_updates st) = mset [(1, JobStatusFailed), (2, JobStatusCompleted)]"
proof -
  let ?c = "\<lambda>_. Inr [demo_job 1, demo_job 2] :: string + OnDemandJob list" and ?s = "startRunner [demo_job 1, demo_job 2]"
  let ?a = "?s\<lparr>rn_queue := [demo_job 2], rn_running := [demo_job 1]\<rparr>"
  let ?b = "?a\<lparr>rn_running := [], rn_updates := [outcomeOf demo_process (demo_job 1)]\<rparr>"
  let ?d = "?b\<lparr>rn_queue := [], rn_running := [demo_job 2]\<rparr>"
  let ?e = "?d\<lparr>rn_running := [], rn_updates := [outcomeOf demo_process (demo_job 1), outcomeOf demo_process (demo_job 2)]\<rparr>"
  have "run_step 1 demo_process ?s ?a" using start_job [of ?s "demo_job 1" "[demo_job 2]" 1 demo_process] by (simp add: startRunner_def)
  moreover have "run_step 1 demo_process ?a ?b" using end_job [of ?a "[]" "demo_job 1" "[]" 1 demo_process] by (simp add: startRunner_def)
  moreover have "run_step 1 demo_process ?b ?d" using start_job [of ?b "demo_job 2" "[]" 1 demo_process] by (simp add: startRunner_def)
  moreover have "run_step 1 demo_process ?d ?e" using end_job [of ?d "[]" "demo_job 2" "[]" 1 demo_process] by (simp add: startRunner_def)
  ultimately have r: "(run_step 1 demo_process)\<^sup>*\<^sup>* ?s ?e" by (meson converse_rtranclp_into_rtranclp rtranclp.rtrancl_refl)
  have f: "FetchAndProcessOnDemandJobs ?c (int 1) = Running ?s" by (simp add: FetchAndProcessOnDemandJobs_def)
  have e: "ended ?e" by (simp add: ended_def startRunner_def)
  have "mset (rn_updates ?e) = mset (map (outcomeOf demo_process) [demo_job 1, demo_job 2])"
    using on_demand_jobs_reported [OF _ f refl r] e by simp
  then show ?thesis using r e by (intro exI [of _ ?e]) (simp add: outcomeOf_def demo_process_def demo_job_def)
qed

text \<open>With the limit zero the first job that is claimed blocks the runner for ever.\<close>

theorem zero_limit_blocks:
  assumes "jobs \<noteq> []"
  shows "\<not> run_step 0 process (startRunner jobs) st \<and> \<not> ended (startRunner jobs)"
  using assms by (auto simp: startRunner_def ended_def elim: run_step.cases)

section \<open>Waiting ends\<close>

definition seconds5 :: int where "seconds5 = 5 * 1000000000"

lemma clock_advances:
  assumes "\<And>n. jk_clock k (n + 1) + seconds5 \<le> jk_clock k (n + 2)" "jk_clock k 0 \<le> jk_clock k 1"
  shows "jk_clock k 0 + int n * seconds5 \<le> jk_clock k (n + 1)"
proof (induction n)
  case (Suc n)
  then show ?case using assms(1) [of n] by (simp add: algebra_simps)
qed (use assms(2) in simp)

text \<open>
  C0: Waiting for a job ends, also if the job never does: as every poll is at least five seconds after the one before it, there are no more of them than fit
  into the timeout and one.
\<close>
theorem waiting_is_bounded:
  assumes "\<And>n. jk_clock k (n + 1) + seconds5 \<le> jk_clock k (n + 2)" "jk_clock k 0 \<le> jk_clock k 1" "0 \<le> timeout"
  shows "\<exists>r n. WaitForJobCompletion k jobName timeout = Some (r, n) \<and> int n \<le> timeout div seconds5 + 1"
proof -
  let ?d = "jk_clock k 0 + timeout" and ?N = "timeout div seconds5 + 1"
  have pos: "0 < seconds5" by (simp add: seconds5_def)
  have go: "\<exists>r m. pollFrom k ?d jobName n = Some (r, m) \<and> int m \<le> ?N" if "int n \<le> ?N" for n
    using that
  proof (induction "nat (?N - int n)" arbitrary: n rule: less_induct)
    case less
    show ?case
    proof (cases "jk_clock k (n + 1) > ?d")
      case True
      then show ?thesis using less.prems by (subst pollFrom.simps) auto
    next
      case False
      then have "int n * seconds5 \<le> timeout" using clock_advances [OF assms(1,2), of n] by simp
      then have n: "int n \<le> timeout div seconds5" using zdiv_mono1 [of "int n * seconds5" timeout seconds5] pos by simp
      then have "\<exists>r m. pollFrom k ?d jobName (n + 1) = Some (r, m) \<and> int m \<le> ?N" by (intro less.hyps) auto
      then show ?thesis using False n by (subst pollFrom.simps) (auto split: sum.split option.split)
    qed
  qed
  have "0 \<le> ?N" using assms(3) pos by (simp add: pos_imp_zdiv_nonneg_iff)
  then show ?thesis using go [of 0] by (auto simp: WaitForJobCompletion_def)
qed

definition demo_jobs_cluster :: job_cluster where
  "demo_jobs_cluster = \<lparr>jk_CronJob = (\<lambda>_ _. Inl ''''), jk_Create = Inr, jk_clock = (\<lambda>n. int n * seconds5), jk_Conditions = (\<lambda>_. Inr []),
     jk_order = id, jk_uuid = ''''\<rparr>"

theorem waiting_is_bounded_witness:
  "\<exists>r n. WaitForJobCompletion demo_jobs_cluster ''j'' (minutes 5) = Some (r, n) \<and> n \<le> 61"
proof -
  have "\<exists>r n. WaitForJobCompletion demo_jobs_cluster ''j'' (minutes 5) = Some (r, n) \<and> int n \<le> minutes 5 div seconds5 + 1"
    by (rule waiting_is_bounded) (simp_all add: demo_jobs_cluster_def seconds5_def minutes_def)
  moreover have "minutes 5 div seconds5 + 1 = 61" by (simp add: minutes_def seconds5_def)
  ultimately show ?thesis by fastforce
qed

end
