(* ===== verification/Realtime_Reporter.thy ===== *)
theory Realtime_Reporter
  imports Json_Value Go_Strings
begin

text \<open>
  The realtime reporter: informers of the configured resources call handlers, which make a Polaris report of an object and upload an event to Insights.
  Polaris, JSON, the informers, HTTP and the clock are arguments.
\<close>

section \<open>Events\<close>

record 'data realtime_event =
  re_EventVersion :: int
  re_Timestamp :: int
  re_KubeEvent :: string
  re_Kind :: string
  re_Namespace :: string
  re_Workload :: string
  re_Data :: "'data option"

definition NewEvent :: "int \<Rightarrow> string \<Rightarrow> string \<Rightarrow> string \<Rightarrow> string \<Rightarrow> 'data option \<Rightarrow> 'data realtime_event" where
  "NewEvent timestamp kubeEvent kind namespace workload data =
     \<lparr>re_EventVersion = 1, re_Timestamp = timestamp, re_KubeEvent = kubeEvent, re_Kind = kind, re_Namespace = namespace, re_Workload = workload,
      re_Data = data\<rparr>"

record watched_object =
  wo_Kind :: string
  wo_Namespace :: string
  wo_Name :: string
  wo_Generation :: int
  wo_Owners :: "(string \<times> string) list"

text \<open>An owner is a pair of API version and kind.\<close>

definition getOwnerReferenceGVKStringPluralized :: "string \<times> string \<Rightarrow> string" where
  "getOwnerReferenceGVKStringPluralized ref = ToLower (fst ref @ ''/'' @ snd ref @ ''s'')"

section \<open>Upload\<close>

definition maxTries :: nat where "maxTries = 10"

text \<open>\<^verbatim>\<open>retry.Do\<close>: the tries that are made, and the errors if none of them worked.\<close>

fun retryDo :: "nat \<Rightarrow> (nat \<Rightarrow> string option) \<Rightarrow> nat \<Rightarrow> string list \<Rightarrow> nat \<times> string list option" where
  "retryDo 0 f n errs = (n, Some errs)"
| "retryDo (Suc left) f n errs = (case f n of None \<Rightarrow> (Suc n, None) | Some err \<Rightarrow> retryDo left f (Suc n) (errs @ [err]))"

record insights_target =
  it_host :: string
  it_organization :: string
  it_cluster :: string
  it_token :: string

definition incrementalURL :: "insights_target \<Rightarrow> string \<Rightarrow> string" where
  "incrementalURL t reportType =
     it_host t @ ''/v0/organizations/'' @ it_organization t @ ''/clusters/'' @ it_cluster t @ ''/data/'' @ reportType @ ''/incremental''"

definition uploadHeaders :: "insights_target \<Rightarrow> int \<Rightarrow> (string \<times> string) list" where
  "uploadHeaders t timestamp =
     [(''Content-Type'', ''application/json''), (''X-Fairwinds-Event-Timestamp'', showInt timestamp), (''Authorization'', ''Bearer '' @ it_token t)]"

text \<open>A request: the address, the headers, the payload; its answer is an error or a status.\<close>

type_synonym http_post = "nat \<Rightarrow> string \<Rightarrow> (string \<times> string) list \<Rightarrow> string \<Rightarrow> string + nat"

definition uploadTry :: "http_post \<Rightarrow> insights_target \<Rightarrow> int \<Rightarrow> string \<Rightarrow> string \<Rightarrow> nat \<Rightarrow> string option" where
  "uploadTry post t timestamp reportType payload n =
     (case post n (incrementalURL t reportType) (uploadHeaders t timestamp) payload of Inl err \<Rightarrow> Some err | Inr status \<Rightarrow> None)"

definition UploadToInsights :: "http_post \<Rightarrow> insights_target \<Rightarrow> int \<Rightarrow> string \<Rightarrow> string \<Rightarrow> nat \<times> string list option" where
  "UploadToInsights post t timestamp reportType payload = retryDo maxTries (uploadTry post t timestamp reportType payload) 0 []"

section \<open>Handlers\<close>

text \<open>Encoding of an object, the report of it, the map made of the report, encoding of an event.\<close>

record ('report, 'data) report_env =
  rv_marshalObject :: "watched_object \<Rightarrow> string + string"
  rv_GetPolarisReport :: "string \<Rightarrow> string + 'report"
  rv_toMap :: "'report \<Rightarrow> string + 'data"
  rv_marshalEvent :: "'data realtime_event \<Rightarrow> string + string"
  rv_resources :: "string list"

datatype kube_event = Added watched_object | Updated watched_object watched_object | Deleted watched_object

text \<open>The event that a handler uploads, if it gets that far.\<close>

definition eventWith :: "('report, 'data) report_env \<Rightarrow> int \<Rightarrow> string \<Rightarrow> watched_object \<Rightarrow> 'data option \<Rightarrow> string option" where
  "eventWith env timestamp what obj data =
     (case rv_marshalEvent env (NewEvent timestamp what (wo_Kind obj) (wo_Namespace obj) (wo_Name obj) data) of Inl _ \<Rightarrow> None | Inr e \<Rightarrow> Some e)"

definition reportOf :: "('report, 'data) report_env \<Rightarrow> string \<Rightarrow> string + 'data" where
  "reportOf env bytes =
     (case rv_GetPolarisReport env bytes of Inl err \<Rightarrow> Inl err | Inr report \<Rightarrow> rv_toMap env report)"

definition reportedEvent :: "('report, 'data) report_env \<Rightarrow> int \<Rightarrow> string \<Rightarrow> watched_object \<Rightarrow> string \<Rightarrow> string option" where
  "reportedEvent env timestamp what obj bytes =
     (case reportOf env bytes of Inl _ \<Rightarrow> None | Inr data \<Rightarrow> eventWith env timestamp what obj (Some data))"

definition ownedByWatched :: "('report, 'data) report_env \<Rightarrow> watched_object \<Rightarrow> bool" where
  "ownedByWatched env obj \<longleftrightarrow> list_ex (\<lambda>o1. getOwnerReferenceGVKStringPluralized o1 \<in> set (rv_resources env)) (wo_Owners obj)"

definition PolarisHandler :: "('report, 'data) report_env \<Rightarrow> int \<Rightarrow> kube_event \<Rightarrow> string option" where
  "PolarisHandler env timestamp ev =
     (case ev of
        Added obj \<Rightarrow>
          (case rv_marshalObject env obj of
             Inl _ \<Rightarrow> None
           | Inr bytes \<Rightarrow> if ownedByWatched env obj then None else reportedEvent env timestamp ''add'' obj bytes)
      | Updated old new \<Rightarrow>
          if wo_Generation old < wo_Generation new
          then (case rv_marshalObject env new of Inl _ \<Rightarrow> None | Inr bytes \<Rightarrow> reportedEvent env timestamp ''update'' new bytes)
          else None
      | Deleted obj \<Rightarrow> eventWith env timestamp ''delete'' obj None)"

text \<open>A report with its version and its contents, which have to be a JSON object; in the map the contents are the bytes in base 64.\<close>

record polaris_info =
  pi_Report :: string
  pi_Version :: string
  pi_Contents :: string

definition polarisReportInfoToMap :: "(string \<Rightarrow> string + json_object) \<Rightarrow> (string \<Rightarrow> string) \<Rightarrow> polaris_info \<Rightarrow> string + json_object" where
  "polarisReportInfoToMap unmarshal base64 r =
     (case unmarshal (pi_Contents r) of
        Inl err \<Rightarrow> Inl err
      | Inr _ \<Rightarrow> Inr [(''Contents'', JString (base64 (pi_Contents r))), (''Report'', JString (pi_Report r)), (''Version'', JString (pi_Version r))])"

text \<open>The report of a manifest: Polaris parses it, checks it and the audit of the one result is encoded.\<close>

definition realtime_GetPolarisReport :: "(string \<Rightarrow> string + 'r) \<Rightarrow> ('r \<Rightarrow> string + 'c) \<Rightarrow> (string \<Rightarrow> 'c list \<Rightarrow> string + string) \<Rightarrow> string \<Rightarrow> string \<Rightarrow> string + polaris_info" where
  "realtime_GetPolarisReport parse check marshal version manifest =
     (case parse manifest of
        Inl err \<Rightarrow> Inl err
      | Inr resource \<Rightarrow>
     (case check resource of
        Inl err \<Rightarrow> Inl err
      | Inr result \<Rightarrow>
     (case marshal version [result] of
        Inl err \<Rightarrow> Inl err
      | Inr bytes \<Rightarrow> Inr \<lparr>pi_Report = ''polaris'', pi_Version = version, pi_Contents = bytes\<rparr>)))"

section \<open>Informers\<close>

text \<open>A resource is group, version and name; the mapper says whether it knows it.\<close>

definition gvrOf :: "string \<Rightarrow> string \<times> string \<times> string" where
  "gvrOf resource =
     (case CutByte resource (CHR ''/'') of
        None \<Rightarrow> ('''', '''', '''')
      | Some (a, rest) \<Rightarrow> (case CutByte rest (CHR ''/'') of None \<Rightarrow> ('''', a, rest) | Some (b, c) \<Rightarrow> (a, b, c)))"

definition getGVRFromResource :: "(string \<times> string \<times> string \<Rightarrow> string option) \<Rightarrow> string \<Rightarrow> string + string \<times> string \<times> string" where
  "getGVRFromResource unknown resource = (case unknown (gvrOf resource) of Some err \<Rightarrow> Inl err | None \<Rightarrow> Inr (gvrOf resource))"

definition watch_getNamespace :: "string \<Rightarrow> string" where
  "watch_getNamespace ns = (if ns = ''all'' then '''' else ns)"

text \<open>The informers: one of every resource in every namespace, each with the namespace that it lists.\<close>

fun resolveAll :: "(string \<times> string \<times> string \<Rightarrow> string option) \<Rightarrow> string list \<Rightarrow> string + (string \<times> string \<times> string \<times> string) list" where
  "resolveAll unknown [] = Inr []"
| "resolveAll unknown (r # rs) =
     (case getGVRFromResource unknown r of
        Inl err \<Rightarrow> Inl err
      | Inr gvr \<Rightarrow> (case resolveAll unknown rs of Inl err \<Rightarrow> Inl err | Inr gvrs \<Rightarrow> Inr ((r, gvr) # gvrs)))"

record informer =
  im_Namespace :: string
  im_ListNamespace :: string
  im_Resource :: string
  im_GVR :: "string \<times> string \<times> string"

definition NewMultiResourceInformer :: "(string \<times> string \<times> string \<Rightarrow> string option) \<Rightarrow> string list \<Rightarrow> string list \<Rightarrow> string + informer list" where
  "NewMultiResourceInformer unknown resources namespaces =
     (case resolveAll unknown resources of
        Inl err \<Rightarrow> Inl err
      | Inr gvrs \<Rightarrow>
          Inr (concat (map (\<lambda>ns. map (\<lambda>(r, gvr). \<lparr>im_Namespace = ns, im_ListNamespace = watch_getNamespace ns, im_Resource = r, im_GVR = gvr\<rparr>) gvrs)
            (remdups namespaces))))"

definition informers_HasSynced :: "(informer \<Rightarrow> bool) \<Rightarrow> informer list \<Rightarrow> bool" where
  "informers_HasSynced synced informers \<longleftrightarrow> list_all synced informers"

definition NewWatcher :: "string option \<Rightarrow> string + informer list \<Rightarrow> bool \<Rightarrow> string \<Rightarrow> string + informer list" where
  "NewWatcher clientErr informers enabled configPath =
     (case clientErr of
        Some err \<Rightarrow> Inl err
      | None \<Rightarrow>
     (case informers of
        Inl err \<Rightarrow> Inl err
      | Inr is \<Rightarrow>
          if \<not> enabled then Inl ''no valid handler has been specified''
          else if configPath = '''' then Inl ''polaris configuration file path must be provided when Polaris is enabled''
          else Inr is))"

section \<open>What is uploaded\<close>

text \<open>
  C0: An upload counts as done at the first answer, whatever its status: an event that Insights refuses with a status of 429 or 500 is neither sent again nor
  reported as lost. Only errors of the connection are tried again, ten times at most.
\<close>
theorem refused_upload_succeeds:
  assumes "n < maxTries" "\<forall>i < n. \<exists>err. post i (incrementalURL t reportType) (uploadHeaders t timestamp) payload = Inl err"
    and "post n (incrementalURL t reportType) (uploadHeaders t timestamp) payload = Inr status"
  shows "UploadToInsights post t timestamp reportType payload = (n + 1, None)"
proof -
  have "retryDo left (uploadTry post t timestamp reportType payload) i errs = (n + 1, None)" if "i \<le> n" "n < i + left" for left i errs
    using that
  proof (induction left arbitrary: i errs)
    case (Suc left)
    show ?case
    proof (cases "i = n")
      case True
      then show ?thesis using assms(3) by (simp add: uploadTry_def)
    next
      case False
      then have "i < n" using Suc.prems(1) by simp
      then obtain err where "post i (incrementalURL t reportType) (uploadHeaders t timestamp) payload = Inl err" using assms(2) by blast
      then have "uploadTry post t timestamp reportType payload i = Some err" by (simp add: uploadTry_def)
      then show ?thesis using Suc False by simp
    qed
  qed simp
  from this [of 0 maxTries "[]"] assms(1) show ?thesis by (simp add: UploadToInsights_def)
qed

definition demo_target :: insights_target where
  "demo_target = \<lparr>it_host = '''', it_organization = '''', it_cluster = '''', it_token = ''''\<rparr>"

theorem refused_upload_succeeds_witness:
  "UploadToInsights (\<lambda>n _ _ _. if n = 0 then Inl ''EOF'' else Inr 500) demo_target 0 ''polaris'' ''{}'' = (2, None)"
  using refused_upload_succeeds [of 1 "\<lambda>n _ _ _. if n = 0 then Inl ''EOF'' else Inr 500" demo_target "''polaris''" 0 "''{}''" 500]
  by (simp add: maxTries_def)

text \<open>An object that a watched controller owns is left out when it is added, but not when it is updated.\<close>

theorem owned_object_updates_reported:
  assumes "ownedByWatched env obj" "wo_Generation old < wo_Generation obj" "rv_marshalObject env obj = Inr bytes" "reportOf env bytes = Inr data"
    and "rv_marshalEvent env (NewEvent timestamp ''update'' (wo_Kind obj) (wo_Namespace obj) (wo_Name obj) (Some data)) = Inr e"
  shows "PolarisHandler env timestamp (Added obj) = None \<and> PolarisHandler env timestamp (Updated old obj) = Some e"
  using assms by (simp add: PolarisHandler_def reportedEvent_def eventWith_def)

end
